(* ===== verification/Json.thy ===== *)
theory Json
  imports Prelude
begin

section \<open>JSON texts, as \<^verbatim>\<open>encoding/json\<close> reads and writes them\<close>

text \<open>
  A \<^verbatim>\<open>json.RawMessage\<close> is its bytes. This theory holds what the sources use of
  \<^verbatim>\<open>encoding/json\<close>: the scanner and parser (\<open>parse_json\<close>), the compact encoder
  (\<open>print_json\<close>), string quoting with Go's HTML escaping (\<open>quote\<close>, \<open>unquote\<close>) and
  the decoding of a document into a struct field by field (\<open>dec_field\<close> and the \<open>d_\<close>
  functions: key matching is case-insensitive, \<^verbatim>\<open>null\<close> leaves a field alone, a repeated key
  decodes again into the same field, a value of the wrong type is an error).

  The tree keeps string literals as they are spelled (the body between the quotes), because a
  \<^verbatim>\<open>RawMessage\<close> that is stored and written back keeps its spelling. Texts are valid UTF-8 (the
  replacement of broken sequences by U+FFFD is not modelled, except for lone surrogate escapes),
  keys fold in ASCII, and the decoder's nesting limit of 10000 is not modelled.

  The lemmas show that quoting is undone by unquoting, that every well-formed tree is read back
  from its text, and that the parser's fuel never decides a result.
\<close>

datatype json =
    JNull
  | JBool bool
  | JNum string
  | JStr string
  | JArr "json list"
  | JObj "(string \<times> json) list"

type_synonym raw = string

subsection \<open>String literals\<close>

definition is_hex :: "char \<Rightarrow> bool" where
  "is_hex c \<longleftrightarrow> is_digit c \<or> (CHR ''a'' \<le> c \<and> c \<le> CHR ''f'') \<or> (CHR ''A'' \<le> c \<and> c \<le> CHR ''F'')"

definition hexval :: "char \<Rightarrow> nat" where
  "hexval c =
     (if is_digit c then of_char c - 48
      else if CHR ''a'' \<le> c \<and> c \<le> CHR ''f'' then of_char c - 87
      else of_char c - 55)"

definition hexdig :: "nat \<Rightarrow> char" where
  "hexdig n = (if n < 10 then char_of (48 + n) else char_of (87 + n))"

text \<open>The scanner reads a literal's body up to the closing quote, checking its escapes.\<close>

fun scan_str :: "string \<Rightarrow> (string \<times> string) option"
  and scan_esc :: "string \<Rightarrow> (string \<times> string) option" where
  "scan_str [] = None"
| "scan_str (c # r) =
     (if c = CHR 0x22 then Some ([], r)
      else if c = CHR 0x5C then map_option (\<lambda>(b, t). (c # b, t)) (scan_esc r)
      else if of_char c < (32::nat) then None
      else map_option (\<lambda>(b, t). (c # b, t)) (scan_str r))"
| "scan_esc [] = None"
| "scan_esc (e # r) =
     (if e \<in> {CHR ''b'', CHR ''f'', CHR ''n'', CHR ''r'', CHR ''t'', CHR 0x5C, CHR ''/'', CHR 0x22}
      then map_option (\<lambda>(b, t). (e # b, t)) (scan_str r)
      else if e = CHR ''u'' then
        (if 4 \<le> length r \<and> list_all is_hex (take 4 r)
         then map_option (\<lambda>(b, t). (e # take 4 r @ b, t)) (scan_str (drop 4 r))
         else None)
      else None)"

definition utf8 :: "nat \<Rightarrow> string" where
  "utf8 u =
     (if u < 128 then [char_of u]
      else if u < 2048 then [char_of (192 + u div 64), char_of (128 + u mod 64)]
      else if u < 65536 then
        [char_of (224 + u div 4096), char_of (128 + u div 64 mod 64), char_of (128 + u mod 64)]
      else [char_of (240 + u div 262144), char_of (128 + u div 4096 mod 64),
            char_of (128 + u div 64 mod 64), char_of (128 + u mod 64)])"

definition hex4 :: "char \<Rightarrow> char \<Rightarrow> char \<Rightarrow> char \<Rightarrow> nat" where
  "hex4 a b c d = ((hexval a * 16 + hexval b) * 16 + hexval c) * 16 + hexval d"

definition unescape :: "char \<Rightarrow> char" where
  "unescape e =
     (if e = CHR ''b'' then CHR 0x08 else if e = CHR ''f'' then CHR 0x0C
      else if e = CHR ''n'' then CHR 0x0A else if e = CHR ''r'' then CHR 0x0D
      else if e = CHR ''t'' then CHR 0x09 else e)"

text \<open>
  A surrogate pair is one code point; a lone surrogate is U+FFFD. The second half of a pair is
  looked for right after the first, as \<^verbatim>\<open>getu4\<close> does.
\<close>

fun low_half :: "string \<Rightarrow> nat option" where
  "low_half (b # u # h1 # h2 # h3 # h4 # r) =
     (if b = CHR 0x5C \<and> u = CHR ''u'' \<and> 56320 \<le> hex4 h1 h2 h3 h4 \<and> hex4 h1 h2 h3 h4 < 57344
      then Some (hex4 h1 h2 h3 h4) else None)"
| "low_half _ = None"

function unquote :: "string \<Rightarrow> string" where
  "unquote [] = []"
| "unquote (c # r) =
     (if c \<noteq> CHR 0x5C then c # unquote r
      else
        (case r of
           [] \<Rightarrow> []
         | e # r1 \<Rightarrow>
             (if e \<noteq> CHR ''u'' then unescape e # unquote r1
              else
                (case r1 of
                   h1 # h2 # h3 # h4 # r' \<Rightarrow>
                     (let v = hex4 h1 h2 h3 h4 in
                      if 55296 \<le> v \<and> v < 57344 then
                        (case (if v < 56320 then low_half r' else None) of
                           Some w \<Rightarrow>
                             utf8 (65536 + (v - 55296) * 1024 + (w - 56320)) @ unquote (drop 6 r')
                         | None \<Rightarrow> utf8 65533 @ unquote r')
                      else utf8 v @ unquote r')
                 | _ \<Rightarrow> []))))"
  by pat_completeness auto
termination
  by (relation "measure length") auto

declare unquote.simps [simp del]

text \<open>Go's encoder: quotes, backslashes, control characters, and the HTML set.\<close>

definition quote_char :: "char \<Rightarrow> string" where
  "quote_char c =
     (if c = CHR 0x22 \<or> c = CHR 0x5C then [CHR 0x5C, c]
      else if c = CHR 0x08 then [CHR 0x5C, CHR ''b'']
      else if c = CHR 0x0C then [CHR 0x5C, CHR ''f'']
      else if c = CHR 0x0A then [CHR 0x5C, CHR ''n'']
      else if c = CHR 0x0D then [CHR 0x5C, CHR ''r'']
      else if c = CHR 0x09 then [CHR 0x5C, CHR ''t'']
      else if of_char c < (32::nat) \<or> c \<in> {CHR ''<'', CHR ''>'', CHR ''&''}
        then [CHR 0x5C, CHR ''u'', CHR ''0'', CHR ''0'', hexdig (of_char c div 16), hexdig (of_char c mod 16)]
      else [c])"

fun quote :: "string \<Rightarrow> string" where
  "quote [] = []"
| "quote (a # b # c # r) =
     (if a = CHR 0xE2 \<and> b = CHR 0x80 \<and> c = CHR 0xA8
        then [CHR 0x5C, CHR ''u'', CHR ''2'', CHR ''0'', CHR ''2'', CHR ''8''] @ quote r
      else if a = CHR 0xE2 \<and> b = CHR 0x80 \<and> c = CHR 0xA9
        then [CHR 0x5C, CHR ''u'', CHR ''2'', CHR ''0'', CHR ''2'', CHR ''9''] @ quote r
      else quote_char a @ quote (b # c # r))"
| "quote (a # r) = quote_char a @ quote r"

subsection \<open>Numbers\<close>

definition is_numchar :: "char \<Rightarrow> bool" where
  "is_numchar c \<longleftrightarrow> is_digit c \<or> c \<in> {CHR ''-'', CHR ''+'', CHR ''.'', CHR ''e'', CHR ''E''}"

definition num_exp :: "string \<Rightarrow> bool" where
  "num_exp s =
     (case s of
        [] \<Rightarrow> True
      | c # r \<Rightarrow>
          (c = CHR ''e'' \<or> c = CHR ''E'') \<and>
          (let r' = (if r \<noteq> [] \<and> (hd r = CHR ''+'' \<or> hd r = CHR ''-'') then tl r else r)
           in r' \<noteq> [] \<and> list_all is_digit r'))"

definition num_frac :: "string \<Rightarrow> bool" where
  "num_frac s =
     (case s of
        [] \<Rightarrow> True
      | c # r \<Rightarrow>
          (if c = CHR ''.'' then r \<noteq> [] \<and> is_digit (hd r) \<and> num_exp (dropWhile is_digit r)
           else num_exp s))"

definition num_ok :: "string \<Rightarrow> bool" where
  "num_ok s =
     (let t = (if s \<noteq> [] \<and> hd s = CHR ''-'' then tl s else s) in
      case t of
        [] \<Rightarrow> False
      | d # r \<Rightarrow>
          (if d = CHR ''0'' then num_frac r
           else is_digit d \<and> num_frac (dropWhile is_digit r)))"

text \<open>An integer literal's value, for decoding into an \<^verbatim>\<open>int64\<close>.\<close>

definition digits_val :: "string \<Rightarrow> int" where
  "digits_val s = foldl (\<lambda>n c. n * 10 + (int (of_char c) - 48)) 0 s"

definition lit_int64 :: "string \<Rightarrow> int option" where
  "lit_int64 s =
     (let neg = (s \<noteq> [] \<and> hd s = CHR ''-''); t = (if neg then tl s else s);
          v = (if neg then - digits_val t else digits_val t) in
      if t \<noteq> [] \<and> list_all is_digit t \<and> - (2 ^ 63) \<le> v \<and> v < 2 ^ 63 then Some v else None)"

subsection \<open>The parser\<close>

definition is_ws :: "char \<Rightarrow> bool" where
  "is_ws c \<longleftrightarrow> c \<in> {CHR '' '', CHR 0x09, CHR 0x0A, CHR 0x0D}"

abbreviation skip_ws :: "string \<Rightarrow> string" where
  "skip_ws \<equiv> dropWhile is_ws"

definition scan_lit :: "string \<Rightarrow> json option" where
  "scan_lit w =
     (if w = ''null'' then Some JNull else if w = ''true'' then Some (JBool True)
      else if w = ''false'' then Some (JBool False) else None)"

fun pvalue :: "nat \<Rightarrow> string \<Rightarrow> (json \<times> string) option"
  and pelems :: "nat \<Rightarrow> string \<Rightarrow> (json list \<times> string) option"
  and pmembers :: "nat \<Rightarrow> string \<Rightarrow> ((string \<times> json) list \<times> string) option" where
  "pvalue 0 s = None"
| "pvalue (Suc n) s =
     (case skip_ws s of
        [] \<Rightarrow> None
      | c # r \<Rightarrow>
          (if c = CHR 0x22 then map_option (\<lambda>(b, t). (JStr b, t)) (scan_str r)
           else if c = CHR ''['' then
             (case skip_ws r of
                [] \<Rightarrow> None
              | d # r' \<Rightarrow> (if d = CHR '']'' then Some (JArr [], r')
                          else map_option (\<lambda>(vs, t). (JArr vs, t)) (pelems n r)))
           else if c = CHR ''{'' then
             (case skip_ws r of
                [] \<Rightarrow> None
              | d # r' \<Rightarrow> (if d = CHR ''}'' then Some (JObj [], r')
                          else map_option (\<lambda>(ms, t). (JObj ms, t)) (pmembers n r)))
           else if is_lower c then
             map_option (\<lambda>j. (j, dropWhile is_lower (c # r))) (scan_lit (takeWhile is_lower (c # r)))
           else if num_ok (takeWhile is_numchar (c # r))
             then Some (JNum (takeWhile is_numchar (c # r)), dropWhile is_numchar (c # r))
           else None))"
| "pelems 0 s = None"
| "pelems (Suc n) s =
     (case pvalue n s of
        None \<Rightarrow> None
      | Some (v, r) \<Rightarrow>
          (case skip_ws r of
             [] \<Rightarrow> None
           | d # r' \<Rightarrow>
               (if d = CHR '','' then map_option (\<lambda>(vs, t). (v # vs, t)) (pelems n r')
                else if d = CHR '']'' then Some ([v], r')
                else None)))"
| "pmembers 0 s = None"
| "pmembers (Suc n) s =
     (case skip_ws s of
        [] \<Rightarrow> None
      | q # r0 \<Rightarrow>
          (if q \<noteq> CHR 0x22 then None else
           (case scan_str r0 of
              None \<Rightarrow> None
            | Some (k, r1) \<Rightarrow>
                (case skip_ws r1 of
                   [] \<Rightarrow> None
                 | col # r2 \<Rightarrow>
                     (if col \<noteq> CHR '':'' then None else
                      (case pvalue n r2 of
                         None \<Rightarrow> None
                       | Some (v, r3) \<Rightarrow>
                           (case skip_ws r3 of
                              [] \<Rightarrow> None
                            | d # r4 \<Rightarrow>
                                (if d = CHR '','' then map_option (\<lambda>(ms, t). ((k, v) # ms, t)) (pmembers n r4)
                                 else if d = CHR ''}'' then Some ([(k, v)], r4)
                                 else None)))))))) "

declare pvalue.simps [simp del] pelems.simps [simp del] pmembers.simps [simp del]

text \<open>
  Each level of recursion either opens a bracket or follows a comma or a colon, so two units of
  fuel per byte are enough (lemma \<open>pvalue_fuel_ok\<close> below).
\<close>

definition parse_json :: "raw \<Rightarrow> json option" where
  "parse_json s =
     (case pvalue (2 * length s + 2) s of
        None \<Rightarrow> None
      | Some (j, r) \<Rightarrow> (if skip_ws r = [] then Some j else None))"

subsection \<open>The compact encoder\<close>

fun print_json :: "json \<Rightarrow> string"
  and print_elems :: "json list \<Rightarrow> string"
  and print_members :: "(string \<times> json) list \<Rightarrow> string" where
  "print_json JNull = ''null''"
| "print_json (JBool b) = (if b then ''true'' else ''false'')"
| "print_json (JNum l) = l"
| "print_json (JStr b) = CHR 0x22 # b @ [CHR 0x22]"
| "print_json (JArr vs) = CHR ''['' # (if vs = [] then [CHR '']''] else print_elems vs)"
| "print_json (JObj ms) = CHR ''{'' # (if ms = [] then [CHR ''}''] else print_members ms)"
| "print_elems [] = []"
| "print_elems (v # vs) =
     print_json v @ (if vs = [] then [CHR '']''] else CHR '','' # print_elems vs)"
| "print_members [] = []"
| "print_members ((k, v) # ms) =
     CHR 0x22 # k @ CHR 0x22 # CHR '':'' # print_json v @
     (if ms = [] then [CHR ''}''] else CHR '','' # print_members ms)"

definition body_ok :: "string \<Rightarrow> bool" where
  "body_ok b \<longleftrightarrow> scan_str (b @ [CHR 0x22]) = Some (b, [])"

fun json_ok :: "json \<Rightarrow> bool" where
  "json_ok JNull = True"
| "json_ok (JBool b) = True"
| "json_ok (JNum l) = (num_ok l \<and> list_all is_numchar l)"
| "json_ok (JStr b) = body_ok b"
| "json_ok (JArr vs) = list_all json_ok vs"
| "json_ok (JObj ms) = list_all (\<lambda>(k, v). body_ok k \<and> json_ok v) ms"


subsection \<open>Quoting is undone by unquoting\<close>

lemma hexval_hexdig: "n < 16 \<Longrightarrow> hexval (hexdig n) = n"
  by (auto simp: hexval_def hexdig_def is_digit_def less_eq_char_def)

lemma is_hex_hexdig: "n < 16 \<Longrightarrow> is_hex (hexdig n)"
  by (auto simp: is_hex_def hexdig_def is_digit_def less_eq_char_def)

lemma char_div16: "of_char (c :: char) div 16 < (16 :: nat)"
  using nat_of_char_less_256 [of c] by linarith

lemma hex4_low:
  "hex4 (CHR ''0'') (CHR ''0'') (hexdig (of_char c div 16)) (hexdig (of_char (c :: char) mod 16)) = of_char c"
proof -
  have "hexval (CHR ''0'') = 0" by (simp add: hexval_def is_digit_def less_eq_char_def)
  moreover have "hexval (hexdig (of_char c div 16)) = of_char c div 16"
    by (rule hexval_hexdig) (rule char_div16)
  moreover have "hexval (hexdig (of_char c mod 16)) = of_char c mod 16"
    by (rule hexval_hexdig) simp
  ultimately show ?thesis by (simp only: hex4_def) simp
qed

lemma unquote_plain: "c \<noteq> CHR 0x5C \<Longrightarrow> unquote (c # r) = c # unquote r"
  by (simp add: unquote.simps)

lemma unquote_esc: "e \<noteq> CHR ''u'' \<Longrightarrow> unquote (CHR 0x5C # e # r) = unescape e # unquote r"
  by (simp add: unquote.simps)

lemma unquote_uni:
  "hex4 h1 h2 h3 h4 < 55296 \<Longrightarrow>
   unquote (CHR 0x5C # CHR ''u'' # h1 # h2 # h3 # h4 # r) = utf8 (hex4 h1 h2 h3 h4) @ unquote r"
  by (simp add: unquote.simps)

lemma unquote_quote_char: "unquote (quote_char a @ t) = a # unquote t"
proof (cases "of_char a < (32::nat) \<or> a \<in> {CHR ''<'', CHR ''>'', CHR ''&''}")
  case True
  then have lt: "of_char a < (128::nat)" by auto
  have "unquote (CHR 0x5C # CHR ''u'' # CHR ''0'' # CHR ''0'' # hexdig (of_char a div 16) #
                 hexdig (of_char a mod 16) # t) = a # unquote t"
    using lt by (simp add: unquote_uni hex4_low utf8_def)
  then show ?thesis using True
    by (auto simp: quote_char_def unquote_esc unescape_def)
qed (auto simp: quote_char_def unquote_esc unquote_plain unescape_def)

lemma hex4_202:
  "hex4 (CHR ''2'') (CHR ''0'') (CHR ''2'') (CHR ''8'') = 8232"
  "hex4 (CHR ''2'') (CHR ''0'') (CHR ''2'') (CHR ''9'') = 8233"
  by (simp_all add: hex4_def hexval_def is_digit_def less_eq_char_def)

lemma utf8_202: "utf8 8232 = [CHR 0xE2, CHR 0x80, CHR 0xA8]" "utf8 8233 = [CHR 0xE2, CHR 0x80, CHR 0xA9]"
  by (simp_all add: utf8_def char_of_def bit_iff_odd)

lemma unquote_quote [simp]: "unquote (quote s) = s"
proof (induction s rule: quote.induct, goal_cases)
  case (2 a b c r)
  then show ?case
    by (simp add: unquote_uni utf8_202 hex4_202 unquote_quote_char)
next
  case (3 a)
  then show ?case using unquote_quote_char [of a "[]"] by (simp add: unquote.simps)
qed (simp_all add: unquote_quote_char unquote.simps(1))

lemma scan_quote_char:
  "scan_str (quote_char a @ t) = map_option (\<lambda>(b, r). (quote_char a @ b, r)) (scan_str t)"
proof -
  have h: "is_hex (CHR ''0'')" "is_hex (hexdig (of_char a div 16))" "is_hex (hexdig (of_char a mod 16))"
    by (simp add: is_hex_def is_digit_def less_eq_char_def) (intro is_hex_hexdig char_div16, intro is_hex_hexdig, simp)
  show ?thesis
    by (auto simp: quote_char_def h option.map_comp comp_def split_def)
qed

lemma scan_quote: "scan_str (quote s @ CHR 0x22 # r) = Some (quote s, r)"
proof (induction s rule: quote.induct)
  case (2 a b c r)
  have h: "is_hex (CHR ''0'')" "is_hex (CHR ''2'')" "is_hex (CHR ''8'')" "is_hex (CHR ''9'')"
    by (simp_all add: is_hex_def is_digit_def less_eq_char_def)
  from 2 show ?case by (auto simp: h scan_quote_char)
qed (simp_all add: scan_quote_char)

lemma body_ok_quote [simp]: "body_ok (quote s)"
  by (simp add: body_ok_def scan_quote)

lemma scan_append:
  "scan_str b = Some (x, t) \<Longrightarrow> scan_str (b @ r) = Some (x, t @ r)"
  "scan_esc b = Some (x, t) \<Longrightarrow> scan_esc (b @ r) = Some (x, t @ r)"
proof (induction b and b arbitrary: x t and x t rule: scan_str_scan_esc.induct)
  case (2 c s)
  then show ?case by (auto split: if_splits)
next
  case (4 e s)
  show ?case
  proof (cases "e = CHR ''u''")
    case True
    with 4(3) obtain y where y: "4 \<le> length s" "list_all is_hex (take 4 s)"
        "scan_str (drop 4 s) = Some (y, t)" "x = e # take 4 s @ y"
      by (auto split: if_splits)
    from True y have "scan_str (drop 4 s @ r) = Some (y, t @ r)" by (intro 4(2)) auto
    with True y show ?thesis by simp
  next
    case False
    with 4 show ?thesis by (auto split: if_splits)
  qed
qed auto

lemma scan_body: "body_ok b \<Longrightarrow> scan_str (b @ CHR 0x22 # r) = Some (b, r)"
  using scan_append(1) [of "b @ [CHR 0x22]" b "[]" r] by (simp add: body_ok_def)

subsection \<open>Every well-formed tree is read back from its text\<close>

definition stops :: "string \<Rightarrow> bool" where
  "stops r \<longleftrightarrow> r = [] \<or> (\<not> is_numchar (hd r) \<and> \<not> is_lower (hd r))"

lemma stops_simps [simp]:
  "stops []" "stops (CHR '','' # r)" "stops (CHR '']'' # r)" "stops (CHR ''}'' # r)"
  by (simp_all add: stops_def is_numchar_def is_lower_def is_digit_def less_eq_char_def)

lemma takeWhile_stops:
  "list_all is_numchar l \<Longrightarrow> stops r \<Longrightarrow> takeWhile is_numchar (l @ r) = l \<and> dropWhile is_numchar (l @ r) = r"
  by (cases r) (auto simp: stops_def list_all_iff takeWhile_append dropWhile_append)

lemma ws_delims [simp]:
  "\<not> is_ws (CHR '','')" "\<not> is_ws (CHR '']'')" "\<not> is_ws (CHR ''}'')" "\<not> is_ws (CHR '':'')"
  "\<not> is_ws (CHR 0x22)" "\<not> is_ws (CHR ''['')" "\<not> is_ws (CHR ''{'')"
  by (simp_all add: is_ws_def)

lemma num_first:
  assumes "num_ok l"
  obtains c r where "l = c # r" "is_digit c \<or> c = CHR ''-''"
proof (cases l)
  case Nil
  with assms show ?thesis by (simp add: num_ok_def)
next
  case (Cons c r)
  with assms have "is_digit c \<or> c = CHR ''-''"
    by (auto simp: num_ok_def Let_def is_digit_def less_eq_char_def split: if_splits)
  with Cons that show ?thesis by blast
qed

lemma pvalue_num:
  assumes "num_ok l" "list_all is_numchar l" "stops r"
  shows "pvalue (Suc n) (l @ r) = Some (JNum l, r)"
proof -
  obtain c t where l: "l = c # t" "is_digit c \<or> c = CHR ''-''" using num_first [OF assms(1)] .
  have c: "\<not> is_ws c" "c \<noteq> CHR 0x22" "c \<noteq> CHR ''[''" "c \<noteq> CHR ''{''" "\<not> is_lower c"
    using l(2) by (auto simp: is_digit_def is_ws_def is_lower_def less_eq_char_def)
  have tw: "takeWhile is_numchar (c # t @ r) = l" "dropWhile is_numchar (c # t @ r) = r"
    using takeWhile_stops [OF assms(2,3)] l(1) by simp_all
  show ?thesis using l(1) c tw assms(1)
    by (simp add: pvalue.simps del: takeWhile.simps dropWhile.simps) (simp add: dropWhile.simps(2) [of is_ws])
qed

lemma pvalue_word:
  assumes "w \<noteq> []" "list_all is_lower w" "scan_lit w = Some j" "stops r"
  shows "pvalue (Suc n) (w @ r) = Some (j, r)"
proof -
  obtain c t where w: "w = c # t" using assms(1) by (cases w) auto
  have lc: "is_lower c" using assms(2) w by simp
  then have c: "\<not> is_ws c" "c \<noteq> CHR 0x22" "c \<noteq> CHR ''[''" "c \<noteq> CHR ''{''"
    by (auto simp: is_ws_def is_lower_def less_eq_char_def)
  have tw: "takeWhile is_lower (c # t @ r) = w" "dropWhile is_lower (c # t @ r) = r"
    using assms(2,4) w by (cases r; auto simp: stops_def list_all_iff takeWhile_append dropWhile_append)+
  show ?thesis using w c lc tw assms(3)
    by (simp add: pvalue.simps del: takeWhile.simps dropWhile.simps) (simp add: dropWhile.simps(2) [of is_ws])
qed

lemma lower_words: "list_all is_lower ''null''" "list_all is_lower ''true''" "list_all is_lower ''false''"
  by (simp_all add: is_lower_def less_eq_char_def)

lemma print_json_first:
  assumes "json_ok j"
  obtains c t where "print_json j = c # t" "\<not> is_ws c" "c \<noteq> CHR '']''" "c \<noteq> CHR ''}''"
proof (cases j)
  case (JNum l)
  then have "num_ok l" using assms by simp
  then obtain c t where l: "l = c # t" "is_digit c \<or> c = CHR ''-''" by (rule num_first)
  then have "\<not> is_ws c" "c \<noteq> CHR '']''" "c \<noteq> CHR ''}''"
    by (auto simp: is_digit_def is_ws_def less_eq_char_def)
  with JNum l that show ?thesis by simp
next
  case (JBool b)
  with that show ?thesis by (cases b) (auto simp: is_ws_def)
qed (use that in \<open>auto simp: is_ws_def\<close>)

lemma print_elems_first:
  assumes "list_all json_ok vs" "vs \<noteq> []"
  obtains c t where "print_elems vs = c # t" "\<not> is_ws c" "c \<noteq> CHR '']''"
  using assms by (cases vs) (auto elim!: print_json_first)

lemma pvalue_print:
  "json_ok j \<Longrightarrow> length (print_json j) \<le> n \<Longrightarrow> stops r \<Longrightarrow> pvalue n (print_json j @ r) = Some (j, r)"
  "list_all json_ok vs \<Longrightarrow> vs \<noteq> [] \<Longrightarrow> length (print_elems vs) \<le> n \<Longrightarrow>
     pelems n (print_elems vs @ r) = Some (vs, r)"
  "list_all (\<lambda>(k, v). body_ok k \<and> json_ok v) ms \<Longrightarrow> ms \<noteq> [] \<Longrightarrow> length (print_members ms) \<le> n \<Longrightarrow>
     pmembers n (print_members ms @ r) = Some (ms, r)"
proof (induction j and vs and ms arbitrary: n r and n r and n r
    rule: print_json_print_elems_print_members.induct)
  case 1
  then obtain m where "n = Suc m" by (cases n) auto
  then show ?case using pvalue_word [OF _ lower_words(1) _ 1(3), of JNull m] by (simp add: scan_lit_def)
next
  case (2 b)
  then obtain m where m: "n = Suc m" by (cases n) (auto split: if_splits)
  show ?case
  proof (cases b)
    case True
    then show ?thesis using m pvalue_word [OF _ lower_words(2) _ 2(3), of "JBool True" m] by (simp add: scan_lit_def)
  next
    case False
    then show ?thesis using m pvalue_word [OF _ lower_words(3) _ 2(3), of "JBool False" m] by (simp add: scan_lit_def)
  qed
next
  case (3 l)
  then obtain c t where "l = c # t" by (auto elim: num_first)
  with 3 obtain m where "n = Suc m" by (cases n) auto
  with 3 show ?case by (simp add: pvalue_num)
next
  case (4 b)
  then obtain m where "n = Suc m" by (cases n) auto
  with 4 show ?case by (simp add: pvalue.simps scan_body)
next
  case (5 vs)
  then obtain m where m: "n = Suc m" by (cases n) auto
  show ?case
  proof (cases "vs = []")
    case False
    with 5(2) obtain c t where c: "print_elems vs = c # t" "\<not> is_ws c" "c \<noteq> CHR '']''"
      by (auto elim: print_elems_first)
    have "pelems m (print_elems vs @ r) = Some (vs, r)" using 5 m False by simp
    with False m c show ?thesis by (simp add: pvalue.simps)
  qed (simp add: m pvalue.simps)
next
  case (6 ms)
  then obtain m where m: "n = Suc m" by (cases n) auto
  show ?case
  proof (cases "ms = []")
    case False
    then obtain t where c: "print_members ms = CHR 0x22 # t" by (cases ms) auto
    have "pmembers m (print_members ms @ r) = Some (ms, r)" using 6 m False by simp
    with False m c show ?thesis by (simp add: pvalue.simps)
  qed (simp add: m pvalue.simps)
next
  case (8 v vs)
  then obtain m where m: "n = Suc m" by (cases n) (auto split: if_splits)
  let ?rest = "(if vs = [] then [CHR '']''] else CHR '','' # print_elems vs) @ r"
  have "pvalue m (print_json v @ ?rest) = Some (v, ?rest)" using 8 m by (intro 8(1)) (auto split: if_splits)
  moreover have "vs \<noteq> [] \<Longrightarrow> pelems m (print_elems vs @ r) = Some (vs, r)" using 8 m by (intro 8(2)) (auto split: if_splits)
  ultimately show ?case using m by (cases "vs = []") (simp_all add: pelems.simps)
next
  case (10 k v ms)
  then obtain m where m: "n = Suc m" by (cases n) auto
  let ?rest = "(if ms = [] then [CHR ''}''] else CHR '','' # print_members ms) @ r"
  have "pvalue m (print_json v @ ?rest) = Some (v, ?rest)" using 10 m by (intro 10(1)) (auto split: if_splits)
  moreover have "ms \<noteq> [] \<Longrightarrow> pmembers m (print_members ms @ r) = Some (ms, r)" using 10 m by (intro 10(2)) (auto split: if_splits)
  moreover have "scan_str (k @ CHR 0x22 # x) = Some (k, x)" for x using 10 by (simp add: scan_body)
  ultimately show ?case using m by (cases "ms = []") (simp_all add: pmembers.simps)
qed auto

lemma parse_print: "json_ok j \<Longrightarrow> parse_json (print_json j) = Some j"
  using pvalue_print(1) [of j "2 * length (print_json j) + 2" "[]"] by (simp add: parse_json_def)

subsection \<open>The fuel never decides\<close>

lemma scan_shorter:
  "scan_str s = Some (b, t) \<Longrightarrow> length t < length s"
  "scan_esc s = Some (b, t) \<Longrightarrow> length t < length s"
proof (induction s and s arbitrary: b t and b t rule: scan_str_scan_esc.induct)
  case (4 e r)
  then show ?case by (fastforce split: if_splits)
qed (fastforce split: if_splits)+

lemma skip_ws_Cons: "skip_ws s = c # r \<Longrightarrow> length r < length s"
  using length_dropWhile_le [of is_ws s] by simp

lemma takeWhile_drop_shorter: "P c \<Longrightarrow> length (dropWhile P (c # r)) < Suc (length r)"
  using length_dropWhile_le [of P r] by simp

lemma num_ok_numchar: "num_ok (takeWhile is_numchar (c # r)) \<Longrightarrow> is_numchar c"
  by (cases "is_numchar c") (auto simp: num_ok_def)

lemma pvalue_shorter:
  "pvalue n s = Some (j, r) \<Longrightarrow> length r < length s"
  "pelems n s = Some (vs, r) \<Longrightarrow> length r < length s"
  "pmembers n s = Some (ms, r) \<Longrightarrow> length r < length s"
proof (induction n s and n s and n s arbitrary: j r and vs r and ms r
    rule: pvalue_pelems_pmembers.induct)
  case (2 n s)
  from 2(3) obtain c t where c: "skip_ws s = c # t" by (auto simp: pvalue.simps split: list.splits)
  have lt: "length t < length s" using skip_ws_Cons [OF c] .
  consider "c = CHR 0x22" | "c = CHR ''[''" | "c = CHR ''{''" | "c \<noteq> CHR 0x22" "c \<noteq> CHR ''[''" "c \<noteq> CHR ''{''"
    by blast
  then show ?case
  proof cases
    case 1
    with 2(3) c lt show ?thesis by (auto simp: pvalue.simps dest!: scan_shorter(1))
  next
    case 2
    with "2.IH"(1) "2.prems" c lt show ?thesis
      by (fastforce simp: pvalue.simps split: if_splits list.splits dest: skip_ws_Cons)
  next
    case 3
    with "2.IH"(2) "2.prems" c lt show ?thesis
      by (fastforce simp: pvalue.simps split: if_splits list.splits dest: skip_ws_Cons)
  next
    case 4
    with "2.prems" c have "r = dropWhile is_lower (c # t) \<and> is_lower c \<or> r = dropWhile is_numchar (c # t) \<and> is_numchar c"
      by (auto simp: pvalue.simps simp del: takeWhile.simps dropWhile.simps dest!: num_ok_numchar split: if_splits)
    with lt takeWhile_drop_shorter [of is_lower c t] takeWhile_drop_shorter [of is_numchar c t]
    show ?thesis by fastforce
  qed
next
  case (4 n s)
  from 4(3) obtain v r1 d r2 where v: "pvalue n s = Some (v, r1)" "skip_ws r1 = d # r2"
    by (auto simp: pelems.simps split: option.splits list.splits)
  have l: "length r1 < length s" "length r2 < length r1" using 4(1) v skip_ws_Cons by auto
  with 4(2) [OF v(1) refl v(2)] 4(3) v show ?case
    by (fastforce simp: pelems.simps split: if_splits)
next
  case (6 n s)
  from 6(3) obtain r0 where q: "skip_ws s = CHR 0x22 # r0"
    by (auto simp: pmembers.simps split: list.splits if_splits)
  from 6(3) q obtain k r1 r2 where k: "scan_str r0 = Some (k, r1)" "skip_ws r1 = CHR '':'' # r2"
    by (auto simp: pmembers.simps split: option.splits list.splits if_splits)
  from 6(3) q k obtain v r3 d r4 where v: "pvalue n r2 = Some (v, r3)" "skip_ws r3 = d # r4"
    by (auto simp: pmembers.simps split: option.splits list.splits if_splits)
  have "length r3 < length r2" using 6(1) q k v by simp
  then have l: "length r4 < length s"
    using skip_ws_Cons [OF q] scan_shorter(1) [OF k(1)] skip_ws_Cons [OF k(2)] skip_ws_Cons [OF v(2)] by simp
  show ?case
  proof (cases "d = CHR '',''")
    case True
    with 6(3) q k v obtain ms' where "pmembers n r4 = Some (ms', r)"
      by (auto simp: pmembers.simps)
    with 6(2) q k v True have "length r < length r4" by simp
    with l show ?thesis by simp
  next
    case False
    with 6(3) q k v l show ?thesis by (auto simp: pmembers.simps split: if_splits)
  qed
qed (simp_all add: pvalue.simps pelems.simps pmembers.simps)

lemma pvalue_fuel_Suc:
  "2 * length s + 1 \<le> n \<Longrightarrow> pvalue (Suc n) s = pvalue n s"
  "2 * length s + 2 \<le> n \<Longrightarrow> pelems (Suc n) s = pelems n s"
  "2 * length s + 2 \<le> n \<Longrightarrow> pmembers (Suc n) s = pmembers n s"
  supply dropWhile_eq_Nil_conv [simp del]
proof (induction n s and n s and n s rule: pvalue_pelems_pmembers.induct)
  case (2 n s)
  show ?case
  proof (cases "skip_ws s")
    case (Cons c t)
    have lt: "length t < length s" using skip_ws_Cons [OF Cons] .
    have a: "pelems (Suc n) t = pelems n t"
      if "c = CHR ''[''" "skip_ws t = d # r'" "d \<noteq> CHR '']''" for d r'
      using 2(1,3) Cons lt that by auto
    have b: "pmembers (Suc n) t = pmembers n t"
      if "c = CHR ''{''" "skip_ws t = d # r'" "d \<noteq> CHR ''}''" for d r'
      using 2(2,3) Cons lt that by auto
    show ?thesis
    proof (cases "skip_ws t")
      case Nil
      with Cons show ?thesis by (simp add: pvalue.simps)
    next
      case t: (Cons d r')
      with Cons a [OF _ t] b [OF _ t] show ?thesis
        by (simp add: pvalue.simps(2) [of n] pvalue.simps(2) [of "Suc n"])
    qed
  qed (simp add: pvalue.simps)
next
  case (4 n s)
  have e: "pvalue (Suc n) s = pvalue n s" using 4(1,3) by simp
  show ?case
  proof (cases "pvalue n s")
    case (Some vr)
    then obtain v r where v: "pvalue n s = Some (v, r)" by (cases vr) auto
    have "skip_ws r = CHR '','' # r' \<Longrightarrow> pelems (Suc n) r' = pelems n r'" for r'
      using 4(2) [OF v refl] 4(3) pvalue_shorter(1) [OF v] skip_ws_Cons [of r "CHR '',''" r'] by auto
    with v e show ?thesis
      by (cases "skip_ws r") (simp_all add: pelems.simps(2) [of n s] pelems.simps(2) [of "Suc n" s])
  qed (simp add: pelems.simps(2) [of n] pelems.simps(2) [of "Suc n"] e)
next
  case (6 n s)
  have e: "pvalue (Suc n) r2 = pvalue n r2 \<and> (\<forall>v r3 r4. pvalue n r2 = Some (v, r3) \<longrightarrow> skip_ws r3 = CHR '','' # r4 \<longrightarrow>
      pmembers (Suc n) r4 = pmembers n r4)"
    if q: "skip_ws s = CHR 0x22 # r0" and k: "scan_str r0 = Some (k, r1)" "skip_ws r1 = CHR '':'' # r2" for r0 k r1 r2
  proof -
    have l: "length r2 < length s"
      using skip_ws_Cons [OF q] scan_shorter(1) [OF k(1)] skip_ws_Cons [OF k(2)] by simp
    have "pmembers (Suc n) r4 = pmembers n r4"
      if v: "pvalue n r2 = Some (v, r3)" "skip_ws r3 = CHR '','' # r4" for v r3 r4
      using 6(2,3) q k v l pvalue_shorter(1) [OF v(1)] skip_ws_Cons [OF v(2)] by simp
    moreover have "pvalue (Suc n) r2 = pvalue n r2" using 6(1,3) q k l by simp
    ultimately show ?thesis by blast
  qed
  then show ?case
    by (auto simp: pmembers.simps(2) [of n s] pmembers.simps(2) [of "Suc n" s] split: list.split option.split)
qed (simp_all)

lemma pvalue_fuel_ok: "2 * length s + 1 \<le> n \<Longrightarrow> pvalue n s = pvalue (2 * length s + 1) s"
proof (induction n)
  case (Suc n)
  then show ?case
    using pvalue_fuel_Suc(1) [of s n] by (cases "2 * length s + 1 = Suc n") auto
qed simp


subsection \<open>What the parser returns is well-formed\<close>

lemma scan_ok:
  "scan_str s = Some (b, t) \<Longrightarrow> body_ok b"
  "scan_esc s = Some (b, t) \<Longrightarrow> scan_esc (b @ [CHR 0x22]) = Some (b, [])"
proof (induction s and s arbitrary: b t and b t rule: scan_str_scan_esc.induct)
  case (2 c r)
  then show ?case by (auto simp: body_ok_def split: if_splits)
next
  case (4 e r)
  then show ?case
    by (cases "e = CHR ''u''") (auto simp: body_ok_def min_def list_all_iff split: if_splits)
qed (auto simp: body_ok_def)

lemma scan_lit_ok: "scan_lit w = Some j \<Longrightarrow> json_ok j"
  by (auto simp: scan_lit_def split: if_splits)

lemma pvalue_ok:
  "pvalue n s = Some (j, r) \<Longrightarrow> json_ok j"
  "pelems n s = Some (vs, r) \<Longrightarrow> list_all json_ok vs"
  "pmembers n s = Some (ms, r) \<Longrightarrow> list_all (\<lambda>(k, v). body_ok k \<and> json_ok v) ms"
proof (induction n s and n s and n s arbitrary: j r and vs r and ms r
    rule: pvalue_pelems_pmembers.induct)
  case (2 n s)
  from 2(3) obtain c t where c: "skip_ws s = c # t" by (auto simp: pvalue.simps split: list.splits)
  have num: "list_all is_numchar (takeWhile is_numchar x)" for x
    by (auto simp: list_all_iff dest: set_takeWhileD)
  from 2 c show ?case
    by (auto simp: pvalue.simps num simp del: takeWhile.simps dropWhile.simps
        split: if_splits list.splits dest!: scan_ok(1) scan_lit_ok)
next
  case (4 n s)
  then show ?case by (fastforce simp: pelems.simps split: if_splits list.splits option.splits)
next
  case (6 n s)
  then show ?case
    by (fastforce simp: pmembers.simps split: if_splits list.splits option.splits dest: scan_ok(1))
qed (simp_all add: pvalue.simps pelems.simps pmembers.simps)

lemma parse_json_ok: "parse_json s = Some j \<Longrightarrow> json_ok j"
  by (auto simp: parse_json_def split: option.splits if_splits dest: pvalue_ok(1))


subsection \<open>Decoding into a struct\<close>

definition key_is :: "string \<Rightarrow> string \<Rightarrow> bool" where
  "key_is f k \<longleftrightarrow> EqualFold (unquote k) f"

text \<open>
  A decoder takes the document and the field's current value, which \<^verbatim>\<open>null\<close> leaves alone. The
  members are read in order; every one whose key matches the field decodes into it.
\<close>

type_synonym 'a decoder = "json \<Rightarrow> 'a \<Rightarrow> 'a option"

fun dec_field :: "'a decoder \<Rightarrow> string \<Rightarrow> (string \<times> json) list \<Rightarrow> 'a \<Rightarrow> 'a option" where
  "dec_field d f [] cur = Some cur"
| "dec_field d f ((k, v) # ms) cur =
     (if key_is f k then Option.bind (d v cur) (dec_field d f ms) else dec_field d f ms cur)"

definition d_str :: "string decoder" where
  "d_str v cur = (case v of JNull \<Rightarrow> Some cur | JStr b \<Rightarrow> Some (unquote b) | _ \<Rightarrow> None)"

definition d_bool :: "bool decoder" where
  "d_bool v cur = (case v of JNull \<Rightarrow> Some cur | JBool b \<Rightarrow> Some b | _ \<Rightarrow> None)"

definition d_int64 :: "int decoder" where
  "d_int64 v cur = (case v of JNull \<Rightarrow> Some cur | JNum l \<Rightarrow> lit_int64 l | _ \<Rightarrow> None)"

text \<open>A \<^verbatim>\<open>RawMessage\<close> field takes the value's text, \<^verbatim>\<open>null\<close> included.\<close>

definition d_raw :: "raw decoder" where
  "d_raw v cur = Some (print_json v)"

definition d_obj :: "((string \<times> json) list \<Rightarrow> 'a \<Rightarrow> 'a option) \<Rightarrow> 'a decoder" where
  "d_obj d v cur = (case v of JNull \<Rightarrow> Some cur | JObj ms \<Rightarrow> d ms cur | _ \<Rightarrow> None)"

definition d_ptr :: "'a \<Rightarrow> 'a decoder \<Rightarrow> 'a option decoder" where
  "d_ptr z d v cur =
     (if v = JNull then Some None
      else map_option Some (d v (case cur of None \<Rightarrow> z | Some x \<Rightarrow> x)))"

fun dec_all :: "'a \<Rightarrow> 'a decoder \<Rightarrow> json list \<Rightarrow> 'a list option" where
  "dec_all z d [] = Some []"
| "dec_all z d (v # vs) = Option.bind (d v z) (\<lambda>x. map_option ((#) x) (dec_all z d vs))"

definition d_list :: "'a \<Rightarrow> 'a decoder \<Rightarrow> 'a list decoder" where
  "d_list z d v cur = (case v of JNull \<Rightarrow> Some [] | JArr vs \<Rightarrow> dec_all z d vs | _ \<Rightarrow> None)"

text \<open>A map keeps the members it has and takes each member of the document; \<^verbatim>\<open>null\<close> makes it nil.\<close>

fun dec_map :: "'a \<Rightarrow> 'a decoder \<Rightarrow> (string \<times> json) list \<Rightarrow> (string \<times> 'a) list \<Rightarrow> (string \<times> 'a) list option" where
  "dec_map z d [] m = Some m"
| "dec_map z d ((k, v) # ms) m =
     Option.bind (d v z) (\<lambda>x. dec_map z d ms (AList.update (unquote k) x m))"

definition d_map :: "'a \<Rightarrow> 'a decoder \<Rightarrow> (string \<times> 'a) list decoder" where
  "d_map z d v cur = (case v of JNull \<Rightarrow> Some [] | JObj ms \<Rightarrow> dec_map z d ms cur | _ \<Rightarrow> None)"

definition Unmarshal :: "'a decoder \<Rightarrow> 'a \<Rightarrow> raw \<Rightarrow> 'a option" where
  "Unmarshal d z raw = Option.bind (parse_json raw) (\<lambda>j. d j z)"

subsection \<open>Encoding a struct or a map\<close>

definition jstr :: "string \<Rightarrow> json" where
  "jstr s = JStr (quote s)"

definition jobj :: "(string \<times> json) list \<Rightarrow> json" where
  "jobj kvs = JObj (map (\<lambda>(k, v). (quote k, v)) kvs)"

text \<open>\<^verbatim>\<open>omitempty\<close> on a string field; a map is encoded with its keys sorted.\<close>

definition jint :: "int \<Rightarrow> json" where
  "jint i = JNum (if i < 0 then CHR ''-'' # itoa (nat (- i)) else itoa (nat i))"

definition omit_int :: "string \<Rightarrow> int \<Rightarrow> (string \<times> json) list" where
  "omit_int k i = (if i = 0 then [] else [(k, jint i)])"

definition omit_str :: "string \<Rightarrow> string \<Rightarrow> (string \<times> json) list" where
  "omit_str k s = (if s = [] then [] else [(k, jstr s)])"

definition jmap :: "(string \<times> json) list \<Rightarrow> json" where
  "jmap m = jobj (sort_key fst m)"

definition Marshal :: "json \<Rightarrow> raw" where
  "Marshal j = print_json j"

text \<open>\<^verbatim>\<open>isEmptyJSON\<close> (\<^verbatim>\<open>workspace/pipeline_schema.go\<close>) looks at the text.\<close>

definition isEmptyJSON :: "raw \<Rightarrow> bool" where
  "isEmptyJSON raw \<longleftrightarrow> raw = [] \<or> TrimSpace raw = ''{}'' \<or> TrimSpace raw = ''null''"

declare quote.simps [simp del]

lemma key_is_quote [simp]: "key_is f (quote k) = EqualFold k f"
  by (simp add: key_is_def)

lemma EqualFold_refl [simp]: "EqualFold s s"
  by (simp add: EqualFold_def)

lemma json_ok_jstr [simp]: "json_ok (jstr s)"
  by (simp add: jstr_def)

lemma json_ok_jobj [simp]: "json_ok (jobj kvs) = list_all (\<lambda>(k, v). json_ok v) kvs"
  by (auto simp: jobj_def list_all_iff)

lemma json_ok_jmap [simp]: "json_ok (jmap m) = list_all (\<lambda>(k, v). json_ok v) m"
  by (simp add: jmap_def list_all_iff)

lemma omit_str_ok [simp]: "list_all (\<lambda>(k, v). json_ok v) (omit_str k s)"
  by (simp add: omit_str_def)

lemma d_str_jstr [simp]: "d_str (jstr s) cur = Some s"
  by (simp add: d_str_def jstr_def)

lemma Unmarshal_Marshal [simp]: "json_ok j \<Longrightarrow> Unmarshal d z (Marshal j) = d j z"
  by (simp add: Unmarshal_def Marshal_def parse_print)

lemma d_obj_jobj [simp]: "d_obj d (jobj kvs) cur = d (map (\<lambda>(k, v). (quote k, v)) kvs) cur"
  by (simp add: d_obj_def jobj_def)

text \<open>Decoding a field from members built here: only the matching keys count.\<close>

lemma dec_field_append:
  "dec_field d f (ms @ ns) cur = Option.bind (dec_field d f ms cur) (dec_field d f ns)"
proof (induction ms arbitrary: cur)
  case (Cons m ms)
  obtain k v where "m = (k, v)" by (cases m)
  with Cons show ?case by (cases "d v cur") auto
qed simp

lemma dec_field_skip: "\<forall>k \<in> fst ` set ms. \<not> key_is f k \<Longrightarrow> dec_field d f ms cur = Some cur"
  by (induction ms) auto

lemma dec_field_omit_str:
  "dec_field d_str f (map (\<lambda>(k, v). (quote k, v)) (omit_str k s)) cur =
     Some (if EqualFold k f \<and> s \<noteq> [] then s else cur)"
  by (simp add: omit_str_def)

lemma last_print_members: "ms \<noteq> [] \<Longrightarrow> last (print_members ms) = CHR ''}'' \<and> print_members ms \<noteq> []"
proof (induction ms)
  case (Cons m ms)
  obtain k v where m: "m = (k, v)" by (cases m)
  show ?case using Cons by (cases "ms = []") (auto simp: m)
qed simp

lemma isEmptyJSON_obj [simp]: "isEmptyJSON (Marshal (JObj ms)) \<longleftrightarrow> ms = []"
proof (cases "ms = []")
  case True
  have "TrimSpace ''{}'' = ''{}''"
    by (simp add: TrimSpace_def trim_by_def is_space_def)
  with True show ?thesis by (simp add: isEmptyJSON_def Marshal_def)
next
  case False
  then obtain k v ns where ms: "ms = (k, v) # ns" by (cases ms) auto
  have "TrimSpace (print_json (JObj ms)) = print_json (JObj ms)"
    unfolding TrimSpace_def by (rule trim_by_id) (use False last_print_members [OF False] in \<open>simp add: is_space_def\<close>)
  with False ms show ?thesis by (simp add: isEmptyJSON_def Marshal_def)
qed

lemma isEmptyJSON_jobj [simp]: "isEmptyJSON (Marshal (jobj kvs)) \<longleftrightarrow> kvs = []"
  by (simp add: jobj_def)

lemma isEmptyJSON_jmap [simp]: "isEmptyJSON (Marshal (jmap m)) \<longleftrightarrow> m = []"
  by (simp add: jmap_def) (metis length_0_conv length_sort)

lemma isEmptyJSON_Nil [simp]: "isEmptyJSON []"
  by (simp add: isEmptyJSON_def)

text \<open>Integers written and read back.\<close>

lemma itoa_first:
  "\<exists>c r. itoa n = c # r \<and> is_digit c \<and> (c = CHR ''0'' \<longrightarrow> r = [] \<and> n = 0)"
proof (induction n rule: itoa.induct)
  case (1 n)
  show ?case
  proof (cases "n < 10")
    case True
    have "n = 0" if "char_of (48 + n) = CHR ''0''"
    proof -
      have "of_char (char_of (48 + n)) = (48 :: nat)" unfolding that by simp
      then show ?thesis using True by simp
    qed
    moreover have "itoa n = [char_of (48 + n)]" using True by (subst itoa.simps) simp
    moreover have "is_digit (char_of (48 + n))" using True by (simp add: is_digit_def less_eq_char_def)
    ultimately show ?thesis by blast
  next
    case False
    with 1 obtain c r where "itoa (n div 10) = c # r" "is_digit c" "c = CHR ''0'' \<longrightarrow> r = [] \<and> n div 10 = 0" by auto
    moreover have "itoa n = itoa (n div 10) @ [char_of (48 + n mod 10)]" using False by (subst itoa.simps) simp
    ultimately show ?thesis using False by auto
  qed
qed

lemma digits_val_append: "digits_val (a @ [c]) = digits_val a * 10 + (int (of_char c) - 48)"
  by (simp add: digits_val_def)

lemma digits_val_itoa: "digits_val (itoa n) = int n"
proof (induction n rule: itoa.induct)
  case (1 n)
  show ?case
  proof (cases "n < 10")
    case True
    then show ?thesis by (subst itoa.simps) (simp add: digits_val_def)
  next
    case False
    then have "digits_val (itoa n) = int (n div 10) * 10 + int (n mod 10)"
      using 1 by (subst itoa.simps) (simp add: digits_val_append)
    then show ?thesis by presburger
  qed
qed

lemma num_frac_Nil [simp]: "num_frac []" by (simp add: num_frac_def num_exp_def)

lemma json_ok_jint [simp]: "json_ok (jint i)"
proof -
  have n: "num_ok (itoa n)" "num_ok (CHR ''-'' # itoa n)" for n
  proof -
    obtain c r where c: "itoa n = c # r" "is_digit c" "c = CHR ''0'' \<longrightarrow> r = []"
      using itoa_first by blast
    have "\<forall>x \<in> set r. is_digit x" using itoa_digits [of n] c(1) by simp
    then have dw: "num_frac (dropWhile is_digit r)" by (simp add: dropWhile_eq_Nil_conv [THEN iffD2])
    moreover have "c \<noteq> CHR ''-''" using c(2) by (auto simp: is_digit_def less_eq_char_def)
    ultimately show "num_ok (itoa n)" "num_ok (CHR ''-'' # itoa n)" using c by (auto simp: num_ok_def)
  qed
  have "list_all is_numchar (itoa n)" for n
    using itoa_digits [of n] by (auto simp: list_all_iff is_numchar_def)
  with n show ?thesis by (auto simp: jint_def is_numchar_def)
qed

lemma d_int64_jint:
  assumes "- (2 ^ 63) \<le> i" "i < 2 ^ 63"
  shows "d_int64 (jint i) cur = Some i"
proof -
  have d: "itoa n \<noteq> [] \<and> list_all is_digit (itoa n) \<and> hd (itoa n) \<noteq> CHR ''-''" for n
    using itoa_digits [of n] itoa_first [of n] by (auto simp: list_all_iff is_digit_def less_eq_char_def)
  show ?thesis using assms d [of "nat i"] d [of "nat (- i)"]
    by (auto simp: d_int64_def jint_def lit_int64_def digits_val_itoa Let_def)
qed

lemma omit_int_ok [simp]: "list_all (\<lambda>(k, v). json_ok v) (omit_int k i)"
  by (simp add: omit_int_def)

lemma dec_field_omit_int:
  assumes "- (2 ^ 63) \<le> i" "i < 2 ^ 63"
  shows "dec_field d_int64 f (map (\<lambda>(k, v). (quote k, v)) (omit_int k i)) cur =
    (if i \<noteq> 0 \<and> EqualFold k f then Some i else Some cur)"
  using d_int64_jint [OF assms] by (simp add: omit_int_def)


end
