(* ===== verification/Domain.thy ===== *)
theory Domain
  imports Json "HOL-Library.Word"
begin

section \<open>The workspace plane's types, errors and ports\<close>

text \<open>
  The structs of \<^verbatim>\<open>workspace/\<close> and \<^verbatim>\<open>core/\<close> that the components share, the error sentinels
  (\<^verbatim>\<open>workspace/errors.go\<close> and the ones declared beside each component) and the interfaces
  the services call through. An interface is a record of functions over the world \<open>'w\<close>: a call
  returns an error or a value, and the world after it, so a component is modelled against
  every implementation of its ports, failing ones included. A field that may be nil is an
  \<open>option\<close>. Structured errors keep the \<^verbatim>\<open>Field\<close> that reaches the client as a field violation; the
  human-readable message is left out. A wrapped error (\<^verbatim>\<open>fmt.Errorf\<close> with \<^verbatim>\<open>%w\<close>) is \<open>Errorf\<close>,
  which \<^verbatim>\<open>errors.Is\<close> looks through. Times are nanoseconds since the Unix epoch, \<^typ>\<open>int\<close>.
\<close>

text \<open>\<open>ErrNoRows\<close> to \<open>ErrDriver\<close> are what the SQL driver reports.\<close>

datatype err =
    ErrWorkspaceNotFound
  | ErrCustomerNotProvisioned
  | ErrPipelineNotFound
  | ErrPipelineAlreadyExists
  | ErrPipelineRunNotFound
  | ErrOAuthGrantNotFound
  | ErrOAuthClientNotFound
  | ErrConnectionNotFound
  | ErrConnectionAlreadyExists
  | ErrConnectionInUse
  | ErrUnsupportedConnectionType
  | ErrConnectionsNotConfigured
  | ErrInvalidOAuthClient
  | ErrUnsupportedOAuthProvider
  | ErrTransformationNotFound
  | ErrTransformationAlreadyExists
  | ErrTransformationRunNotFound
  | ErrBoxCredentialNotFound
  | ErrBoxRepoUnavailable
  | ErrRepoFileChanged
  | ErrPipelineVersionMismatch
  | ErrNotFileUploadPipeline
  | ErrInvalidUploadFile
  | ErrSourceTestNotFound
  | ErrSourceTestUnsupported
  | ErrNotificationNotFound
  | ErrUserAlreadyExists
  | ErrUserNotFound
  | ErrInvalidRole
  | ErrInvalidWarehouseName
  | ErrInvalidKeyPrefix
  | ErrInvalidS3Endpoint
  | ErrLakekeeperUsersUnavailable
  | ErrBoxUnreachable
  | ErrDemoNotConfigured
  | ErrDemoAlreadyLoaded
  | ErrDemoNotLoaded
  | ErrInvalidSourceConfig string
  | ErrInvalidSourceCredentials string
  | ErrNoRows
  | ErrUniqueViolation
  | ErrForeignKeyViolation
  | ErrInvalidText
  | ErrDriver
  | ErrNew string
  | Errorf string err

text \<open>\<^verbatim>\<open>errors.Is\<close>: the error itself or one it wraps.\<close>

fun errors_Is :: "err \<Rightarrow> err \<Rightarrow> bool" where
  "errors_Is (Errorf m e) t \<longleftrightarrow> Errorf m e = t \<or> errors_Is e t"
| "errors_Is e t \<longleftrightarrow> e = t"

subsection \<open>Calls\<close>

type_synonym ('w, 'a) io = "'w \<Rightarrow> (err + 'a) \<times> 'w"

definition ret :: "'a \<Rightarrow> ('w, 'a) io" where
  "ret x w = (Inr x, w)"

definition fail :: "err \<Rightarrow> ('w, 'a) io" where
  "fail e w = (Inl e, w)"

text \<open>Run a call and go on with its value; an error returns at once.\<close>

definition andThen :: "('w, 'a) io \<Rightarrow> ('a \<Rightarrow> ('w, 'b) io) \<Rightarrow> ('w, 'b) io" where
  "andThen m f w = (case m w of (Inl e, w') \<Rightarrow> (Inl e, w') | (Inr x, w') \<Rightarrow> f x w')"

text \<open>Run a call and hand its result, error or value, to what follows.\<close>

definition attempt :: "('w, 'a) io \<Rightarrow> (err + 'a \<Rightarrow> ('w, 'b) io) \<Rightarrow> ('w, 'b) io" where
  "attempt m f w = (case m w of (r, w') \<Rightarrow> f r w')"

definition wrapErr :: "string \<Rightarrow> ('w, 'a) io \<Rightarrow> ('w, 'a) io" where
  "wrapErr msg m w = (case m w of (Inl e, w') \<Rightarrow> (Inl (Errorf msg e), w') | (Inr x, w') \<Rightarrow> (Inr x, w'))"

definition check :: "err option \<Rightarrow> ('w, unit) io" where
  "check e = (case e of None \<Rightarrow> ret () | Some x \<Rightarrow> fail x)"

definition lift :: "err + 'a \<Rightarrow> ('w, 'a) io" where
  "lift r w = (r, w)"

lemmas io_defs = ret_def fail_def andThen_def attempt_def wrapErr_def check_def lift_def

lemma andThen_ret [simp]: "andThen (ret x) f = f x"
  by (simp add: fun_eq_iff io_defs)

lemma andThen_fail [simp]: "andThen (fail e) f = fail e"
  by (simp add: fun_eq_iff io_defs)

lemma andThen_assoc: "andThen (andThen m f) g = andThen m (\<lambda>x. andThen (f x) g)"
  by (simp add: fun_eq_iff io_defs split: prod.splits sum.splits)

lemma andThen_Inr:
  "andThen m f w = (Inr y, w') \<longleftrightarrow> (\<exists>x w1. m w = (Inr x, w1) \<and> f x w1 = (Inr y, w'))"
  by (auto simp: andThen_def split: prod.splits sum.splits)

lemma andThen_Inl:
  "andThen m f w = (Inl e, w') \<longleftrightarrow>
     m w = (Inl e, w') \<or> (\<exists>x w1. m w = (Inr x, w1) \<and> f x w1 = (Inl e, w'))"
  by (auto simp: andThen_def split: prod.splits sum.splits)

lemma wrapErr_Inr [simp]: "wrapErr msg m w = (Inr x, w') \<longleftrightarrow> m w = (Inr x, w')"
  by (auto simp: wrapErr_def split: prod.splits sum.splits)

lemma wrapErr_Inl: "wrapErr msg m w = (Inl e, w') \<longleftrightarrow> (\<exists>e'. e = Errorf msg e' \<and> m w = (Inl e', w'))"
  by (auto simp: wrapErr_def split: prod.splits sum.splits)

lemma ret_eq [simp]: "ret x w = (r, w') \<longleftrightarrow> r = Inr x \<and> w' = w"
  by (auto simp: ret_def)

lemma fail_eq [simp]: "fail e w = (r, w') \<longleftrightarrow> r = Inl e \<and> w' = w"
  by (auto simp: fail_def)

lemma check_eq [simp]:
  "check e w = (r, w') \<longleftrightarrow> w' = w \<and> r = (case e of None \<Rightarrow> Inr () | Some x \<Rightarrow> Inl x)"
  by (auto simp: check_def split: option.splits)

lemma lift_eq [simp]: "lift r w = (r', w') \<longleftrightarrow> r' = r \<and> w' = w"
  by (auto simp: lift_def)

subsection \<open>Structs\<close>

text \<open>\<^verbatim>\<open>core.S3Config\<close> and its zero value.\<close>

record S3Config =
  s3_Bucket :: string
  s3_KeyPrefix :: string
  s3_Endpoint :: string
  s3_Region :: string
  s3_AccessKeyID :: string
  s3_SecretAccessKey :: string
  s3_PathStyleAccess :: "bool option"
  s3_STSEnabled :: "bool option"
  s3_RemoteSigningEnabled :: "bool option"
  s3_CloudflareAPIToken :: string
  s3_CloudflareAccountID :: string
  s3_CredentialDelegationMode :: string
  s3_StorageMode :: string
  s3_StorageProvider :: string
  s3_AssumeRoleARN :: string

definition zeroS3 :: S3Config where
  "zeroS3 = \<lparr>s3_Bucket = [], s3_KeyPrefix = [], s3_Endpoint = [], s3_Region = [], s3_AccessKeyID = [], s3_SecretAccessKey = [],
     s3_PathStyleAccess = None, s3_STSEnabled = None, s3_RemoteSigningEnabled = None, s3_CloudflareAPIToken = [], s3_CloudflareAccountID = [],
     s3_CredentialDelegationMode = [], s3_StorageMode = [], s3_StorageProvider = [], s3_AssumeRoleARN = []\<rparr>"

record Workspace =
  ws_Slug :: string
  ws_OnVM :: bool
  ws_CustomerDomain :: string
  ws_Namespace :: string
  ws_LakekeeperURL :: string
  ws_LakekeeperWarehouse :: string
  ws_LakekeeperDialURL :: string
  ws_CasdoorIssuer :: string
  ws_OIDCClientID :: string
  ws_OIDCClientSecret :: string
  ws_CasdoorOrg :: string
  ws_DuckFlightURL :: string
  ws_DuckFlightAuthToken :: string
  ws_DuckFlightDialURL :: string
  ws_EffectiveS3 :: S3Config
  ws_RillEnabled :: bool
  ws_CubeEnabled :: bool
  ws_RillURL :: string
  ws_CubeURL :: string
  ws_GiteaURL :: string
  ws_SnapshotURL :: string

record Pipeline =
  p_ID :: string
  p_CustomerSlug :: string
  p_Name :: string
  p_SourceType :: string
  p_SourceConfig :: raw
  p_SourceCredentials :: raw
  p_DatasetName :: string
  p_Schedule :: string
  p_WriteDisposition :: string
  p_MergeStrategy :: string
  p_Enabled :: bool
  p_CredentialsExternal :: bool
  p_CreatedAt :: int
  p_UpdatedAt :: int
  p_TriggerNow :: bool
  p_PendingRunID :: string
  p_LastRunAt :: "int option"
  p_LastRunTime :: "int option"
  p_LastRunStatus :: string

record PipelineRun =
  r_ID :: string
  r_PipelineID :: string
  r_Status :: string
  r_StartedAt :: "int option"
  r_CompletedAt :: "int option"
  r_RowsLoaded :: int
  r_ErrorMessage :: string
  r_CreatedAt :: int

record PipelineCredentialRender =
  cr_PipelineID :: string
  cr_Fingerprint :: string
  cr_BlobSHA :: string

record PipelineDefinitionRender =
  dr_PipelineID :: string
  dr_Path :: string
  dr_BlobSHA :: string
  dr_RefusedBlobSHA :: string

record Transformation =
  tf_ID :: string
  tf_CustomerSlug :: string
  tf_Name :: string
  tf_RepoURL :: string
  tf_RepoRef :: string
  tf_GitCredentials :: raw
  tf_Schedule :: string
  tf_TriggerAfterPipelineID :: string
  tf_DBTSelector :: string
  tf_Enabled :: bool
  tf_CreatedAt :: int
  tf_UpdatedAt :: int
  tf_TriggerNow :: bool
  tf_PendingRunID :: string
  tf_LastRunAt :: "int option"
  tf_LastRunTime :: "int option"
  tf_LastRunStatus :: string

record TransformationRun =
  tn_ID :: string
  tn_TransformationID :: string
  tn_Status :: string
  tn_StartedAt :: "int option"
  tn_CompletedAt :: "int option"
  tn_CommitSHA :: string
  tn_ModelsTotal :: "32 word"
  tn_ModelsFailed :: "32 word"
  tn_TestsTotal :: "32 word"
  tn_TestsFailed :: "32 word"
  tn_ModelResults :: raw
  tn_ErrorMessage :: string
  tn_CreatedAt :: int

record TransformationDefinitionRender =
  td_TransformationID :: string
  td_Path :: string
  td_BlobSHA :: string
  td_RefusedBlobSHA :: string

record Connection =
  c_ID :: string
  c_CustomerSlug :: string
  c_Type :: string
  c_Name :: string
  c_Status :: string
  c_Config :: raw
  c_Credentials :: raw
  c_CreatedAt :: int
  c_UpdatedAt :: int

record GoogleOAuthGrant =
  gr_GrantID :: string
  gr_CustomerSlug :: string
  gr_UserSub :: string
  gr_RefreshToken :: string
  gr_Email :: string
  gr_ClientID :: string
  gr_Scopes :: "string list"
  gr_CreatedAt :: int
  gr_ExpiresAt :: int

record OAuthClient =
  oc_CustomerSlug :: string
  oc_Provider :: string
  oc_ClientID :: string
  oc_ClientSecret :: string
  oc_UpdatedAt :: int
  oc_UpdatedBy :: string

record CommitAuthor =
  ca_Name :: string
  ca_Email :: string

record UserInfo =
  u_Name :: string
  u_DisplayName :: string
  u_Email :: string

record Notification =
  n_CustomerSlug :: string
  n_Type :: string
  n_Title :: string
  n_Body :: string
  n_Link :: string
  n_ID :: string
  n_Read :: bool
  n_CreatedAt :: int

record SourceTest =
  sx_ID :: string
  sx_CustomerSlug :: string
  sx_SourceType :: string
  sx_SourceConfig :: raw
  sx_SourceCredentials :: raw
  sx_Status :: string
  sx_Message :: string
  sx_Details :: "string list"
  sx_CreatedAt :: int
  sx_CompletedAt :: "int option"
  sx_ExpiresAt :: int

record RepoFileEntry =
  e_Path :: string
  e_SHA :: string

subsection \<open>Ports\<close>

record 'w Resolver =
  GetWorkspace :: "string \<Rightarrow> ('w, Workspace) io"
  GetWorkspaceByUser :: "string \<Rightarrow> ('w, Workspace) io"

text \<open>
  \<^verbatim>\<open>CreatePipeline\<close> and \<^verbatim>\<open>CreatePipelineRun\<close> fill the id into the struct they are given; here
  they return the struct with its id.
\<close>

record 'w PipelineRepository =
  repo_CreatePipeline :: "Pipeline \<Rightarrow> ('w, Pipeline) io"
  repo_GetPipeline :: "string \<Rightarrow> ('w, Pipeline) io"
  repo_ListPipelinesByCustomer :: "string \<Rightarrow> ('w, Pipeline list) io"
  repo_UpdatePipeline :: "Pipeline \<Rightarrow> ('w, unit) io"
  repo_DeletePipeline :: "string \<Rightarrow> ('w, unit) io"
  repo_GetEnabledPipelines :: "string \<Rightarrow> ('w, Pipeline list) io"
  repo_CreatePipelineRun :: "PipelineRun \<Rightarrow> ('w, PipelineRun) io"
  repo_UpdatePipelineRun :: "PipelineRun \<Rightarrow> ('w, unit) io"
  repo_ListRecentRuns :: "string \<Rightarrow> nat \<Rightarrow> ('w, PipelineRun list) io"
  repo_GetPendingRun :: "string \<Rightarrow> ('w, PipelineRun option) io"

record 'w OwnershipStore =
  SetPipelineCredentialsExternal :: "string \<Rightarrow> bool \<Rightarrow> ('w, unit) io"
  DeletePipelineCredentialRender :: "string \<Rightarrow> ('w, unit) io"

record 'w CredentialRenderStore =
  UpsertPipelineCredentialRender :: "PipelineCredentialRender \<Rightarrow> ('w, unit) io"
  GetPipelineCredentialRenders :: "string \<Rightarrow> ('w, (string \<times> PipelineCredentialRender) list) io"

record 'w DefinitionRenderStore =
  UpsertPipelineDefinitionRender :: "PipelineDefinitionRender \<Rightarrow> ('w, unit) io"
  GetPipelineDefinitionRenders :: "string \<Rightarrow> ('w, (string \<times> PipelineDefinitionRender) list) io"
  MarkPipelineDefinitionRefused :: "string \<Rightarrow> string \<Rightarrow> ('w, unit) io"

record 'w PipelineCredentialReader =
  ListPipelineCredentialsByCustomer :: "string \<Rightarrow> ('w, (string \<times> raw) list) io"

record 'w ConnectionStore =
  CreateConnection :: "Connection \<Rightarrow> ('w, unit) io"
  ReauthorizeConnection :: "string \<Rightarrow> string \<Rightarrow> raw \<Rightarrow> ('w, unit) io"
  GetConnection :: "string \<Rightarrow> string \<Rightarrow> ('w, Connection) io"
  ListConnections :: "string \<Rightarrow> ('w, Connection list) io"
  DeleteConnection :: "string \<Rightarrow> string \<Rightarrow> ('w, unit) io"

record 'w GoogleOAuthGrantStore =
  CreateGoogleOAuthGrant :: "GoogleOAuthGrant \<Rightarrow> ('w, unit) io"
  ConsumeGoogleOAuthGrant :: "string \<Rightarrow> string \<Rightarrow> ('w, GoogleOAuthGrant) io"
  DeleteExpiredGoogleOAuthGrants :: "('w, nat) io"

record 'w OAuthClientStore =
  UpsertOAuthClient :: "OAuthClient \<Rightarrow> ('w, unit) io"
  GetOAuthClient :: "string \<Rightarrow> string \<Rightarrow> ('w, OAuthClient) io"
  DeleteOAuthClient :: "string \<Rightarrow> string \<Rightarrow> ('w, unit) io"

text \<open>The object store streams a body of the given size; here the body is its bytes.\<close>

record 'w ObjectStore =
  Put :: "S3Config \<Rightarrow> string \<Rightarrow> int \<Rightarrow> string \<Rightarrow> ('w, unit) io"
  Delete :: "S3Config \<Rightarrow> string \<Rightarrow> ('w, unit) io"
  Head :: "S3Config \<Rightarrow> string \<Rightarrow> ('w, bool) io"

text \<open>The client of a box's git host; a commit is a \<open>PipelineVersion\<close>.\<close>

record PipelineVersion =
  v_SHA :: string
  v_Message :: string
  v_AuthorName :: string
  v_AuthorEmail :: string
  v_Date :: string

record 'w RepoFileClient =
  ListTree :: "string \<Rightarrow> ('w, RepoFileEntry list) io"
  GetContents :: "string \<Rightarrow> string \<Rightarrow> ('w, string \<times> string) io"
  GetContentsAt :: "string \<Rightarrow> string \<Rightarrow> string \<Rightarrow> ('w, string \<times> string) io"
  ListCommits :: "string \<Rightarrow> string \<Rightarrow> nat \<Rightarrow> ('w, PipelineVersion list) io"
  PutContents :: "string \<Rightarrow> string \<Rightarrow> string \<Rightarrow> string \<Rightarrow> string \<Rightarrow> CommitAuthor option \<Rightarrow> ('w, string) io"
  DeleteContents :: "string \<Rightarrow> string \<Rightarrow> string \<Rightarrow> string \<Rightarrow> CommitAuthor option \<Rightarrow> ('w, unit) io"

text \<open>A box's git credential is its username and token, its age key the public recipient.\<close>

record 'w BoxGitCredentialStore =
  GetBoxGitCredential :: "string \<Rightarrow> ('w, string \<times> string) io"

record 'w BoxAgeKeyStore =
  GetBoxAgeKey :: "string \<Rightarrow> ('w, string) io"

record 'w Notifier =
  Notify :: "Notification \<Rightarrow> ('w, unit) io"

record 'w PipelineAlerter =
  AlertPipelineFailure :: "string \<Rightarrow> string \<Rightarrow> string \<Rightarrow> ('w, unit) io"

record 'w PipelineMirrorer =
  SyncCustomer_port :: "string \<Rightarrow> CommitAuthor option \<Rightarrow> ('w, unit) io"

record 'w PipelineVersioner =
  ListVersions_port :: "string \<Rightarrow> string \<Rightarrow> ('w, PipelineVersion list) io"
  VersionAt_port :: "string \<Rightarrow> string \<Rightarrow> string \<Rightarrow> ('w, Pipeline) io"

record 'w PipelineImporter =
  ImportPipeline :: "Pipeline \<Rightarrow> ('w, unit) io"

subsection \<open>Source types\<close>

definition SourceTypeFileUpload :: string where "SourceTypeFileUpload = ''file_upload''"
definition SourceTypeDuckDB :: string where "SourceTypeDuckDB = ''duckdb''"

subsection \<open>Workspace endpoints (\<^verbatim>\<open>workspace/workspace.go\<close>)\<close>

definition BareDomain :: "Workspace \<Rightarrow> string" where
  "BareDomain w = TrimPrefix (ws_CustomerDomain w) ''*.''"

definition BoxGiteaURL :: "Workspace \<Rightarrow> string" where
  "BoxGiteaURL w = cmp_Or (ws_GiteaURL w) (''https://git.'' @ BareDomain w)"

definition BoxSnapshotURL :: "Workspace \<Rightarrow> string" where
  "BoxSnapshotURL w = cmp_Or (ws_SnapshotURL w) (''https://rill-snapshot.'' @ BareDomain w)"

definition LakekeeperServiceURL :: "Workspace \<Rightarrow> string" where
  "LakekeeperServiceURL w =
     (if ws_LakekeeperDialURL w \<noteq> [] then ws_LakekeeperDialURL w
      else if ws_Namespace w = [] then ws_LakekeeperURL w
      else ''http://lakekeeper.'' @ ws_Namespace w @ ''.svc:8181'')"

definition DuckFlightServiceURL :: "Workspace \<Rightarrow> string" where
  "DuckFlightServiceURL w = cmp_Or (ws_DuckFlightDialURL w) (ws_DuckFlightURL w)"

text \<open>\<^verbatim>\<open>resolveCommitAuthor\<close> of \<^verbatim>\<open>workspace/boxrepo.go\<close>; a failed lookup yields no author.\<close>

definition resolveCommitAuthor :: "(string \<Rightarrow> ('w, UserInfo) io) option \<Rightarrow> string \<Rightarrow> ('w, CommitAuthor option) io" where
  "resolveCommitAuthor users callerID =
     (case users of
        None \<Rightarrow> ret None
      | Some getUser \<Rightarrow>
          (if callerID = [] then ret None
           else attempt (getUser callerID)
             (\<lambda>r. case r of
                Inl e \<Rightarrow> ret None
              | Inr u \<Rightarrow>
                  (if u_Email u = [] then ret None
                   else
                     (let n = cmp_Or (u_DisplayName u) (u_Name u);
                          n' = (if n \<noteq> [] then n
                                else case Cut (u_Email u) ''@'' of None \<Rightarrow> u_Email u | Some (a, b) \<Rightarrow> a)
                      in ret (Some \<lparr>ca_Name = n', ca_Email = u_Email u\<rparr>))))))"

text \<open>A workspace, for the instances of the theorems.\<close>

definition exampleWorkspace :: Workspace where
  "exampleWorkspace =
     \<lparr>ws_Slug = ''acme'', ws_OnVM = True, ws_CustomerDomain = ''*.acme.example'', ws_Namespace = [],
      ws_LakekeeperURL = ''https://catalog.acme.example'', ws_LakekeeperWarehouse = [], ws_LakekeeperDialURL = [],
      ws_CasdoorIssuer = ''https://auth.acme.example'', ws_OIDCClientID = ''console'', ws_OIDCClientSecret = ''shh'', ws_CasdoorOrg = ''acme-org'',
      ws_DuckFlightURL = ''https://flight.acme.example'', ws_DuckFlightAuthToken = ''ft'', ws_DuckFlightDialURL = [],
      ws_EffectiveS3 = zeroS3\<lparr>s3_Bucket := ''lake'', s3_KeyPrefix := ''acme'', s3_Endpoint := ''https://s3.example'', s3_Region := ''eu'',
        s3_AccessKeyID := ''AK'', s3_SecretAccessKey := ''SK''\<rparr>,
      ws_RillEnabled = True, ws_CubeEnabled = False, ws_RillURL = [], ws_CubeURL = [], ws_GiteaURL = [], ws_SnapshotURL = []\<rparr>"

end
