(* ===== verification/Crypto.thy ===== *)
theory Crypto
  imports Domain
begin

section \<open>Credential encryption (\<^verbatim>\<open>crypto/\<close>)\<close>

text \<open>
  The keyring that encrypts credentials at rest (\<^verbatim>\<open>crypto/credentials.go\<close>), the fingerprints the
  mirror compares (\<^verbatim>\<open>crypto/fingerprint.go\<close>) and the environment they are built from
  (\<^verbatim>\<open>crypto/env.go\<close>). AES-GCM and HMAC are the parameter \<open>AEAD\<close>: what the code relies on is
  stated by \<open>aead_ok\<close> where a theorem needs it. Base64 and hex are written out. Random nonces come
  from a call of the world.
\<close>

subsection \<open>Base64 and hex\<close>

definition b64char :: "nat \<Rightarrow> char" where
  "b64char n =
     (if n < 26 then char_of (65 + n) else if n < 52 then char_of (71 + n)
      else if n < 62 then char_of (n - 4) else if n = 62 then CHR ''+'' else CHR ''/'')"

definition b64val :: "char \<Rightarrow> nat option" where
  "b64val c =
     (let n = of_char c in
      if 65 \<le> n \<and> n \<le> 90 then Some (n - 65) else if 97 \<le> n \<and> n \<le> 122 then Some (n - 71)
      else if 48 \<le> n \<and> n \<le> 57 then Some (n + 4) else if c = CHR ''+'' then Some 62
      else if c = CHR ''/'' then Some 63 else None)"

fun b64enc :: "string \<Rightarrow> string" where
  "b64enc [] = []"
| "b64enc [a] = (let n = of_char a in [b64char (n div 4), b64char (n mod 4 * 16), CHR ''='', CHR ''=''])"
| "b64enc [a, b] =
     (let n = of_char a; m = of_char b in
      [b64char (n div 4), b64char (n mod 4 * 16 + m div 16), b64char (m mod 16 * 4), CHR ''=''])"
| "b64enc (a # b # c # s) =
     (let n = of_char a; m = of_char b; k = of_char c in
      [b64char (n div 4), b64char (n mod 4 * 16 + m div 16), b64char (m mod 16 * 4 + k div 64), b64char (k mod 64)] @ b64enc s)"

text \<open>
  \<^verbatim>\<open>StdEncoding.DecodeString\<close>: line breaks are skipped, padding is required and ends the text, and
  the unused bits of the last group are not looked at.
\<close>

fun b64groups :: "string \<Rightarrow> string option" where
  "b64groups [] = Some []"
| "b64groups (a # b # c # d # s) =
     (case (b64val a, b64val b) of
        (Some x, Some y) \<Rightarrow>
          (if c = CHR ''='' then
             (if d = CHR ''='' \<and> s = [] then Some [char_of (x * 4 + y div 16)] else None)
           else case b64val c of
             None \<Rightarrow> None
           | Some z \<Rightarrow>
               (if d = CHR ''='' then
                  (if s = [] then Some [char_of (x * 4 + y div 16), char_of (y mod 16 * 16 + z div 4)] else None)
                else case (b64val d, b64groups s) of
                  (Some u, Some r) \<Rightarrow>
                    Some (char_of (x * 4 + y div 16) # char_of (y mod 16 * 16 + z div 4) # char_of (z mod 4 * 64 + u) # r)
                | _ \<Rightarrow> None))
      | _ \<Rightarrow> None)"
| "b64groups s = None"

definition b64dec :: "string \<Rightarrow> string option" where
  "b64dec s = b64groups (filter (\<lambda>c. c \<noteq> CHR 0x0D \<and> c \<noteq> CHR 0x0A) s)"

definition hexEncode :: "string \<Rightarrow> string" where
  "hexEncode s = concat (map (\<lambda>c. [hexdig (of_char c div 16), hexdig (of_char c mod 16)]) s)"

subsection \<open>The keyring\<close>

text \<open>AES-GCM under a 32-byte key, and HMAC-SHA256 and SHA-256.\<close>

record AEAD =
  Seal :: "string \<Rightarrow> string \<Rightarrow> string \<Rightarrow> string"
  Open :: "string \<Rightarrow> string \<Rightarrow> string \<Rightarrow> string option"
  Hmac :: "string \<Rightarrow> string \<Rightarrow> string"
  Sha256 :: "string \<Rightarrow> string"

definition encPrefix :: string where "encPrefix = ''enc:''"
definition keyIDLabel :: string where "keyIDLabel = ''fairtier/credential-key-id/v1''"
definition keyIDBytes :: nat where "keyIDBytes = 4"
definition NonceSize :: nat where "NonceSize = 12"

record keyEntry =
  ke_id :: string
  ke_key :: string

record Keyring =
  kr_primary :: keyEntry
  kr_byID :: "(string \<times> keyEntry) list"
  kr_order :: "keyEntry list"

definition DeriveKeyID :: "AEAD \<Rightarrow> string \<Rightarrow> string" where
  "DeriveKeyID A key = hexEncode (take keyIDBytes (Hmac A key keyIDLabel))"

definition newKeyEntry :: "AEAD \<Rightarrow> string \<Rightarrow> err + keyEntry" where
  "newKeyEntry A key =
     (if length key \<noteq> 32 then Inl (ErrNew ''key must be 32 bytes'')
      else Inr \<lparr>ke_id = DeriveKeyID A key, ke_key = key\<rparr>)"

fun addPrevious :: "AEAD \<Rightarrow> Keyring \<Rightarrow> string list \<Rightarrow> err + Keyring" where
  "addPrevious A ring [] = Inr ring"
| "addPrevious A ring (key # keys) =
     (case newKeyEntry A key of
        Inl e \<Rightarrow> Inl (Errorf ''crypto: previous key'' e)
      | Inr entry \<Rightarrow>
          (if map_of (kr_byID ring) (ke_id entry) \<noteq> None then Inl (ErrNew ''crypto: previous key duplicates key'')
           else addPrevious A
             (ring\<lparr>kr_byID := AList.update (ke_id entry) entry (kr_byID ring), kr_order := kr_order ring @ [entry]\<rparr>) keys))"

definition NewKeyring :: "AEAD \<Rightarrow> string \<Rightarrow> string list \<Rightarrow> err + Keyring" where
  "NewKeyring A primary previous =
     (case newKeyEntry A primary of
        Inl e \<Rightarrow> Inl (Errorf ''crypto: primary key'' e)
      | Inr entry \<Rightarrow> addPrevious A \<lparr>kr_primary = entry, kr_byID = [(ke_id entry, entry)], kr_order = [entry]\<rparr> previous)"

definition KeyIDs :: "Keyring \<Rightarrow> string list" where
  "KeyIDs k = map ke_id (kr_order k)"

definition sealed :: "AEAD \<Rightarrow> Keyring \<Rightarrow> string \<Rightarrow> string \<Rightarrow> string" where
  "sealed A k nonce plaintext =
     encPrefix @ ke_id (kr_primary k) @ '':'' @ b64enc (nonce @ Seal A (ke_key (kr_primary k)) nonce plaintext)"

definition Encrypt_ring :: "AEAD \<Rightarrow> ('w, string) io \<Rightarrow> Keyring \<Rightarrow> string \<Rightarrow> ('w, string) io" where
  "Encrypt_ring A rand k plaintext =
     andThen (wrapErr ''crypto: generate nonce'' rand) (\<lambda>nonce. ret (sealed A k nonce plaintext))"

definition splitEnvelope :: "string \<Rightarrow> string \<times> string" where
  "splitEnvelope body = (case Cut body '':'' of Some (a, b) \<Rightarrow> (a, b) | None \<Rightarrow> ([], body))"

definition openEntry :: "AEAD \<Rightarrow> keyEntry \<Rightarrow> string \<Rightarrow> string option" where
  "openEntry A entry data =
     (if length data < NonceSize then None else Open A (ke_key entry) (take NonceSize data) (drop NonceSize data))"

fun openUntagged :: "AEAD \<Rightarrow> keyEntry list \<Rightarrow> string \<Rightarrow> err + string" where
  "openUntagged A [] data = Inl (ErrNew ''crypto: untagged ciphertext opened under none of the keys'')"
| "openUntagged A (entry # es) data =
     (case openEntry A entry data of Some p \<Rightarrow> Inr p | None \<Rightarrow> openUntagged A es data)"

definition Decrypt_ring :: "AEAD \<Rightarrow> Keyring \<Rightarrow> string \<Rightarrow> err + string" where
  "Decrypt_ring A k stored =
     (if \<not> prefix encPrefix stored then Inr stored
      else
        (let (keyID, payload) = splitEnvelope (TrimPrefix stored encPrefix) in
         case b64dec payload of
           None \<Rightarrow> Inl (ErrNew ''crypto: base64 decode'')
         | Some data \<Rightarrow>
             (if keyID = [] then openUntagged A (kr_order k) data
              else case map_of (kr_byID k) keyID of
                None \<Rightarrow> Inl (ErrNew ''crypto: ciphertext is under a key which is not in the ring'')
              | Some entry \<Rightarrow>
                  (case openEntry A entry data of
                     None \<Rightarrow> Inl (ErrNew ''crypto: decrypt under key'')
                   | Some p \<Rightarrow> Inr p))))"

subsection \<open>Fingerprints\<close>

text \<open>\<^verbatim>\<open>binary.BigEndian.PutUint64\<close> of a length.\<close>

definition be64 :: "nat \<Rightarrow> string" where
  "be64 n = map (\<lambda>i. char_of (n div 256 ^ i mod 256)) [7, 6, 5, 4, 3, 2, 1, 0]"

definition fpBytes :: "string list \<Rightarrow> string" where
  "fpBytes parts = concat (map (\<lambda>p. be64 (length p) @ p) parts)"

definition fingerprint :: "(string \<Rightarrow> string) \<Rightarrow> string list \<Rightarrow> string" where
  "fingerprint h parts = hexEncode (h (fpBytes parts))"

definition HMACFingerprint :: "AEAD \<Rightarrow> string \<Rightarrow> string list \<Rightarrow> string" where
  "HMACFingerprint A key parts = fingerprint (Hmac A key) parts"

definition SHA256Fingerprint :: "AEAD \<Rightarrow> string list \<Rightarrow> string" where
  "SHA256Fingerprint A parts = fingerprint (Sha256 A) parts"

subsection \<open>The environment\<close>

text \<open>\<open>Inr None\<close>: the variable is not set.\<close>

definition decodeKey :: "string \<Rightarrow> err + string option" where
  "decodeKey value =
     (let v = TrimSpace value in
      if v = [] then Inr None
      else case b64dec v of None \<Rightarrow> Inl (ErrNew ''crypto: decode'') | Some key \<Rightarrow> Inr (Some key))"

fun decodeKeys :: "string list \<Rightarrow> err + string list" where
  "decodeKeys [] = Inr []"
| "decodeKeys (f # fs) =
     (case decodeKey f of
        Inl e \<Rightarrow> Inl e
      | Inr k \<Rightarrow>
          (case decodeKeys fs of
             Inl e \<Rightarrow> Inl e
           | Inr ks \<Rightarrow> Inr ((case k of None \<Rightarrow> [] | Some x \<Rightarrow> [x]) @ ks)))"

definition decodePreviousKeys :: "string \<Rightarrow> err + string list" where
  "decodePreviousKeys env = (if TrimSpace env = [] then Inr [] else decodeKeys (split_on (CHR '','') env))"

definition EncryptorFromEnv :: "AEAD \<Rightarrow> string \<Rightarrow> string \<Rightarrow> err + Keyring option" where
  "EncryptorFromEnv A keyEnv previousEnv =
     (case decodeKey keyEnv of
        Inl e \<Rightarrow> Inl e
      | Inr None \<Rightarrow> Inr None
      | Inr (Some primary) \<Rightarrow>
          (case decodePreviousKeys previousEnv of
             Inl e \<Rightarrow> Inl e
           | Inr previous \<Rightarrow>
               (case NewKeyring A primary previous of Inl e \<Rightarrow> Inl e | Inr ring \<Rightarrow> Inr (Some ring))))"

subsection \<open>Base64 decodes what it encoded\<close>

lemma b64val_b64char [simp]:
  assumes "n < 64"
  shows "b64val (b64char n) = Some n"
proof -
  consider "n < 26" | "26 \<le> n" "n < 52" | "52 \<le> n" "n < 62" | "n = 62" | "n = 63" using assms by linarith
  then show ?thesis
    by cases (auto simp: b64char_def b64val_def Let_def)
qed

lemma b64val_other: "b64val (CHR ''='') = None" "b64val (CHR '':'') = None" "b64val (CHR 0x0D) = None" "b64val (CHR 0x0A) = None"
  by (simp_all add: b64val_def)

lemma b64char_plain:
  assumes "n < 64"
  shows "b64char n \<noteq> CHR ''=''" "b64char n \<noteq> CHR '':''" "b64char n \<noteq> CHR 0x0D" "b64char n \<noteq> CHR 0x0A"
  using b64val_b64char [OF assms] b64val_other by (metis option.distinct(1))+

lemma of_char_256 [simp]: "of_char (c :: char) < (256 :: nat)"
  by (metis of_char_mod_256 mod_less_divisor zero_less_numeral)

lemma six_bits:
  fixes n m :: nat
  assumes "n < 256" "m < 256"
  shows "n div 4 < 64" "n mod 4 * 16 + m div 16 < 64" "n mod 16 * 4 + m div 64 < 64" "n mod 64 < 64"
    "n mod 4 * 16 < 64" "n mod 16 * 4 < 64"
proof -
  have d: "n div 4 < 64" "m div 16 < 16" "m div 64 < 4" using assms by (simp_all add: less_mult_imp_div_less)
  have r: "n mod 4 < 4" "n mod 16 < 16" "n mod 64 < 64" by simp_all
  show "n div 4 < 64" "n mod 64 < 64" using d r by simp_all
  show "n mod 4 * 16 + m div 16 < 64" "n mod 16 * 4 + m div 64 < 64" "n mod 4 * 16 < 64" "n mod 16 * 4 < 64"
    using d r by linarith+
qed

lemma bytes_back:
  fixes n m k :: nat
  assumes "m < 256" "k < 256"
  shows "n div 4 * 4 + (n mod 4 * 16 + m div 16) div 16 = n"
    "(n mod 4 * 16 + m div 16) mod 16 * 16 + (m mod 16 * 4 + k div 64) div 4 = m"
    "(m mod 16 * 4 + k div 64) mod 4 * 64 + k mod 64 = k"
proof -
  have d: "m div 16 < 16" "k div 64 < 4" using assms by (simp_all add: less_mult_imp_div_less)
  have a: "(x * 16 + y) div 16 = x \<and> (x * 16 + y) mod 16 = y" if "y < 16" for x y :: nat using that by simp
  have b: "(x * 4 + y) div 4 = x \<and> (x * 4 + y) mod 4 = y" if "y < 4" for x y :: nat using that by simp
  show "n div 4 * 4 + (n mod 4 * 16 + m div 16) div 16 = n" using a [OF d(1)] by simp
  show "(n mod 4 * 16 + m div 16) mod 16 * 16 + (m mod 16 * 4 + k div 64) div 4 = m" using a [OF d(1)] b [OF d(2)] by simp
  show "(m mod 16 * 4 + k div 64) mod 4 * 64 + k mod 64 = k" using b [OF d(2)] by simp
qed

lemma b64groups_full:
  assumes "x < 64" "y < 64" "z < 64" "u < 64" "b64groups s = Some r"
  shows "b64groups (b64char x # b64char y # b64char z # b64char u # s) =
    Some (char_of (x * 4 + y div 16) # char_of (y mod 16 * 16 + z div 4) # char_of (z mod 4 * 64 + u) # r)"
  using assms b64char_plain(1) [OF assms(3)] b64char_plain(1) [OF assms(4)] by simp

lemma b64groups_two:
  assumes "x < 64" "y < 64" "z < 64"
  shows "b64groups [b64char x, b64char y, b64char z, CHR ''=''] =
    Some [char_of (x * 4 + y div 16), char_of (y mod 16 * 16 + z div 4)]"
  using assms b64char_plain(1) [OF assms(3)] by simp

lemma b64groups_one:
  assumes "x < 64" "y < 64"
  shows "b64groups [b64char x, b64char y, CHR ''='', CHR ''=''] = Some [char_of (x * 4 + y div 16)]"
  using assms by simp

lemma b64groups_enc: "b64groups (b64enc s) = Some s"
proof (induction s rule: b64enc.induct)
  case (2 a)
  let ?n = "of_char a :: nat"
  have e: "?n div 4 * 4 + ?n mod 4 * 16 div 16 = ?n" using bytes_back(1) [where m = 0 and k = 0 and n = ?n] by simp
  show ?case unfolding b64enc.simps Let_def
    by (subst b64groups_one) (simp_all only: e six_bits [of ?n 0, simplified] of_char_256 char_of_char)
next
  case (3 a b)
  let ?n = "of_char a :: nat" and ?m = "of_char b :: nat"
  have b: "?n < 256" "?m < 256" by (rule of_char_256)+
  have e: "?n div 4 * 4 + (?n mod 4 * 16 + ?m div 16) div 16 = ?n"
    "(?n mod 4 * 16 + ?m div 16) mod 16 * 16 + ?m mod 16 * 4 div 4 = ?m"
    using bytes_back(1,2) [OF b(2), of 0 ?n] by (simp_all only: zero_less_numeral div_0 add_0_right simp_thms)
  show ?case unfolding b64enc.simps Let_def
    by (subst b64groups_two) (simp_all only: e six_bits(1,2) [OF b] six_bits(6) [OF b(2,1)] char_of_char)
next
  case (4 a b c s)
  let ?n = "of_char a :: nat" and ?m = "of_char b :: nat" and ?k = "of_char c :: nat"
  have b: "?n < 256" "?m < 256" "?k < 256" by (rule of_char_256)+
  show ?case unfolding b64enc.simps Let_def append_Cons append_Nil
    by (subst b64groups_full [OF six_bits(1,2) [OF b(1,2)] six_bits(3) [OF b(2,3)] six_bits(4) [OF b(3,3)] 4])
      (simp_all only: bytes_back [OF b(2,3)] char_of_char)
qed simp

lemma char_bits:
  fixes a b :: char
  shows "of_char a div 4 < (64 :: nat)" "of_char a mod 4 * 16 + of_char b div 16 < (64 :: nat)"
    "of_char a mod 16 * 4 + of_char b div 64 < (64 :: nat)" "of_char a mod 64 < (64 :: nat)"
    "of_char a mod 4 * 16 < (64 :: nat)" "of_char a mod 16 * 4 < (64 :: nat)"
  by (rule six_bits [OF of_char_256 of_char_256])+

lemma b64enc_vals: "\<forall>c \<in> set (b64enc s). b64val c \<noteq> None \<or> c = CHR ''=''"
proof (induction s rule: b64enc.induct)
  case (2 a)
  show ?case by (simp add: Let_def char_bits)
next
  case (3 a b)
  show ?case by (simp add: Let_def char_bits)
next
  case (4 a b c s)
  then show ?case by (simp add: Let_def char_bits)
qed simp

lemma b64enc_chars: "c \<in> set (b64enc s) \<Longrightarrow> c \<noteq> CHR '':'' \<and> c \<noteq> CHR 0x0D \<and> c \<noteq> CHR 0x0A"
  using b64enc_vals [of s] by (auto simp: b64val_other)

lemma b64dec_enc [simp]: "b64dec (b64enc s) = Some s"
proof -
  have "filter (\<lambda>c. c \<noteq> CHR 0x0D \<and> c \<noteq> CHR 0x0A) (b64enc s) = b64enc s"
    using b64enc_chars by (intro filter_True) blast
  then show ?thesis by (simp add: b64dec_def b64groups_enc)
qed

subsection \<open>What a ring reads\<close>

text \<open>What the code relies on of AES-GCM and HMAC-SHA256.\<close>

definition aead_ok :: "AEAD \<Rightarrow> bool" where
  "aead_ok A \<longleftrightarrow>
     (\<forall>key nonce p. Open A key nonce (Seal A key nonce p) = Some p) \<and>
     (\<forall>key key' nonce p. key \<noteq> key' \<longrightarrow> Open A key' nonce (Seal A key nonce p) = None) \<and>
     (\<forall>key msg. length (Hmac A key msg) = 32)"

text \<open>The ring as \<^verbatim>\<open>NewKeyring\<close> builds it: every key under its own id, the primary first.\<close>

definition ring_ok :: "AEAD \<Rightarrow> Keyring \<Rightarrow> bool" where
  "ring_ok A k \<longleftrightarrow>
     kr_byID k = map (\<lambda>e. (ke_id e, e)) (kr_order k) \<and> distinct (map ke_id (kr_order k)) \<and>
     (\<exists>es. kr_order k = kr_primary k # es) \<and>
     (\<forall>e \<in> set (kr_order k). ke_id e = DeriveKeyID A (ke_key e) \<and> length (ke_key e) = 32)"

lemma update_fresh: "map_of m k = None \<Longrightarrow> AList.update k v m = m @ [(k, v)]"
  by (induction m) (auto split: if_splits)

lemma addPrevious_ok:
  "addPrevious A ring keys = Inr r \<Longrightarrow> ring_ok A ring \<Longrightarrow>
     ring_ok A r \<and> kr_primary r = kr_primary ring \<and> map ke_key (kr_order r) = map ke_key (kr_order ring) @ keys"
proof (induction A ring keys rule: addPrevious.induct)
  case (2 A ring key keys)
  let ?e = "\<lparr>ke_id = DeriveKeyID A key, ke_key = key\<rparr>"
  let ?ring = "ring\<lparr>kr_byID := AList.update (ke_id ?e) ?e (kr_byID ring), kr_order := kr_order ring @ [?e]\<rparr>"
  from 2(2) have l: "length key = 32" and fresh: "map_of (kr_byID ring) (ke_id ?e) = None"
    and r: "addPrevious A ?ring keys = Inr r"
    by (auto simp: newKeyEntry_def split: if_splits)
  have "ke_id ?e \<notin> ke_id ` set (kr_order ring)"
    using fresh 2(3) by (force simp: ring_ok_def map_of_eq_None_iff)
  then have ok: "ring_ok A ?ring"
    using 2(3) l update_fresh [OF fresh] by (auto simp: ring_ok_def)
  have "newKeyEntry A key = Inr ?e" using l by (simp add: newKeyEntry_def)
  then show ?case using 2(1) [of ?e] fresh r ok by simp
qed simp

lemma NewKeyring_ok:
  assumes "NewKeyring A primary previous = Inr r"
  shows "ring_ok A r" "map ke_key (kr_order r) = primary # previous" "ke_key (kr_primary r) = primary"
proof -
  let ?e = "\<lparr>ke_id = DeriveKeyID A primary, ke_key = primary\<rparr>"
  let ?k = "\<lparr>kr_primary = ?e, kr_byID = [(ke_id ?e, ?e)], kr_order = [?e]\<rparr>"
  from assms have l: "length primary = 32" and r: "addPrevious A ?k previous = Inr r"
    by (auto simp: NewKeyring_def newKeyEntry_def split: if_splits)
  have "ring_ok A ?k" using l by (simp add: ring_ok_def)
  from addPrevious_ok [OF r this] show "ring_ok A r" "map ke_key (kr_order r) = primary # previous" "ke_key (kr_primary r) = primary"
    by simp_all
qed

lemma byID_lookup:
  assumes "ring_ok A k" "e \<in> set (kr_order k)"
  shows "map_of (kr_byID k) (ke_id e) = Some e"
  using assms by (auto simp: ring_ok_def comp_def intro: map_of_is_SomeI)

lemma hexdig_colon: "n < 16 \<Longrightarrow> hexdig n \<noteq> CHR '':''"
proof -
  have "is_hex (CHR '':'') = False" by (simp add: is_hex_def is_digit_def less_eq_char_def)
  then show "n < 16 \<Longrightarrow> hexdig n \<noteq> CHR '':''" using is_hex_hexdig [of n] by auto
qed

lemma hexEncode_colon: "CHR '':'' \<notin> set (hexEncode s)"
proof
  assume "CHR '':'' \<in> set (hexEncode s)"
  then obtain c :: char where "CHR '':'' \<in> {hexdig (of_char c div 16), hexdig (of_char c mod 16)}"
    by (auto simp: hexEncode_def)
  then show False using hexdig_colon [OF char_div16 [of c]] hexdig_colon [of "of_char c mod 16"] by auto
qed

lemma hexEncode_ne: "s \<noteq> [] \<Longrightarrow> hexEncode s \<noteq> []"
  by (cases s) (simp_all add: hexEncode_def)

lemma DeriveKeyID_ne: "aead_ok A \<Longrightarrow> DeriveKeyID A key \<noteq> []"
  unfolding DeriveKeyID_def
  by (rule hexEncode_ne) (metis aead_ok_def keyIDBytes_def list.size(3) take_eq_Nil zero_neq_numeral)

text \<open>Anything sealed under a key of the ring opens, whichever ring sealed it.\<close>

lemma decrypt_sealed:
  assumes "aead_ok A" "ring_ok A k" "ring_ok A old" "length nonce = NonceSize"
    and "ke_key (kr_primary old) \<in> ke_key ` set (kr_order k)"
  shows "Decrypt_ring A k (sealed A old nonce p) = Inr p"
proof -
  let ?o = "kr_primary old"
  obtain e where e: "e \<in> set (kr_order k)" "ke_key e = ke_key ?o" using assms(5) by force
  have "?o \<in> set (kr_order old)" using assms(3) by (auto simp: ring_ok_def)
  then have id: "ke_id ?o = DeriveKeyID A (ke_key ?o)" "ke_id e = ke_id ?o"
    using assms(2,3) e by (auto simp: ring_ok_def)
  have col: "CHR '':'' \<notin> set (ke_id ?o)" by (simp add: id(1) DeriveKeyID_def hexEncode_colon)
  have ne: "ke_id ?o \<noteq> []" using DeriveKeyID_ne [OF assms(1)] id(1) by simp
  have sp: "splitEnvelope (ke_id ?o @ CHR '':'' # x) = (ke_id ?o, x)" for x
    using Cut_char [OF col] by (simp add: splitEnvelope_def)
  have "Open A (ke_key e) nonce (Seal A (ke_key ?o) nonce p) = Some p"
    using assms(1) e(2) by (simp add: aead_ok_def)
  then have "openEntry A e (nonce @ Seal A (ke_key ?o) nonce p) = Some p"
    using assms(4) by (simp add: openEntry_def)
  moreover have "map_of (kr_byID k) (ke_id ?o) = Some e" using byID_lookup [OF assms(2) e(1)] id(2) by simp
  ultimately show ?thesis
    using ne by (simp add: Decrypt_ring_def sealed_def sp)
qed

text \<open>Values written before key ids carry none; every key is tried, and only the right one opens.\<close>

lemma openUntagged_in:
  assumes "aead_ok A" "e \<in> set es" "length nonce = NonceSize"
  shows "openUntagged A es (nonce @ Seal A (ke_key e) nonce p) = Inr p"
  using assms(2)
proof (induction es)
  case (Cons x es)
  let ?d = "nonce @ Seal A (ke_key e) nonce p"
  have "openEntry A x ?d = (if ke_key x = ke_key e then Some p else None)"
    using assms(1,3) by (auto simp: openEntry_def aead_ok_def)
  then show ?case using Cons by auto
qed simp

lemma decrypt_legacy:
  assumes "aead_ok A" "e \<in> set (kr_order k)" "length nonce = NonceSize"
  shows "Decrypt_ring A k (encPrefix @ b64enc (nonce @ Seal A (ke_key e) nonce p)) = Inr p"
proof -
  let ?b = "b64enc (nonce @ Seal A (ke_key e) nonce p)"
  have "CHR '':'' \<notin> set ?b" using b64enc_chars by blast
  then have "splitEnvelope ?b = ([], ?b)" by (simp add: splitEnvelope_def Cut_char_None [THEN iffD2])
  then show ?thesis using openUntagged_in [OF assms] by (simp add: Decrypt_ring_def)
qed

lemma decrypt_foreign_key:
  assumes "aead_ok A" "ring_ok A old" "ke_id (kr_primary old) \<notin> set (KeyIDs k)" "ring_ok A k"
  shows "Decrypt_ring A k (sealed A old nonce p) = Inl (ErrNew ''crypto: ciphertext is under a key which is not in the ring'')"
proof -
  let ?o = "kr_primary old"
  have id: "ke_id ?o = DeriveKeyID A (ke_key ?o)" using assms(2) by (auto simp: ring_ok_def)
  have col: "CHR '':'' \<notin> set (ke_id ?o)" by (simp add: id DeriveKeyID_def hexEncode_colon)
  have ne: "ke_id ?o \<noteq> []" using DeriveKeyID_ne [OF assms(1)] id by simp
  have sp: "splitEnvelope (ke_id ?o @ CHR '':'' # x) = (ke_id ?o, x)" for x
    using Cut_char [OF col] by (simp add: splitEnvelope_def)
  have "map_of (kr_byID k) (ke_id ?o) = None"
    using assms(3,4) by (auto simp: ring_ok_def KeyIDs_def map_of_eq_None_iff)
  then show ?thesis using ne by (simp add: Decrypt_ring_def sealed_def sp)
qed

subsection \<open>Part boundaries are unambiguous\<close>

lemma be64_inj:
  assumes "n < 2 ^ 64" "m < 2 ^ 64" "be64 n = be64 m"
  shows "n = m"
proof -
  have byte: "n div 256 ^ i mod 256 = m div 256 ^ i mod 256" if "i \<in> {0..7}" for i
  proof -
    have "map (\<lambda>i. char_of (n div 256 ^ i mod 256)) [7, 6, 5, 4, 3, 2, 1, 0] ! (7 - i) =
          map (\<lambda>i. char_of (m div 256 ^ i mod 256)) [7, 6, 5, 4, 3, 2, 1, 0] ! (7 - i)"
      using assms(3) by (simp only: be64_def)
    moreover have "[7, 6, 5, 4, 3, 2, 1, 0 :: nat] ! (7 - i) = i"
      using that by (auto simp: nth_Cons split: nat.splits)
    ultimately have "char_of (n div 256 ^ i mod 256) = (char_of (m div 256 ^ i mod 256) :: char)"
      by (subst (asm) (1 2) nth_map) auto
    then have "of_char (char_of (n div 256 ^ i mod 256) :: char) = (of_char (char_of (m div 256 ^ i mod 256) :: char) :: nat)"
      by simp
    then show ?thesis by simp
  qed
  have low: "n mod 256 ^ i = m mod 256 ^ i" if "i \<le> 8" for i
    using that
  proof (induction i)
    case (Suc i)
    have "x mod 256 ^ Suc i = x div 256 ^ i mod 256 * 256 ^ i + x mod 256 ^ i" for x :: nat
      by (metis mod_mult2_eq mult.commute power_Suc)
    then show ?case using Suc byte [of i] by simp
  qed simp
  have "256 ^ 8 = (2 :: nat) ^ 64" by simp
  with low [of 8] assms(1,2) show ?thesis by simp
qed

lemma length_be64 [simp]: "length (be64 n) = 8"
  by (simp add: be64_def)

lemma fpBytes_inj:
  assumes "\<forall>p \<in> set ps. length p < 2 ^ 64" "\<forall>q \<in> set qs. length q < 2 ^ 64" "fpBytes ps = fpBytes qs"
  shows "ps = qs"
  using assms
proof (induction ps arbitrary: qs)
  case Nil
  then show ?case by (cases qs) (auto simp: fpBytes_def dest: arg_cong [where f = length])
next
  case (Cons p ps)
  then obtain q qs' where qs: "qs = q # qs'"
    by (cases qs) (auto simp: fpBytes_def dest: arg_cong [where f = length])
  have e: "be64 (length p) @ (p @ fpBytes ps) = be64 (length q) @ (q @ fpBytes qs')"
    using Cons.prems(3) qs by (simp add: fpBytes_def)
  then have "be64 (length p) = be64 (length q)" and r: "p @ fpBytes ps = q @ fpBytes qs'"
    by (simp_all add: append_eq_append_conv)
  then have "length p = length q" using be64_inj Cons.prems(1,2) qs by simp
  then have "p = q" "fpBytes ps = fpBytes qs'" using r by simp_all
  then show ?case using Cons qs by simp
qed

lemma hexdig_inj: "n < 16 \<Longrightarrow> m < 16 \<Longrightarrow> hexdig n = hexdig m \<Longrightarrow> n = m"
  using hexval_hexdig by metis

lemma hex_byte_inj:
  fixes c d :: char
  assumes "hexdig (of_char c div 16) = hexdig (of_char d div 16)" "hexdig (of_char c mod 16) = hexdig (of_char d mod 16)"
  shows "c = d"
proof -
  have "of_char c div 16 = (of_char d div 16 :: nat)" by (rule hexdig_inj [OF char_div16 char_div16 assms(1)])
  moreover have "of_char c mod 16 = (of_char d mod 16 :: nat)" by (rule hexdig_inj [OF _ _ assms(2)]) simp_all
  ultimately have "of_char c = (of_char d :: nat)" by (metis div_mult_mod_eq)
  then show ?thesis by simp
qed

lemma hexEncode_inj: "hexEncode a = hexEncode b \<Longrightarrow> a = b"
proof (induction a arbitrary: b)
  case Nil
  then show ?case by (cases b) (auto simp: hexEncode_def)
next
  case (Cons c a)
  then obtain d b' where "b = d # b'" by (cases b) (auto simp: hexEncode_def)
  with Cons show ?case using hex_byte_inj [of c d] by (simp add: hexEncode_def)
qed

subsection \<open>Properties\<close>

text \<open>
  An instance of the primitives that satisfies \<open>aead_ok\<close>: a seal carries its key, behind the key's length
  in unary, so that it opens under that key alone.
\<close>

definition keyTag :: "string \<Rightarrow> string" where
  "keyTag key = replicate (length key) (CHR 0x01) @ CHR 0x00 # key"

definition exampleAEAD :: AEAD where
  "exampleAEAD =
     \<lparr>Seal = (\<lambda>key nonce p. keyTag key @ p),
      Open = (\<lambda>key nonce c. if prefix (keyTag key) c then Some (drop (length (keyTag key)) c) else None),
      Hmac = (\<lambda>key msg. take 32 (key @ replicate 32 (CHR 0x00))),
      Sha256 = (\<lambda>msg. take 32 (msg @ replicate 32 (CHR 0x00)))\<rparr>"

lemma keyTag_unique: "prefix (keyTag key') (keyTag key @ p) \<Longrightarrow> key' = key"
proof -
  assume "prefix (keyTag key') (keyTag key @ p)"
  then obtain z where "replicate (length key') (CHR 0x01) @ CHR 0x00 # key' @ z = replicate (length key) (CHR 0x01) @ CHR 0x00 # key @ p"
    by (auto simp: prefix_def keyTag_def)
  moreover have "replicate m x @ y # a = replicate n x @ y # b \<Longrightarrow> x \<noteq> y \<Longrightarrow> m = n \<and> a = b" for m n x and y :: char and a b
  proof (induction m arbitrary: n)
    case 0
    then show ?case by (cases n) auto
  next
    case (Suc m)
    then show ?case by (cases n) auto
  qed
  ultimately have "length key' = length key \<and> key' @ z = key @ p" by blast
  then show ?thesis by (metis append_eq_append_conv)
qed

lemma exampleAEAD_ok: "aead_ok exampleAEAD"
  using keyTag_unique by (auto simp: aead_ok_def exampleAEAD_def)

definition exampleKey :: "char \<Rightarrow> string" where "exampleKey c = replicate 32 c"

lemma exampleRings:
  "\<exists>r. NewKeyring exampleAEAD (exampleKey (CHR ''a'')) [] = Inr r"
  "\<exists>r. NewKeyring exampleAEAD (exampleKey (CHR ''b'')) [] = Inr r \<and> DeriveKeyID exampleAEAD (exampleKey (CHR ''a'')) \<notin> set (KeyIDs r)"
  "\<exists>r. NewKeyring exampleAEAD (exampleKey (CHR ''b'')) [exampleKey (CHR ''a'')] = Inr r"
proof -
  have ids: "DeriveKeyID exampleAEAD (exampleKey (CHR ''a'')) = ''61616161''" "DeriveKeyID exampleAEAD (exampleKey (CHR ''b'')) = ''62626262''"
    by code_simp+
  have entries: "newKeyEntry exampleAEAD (exampleKey (CHR ''a'')) = Inr \<lparr>ke_id = ''61616161'', ke_key = exampleKey (CHR ''a'')\<rparr>"
    "newKeyEntry exampleAEAD (exampleKey (CHR ''b'')) = Inr \<lparr>ke_id = ''62626262'', ke_key = exampleKey (CHR ''b'')\<rparr>"
    unfolding newKeyEntry_def ids by (simp_all add: exampleKey_def)
  show "\<exists>r. NewKeyring exampleAEAD (exampleKey (CHR ''a'')) [] = Inr r"
    "\<exists>r. NewKeyring exampleAEAD (exampleKey (CHR ''b'')) [] = Inr r \<and> DeriveKeyID exampleAEAD (exampleKey (CHR ''a'')) \<notin> set (KeyIDs r)"
    "\<exists>r. NewKeyring exampleAEAD (exampleKey (CHR ''b'')) [exampleKey (CHR ''a'')] = Inr r"
    by (simp_all add: NewKeyring_def entries ids KeyIDs_def)
qed

text \<open>
  C29. Key rotation: a ring built with a new primary key and the old one among its previous keys reads every
  credential an earlier ring sealed, for every plaintext and nonce; and what the new ring seals it reads too.
\<close>

theorem rotation_reads_old:
  assumes "aead_ok A" "NewKeyring A p ps = Inr old" "NewKeyring A q qs = Inr new" "p \<in> set (q # qs)" "length nonce = NonceSize"
  shows "Decrypt_ring A new (sealed A old nonce m) = Inr m \<and> Decrypt_ring A new (sealed A new nonce m) = Inr m"
proof -
  note old = NewKeyring_ok [OF assms(2)] and new = NewKeyring_ok [OF assms(3)]
  have "ke_key ` set (kr_order new) = set (q # qs)" by (metis new(2) set_map)
  then have "ke_key (kr_primary old) \<in> ke_key ` set (kr_order new)" "ke_key (kr_primary new) \<in> ke_key ` set (kr_order new)"
    using old(3) new(3) assms(4) by auto
  then show ?thesis using decrypt_sealed assms(1,5) old(1) new(1) by blast
qed

theorem rotation_reads_old_witness:
  "Decrypt_ring exampleAEAD
     (case NewKeyring exampleAEAD (exampleKey (CHR ''b'')) [exampleKey (CHR ''a'')] of Inr r \<Rightarrow> r)
     (sealed exampleAEAD (case NewKeyring exampleAEAD (exampleKey (CHR ''a'')) [] of Inr r \<Rightarrow> r) (replicate 12 (CHR ''n'')) ''secret'') = Inr ''secret''"
proof -
  obtain old new where r: "NewKeyring exampleAEAD (exampleKey (CHR ''a'')) [] = Inr old"
    "NewKeyring exampleAEAD (exampleKey (CHR ''b'')) [exampleKey (CHR ''a'')] = Inr new"
    using exampleRings by blast
  show ?thesis using rotation_reads_old [OF exampleAEAD_ok r, of "replicate 12 (CHR ''n'')" "''secret''"] r
    by (simp add: NonceSize_def)
qed

text \<open>
  C37. A credential sealed under a key the ring does not hold is refused with an error; it is never opened
  under another key and never handed out as it stands.
\<close>

theorem unknown_key_refused:
  assumes "aead_ok A" "NewKeyring A p ps = Inr old" "NewKeyring A q qs = Inr new" "DeriveKeyID A p \<notin> set (KeyIDs new)"
  shows "Decrypt_ring A new (sealed A old nonce m) = Inl (ErrNew ''crypto: ciphertext is under a key which is not in the ring'')"
proof -
  note old = NewKeyring_ok [OF assms(2)] and new = NewKeyring_ok [OF assms(3)]
  have "ke_id (kr_primary old) = DeriveKeyID A p" using old(1,3) by (auto simp: ring_ok_def)
  then show ?thesis using decrypt_foreign_key [OF assms(1) old(1) _ new(1)] assms(4) by simp
qed

theorem unknown_key_refused_witness:
  "Decrypt_ring exampleAEAD (case NewKeyring exampleAEAD (exampleKey (CHR ''b'')) [] of Inr r \<Rightarrow> r)
     (sealed exampleAEAD (case NewKeyring exampleAEAD (exampleKey (CHR ''a'')) [] of Inr r \<Rightarrow> r) ''nonce'' ''secret'') =
   Inl (ErrNew ''crypto: ciphertext is under a key which is not in the ring'')"
proof -
  obtain old new where r: "NewKeyring exampleAEAD (exampleKey (CHR ''a'')) [] = Inr old"
    "NewKeyring exampleAEAD (exampleKey (CHR ''b'')) [] = Inr new" and n: "DeriveKeyID exampleAEAD (exampleKey (CHR ''a'')) \<notin> set (KeyIDs new)"
    using exampleRings by blast
  from unknown_key_refused [OF exampleAEAD_ok r n, of "''nonce''" "''secret''"] r show ?thesis by simp
qed

text \<open>
  A credential stored before keys were tagged is read under whichever key of the ring sealed it, and a
  value without the envelope's prefix, stored before encryption was on, is returned as it is.
\<close>

theorem legacy_ciphertext_read:
  assumes "aead_ok A" "NewKeyring A q qs = Inr ring" "key \<in> set (q # qs)" "length nonce = NonceSize" "\<not> prefix encPrefix plain"
  shows "Decrypt_ring A ring (encPrefix @ b64enc (nonce @ Seal A key nonce m)) = Inr m \<and> Decrypt_ring A ring plain = Inr plain"
proof -
  have "ke_key ` set (kr_order ring) = set (q # qs)" by (metis NewKeyring_ok(2) [OF assms(2)] set_map)
  then obtain e where "e \<in> set (kr_order ring)" "ke_key e = key" using assms(3) by (metis imageE)
  then show ?thesis using decrypt_legacy [OF assms(1) _ assms(4)] assms(5) by (auto simp: Decrypt_ring_def)
qed

theorem legacy_ciphertext_read_witness:
  "Decrypt_ring exampleAEAD (case NewKeyring exampleAEAD (exampleKey (CHR ''b'')) [] of Inr r \<Rightarrow> r)
     (encPrefix @ b64enc (replicate 12 (CHR ''n'') @ Seal exampleAEAD (exampleKey (CHR ''b'')) (replicate 12 (CHR ''n'')) ''secret'')) = Inr ''secret''"
proof -
  obtain ring where r: "NewKeyring exampleAEAD (exampleKey (CHR ''b'')) [] = Inr ring"
    using exampleRings by blast
  show ?thesis
    using legacy_ciphertext_read [OF exampleAEAD_ok r, of "exampleKey (CHR ''b'')" "replicate 12 (CHR ''n'')" "''{}''" "''secret''"] r
    by (simp add: NonceSize_def encPrefix_def)
qed



end
