(* ===== verification/UploadNames.thy ===== *)
theory UploadNames
  imports Domain
begin

section \<open>Names of uploaded files (\<^verbatim>\<open>workspace/filedrop.go\<close>)\<close>

text \<open>
  The pure part of the file drop: which file names are accepted, the reader format and the
  warehouse table a name stands for, and the object key a file is stored under, with
  \<^verbatim>\<open>path.Clean\<close> and \<^verbatim>\<open>path.Join\<close> of the Go library. Go iterates over a map in any order, so
  \<open>uploadFormat\<close> and \<open>longestStem\<close> take the iteration order as an argument; the lemmas show that it
  does not matter. The other lemmas show that a derived table name is a plain identifier and that
  the object key of an accepted name stays inside its pipeline's own prefix.
\<close>

definition uploadExtensions :: "(string \<times> string) list" where
  "uploadExtensions =
     [(''.csv'', ''csv''), (''.tsv'', ''csv''), (''.parquet'', ''parquet''), (''.jsonl'', ''jsonl''), (''.ndjson'', ''jsonl'')]"

definition is_alnum :: "char \<Rightarrow> bool" where
  "is_alnum c \<longleftrightarrow> is_lower c \<or> is_upper c \<or> is_digit c"

text \<open>\<^verbatim>\<open>uploadFilenamePattern\<close>: one letter or digit, then at most 199 characters of the safe set.\<close>

definition uploadFilenamePattern :: "string \<Rightarrow> bool" where
  "uploadFilenamePattern s =
     (case s of
        [] \<Rightarrow> False
      | c # r \<Rightarrow> is_alnum c \<and> length r \<le> 199 \<and>
          list_all (\<lambda>x. is_alnum x \<or> x \<in> {CHR ''.'', CHR ''_'', CHR '' '', CHR ''-''}) r)"

fun longest_ext :: "(string \<times> string) list \<Rightarrow> string \<Rightarrow> string \<times> string \<Rightarrow> string \<times> string" where
  "longest_ext [] lower best = best"
| "longest_ext ((e, f) # xs) lower best =
     longest_ext xs lower (if suffix e lower \<and> length (snd best) < length e then (f, e) else best)"

definition uploadFormat :: "(string \<times> string) list \<Rightarrow> string \<Rightarrow> string" where
  "uploadFormat order name =
     (let (format, ext) = longest_ext order (ToLower name) ([], []) in
      if format \<noteq> [] \<and> length name = length ext then [] else format)"

definition ValidateUploadFilename :: "string \<Rightarrow> err option" where
  "ValidateUploadFilename name =
     (if name = [] then Some ErrInvalidUploadFile
      else if \<not> uploadFilenamePattern name then Some ErrInvalidUploadFile
      else if uploadFormat uploadExtensions name = [] then Some ErrInvalidUploadFile
      else None)"

fun longestStem_from :: "(string \<times> string) list \<Rightarrow> string \<Rightarrow> string \<Rightarrow> string" where
  "longestStem_from [] lower best = best"
| "longestStem_from ((e, f) # xs) lower best =
     longestStem_from xs lower
       (if suffix e lower \<and> length lower - length e < length best then take (length lower - length e) lower
        else best)"

definition longestStem :: "(string \<times> string) list \<Rightarrow> string \<Rightarrow> string" where
  "longestStem order lower = longestStem_from order lower lower"

text \<open>\<^verbatim>\<open>tableNameSanitizer.ReplaceAllString(s, "_")\<close>.\<close>

definition is_tablechar :: "char \<Rightarrow> bool" where
  "is_tablechar c \<longleftrightarrow> is_lower c \<or> is_digit c"

function sanitize :: "string \<Rightarrow> string" where
  "sanitize [] = []"
| "sanitize (c # s) =
     (if is_tablechar c then c # sanitize s
      else CHR ''_'' # sanitize (dropWhile (\<lambda>x. \<not> is_tablechar x) s))"
  by pat_completeness auto
termination
  by (relation "measure length") (auto simp: le_imp_less_Suc length_dropWhile_le)

definition UploadTableName :: "string \<Rightarrow> string" where
  "UploadTableName filename =
     (let stem = longestStem uploadExtensions (ToLower filename);
          name = trim_by (\<lambda>c. c = CHR ''_'') (sanitize stem) in
      if name = [] \<or> is_digit (hd name) then ''t_'' @ name else name)"

subsection \<open>Object keys\<close>

text \<open>\<^verbatim>\<open>path.Clean\<close> on the elements of a path, kept in reverse.\<close>

fun clean_elems :: "bool \<Rightarrow> string list \<Rightarrow> string list \<Rightarrow> string list" where
  "clean_elems rooted acc [] = rev acc"
| "clean_elems rooted acc (e # es) =
     (if e = [] \<or> e = ''.'' then clean_elems rooted acc es
      else if e = ''..'' then
        (case acc of
           [] \<Rightarrow> clean_elems rooted (if rooted then [] else [e]) es
         | a # as \<Rightarrow> (if a = ''..'' then clean_elems rooted (e # acc) es else clean_elems rooted as es))
      else clean_elems rooted (e # acc) es)"

definition path_Clean :: "string \<Rightarrow> string" where
  "path_Clean p =
     (let rooted = (p \<noteq> [] \<and> hd p = CHR ''/'');
          out = join_with ''/'' (clean_elems rooted [] (split_on (CHR ''/'') p)) in
      if rooted then CHR ''/'' # out else if out = [] then ''.'' else out)"

definition path_Join :: "string list \<Rightarrow> string" where
  "path_Join elems =
     (if list_all (\<lambda>e. e = []) elems then []
      else path_Clean (join_with ''/'' (dropWhile (\<lambda>e. e = []) elems)))"

definition fileDropKey :: "S3Config \<Rightarrow> string \<Rightarrow> string \<Rightarrow> string" where
  "fileDropKey s3 pipelineID filename = path_Join [s3_KeyPrefix s3, ''uploads'', pipelineID, filename]"

definition fileDropBucketURL :: "S3Config \<Rightarrow> string \<Rightarrow> string" where
  "fileDropBucketURL s3 pipelineID =
     ''s3://'' @ path_Join [s3_Bucket s3, s3_KeyPrefix s3, ''uploads'', pipelineID] @ ''/''"

subsection \<open>The map's iteration order does not matter\<close>

text \<open>At most one extension fits a name: each has one dot, its first character.\<close>

lemma ext_dot: "e \<in> fst ` set uploadExtensions \<Longrightarrow> \<exists>r. e = CHR ''.'' # r \<and> CHR ''.'' \<notin> set r"
  by (auto simp: uploadExtensions_def)

lemma dot_suffix_unique:
  assumes "suffix (c # r) s" "suffix (c # q) s" "c \<notin> set r" "c \<notin> set q"
  shows "r = q"
proof -
  from assms(1,2) have "suffix (c # r) (c # q) \<or> suffix (c # q) (c # r)"
    by (rule suffix_same_cases)
  with assms(3,4) show ?thesis
    by (auto simp: suffix_def Cons_eq_append_conv)
qed

lemma ext_unique:
  assumes "(e, f) \<in> set uploadExtensions" "(e', f') \<in> set uploadExtensions" "suffix e s" "suffix e' s"
  shows "e = e' \<and> f = f'"
proof -
  have "e \<in> fst ` set uploadExtensions" "e' \<in> fst ` set uploadExtensions"
    using assms(1,2) by (auto intro: rev_image_eqI)
  then have "e = e'" using ext_dot dot_suffix_unique assms(3,4) by metis
  then show ?thesis using assms(1,2) by (auto simp: uploadExtensions_def)
qed

text \<open>The scan returns the entry that fits, if there is one, whatever the order.\<close>

lemma longest_ext_fits:
  assumes "set xs \<subseteq> set uploadExtensions" "(e, f) \<in> set uploadExtensions" "suffix e s"
    "best = (f, e) \<or> best = ([], []) \<and> (e, f) \<in> set xs"
  shows "longest_ext xs s best = (f, e)"
  using assms(1,4)
proof (induction xs arbitrary: best)
  case (Cons x xs)
  obtain e' f' where x: "x = (e', f')" by (cases x)
  have mem: "(e', f') \<in> set uploadExtensions" using Cons.prems x by auto
  have ne: "e \<noteq> []" using assms(2) by (auto simp: uploadExtensions_def)
  show ?case
  proof (cases "suffix e' s")
    case True
    then have "e' = e" "f' = f" using ext_unique [OF mem assms(2)] assms(3) by auto
    then show ?thesis using Cons True x ne by auto
  next
    case False
    then have "x \<noteq> (e, f)" using x assms(3) by auto
    then show ?thesis using Cons False x by auto
  qed
qed auto

lemma longest_ext_none:
  "\<forall>(e, f) \<in> set xs. \<not> suffix e s \<Longrightarrow> longest_ext xs s best = best"
  by (induction xs arbitrary: best) auto

lemma longest_ext_order:
  assumes "set xs = set uploadExtensions"
  shows "longest_ext xs s ([], []) = longest_ext uploadExtensions s ([], [])"
proof (cases "\<exists>(e, f) \<in> set uploadExtensions. suffix e s")
  case True
  then obtain e f where "(e, f) \<in> set uploadExtensions" "suffix e s" by auto
  then show ?thesis using longest_ext_fits assms by auto
next
  case False
  then have "\<forall>(e, f) \<in> set uploadExtensions. \<not> suffix e s" by auto
  then show ?thesis
    using longest_ext_none [of xs s] longest_ext_none [of uploadExtensions s] assms by simp
qed

lemma longestStem_fits:
  assumes "set xs \<subseteq> set uploadExtensions" "(e, f) \<in> set uploadExtensions" "suffix e s"
    "best = take (length s - length e) s \<or> best = s \<and> (e, f) \<in> set xs"
  shows "longestStem_from xs s best = take (length s - length e) s"
  using assms(1,4)
proof (induction xs arbitrary: best)
  case (Cons x xs)
  obtain e' f' where x: "x = (e', f')" by (cases x)
  have mem: "(e', f') \<in> set uploadExtensions" using Cons.prems x by auto
  have ne: "e \<noteq> []" using assms(2) by (auto simp: uploadExtensions_def)
  then have lt: "length s - length e < length s" using assms(3) by (cases s) auto
  show ?case
  proof (cases "suffix e' s")
    case True
    then have "e' = e" "f' = f" using ext_unique [OF mem assms(2)] assms(3) by auto
    then show ?thesis using Cons True x lt by auto
  next
    case False
    then have "x \<noteq> (e, f)" using x assms(3) by auto
    then show ?thesis using Cons False x by auto
  qed
qed auto

lemma longestStem_none: "\<forall>(e, f) \<in> set xs. \<not> suffix e s \<Longrightarrow> longestStem_from xs s best = best"
  by (induction xs arbitrary: best) auto

lemma longestStem_order:
  assumes "set xs = set uploadExtensions"
  shows "longestStem xs s = longestStem uploadExtensions s"
proof (cases "\<exists>(e, f) \<in> set uploadExtensions. suffix e s")
  case True
  then obtain e f where "(e, f) \<in> set uploadExtensions" "suffix e s" by auto
  then show ?thesis using longestStem_fits assms by (auto simp: longestStem_def)
next
  case False
  then have "\<forall>(e, f) \<in> set uploadExtensions. \<not> suffix e s" by auto
  then show ?thesis
    using longestStem_none [of xs s] longestStem_none [of uploadExtensions s] assms
    by (simp add: longestStem_def)
qed


subsection \<open>Table names are identifiers\<close>

definition is_tableident :: "char \<Rightarrow> bool" where
  "is_tableident c \<longleftrightarrow> is_tablechar c \<or> c = CHR ''_''"

lemma set_sanitize: "c \<in> set (sanitize s) \<Longrightarrow> is_tableident c"
  by (induction s rule: sanitize.induct) (auto simp: is_tableident_def split: if_splits)

lemma sanitize_hd: "s \<noteq> [] \<Longrightarrow> is_tablechar (hd s) \<Longrightarrow> sanitize s = hd s # sanitize (tl s)"
  by (cases s) auto

lemma sanitize_runs: "\<not> sublist ''__'' (sanitize s)"
proof (induction s rule: sanitize.induct)
  case (2 c s)
  let ?d = "dropWhile (\<lambda>x. \<not> is_tablechar x) s"
  have u: "\<not> is_tablechar (CHR ''_'')" by (simp add: is_tablechar_def is_lower_def is_digit_def less_eq_char_def)
  have "sanitize ?d = [] \<or> hd (sanitize ?d) \<noteq> CHR ''_''"
  proof (cases "?d = []")
    case False
    then have "is_tablechar (hd ?d)" using hd_dropWhile [OF False] by simp
    with False u show ?thesis by (auto simp: sanitize_hd)
  qed (simp del: dropWhile_eq_Nil_conv)
  then have "\<not> prefix ''_'' (sanitize ?d)" by (cases "sanitize ?d") auto
  then show ?case using 2 u by (auto simp: sublist_Cons_right)
qed simp

lemma UploadTableName_shape:
  "UploadTableName f \<noteq> [] \<and> is_lower (hd (UploadTableName f)) \<and>
   (\<forall>c \<in> set (UploadTableName f). is_tableident c) \<and> \<not> sublist ''__'' (UploadTableName f)"
proof -
  define n where "n = trim_by (\<lambda>c. c = CHR ''_'') (sanitize (longestStem uploadExtensions (ToLower f)))"
  have sub: "\<not> sublist ''__'' n" unfolding n_def
    using sanitize_runs trim_by_sublist sublist_order.order_trans by blast
  have id: "\<forall>c \<in> set n. is_tableident c" unfolding n_def using set_trim_by set_sanitize by blast
  have hd: "n \<noteq> [] \<Longrightarrow> hd n \<noteq> CHR ''_''" unfolding n_def using trim_by_hd by blast
  have t: "is_tableident (CHR ''t'')" "is_tableident (CHR ''_'')" "is_lower (CHR ''t'')"
    by (simp_all add: is_tableident_def is_tablechar_def is_lower_def less_eq_char_def)
  have eq: "UploadTableName f = (if n = [] \<or> is_digit (hd n) then ''t_'' @ n else n)"
    by (simp add: UploadTableName_def n_def Let_def)
  show ?thesis
  proof (cases "n = [] \<or> is_digit (hd n)")
    case True
    have "\<not> sublist ''__'' (''t_'' @ n)" using sub hd by (cases n) (auto simp: sublist_Cons_right)
    with True eq id t show ?thesis by auto
  next
    case False
    then have "is_lower (hd n)" using id hd by (auto simp: is_tableident_def is_tablechar_def)
    with False eq id sub show ?thesis by auto
  qed
qed

subsection \<open>The object key stays inside the pipeline's prefix\<close>

text \<open>A plain path element: not empty, no separator, not a dot element.\<close>

definition plain_elem :: "string \<Rightarrow> bool" where
  "plain_elem e \<longleftrightarrow> e \<noteq> [] \<and> e \<noteq> ''.'' \<and> e \<noteq> ''..'' \<and> CHR ''/'' \<notin> set e"

lemma clean_elems_append:
  "clean_elems rooted acc (es @ fs) = clean_elems rooted (rev (clean_elems rooted acc es)) fs"
  by (induction rooted acc es rule: clean_elems.induct) (auto split: list.splits)

lemma clean_elems_plain: "\<forall>e \<in> set es. plain_elem e \<Longrightarrow> clean_elems rooted acc es = rev acc @ es"
  by (induction es arbitrary: acc) (auto simp: plain_elem_def)

lemma join_with_ne: "ws \<noteq> [] \<Longrightarrow> last ws \<noteq> [] \<Longrightarrow> join_with sep ws \<noteq> []"
  by (induction sep ws rule: join_with.induct) auto

text \<open>Joining plain elements below any prefix puts them at the end of the path.\<close>

lemma path_Join_plain_end:
  assumes "\<forall>e \<in> set es. plain_elem e" "es \<noteq> []"
  shows "\<exists>pre. path_Join (xs @ es) = pre @ join_with ''/'' es \<and> (pre = [] \<or> last pre = CHR ''/'')"
proof -
  let ?ne = "dropWhile (\<lambda>e. e = []) (xs @ es)"
  have "hd es \<noteq> []" "es \<noteq> []" using assms by (auto simp: plain_elem_def)
  then have "\<exists>ys. ?ne = ys @ es"
    by (induction xs) (auto simp: neq_Nil_conv)
  then obtain ys where ys: "?ne = ys @ es" by blast
  have nall: "\<not> list_all (\<lambda>e. e = []) (xs @ es)" using assms by (auto simp: list_all_iff plain_elem_def neq_Nil_conv)
  have nos: "\<forall>w \<in> set es. CHR ''/'' \<notin> set w" using assms by (auto simp: plain_elem_def)
  define p where "p = join_with ''/'' ?ne"
  define rooted where "rooted = (p \<noteq> [] \<and> hd p = CHR ''/'')"
  have "\<exists>zs. split_on (CHR ''/'') p = zs @ es"
  proof (cases "ys = []")
    case True
    then show ?thesis using ys nos assms(2) by (simp add: p_def split_join)
  next
    case False
    then have "p = join_with ''/'' ys @ CHR ''/'' # join_with ''/'' es"
      using ys assms(2) by (simp add: p_def join_with_append)
    then show ?thesis using nos assms(2) by (simp add: split_on_snoc split_join)
  qed
  then obtain zs where zs: "split_on (CHR ''/'') p = zs @ es" by blast
  define cs where "cs = clean_elems rooted [] zs"
  have ce: "clean_elems rooted [] (split_on (CHR ''/'') p) = cs @ es"
    using assms(1) by (simp add: zs clean_elems_append clean_elems_plain cs_def)
  have ne: "join_with ''/'' (cs @ es) \<noteq> []"
    using assms by (intro join_with_ne) (auto simp: plain_elem_def dest: last_in_set)
  have "path_Join (xs @ es) = (if rooted then [CHR ''/''] else []) @ join_with ''/'' (cs @ es)"
    using nall ne by (simp add: path_Join_def path_Clean_def ce flip: p_def rooted_def)
  then show ?thesis using assms(2)
    by (cases "cs = []") (auto simp: join_with_append)
qed


lemma valid_filename_plain: "ValidateUploadFilename f = None \<Longrightarrow> plain_elem f \<and> length f \<le> 200"
proof -
  assume "ValidateUploadFilename f = None"
  then have "uploadFilenamePattern f" by (auto simp: ValidateUploadFilename_def split: if_splits)
  then obtain c r where f: "f = c # r" "is_alnum c" "length r \<le> 199"
      "list_all (\<lambda>x. is_alnum x \<or> x \<in> {CHR ''.'', CHR ''_'', CHR '' '', CHR ''-''}) r"
    by (auto simp: uploadFilenamePattern_def split: list.splits)
  have a: "is_alnum x \<Longrightarrow> x \<noteq> CHR ''/'' \<and> x \<noteq> CHR ''.''" for x
    by (auto simp: is_alnum_def is_lower_def is_upper_def is_digit_def less_eq_char_def)
  have "CHR ''/'' \<notin> set r" using f(4) a by (auto simp: list_all_iff)
  then show ?thesis using f a [OF f(2)] by (auto simp: plain_elem_def)
qed

lemma fileDropKey_end:
  assumes "plain_elem pipelineID" "plain_elem f"
  shows "\<exists>pre. fileDropKey s3 pipelineID f = pre @ ''uploads/'' @ pipelineID @ ''/'' @ f
           \<and> (pre = [] \<or> last pre = CHR ''/'')"
proof -
  have "\<forall>e \<in> set [''uploads'', pipelineID, f]. plain_elem e" using assms by (simp add: plain_elem_def)
  from path_Join_plain_end [OF this, of "[s3_KeyPrefix s3]"] show ?thesis by (simp add: fileDropKey_def)
qed

lemma plain_end_unique:
  assumes "x @ a @ CHR ''/'' # b = y @ c @ CHR ''/'' # d" "CHR ''/'' \<notin> set b" "CHR ''/'' \<notin> set d"
  shows "x @ a = y @ c \<and> b = d"
proof -
  have "split_on (CHR ''/'') ((x @ a) @ CHR ''/'' # b) = split_on (CHR ''/'') ((y @ c) @ CHR ''/'' # d)"
    using assms(1) by simp
  then have "split_on (CHR ''/'') (x @ a) @ [b] = split_on (CHR ''/'') (y @ c) @ [d]"
    using split_on_plain [OF assms(2)] split_on_plain [OF assms(3)] by (simp only: split_on_snoc)
  then have "split_on (CHR ''/'') (x @ a) = split_on (CHR ''/'') (y @ c)" "b = d" by auto
  then show ?thesis by (metis join_split)
qed

lemma fileDropKey_inj:
  assumes "plain_elem p" "plain_elem f" "plain_elem q" "plain_elem g"
    and "fileDropKey s3 p f = fileDropKey s3' q g"
  shows "p = q \<and> f = g"
proof -
  obtain x where x: "fileDropKey s3 p f = x @ ''uploads/'' @ p @ ''/'' @ f" using fileDropKey_end assms by blast
  obtain y where y: "fileDropKey s3' q g = y @ ''uploads/'' @ q @ ''/'' @ g" using fileDropKey_end assms by blast
  have e: "(x @ ''uploads/'') @ p @ CHR ''/'' # f = (y @ ''uploads/'') @ q @ CHR ''/'' # g"
    using assms(5) x y by simp
  from plain_end_unique [OF e] assms have 1: "(x @ ''uploads/'') @ p = (y @ ''uploads/'') @ q" "f = g"
    by (auto simp: plain_elem_def)
  from 1(1) have "x @ ''uploads'' @ CHR ''/'' # p = y @ ''uploads'' @ CHR ''/'' # q" by simp
  from plain_end_unique [OF this] assms 1(2) show ?thesis by (auto simp: plain_elem_def)
qed

text \<open>A path of plain elements, empty parts aside, joins to those elements.\<close>

lemma clean_elems_filter:
  "\<forall>e \<in> set es. e = [] \<or> plain_elem e \<Longrightarrow> clean_elems rooted acc es = rev acc @ filter (\<lambda>e. e \<noteq> []) es"
  by (induction es arbitrary: acc) (auto simp: plain_elem_def)

lemma split_on_join: "es \<noteq> [] \<Longrightarrow> split_on c (join_with [c] es) = concat (map (split_on c) es)"
proof (induction "[c]" es rule: join_with.induct)
  case (3 w v ws)
  then show ?case by (simp add: split_on_snoc)
qed auto

lemma split_path: "\<forall>k \<in> set ks. plain_elem k \<Longrightarrow> filter (\<lambda>e. e \<noteq> []) (split_on (CHR ''/'') (join_with ''/'' ks)) = ks"
proof (cases "ks = []")
  case False
  assume a: "\<forall>k \<in> set ks. plain_elem k"
  then have "split_on (CHR ''/'') (join_with [CHR ''/''] ks) = ks" using False by (intro split_join) (auto simp: plain_elem_def)
  then show ?thesis using a by (auto simp: plain_elem_def filter_id_conv)
qed simp

lemma split_path_elems:
  "\<forall>k \<in> set ks. plain_elem k \<Longrightarrow> e \<in> set (split_on (CHR ''/'') (join_with ''/'' ks)) \<Longrightarrow> e = [] \<or> plain_elem e"
  using arg_cong [OF split_path [of ks], of set] by auto

lemma path_Join_plain:
  assumes "\<forall>ks \<in> set kss. \<forall>k \<in> set ks. plain_elem k" "concat kss \<noteq> []"
  shows "path_Join (map (join_with ''/'') kss) = join_with ''/'' (concat kss)"
proof -
  let ?ne = "dropWhile (\<lambda>ks. ks = []) kss"
  have ne: "join_with ''/'' ks = [] \<longleftrightarrow> ks = []" if "ks \<in> set kss" for ks
    using assms(1) that join_with_ne [of ks "''/''"] by (cases ks rule: rev_cases) (auto simp: plain_elem_def)
  have dw: "dropWhile (\<lambda>e. e = []) (map (join_with ''/'') kss) = map (join_with ''/'') ?ne"
    unfolding dropWhile_map comp_def using ne by (intro arg_cong [where f = "map _"] dropWhile_cong) auto
  have "\<not> list_all (\<lambda>e. e = []) (map (join_with ''/'') kss)" using assms(2) ne by (auto simp: list_all_iff)
  have c: "concat ?ne = concat kss" by (induction kss) auto
  then have nn: "?ne \<noteq> []" using assms(2) by auto
  have sub: "set ?ne \<subseteq> set kss" by (auto dest: set_dropWhileD)
  let ?p = "join_with ''/'' (map (join_with ''/'') ?ne)"
  have sp: "split_on (CHR ''/'') ?p = concat (map (\<lambda>ks. split_on (CHR ''/'') (join_with ''/'' ks)) ?ne)"
    using split_on_join [of "map (join_with ''/'') ?ne" "CHR ''/''"] nn by (simp add: comp_def)
  have fl: "filter (\<lambda>e. e \<noteq> []) (split_on (CHR ''/'') ?p) = concat kss"
  proof -
    have "map (\<lambda>ks. filter (\<lambda>e. e \<noteq> []) (split_on (CHR ''/'') (join_with ''/'' ks))) ?ne = ?ne"
      by (rule map_idI, rule split_path) (use assms(1) sub in blast)
    then show ?thesis unfolding sp filter_concat map_map comp_def c [symmetric] by (rule arg_cong)
  qed
  obtain ks kss' where h: "?ne = ks # kss'" using nn by (cases ?ne) auto
  have hk: "ks \<noteq> []" using hd_dropWhile [of "\<lambda>ks. ks = []" kss] nn h by simp
  then obtain k kr where kk: "ks = k # kr" by (cases ks) auto
  have pk: "plain_elem k" using assms(1) sub h kk by auto
  have hp: "hd ?p \<noteq> CHR ''/''"
    using pk h kk by (cases kss'; cases kr; cases k) (auto simp: plain_elem_def)
  have pe: "e = [] \<or> plain_elem e" if "e \<in> set (split_on (CHR ''/'') ?p)" for e
    using that split_path_elems assms(1) sub unfolding sp by fastforce
  have ce: "clean_elems False [] (split_on (CHR ''/'') ?p) = concat kss" using clean_elems_filter [of _ False "[]"] pe fl by auto
  have "join_with ''/'' (concat kss) \<noteq> []"
    using assms(1) last_in_set [OF assms(2)] by (intro join_with_ne assms(2)) (auto simp: plain_elem_def)
  then show ?thesis
    using \<open>\<not> list_all _ _\<close> hp ce by (simp add: path_Join_def path_Clean_def dw Let_def)
qed

subsection \<open>Properties\<close>

text \<open>
  C39. Every file name, of any shape, gives a legal table name: not empty, starting with a letter, of
  lowercase letters, digits and underscores only, with no run of underscores.
\<close>

theorem upload_table_name_legal:
  "UploadTableName f \<noteq> [] \<and> is_lower (hd (UploadTableName f)) \<and>
   (\<forall>c \<in> set (UploadTableName f). is_lower c \<or> is_digit c \<or> c = CHR ''_'') \<and> \<not> sublist ''__'' (UploadTableName f)"
  using UploadTableName_shape [of f] by (auto simp: is_tableident_def is_tablechar_def)

theorem upload_table_name_legal_witness:
  "UploadTableName ''2024 Q1 -- Sales.CSV'' = ''t_2024_q1_sales'' \<and> is_lower (hd (UploadTableName ''2024 Q1 -- Sales.CSV''))"
  using upload_table_name_legal [of "''2024 Q1 -- Sales.CSV''"] by code_simp

text \<open>
  The upload pipeline recognises a file's format and strips its extension by ranging over a Go map,
  in an order that differs from run to run: the result is the same for every order.
\<close>

theorem upload_extension_order_irrelevant:
  assumes "set order = set uploadExtensions"
  shows "uploadFormat order name = uploadFormat uploadExtensions name \<and> longestStem order lower = longestStem uploadExtensions lower"
  using longest_ext_order [OF assms] longestStem_order [OF assms] by (simp_all add: uploadFormat_def)

theorem upload_extension_order_irrelevant_witness:
  "uploadFormat (rev uploadExtensions) ''a.ndjson'' = ''jsonl'' \<and> longestStem (rev uploadExtensions) ''a.ndjson'' = ''a''"
  using upload_extension_order_irrelevant [of "rev uploadExtensions" "''a.ndjson''" "''a.ndjson''"] by code_simp

text \<open>
  C35. The object an accepted upload is stored under lies in its pipeline's own folder and is named as the
  file, whatever the key prefix holds; and two uploads share an object only when pipeline and file name
  are the same.
\<close>

theorem upload_key_confined:
  assumes "ValidateUploadFilename f = None" "plain_elem p" "ValidateUploadFilename g = None" "plain_elem q"
  shows "(\<exists>pre. fileDropKey s3 p f = pre @ ''uploads/'' @ p @ ''/'' @ f \<and> (pre = [] \<or> last pre = CHR ''/'')) \<and>
    (fileDropKey s3 p f = fileDropKey s3' q g \<longrightarrow> p = q \<and> f = g)"
  using fileDropKey_end [OF assms(2)] fileDropKey_inj [OF assms(2) _ assms(4)] valid_filename_plain assms by blast

theorem upload_key_confined_witness:
  "ValidateUploadFilename ''a.csv'' = None \<and>
   (\<exists>pre. fileDropKey (zeroS3\<lparr>s3_Bucket := ''b'', s3_KeyPrefix := ''../x''\<rparr>)
     ''p1'' ''a.csv'' = pre @ ''uploads/p1/a.csv'')"
proof -
  have v: "ValidateUploadFilename ''a.csv'' = None" "plain_elem ''p1''" by code_simp+
  from upload_key_confined [OF v v] v(1) show ?thesis by simp metis
qed

text \<open>
  The worker reads what was uploaded: the bucket URL served for a pipeline, followed by the file name, is
  the URL of the object the upload was put under. The key prefix is any path of plain elements, or empty.
\<close>

theorem upload_served_where_stored:
  assumes "plain_elem (s3_Bucket s3)" "\<forall>k \<in> set ks. plain_elem k" "s3_KeyPrefix s3 = join_with ''/'' ks"
    "plain_elem p" "ValidateUploadFilename f = None"
  shows "fileDropBucketURL s3 p @ f = ''s3://'' @ s3_Bucket s3 @ ''/'' @ fileDropKey s3 p f"
proof -
  have u: "plain_elem ''uploads''" by (simp add: plain_elem_def)
  have f: "plain_elem f" using valid_filename_plain assms(5) by blast
  have key: "fileDropKey s3 p f = join_with ''/'' (ks @ [''uploads'', p, f])"
    using path_Join_plain [of "[ks, [''uploads''], [p], [f]]"] assms f u by (simp add: fileDropKey_def)
  have url: "fileDropBucketURL s3 p = ''s3://'' @ join_with ''/'' (s3_Bucket s3 # ks @ [''uploads'', p]) @ ''/''"
    using path_Join_plain [of "[[s3_Bucket s3], ks, [''uploads''], [p]]"] assms u by (simp add: fileDropBucketURL_def)
  have "join_with ''/'' (s3_Bucket s3 # ks @ [''uploads'', p, f]) = join_with ''/'' (s3_Bucket s3 # ks @ [''uploads'', p]) @ ''/'' @ f"
    using join_with_append [of "s3_Bucket s3 # ks @ [''uploads'', p]" "[f]" "''/''"] by simp
  moreover have "join_with ''/'' (s3_Bucket s3 # ks @ [''uploads'', p, f]) = s3_Bucket s3 @ ''/'' @ join_with ''/'' (ks @ [''uploads'', p, f])"
    using join_with_append [of "[s3_Bucket s3]" "ks @ [''uploads'', p, f]" "''/''"] by simp
  ultimately show ?thesis using key url by simp
qed

theorem upload_served_where_stored_witness:
  "fileDropBucketURL (zeroS3\<lparr>s3_Bucket := ''lake'', s3_KeyPrefix := ''a/b''\<rparr>) ''p1'' @ ''x.csv'' =
   ''s3://lake/'' @ fileDropKey (zeroS3\<lparr>s3_Bucket := ''lake'', s3_KeyPrefix := ''a/b''\<rparr>) ''p1'' ''x.csv''"
proof -
  have v: "ValidateUploadFilename ''x.csv'' = None" "plain_elem ''p1''" "plain_elem ''lake''" "\<forall>k \<in> set [''a'', ''b'']. plain_elem k" by code_simp+
  show ?thesis
    using upload_served_where_stored [OF _ v(4) _ v(2,1),
        of "(zeroS3\<lparr>s3_Bucket := ''lake'', s3_KeyPrefix := ''a/b''\<rparr>)"] v(3)
    by simp
qed

end
