(* ===== verification/PipelineSchema.thy ===== *)
theory PipelineSchema
  imports UploadNames
begin

section \<open>Source configurations and credentials (\<^verbatim>\<open>workspace/pipeline_schema.go\<close>)\<close>

text \<open>
  The save-time validation of a pipeline's source configuration and credentials, and the
  Google OAuth credential as it moves from Console input to the stored and the served form.
  A validator returns \<^const>\<open>None\<close> for an accepted text and the error otherwise; the checks are
  in the order of the code, so the first failing one decides the error. Structs keep the fields
  a check reads; a field that only has to decode (a \<^verbatim>\<open>RawMessage\<close> never fails) is left out.
\<close>

definition badConfig :: "string \<Rightarrow> err option" where
  "badConfig f = Some (ErrInvalidSourceConfig f)"

definition badCreds :: "string \<Rightarrow> err option" where
  "badCreds f = Some (ErrInvalidSourceCredentials f)"

definition index_field :: "string \<Rightarrow> nat \<Rightarrow> string \<Rightarrow> string" where
  "index_field xs i f = xs @ ''['' @ itoa i @ '']'' @ f"

text \<open>A loop over a slice that returns at the first bad element.\<close>

fun first_bad :: "(nat \<Rightarrow> 'a \<Rightarrow> err option) \<Rightarrow> nat \<Rightarrow> 'a list \<Rightarrow> err option" where
  "first_bad chk i [] = None"
| "first_bad chk i (x # xs) = (case chk i x of Some e \<Rightarrow> Some e | None \<Rightarrow> first_bad chk (Suc i) xs)"

lemma first_bad_None: "first_bad chk i xs = None \<longleftrightarrow> (\<forall>j < length xs. chk (i + j) (xs ! j) = None)"
proof (induction xs arbitrary: i)
  case (Cons x xs)
  have "(\<forall>j < length (x # xs). chk (i + j) ((x # xs) ! j) = None) \<longleftrightarrow>
        chk i x = None \<and> (\<forall>j < length xs. chk (Suc i + j) (xs ! j) = None)"
    by (auto simp: less_Suc_eq_0_disj)
  with Cons show ?case by (auto split: option.splits)
qed simp

lemma first_bad_None_iff:
  assumes "\<And>i x. chk i x = None \<longleftrightarrow> P x"
  shows "first_bad chk i xs = None \<longleftrightarrow> (\<forall>x \<in> set xs. P x)"
  using assms by (auto simp: first_bad_None all_set_conv_all_nth)

subsection \<open>rest_api\<close>

record restAPIResource =
  rr_Name :: string
  rr_Endpoint :: string

record restAPIConfig =
  ra_BaseURL :: string
  ra_Resources :: "restAPIResource list"
  ra_WriteDisposition :: string
  ra_Incremental :: "string option"

definition d_restAPIResource :: "restAPIResource decoder" where
  "d_restAPIResource = d_obj (\<lambda>ms r.
     Option.bind (dec_field d_str ''name'' ms (rr_Name r)) (\<lambda>n.
     Option.bind (dec_field d_str ''endpoint'' ms (rr_Endpoint r)) (\<lambda>e.
     Some \<lparr>rr_Name = n, rr_Endpoint = e\<rparr>)))"

text \<open>\<^verbatim>\<open>*incrementalConfig\<close>: its one field, the cursor path.\<close>

definition d_incremental :: "string option decoder" where
  "d_incremental = d_ptr [] (d_obj (\<lambda>ms c. dec_field d_str ''cursor_path'' ms c))"

definition d_restAPIConfig :: "restAPIConfig decoder" where
  "d_restAPIConfig = d_obj (\<lambda>ms c.
     Option.bind (dec_field d_str ''base_url'' ms (ra_BaseURL c)) (\<lambda>b.
     Option.bind (dec_field (d_list \<lparr>rr_Name = [], rr_Endpoint = []\<rparr> d_restAPIResource) ''resources'' ms (ra_Resources c)) (\<lambda>rs.
     Option.bind (dec_field d_str ''write_disposition'' ms (ra_WriteDisposition c)) (\<lambda>wd.
     Option.bind (dec_field d_incremental ''incremental'' ms (ra_Incremental c)) (\<lambda>inc.
     Some \<lparr>ra_BaseURL = b, ra_Resources = rs, ra_WriteDisposition = wd, ra_Incremental = inc\<rparr>)))))"

definition zeroRestAPIConfig :: restAPIConfig where
  "zeroRestAPIConfig = \<lparr>ra_BaseURL = [], ra_Resources = [], ra_WriteDisposition = [], ra_Incremental = None\<rparr>"

definition validateRestAPIResources :: "restAPIResource list \<Rightarrow> err option" where
  "validateRestAPIResources = first_bad (\<lambda>i r.
     if rr_Name r = [] then badConfig (index_field ''resources'' i ''.name'')
     else if rr_Endpoint r = [] then badConfig (index_field ''resources'' i ''.endpoint'')
     else None) 0"

definition validateRestAPIWriteDisposition :: "string \<Rightarrow> err option" where
  "validateRestAPIWriteDisposition wd =
     (if wd = [] then None
      else if wd \<in> {''append'', ''replace'', ''merge''} then None
      else badConfig ''write_disposition'')"

definition validateRestAPIConfig :: "raw \<Rightarrow> err option" where
  "validateRestAPIConfig raw =
     (if isEmptyJSON raw then badConfig ''source_config''
      else case Unmarshal d_restAPIConfig zeroRestAPIConfig raw of
        None \<Rightarrow> badConfig ''source_config''
      | Some cfg \<Rightarrow>
          (if ra_BaseURL cfg = [] then badConfig ''base_url''
           else if ra_Resources cfg = [] then badConfig ''resources''
           else case validateRestAPIResources (ra_Resources cfg) of
             Some e \<Rightarrow> Some e
           | None \<Rightarrow>
               (case validateRestAPIWriteDisposition (ra_WriteDisposition cfg) of
                  Some e \<Rightarrow> Some e
                | None \<Rightarrow>
                    (if ra_Incremental cfg = Some [] then badConfig ''incremental.cursor_path''
                     else None))))"

definition d_restAPICreds :: "string decoder" where
  "d_restAPICreds = d_obj (\<lambda>ms c. dec_field d_str ''api_key'' ms c)"

definition validateRestAPICreds :: "raw \<Rightarrow> err option" where
  "validateRestAPICreds raw =
     (if isEmptyJSON raw then None
      else case Unmarshal d_restAPICreds [] raw of
        None \<Rightarrow> badCreds ''source_credentials''
      | Some _ \<Rightarrow> None)"

subsection \<open>sql_database\<close>

record sqlDatabaseTableCfg =
  st_Name :: string
  st_Incremental :: "string option"

definition d_sqlDatabaseTableCfg :: "sqlDatabaseTableCfg decoder" where
  "d_sqlDatabaseTableCfg = d_obj (\<lambda>ms t.
     Option.bind (dec_field d_str ''name'' ms (st_Name t)) (\<lambda>n.
     Option.bind (dec_field d_incremental ''incremental'' ms (st_Incremental t)) (\<lambda>inc.
     Some \<lparr>st_Name = n, st_Incremental = inc\<rparr>)))"

text \<open>\<^verbatim>\<open>sqlDatabaseConfig\<close>: the table names and the per-table settings.\<close>

definition d_sqlDatabaseConfig :: "(string list \<times> sqlDatabaseTableCfg list) decoder" where
  "d_sqlDatabaseConfig = d_obj (\<lambda>ms (ts, tcs).
     Option.bind (dec_field (d_list [] d_str) ''tables'' ms ts) (\<lambda>ts'.
     Option.bind (dec_field (d_list \<lparr>st_Name = [], st_Incremental = None\<rparr> d_sqlDatabaseTableCfg) ''tables_config'' ms tcs) (\<lambda>tcs'.
     Some (ts', tcs'))))"

definition validateSQLDatabaseConfig :: "raw \<Rightarrow> err option" where
  "validateSQLDatabaseConfig raw =
     (if isEmptyJSON raw then None
      else case Unmarshal d_sqlDatabaseConfig ([], []) raw of
        None \<Rightarrow> badConfig ''source_config''
      | Some (ts, tcs) \<Rightarrow>
          first_bad (\<lambda>i tc.
            if st_Name tc = [] then badConfig (index_field ''tables_config'' i ''.name'')
            else if st_Incremental tc = Some [] then badConfig (index_field ''tables_config'' i ''.incremental.cursor_path'')
            else None) 0 tcs)"

definition validateSQLDatabaseDialect :: "string \<Rightarrow> err option" where
  "validateSQLDatabaseDialect cs =
     (case Cut cs ''://'' of
        None \<Rightarrow> badCreds ''connection_string''
      | Some (scheme, _) \<Rightarrow>
          (let (dialect, driver) = (case Cut (ToLower scheme) ''+'' of
                 None \<Rightarrow> (ToLower scheme, []) | Some (a, b) \<Rightarrow> (a, b)) in
           if dialect \<noteq> ''postgres'' \<and> dialect \<noteq> ''postgresql'' then badCreds ''connection_string''
           else if driver \<noteq> [] \<and> driver \<noteq> ''psycopg'' then badCreds ''connection_string''
           else None))"

definition d_sqlDatabaseCreds :: "string decoder" where
  "d_sqlDatabaseCreds = d_obj (\<lambda>ms c. dec_field d_str ''connection_string'' ms c)"

definition validateSQLDatabaseCreds :: "raw \<Rightarrow> err option" where
  "validateSQLDatabaseCreds raw =
     (if isEmptyJSON raw then badCreds ''source_credentials''
      else case Unmarshal d_sqlDatabaseCreds [] raw of
        None \<Rightarrow> badCreds ''source_credentials''
      | Some cs \<Rightarrow>
          (if cs = [] then badCreds ''connection_string'' else validateSQLDatabaseDialect cs))"

subsection \<open>filesystem\<close>

record filesystemConfig =
  fs_BucketURL :: string
  fs_FileGlob :: string

definition d_filesystemConfig_ms :: "(string \<times> json) list \<Rightarrow> filesystemConfig \<Rightarrow> filesystemConfig option" where
  "d_filesystemConfig_ms ms c =
     Option.bind (dec_field d_str ''bucket_url'' ms (fs_BucketURL c)) (\<lambda>b.
     Option.bind (dec_field d_str ''file_glob'' ms (fs_FileGlob c)) (\<lambda>g.
     Some \<lparr>fs_BucketURL = b, fs_FileGlob = g\<rparr>))"

definition d_filesystemConfig :: "filesystemConfig decoder" where
  "d_filesystemConfig = d_obj d_filesystemConfig_ms"

abbreviation zeroFilesystemConfig :: filesystemConfig where
  "zeroFilesystemConfig \<equiv> \<lparr>fs_BucketURL = [], fs_FileGlob = []\<rparr>"

definition validateFilesystemConfig :: "raw \<Rightarrow> err option" where
  "validateFilesystemConfig raw =
     (if isEmptyJSON raw then badConfig ''source_config''
      else case Unmarshal d_filesystemConfig zeroFilesystemConfig raw of
        None \<Rightarrow> badConfig ''source_config''
      | Some cfg \<Rightarrow> (if fs_BucketURL cfg = [] then badConfig ''bucket_url'' else None))"

record filesystemCreds =
  fc_AccessKeyID :: string
  fc_SecretAccessKey :: string
  fc_EndpointURL :: string
  fc_Region :: string

definition d_filesystemCreds :: "filesystemCreds decoder" where
  "d_filesystemCreds = d_obj (\<lambda>ms c.
     Option.bind (dec_field d_str ''access_key_id'' ms (fc_AccessKeyID c)) (\<lambda>a.
     Option.bind (dec_field d_str ''secret_access_key'' ms (fc_SecretAccessKey c)) (\<lambda>s.
     Option.bind (dec_field d_str ''endpoint_url'' ms (fc_EndpointURL c)) (\<lambda>e.
     Option.bind (dec_field d_str ''region'' ms (fc_Region c)) (\<lambda>r.
     Some \<lparr>fc_AccessKeyID = a, fc_SecretAccessKey = s, fc_EndpointURL = e, fc_Region = r\<rparr>)))))"

definition isPublicBucketURL :: "raw \<Rightarrow> bool" where
  "isPublicBucketURL config =
     (if isEmptyJSON config then False
      else case Unmarshal d_filesystemConfig zeroFilesystemConfig config of
        None \<Rightarrow> False
      | Some cfg \<Rightarrow>
          (let lower = ToLower (fs_BucketURL cfg)
           in prefix ''http://'' lower \<or> prefix ''https://'' lower))"

definition validateFilesystemCreds :: "raw \<Rightarrow> raw \<Rightarrow> err option" where
  "validateFilesystemCreds config raw =
     (if isPublicBucketURL config then None
      else if isEmptyJSON raw then badCreds ''source_credentials''
      else case Unmarshal d_filesystemCreds \<lparr>fc_AccessKeyID = [], fc_SecretAccessKey = [], fc_EndpointURL = [], fc_Region = []\<rparr> raw of
        None \<Rightarrow> badCreds ''source_credentials''
      | Some c \<Rightarrow>
          (if fc_AccessKeyID c = [] then badCreds ''access_key_id''
           else if fc_SecretAccessKey c = [] then badCreds ''secret_access_key''
           else None))"

subsection \<open>google_sheets\<close>

definition d_googleSheetsConfig :: "(string \<times> string list) decoder" where
  "d_googleSheetsConfig = d_obj (\<lambda>ms (sp, rs).
     Option.bind (dec_field d_str ''spreadsheet_url_or_id'' ms sp) (\<lambda>sp'.
     Option.bind (dec_field (d_list [] d_str) ''range_names'' ms rs) (\<lambda>rs'.
     Some (sp', rs'))))"

definition validateGoogleSheetsConfig :: "raw \<Rightarrow> err option" where
  "validateGoogleSheetsConfig raw =
     (if isEmptyJSON raw then badConfig ''source_config''
      else case Unmarshal d_googleSheetsConfig ([], []) raw of
        None \<Rightarrow> badConfig ''source_config''
      | Some (sp, rs) \<Rightarrow>
          (if sp = [] then badConfig ''spreadsheet_url_or_id''
           else first_bad (\<lambda>i r. if TrimSpace r = [] then badConfig (index_field ''range_names'' i []) else None) 0 rs))"

record googleOAuthCredential =
  go_GrantID :: string
  go_ConnectionID :: string
  go_RefreshToken :: string
  go_Email :: string
  go_ClientID :: string
  go_ClientSecret :: string

definition zeroOAuth :: googleOAuthCredential where
  "zeroOAuth = \<lparr>go_GrantID = [], go_ConnectionID = [], go_RefreshToken = [], go_Email = [], go_ClientID = [], go_ClientSecret = []\<rparr>"

definition d_oauth :: "googleOAuthCredential decoder" where
  "d_oauth = d_obj (\<lambda>ms o'.
     Option.bind (dec_field d_str ''grant_id'' ms (go_GrantID o')) (\<lambda>g.
     Option.bind (dec_field d_str ''connection_id'' ms (go_ConnectionID o')) (\<lambda>c.
     Option.bind (dec_field d_str ''refresh_token'' ms (go_RefreshToken o')) (\<lambda>t.
     Option.bind (dec_field d_str ''email'' ms (go_Email o')) (\<lambda>e.
     Option.bind (dec_field d_str ''client_id'' ms (go_ClientID o')) (\<lambda>i.
     Option.bind (dec_field d_str ''client_secret'' ms (go_ClientSecret o')) (\<lambda>s.
     Some \<lparr>go_GrantID = g, go_ConnectionID = c, go_RefreshToken = t, go_Email = e, go_ClientID = i, go_ClientSecret = s\<rparr>)))))))"

definition oauth_members :: "googleOAuthCredential \<Rightarrow> (string \<times> json) list" where
  "oauth_members o' =
     omit_str ''grant_id'' (go_GrantID o') @ omit_str ''connection_id'' (go_ConnectionID o') @
     omit_str ''refresh_token'' (go_RefreshToken o') @ omit_str ''email'' (go_Email o') @
     omit_str ''client_id'' (go_ClientID o') @ omit_str ''client_secret'' (go_ClientSecret o')"

definition validateGoogleOAuth :: "googleOAuthCredential \<Rightarrow> err option" where
  "validateGoogleOAuth o' =
     (if go_GrantID o' = [] \<and> go_ConnectionID o' = [] \<and> go_RefreshToken o' = [] then badCreds ''oauth'' else None)"

text \<open>\<^verbatim>\<open>googleServiceAccountKey\<close>: the client email and the private key.\<close>

definition d_serviceAccountKey :: "(string \<times> string) decoder" where
  "d_serviceAccountKey = d_obj (\<lambda>ms (e, k).
     Option.bind (dec_field d_str ''client_email'' ms e) (\<lambda>e'.
     Option.bind (dec_field d_str ''private_key'' ms k) (\<lambda>k'.
     Some (e', k'))))"

definition validateGoogleSheetsServiceAccount :: "raw \<Rightarrow> err option" where
  "validateGoogleSheetsServiceAccount sak =
     (let keyRaw = (case Unmarshal d_str [] sak of Some s \<Rightarrow> s | None \<Rightarrow> sak) in
      case Unmarshal d_serviceAccountKey ([], []) keyRaw of
        None \<Rightarrow> badCreds ''service_account_key''
      | Some (email, key) \<Rightarrow>
          (if email = [] then badCreds ''service_account_key''
           else if key = [] then badCreds ''service_account_key''
           else None))"

definition d_googleSheetsCreds :: "(raw \<times> googleOAuthCredential option) decoder" where
  "d_googleSheetsCreds = d_obj (\<lambda>ms (sa, o').
     Option.bind (dec_field d_raw ''service_account_key'' ms sa) (\<lambda>sa'.
     Option.bind (dec_field (d_ptr zeroOAuth d_oauth) ''oauth'' ms o') (\<lambda>o''.
     Some (sa', o''))))"

definition validateGoogleSheetsCreds :: "raw \<Rightarrow> err option" where
  "validateGoogleSheetsCreds raw =
     (if isEmptyJSON raw then badCreds ''source_credentials''
      else case Unmarshal d_googleSheetsCreds ([], None) raw of
        None \<Rightarrow> badCreds ''source_credentials''
      | Some (sa, oa) \<Rightarrow>
          (let hasSA = \<not> isEmptyJSON sa in
           case oa of
             Some o' \<Rightarrow> (if hasSA then badCreds ''source_credentials'' else validateGoogleOAuth o')
           | None \<Rightarrow> (if hasSA then validateGoogleSheetsServiceAccount sa else badCreds ''source_credentials'')))"


subsection \<open>file_upload\<close>

record UploadedFile =
  uf_Name :: string
  uf_File :: string
  uf_SizeBytes :: int
  uf_UploadedAt :: string
  uf_Missing :: bool

definition zeroUploadedFile :: UploadedFile where
  "zeroUploadedFile = \<lparr>uf_Name = [], uf_File = [], uf_SizeBytes = 0, uf_UploadedAt = [], uf_Missing = False\<rparr>"

text \<open>\<^verbatim>\<open>Missing\<close> is never encoded (\<^verbatim>\<open>json:"-"\<close>).\<close>

definition d_uploadedFile :: "UploadedFile decoder" where
  "d_uploadedFile = d_obj (\<lambda>ms f.
     Option.bind (dec_field d_str ''name'' ms (uf_Name f)) (\<lambda>n.
     Option.bind (dec_field d_str ''file'' ms (uf_File f)) (\<lambda>o'.
     Option.bind (dec_field d_int64 ''size_bytes'' ms (uf_SizeBytes f)) (\<lambda>b.
     Option.bind (dec_field d_str ''uploaded_at'' ms (uf_UploadedAt f)) (\<lambda>t.
     Some (f\<lparr>uf_Name := n, uf_File := o', uf_SizeBytes := b, uf_UploadedAt := t\<rparr>))))))"

text \<open>\<^verbatim>\<open>fileUploadConfig\<close>: its one field, the list of files.\<close>

definition d_fileUploadConfig :: "UploadedFile list decoder" where
  "d_fileUploadConfig = d_obj (\<lambda>ms fs. dec_field (d_list zeroUploadedFile d_uploadedFile) ''files'' ms fs)"

definition validateFileUploadConfig :: "raw \<Rightarrow> err option" where
  "validateFileUploadConfig raw =
     (if isEmptyJSON raw then None
      else case Unmarshal d_fileUploadConfig [] raw of
        None \<Rightarrow> badConfig ''source_config''
      | Some files \<Rightarrow>
          first_bad (\<lambda>i f.
            if uf_Name f = [] then badConfig (index_field ''files'' i ''.name'')
            else if ValidateUploadFilename (uf_File f) \<noteq> None then badConfig (index_field ''files'' i ''.file'')
            else None) 0 files)"

definition validateFileUploadCreds :: "raw \<Rightarrow> err option" where
  "validateFileUploadCreds raw = (if isEmptyJSON raw then None else badCreds ''source_credentials'')"

subsection \<open>duckdb\<close>

definition duckdbExtensionAllowlist :: "(string \<times> bool) list" where
  "duckdbExtensionAllowlist =
     [(''mysql'', True), (''mssql'', True), (''pdf'', True), (''webbed'', True), (''gdrive'', True), (''httpfs'', True)]"

definition duckdbSupportedExtensions :: "string list" where
  "duckdbSupportedExtensions = sort (map fst duckdbExtensionAllowlist)"

text \<open>\<^verbatim>\<open>duckdbIdentRe\<close> and the characters of a placeholder name.\<close>

definition duckdbIdentRe :: "string \<Rightarrow> bool" where
  "duckdbIdentRe s \<longleftrightarrow> s \<noteq> [] \<and> list_all (\<lambda>c. is_lower c \<or> is_digit c \<or> c = CHR ''_'') s"

definition is_placeholder_char :: "char \<Rightarrow> bool" where
  "is_placeholder_char c \<longleftrightarrow> is_alnum c \<or> c = CHR ''_''"

text \<open>
  \<^verbatim>\<open>duckdbPlaceholderRe.FindAllStringSubmatch\<close>: the names between braces, leftmost first, matches
  not overlapping.
\<close>

function placeholders :: "string \<Rightarrow> string list" where
  "placeholders [] = []"
| "placeholders (c # s) =
     (let n = takeWhile is_placeholder_char s; r = dropWhile is_placeholder_char s in
      if c = CHR ''{'' \<and> n \<noteq> [] \<and> r \<noteq> [] \<and> hd r = CHR ''}'' then n # placeholders (tl r)
      else placeholders s)"
  by pat_completeness auto
termination
  by (relation "measure length") (auto, meson diff_le_self le_imp_less_Suc le_trans length_dropWhile_le)

record duckdbTable =
  dt_Name :: string
  dt_Query :: string
  dt_CursorColumn :: string
  dt_PrimaryKey :: string

record duckdbConfig =
  dc_Extension :: string
  dc_Extensions :: "string list"
  dc_Attach :: string
  dc_Tables :: "duckdbTable list"

definition d_duckdbTable :: "duckdbTable decoder" where
  "d_duckdbTable = d_obj (\<lambda>ms t.
     Option.bind (dec_field d_str ''name'' ms (dt_Name t)) (\<lambda>n.
     Option.bind (dec_field d_str ''query'' ms (dt_Query t)) (\<lambda>q.
     Option.bind (dec_field d_str ''cursor_column'' ms (dt_CursorColumn t)) (\<lambda>c.
     Option.bind (dec_field d_str ''primary_key'' ms (dt_PrimaryKey t)) (\<lambda>k.
     Some \<lparr>dt_Name = n, dt_Query = q, dt_CursorColumn = c, dt_PrimaryKey = k\<rparr>)))))"

definition d_duckdbConfig :: "duckdbConfig decoder" where
  "d_duckdbConfig = d_obj (\<lambda>ms c.
     Option.bind (dec_field d_str ''extension'' ms (dc_Extension c)) (\<lambda>e.
     Option.bind (dec_field (d_list [] d_str) ''extensions'' ms (dc_Extensions c)) (\<lambda>es.
     Option.bind (dec_field d_str ''attach'' ms (dc_Attach c)) (\<lambda>a.
     Option.bind (dec_field (d_list \<lparr>dt_Name = [], dt_Query = [], dt_CursorColumn = [], dt_PrimaryKey = []\<rparr> d_duckdbTable) ''tables'' ms (dc_Tables c)) (\<lambda>ts.
     Some \<lparr>dc_Extension = e, dc_Extensions = es, dc_Attach = a, dc_Tables = ts\<rparr>)))))"

definition zeroDuckdbConfig :: duckdbConfig where
  "zeroDuckdbConfig = \<lparr>dc_Extension = [], dc_Extensions = [], dc_Attach = [], dc_Tables = []\<rparr>"

text \<open>The loop of \<^verbatim>\<open>loadList\<close>: \<open>out\<close> is what was appended so far, which is also what was seen.\<close>

fun loadList_loop :: "string list \<Rightarrow> string list \<Rightarrow> err + string list" where
  "loadList_loop [] out = Inr out"
| "loadList_loop (name # names) out =
     (if \<not> duckdbIdentRe name then Inl (ErrInvalidSourceConfig ''extension'')
      else if map_of duckdbExtensionAllowlist name \<noteq> Some True then Inl (ErrInvalidSourceConfig ''extension'')
      else loadList_loop names (if name \<in> set out then out else out @ [name]))"

definition loadList :: "duckdbConfig \<Rightarrow> err + string list" where
  "loadList c =
     (if dc_Extension c \<noteq> [] \<and> dc_Extensions c \<noteq> [] then Inl (ErrInvalidSourceConfig ''extensions'')
      else
        (let names = (if dc_Extension c \<noteq> [] then [dc_Extension c] else dc_Extensions c) in
         if names = [] then Inl (ErrInvalidSourceConfig ''extension'')
         else loadList_loop names []))"

definition hasExtension :: "duckdbConfig \<Rightarrow> string \<Rightarrow> bool" where
  "hasExtension c name \<longleftrightarrow> dc_Extension c = name \<or> name \<in> set (dc_Extensions c)"

definition validateDuckDBTables :: "string \<Rightarrow> duckdbTable list \<Rightarrow> err option" where
  "validateDuckDBTables attach = first_bad (\<lambda>i t.
     if dt_Name t = [] then badConfig (index_field ''tables'' i ''.name'')
     else if attach = [] \<and> dt_Query t = [] then badConfig (index_field ''tables'' i ''.query'')
     else if dt_CursorColumn t \<noteq> [] \<and> \<not> duckdbIdentRe (ToLower (dt_CursorColumn t))
       then badConfig (index_field ''tables'' i ''.cursor_column'')
     else None) 0"

definition validateDuckDBConfig :: "raw \<Rightarrow> err option" where
  "validateDuckDBConfig raw =
     (if isEmptyJSON raw then badConfig ''source_config''
      else case Unmarshal d_duckdbConfig zeroDuckdbConfig raw of
        None \<Rightarrow> badConfig ''source_config''
      | Some cfg \<Rightarrow>
          (case loadList cfg of
             Inl e \<Rightarrow> Some e
           | Inr _ \<Rightarrow>
               (if dc_Tables cfg = [] then badConfig ''tables''
                else validateDuckDBTables (dc_Attach cfg) (dc_Tables cfg))))"

record duckdbCreds =
  dk_AttachParams :: "(string \<times> string) list"
  dk_Secret :: "(string \<times> string) list"
  dk_OAuth :: "googleOAuthCredential option"

definition zeroDuckdbCreds :: duckdbCreds where
  "zeroDuckdbCreds = \<lparr>dk_AttachParams = [], dk_Secret = [], dk_OAuth = None\<rparr>"

definition d_duckdbCreds :: "duckdbCreds decoder" where
  "d_duckdbCreds = d_obj (\<lambda>ms c.
     Option.bind (dec_field (d_map [] d_str) ''attach_params'' ms (dk_AttachParams c)) (\<lambda>a.
     Option.bind (dec_field (d_map [] d_str) ''secret'' ms (dk_Secret c)) (\<lambda>s.
     Option.bind (dec_field (d_ptr zeroOAuth d_oauth) ''oauth'' ms (dk_OAuth c)) (\<lambda>o'.
     Some \<lparr>dk_AttachParams = a, dk_Secret = s, dk_OAuth = o'\<rparr>))))"

definition omit_map :: "string \<Rightarrow> (string \<times> string) list \<Rightarrow> (string \<times> json) list" where
  "omit_map k m = (if m = [] then [] else [(k, jmap (map (\<lambda>(a, b). (a, jstr b)) m))])"

definition enc_duckdbCreds :: "duckdbCreds \<Rightarrow> json" where
  "enc_duckdbCreds c = jobj
     (omit_map ''attach_params'' (dk_AttachParams c) @ omit_map ''secret'' (dk_Secret c) @
      (case dk_OAuth c of None \<Rightarrow> [] | Some o' \<Rightarrow> [(''oauth'', jobj (oauth_members o'))]))"

definition secret_default :: "string \<Rightarrow> string \<Rightarrow> (string \<times> string) list \<Rightarrow> (string \<times> string) list" where
  "secret_default k v m = (if gm_str m k = [] then AList.update k v m else m)"

definition googleSecret :: "googleOAuthCredential \<Rightarrow> (string \<times> string) list \<Rightarrow> (string \<times> string) list" where
  "googleSecret o' m =
     AList.update ''CLIENT_SECRET'' (go_ClientSecret o')
       (AList.update ''CLIENT_ID'' (go_ClientID o')
         (AList.update ''REFRESH_TOKEN'' (go_RefreshToken o')
           (secret_default ''PROVIDER'' ''config'' (secret_default ''type'' ''gdrive'' m))))"

definition renderDuckDBGoogleSecret :: "raw \<Rightarrow> googleOAuthCredential \<Rightarrow> err + raw" where
  "renderDuckDBGoogleSecret raw o' =
     (case (if isEmptyJSON raw then Some zeroDuckdbCreds else Unmarshal d_duckdbCreds zeroDuckdbCreds raw) of
        None \<Rightarrow> Inl (ErrNew ''parse duckdb credentials'')
      | Some creds \<Rightarrow>
          Inr (Marshal (enc_duckdbCreds (creds\<lparr>dk_OAuth := None, dk_Secret := googleSecret o' (dk_Secret creds)\<rparr>))))"

text \<open>
  The loop keeps the missing names in the order of the template, each once; the error is
  returned when there are any.
\<close>

fun missing_params :: "(string \<times> string) list \<Rightarrow> string list \<Rightarrow> string list \<Rightarrow> string list" where
  "missing_params params [] missing = missing"
| "missing_params params (m # ms) missing =
     missing_params params ms
       (if m \<notin> fst ` set params \<and> m \<notin> set missing then missing @ [m] else missing)"

definition validateDuckDBAttachParams :: "string \<Rightarrow> (string \<times> string) list \<Rightarrow> err option" where
  "validateDuckDBAttachParams attach params =
     (if missing_params params (placeholders attach) [] \<noteq> [] then badCreds ''attach_params'' else None)"

definition validateDuckDBOAuth :: "duckdbConfig \<Rightarrow> googleOAuthCredential option \<Rightarrow> err option" where
  "validateDuckDBOAuth cfg oa =
     (case oa of
        None \<Rightarrow> None
      | Some o' \<Rightarrow> (if \<not> hasExtension cfg ''gdrive'' then badCreds ''oauth'' else validateGoogleOAuth o'))"

definition validateDuckDBCreds :: "raw \<Rightarrow> raw \<Rightarrow> err option" where
  "validateDuckDBCreds config raw =
     (case (if isEmptyJSON config then Some zeroDuckdbConfig else Unmarshal d_duckdbConfig zeroDuckdbConfig config) of
        None \<Rightarrow> badCreds ''source_config''
      | Some cfg \<Rightarrow>
          (case (if isEmptyJSON raw then Some zeroDuckdbCreds else Unmarshal d_duckdbCreds zeroDuckdbCreds raw) of
             None \<Rightarrow> badCreds ''source_credentials''
           | Some creds \<Rightarrow>
               (case validateDuckDBAttachParams (dc_Attach cfg) (dk_AttachParams creds) of
                  Some e \<Rightarrow> Some e
                | None \<Rightarrow> validateDuckDBOAuth cfg (dk_OAuth creds))))"

subsection \<open>Dispatch on the source type\<close>

definition ValidateSourceConfig :: "string \<Rightarrow> raw \<Rightarrow> err option" where
  "ValidateSourceConfig sourceType raw =
     (if sourceType = ''rest_api'' then validateRestAPIConfig raw
      else if sourceType = ''sql_database'' then validateSQLDatabaseConfig raw
      else if sourceType = ''filesystem'' then validateFilesystemConfig raw
      else if sourceType = ''google_sheets'' then validateGoogleSheetsConfig raw
      else if sourceType = SourceTypeFileUpload then validateFileUploadConfig raw
      else if sourceType = SourceTypeDuckDB then validateDuckDBConfig raw
      else badConfig ''source_type'')"

definition ValidateSourceCredentials :: "string \<Rightarrow> raw \<Rightarrow> raw \<Rightarrow> err option" where
  "ValidateSourceCredentials sourceType config raw =
     (if sourceType = ''rest_api'' then validateRestAPICreds raw
      else if sourceType = ''sql_database'' then validateSQLDatabaseCreds raw
      else if sourceType = ''filesystem'' then validateFilesystemCreds config raw
      else if sourceType = ''google_sheets'' then validateGoogleSheetsCreds raw
      else if sourceType = SourceTypeFileUpload then validateFileUploadCreds raw
      else if sourceType = SourceTypeDuckDB then validateDuckDBCreds config raw
      else badCreds ''source_type'')"

subsection \<open>The Google OAuth credential inside its envelope\<close>

definition isGoogleOAuthSourceType :: "string \<Rightarrow> bool" where
  "isGoogleOAuthSourceType t \<longleftrightarrow> t = ''google_sheets'' \<or> t = ''duckdb''"

definition GoogleDriveFileScope :: string where
  "GoogleDriveFileScope = ''https://www.googleapis.com/auth/drive.file''"

definition googleScopeRequired :: "string \<Rightarrow> string" where
  "googleScopeRequired t = (if t = ''duckdb'' then GoogleDriveFileScope else [])"

text \<open>The anonymous envelope with the one member both source types name \<^verbatim>\<open>oauth\<close>.\<close>

definition d_env :: "googleOAuthCredential option decoder" where
  "d_env = d_obj (\<lambda>ms o'. dec_field (d_ptr zeroOAuth d_oauth) ''oauth'' ms o')"

definition parseGoogleOAuth :: "string \<Rightarrow> raw \<Rightarrow> googleOAuthCredential option" where
  "parseGoogleOAuth sourceType raw =
     (if \<not> isGoogleOAuthSourceType sourceType \<or> isEmptyJSON raw then None
      else case Unmarshal d_env None raw of None \<Rightarrow> None | Some o' \<Rightarrow> o')"

definition d_any :: "json decoder" where
  "d_any v cur = Some v"

definition storeGoogleOAuth :: "string \<Rightarrow> raw \<Rightarrow> googleOAuthCredential \<Rightarrow> err + raw" where
  "storeGoogleOAuth sourceType raw o' =
     (if \<not> isGoogleOAuthSourceType sourceType then Inl (ErrNew ''source type carries no google oauth credential'')
      else case (if isEmptyJSON raw then Some [] else Unmarshal (d_map JNull d_any) [] raw) of
        None \<Rightarrow> Inl (ErrNew ''parse credentials'')
      | Some env \<Rightarrow> Inr (Marshal (jmap (AList.update ''oauth'' (jobj (oauth_members o')) env))))"

definition googleGrantID :: "string \<Rightarrow> raw \<Rightarrow> string option" where
  "googleGrantID sourceType raw =
     (case parseGoogleOAuth sourceType raw of
        None \<Rightarrow> None
      | Some o' \<Rightarrow> (if go_GrantID o' = [] then None else Some (go_GrantID o')))"

definition googleConnectionRef :: "string \<Rightarrow> raw \<Rightarrow> string option" where
  "googleConnectionRef sourceType raw =
     (case parseGoogleOAuth sourceType raw of
        None \<Rightarrow> None
      | Some o' \<Rightarrow> (if go_ConnectionID o' = [] \<or> go_RefreshToken o' \<noteq> [] then None else Some (go_ConnectionID o')))"

definition ConnectionID :: "Pipeline \<Rightarrow> string" where
  "ConnectionID p = (case googleConnectionRef (p_SourceType p) (p_SourceCredentials p) of None \<Rightarrow> [] | Some i \<Rightarrow> i)"

definition HasCredentials :: "Pipeline \<Rightarrow> bool" where
  "HasCredentials p \<longleftrightarrow> \<not> isEmptyJSON (p_SourceCredentials p)"

definition storedGoogleOAuthCreds :: "string \<Rightarrow> raw \<Rightarrow> string \<Rightarrow> string \<Rightarrow> string \<Rightarrow> err + raw" where
  "storedGoogleOAuthCreds sourceType raw refreshToken email clientID =
     storeGoogleOAuth sourceType raw (zeroOAuth\<lparr>go_RefreshToken := refreshToken, go_Email := email, go_ClientID := clientID\<rparr>)"

definition googleOAuthClientID :: "string \<Rightarrow> raw \<Rightarrow> string option" where
  "googleOAuthClientID sourceType raw =
     (case parseGoogleOAuth sourceType raw of
        None \<Rightarrow> None
      | Some o' \<Rightarrow> (if go_RefreshToken o' = [] then None else Some (go_ClientID o')))"

definition serveGoogleOAuthCredential :: "string \<Rightarrow> raw \<Rightarrow> raw" where
  "serveGoogleOAuthCredential sourceType raw =
     (if sourceType \<noteq> ''duckdb'' then raw
      else case parseGoogleOAuth sourceType raw of
        None \<Rightarrow> raw
      | Some o' \<Rightarrow> (case renderDuckDBGoogleSecret raw o' of Inl e \<Rightarrow> raw | Inr r \<Rightarrow> r))"

text \<open>\<^const>\<open>None\<close> is the Go result \<^verbatim>\<open>(raw, false)\<close>: the credential is left as it is.\<close>

definition injectGoogleOAuthClient :: "string \<Rightarrow> raw \<Rightarrow> string \<Rightarrow> string \<Rightarrow> raw option" where
  "injectGoogleOAuthClient sourceType raw clientID clientSecret =
     (case parseGoogleOAuth sourceType raw of
        None \<Rightarrow> None
      | Some o' \<Rightarrow>
          (if go_RefreshToken o' = [] \<or> go_ClientID o' \<noteq> clientID then None
           else
             (case (if sourceType = ''duckdb'' then renderDuckDBGoogleSecret raw (o'\<lparr>go_ClientSecret := clientSecret\<rparr>)
                    else storeGoogleOAuth sourceType raw (o'\<lparr>go_ClientSecret := clientSecret\<rparr>)) of
                Inl e \<Rightarrow> None
              | Inr r \<Rightarrow> Some r)))"


subsection \<open>The LOAD list\<close>

lemma loadList_loop_spec:
  "loadList_loop names out = Inr r \<Longrightarrow> distinct out \<Longrightarrow>
     distinct r \<and> set r = set out \<union> set names \<and> prefix out r \<and>
     (\<forall>n \<in> set names. map_of duckdbExtensionAllowlist n = Some True)"
proof (induction names arbitrary: out)
  case (Cons n names)
  have e: "loadList_loop names (if n \<in> set out then out else out @ [n]) = Inr r"
    "map_of duckdbExtensionAllowlist n = Some True"
    using Cons.prems(1) by (auto split: if_splits)
  have "distinct (if n \<in> set out then out else out @ [n])" using Cons.prems(2) by simp
  from Cons.IH [OF e(1) this] e(2) show ?case
    by (auto split: if_splits dest: append_prefixD)
qed simp

lemma loadList_loop_total:
  "\<forall>n \<in> set names. n \<in> fst ` set duckdbExtensionAllowlist \<Longrightarrow> \<exists>r. loadList_loop names out = Inr r"
proof (induction names arbitrary: out)
  case (Cons n names)
  then have n: "n \<in> fst ` set duckdbExtensionAllowlist" by simp
  then have "duckdbIdentRe n" "map_of duckdbExtensionAllowlist n = Some True"
    by (auto simp: duckdbExtensionAllowlist_def duckdbIdentRe_def is_lower_def is_digit_def less_eq_char_def)
  with Cons show ?case by simp
qed simp

text \<open>The names a configuration asks to load, in either form.\<close>

definition extension_names :: "duckdbConfig \<Rightarrow> string list" where
  "extension_names c = (if dc_Extension c \<noteq> [] then [dc_Extension c] else dc_Extensions c)"

lemma loadList_names:
  "loadList c =
     (if dc_Extension c \<noteq> [] \<and> dc_Extensions c \<noteq> [] then Inl (ErrInvalidSourceConfig ''extensions'')
      else if extension_names c = [] then Inl (ErrInvalidSourceConfig ''extension'')
      else loadList_loop (extension_names c) [])"
  by (simp only: loadList_def extension_names_def Let_def)

lemma loadList_Inr:
  assumes "loadList c = Inr out"
  defines "names \<equiv> extension_names c"
  shows "out \<noteq> [] \<and> distinct out \<and> set out = set names \<and> hd out = hd names \<and>
    set out \<subseteq> fst ` set duckdbExtensionAllowlist \<and> (dc_Extension c = [] \<or> dc_Extensions c = [])"
proof -
  from assms(1) have l: "loadList_loop names [] = Inr out" "names \<noteq> []"
    "dc_Extension c = [] \<or> dc_Extensions c = []"
    by (auto simp: loadList_names names_def simp del: loadList_loop.simps split: if_splits)
  then obtain n ns where ns: "names = n # ns" by (cases names) auto
  from loadList_loop_spec [OF l(1)] have sp: "distinct out" "set out = set names"
      "\<forall>x \<in> set names. map_of duckdbExtensionAllowlist x = Some True" by auto
  from l(1) ns have "loadList_loop ns [n] = Inr out" by (auto split: if_splits)
  from loadList_loop_spec [OF this] have "prefix [n] out" by simp
  then have h: "hd out = hd names" using ns by (auto simp: prefix_def)
  have sub: "set out \<subseteq> fst ` set duckdbExtensionAllowlist"
    using sp by (force dest: map_of_SomeD)
  have ne: "out \<noteq> []" using sp(2) l(2) by (metis set_empty)
  show ?thesis by (intro conjI ne sp(1,2) h sub l(3))
qed

lemma loadList_ok_iff:
  "(\<exists>out. loadList c = Inr out) \<longleftrightarrow>
     (dc_Extension c = [] \<or> dc_Extensions c = []) \<and> extension_names c \<noteq> [] \<and>
     set (extension_names c) \<subseteq> fst ` set duckdbExtensionAllowlist"
proof
  assume "\<exists>out. loadList c = Inr out"
  then obtain out where out: "loadList c = Inr out" ..
  show "(dc_Extension c = [] \<or> dc_Extensions c = []) \<and> extension_names c \<noteq> [] \<and>
    set (extension_names c) \<subseteq> fst ` set duckdbExtensionAllowlist"
    using loadList_Inr [OF out] by (metis set_empty)
next
  assume a: "(dc_Extension c = [] \<or> dc_Extensions c = []) \<and> extension_names c \<noteq> [] \<and>
    set (extension_names c) \<subseteq> fst ` set duckdbExtensionAllowlist"
  then have "loadList c = loadList_loop (extension_names c) []"
    by (auto simp: loadList_names simp del: loadList_loop.simps)
  then show "\<exists>out. loadList c = Inr out"
    using loadList_loop_total [of "extension_names c" "[]"] a by (simp add: subset_iff)
qed

subsection \<open>Attach templates\<close>

lemma brace_not_placeholder [simp]: "\<not> is_placeholder_char (CHR ''{'')" "\<not> is_placeholder_char (CHR ''}'')"
  by (simp_all add: is_placeholder_char_def is_alnum_def is_lower_def is_upper_def is_digit_def less_eq_char_def)

text \<open>A name occurs between braces in the template.\<close>

definition occurs_braced :: "string \<Rightarrow> string \<Rightarrow> bool" where
  "occurs_braced n s \<longleftrightarrow> (\<exists>a b. s = a @ CHR ''{'' # n @ CHR ''}'' # b) \<and> n \<noteq> [] \<and> list_all is_placeholder_char n"

lemma takeWhile_braced:
  "list_all P n \<Longrightarrow> \<not> P x \<Longrightarrow> takeWhile P (n @ x # b) = n \<and> dropWhile P (n @ x # b) = x # b"
  by (induction n) auto

lemma occurs_braced_skip:
  assumes "s = n0 @ CHR ''}'' # r" "list_all is_placeholder_char n0" "occurs_braced n s"
  shows "occurs_braced n r"
proof -
  from assms(1,3) obtain a b where ab: "n0 @ CHR ''}'' # r = a @ CHR ''{'' # n @ CHR ''}'' # b"
      and n: "n \<noteq> []" "list_all is_placeholder_char n"
    by (auto simp: occurs_braced_def)
  have "CHR ''{'' \<notin> set n0" using assms(2) by (auto simp: list_all_iff)
  with ab obtain a' where "r = a' @ CHR ''{'' # n @ CHR ''}'' # b"
    by (auto simp: append_eq_append_conv2 append_eq_Cons_conv Cons_eq_append_conv)
  with n show ?thesis by (auto simp: occurs_braced_def)
qed

lemma occurs_braced_mono: "occurs_braced n s \<Longrightarrow> occurs_braced n (a @ s)"
  unfolding occurs_braced_def by (metis append_assoc)

lemma placeholders_iff: "n \<in> set (placeholders s) \<longleftrightarrow> occurs_braced n s"
proof (induction s rule: placeholders.induct)
  case 1
  then show ?case by (simp add: occurs_braced_def)
next
  case (2 c s)
  define m where "m = takeWhile is_placeholder_char s"
  define r where "r = dropWhile is_placeholder_char s"
  have s: "s = m @ r" by (simp add: m_def r_def)
  have am: "list_all is_placeholder_char m" by (auto simp: m_def list_all_iff dest: set_takeWhileD)
  show ?case
  proof (cases "c = CHR ''{'' \<and> m \<noteq> [] \<and> r \<noteq> [] \<and> hd r = CHR ''}''")
    case True
    then obtain t where r: "r = CHR ''}'' # t" by (cases r) auto
    have ph: "placeholders (c # s) = m # placeholders t"
      using True r by (simp add: m_def r_def Let_def)
    have IH: "n \<in> set (placeholders t) \<longleftrightarrow> occurs_braced n t"
      using 2(1) True r by (simp add: m_def r_def)
    have "occurs_braced n (c # s) \<longleftrightarrow> n = m \<or> occurs_braced n t"
    proof
      assume o: "occurs_braced n (c # s)"
      then obtain a b where ab: "c # s = a @ CHR ''{'' # n @ CHR ''}'' # b" and n: "list_all is_placeholder_char n" "n \<noteq> []"
        by (auto simp: occurs_braced_def)
      show "n = m \<or> occurs_braced n t"
      proof (cases a)
        case Nil
        then have "n = m" using ab takeWhile_braced [OF n(1), of "CHR ''}''" b] by (simp add: m_def)
        then show ?thesis ..
      next
        case (Cons x a')
        then have "occurs_braced n s" using ab n by (auto simp: occurs_braced_def)
        then show ?thesis using occurs_braced_skip [of s m t n] s r am by simp
      qed
    next
      assume "n = m \<or> occurs_braced n t"
      then show "occurs_braced n (c # s)"
      proof
        assume "n = m"
        then show ?thesis using True r s am
          unfolding occurs_braced_def by (metis append_Nil)
      next
        assume "occurs_braced n t"
        from occurs_braced_mono [OF this, of "c # m @ [CHR ''}'']"] show ?thesis using s r by simp
      qed
    qed
    with ph IH show ?thesis by auto
  next
    case False
    have ph: "placeholders (c # s) = placeholders s"
      using False by (auto simp: m_def r_def Let_def)
    have IH: "n \<in> set (placeholders s) \<longleftrightarrow> occurs_braced n s"
      using 2(2) False by (auto simp: m_def r_def)
    have "occurs_braced n (c # s) \<Longrightarrow> occurs_braced n s"
    proof -
      assume "occurs_braced n (c # s)"
      then obtain a b where ab: "c # s = a @ CHR ''{'' # n @ CHR ''}'' # b" and n: "list_all is_placeholder_char n" "n \<noteq> []"
        by (auto simp: occurs_braced_def)
      have "a \<noteq> []"
        using False ab n takeWhile_braced [OF n(1), of "CHR ''}''" b] by (auto simp: m_def r_def)
      then show ?thesis using ab n by (cases a) (auto simp: occurs_braced_def)
    qed
    with ph IH occurs_braced_mono [of n s "[c]"] show ?thesis by auto
  qed
qed

lemma set_missing_params:
  "set (missing_params params ms missing) = set missing \<union> (set ms - fst ` set params)"
  by (induction params ms missing rule: missing_params.induct) auto

lemma attachParams_ok_iff:
  "validateDuckDBAttachParams attach params = None \<longleftrightarrow>
     (\<forall>n. occurs_braced n attach \<longrightarrow> n \<in> fst ` set params)"
proof -
  have "missing_params params (placeholders attach) [] = [] \<longleftrightarrow>
        set (missing_params params (placeholders attach) []) = {}" by simp
  also have "\<dots> \<longleftrightarrow> (\<forall>n. occurs_braced n attach \<longrightarrow> n \<in> fst ` set params)"
    by (auto simp: set_missing_params placeholders_iff)
  finally show ?thesis by (simp add: validateDuckDBAttachParams_def badCreds_def)
qed


subsection \<open>Reading a credential back\<close>

text \<open>A field whose key occurs once, under its exact spelling, decodes from that member.\<close>

lemma dec_field_unique:
  assumes "distinct (map fst kvs)" "(f', v) \<in> set kvs" "EqualFold f' f"
    "\<forall>k \<in> fst ` set kvs. EqualFold k f \<longrightarrow> k = f'"
  shows "dec_field d f (map (\<lambda>(k, v). (quote k, v)) kvs) cur = d v cur"
  using assms
proof (induction kvs)
  case (Cons x kvs)
  obtain k w where x: "x = (k, w)" by (cases x)
  show ?case
  proof (cases "k = f'")
    case True
    then have w: "w = v" using Cons.prems(1,2) x by (auto intro: rev_image_eqI)
    have nf: "f' \<notin> fst ` set kvs" using Cons.prems(1) x True by simp
    have "\<not> EqualFold k f" if "k \<in> fst ` set kvs" for k
      using Cons.prems(4) nf that by (metis image_eqI image_insert insertCI list.simps(15))
    then have "\<forall>k \<in> fst ` set (map (\<lambda>(k, v). (quote k, v)) kvs). \<not> key_is f k"
      by force
    then show ?thesis using x True w Cons.prems(3)
      by (cases "d v cur") (simp_all add: dec_field_skip)
  next
    case False
    have k: "\<not> EqualFold k f" using Cons.prems(4) x False by (metis fst_conv image_eqI list.set_intros(1))
    have "dec_field d f (map (\<lambda>(k, v). (quote k, v)) kvs) cur = d v cur"
    proof (rule Cons.IH)
      show "distinct (map fst kvs)" using Cons.prems(1) x by simp
      show "(f', v) \<in> set kvs" using Cons.prems(2) x False by auto
      show "EqualFold f' f" by (rule Cons.prems(3))
      show "\<forall>k \<in> fst ` set kvs. EqualFold k f \<longrightarrow> k = f'" using Cons.prems(4) by (metis image_insert insertCI list.simps(15))
    qed
    with k x show ?thesis by simp
  qed
qed simp

lemma dec_field_absent:
  "\<forall>k \<in> fst ` set kvs. \<not> EqualFold k f \<Longrightarrow> dec_field d f (map (\<lambda>(k, v). (quote k, v)) kvs) cur = Some cur"
  by (rule dec_field_skip) auto

lemmas fold_eval = EqualFold_def ToLower_def lower_char_def less_eq_char_def

lemma oauth_fold [simp]:
  "EqualFold ''grant_id'' ''connection_id'' = False" "EqualFold ''grant_id'' ''refresh_token'' = False"
  "EqualFold ''grant_id'' ''email'' = False" "EqualFold ''grant_id'' ''client_id'' = False" "EqualFold ''grant_id'' ''client_secret'' = False"
  "EqualFold ''connection_id'' ''grant_id'' = False" "EqualFold ''connection_id'' ''refresh_token'' = False"
  "EqualFold ''connection_id'' ''email'' = False" "EqualFold ''connection_id'' ''client_id'' = False" "EqualFold ''connection_id'' ''client_secret'' = False"
  "EqualFold ''refresh_token'' ''grant_id'' = False" "EqualFold ''refresh_token'' ''connection_id'' = False"
  "EqualFold ''refresh_token'' ''email'' = False" "EqualFold ''refresh_token'' ''client_id'' = False" "EqualFold ''refresh_token'' ''client_secret'' = False"
  "EqualFold ''email'' ''grant_id'' = False" "EqualFold ''email'' ''connection_id'' = False"
  "EqualFold ''email'' ''refresh_token'' = False" "EqualFold ''email'' ''client_id'' = False" "EqualFold ''email'' ''client_secret'' = False"
  "EqualFold ''client_id'' ''grant_id'' = False" "EqualFold ''client_id'' ''connection_id'' = False"
  "EqualFold ''client_id'' ''refresh_token'' = False" "EqualFold ''client_id'' ''email'' = False" "EqualFold ''client_id'' ''client_secret'' = False"
  "EqualFold ''client_secret'' ''grant_id'' = False" "EqualFold ''client_secret'' ''connection_id'' = False"
  "EqualFold ''client_secret'' ''refresh_token'' = False" "EqualFold ''client_secret'' ''email'' = False" "EqualFold ''client_secret'' ''client_id'' = False"
  by (simp_all add: fold_eval)

lemma d_oauth_members: "d_oauth (jobj (oauth_members o')) zeroOAuth = Some o'"
  by (simp add: d_oauth_def oauth_members_def dec_field_append dec_field_omit_str zeroOAuth_def)

lemma oauth_members_ok [simp]: "list_all (\<lambda>(k, v). json_ok v) (oauth_members o')"
  by (simp add: oauth_members_def)


text \<open>A map written and read back holds the same entries.\<close>

lemma dec_map_quoted:
  assumes "distinct (map fst kvs)" "\<forall>(k, v) \<in> set kvs. \<exists>x. d v z = Some x"
  shows "\<exists>m'. dec_map z d (map (\<lambda>(k, v). (quote k, v)) kvs) m = Some m' \<and>
    (distinct (map fst m) \<longrightarrow> distinct (map fst m')) \<and>
    map_of m' = map_of m ++ (\<lambda>k. Option.bind (map_of kvs k) (\<lambda>v. d v z))"
  using assms
proof (induction kvs arbitrary: m)
  case Nil
  then show ?case by (auto simp: map_add_def)
next
  case (Cons x kvs)
  obtain k v where x: "x = (k, v)" by (cases x)
  with Cons.prems obtain y where y: "d v z = Some y" by auto
  have nk: "map_of kvs k = None" using Cons.prems(1) x by (simp add: map_of_eq_None_iff)
  obtain m' where m': "dec_map z d (map (\<lambda>(k, v). (quote k, v)) kvs) (AList.update k y m) = Some m'"
      "distinct (map fst (AList.update k y m)) \<longrightarrow> distinct (map fst m')"
      "map_of m' = map_of (AList.update k y m) ++ (\<lambda>k. Option.bind (map_of kvs k) (\<lambda>v. d v z))"
    using Cons.IH [of "AList.update k y m"] Cons.prems x by auto
  have "map_of m' = map_of m ++ (\<lambda>k. Option.bind (map_of (x # kvs) k) (\<lambda>v. d v z))"
    using m'(3) y nk x by (auto simp: fun_eq_iff map_add_def AList.update_conv' split: option.splits)
  then show ?case using m' x y by (auto simp: distinct_update)
qed

lemma dec_map_distinct: "dec_map z d ms m = Some m' \<Longrightarrow> distinct (map fst m) \<Longrightarrow> distinct (map fst m')"
  by (induction ms arbitrary: m) (auto simp: distinct_update split: Option.bind_splits)

lemma dec_map_ok:
  "dec_map JNull d_any ms m = Some m' \<Longrightarrow> list_all (\<lambda>(k, v). json_ok v) m \<Longrightarrow>
   list_all (\<lambda>(k, v). body_ok k \<and> json_ok v) ms \<Longrightarrow> list_all (\<lambda>(k, v). json_ok v) m'"
proof (induction ms arbitrary: m)
  case (Cons x ms)
  obtain k v where x: "x = (k, v)" by (cases x)
  have "list_all (\<lambda>(k, v). json_ok v) (AList.update (unquote k) v m)"
    using Cons.prems(2,3) x by (intro list_all_update) auto
  then show ?case using Cons x by (auto simp: d_any_def)
qed simp


lemma dec_map_keys: "dec_map z d ms m = Some m' \<Longrightarrow> fst ` set m' = fst ` set m \<union> unquote ` fst ` set ms"
proof (induction ms arbitrary: m)
  case (Cons x ms)
  obtain k v where x: "x = (k, v)" by (cases x)
  with Cons.prems obtain y where "dec_map z d ms (AList.update (unquote k) y m) = Some m'"
    by (auto split: Option.bind_splits)
  from Cons.IH [OF this] x show ?case by (simp add: dom_update)
qed simp

text \<open>The members of an envelope, as \<^verbatim>\<open>storeGoogleOAuth\<close> reads them.\<close>

definition envelope :: "raw \<Rightarrow> (string \<times> json) list option" where
  "envelope raw = (if isEmptyJSON raw then Some [] else Unmarshal (d_map JNull d_any) [] raw)"

lemma envelope_cases:
  assumes "envelope raw = Some env"
  obtains "env = []"
  | ms where "parse_json raw = Some (JObj ms)" "dec_map JNull d_any ms [] = Some env"
  using assms
  by (auto simp: envelope_def Unmarshal_def d_map_def split: if_splits Option.bind_splits json.splits)

lemma envelope_props:
  assumes "envelope raw = Some env"
  shows "distinct (map fst env)" "list_all (\<lambda>(k, v). json_ok v) env"
  using assms
  by (atomize (full), cases rule: envelope_cases)
    (auto dest!: parse_json_ok intro: dec_map_ok dec_map_distinct [where m = "[]"])

lemma storeGoogleOAuth_Inr:
  "storeGoogleOAuth t raw o' = Inr r \<longleftrightarrow>
     isGoogleOAuthSourceType t \<and>
     (\<exists>env. envelope raw = Some env \<and> r = Marshal (jmap (AList.update ''oauth'' (jobj (oauth_members o')) env)))"
  by (auto simp: storeGoogleOAuth_def envelope_def split: option.splits)

lemma update_env_ok:
  "envelope raw = Some env \<Longrightarrow> json_ok (jmap (AList.update ''oauth'' (jobj (oauth_members o')) env))"
  using envelope_props(2) [of raw env] by (simp add: list_all_update)

lemma distinct_fst_sort: "distinct (map fst m) \<Longrightarrow> distinct (map fst (sort_key fst m))"
  by (simp add: distinct_map)

lemma map_of_sort_key: "distinct (map fst m) \<Longrightarrow> map_of (sort_key fst m) = map_of m"
  by (subst map_of_inject_set) (simp_all add: distinct_fst_sort)

text \<open>No other spelling of the member's key hides beside it.\<close>

definition oauth_key_exact :: "raw \<Rightarrow> bool" where
  "oauth_key_exact raw =
     (case envelope raw of
        None \<Rightarrow> True
      | Some env \<Rightarrow> list_all (\<lambda>k. EqualFold k ''oauth'' \<longrightarrow> k = ''oauth'') (map fst env))"

lemma store_then_parse:
  assumes st: "storeGoogleOAuth t raw o' = Inr r" and ex: "oauth_key_exact raw"
  shows "parseGoogleOAuth t r = Some o'"
proof -
  obtain env where g: "isGoogleOAuthSourceType t" and env: "envelope raw = Some env"
    and r: "r = Marshal (jmap (AList.update ''oauth'' (jobj (oauth_members o')) env))"
    using st by (auto simp: storeGoogleOAuth_Inr)
  define m where "m = AList.update ''oauth'' (jobj (oauth_members o')) env"
  have dm: "distinct (map fst m)" using envelope_props(1) [OF env] by (simp add: m_def distinct_update)
  have mem: "(''oauth'', jobj (oauth_members o')) \<in> set m"
    by (rule map_of_SomeD) (simp add: m_def AList.update_conv')
  have ex': "\<forall>k \<in> fst ` set m. EqualFold k ''oauth'' \<longrightarrow> k = ''oauth''"
    using ex env by (auto simp: oauth_key_exact_def m_def dom_update list_all_iff)
  have "dec_field (d_ptr zeroOAuth d_oauth) ''oauth'' (map (\<lambda>(k, v). (quote k, v)) (sort_key fst m)) None
        = d_ptr zeroOAuth d_oauth (jobj (oauth_members o')) None"
    by (rule dec_field_unique) (use dm mem ex' in \<open>simp_all add: distinct_fst_sort\<close>)
  also have "\<dots> = Some (Some o')"
    using d_oauth_members [of o'] by (simp add: d_ptr_def jobj_def)
  finally have "Unmarshal d_env None r = Some (Some o')"
    using update_env_ok [OF env, of o'] by (simp add: r d_env_def jmap_def flip: m_def)
  moreover have "\<not> isEmptyJSON r" by (simp add: r)
  ultimately show ?thesis using g by (simp add: parseGoogleOAuth_def)
qed

lemma store_keeps_siblings:
  assumes st: "storeGoogleOAuth t raw o' = Inr r" and env: "envelope raw = Some env"
  obtains env' where "envelope r = Some env'"
    "map_of env' = (map_of env)(''oauth'' \<mapsto> jobj (oauth_members o'))"
proof -
  define m where "m = AList.update ''oauth'' (jobj (oauth_members o')) env"
  have r: "r = Marshal (jmap m)" using st env by (auto simp: storeGoogleOAuth_Inr m_def)
  have dm: "distinct (map fst m)" using envelope_props(1) [OF env] by (simp add: m_def distinct_update)
  obtain m' where m': "dec_map JNull d_any (map (\<lambda>(k, v). (quote k, v)) (sort_key fst m)) [] = Some m'"
      "map_of m' = Map.empty ++ (\<lambda>k. Option.bind (map_of (sort_key fst m) k) (\<lambda>v. d_any v JNull))"
    using dec_map_quoted [of "sort_key fst m" d_any JNull "[]"] dm
    by (auto simp: distinct_fst_sort d_any_def)
  have ne: "m \<noteq> []" by (simp add: m_def AList.update_nonempty)
  have "Unmarshal (d_map JNull d_any) [] r = d_map JNull d_any (jmap m) []"
    using update_env_ok [OF env, of o'] unfolding r m_def by (rule Unmarshal_Marshal)
  also have "\<dots> = Some m'" using m'(1) by (simp add: d_map_def jmap_def jobj_def)
  finally have "envelope r = Some m'" using ne unfolding r envelope_def by simp
  moreover have "map_of m' = map_of m"
    using m'(2) dm by (auto simp: fun_eq_iff map_of_sort_key d_any_def map_add_def split: option.splits)
  ultimately show ?thesis using that by (simp add: m_def AList.update_conv')
qed


subsection \<open>The DuckDB secret\<close>

lemma dec_field_inv:
  "dec_field d f ms cur = Some x \<Longrightarrow> P cur \<Longrightarrow> (\<And>v c c'. P c \<Longrightarrow> d v c = Some c' \<Longrightarrow> P c') \<Longrightarrow> P x"
  by (induction d f ms cur rule: dec_field.induct) (auto split: if_splits Option.bind_splits)

lemma dec_field_map_distinct:
  "dec_field (d_map z d) f ms [] = Some m \<Longrightarrow> distinct (map fst m)"
  by (erule dec_field_inv) (auto simp: d_map_def intro: dec_map_distinct split: json.splits)

lemma duckdbCreds_distinct:
  assumes "Unmarshal d_duckdbCreds zeroDuckdbCreds raw = Some c"
  shows "distinct (map fst (dk_AttachParams c))" "distinct (map fst (dk_Secret c))"
  using assms
  by (auto simp: Unmarshal_def d_duckdbCreds_def d_obj_def zeroDuckdbCreds_def
      intro: dec_field_map_distinct split: Option.bind_splits json.splits)

text \<open>A map of strings written and read back.\<close>

lemma map_of_jstr: "map_of (map (\<lambda>(a, b). (a, jstr b)) m) k = map_option jstr (map_of m k)"
  by (induction m) auto

lemma bind_jstr: "Option.bind (map_option jstr x) (\<lambda>v. d_str v []) = x"
  by (cases x) auto

lemma d_map_jmap_str:
  assumes "distinct (map fst m)"
  shows "\<exists>m'. d_map [] d_str (jmap (map (\<lambda>(a, b). (a, jstr b)) m)) [] = Some m' \<and> map_of m' = map_of m"
proof -
  define kvs where "kvs = sort_key fst (map (\<lambda>(a, b). (a, jstr b)) m)"
  have d: "distinct (map fst (map (\<lambda>(a, b). (a, jstr b)) m))" using assms by (simp add: comp_def split_def)
  have "\<forall>(k, v) \<in> set kvs. \<exists>x. d_str v [] = Some x" by (auto simp: kvs_def)
  with dec_map_quoted [of kvs d_str "[]" "[]"] d obtain m' where
      m': "dec_map [] d_str (map (\<lambda>(k, v). (quote k, v)) kvs) [] = Some m'"
      "map_of m' = Map.empty ++ (\<lambda>k. Option.bind (map_of kvs k) (\<lambda>v. d_str v []))"
    by (auto simp: kvs_def distinct_fst_sort)
  have "map_of m' = map_of m"
    using m'(2) d by (auto simp: fun_eq_iff kvs_def map_of_sort_key map_of_jstr map_add_def bind_jstr split: option.splits)
  with m'(1) show ?thesis by (auto simp: d_map_def jmap_def jobj_def kvs_def)
qed

lemma dec_field_omit_map:
  assumes "distinct (map fst m)"
  shows "\<exists>m'. dec_field (d_map [] d_str) k (map (\<lambda>(k, v). (quote k, v)) (omit_map k m)) [] = Some m' \<and> map_of m' = map_of m"
  using d_map_jmap_str [OF assms] by (auto simp: omit_map_def)

lemma dec_field_omit_map_other:
  "\<not> EqualFold k f \<Longrightarrow> dec_field d f (map (\<lambda>(k, v). (quote k, v)) (omit_map k m)) cur = Some cur"
  by (simp add: omit_map_def)

lemma omit_map_ok [simp]: "list_all (\<lambda>(k, v). json_ok v) (omit_map k m)"
  by (auto simp: omit_map_def list_all_iff)

lemma duckdb_fold [simp]:
  "EqualFold ''attach_params'' ''secret'' = False" "EqualFold ''attach_params'' ''oauth'' = False"
  "EqualFold ''secret'' ''attach_params'' = False" "EqualFold ''secret'' ''oauth'' = False"
  by (simp_all add: fold_eval)

lemma enc_duckdbCreds_read:
  assumes "distinct (map fst (dk_AttachParams c))" "distinct (map fst (dk_Secret c))" "dk_OAuth c = None"
  obtains c' where "Unmarshal d_duckdbCreds zeroDuckdbCreds (Marshal (enc_duckdbCreds c)) = Some c'"
    "map_of (dk_AttachParams c') = map_of (dk_AttachParams c)" "map_of (dk_Secret c') = map_of (dk_Secret c)"
    "dk_OAuth c' = None"
proof -
  obtain a where a: "dec_field (d_map [] d_str) ''attach_params''
      (map (\<lambda>(k, v). (quote k, v)) (omit_map ''attach_params'' (dk_AttachParams c))) [] = Some a"
      "map_of a = map_of (dk_AttachParams c)" using dec_field_omit_map assms(1) by blast
  obtain s where s: "dec_field (d_map [] d_str) ''secret''
      (map (\<lambda>(k, v). (quote k, v)) (omit_map ''secret'' (dk_Secret c))) [] = Some s"
      "map_of s = map_of (dk_Secret c)" using dec_field_omit_map assms(2) by blast
  have "Unmarshal d_duckdbCreds zeroDuckdbCreds (Marshal (enc_duckdbCreds c)) =
        Some \<lparr>dk_AttachParams = a, dk_Secret = s, dk_OAuth = None\<rparr>"
    using a s assms(3)
    by (simp add: enc_duckdbCreds_def d_duckdbCreds_def zeroDuckdbCreds_def dec_field_append dec_field_omit_map_other)
  with a s that show ?thesis by simp
qed

text \<open>The credential as \<^verbatim>\<open>renderDuckDBGoogleSecret\<close> reads it.\<close>

definition duckdb_read :: "raw \<Rightarrow> duckdbCreds option" where
  "duckdb_read raw = (if isEmptyJSON raw then Some zeroDuckdbCreds else Unmarshal d_duckdbCreds zeroDuckdbCreds raw)"

lemma duckdb_read_distinct:
  assumes "duckdb_read raw = Some c"
  shows "distinct (map fst (dk_AttachParams c))" "distinct (map fst (dk_Secret c))"
  using assms duckdbCreds_distinct [of raw c]
  by (auto simp: duckdb_read_def zeroDuckdbCreds_def split: if_splits)

lemma googleSecret_map:
  "map_of (googleSecret o' m) =
     (map_of m)(''type'' \<mapsto> cmp_Or (gm_str m ''type'') ''gdrive'', ''PROVIDER'' \<mapsto> cmp_Or (gm_str m ''PROVIDER'') ''config'',
       ''REFRESH_TOKEN'' \<mapsto> go_RefreshToken o', ''CLIENT_ID'' \<mapsto> go_ClientID o', ''CLIENT_SECRET'' \<mapsto> go_ClientSecret o')"
proof -
  have sd: "map_of (secret_default k v m) = (map_of m)(k \<mapsto> cmp_Or (gm_str m k) v)" if "v \<noteq> []" for k v and m :: "(string \<times> string) list"
    using that
    by (auto simp: secret_default_def AList.update_conv' cmp_Or_def gm_str_def fun_eq_iff split: option.splits)
  have g: "gm_str (secret_default ''type'' v m) ''PROVIDER'' = gm_str m ''PROVIDER''" for v
    by (simp add: secret_default_def gm_str_def AList.update_conv')
  show ?thesis by (simp add: googleSecret_def AList.update_conv' sd g)
qed

lemma googleSecret_distinct: "distinct (map fst m) \<Longrightarrow> distinct (map fst (googleSecret o' m))"
  by (simp add: googleSecret_def secret_default_def distinct_update)

lemma render_Inr:
  "renderDuckDBGoogleSecret raw o' = Inr r \<longleftrightarrow>
     (\<exists>c. duckdb_read raw = Some c \<and>
        r = Marshal (enc_duckdbCreds (c\<lparr>dk_OAuth := None, dk_Secret := googleSecret o' (dk_Secret c)\<rparr>)))"
  by (auto simp: renderDuckDBGoogleSecret_def duckdb_read_def split: option.splits)

lemma render_nonempty: "renderDuckDBGoogleSecret raw o' = Inr r \<Longrightarrow> \<not> isEmptyJSON r"
  by (auto simp: render_Inr enc_duckdbCreds_def omit_map_def googleSecret_def AList.update_nonempty)

lemma render_reads:
  assumes "renderDuckDBGoogleSecret raw o' = Inr r" "duckdb_read raw = Some c"
  obtains c' where "duckdb_read r = Some c'" "dk_OAuth c' = None"
    "map_of (dk_AttachParams c') = map_of (dk_AttachParams c)"
    "map_of (dk_Secret c') = map_of (googleSecret o' (dk_Secret c))"
proof -
  let ?c = "c\<lparr>dk_OAuth := None, dk_Secret := googleSecret o' (dk_Secret c)\<rparr>"
  have r: "r = Marshal (enc_duckdbCreds ?c)" using assms by (simp add: render_Inr)
  obtain c' where "Unmarshal d_duckdbCreds zeroDuckdbCreds r = Some c'"
    "map_of (dk_AttachParams c') = map_of (dk_AttachParams c)"
    "map_of (dk_Secret c') = map_of (googleSecret o' (dk_Secret c))" "dk_OAuth c' = None"
    using enc_duckdbCreds_read [of ?c] duckdb_read_distinct [OF assms(2)] googleSecret_distinct unfolding r by auto
  then show ?thesis using that render_nonempty [OF assms(1)] by (simp add: duckdb_read_def)
qed

lemma render_no_oauth:
  assumes "renderDuckDBGoogleSecret raw o' = Inr r"
  shows "parseGoogleOAuth ''duckdb'' r = None"
proof -
  obtain c where r: "r = Marshal (enc_duckdbCreds c)" "dk_OAuth c = None"
    using assms by (auto simp: render_Inr)
  have "Unmarshal d_env None r = Some None"
    using r(2) by (simp add: r(1) enc_duckdbCreds_def d_env_def dec_field_append dec_field_omit_map_other)
  then show ?thesis by (simp add: parseGoogleOAuth_def)
qed

subsection \<open>Properties\<close>

text \<open>
  C32. A duckdb configuration is accepted exactly when it decodes, names its extensions in one of the two
  fields, every one of them from the allowlist, and has tables, each with a name, with a query when nothing
  is attached, and with a cursor column that is an identifier where it has one.
\<close>

theorem duckdb_config_accepted_iff:
  "validateDuckDBConfig raw = None \<longleftrightarrow>
     \<not> isEmptyJSON raw \<and>
     (\<exists>cfg. Unmarshal d_duckdbConfig zeroDuckdbConfig raw = Some cfg \<and>
        (dc_Extension cfg = []) \<noteq> (dc_Extensions cfg = []) \<and>
        set (if dc_Extension cfg = [] then dc_Extensions cfg else [dc_Extension cfg]) \<subseteq> fst ` set duckdbExtensionAllowlist \<and>
        dc_Tables cfg \<noteq> [] \<and>
        (\<forall>t \<in> set (dc_Tables cfg). dt_Name t \<noteq> [] \<and> (dc_Attach cfg = [] \<longrightarrow> dt_Query t \<noteq> []) \<and>
           (dt_CursorColumn t \<noteq> [] \<longrightarrow> duckdbIdentRe (ToLower (dt_CursorColumn t)))))"
proof -
  have tables: "validateDuckDBTables a ts = None \<longleftrightarrow> (\<forall>t \<in> set ts. dt_Name t \<noteq> [] \<and> (a = [] \<longrightarrow> dt_Query t \<noteq> []) \<and>
      (dt_CursorColumn t \<noteq> [] \<longrightarrow> duckdbIdentRe (ToLower (dt_CursorColumn t))))" for a ts
    unfolding validateDuckDBTables_def by (rule first_bad_None_iff) (simp add: badConfig_def)
  have list: "(\<exists>out. loadList cfg = Inr out) \<longleftrightarrow> (dc_Extension cfg = []) \<noteq> (dc_Extensions cfg = []) \<and>
      set (if dc_Extension cfg = [] then dc_Extensions cfg else [dc_Extension cfg]) \<subseteq> fst ` set duckdbExtensionAllowlist" for cfg
    using loadList_ok_iff [of cfg] by (auto simp: extension_names_def)
  show ?thesis
  proof (cases "isEmptyJSON raw")
    case False
    show ?thesis
    proof (cases "Unmarshal d_duckdbConfig zeroDuckdbConfig raw")
      case (Some cfg)
      have "validateDuckDBConfig raw = None \<longleftrightarrow>
          (\<exists>out. loadList cfg = Inr out) \<and> dc_Tables cfg \<noteq> [] \<and> validateDuckDBTables (dc_Attach cfg) (dc_Tables cfg) = None"
        using False Some by (cases "loadList cfg") (auto simp: validateDuckDBConfig_def badConfig_def)
      then show ?thesis unfolding list tables using False Some by simp
    qed (use False in \<open>simp add: validateDuckDBConfig_def badConfig_def\<close>)
  qed (simp add: validateDuckDBConfig_def badConfig_def)
qed

theorem duckdb_config_accepted_iff_witness:
  "validateDuckDBConfig ''{\"extension\":\"mysql\",\"tables\":[{\"name\":\"t\",\"query\":\"q\"}]}'' = None"
proof -
  let ?t = "\<lparr>dt_Name = ''t'', dt_Query = ''q'', dt_CursorColumn = [], dt_PrimaryKey = []\<rparr>"
  have "Unmarshal d_duckdbConfig zeroDuckdbConfig ''{\"extension\":\"mysql\",\"tables\":[{\"name\":\"t\",\"query\":\"q\"}]}'' =
      Some \<lparr>dc_Extension = ''mysql'', dc_Extensions = [], dc_Attach = [], dc_Tables = [?t]\<rparr>"
    "\<not> isEmptyJSON ''{\"extension\":\"mysql\",\"tables\":[{\"name\":\"t\",\"query\":\"q\"}]}''" by code_simp+
  then show ?thesis unfolding duckdb_config_accepted_iff by (simp add: duckdbExtensionAllowlist_def)
qed

text \<open>
  What is loaded for an accepted configuration: every extension it names, each once, the first of them
  first, and nothing that is not on the allowlist.
\<close>

theorem duckdb_load_list_exact:
  assumes "loadList cfg = Inr out"
  shows "distinct out \<and> set out = set (if dc_Extension cfg = [] then dc_Extensions cfg else [dc_Extension cfg]) \<and>
    hd out = hd (if dc_Extension cfg = [] then dc_Extensions cfg else [dc_Extension cfg]) \<and> set out \<subseteq> fst ` set duckdbExtensionAllowlist"
  using loadList_Inr [OF assms] by (auto simp: extension_names_def)

theorem duckdb_load_list_exact_witness:
  "loadList (zeroDuckdbConfig\<lparr>dc_Extensions := [''gdrive'', ''pdf'', ''gdrive'']\<rparr>) = Inr [''gdrive'', ''pdf''] \<and>
   set [''gdrive'', ''pdf''] \<subseteq> fst ` set duckdbExtensionAllowlist"
proof -
  have l: "loadList (zeroDuckdbConfig\<lparr>dc_Extensions := [''gdrive'', ''pdf'', ''gdrive'']\<rparr>) = Inr [''gdrive'', ''pdf'']" by code_simp
  from duckdb_load_list_exact [OF l] l show ?thesis by blast
qed

text \<open>
  An attach template is accepted with a set of parameters exactly when every name that occurs in it
  between braces, anywhere and in any order, is among them.
\<close>

theorem duckdb_attach_params_complete_iff:
  "validateDuckDBAttachParams attach params = None \<longleftrightarrow>
     (\<forall>a n b. attach = a @ ''{'' @ n @ ''}'' @ b \<longrightarrow> n \<noteq> [] \<longrightarrow> list_all is_placeholder_char n \<longrightarrow> n \<in> fst ` set params)"
  unfolding attachParams_ok_iff occurs_braced_def by auto

theorem duckdb_attach_params_complete_iff_witness:
  "validateDuckDBAttachParams ''host={h}'' [] \<noteq> None"
proof -
  have "''host={h}'' = ''host='' @ ''{'' @ ''h'' @ ''}'' @ []" "list_all is_placeholder_char ''h''" by code_simp+
  then show ?thesis unfolding duckdb_attach_params_complete_iff by fastforce
qed



text \<open>
  The duckdb credential rendered for the worker holds no sign-in member; it keeps the attach
  parameters and the secret's other entries, carries the refresh token with the client pair it was
  given, and fills in the secret's type and provider only where they are not set.
\<close>

theorem duckdb_secret_rendered:
  assumes "renderDuckDBGoogleSecret raw cred = Inr r"
  shows "parseGoogleOAuth ''duckdb'' r = None \<and>
    (\<exists>c c'. duckdb_read raw = Some c \<and> duckdb_read r = Some c' \<and> map_of (dk_AttachParams c') = map_of (dk_AttachParams c) \<and>
       map_of (dk_Secret c') = (map_of (dk_Secret c))(''type'' \<mapsto> cmp_Or (gm_str (dk_Secret c) ''type'') ''gdrive'',
         ''PROVIDER'' \<mapsto> cmp_Or (gm_str (dk_Secret c) ''PROVIDER'') ''config'', ''REFRESH_TOKEN'' \<mapsto> go_RefreshToken cred,
         ''CLIENT_ID'' \<mapsto> go_ClientID cred, ''CLIENT_SECRET'' \<mapsto> go_ClientSecret cred))"
proof -
  obtain c where c: "duckdb_read raw = Some c" using assms by (auto simp: render_Inr)
  obtain c' where "duckdb_read r = Some c'" "map_of (dk_AttachParams c') = map_of (dk_AttachParams c)"
    "map_of (dk_Secret c') = map_of (googleSecret cred (dk_Secret c))"
    using assms c by (rule render_reads)
  then show ?thesis using render_no_oauth [OF assms] c by (auto simp: googleSecret_map)
qed

theorem duckdb_secret_rendered_witness:
  "\<exists>r. renderDuckDBGoogleSecret ''{\"oauth\":{\"refresh_token\":\"rt\"}}'' (zeroOAuth\<lparr>go_RefreshToken := ''rt''\<rparr>) = Inr r \<and>
     parseGoogleOAuth ''duckdb'' r = None"
proof -
  obtain c where "duckdb_read ''{\"oauth\":{\"refresh_token\":\"rt\"}}'' = Some c"
  proof -
    have "duckdb_read ''{\"oauth\":{\"refresh_token\":\"rt\"}}'' = Some (zeroDuckdbCreds\<lparr>dk_OAuth := Some (zeroOAuth\<lparr>go_RefreshToken := ''rt''\<rparr>)\<rparr>)"
      by code_simp
    then show ?thesis by (rule that)
  qed
  then obtain r where r: "renderDuckDBGoogleSecret ''{\"oauth\":{\"refresh_token\":\"rt\"}}'' (zeroOAuth\<lparr>go_RefreshToken := ''rt''\<rparr>) = Inr r"
    by (auto simp: render_Inr)
  from duckdb_secret_rendered [OF r] r show ?thesis by blast
qed

end
