(* ===== verification/Contracts.thy ===== *)
theory Contracts
  imports Domain
begin

section \<open>What a call keeps and what a pipeline store promises\<close>

text \<open>
  First the rules for invariants of calls: \<open>safe I m Q\<close> says that \<open>m\<close>, started where \<open>I\<close> holds, ends where
  \<open>I\<close> holds, whether it returns a value or an error, and that a value it returns satisfies \<open>Q\<close>. There is
  one rule per combinator and per control construct the handlers are written with, collected in
  \<open>safe_rules\<close>, so that a proof about a handler is an introduction over its text.

  The second set of rules, \<open>triple\<close>, relates the world after a call to the world before it.

  Then the contract between the services of \<^verbatim>\<open>workspace/\<close> and the store behind \<^verbatim>\<open>PipelineRepository\<close>.
  \<open>row w i\<close> is what the store keeps under an id in world \<open>w\<close> and \<open>slug\<close> the tenant it belongs to; what
  else a row holds is the store's business; \<open>ok\<close> is the store's own invariant. A failed call changes
  no row. The clients' lemmas are proved in the locale; the PostgreSQL repository interprets it.
\<close>

named_theorems safe_rules \<open>introduction rules for invariants of calls\<close>

definition safe :: "('w \<Rightarrow> bool) \<Rightarrow> ('w, 'a) io \<Rightarrow> ('a \<Rightarrow> bool) \<Rightarrow> bool" where
  "safe I m Q \<longleftrightarrow> (\<forall>w x w'. I w \<longrightarrow> m w = (x, w') \<longrightarrow> I w' \<and> (\<forall>v. x = Inr v \<longrightarrow> Q v))"

abbreviation keeps :: "('w \<Rightarrow> bool) \<Rightarrow> ('w, 'a) io \<Rightarrow> bool" where
  "keeps I m \<equiv> safe I m (\<lambda>_. True)"

lemma safeI: "(\<And>w x w'. I w \<Longrightarrow> m w = (x, w') \<Longrightarrow> I w' \<and> (\<forall>v. x = Inr v \<longrightarrow> Q v)) \<Longrightarrow> safe I m Q"
  by (simp add: safe_def)

lemma safeD: "safe I m Q \<Longrightarrow> I w \<Longrightarrow> m w = (x, w') \<Longrightarrow> I w'"
  by (simp add: safe_def)

lemma safe_value: "safe I m Q \<Longrightarrow> I w \<Longrightarrow> m w = (Inr v, w') \<Longrightarrow> Q v"
  by (simp add: safe_def)

lemma safe_weaken: "safe I m P \<Longrightarrow> (\<And>x. P x \<Longrightarrow> Q x) \<Longrightarrow> safe I m Q"
  unfolding safe_def by blast

lemma safe_ret_eq [safe_rules]: "safe I (ret x) (\<lambda>y. y = x)"
  by (simp add: safe_def)

lemma safe_ret [safe_rules]: "Q x \<Longrightarrow> safe I (ret x) Q"
  by (simp add: safe_def)

lemma safe_fail [safe_rules]: "safe I (fail e) Q"
  by (simp add: safe_def)

lemma safe_lift [safe_rules]: "safe I (lift r) (\<lambda>x. r = Inr x)"
  by (auto simp: safe_def)

lemma keeps_lift [safe_rules]: "keeps I (lift r)"
  by (simp add: safe_def)

lemma safe_check [safe_rules]: "safe I (check e) (\<lambda>_. e = None)"
  by (simp add: safe_def split: option.splits)

lemma safe_andThen [safe_rules]:
  assumes "safe I m P" "\<And>x. P x \<Longrightarrow> safe I (f x) Q"
  shows "safe I (andThen m f) Q"
proof (rule safeI)
  fix w x w' assume I: "I w" and eq: "andThen m f w = (x, w')"
  obtain r w1 where m: "m w = (r, w1)" by fastforce
  have I1: "I w1" using safeD [OF assms(1) I m] .
  show "I w' \<and> (\<forall>v. x = Inr v \<longrightarrow> Q v)"
  proof (cases r)
    case (Inl e)
    then show ?thesis using I1 m eq by (auto simp: andThen_def)
  next
    case (Inr v)
    then have "f v w1 = (x, w')" "P v" using m eq safe_value [OF assms(1) I] by (auto simp: andThen_def)
    then show ?thesis using assms(2) I1 unfolding safe_def by blast
  qed
qed

lemma safe_attempt [safe_rules]:
  assumes "safe I m P" "\<And>e. safe I (f (Inl e)) Q" "\<And>x. P x \<Longrightarrow> safe I (f (Inr x)) Q"
  shows "safe I (attempt m f) Q"
proof (rule safeI)
  fix w x w' assume I: "I w" and eq: "attempt m f w = (x, w')"
  obtain r w1 where m: "m w = (r, w1)" by fastforce
  then have f: "f r w1 = (x, w')" using eq by (simp add: attempt_def)
  have I1: "I w1" using safeD [OF assms(1) I m] .
  have "safe I (f r) Q" using assms safe_value [OF assms(1) I] m by (cases r) auto
  then show "I w' \<and> (\<forall>v. x = Inr v \<longrightarrow> Q v)" using I1 f unfolding safe_def by blast
qed

lemma safe_wrapErr [safe_rules]: "safe I m Q \<Longrightarrow> safe I (wrapErr msg m) Q"
  by (rule safeI) (auto simp: wrapErr_def dest: safeD safe_value split: prod.splits sum.splits)

lemma safe_if [safe_rules]: "(b \<Longrightarrow> safe I m Q) \<Longrightarrow> (\<not> b \<Longrightarrow> safe I m' Q) \<Longrightarrow> safe I (if b then m else m') Q"
  by simp

lemma safe_option [safe_rules]:
  "(x = None \<Longrightarrow> safe I m Q) \<Longrightarrow> (\<And>y. x = Some y \<Longrightarrow> safe I (f y) Q) \<Longrightarrow> safe I (case x of None \<Rightarrow> m | Some y \<Rightarrow> f y) Q"
  by (simp split: option.splits)

lemma safe_sum [safe_rules]:
  "(\<And>e. x = Inl e \<Longrightarrow> safe I (g e) Q) \<Longrightarrow> (\<And>y. x = Inr y \<Longrightarrow> safe I (f y) Q) \<Longrightarrow>
   safe I (case x of Inl e \<Rightarrow> g e | Inr y \<Rightarrow> f y) Q"
  by (simp split: sum.splits)

lemma safe_prod [safe_rules]:
  "(\<And>a b. x = (a, b) \<Longrightarrow> safe I (f a b) Q) \<Longrightarrow> safe I (case x of (a, b) \<Rightarrow> f a b) Q"
  by (simp split: prod.splits)

lemma safe_let [safe_rules]: "(\<And>y. y = x \<Longrightarrow> safe I (f y) Q) \<Longrightarrow> safe I (let y = x in f y) Q"
  by simp

lemma safe_conj: "keeps I m \<Longrightarrow> keeps J m \<Longrightarrow> keeps (\<lambda>w. I w \<and> J w) m"
  by (fastforce simp: safe_def)

lemma safe_const: "keeps I m \<Longrightarrow> keeps (\<lambda>w. I w \<and> B) m"
  by (rule safeI) (blast dest: safeD)

text \<open>A call whose text depends on the world it starts in, through the clock.\<close>

lemma safe_now: "(\<And>w. safe I (f w) Q) \<Longrightarrow> safe I (\<lambda>w. f w w) Q"
  unfolding safe_def by blast

lemma safe_andThen_now: "(\<And>w. safe I (andThen (m w) (f w)) Q) \<Longrightarrow> safe I (\<lambda>w. andThen (m w) (f w) w) Q"
  by (rule safe_now)

subsection \<open>What a call does\<close>

text \<open>
  \<open>triple P m Q E\<close>: started where \<open>P\<close> holds, a call that returns \<open>x\<close> ends where \<open>Q x\<close> holds, and one that
  fails with \<open>e\<close> where \<open>E e\<close> holds. For properties that relate the world after a call to the world before.
\<close>

named_theorems triple_rules \<open>introduction rules for the effect of calls\<close>

definition triple :: "('w \<Rightarrow> bool) \<Rightarrow> ('w, 'a) io \<Rightarrow> ('a \<Rightarrow> 'w \<Rightarrow> bool) \<Rightarrow> (err \<Rightarrow> 'w \<Rightarrow> bool) \<Rightarrow> bool" where
  "triple P m Q E \<longleftrightarrow> (\<forall>w x w'. P w \<longrightarrow> m w = (x, w') \<longrightarrow> (case x of Inl e \<Rightarrow> E e w' | Inr v \<Rightarrow> Q v w'))"

lemma tripleI:
  "(\<And>w v w'. P w \<Longrightarrow> m w = (Inr v, w') \<Longrightarrow> Q v w') \<Longrightarrow> (\<And>w e w'. P w \<Longrightarrow> m w = (Inl e, w') \<Longrightarrow> E e w') \<Longrightarrow> triple P m Q E"
  by (auto simp: triple_def split: sum.splits)

lemma triple_Inr: "triple P m Q E \<Longrightarrow> P w \<Longrightarrow> m w = (Inr v, w') \<Longrightarrow> Q v w'"
  by (fastforce simp: triple_def)

lemma triple_Inl: "triple P m Q E \<Longrightarrow> P w \<Longrightarrow> m w = (Inl e, w') \<Longrightarrow> E e w'"
  by (fastforce simp: triple_def)

lemma triple_conseq:
  "triple P m Q E \<Longrightarrow> (\<And>w. P' w \<Longrightarrow> P w) \<Longrightarrow> (\<And>x w. Q x w \<Longrightarrow> Q' x w) \<Longrightarrow> (\<And>e w. E e w \<Longrightarrow> E' e w) \<Longrightarrow> triple P' m Q' E'"
  by (intro tripleI) (blast dest: triple_Inr triple_Inl)+

lemma triple_safe: "safe I m Q \<longleftrightarrow> triple I m (\<lambda>x w. I w \<and> Q x) (\<lambda>_. I)"
proof
  assume "safe I m Q"
  then show "triple I m (\<lambda>x w. I w \<and> Q x) (\<lambda>_. I)" by (intro tripleI) (auto dest: safeD safe_value)
next
  assume t: "triple I m (\<lambda>x w. I w \<and> Q x) (\<lambda>_. I)"
  show "safe I m Q"
  proof (rule safeI)
    fix w x w' assume I: "I w" and m: "m w = (x, w')"
    show "I w' \<and> (\<forall>v. x = Inr v \<longrightarrow> Q v)"
    proof (cases x)
      case (Inl e)
      then show ?thesis using triple_Inl [OF t I] m by simp
    next
      case (Inr v)
      then show ?thesis using triple_Inr [OF t I] m by simp
    qed
  qed
qed

lemma triple_ret [triple_rules]: "(\<And>w. P w \<Longrightarrow> Q x w) \<Longrightarrow> triple P (ret x) Q E"
  by (simp add: triple_def)

lemma triple_fail [triple_rules]: "(\<And>w. P w \<Longrightarrow> E e w) \<Longrightarrow> triple P (fail e) Q E"
  by (simp add: triple_def)

lemma triple_lift [triple_rules]:
  "(\<And>x w. r = Inr x \<Longrightarrow> P w \<Longrightarrow> Q x w) \<Longrightarrow> (\<And>e w. r = Inl e \<Longrightarrow> P w \<Longrightarrow> E e w) \<Longrightarrow> triple P (lift r) Q E"
  by (auto simp: triple_def split: sum.splits)

lemma triple_check [triple_rules]:
  "(\<And>w. c = None \<Longrightarrow> P w \<Longrightarrow> Q () w) \<Longrightarrow> (\<And>e w. c = Some e \<Longrightarrow> P w \<Longrightarrow> E e w) \<Longrightarrow> triple P (check c) Q E"
  by (auto simp: triple_def split: option.splits)

lemma triple_andThen [triple_rules]:
  assumes "triple P m R E" "\<And>x. triple (R x) (f x) Q E"
  shows "triple P (andThen m f) Q E"
proof (rule tripleI)
  fix w v w' assume P: "P w" and "andThen m f w = (Inr v, w')"
  then obtain x w1 where "m w = (Inr x, w1)" "f x w1 = (Inr v, w')" by (auto simp: andThen_Inr)
  with P show "Q v w'" using triple_Inr [OF assms(1)] triple_Inr [OF assms(2)] by blast
next
  fix w e w' assume P: "P w" and "andThen m f w = (Inl e, w')"
  then consider "m w = (Inl e, w')" | x w1 where "m w = (Inr x, w1)" "f x w1 = (Inl e, w')" by (auto simp: andThen_Inl)
  then show "E e w'" using P triple_Inr [OF assms(1)] triple_Inl [OF assms(1)] triple_Inl [OF assms(2)] by cases blast+
qed

lemma triple_attempt [triple_rules]:
  assumes "triple P m R E'" "\<And>x. triple (R x) (f (Inr x)) Q E" "\<And>e. triple (E' e) (f (Inl e)) Q E"
  shows "triple P (attempt m f) Q E"
proof (unfold triple_def, intro allI impI)
  fix w x w' assume P: "P w" and eq: "attempt m f w = (x, w')"
  obtain r w1 where m: "m w = (r, w1)" by fastforce
  with eq have f: "f r w1 = (x, w')" by (simp add: attempt_def)
  show "case x of Inl e \<Rightarrow> E e w' | Inr v \<Rightarrow> Q v w'"
  proof (cases r)
    case (Inl e)
    then show ?thesis using assms(3) [of e, unfolded triple_def] triple_Inl [OF assms(1) P] m f by blast
  next
    case (Inr v)
    then show ?thesis using assms(2) [of v, unfolded triple_def] triple_Inr [OF assms(1) P] m f by blast
  qed
qed

lemma triple_wrapErr [triple_rules]: "triple P m Q (\<lambda>e. E (Errorf msg e)) \<Longrightarrow> triple P (wrapErr msg m) Q E"
  by (intro tripleI) (auto simp: wrapErr_Inl dest: triple_Inr triple_Inl)

lemma triple_if [triple_rules]: "(b \<Longrightarrow> triple P m Q E) \<Longrightarrow> (\<not> b \<Longrightarrow> triple P m' Q E) \<Longrightarrow> triple P (if b then m else m') Q E"
  by simp

lemma triple_option [triple_rules]:
  "(x = None \<Longrightarrow> triple P m Q E) \<Longrightarrow> (\<And>y. x = Some y \<Longrightarrow> triple P (f y) Q E) \<Longrightarrow> triple P (case x of None \<Rightarrow> m | Some y \<Rightarrow> f y) Q E"
  by (simp split: option.splits)

lemma triple_sum [triple_rules]:
  "(\<And>e. x = Inl e \<Longrightarrow> triple P (g e) Q E) \<Longrightarrow> (\<And>y. x = Inr y \<Longrightarrow> triple P (f y) Q E) \<Longrightarrow>
   triple P (case x of Inl e \<Rightarrow> g e | Inr y \<Rightarrow> f y) Q E"
  by (simp split: sum.splits)

lemma triple_prod [triple_rules]: "(\<And>a b. x = (a, b) \<Longrightarrow> triple P (f a b) Q E) \<Longrightarrow> triple P (case x of (a, b) \<Rightarrow> f a b) Q E"
  by (simp split: prod.splits)

lemma triple_now: "(\<And>w. triple (\<lambda>w'. w' = w \<and> P w) (f w) Q E) \<Longrightarrow> triple P (\<lambda>w. f w w) Q E"
  unfolding triple_def by blast

lemma triple_ex: "(\<And>s. triple (P s) m Q E) \<Longrightarrow> triple (\<lambda>w. \<exists>s. P s w) m Q E"
  unfolding triple_def by blast

lemma triple_pull: "(B \<Longrightarrow> triple P m Q E) \<Longrightarrow> triple (\<lambda>w. P w \<and> B) m Q E"
  unfolding triple_def by blast

text \<open>A call that leaves a view of the world alone, whatever it returns.\<close>

definition silent :: "('w \<Rightarrow> 'v) \<Rightarrow> ('w, 'a) io \<Rightarrow> bool" where
  "silent h m \<longleftrightarrow> (\<forall>w x w'. m w = (x, w') \<longrightarrow> h w' = h w)"

lemma silentI: "(\<And>w x w'. m w = (x, w') \<Longrightarrow> h w' = h w) \<Longrightarrow> silent h m"
  by (simp add: silent_def)

lemma silentD: "silent h m \<Longrightarrow> m w = (x, w') \<Longrightarrow> h w' = h w"
  by (simp add: silent_def)

lemma silent_keeps: "silent h m \<longleftrightarrow> (\<forall>H. keeps (\<lambda>w. h w = H) m)"
  by (auto simp: silent_def safe_def)

lemma silent_triple: "silent h m \<Longrightarrow> triple (\<lambda>w. h w = H) m (\<lambda>_ w. h w = H) (\<lambda>_ w. h w = H)"
  by (intro tripleI) (auto simp: silent_def)

subsection \<open>The pipeline store\<close>

locale pipeline_repository =
  fixes R :: "'w PipelineRepository"
    and row :: "'w \<Rightarrow> string \<Rightarrow> 'r option"
    and slug :: "'r \<Rightarrow> string"
    and ok :: "'w \<Rightarrow> bool"
  assumes get_ok: "repo_GetPipeline R i w = (Inr p, w') \<Longrightarrow> p_ID p = i \<and> map_option slug (row w i) = Some (p_CustomerSlug p)"
    and get_frame: "repo_GetPipeline R i w = (x, w') \<Longrightarrow> row w' = row w"
    and list_ok: "ok w \<Longrightarrow> repo_ListPipelinesByCustomer R c w = (Inr ps, w') \<Longrightarrow> p \<in> set ps \<Longrightarrow>
      p_CustomerSlug p = c \<and> map_option slug (row w (p_ID p)) = Some c"
    and list_frame: "repo_ListPipelinesByCustomer R c w = (y, w') \<Longrightarrow> row w' = row w"
    and create_ok: "repo_CreatePipeline R p w = (Inr q, w') \<Longrightarrow>
      q = p\<lparr>p_ID := p_ID q\<rparr> \<and> row w (p_ID q) = None \<and> (\<exists>r. row w' = (row w)(p_ID q \<mapsto> r) \<and> slug r = p_CustomerSlug p)"
    and create_err: "repo_CreatePipeline R p w = (Inl e, w') \<Longrightarrow> row w' = row w"
    and update_frame: "repo_UpdatePipeline R p w = (z, w') \<Longrightarrow> i \<noteq> p_ID p \<Longrightarrow> row w' i = row w i"
    and update_slug: "repo_UpdatePipeline R p w = (z, w') \<Longrightarrow> map_option slug (row w' (p_ID p)) = map_option slug (row w (p_ID p))"
    and update_err: "repo_UpdatePipeline R p w = (Inl e, w') \<Longrightarrow> row w' = row w"
    and delete_ok: "repo_DeletePipeline R i w = (Inr u, w') \<Longrightarrow> row w i \<noteq> None \<and> row w' = (row w)(i := None)"
    and delete_err: "repo_DeletePipeline R i w = (Inl e, w') \<Longrightarrow> row w' = row w"
    and enabled_ok: "repo_GetEnabledPipelines R c w = (Inr ps, w') \<Longrightarrow> p \<in> set ps \<Longrightarrow> p_CustomerSlug p = c"
    and enabled_frame: "repo_GetEnabledPipelines R c w = (y, w') \<Longrightarrow> row w' = row w"
    and create_run_frame: "repo_CreatePipelineRun R run w = (v, w') \<Longrightarrow> row w' = row w"
    and update_run_frame: "repo_UpdatePipelineRun R run w = (z, w') \<Longrightarrow> row w' = row w"
    and recent_frame: "repo_ListRecentRuns R i n w = (u', w') \<Longrightarrow> row w' = row w"
    and pending_frame: "repo_GetPendingRun R i w = (t, w') \<Longrightarrow> row w' = row w"
    and get_inv: "repo_GetPipeline R i w = (x, w') \<Longrightarrow> ok w \<Longrightarrow> ok w'"
    and list_inv: "repo_ListPipelinesByCustomer R c w = (y, w') \<Longrightarrow> ok w \<Longrightarrow> ok w'"
    and create_inv: "repo_CreatePipeline R p w = (x, w') \<Longrightarrow> ok w \<Longrightarrow> ok w'"
    and update_inv: "repo_UpdatePipeline R p w = (z, w') \<Longrightarrow> ok w \<Longrightarrow> ok w'"
    and delete_inv: "repo_DeletePipeline R i w = (z, w') \<Longrightarrow> ok w \<Longrightarrow> ok w'"
    and enabled_inv: "repo_GetEnabledPipelines R c w = (y, w') \<Longrightarrow> ok w \<Longrightarrow> ok w'"
    and create_run_inv: "repo_CreatePipelineRun R run w = (v, w') \<Longrightarrow> ok w \<Longrightarrow> ok w'"
    and update_run_inv: "repo_UpdatePipelineRun R run w = (z, w') \<Longrightarrow> ok w \<Longrightarrow> ok w'"
    and recent_inv: "repo_ListRecentRuns R i n w = (u', w') \<Longrightarrow> ok w \<Longrightarrow> ok w'"
    and pending_inv: "repo_GetPendingRun R i w = (t, w') \<Longrightarrow> ok w \<Longrightarrow> ok w'"
begin

text \<open>The rows of a tenant, and the rows of every other one.\<close>

definition foreign :: "string \<Rightarrow> 'w \<Rightarrow> (string \<times> 'r) set" where
  "foreign c w = {(i, r). row w i = Some r \<and> slug r \<noteq> c}"

lemma foreign_cong: "row w' = row w \<Longrightarrow> foreign c w' = foreign c w"
  by (simp add: foreign_def)

lemma foreign_upd:
  "(\<And>i. i \<noteq> k \<Longrightarrow> row w' i = row w i) \<Longrightarrow> map_option slug (row w k) \<in> {None, Some c} \<Longrightarrow>
   map_option slug (row w' k) \<in> {None, Some c} \<Longrightarrow> foreign c w' = foreign c w"
  unfolding foreign_def by (auto split: option.splits) (metis option.simps(9) option.sel option.distinct(1))+

lemma create_foreign:
  assumes "repo_CreatePipeline R p w = (x, w')" "p_CustomerSlug p = c"
  shows "foreign c w' = foreign c w"
proof (cases x)
  case (Inl e)
  with assms(1) have "row w' = row w" using create_err by blast
  then show ?thesis by (rule foreign_cong)
next
  case (Inr q)
  with assms create_ok obtain r where "row w (p_ID q) = None" "row w' = (row w)(p_ID q \<mapsto> r)" "slug r = c" by blast
  then show ?thesis by (intro foreign_upd [of "p_ID q"]) auto
qed

lemma update_foreign:
  assumes "repo_UpdatePipeline R p w = (x, w')" "map_option slug (row w (p_ID p)) \<in> {None, Some c}"
  shows "foreign c w' = foreign c w"
  using assms update_slug [OF assms(1)] by (intro foreign_upd [of "p_ID p"]) (auto simp: update_frame)

lemma delete_foreign:
  assumes "repo_DeletePipeline R i w = (x, w')" "map_option slug (row w i) \<in> {None, Some c}"
  shows "foreign c w' = foreign c w"
proof (cases x)
  case (Inl e)
  with assms(1) have "row w' = row w" using delete_err by blast
  then show ?thesis by (rule foreign_cong)
next
  case (Inr u)
  then have "row w' = (row w)(i := None)" using delete_ok assms(1) by blast
  then show ?thesis using assms(2) by (intro foreign_upd [of i]) auto
qed

lemmas row_frames = get_frame list_frame enabled_frame create_run_frame update_run_frame recent_frame pending_frame

lemmas store_invs = get_inv list_inv create_inv update_inv delete_inv enabled_inv create_run_inv update_run_inv
  recent_inv pending_inv

text \<open>
  The rows of the other tenants are exactly \<open>F\<close>. An id is not foreign when no other tenant has a row
  under it; that is all a write needs.
\<close>

definition within :: "string \<Rightarrow> (string \<times> 'r) set \<Rightarrow> 'w \<Rightarrow> bool" where
  "within c F w \<longleftrightarrow> ok w \<and> foreign c w = F"

lemma not_foreign: "i \<notin> fst ` foreign c w \<longleftrightarrow> map_option slug (row w i) \<in> {None, Some c}"
  by (cases "row w i") (force simp: foreign_def)+

lemma within_quiet: "(\<And>w x w'. m w = (x, w') \<Longrightarrow> row w' = row w \<and> (ok w \<longrightarrow> ok w')) \<Longrightarrow> keeps (within c F) m"
  by (rule safeI) (use foreign_cong in \<open>metis within_def\<close>)

lemma within_get: "safe (within c F) (repo_GetPipeline R i) (\<lambda>p. p_ID p = i \<and> (p_CustomerSlug p = c \<longrightarrow> i \<notin> fst ` F))"
proof (rule safeI)
  fix w x w' assume I: "within c F w" and g: "repo_GetPipeline R i w = (x, w')"
  have "within c F w'" using I foreign_cong [OF get_frame [OF g]] get_inv [OF g] by (simp add: within_def)
  moreover have "p_ID p = i \<and> (p_CustomerSlug p = c \<longrightarrow> i \<notin> fst ` F)" if "x = Inr p" for p
    using get_ok [of i w p w'] g that I not_foreign [of i c w] by (auto simp: within_def)
  ultimately show "within c F w' \<and> (\<forall>p. x = Inr p \<longrightarrow> p_ID p = i \<and> (p_CustomerSlug p = c \<longrightarrow> i \<notin> fst ` F))" by simp
qed

lemma within_list:
  "safe (within c F) (repo_ListPipelinesByCustomer R c) (\<lambda>ps. \<forall>p \<in> set ps. p_CustomerSlug p = c \<and> p_ID p \<notin> fst ` F)"
proof (rule safeI)
  fix w x w' assume I: "within c F w" and g: "repo_ListPipelinesByCustomer R c w = (x, w')"
  have "within c F w'" using I foreign_cong [OF list_frame [OF g]] list_inv [OF g] by (simp add: within_def)
  moreover have "p_CustomerSlug p = c \<and> p_ID p \<notin> fst ` F" if "x = Inr ps" "p \<in> set ps" for ps p
    using list_ok [of w c ps w' p] g that I not_foreign [of "p_ID p" c w] by (simp add: within_def)
  ultimately show "within c F w' \<and> (\<forall>ps. x = Inr ps \<longrightarrow> (\<forall>p \<in> set ps. p_CustomerSlug p = c \<and> p_ID p \<notin> fst ` F))" by simp
qed

lemma within_create:
  assumes "p_CustomerSlug p = c"
  shows "safe (within c F) (repo_CreatePipeline R p) (\<lambda>q. p_CustomerSlug q = c \<and> p_ID q \<notin> fst ` F)"
proof (rule safeI)
  fix w x w' assume I: "within c F w" and g: "repo_CreatePipeline R p w = (x, w')"
  have "within c F w'" using I create_foreign [OF g assms] create_inv [OF g] by (simp add: within_def)
  moreover have "p_CustomerSlug q = c \<and> p_ID q \<notin> fst ` F" if "x = Inr q" for q
  proof -
    have q: "q = p\<lparr>p_ID := p_ID q\<rparr>" "row w (p_ID q) = None" using create_ok g that by blast+
    have "p_CustomerSlug q = c" by (subst q(1)) (simp add: assms)
    then show ?thesis using q(2) I not_foreign [of "p_ID q" c w] by (simp add: within_def)
  qed
  ultimately show "within c F w' \<and> (\<forall>q. x = Inr q \<longrightarrow> p_CustomerSlug q = c \<and> p_ID q \<notin> fst ` F)" by simp
qed

lemma within_update: "p_ID p \<notin> fst ` F \<Longrightarrow> keeps (within c F) (repo_UpdatePipeline R p)"
  by (rule safeI) (use update_foreign not_foreign update_inv in \<open>metis within_def\<close>)

lemma within_delete: "i \<notin> fst ` F \<Longrightarrow> keeps (within c F) (repo_DeletePipeline R i)"
  by (rule safeI) (use delete_foreign not_foreign delete_inv in \<open>metis within_def\<close>)

lemma within_enabled: "safe (within c F) (repo_GetEnabledPipelines R c) (\<lambda>ps. \<forall>p \<in> set ps. p_CustomerSlug p = c)"
proof (rule safeI)
  fix w x w' assume I: "within c F w" and g: "repo_GetEnabledPipelines R c w = (x, w')"
  show "within c F w' \<and> (\<forall>ps. x = Inr ps \<longrightarrow> (\<forall>p \<in> set ps. p_CustomerSlug p = c))"
    using I g foreign_cong [OF enabled_frame [OF g]] enabled_inv [OF g] enabled_ok [of c w _ w'] by (auto simp: within_def)
qed

lemma within_runs:
  "keeps (within c F) (repo_CreatePipelineRun R run)" "keeps (within c F) (repo_UpdatePipelineRun R run)"
  "keeps (within c F) (repo_ListRecentRuns R i n)" "keeps (within c F) (repo_GetPendingRun R i)"
  by (rule within_quiet, auto dest: row_frames store_invs)+

end

end
