(* ===== verification/FileDrop.thy ===== *)
theory FileDrop
  imports PipelineSchema Contracts
begin

section \<open>The file drop (\<^verbatim>\<open>workspace/filedrop.go\<close>)\<close>

text \<open>
  The files of a \<^verbatim>\<open>file_upload\<close> pipeline: uploading, listing and deleting one, and the rewriting
  of such a pipeline into the plain \<^verbatim>\<open>filesystem\<close> source the worker reads. The service calls the
  workspace resolver, the pipeline repository and the object store through their ports; the body
  of an upload is its bytes. Spans, metrics and log lines are left out.
\<close>

subsection \<open>RFC 3339 times\<close>

text \<open>\<^verbatim>\<open>time.Time.UTC().Format(time.RFC3339)\<close> for the years 0 to 9999.\<close>

definition civil_from_days :: "int \<Rightarrow> int \<times> int \<times> int" where
  "civil_from_days days =
     (let z = days + 719468; era = z div 146097; doe = z mod 146097;
          yoe = (doe - doe div 1460 + doe div 36524 - doe div 146096) div 365;
          doy = doe - (365 * yoe + yoe div 4 - yoe div 100);
          mp = (5 * doy + 2) div 153;
          d = doy - (153 * mp + 2) div 5 + 1;
          m = (if mp < 10 then mp + 3 else mp - 9)
      in (yoe + era * 400 + (if m \<le> 2 then 1 else 0), m, d))"

definition pad0 :: "nat \<Rightarrow> int \<Rightarrow> string" where
  "pad0 w i = (let s = itoa (nat i) in replicate (w - length s) (CHR ''0'') @ s)"

definition formatRFC3339 :: "int \<Rightarrow> string" where
  "formatRFC3339 t =
     (let secs = t div 1000000000; (y, m, d) = civil_from_days (secs div 86400); s = secs mod 86400 in
      pad0 4 y @ ''-'' @ pad0 2 m @ ''-'' @ pad0 2 d @ ''T'' @
      pad0 2 (s div 3600) @ '':'' @ pad0 2 (s div 60 mod 60) @ '':'' @ pad0 2 (s mod 60) @ ''Z'')"

subsection \<open>The stored configuration\<close>

definition enc_uploadedFile :: "UploadedFile \<Rightarrow> json" where
  "enc_uploadedFile f = jobj
     ([(''name'', jstr (uf_Name f)), (''file'', jstr (uf_File f))] @
      omit_int ''size_bytes'' (uf_SizeBytes f) @ omit_str ''uploaded_at'' (uf_UploadedAt f))"

definition enc_fileUploadConfig :: "UploadedFile list \<Rightarrow> json" where
  "enc_fileUploadConfig fs = jobj (if fs = [] then [] else [(''files'', JArr (map enc_uploadedFile fs))])"

definition parseFileUploadConfig :: "raw \<Rightarrow> err + UploadedFile list" where
  "parseFileUploadConfig raw =
     (if isEmptyJSON raw then Inr []
      else case Unmarshal d_fileUploadConfig [] raw of
        None \<Rightarrow> Inl (ErrNew ''parse file_upload source config'')
      | Some fs \<Rightarrow> Inr fs)"

definition uploadStorage :: "Workspace \<Rightarrow> err + S3Config" where
  "uploadStorage ws =
     (let s3 = ws_EffectiveS3 ws in
      if s3_Bucket s3 = [] \<or> s3_AccessKeyID s3 = [] \<or> s3_SecretAccessKey s3 = [] \<or> s3_Endpoint s3 = []
      then Inl ErrCustomerNotProvisioned else Inr s3)"

subsection \<open>Serving the pipeline as a filesystem source\<close>

definition enc_filesystemTable :: "string \<Rightarrow> string \<Rightarrow> json" where
  "enc_filesystemTable name glob = jobj ([(''name'', jstr name)] @ omit_str ''file_glob'' glob)"

definition enc_filesystemSource :: "string \<Rightarrow> (string \<times> string) list \<Rightarrow> json" where
  "enc_filesystemSource bucketURL tables = jobj
     [(''bucket_url'', jstr bucketURL), (''file_glob'', jstr []),
      (''tables'', JArr (map (\<lambda>(n, g). enc_filesystemTable n g) tables))]"

definition enc_filesystemCreds :: "filesystemCreds \<Rightarrow> json" where
  "enc_filesystemCreds c = jobj
     [(''access_key_id'', jstr (fc_AccessKeyID c)), (''secret_access_key'', jstr (fc_SecretAccessKey c)),
      (''endpoint_url'', jstr (fc_EndpointURL c)), (''region'', jstr (fc_Region c))]"

text \<open>\<open>Inr None\<close> is the result \<^verbatim>\<open>(false, nil)\<close>; \<open>Inr (Some p)\<close> the rewritten pipeline.\<close>

definition resolveFileUploadPipeline :: "Pipeline \<Rightarrow> S3Config \<Rightarrow> err + Pipeline option" where
  "resolveFileUploadPipeline p s3 =
     (case parseFileUploadConfig (p_SourceConfig p) of
        Inl e \<Rightarrow> Inl e
      | Inr files \<Rightarrow>
          (if files = [] then Inr None
           else
             (let tables = map (\<lambda>f. (uf_Name f, uf_File f)) files;
                  srcCfg = Marshal (enc_filesystemSource (fileDropBucketURL s3 (p_ID p)) tables);
                  creds = Marshal (enc_filesystemCreds
                    \<lparr>fc_AccessKeyID = s3_AccessKeyID s3, fc_SecretAccessKey = s3_SecretAccessKey s3,
                     fc_EndpointURL = s3_Endpoint s3, fc_Region = s3_Region s3\<rparr>)
              in Inr (Some (p\<lparr>p_SourceType := ''filesystem'', p_SourceConfig := srcCfg, p_SourceCredentials := creds\<rparr>)))))"

subsection \<open>The service\<close>

record 'w FileDropService =
  fd_Workspaces :: "'w Resolver"
  fd_Pipelines :: "'w PipelineRepository"
  fd_Store :: "'w ObjectStore"
  fd_MaxBytes :: int
  fd_Now :: "'w \<Rightarrow> int"

definition DefaultUploadMaxBytes :: int where
  "DefaultUploadMaxBytes = 536870912"

definition maxBytes :: "'w FileDropService \<Rightarrow> int" where
  "maxBytes s = (if fd_MaxBytes s > 0 then fd_MaxBytes s else DefaultUploadMaxBytes)"

definition ownedFileUploadPipeline ::
  "'w FileDropService \<Rightarrow> string \<Rightarrow> string \<Rightarrow> ('w, Workspace \<times> Pipeline) io" where
  "ownedFileUploadPipeline s callerID pipelineID =
     andThen (wrapErr ''get customer'' (GetWorkspaceByUser (fd_Workspaces s) callerID)) (\<lambda>ws.
     andThen (wrapErr ''get pipeline'' (repo_GetPipeline (fd_Pipelines s) pipelineID)) (\<lambda>p.
     if p_CustomerSlug p \<noteq> ws_Slug ws then fail ErrPipelineNotFound
     else if p_SourceType p \<noteq> SourceTypeFileUpload then fail ErrNotFileUploadPipeline
     else ret (ws, p)))"

definition updateFiles ::
  "'w FileDropService \<Rightarrow> Pipeline \<Rightarrow> (UploadedFile list \<Rightarrow> UploadedFile list) \<Rightarrow> ('w, unit) io" where
  "updateFiles s p mutate =
     attempt (repo_GetPipeline (fd_Pipelines s) (p_ID p)) (\<lambda>r.
     let p' = (case r of Inr fresh \<Rightarrow> fresh | Inl _ \<Rightarrow> p) in
     andThen (lift (parseFileUploadConfig (p_SourceConfig p'))) (\<lambda>files.
     let raw = Marshal (enc_fileUploadConfig (mutate files)) in
     (\<lambda>w. wrapErr ''update pipeline'' (repo_UpdatePipeline (fd_Pipelines s)
        (p'\<lparr>p_SourceConfig := raw, p_UpdatedAt := fd_Now s w\<rparr>)) w)))"

definition putFile :: "UploadedFile \<Rightarrow> UploadedFile list \<Rightarrow> UploadedFile list" where
  "putFile f files = filter (\<lambda>g. uf_File g \<noteq> uf_File f) files @ [f]"

definition dropFile :: "string \<Rightarrow> UploadedFile list \<Rightarrow> UploadedFile list" where
  "dropFile filename files = filter (\<lambda>g. uf_File g \<noteq> filename) files"

definition Upload ::
  "'w FileDropService \<Rightarrow> string \<Rightarrow> string \<Rightarrow> string \<Rightarrow> int \<Rightarrow> string \<Rightarrow> ('w, UploadedFile) io" where
  "Upload s callerID pipelineID filename sz body =
     andThen (check (ValidateUploadFilename filename)) (\<lambda>_.
     if sz \<le> 0 then fail ErrInvalidUploadFile
     else if sz > maxBytes s then fail ErrInvalidUploadFile
     else
       andThen (ownedFileUploadPipeline s callerID pipelineID) (\<lambda>(ws, p).
       andThen (lift (uploadStorage ws)) (\<lambda>s3.
       andThen (wrapErr ''store upload'' (Put (fd_Store s) s3 (fileDropKey s3 (p_ID p) filename) sz body)) (\<lambda>_.
       (\<lambda>w. let f = \<lparr>uf_Name = UploadTableName filename, uf_File = filename, uf_SizeBytes = sz,
                      uf_UploadedAt = formatRFC3339 (fd_Now s w), uf_Missing = False\<rparr> in
         andThen (updateFiles s p (putFile f)) (\<lambda>_. ret f) w)))))"

text \<open>The existence checks go file by file; a check that fails leaves its file unflagged.\<close>

fun headFiles :: "'w ObjectStore \<Rightarrow> S3Config \<Rightarrow> string \<Rightarrow> UploadedFile list \<Rightarrow> ('w, UploadedFile list) io" where
  "headFiles st s3 pid [] = ret []"
| "headFiles st s3 pid (f # fs) =
     attempt (Head st s3 (fileDropKey s3 pid (uf_File f))) (\<lambda>r.
     let f' = (case r of Inr exists \<Rightarrow> f\<lparr>uf_Missing := \<not> exists\<rparr> | Inl _ \<Rightarrow> f) in
     andThen (headFiles st s3 pid fs) (\<lambda>fs'. ret (f' # fs')))"

definition flagMissingFiles ::
  "'w FileDropService \<Rightarrow> Workspace \<Rightarrow> string \<Rightarrow> UploadedFile list \<Rightarrow> ('w, UploadedFile list) io" where
  "flagMissingFiles s ws pid files =
     (case uploadStorage ws of Inl _ \<Rightarrow> ret files | Inr s3 \<Rightarrow> headFiles (fd_Store s) s3 pid files)"

definition ListFiles :: "'w FileDropService \<Rightarrow> string \<Rightarrow> string \<Rightarrow> ('w, UploadedFile list) io" where
  "ListFiles s callerID pipelineID =
     andThen (ownedFileUploadPipeline s callerID pipelineID) (\<lambda>(ws, p).
     andThen (lift (parseFileUploadConfig (p_SourceConfig p))) (\<lambda>files.
     flagMissingFiles s ws (p_ID p) files))"

definition DeleteFile :: "'w FileDropService \<Rightarrow> string \<Rightarrow> string \<Rightarrow> string \<Rightarrow> ('w, unit) io" where
  "DeleteFile s callerID pipelineID filename =
     andThen (check (ValidateUploadFilename filename)) (\<lambda>_.
     andThen (ownedFileUploadPipeline s callerID pipelineID) (\<lambda>(ws, p).
     andThen (lift (uploadStorage ws)) (\<lambda>s3.
     andThen (wrapErr ''delete upload'' (Delete (fd_Store s) s3 (fileDropKey s3 (p_ID p) filename))) (\<lambda>_.
     updateFiles s p (dropFile filename)))))"

subsection \<open>The configuration written is the configuration read\<close>

lemma dec_field_omit_other:
  "\<not> EqualFold k f \<Longrightarrow> dec_field d f (map (\<lambda>(k, v). (quote k, v)) (omit_str k s)) cur = Some cur"
  "\<not> EqualFold k f \<Longrightarrow> dec_field d f (map (\<lambda>(k, v). (quote k, v)) (omit_int k i)) cur = Some cur"
  by (simp_all add: omit_str_def omit_int_def)

lemma file_fold [simp]:
  "EqualFold ''name'' ''file'' = False" "EqualFold ''name'' ''size_bytes'' = False" "EqualFold ''name'' ''uploaded_at'' = False"
  "EqualFold ''file'' ''name'' = False" "EqualFold ''file'' ''size_bytes'' = False" "EqualFold ''file'' ''uploaded_at'' = False"
  "EqualFold ''size_bytes'' ''name'' = False" "EqualFold ''size_bytes'' ''file'' = False" "EqualFold ''size_bytes'' ''uploaded_at'' = False"
  "EqualFold ''uploaded_at'' ''name'' = False" "EqualFold ''uploaded_at'' ''file'' = False" "EqualFold ''uploaded_at'' ''size_bytes'' = False"
  by (simp_all add: fold_eval)

text \<open>A file as it can be stored: the size is an \<^verbatim>\<open>int64\<close> and nothing is flagged.\<close>

definition storable :: "UploadedFile \<Rightarrow> bool" where
  "storable f \<longleftrightarrow> - (2 ^ 63) \<le> uf_SizeBytes f \<and> uf_SizeBytes f < 2 ^ 63 \<and> \<not> uf_Missing f"

lemma d_enc_uploadedFile: "storable f \<Longrightarrow> d_uploadedFile (enc_uploadedFile f) zeroUploadedFile = Some f"
  by (simp add: d_uploadedFile_def enc_uploadedFile_def zeroUploadedFile_def storable_def dec_field_append
      dec_field_omit_other dec_field_omit_int dec_field_omit_str)

lemma json_ok_enc_uploadedFile [simp]: "json_ok (enc_uploadedFile f)"
  by (simp add: enc_uploadedFile_def)

lemma dec_all_enc: "\<forall>f \<in> set fs. d (enc f) z = Some f \<Longrightarrow> dec_all z d (map enc fs) = Some fs"
  by (induction fs) auto

lemma parse_enc_files:
  assumes "\<forall>f \<in> set fs. storable f"
  shows "parseFileUploadConfig (Marshal (enc_fileUploadConfig fs)) = Inr fs"
proof (cases "fs = []")
  case False
  have "Unmarshal d_fileUploadConfig [] (Marshal (enc_fileUploadConfig fs)) = d_fileUploadConfig (enc_fileUploadConfig fs) []"
    by (rule Unmarshal_Marshal) (simp add: enc_fileUploadConfig_def list_all_iff)
  also have "\<dots> = Some fs"
    using assms False dec_all_enc [of fs d_uploadedFile enc_uploadedFile zeroUploadedFile]
    by (simp add: d_fileUploadConfig_def enc_fileUploadConfig_def d_list_def d_enc_uploadedFile)
  finally show ?thesis using False by (simp add: parseFileUploadConfig_def enc_fileUploadConfig_def)
qed (simp add: parseFileUploadConfig_def enc_fileUploadConfig_def)

text \<open>What a stored configuration parses to can be stored again.\<close>

lemma lit_int64_range: "lit_int64 l = Some i \<Longrightarrow> - (2 ^ 63) \<le> i \<and> i < 2 ^ 63"
  by (auto simp: lit_int64_def Let_def split: if_splits)

lemma d_uploadedFile_storable:
  assumes "d_uploadedFile v f = Some g" "storable f"
  shows "storable g"
proof -
  have sz: "- (2 ^ 63) \<le> b \<and> b < 2 ^ 63"
    if "dec_field d_int64 ''size_bytes'' ms (uf_SizeBytes f) = Some b" for ms b
    using that
    by (rule dec_field_inv) (use assms(2) in \<open>auto simp: storable_def d_int64_def dest: lit_int64_range split: json.splits\<close>)
  show ?thesis using assms sz
    by (auto simp: d_uploadedFile_def d_obj_def storable_def split: json.splits Option.bind_splits)
qed

lemma dec_all_inv: "dec_all z d vs = Some xs \<Longrightarrow> (\<And>v x. d v z = Some x \<Longrightarrow> P x) \<Longrightarrow> \<forall>x \<in> set xs. P x"
  by (induction vs arbitrary: xs) (auto split: Option.bind_splits)

lemma parse_files_storable:
  assumes "parseFileUploadConfig raw = Inr fs"
  shows "\<forall>f \<in> set fs. storable f"
proof (cases "isEmptyJSON raw")
  case True
  with assms show ?thesis by (simp add: parseFileUploadConfig_def)
next
  case False
  have z: "storable zeroUploadedFile" by (simp add: storable_def zeroUploadedFile_def)
  have l: "\<forall>f \<in> set xs. storable f" if "d_list zeroUploadedFile d_uploadedFile v cur = Some xs" for v xs cur
    using that z by (auto simp: d_list_def split: json.splits dest!: dec_all_inv [where P = storable] intro: d_uploadedFile_storable)
  from assms False obtain v where "d_fileUploadConfig v [] = Some fs"
    by (auto simp: parseFileUploadConfig_def Unmarshal_def split: option.splits Option.bind_splits)
  then have "fs = [] \<or> (\<exists>ms. dec_field (d_list zeroUploadedFile d_uploadedFile) ''files'' ms [] = Some fs)"
    by (auto simp: d_fileUploadConfig_def d_obj_def split: json.splits)
  then show ?thesis
    using l by (auto dest!: dec_field_inv [where P = "\<lambda>xs. \<forall>f \<in> set xs. storable f"])
qed

subsection \<open>What the service keeps\<close>

text \<open>The ports as a caller of workspace \<open>c\<close> meets them; \<open>own\<close> are the ids the service may write under.\<close>

locale filedrop_ports =
  fixes s :: "'w FileDropService" and caller :: string and c :: string and I :: "'w \<Rightarrow> bool" and own :: "string set"
  assumes by_user: "safe I (GetWorkspaceByUser (fd_Workspaces s) caller) (\<lambda>ws. ws_Slug ws = c)"
    and get: "safe I (repo_GetPipeline (fd_Pipelines s) i) (\<lambda>p. p_ID p = i \<and> (p_CustomerSlug p = c \<longrightarrow> i \<in> own))"
    and update: "p_ID p \<in> own \<Longrightarrow> keeps I (repo_UpdatePipeline (fd_Pipelines s) p)"
    and put: "keeps I (Put (fd_Store s) s3 k n b)"
    and del: "keeps I (Delete (fd_Store s) s3 k)"
    and hd: "keeps I (Head (fd_Store s) s3 k)"
begin

lemma ownedFileUploadPipeline_safe:
  "safe I (ownedFileUploadPipeline s caller i) (\<lambda>(ws, p). ws_Slug ws = c \<and> p_ID p = i \<and> p_CustomerSlug p = c \<and> i \<in> own)"
  unfolding ownedFileUploadPipeline_def by (rule safe_rules by_user get | simp)+

lemma updateFiles_safe:
  assumes "p_ID p \<in> own"
  shows "keeps I (updateFiles s p f)"
proof -
  have upd: "keeps I (andThen (lift (parseFileUploadConfig (p_SourceConfig q))) (\<lambda>files w.
      wrapErr ''update pipeline'' (repo_UpdatePipeline (fd_Pipelines s)
        (q\<lparr>p_SourceConfig := Marshal (enc_fileUploadConfig (f files)), p_UpdatedAt := fd_Now s w\<rparr>)) w))"
    if "p_ID q \<in> own" for q
    by (intro safe_andThen [OF safe_lift] safe_now [where f = "\<lambda>w. wrapErr ''update pipeline'' (repo_UpdatePipeline (fd_Pipelines s)
        (q\<lparr>p_SourceConfig := Marshal (enc_fileUploadConfig (f x)), p_UpdatedAt := fd_Now s w\<rparr>))" for x]
        safe_wrapErr update) (simp add: that)
  show ?thesis unfolding updateFiles_def Let_def
    by (rule safe_attempt [OF get]) (simp_all add: upd assms)
qed

lemma Upload_safe: "keeps I (Upload s caller i name sz body)"
  unfolding Upload_def Let_def
  by (rule safe_andThen [OF safe_check] safe_if safe_fail safe_andThen [OF ownedFileUploadPipeline_safe] safe_prod
      safe_andThen [OF safe_lift] safe_andThen [OF safe_wrapErr [OF put]])+
    (rule safe_andThen_now, (rule safe_andThen [OF updateFiles_safe] safe_ret TrueI | simp)+)

lemma headFiles_safe: "keeps I (headFiles (fd_Store s) s3 i fs)"
  by (induction fs) (auto simp: Let_def intro!: safe_ret safe_attempt [OF hd] safe_andThen)

lemma ListFiles_safe: "keeps I (ListFiles s caller i)"
  unfolding ListFiles_def flagMissingFiles_def
  by (rule safe_rules ownedFileUploadPipeline_safe headFiles_safe TrueI)+

lemma DeleteFile_safe: "keeps I (DeleteFile s caller i name)"
  unfolding DeleteFile_def
  by (rule safe_rules ownedFileUploadPipeline_safe del updateFiles_safe | simp)+

end

subsection \<open>Properties\<close>

lemma fs_fold [simp]:
  "EqualFold ''bucket_url'' ''file_glob'' = False" "EqualFold ''bucket_url'' ''tables'' = False" "EqualFold ''file_glob'' ''bucket_url'' = False"
  "EqualFold ''file_glob'' ''tables'' = False" "EqualFold ''tables'' ''bucket_url'' = False" "EqualFold ''tables'' ''file_glob'' = False"
  "EqualFold ''access_key_id'' ''secret_access_key'' = False" "EqualFold ''access_key_id'' ''endpoint_url'' = False"
  "EqualFold ''access_key_id'' ''region'' = False" "EqualFold ''secret_access_key'' ''access_key_id'' = False"
  "EqualFold ''secret_access_key'' ''endpoint_url'' = False" "EqualFold ''secret_access_key'' ''region'' = False"
  "EqualFold ''endpoint_url'' ''access_key_id'' = False" "EqualFold ''endpoint_url'' ''secret_access_key'' = False"
  "EqualFold ''endpoint_url'' ''region'' = False" "EqualFold ''region'' ''access_key_id'' = False"
  "EqualFold ''region'' ''secret_access_key'' = False" "EqualFold ''region'' ''endpoint_url'' = False"
  by (simp_all add: fold_eval)

lemma json_ok_fs [simp]: "json_ok (enc_filesystemSource b ts)" "json_ok (enc_filesystemCreds c)"
proof -
  have "json_ok (enc_filesystemTable n g)" for n g by (simp add: enc_filesystemTable_def)
  then show "json_ok (enc_filesystemSource b ts)" by (auto simp: enc_filesystemSource_def list_all_iff)
qed (simp add: enc_filesystemCreds_def)

lemma resolveFileUpload_Some:
  assumes "resolveFileUploadPipeline p s3 = Inr (Some q)"
  obtains files where "parseFileUploadConfig (p_SourceConfig p) = Inr files" "files \<noteq> []" "p_SourceType q = ''filesystem''"
    "p_SourceConfig q = Marshal (enc_filesystemSource (fileDropBucketURL s3 (p_ID p)) (map (\<lambda>f. (uf_Name f, uf_File f)) files))"
    "p_SourceCredentials q = Marshal (enc_filesystemCreds \<lparr>fc_AccessKeyID = s3_AccessKeyID s3, fc_SecretAccessKey = s3_SecretAccessKey s3,
        fc_EndpointURL = s3_Endpoint s3, fc_Region = s3_Region s3\<rparr>)"
    "q = p\<lparr>p_SourceType := ''filesystem'', p_SourceConfig := p_SourceConfig q, p_SourceCredentials := p_SourceCredentials q\<rparr>"
proof (cases "parseFileUploadConfig (p_SourceConfig p)")
  case (Inr files)
  with assms that [OF Inr] show ?thesis by (simp add: resolveFileUploadPipeline_def Let_def split: if_splits)
qed (use assms in \<open>simp add: resolveFileUploadPipeline_def\<close>)

lemma read_filesystemSource:
  "Unmarshal d_filesystemConfig zeroFilesystemConfig (Marshal (enc_filesystemSource b ts)) = Some \<lparr>fs_BucketURL = b, fs_FileGlob = []\<rparr>"
proof -
  have "Unmarshal d_filesystemConfig zeroFilesystemConfig (Marshal (enc_filesystemSource b ts)) =
      d_filesystemConfig (enc_filesystemSource b ts) zeroFilesystemConfig" by (rule Unmarshal_Marshal) simp
  then show ?thesis by (simp add: d_filesystemConfig_def d_filesystemConfig_ms_def enc_filesystemSource_def)
qed

lemma read_filesystemCreds:
  "Unmarshal d_filesystemCreds \<lparr>fc_AccessKeyID = [], fc_SecretAccessKey = [], fc_EndpointURL = [], fc_Region = []\<rparr> (Marshal (enc_filesystemCreds c)) = Some c"
proof -
  have "Unmarshal d_filesystemCreds z (Marshal (enc_filesystemCreds c)) = d_filesystemCreds (enc_filesystemCreds c) z" for z
    by (rule Unmarshal_Marshal) simp
  then show ?thesis by (simp add: d_filesystemCreds_def enc_filesystemCreds_def)
qed

text \<open>
  C33. The pipeline served to the worker in place of an upload pipeline is a filesystem source that the
  schema accepts, configuration and credentials, whenever the workspace's storage is usable; and it is
  the same pipeline in everything but the source.
\<close>

theorem served_upload_is_valid_filesystem:
  assumes "uploadStorage ws = Inr s3" "resolveFileUploadPipeline p s3 = Inr (Some q)"
  shows "ValidateSourceConfig (p_SourceType q) (p_SourceConfig q) = None \<and>
    ValidateSourceCredentials (p_SourceType q) (p_SourceConfig q) (p_SourceCredentials q) = None \<and>
    q = p\<lparr>p_SourceType := ''filesystem'', p_SourceConfig := p_SourceConfig q, p_SourceCredentials := p_SourceCredentials q\<rparr>"
proof -
  from assms(2) obtain files where "parseFileUploadConfig (p_SourceConfig p) = Inr files" "files \<noteq> []"
    and q: "p_SourceType q = ''filesystem''"
    "p_SourceConfig q = Marshal (enc_filesystemSource (fileDropBucketURL s3 (p_ID p)) (map (\<lambda>f. (uf_Name f, uf_File f)) files))"
    "p_SourceCredentials q = Marshal (enc_filesystemCreds \<lparr>fc_AccessKeyID = s3_AccessKeyID s3, fc_SecretAccessKey = s3_SecretAccessKey s3,
        fc_EndpointURL = s3_Endpoint s3, fc_Region = s3_Region s3\<rparr>)"
    "q = p\<lparr>p_SourceType := ''filesystem'', p_SourceConfig := p_SourceConfig q, p_SourceCredentials := p_SourceCredentials q\<rparr>"
    by (rule resolveFileUpload_Some)
  have "s3_AccessKeyID s3 \<noteq> []" "s3_SecretAccessKey s3 \<noteq> []" using assms(1) by (auto simp: uploadStorage_def Let_def split: if_splits)
  moreover have "fileDropBucketURL s3 (p_ID p) \<noteq> []" by (simp add: fileDropBucketURL_def)
  moreover have "\<not> isEmptyJSON (Marshal (enc_filesystemSource b ts))" "\<not> isEmptyJSON (Marshal (enc_filesystemCreds c))" for b ts c
    by (simp_all add: enc_filesystemSource_def enc_filesystemCreds_def jobj_def)
  ultimately have "ValidateSourceConfig ''filesystem'' (p_SourceConfig q) = None"
    "ValidateSourceCredentials ''filesystem'' (p_SourceConfig q) (p_SourceCredentials q) = None"
    by (simp_all add: q(2,3) ValidateSourceConfig_def ValidateSourceCredentials_def validateFilesystemConfig_def validateFilesystemCreds_def
        read_filesystemSource read_filesystemCreds)
  then show ?thesis using q(1,4) by simp
qed

definition exampleUpload :: Pipeline where
  "exampleUpload =
     \<lparr>p_ID = ''p1'', p_CustomerSlug = ''acme'', p_Name = ''sales'', p_SourceType = SourceTypeFileUpload,
      p_SourceConfig = ''{\"files\":[{\"name\":\"q1\",\"file\":\"q1.csv\"}]}'', p_SourceCredentials = [], p_DatasetName = ''raw'',
      p_Schedule = [], p_WriteDisposition = ''replace'', p_MergeStrategy = [], p_Enabled = True, p_CredentialsExternal = False,
      p_CreatedAt = 1, p_UpdatedAt = 1, p_TriggerNow = False, p_PendingRunID = [], p_LastRunAt = None, p_LastRunTime = None,
      p_LastRunStatus = []\<rparr>"

lemma exampleUpload_files:
  "parseFileUploadConfig (p_SourceConfig exampleUpload) = Inr [zeroUploadedFile\<lparr>uf_Name := ''q1'', uf_File := ''q1.csv''\<rparr>]"
  by code_simp

theorem served_upload_is_valid_filesystem_witness:
  "\<exists>q. resolveFileUploadPipeline exampleUpload (ws_EffectiveS3 exampleWorkspace) = Inr (Some q) \<and>
     ValidateSourceConfig (p_SourceType q) (p_SourceConfig q) = None"
proof -
  have s3: "uploadStorage exampleWorkspace = Inr (ws_EffectiveS3 exampleWorkspace)" by (simp add: uploadStorage_def exampleWorkspace_def)
  obtain q where q: "resolveFileUploadPipeline exampleUpload (ws_EffectiveS3 exampleWorkspace) = Inr (Some q)"
    by (simp add: resolveFileUploadPipeline_def exampleUpload_files Let_def)
  from served_upload_is_valid_filesystem [OF s3 q] q show ?thesis by blast
qed

end
