(* ===== verification/Postgres.thy ===== *)
theory Postgres
  imports Crypto FileDrop Contracts
begin

section \<open>The PostgreSQL store (\<^verbatim>\<open>postgres/\<close>)\<close>

text \<open>
  The tables of \<^verbatim>\<open>postgres/migrations\<close> that the pipelines use, and the repository methods of
  \<^verbatim>\<open>postgres/pipeline.go\<close>, \<^verbatim>\<open>pipeline_ownership.go\<close>, \<^verbatim>\<open>pipeline_credential_renders.go\<close>,
  \<^verbatim>\<open>pipeline_definition_renders.go\<close> and \<^verbatim>\<open>import.go\<close> as the SQL they run. The database is a record;
  components extend it with state of their own. \<open>db_link\<close> scripts the statements to come: one marked
  \<^const>\<open>False\<close> fails in the driver and changes nothing, so every statement of every operation may
  fail. The database itself is the parameter for what PostgreSQL computes: \<open>db_gen\<close> the ids
  \<^verbatim>\<open>gen_random_uuid()\<close> mints, \<open>db_jsonb\<close> the normal form a JSONB column keeps (or a rejected text),
  \<open>db_now\<close> the clock. Ids are compared as text. Rows with equal \<^verbatim>\<open>created_at\<close> come in table order.
\<close>

subsection \<open>Tables\<close>

record prow =
  pr_id :: string
  pr_customer_slug :: string
  pr_name :: string
  pr_source_type :: string
  pr_source_config :: raw
  pr_source_credentials :: string
  pr_dataset_name :: string
  pr_schedule :: string
  pr_write_disposition :: string
  pr_merge_strategy :: string
  pr_credentials_external :: bool
  pr_enabled :: bool
  pr_created_at :: int
  pr_updated_at :: int

record trow =
  tr_id :: string
  tr_customer_slug :: string
  tr_name :: string
  tr_repo_url :: string
  tr_repo_ref :: string
  tr_git_credentials :: string
  tr_schedule :: string
  tr_trigger_after_pipeline_id :: "string option"
  tr_dbt_selector :: string
  tr_enabled :: bool
  tr_created_at :: int
  tr_updated_at :: int

text \<open>A grant's scopes are one text column.\<close>

record growrow =
  gw_grant_id :: string
  gw_customer_slug :: string
  gw_user_sub :: string
  gw_refresh_token :: string
  gw_email :: string
  gw_client_id :: string
  gw_scopes :: string
  gw_created_at :: int
  gw_expires_at :: int

text \<open>A source test's details are a JSON column.\<close>

record strow =
  sr_id :: string
  sr_customer_slug :: string
  sr_source_type :: string
  sr_source_config :: raw
  sr_source_credentials :: string
  sr_status :: string
  sr_message :: string
  sr_details :: raw
  sr_created_at :: int
  sr_completed_at :: "int option"
  sr_expires_at :: int

record pgdb =
  db_link :: "bool list"
  db_now :: int
  db_gen :: "nat \<Rightarrow> string"
  db_next :: nat
  db_entropy :: "nat \<Rightarrow> nat"
  db_drawn :: nat
  db_jsonb :: "raw \<Rightarrow> raw option"
  t_pipelines :: "prow list"
  t_pipeline_runs :: "PipelineRun list"
  t_transformations :: "trow list"
  t_credential_renders :: "PipelineCredentialRender list"
  t_definition_renders :: "PipelineDefinitionRender list"
  t_connections :: "Connection list"
  t_oauth_clients :: "OAuthClient list"
  t_grants :: "growrow list"
  t_transformation_runs :: "TransformationRun list"
  t_transformation_renders :: "TransformationDefinitionRender list"
  t_source_tests :: "strow list"
  t_notifications :: "Notification list"
  db_channel :: "string list"

text \<open>Running a statement.\<close>

definition sql :: "('a pgdb_scheme, 'x) io \<Rightarrow> ('a pgdb_scheme, 'x) io" where
  "sql act db =
     (case db_link db of
        [] \<Rightarrow> act db
      | up # ls \<Rightarrow> (if up then act (db\<lparr>db_link := ls\<rparr>) else (Inl ErrDriver, db\<lparr>db_link := ls\<rparr>)))"

definition find_pipeline :: "string \<Rightarrow> 'a pgdb_scheme \<Rightarrow> prow option" where
  "find_pipeline i db = find (\<lambda>r. pr_id r = i) (t_pipelines db)"

definition takes_key :: "prow \<Rightarrow> prow \<Rightarrow> bool" where
  "takes_key r s \<longleftrightarrow> pr_id s = pr_id r \<or> pr_customer_slug s = pr_customer_slug r \<and> pr_name s = pr_name r"

text \<open>\<^verbatim>\<open>INSERT INTO pipelines\<close>, with an id or with the column default.\<close>

definition insert_row :: "string option \<Rightarrow> prow \<Rightarrow> ('a pgdb_scheme, string) io" where
  "insert_row ido r db =
     (let i = (case ido of Some i \<Rightarrow> i | None \<Rightarrow> db_gen db (db_next db));
         db1 = (case ido of Some _ \<Rightarrow> db | None \<Rightarrow> db\<lparr>db_next := Suc (db_next db)\<rparr>) in
     case db_jsonb db (pr_source_config r) of
       None \<Rightarrow> (Inl ErrInvalidText, db1)
     | Some c \<Rightarrow>
         (let r' = r\<lparr>pr_id := i, pr_source_config := c\<rparr> in
          if list_ex (takes_key r') (t_pipelines db) then (Inl ErrUniqueViolation, db1)
          else (Inr i, db1\<lparr>t_pipelines := t_pipelines db @ [r']\<rparr>)))"

definition insert_pipeline :: "string option \<Rightarrow> prow \<Rightarrow> ('a pgdb_scheme, string) io" where
  "insert_pipeline ido r = sql (insert_row ido r)"

text \<open>\<^verbatim>\<open>UPDATE pipelines \<dots> WHERE id\<close>: the number of rows affected.\<close>

definition update_row :: "string \<Rightarrow> (prow \<Rightarrow> prow) \<Rightarrow> ('a pgdb_scheme, nat) io" where
  "update_row i f db =
     (case find_pipeline i db of
       None \<Rightarrow> (Inr 0, db)
     | Some r \<Rightarrow>
         (case db_jsonb db (pr_source_config (f r)) of
            None \<Rightarrow> (Inl ErrInvalidText, db)
          | Some c \<Rightarrow>
              (let r' = (f r)\<lparr>pr_source_config := c\<rparr> in
               if list_ex (\<lambda>s. pr_id s \<noteq> i \<and> takes_key r' s) (t_pipelines db) then (Inl ErrUniqueViolation, db)
               else (Inr 1, db\<lparr>t_pipelines := map (\<lambda>s. if pr_id s = i then r' else s) (t_pipelines db)\<rparr>))))"

definition update_pipeline :: "string \<Rightarrow> (prow \<Rightarrow> prow) \<Rightarrow> ('a pgdb_scheme, nat) io" where
  "update_pipeline i f = sql (update_row i f)"

text \<open>\<^verbatim>\<open>DELETE FROM pipelines WHERE id\<close> with what the foreign keys do.\<close>

definition delete_pipeline :: "string \<Rightarrow> ('a pgdb_scheme, nat) io" where
  "delete_pipeline i = sql (\<lambda>db.
     if find_pipeline i db = None then (Inr 0, db)
     else (Inr 1, db\<lparr>
       t_pipelines := filter (\<lambda>r. pr_id r \<noteq> i) (t_pipelines db),
       t_pipeline_runs := filter (\<lambda>r. r_PipelineID r \<noteq> i) (t_pipeline_runs db),
       t_transformations := map (\<lambda>t. if tr_trigger_after_pipeline_id t = Some i
         then t\<lparr>tr_trigger_after_pipeline_id := None\<rparr> else t) (t_transformations db),
       t_credential_renders := filter (\<lambda>r. cr_PipelineID r \<noteq> i) (t_credential_renders db),
       t_definition_renders := filter (\<lambda>r. dr_PipelineID r \<noteq> i) (t_definition_renders db)\<rparr>))"

definition insert_run :: "PipelineRun \<Rightarrow> ('a pgdb_scheme, string) io" where
  "insert_run run = sql (\<lambda>db.
     let i = (if r_ID run = [] then db_gen db (db_next db) else r_ID run);
         db1 = (if r_ID run = [] then db\<lparr>db_next := Suc (db_next db)\<rparr> else db) in
     if find_pipeline (r_PipelineID run) db = None then (Inl ErrForeignKeyViolation, db1)
     else if list_ex (\<lambda>s. r_ID s = i) (t_pipeline_runs db) then (Inl ErrUniqueViolation, db1)
     else (Inr i, db1\<lparr>t_pipeline_runs := t_pipeline_runs db @ [run\<lparr>r_ID := i\<rparr>]\<rparr>))"

definition update_runs :: "(PipelineRun \<Rightarrow> bool) \<Rightarrow> (PipelineRun \<Rightarrow> PipelineRun) \<Rightarrow> ('a pgdb_scheme, nat) io" where
  "update_runs P f = sql (\<lambda>db.
     (Inr (length (filter P (t_pipeline_runs db))),
      db\<lparr>t_pipeline_runs := map (\<lambda>r. if P r then f r else r) (t_pipeline_runs db)\<rparr>))"

text \<open>A query reads the tables.\<close>

definition query :: "('a pgdb_scheme \<Rightarrow> 'x) \<Rightarrow> ('a pgdb_scheme, 'x) io" where
  "query q = sql (\<lambda>db. (Inr (q db), db))"

subsection \<open>The repository\<close>

record Repository =
  rp_Encryptor :: "(AEAD \<times> Keyring) option"

text \<open>\<^verbatim>\<open>rand.Read\<close> into a nonce.\<close>

definition rand_Read :: "('a pgdb_scheme, string) io" where
  "rand_Read db =
     (Inr (map (\<lambda>j. char_of (db_entropy db (db_drawn db + j))) [0..<NonceSize]), db\<lparr>db_drawn := db_drawn db + NonceSize\<rparr>)"

definition encryptCredentials :: "Repository \<Rightarrow> raw \<Rightarrow> ('a pgdb_scheme, string) io" where
  "encryptCredentials r creds =
     (case rp_Encryptor r of None \<Rightarrow> ret creds | Some (A, k) \<Rightarrow> Encrypt_ring A rand_Read k creds)"

definition decryptCredentials :: "Repository \<Rightarrow> string \<Rightarrow> err + raw" where
  "decryptCredentials r stored =
     (case rp_Encryptor r of None \<Rightarrow> Inr stored | Some (A, k) \<Rightarrow> Decrypt_ring A k stored)"

text \<open>\<^verbatim>\<open>isUniqueViolation\<close> names the sentinel; any other error is wrapped.\<close>

definition uniqueAs :: "err \<Rightarrow> string \<Rightarrow> ('w, 'x) io \<Rightarrow> ('w, 'x) io" where
  "uniqueAs sentinel what m = attempt m (\<lambda>r.
     case r of
       Inr x \<Rightarrow> ret x
     | Inl e \<Rightarrow> (if e = ErrUniqueViolation then fail sentinel else fail (Errorf what e)))"

definition pipeline_columns :: "Pipeline \<Rightarrow> string \<Rightarrow> prow \<Rightarrow> prow" where
  "pipeline_columns p encCreds r = r\<lparr>
     pr_name := p_Name p, pr_source_type := p_SourceType p, pr_source_config := p_SourceConfig p,
     pr_source_credentials := encCreds, pr_dataset_name := p_DatasetName p, pr_schedule := p_Schedule p,
     pr_write_disposition := p_WriteDisposition p, pr_merge_strategy := p_MergeStrategy p,
     pr_enabled := p_Enabled p, pr_updated_at := p_UpdatedAt p\<rparr>"

text \<open>The row of an insert; the columns an insert does not name have their defaults.\<close>

definition new_row :: "Pipeline \<Rightarrow> string \<Rightarrow> prow" where
  "new_row p encCreds = pipeline_columns p encCreds
     \<lparr>pr_id = [], pr_customer_slug = p_CustomerSlug p, pr_name = [], pr_source_type = [], pr_source_config = [],
      pr_source_credentials = [], pr_dataset_name = [], pr_schedule = [], pr_write_disposition = [],
      pr_merge_strategy = [], pr_credentials_external = False, pr_enabled = False,
      pr_created_at = p_CreatedAt p, pr_updated_at = 0\<rparr>"

definition CreatePipeline_pg :: "Repository \<Rightarrow> Pipeline \<Rightarrow> ('a pgdb_scheme, Pipeline) io" where
  "CreatePipeline_pg r p =
     andThen (wrapErr ''postgres: encrypt credentials'' (encryptCredentials r (p_SourceCredentials p))) (\<lambda>encCreds.
     andThen (uniqueAs ErrPipelineAlreadyExists ''postgres: create pipeline'' (insert_pipeline None (new_row p encCreds)))
       (\<lambda>i. ret (p\<lparr>p_ID := i\<rparr>)))"

text \<open>A row scanned into the struct; what a query does not select is the zero value.\<close>

definition scan_pipeline :: "prow \<Rightarrow> Pipeline" where
  "scan_pipeline r =
     \<lparr>p_ID = pr_id r, p_CustomerSlug = pr_customer_slug r, p_Name = pr_name r, p_SourceType = pr_source_type r,
      p_SourceConfig = pr_source_config r, p_SourceCredentials = [], p_DatasetName = pr_dataset_name r,
      p_Schedule = pr_schedule r, p_WriteDisposition = pr_write_disposition r, p_MergeStrategy = pr_merge_strategy r,
      p_Enabled = pr_enabled r, p_CredentialsExternal = pr_credentials_external r, p_CreatedAt = pr_created_at r,
      p_UpdatedAt = pr_updated_at r, p_TriggerNow = False, p_PendingRunID = [], p_LastRunAt = None,
      p_LastRunTime = None, p_LastRunStatus = []\<rparr>"

definition GetPipeline_pg :: "Repository \<Rightarrow> string \<Rightarrow> ('a pgdb_scheme, Pipeline) io" where
  "GetPipeline_pg r i =
     andThen (wrapErr ''postgres: get pipeline'' (query (find_pipeline i))) (\<lambda>row.
     case row of
       None \<Rightarrow> fail ErrPipelineNotFound
     | Some s \<Rightarrow>
         andThen (wrapErr ''postgres: decrypt credentials'' (lift (decryptCredentials r (pr_source_credentials s))))
           (\<lambda>creds. ret ((scan_pipeline s)\<lparr>p_SourceCredentials := creds\<rparr>)))"

definition oldest_run :: "PipelineRun list \<Rightarrow> PipelineRun option" where
  "oldest_run rs = (case sort_key r_CreatedAt rs of [] \<Rightarrow> None | x # _ \<Rightarrow> Some x)"

text \<open>\<^verbatim>\<open>ORDER BY created_at DESC\<close>.\<close>

definition runs_desc :: "PipelineRun list \<Rightarrow> PipelineRun list" where
  "runs_desc rs = sort_key (\<lambda>r. - r_CreatedAt r) rs"

definition newest_run :: "PipelineRun list \<Rightarrow> PipelineRun option" where
  "newest_run rs = (case runs_desc rs of [] \<Rightarrow> None | x # _ \<Rightarrow> Some x)"

definition runs_of :: "string \<Rightarrow> 'a pgdb_scheme \<Rightarrow> PipelineRun list" where
  "runs_of i db = filter (\<lambda>r. r_PipelineID r = i) (t_pipeline_runs db)"

definition customer_rows :: "string \<Rightarrow> 'a pgdb_scheme \<Rightarrow> prow list" where
  "customer_rows customerSlug db = sort_key pr_created_at (filter (\<lambda>r. pr_customer_slug r = customerSlug) (t_pipelines db))"

text \<open>The list query selects no credentials.\<close>

definition ListPipelinesByCustomer_pg :: "Repository \<Rightarrow> string \<Rightarrow> ('a pgdb_scheme, Pipeline list) io" where
  "ListPipelinesByCustomer_pg r customerSlug =
     wrapErr ''postgres: list pipelines'' (query (\<lambda>db.
       map (\<lambda>row.
         case newest_run (runs_of (pr_id row) db) of
           None \<Rightarrow> scan_pipeline row
         | Some run \<Rightarrow> (scan_pipeline row)\<lparr>
             p_LastRunTime := Some (case r_StartedAt run of Some t \<Rightarrow> t | None \<Rightarrow> r_CreatedAt run),
             p_LastRunStatus := r_Status run\<rparr>) (customer_rows customerSlug db)))"

fun decrypt_all :: "Repository \<Rightarrow> prow list \<Rightarrow> err + (string \<times> raw) list" where
  "decrypt_all r [] = Inr []"
| "decrypt_all r (s # rows) =
     (case decryptCredentials r (pr_source_credentials s) of
        Inl e \<Rightarrow> Inl (Errorf ''postgres: decrypt credentials'' e)
      | Inr c \<Rightarrow> (case decrypt_all r rows of Inl e \<Rightarrow> Inl e | Inr cs \<Rightarrow> Inr ((pr_id s, c) # cs)))"

definition ListPipelineCredentialsByCustomer_pg :: "Repository \<Rightarrow> string \<Rightarrow> ('a pgdb_scheme, (string \<times> raw) list) io" where
  "ListPipelineCredentialsByCustomer_pg r customerSlug =
     andThen (wrapErr ''postgres: list pipeline credentials''
       (query (\<lambda>db. filter (\<lambda>row. pr_customer_slug row = customerSlug) (t_pipelines db))))
       (\<lambda>rows. lift (decrypt_all r rows))"

definition UpdatePipeline_pg :: "Repository \<Rightarrow> Pipeline \<Rightarrow> ('a pgdb_scheme, unit) io" where
  "UpdatePipeline_pg r p =
     andThen (wrapErr ''postgres: encrypt credentials'' (encryptCredentials r (p_SourceCredentials p))) (\<lambda>encCreds.
     andThen (uniqueAs ErrPipelineAlreadyExists ''postgres: update pipeline''
       (update_pipeline (p_ID p) (pipeline_columns p encCreds))) (\<lambda>n.
     if n = 0 then fail ErrPipelineNotFound else ret ()))"

definition DeletePipeline_pg :: "Repository \<Rightarrow> string \<Rightarrow> ('a pgdb_scheme, unit) io" where
  "DeletePipeline_pg r i =
     andThen (wrapErr ''postgres: delete pipeline'' (delete_pipeline i)) (\<lambda>n.
     if n = 0 then fail ErrPipelineNotFound else ret ())"

text \<open>The pending and the last successful run of a pipeline, as the two lateral joins select them.\<close>

definition pending_run :: "string \<Rightarrow> 'a pgdb_scheme \<Rightarrow> PipelineRun option" where
  "pending_run i db = oldest_run (filter (\<lambda>r. r_Status r = ''pending'') (runs_of i db))"

definition last_success :: "string \<Rightarrow> 'a pgdb_scheme \<Rightarrow> int option" where
  "last_success i db = map_option r_CreatedAt (newest_run (filter (\<lambda>r. r_Status r = ''success'') (runs_of i db)))"

definition enabled_rows :: "string \<Rightarrow> 'a pgdb_scheme \<Rightarrow> (prow \<times> string \<times> int option) list" where
  "enabled_rows customerSlug db =
     map (\<lambda>row. (row, (case pending_run (pr_id row) db of None \<Rightarrow> [] | Some run \<Rightarrow> r_ID run), last_success (pr_id row) db))
       (filter (\<lambda>row. pr_enabled row \<or> pending_run (pr_id row) db \<noteq> None) (customer_rows customerSlug db))"

fun scan_enabled :: "Repository \<Rightarrow> (prow \<times> string \<times> int option) list \<Rightarrow> err + Pipeline list" where
  "scan_enabled r [] = Inr []"
| "scan_enabled r ((row, pending, lastRun) # rows) =
     (case decryptCredentials r (pr_source_credentials row) of
        Inl e \<Rightarrow> Inl (Errorf ''postgres: decrypt credentials'' e)
      | Inr c \<Rightarrow>
          (case scan_enabled r rows of
             Inl e \<Rightarrow> Inl e
           | Inr ps \<Rightarrow> Inr ((scan_pipeline row)\<lparr>p_SourceCredentials := c, p_CredentialsExternal := False,
               p_PendingRunID := pending, p_TriggerNow := pending \<noteq> [], p_LastRunAt := lastRun\<rparr> # ps)))"

definition GetEnabledPipelines_pg :: "Repository \<Rightarrow> string \<Rightarrow> ('a pgdb_scheme, Pipeline list) io" where
  "GetEnabledPipelines_pg r customerSlug =
     andThen (wrapErr ''postgres: get enabled pipelines'' (query (enabled_rows customerSlug)))
       (\<lambda>rows. lift (scan_enabled r rows))"

text \<open>The zero time, which \<^verbatim>\<open>IsZero\<close> tests for, is 0 here.\<close>

definition CreatePipelineRun_pg :: "Repository \<Rightarrow> PipelineRun \<Rightarrow> ('a pgdb_scheme, PipelineRun) io" where
  "CreatePipelineRun_pg r run db =
     (let run' = (if r_CreatedAt run = 0 then run\<lparr>r_CreatedAt := db_now db\<rparr> else run) in
      andThen (wrapErr ''postgres: create pipeline run'' (insert_run run')) (\<lambda>i. ret (run'\<lparr>r_ID := i\<rparr>)) db)"

definition GetPendingRun_pg :: "Repository \<Rightarrow> string \<Rightarrow> ('a pgdb_scheme, PipelineRun option) io" where
  "GetPendingRun_pg r i = wrapErr ''postgres: get pending run'' (query (pending_run i))"

definition coalesce :: "'x option \<Rightarrow> 'x option \<Rightarrow> 'x option" where
  "coalesce a b = (case a of Some x \<Rightarrow> Some x | None \<Rightarrow> b)"

definition UpdatePipelineRun_pg :: "Repository \<Rightarrow> PipelineRun \<Rightarrow> ('a pgdb_scheme, unit) io" where
  "UpdatePipelineRun_pg r run =
     andThen (wrapErr ''postgres: update pipeline run''
       (update_runs (\<lambda>s. r_ID s = r_ID run \<and> r_PipelineID s = r_PipelineID run)
         (\<lambda>s. s\<lparr>r_Status := r_Status run, r_StartedAt := coalesce (r_StartedAt run) (r_StartedAt s),
           r_CompletedAt := coalesce (r_CompletedAt run) (r_CompletedAt s),
           r_RowsLoaded := r_RowsLoaded run, r_ErrorMessage := r_ErrorMessage run\<rparr>))) (\<lambda>n.
     if n = 0 then fail ErrPipelineRunNotFound else ret ())"

definition stuckMessage :: string where
  "stuckMessage = ''failed by stuck-run sweep: no terminal report within timeout (box worker likely OOM-killed or evicted mid-load)''"

definition is_stuck :: "string \<Rightarrow> int \<Rightarrow> 'a pgdb_scheme \<Rightarrow> PipelineRun \<Rightarrow> bool" where
  "is_stuck customerSlug cutoff db r \<longleftrightarrow>
     (case find_pipeline (r_PipelineID r) db of
        None \<Rightarrow> False
      | Some p \<Rightarrow>
          r_Status r = ''running'' \<and>
          (case r_StartedAt r of Some t \<Rightarrow> t | None \<Rightarrow> r_CreatedAt r) < cutoff \<and>
          (customerSlug = [] \<or> pr_customer_slug p = customerSlug))"

definition FailStuckRunningRuns :: "Repository \<Rightarrow> string \<Rightarrow> int \<Rightarrow> ('a pgdb_scheme, nat) io" where
  "FailStuckRunningRuns r customerSlug olderThan db =
     wrapErr ''postgres: fail stuck running runs''
       (update_runs (is_stuck customerSlug (db_now db - olderThan) db)
         (\<lambda>s. s\<lparr>r_Status := ''failed'', r_CompletedAt := Some (db_now db), r_ErrorMessage := stuckMessage\<rparr>)) db"

definition ListRecentRuns_pg :: "Repository \<Rightarrow> string \<Rightarrow> nat \<Rightarrow> ('a pgdb_scheme, PipelineRun list) io" where
  "ListRecentRuns_pg r i limit =
     wrapErr ''postgres: list recent runs'' (query (\<lambda>db. take limit (runs_desc (runs_of i db))))"

subsection \<open>Ownership and render bookkeeping\<close>

definition SetPipelineCredentialsExternal_pg :: "Repository \<Rightarrow> string \<Rightarrow> bool \<Rightarrow> ('a pgdb_scheme, unit) io" where
  "SetPipelineCredentialsExternal_pg r i external =
     andThen (wrapErr ''postgres: set credentials external'' (sql (\<lambda>db.
       (Inr (length (filter (\<lambda>s. pr_id s = i) (t_pipelines db))),
        db\<lparr>t_pipelines := map (\<lambda>s. if pr_id s = i then s\<lparr>pr_credentials_external := external\<rparr> else s) (t_pipelines db)\<rparr>))))
     (\<lambda>n. if n = 0 then fail ErrPipelineNotFound else ret ())"

definition DeletePipelineCredentialRender_pg :: "Repository \<Rightarrow> string \<Rightarrow> ('a pgdb_scheme, unit) io" where
  "DeletePipelineCredentialRender_pg r i =
     wrapErr ''postgres: delete credential render'' (sql (\<lambda>db.
       (Inr (), db\<lparr>t_credential_renders := filter (\<lambda>s. cr_PipelineID s \<noteq> i) (t_credential_renders db)\<rparr>)))"

definition MarkPipelineDefinitionRefused_pg :: "Repository \<Rightarrow> string \<Rightarrow> string \<Rightarrow> ('a pgdb_scheme, unit) io" where
  "MarkPipelineDefinitionRefused_pg r i refusedSHA =
     wrapErr ''postgres: mark definition refused'' (sql (\<lambda>db.
       (Inr (), db\<lparr>t_definition_renders :=
          map (\<lambda>s. if dr_PipelineID s = i then s\<lparr>dr_RefusedBlobSHA := refusedSHA\<rparr> else s) (t_definition_renders db)\<rparr>)))"

definition UpsertPipelineDefinitionRender_pg :: "Repository \<Rightarrow> PipelineDefinitionRender \<Rightarrow> ('a pgdb_scheme, unit) io" where
  "UpsertPipelineDefinitionRender_pg r render =
     wrapErr ''postgres: upsert definition render'' (sql (\<lambda>db.
       let d = render\<lparr>dr_RefusedBlobSHA := []\<rparr> in
       if find_pipeline (dr_PipelineID render) db = None then (Inl ErrForeignKeyViolation, db)
       else if list_ex (\<lambda>s. dr_PipelineID s = dr_PipelineID render) (t_definition_renders db)
       then (Inr (), db\<lparr>t_definition_renders := map (\<lambda>s. if dr_PipelineID s = dr_PipelineID render then d else s) (t_definition_renders db)\<rparr>)
       else (Inr (), db\<lparr>t_definition_renders := t_definition_renders db @ [d]\<rparr>)))"

definition owned_by :: "string \<Rightarrow> 'a pgdb_scheme \<Rightarrow> string \<Rightarrow> bool" where
  "owned_by customerSlug db i \<longleftrightarrow> (case find_pipeline i db of None \<Rightarrow> False | Some p \<Rightarrow> pr_customer_slug p = customerSlug)"

definition GetPipelineDefinitionRenders_pg :: "Repository \<Rightarrow> string \<Rightarrow> ('a pgdb_scheme, (string \<times> PipelineDefinitionRender) list) io" where
  "GetPipelineDefinitionRenders_pg r customerSlug =
     wrapErr ''postgres: get definition renders'' (query (\<lambda>db.
       map (\<lambda>s. (dr_PipelineID s, s)) (filter (\<lambda>s. owned_by customerSlug db (dr_PipelineID s)) (t_definition_renders db))))"

definition UpsertPipelineCredentialRender_pg :: "Repository \<Rightarrow> PipelineCredentialRender \<Rightarrow> ('a pgdb_scheme, unit) io" where
  "UpsertPipelineCredentialRender_pg r render =
     wrapErr ''postgres: upsert credential render'' (sql (\<lambda>db.
       if find_pipeline (cr_PipelineID render) db = None then (Inl ErrForeignKeyViolation, db)
       else if list_ex (\<lambda>s. cr_PipelineID s = cr_PipelineID render) (t_credential_renders db)
       then (Inr (), db\<lparr>t_credential_renders := map (\<lambda>s. if cr_PipelineID s = cr_PipelineID render then render else s) (t_credential_renders db)\<rparr>)
       else (Inr (), db\<lparr>t_credential_renders := t_credential_renders db @ [render]\<rparr>)))"

definition GetPipelineCredentialRenders_pg :: "Repository \<Rightarrow> string \<Rightarrow> ('a pgdb_scheme, (string \<times> PipelineCredentialRender) list) io" where
  "GetPipelineCredentialRenders_pg r customerSlug =
     wrapErr ''postgres: get credential renders'' (query (\<lambda>db.
       map (\<lambda>s. (cr_PipelineID s, s)) (filter (\<lambda>s. owned_by customerSlug db (cr_PipelineID s)) (t_credential_renders db))))"

definition emptyJSONObject :: "raw \<Rightarrow> raw" where
  "emptyJSONObject raw = (if raw = [] then ''{}'' else raw)"

definition ImportPipeline_pg :: "Repository \<Rightarrow> Pipeline \<Rightarrow> ('a pgdb_scheme, unit) io" where
  "ImportPipeline_pg r p =
     andThen (wrapErr ''postgres: encrypt credentials'' (encryptCredentials r (emptyJSONObject (p_SourceCredentials p)))) (\<lambda>encCreds.
     andThen (uniqueAs ErrPipelineAlreadyExists ''postgres: import pipeline''
       (insert_pipeline (Some (p_ID p)) ((new_row p encCreds)\<lparr>pr_credentials_external := p_CredentialsExternal p\<rparr>)))
       (\<lambda>_. ret ()))"

subsection \<open>Connections, OAuth apps and grants\<close>

text \<open>The credential columns of these tables hold what the encryptor wrote.\<close>

definition CreateConnection_pg :: "Repository \<Rightarrow> Connection \<Rightarrow> ('a pgdb_scheme, unit) io" where
  "CreateConnection_pg r c =
     andThen (wrapErr ''postgres: encrypt connection credentials'' (encryptCredentials r (c_Credentials c))) (\<lambda>encCreds.
     uniqueAs ErrConnectionAlreadyExists ''postgres: create connection'' (sql (\<lambda>db.
       case db_jsonb db (if c_Config c = [] then ''{}'' else c_Config c) of
         None \<Rightarrow> (Inl ErrInvalidText, db)
       | Some cfg \<Rightarrow>
           (if list_ex (\<lambda>d. c_ID d = c_ID c \<or>
               c_CustomerSlug d = c_CustomerSlug c \<and> c_Type d = c_Type c \<and> c_Name d = c_Name c) (t_connections db)
            then (Inl ErrUniqueViolation, db)
            else (Inr (), db\<lparr>t_connections := t_connections db @
              [c\<lparr>c_Config := cfg, c_Credentials := encCreds, c_CreatedAt := db_now db, c_UpdatedAt := db_now db\<rparr>]\<rparr>)))))"

definition ReauthorizeConnection_pg :: "Repository \<Rightarrow> string \<Rightarrow> string \<Rightarrow> raw \<Rightarrow> ('a pgdb_scheme, unit) io" where
  "ReauthorizeConnection_pg r customerSlug i credentials =
     andThen (wrapErr ''postgres: encrypt connection credentials'' (encryptCredentials r credentials)) (\<lambda>encCreds.
     andThen (wrapErr ''postgres: reauthorize connection'' (sql (\<lambda>db.
       (Inr (length (filter (\<lambda>d. c_CustomerSlug d = customerSlug \<and> c_ID d = i) (t_connections db))),
        db\<lparr>t_connections := map (\<lambda>d. if c_CustomerSlug d = customerSlug \<and> c_ID d = i
          then d\<lparr>c_Credentials := encCreds, c_Status := ''active'', c_UpdatedAt := db_now db\<rparr> else d) (t_connections db)\<rparr>)))) (\<lambda>n.
     if n = 0 then fail ErrConnectionNotFound else ret ()))"

definition scanConnection :: "Repository \<Rightarrow> Connection \<Rightarrow> err + Connection" where
  "scanConnection r d =
     (case decryptCredentials r (c_Credentials d) of
        Inl e \<Rightarrow> Inl (Errorf ''decrypt connection credentials'' e)
      | Inr c \<Rightarrow> Inr (d\<lparr>c_Credentials := c\<rparr>))"

definition GetConnection_pg :: "Repository \<Rightarrow> string \<Rightarrow> string \<Rightarrow> ('a pgdb_scheme, Connection) io" where
  "GetConnection_pg r customerSlug i =
     andThen (wrapErr ''postgres: get connection''
       (query (\<lambda>db. find (\<lambda>d. c_CustomerSlug d = customerSlug \<and> c_ID d = i) (t_connections db)))) (\<lambda>row.
     case row of
       None \<Rightarrow> fail ErrConnectionNotFound
     | Some d \<Rightarrow> wrapErr ''postgres: get connection'' (lift (scanConnection r d)))"

fun scanConnections :: "Repository \<Rightarrow> Connection list \<Rightarrow> err + Connection list" where
  "scanConnections r [] = Inr []"
| "scanConnections r (d # ds) =
     (case scanConnection r d of
        Inl e \<Rightarrow> Inl (Errorf ''postgres: list connections'' e)
      | Inr c \<Rightarrow> (case scanConnections r ds of Inl e \<Rightarrow> Inl e | Inr cs \<Rightarrow> Inr (c # cs)))"

definition ListConnections_pg :: "Repository \<Rightarrow> string \<Rightarrow> ('a pgdb_scheme, Connection list) io" where
  "ListConnections_pg r customerSlug =
     andThen (wrapErr ''postgres: list connections''
       (query (\<lambda>db. sort_key (\<lambda>d. - c_CreatedAt d) (filter (\<lambda>d. c_CustomerSlug d = customerSlug) (t_connections db)))))
       (\<lambda>ds. lift (scanConnections r ds))"

definition DeleteConnection_pg :: "Repository \<Rightarrow> string \<Rightarrow> string \<Rightarrow> ('a pgdb_scheme, unit) io" where
  "DeleteConnection_pg r customerSlug i =
     wrapErr ''postgres: delete connection'' (sql (\<lambda>db.
       (Inr (), db\<lparr>t_connections := filter (\<lambda>d. \<not> (c_CustomerSlug d = customerSlug \<and> c_ID d = i)) (t_connections db)\<rparr>)))"

definition UpsertOAuthClient_pg :: "Repository \<Rightarrow> OAuthClient \<Rightarrow> ('a pgdb_scheme, unit) io" where
  "UpsertOAuthClient_pg r c =
     andThen (wrapErr ''postgres: encrypt oauth client secret'' (encryptCredentials r (oc_ClientSecret c))) (\<lambda>encSecret.
     wrapErr ''postgres: upsert oauth client'' (sql (\<lambda>db.
       let row = c\<lparr>oc_ClientSecret := encSecret, oc_UpdatedAt := db_now db\<rparr>;
           same = (\<lambda>d. oc_CustomerSlug d = oc_CustomerSlug c \<and> oc_Provider d = oc_Provider c) in
       (Inr (), db\<lparr>t_oauth_clients :=
          (if list_ex same (t_oauth_clients db) then map (\<lambda>d. if same d then row else d) (t_oauth_clients db)
           else t_oauth_clients db @ [row])\<rparr>))))"

definition GetOAuthClient_pg :: "Repository \<Rightarrow> string \<Rightarrow> string \<Rightarrow> ('a pgdb_scheme, OAuthClient) io" where
  "GetOAuthClient_pg r customerSlug provider =
     andThen (wrapErr ''postgres: get oauth client''
       (query (\<lambda>db. find (\<lambda>d. oc_CustomerSlug d = customerSlug \<and> oc_Provider d = provider) (t_oauth_clients db)))) (\<lambda>row.
     case row of
       None \<Rightarrow> fail ErrOAuthClientNotFound
     | Some c \<Rightarrow>
         andThen (wrapErr ''postgres: decrypt oauth client secret'' (lift (decryptCredentials r (oc_ClientSecret c))))
           (\<lambda>secret. ret (c\<lparr>oc_ClientSecret := secret\<rparr>)))"

definition DeleteOAuthClient_pg :: "Repository \<Rightarrow> string \<Rightarrow> string \<Rightarrow> ('a pgdb_scheme, unit) io" where
  "DeleteOAuthClient_pg r customerSlug provider =
     wrapErr ''postgres: delete oauth client'' (sql (\<lambda>db.
       (Inr (), db\<lparr>t_oauth_clients :=
          filter (\<lambda>d. \<not> (oc_CustomerSlug d = customerSlug \<and> oc_Provider d = provider)) (t_oauth_clients db)\<rparr>)))"

definition CreateGoogleOAuthGrant_pg :: "Repository \<Rightarrow> GoogleOAuthGrant \<Rightarrow> ('a pgdb_scheme, unit) io" where
  "CreateGoogleOAuthGrant_pg r g =
     andThen (wrapErr ''postgres: encrypt oauth refresh token'' (encryptCredentials r (gr_RefreshToken g))) (\<lambda>encToken.
     wrapErr ''postgres: create oauth grant'' (sql (\<lambda>db.
       if list_ex (\<lambda>d. gw_grant_id d = gr_GrantID g) (t_grants db) then (Inl ErrUniqueViolation, db)
       else (Inr (), db\<lparr>t_grants := t_grants db @
         [\<lparr>gw_grant_id = gr_GrantID g, gw_customer_slug = gr_CustomerSlug g, gw_user_sub = gr_UserSub g,
           gw_refresh_token = encToken, gw_email = gr_Email g, gw_client_id = gr_ClientID g,
           gw_scopes = join_with '' '' (gr_Scopes g), gw_created_at = gr_CreatedAt g, gw_expires_at = gr_ExpiresAt g\<rparr>]\<rparr>))))"

text \<open>\<^verbatim>\<open>DELETE \<dots> RETURNING\<close>: the row is read and removed by one statement.\<close>

definition redeemable :: "string \<Rightarrow> string \<Rightarrow> 'a pgdb_scheme \<Rightarrow> growrow \<Rightarrow> bool" where
  "redeemable grantID customerSlug db d \<longleftrightarrow>
     gw_grant_id d = grantID \<and> gw_customer_slug d = customerSlug \<and> gw_expires_at d > db_now db"

definition ConsumeGoogleOAuthGrant_pg :: "Repository \<Rightarrow> string \<Rightarrow> string \<Rightarrow> ('a pgdb_scheme, GoogleOAuthGrant) io" where
  "ConsumeGoogleOAuthGrant_pg r grantID customerSlug =
     andThen (wrapErr ''postgres: consume oauth grant'' (sql (\<lambda>db.
       (Inr (find (redeemable grantID customerSlug db) (t_grants db)),
        db\<lparr>t_grants := filter (\<lambda>d. \<not> redeemable grantID customerSlug db d) (t_grants db)\<rparr>)))) (\<lambda>row.
     case row of
       None \<Rightarrow> fail ErrOAuthGrantNotFound
     | Some d \<Rightarrow>
         andThen (wrapErr ''postgres: decrypt oauth refresh token'' (lift (decryptCredentials r (gw_refresh_token d)))) (\<lambda>token.
         ret \<lparr>gr_GrantID = gw_grant_id d, gr_CustomerSlug = gw_customer_slug d, gr_UserSub = gw_user_sub d,
              gr_RefreshToken = token, gr_Email = gw_email d, gr_ClientID = gw_client_id d, gr_Scopes = Fields (gw_scopes d),
              gr_CreatedAt = gw_created_at d, gr_ExpiresAt = gw_expires_at d\<rparr>))"

definition DeleteExpiredGoogleOAuthGrants_pg :: "Repository \<Rightarrow> ('a pgdb_scheme, nat) io" where
  "DeleteExpiredGoogleOAuthGrants_pg r =
     wrapErr ''postgres: sweep expired oauth grants'' (sql (\<lambda>db.
       (Inr (length (filter (\<lambda>d. gw_expires_at d \<le> db_now db) (t_grants db))),
        db\<lparr>t_grants := filter (\<lambda>d. \<not> gw_expires_at d \<le> db_now db) (t_grants db)\<rparr>)))"

subsection \<open>The ports it implements\<close>

definition pg_repo :: "Repository \<Rightarrow> 'a pgdb_scheme PipelineRepository" where
  "pg_repo r = \<lparr>repo_CreatePipeline = CreatePipeline_pg r, repo_GetPipeline = GetPipeline_pg r,
     repo_ListPipelinesByCustomer = ListPipelinesByCustomer_pg r, repo_UpdatePipeline = UpdatePipeline_pg r,
     repo_DeletePipeline = DeletePipeline_pg r, repo_GetEnabledPipelines = GetEnabledPipelines_pg r,
     repo_CreatePipelineRun = CreatePipelineRun_pg r, repo_UpdatePipelineRun = UpdatePipelineRun_pg r,
     repo_ListRecentRuns = ListRecentRuns_pg r, repo_GetPendingRun = GetPendingRun_pg r\<rparr>"

definition pg_connections :: "Repository \<Rightarrow> 'a pgdb_scheme ConnectionStore" where
  "pg_connections r = \<lparr>CreateConnection = CreateConnection_pg r, ReauthorizeConnection = ReauthorizeConnection_pg r,
     GetConnection = GetConnection_pg r, ListConnections = ListConnections_pg r, DeleteConnection = DeleteConnection_pg r\<rparr>"

definition pg_oauth_clients :: "Repository \<Rightarrow> 'a pgdb_scheme OAuthClientStore" where
  "pg_oauth_clients r = \<lparr>UpsertOAuthClient = UpsertOAuthClient_pg r, GetOAuthClient = GetOAuthClient_pg r,
     DeleteOAuthClient = DeleteOAuthClient_pg r\<rparr>"

definition pg_grants :: "Repository \<Rightarrow> 'a pgdb_scheme GoogleOAuthGrantStore" where
  "pg_grants r = \<lparr>CreateGoogleOAuthGrant = CreateGoogleOAuthGrant_pg r, ConsumeGoogleOAuthGrant = ConsumeGoogleOAuthGrant_pg r,
     DeleteExpiredGoogleOAuthGrants = DeleteExpiredGoogleOAuthGrants_pg r\<rparr>"

definition pg_credential_reader :: "Repository \<Rightarrow> 'a pgdb_scheme PipelineCredentialReader" where
  "pg_credential_reader r = \<lparr>ListPipelineCredentialsByCustomer = ListPipelineCredentialsByCustomer_pg r\<rparr>"

definition pg_importer :: "Repository \<Rightarrow> 'a pgdb_scheme PipelineImporter" where
  "pg_importer r = \<lparr>ImportPipeline = ImportPipeline_pg r\<rparr>"

definition pg_ownership :: "Repository \<Rightarrow> 'a pgdb_scheme OwnershipStore" where
  "pg_ownership r = \<lparr>SetPipelineCredentialsExternal = SetPipelineCredentialsExternal_pg r,
     DeletePipelineCredentialRender = DeletePipelineCredentialRender_pg r\<rparr>"

definition pg_credential_renders :: "Repository \<Rightarrow> 'a pgdb_scheme CredentialRenderStore" where
  "pg_credential_renders r = \<lparr>UpsertPipelineCredentialRender = UpsertPipelineCredentialRender_pg r,
     GetPipelineCredentialRenders = GetPipelineCredentialRenders_pg r\<rparr>"

definition pg_definition_renders :: "Repository \<Rightarrow> 'a pgdb_scheme DefinitionRenderStore" where
  "pg_definition_renders r = \<lparr>UpsertPipelineDefinitionRender = UpsertPipelineDefinitionRender_pg r,
     GetPipelineDefinitionRenders = GetPipelineDefinitionRenders_pg r,
     MarkPipelineDefinitionRefused = MarkPipelineDefinitionRefused_pg r\<rparr>"

subsection \<open>Statements and what they leave alone\<close>

text \<open>Everything but the driver's script, the id counter and the entropy drawn.\<close>

definition snap :: "'a pgdb_scheme \<Rightarrow> 'a pgdb_scheme" where
  "snap db = db\<lparr>db_link := [], db_next := 0, db_drawn := 0\<rparr>"

lemma snap_updates [simp]:
  "snap (db\<lparr>db_link := ls\<rparr>) = snap db" "snap (db\<lparr>db_next := n\<rparr>) = snap db" "snap (db\<lparr>db_drawn := d\<rparr>) = snap db"
  by (simp_all add: snap_def)

lemma snap_push [simp]:
  "snap (t_pipelines_update f db) = t_pipelines_update f (snap db)"
  "snap (t_pipeline_runs_update g db) = t_pipeline_runs_update g (snap db)"
  "snap (t_transformations_update h db) = t_transformations_update h (snap db)"
  "snap (t_credential_renders_update k db) = t_credential_renders_update k (snap db)"
  "snap (t_definition_renders_update l db) = t_definition_renders_update l (snap db)"
  "snap (t_connections_update c db) = t_connections_update c (snap db)"
  "snap (t_oauth_clients_update o' db) = t_oauth_clients_update o' (snap db)"
  "snap (t_grants_update q db) = t_grants_update q (snap db)"
  "snap (t_transformation_runs_update s db) = t_transformation_runs_update s (snap db)"
  "snap (t_transformation_renders_update t db) = t_transformation_renders_update t (snap db)"
  "snap (t_source_tests_update u db) = t_source_tests_update u (snap db)"
  "snap (t_notifications_update v db) = t_notifications_update v (snap db)"
  "snap (db_channel_update x db) = db_channel_update x (snap db)"
  by (simp_all add: snap_def)

lemma snap_fields:
  assumes "snap db' = snap db"
  shows "t_pipelines db' = t_pipelines db" "t_pipeline_runs db' = t_pipeline_runs db"
    "t_transformations db' = t_transformations db" "t_credential_renders db' = t_credential_renders db"
    "t_definition_renders db' = t_definition_renders db" "db_jsonb db' = db_jsonb db" "db_gen db' = db_gen db"
    "db_now db' = db_now db" "pgdb.more db' = pgdb.more db"
    "t_transformation_runs db' = t_transformation_runs db" "t_transformation_renders db' = t_transformation_renders db"
  using arg_cong [OF assms, of t_pipelines] arg_cong [OF assms, of t_pipeline_runs]
    arg_cong [OF assms, of t_transformations] arg_cong [OF assms, of t_credential_renders]
    arg_cong [OF assms, of t_definition_renders] arg_cong [OF assms, of db_jsonb] arg_cong [OF assms, of db_gen]
    arg_cong [OF assms, of db_now] arg_cong [OF assms, of pgdb.more]
    arg_cong [OF assms, of t_transformation_runs] arg_cong [OF assms, of t_transformation_renders]
  by (simp_all add: snap_def)

lemma sqlE:
  assumes "sql act db = (r, db')"
  obtains (down) ls where "r = Inl ErrDriver" "db' = db\<lparr>db_link := ls\<rparr>"
  | (up) ls where "act (db\<lparr>db_link := ls\<rparr>) = (r, db')"
  using assms
proof (cases "db_link db")
  case Nil
  then have eq: "db\<lparr>db_link := []\<rparr> = db" by (cases db) simp
  have "act (db\<lparr>db_link := []\<rparr>) = (r, db')" unfolding eq using assms Nil by (simp add: sql_def)
  then show ?thesis by (rule up)
next
  case (Cons b ls)
  then show ?thesis using assms up down by (auto simp: sql_def split: if_splits)
qed

lemma sql_snap:
  assumes "sql act db = (r, db')" "\<And>d r d'. act d = (r, d') \<Longrightarrow> snap d' = snap d"
  shows "snap db' = snap db"
  using assms(1) by (cases rule: sqlE) (use assms(2) in fastforce)+

lemma query_snap: "query q db = (r, db') \<Longrightarrow> snap db' = snap db"
  unfolding query_def by (erule sql_snap) auto

lemma query_Inr: "query q db = (Inr x, db') \<Longrightarrow> \<exists>ls. x = q (db\<lparr>db_link := ls\<rparr>)"
  unfolding query_def by (erule sqlE) auto

lemma find_pipeline_link [simp]:
  "find_pipeline i (db\<lparr>db_link := ls\<rparr>) = find_pipeline i db" "find_pipeline i (db\<lparr>db_next := n\<rparr>) = find_pipeline i db"
  "find_pipeline i (db\<lparr>db_drawn := d\<rparr>) = find_pipeline i db"
  by (simp_all add: find_pipeline_def)

lemma find_pipeline_snap: "snap db' = snap db \<Longrightarrow> find_pipeline i db' = find_pipeline i db"
  unfolding find_pipeline_def using snap_fields(1) by metis

lemma find_pipeline_Some: "find_pipeline i db = Some r \<Longrightarrow> pr_id r = i \<and> r \<in> set (t_pipelines db)"
  by (auto simp: find_pipeline_def find_Some_iff)

lemma find_pipeline_None: "find_pipeline i db = None \<longleftrightarrow> i \<notin> pr_id ` set (t_pipelines db)"
  by (auto simp: find_pipeline_def find_None_iff)

lemma rand_Read_eq: "rand_Read db = (r, db') \<Longrightarrow> snap db' = snap db \<and> (\<exists>n. r = Inr n \<and> length n = NonceSize)"
  by (auto simp: rand_Read_def)

lemma encrypt_snap: "encryptCredentials r c db = (x, db') \<Longrightarrow> snap db' = snap db"
  by (auto simp: encryptCredentials_def Encrypt_ring_def andThen_def wrapErr_def
      split: option.splits prod.splits sum.splits dest!: rand_Read_eq)

lemma encrypt_total: "\<exists>s db'. encryptCredentials r c db = (Inr s, db')"
  by (auto simp: encryptCredentials_def Encrypt_ring_def andThen_def wrapErr_def rand_Read_def ret_def split: option.splits)

text \<open>A repository whose ring was built by \<^verbatim>\<open>NewKeyring\<close> over sound primitives, or that has none.\<close>

definition repo_ok :: "Repository \<Rightarrow> bool" where
  "repo_ok r \<longleftrightarrow> (case rp_Encryptor r of None \<Rightarrow> True | Some (A, k) \<Rightarrow> aead_ok A \<and> ring_ok A k)"

lemma decrypt_encrypt:
  assumes "repo_ok r" "encryptCredentials r c db = (Inr s, db')"
  shows "decryptCredentials r s = Inr c"
proof (cases "rp_Encryptor r")
  case None
  then show ?thesis using assms by (simp add: encryptCredentials_def decryptCredentials_def)
next
  case (Some Ak)
  obtain A k where Ak: "Ak = (A, k)" by (cases Ak)
  have ok: "aead_ok A" "ring_ok A k" using assms(1) Some Ak by (simp_all add: repo_ok_def)
  obtain n db1 where n: "rand_Read db = (Inr n, db1)" "length n = NonceSize"
    using rand_Read_eq [of db] by (metis prod.exhaust)
  then have s: "s = sealed A k n c"
    using assms(2) Some Ak by (simp add: encryptCredentials_def Encrypt_ring_def andThen_def wrapErr_def ret_def)
  have "ke_key (kr_primary k) \<in> ke_key ` set (kr_order k)" using ok(2) by (auto simp: ring_ok_def)
  then show ?thesis using decrypt_sealed [OF ok(1) ok(2) ok(2) n(2)] Some Ak s by (simp add: decryptCredentials_def)
qed

lemma uniqueAs_Inr [simp]: "uniqueAs e m act w = (Inr x, w') \<longleftrightarrow> act w = (Inr x, w')"
  by (auto simp: uniqueAs_def attempt_def split: prod.splits sum.splits)

lemma uniqueAs_Inl: "uniqueAs e m act w = (Inl e', w') \<Longrightarrow> \<exists>e1. act w = (Inl e1, w')"
  by (auto simp: uniqueAs_def attempt_def split: prod.splits sum.splits if_splits)

lemma list_ex_takes_key: "list_ex (takes_key r) rows \<longleftrightarrow>
    (\<exists>s \<in> set rows. pr_id s = pr_id r \<or> pr_customer_slug s = pr_customer_slug r \<and> pr_name s = pr_name r)"
  by (auto simp: list_ex_iff takes_key_def)

subsection \<open>The row operations\<close>

lemma insert_pipeline_Inr:
  assumes "insert_pipeline ido r db = (Inr i, db')"
  obtains c r' where "db_jsonb db (pr_source_config r) = Some c" "r' = r\<lparr>pr_id := i, pr_source_config := c\<rparr>"
    "i = (case ido of Some i \<Rightarrow> i | None \<Rightarrow> db_gen db (db_next db))" "\<not> list_ex (takes_key r') (t_pipelines db)"
    "snap db' = snap (db\<lparr>t_pipelines := t_pipelines db @ [r']\<rparr>)"
proof -
  from assms obtain ls where "insert_row ido r (db\<lparr>db_link := ls\<rparr>) = (Inr i, db')"
    unfolding insert_pipeline_def by (cases rule: sqlE) auto
  note ls = this [unfolded insert_row_def]
  from ls obtain c where c: "db_jsonb db (pr_source_config r) = Some c" by (auto simp: Let_def split: option.splits)
  let ?r = "r\<lparr>pr_id := i, pr_source_config := c\<rparr>"
  from ls c have "i = (case ido of Some i \<Rightarrow> i | None \<Rightarrow> db_gen db (db_next db))" "\<not> list_ex (takes_key ?r) (t_pipelines db)"
    "snap db' = snap (db\<lparr>t_pipelines := t_pipelines db @ [?r]\<rparr>)"
    by (simp_all add: Let_def split: option.splits if_splits) (auto split: option.splits)
  with c show ?thesis by (intro that [of c ?r]) simp_all
qed

lemma insert_pipeline_Inl: "insert_pipeline ido r db = (Inl e, db') \<Longrightarrow> snap db' = snap db"
  unfolding insert_pipeline_def
  by (erule sqlE) (auto simp: insert_row_def Let_def split: option.splits if_splits)

lemma find_append:
  "pr_id r \<notin> pr_id ` set rows \<Longrightarrow> find (\<lambda>s. pr_id s = j) (rows @ [r]) =
    (if j = pr_id r then Some r else find (\<lambda>s. pr_id s = j) rows)"
  by (induction rows) auto

lemma insert_pipeline_rows:
  assumes "insert_pipeline ido r db = (Inr i, db')"
  shows "find_pipeline i db = None \<and> (\<exists>r'. find_pipeline i db' = Some r' \<and> pr_customer_slug r' = pr_customer_slug r) \<and>
    (\<forall>j. j \<noteq> i \<longrightarrow> find_pipeline j db' = find_pipeline j db)"
  using assms
proof (cases rule: insert_pipeline_Inr)
  case (1 c r')
  have fresh: "i \<notin> pr_id ` set (t_pipelines db)" using 1(2,4) by (auto simp: list_ex_takes_key)
  have "t_pipelines db' = t_pipelines db @ [r']" using snap_fields(1) [OF 1(5)] by simp
  then have "find_pipeline j db' = (if j = i then Some r' else find_pipeline j db)" for j
    using find_append [of r' "t_pipelines db" j] fresh 1(2) by (simp add: find_pipeline_def)
  with 1(2) fresh show ?thesis by (simp add: find_pipeline_None)
qed

lemma update_pipeline_cases:
  assumes "update_pipeline i f db = (x, db')"
  obtains (err) e where "x = Inl e" "snap db' = snap db"
  | (none) "x = Inr 0" "find_pipeline i db = None" "snap db' = snap db"
  | (hit) r c r' where "x = Inr 1" "find_pipeline i db = Some r" "db_jsonb db (pr_source_config (f r)) = Some c"
      "r' = (f r)\<lparr>pr_source_config := c\<rparr>" "\<not> list_ex (\<lambda>s. pr_id s \<noteq> i \<and> takes_key r' s) (t_pipelines db)"
      "snap db' = snap (db\<lparr>t_pipelines := map (\<lambda>s. if pr_id s = i then r' else s) (t_pipelines db)\<rparr>)"
proof -
  from assms consider (down) "x = Inl ErrDriver" "snap db' = snap db"
    | (act) ls where "update_row i f (db\<lparr>db_link := ls\<rparr>) = (x, db')"
    unfolding update_pipeline_def by (cases rule: sqlE) auto
  then show ?thesis
  proof cases
    case down
    then show ?thesis by (rule err)
  next
    case act
    note up = act [unfolded update_row_def]
    show ?thesis
    proof (cases "find_pipeline i db")
      case None
      then show ?thesis using up none by auto
    next
      case (Some r)
      show ?thesis
      proof (cases "db_jsonb db (pr_source_config (f r))")
        case None
        then show ?thesis using up Some err by auto
      next
        case c: (Some c)
        let ?r = "(f r)\<lparr>pr_source_config := c\<rparr>"
        show ?thesis
        proof (cases "list_ex (\<lambda>s. pr_id s \<noteq> i \<and> takes_key ?r s) (t_pipelines db)")
          case True
          then show ?thesis using up Some c err by auto
        next
          case False
          then have "x = Inr 1" "snap db' = snap (db\<lparr>t_pipelines := map (\<lambda>s. if pr_id s = i then ?r else s) (t_pipelines db)\<rparr>)"
            using up Some c by auto
          then show ?thesis using hit [OF _ Some c refl False] by simp
        qed
      qed
    qed
  qed
qed

lemma find_map_row:
  assumes "pr_id r' = i"
  shows "find (\<lambda>r. pr_id r = j) (map (\<lambda>s. if pr_id s = i then r' else s) rows) =
    (if j = i \<and> i \<in> pr_id ` set rows then Some r' else find (\<lambda>r. pr_id r = j) rows)"
  using assms by (induction rows) auto

lemma update_pipeline_rows:
  assumes "update_pipeline i f db = (x, db')" "\<And>r. pr_id (f r) = pr_id r \<and> pr_customer_slug (f r) = pr_customer_slug r"
  shows "(\<forall>j. j \<noteq> i \<longrightarrow> find_pipeline j db' = find_pipeline j db) \<and>
    map_option pr_customer_slug (find_pipeline i db') = map_option pr_customer_slug (find_pipeline i db) \<and>
    (\<forall>e. x = Inl e \<longrightarrow> find_pipeline i db' = find_pipeline i db) \<and>
    (x = Inr 0 \<longrightarrow> find_pipeline i db' = find_pipeline i db)"
  using assms(1)
proof (cases rule: update_pipeline_cases)
  case (hit r c r')
  have r: "pr_id r = i" "i \<in> pr_id ` set (t_pipelines db)" using find_pipeline_Some [OF hit(2)] by auto
  then have r': "pr_id r' = i" "pr_customer_slug r' = pr_customer_slug r" using hit(4) assms(2) by auto
  have "t_pipelines db' = map (\<lambda>s. if pr_id s = i then r' else s) (t_pipelines db)"
    using snap_fields(1) [OF hit(6)] by simp
  then have "find_pipeline j db' = (if j = i then Some r' else find_pipeline j db)" for j
    using find_map_row [OF r'(1), of j] r(2) by (simp add: find_pipeline_def)
  with r' hit show ?thesis by auto
next
  case (err e)
  then show ?thesis using find_pipeline_snap by metis
next
  case none
  then show ?thesis using find_pipeline_snap by metis
qed

lemma delete_pipeline_rows:
  assumes "delete_pipeline i db = (x, db')"
  shows "(\<forall>j. j \<noteq> i \<longrightarrow> find_pipeline j db' = find_pipeline j db) \<and>
    (x = Inr 1 \<and> find_pipeline i db \<noteq> None \<and> find_pipeline i db' = None \<or>
     x \<noteq> Inr 1 \<and> find_pipeline i db' = find_pipeline i db)"
proof -
  have f: "find (\<lambda>r. pr_id r = j) (filter (\<lambda>r. pr_id r \<noteq> i) rows) =
      (if j = i then None else find (\<lambda>r. pr_id r = j) rows)" for j rows
    by (induction rows) auto
  show ?thesis using assms unfolding delete_pipeline_def
    by (cases rule: sqlE) (auto simp: find_pipeline_def f split: if_splits)
qed

end
