(* ===== verification/PostgresLaws.thy ===== *)
theory PostgresLaws
  imports Postgres
begin

section \<open>The PostgreSQL repository keeps its contract\<close>

text \<open>
  The repository methods implement the contract of \<^verbatim>\<open>Contracts\<close>, what each returns and writes on
  every branch, and the schema invariant \<open>pg_ok\<close> (keys and foreign keys) that every method keeps,
  whichever statements fail.
\<close>

lemma GetPipeline_snap: "GetPipeline_pg r i db = (x, db') \<Longrightarrow> snap db' = snap db"
  by (auto simp: GetPipeline_pg_def andThen_def wrapErr_def lift_def split: prod.splits sum.splits option.splits
      dest!: query_snap)

lemma GetPipeline_Inr:
  assumes "GetPipeline_pg r i db = (Inr p, db')"
  obtains s c where "find_pipeline i db = Some s" "decryptCredentials r (pr_source_credentials s) = Inr c"
    "p = (scan_pipeline s)\<lparr>p_SourceCredentials := c\<rparr>"
proof -
  from assms obtain s c where "Some s = find_pipeline i db" "decryptCredentials r (pr_source_credentials s) = Inr c"
    "p = (scan_pipeline s)\<lparr>p_SourceCredentials := c\<rparr>"
    by (auto simp: GetPipeline_pg_def andThen_Inr wrapErr_def lift_def split: prod.splits sum.splits option.splits
        dest!: query_Inr)
  then show ?thesis using that by metis
qed

lemma scan_pipeline_fields [simp]: "p_ID (scan_pipeline r) = pr_id r" "p_CustomerSlug (scan_pipeline r) = pr_customer_slug r"
  by (simp_all add: scan_pipeline_def)

lemma List_snap: "ListPipelinesByCustomer_pg r c db = (x, db') \<Longrightarrow> snap db' = snap db"
  by (auto simp: ListPipelinesByCustomer_pg_def wrapErr_def split: prod.splits sum.splits dest!: query_snap)

definition list_view :: "'a pgdb_scheme \<Rightarrow> prow \<Rightarrow> Pipeline" where
  "list_view db row =
     (case newest_run (runs_of (pr_id row) db) of
        None \<Rightarrow> scan_pipeline row
      | Some run \<Rightarrow> (scan_pipeline row)\<lparr>
          p_LastRunTime := Some (case r_StartedAt run of Some t \<Rightarrow> t | None \<Rightarrow> r_CreatedAt run),
          p_LastRunStatus := r_Status run\<rparr>)"

lemma customer_rows_link [simp]:
  "customer_rows c (db\<lparr>db_link := ls\<rparr>) = customer_rows c db" "runs_of i (db\<lparr>db_link := ls\<rparr>) = runs_of i db"
  by (simp_all add: customer_rows_def runs_of_def)

lemma list_view_link [simp]: "list_view (db\<lparr>db_link := ls\<rparr>) = list_view db"
  by (simp add: list_view_def fun_eq_iff)

lemma List_Inr: "ListPipelinesByCustomer_pg r c db = (Inr ps, db') \<Longrightarrow> ps = map (list_view db) (customer_rows c db)"
  unfolding ListPipelinesByCustomer_pg_def list_view_def [symmetric, abs_def] by (auto dest!: query_Inr)

lemma list_view_fields [simp]:
  "p_ID (list_view db row) = pr_id row" "p_CustomerSlug (list_view db row) = pr_customer_slug row"
  "p_SourceCredentials (list_view db row) = []"
  by (simp_all add: list_view_def scan_pipeline_def split: option.splits)

lemma set_customer_rows [simp]: "set (customer_rows c db) = {r \<in> set (t_pipelines db). pr_customer_slug r = c}"
  by (auto simp: customer_rows_def)

lemma GetEnabled_snap: "GetEnabledPipelines_pg r c db = (x, db') \<Longrightarrow> snap db' = snap db"
  by (auto simp: GetEnabledPipelines_pg_def andThen_def wrapErr_def lift_def split: prod.splits sum.splits dest!: query_snap)

lemma scan_enabled_slug:
  "scan_enabled r rows = Inr ps \<Longrightarrow> map (\<lambda>p. (p_ID p, p_CustomerSlug p)) ps = map (\<lambda>(row, _). (pr_id row, pr_customer_slug row)) rows"
  by (induction r rows arbitrary: ps rule: scan_enabled.induct) (auto split: sum.splits)

lemma GetEnabled_slug:
  assumes "GetEnabledPipelines_pg r c db = (Inr ps, db')" "p \<in> set ps"
  shows "p_CustomerSlug p = c"
proof -
  from assms(1) obtain ls where s: "scan_enabled r (enabled_rows c (db\<lparr>db_link := ls\<rparr>)) = Inr ps"
    by (auto simp: GetEnabledPipelines_pg_def andThen_Inr dest!: query_Inr)
  have "(p_ID p, p_CustomerSlug p) \<in> set (map (\<lambda>p. (p_ID p, p_CustomerSlug p)) ps)" using assms(2) by auto
  then show ?thesis unfolding scan_enabled_slug [OF s] by (auto simp: enabled_rows_def)
qed

lemma CreatePipeline_Inr:
  assumes "CreatePipeline_pg r p db = (Inr q, db')"
  obtains enc db1 where "encryptCredentials r (p_SourceCredentials p) db = (Inr enc, db1)"
    "insert_pipeline None (new_row p enc) db1 = (Inr (p_ID q), db')" "q = p\<lparr>p_ID := p_ID q\<rparr>"
  using assms by (auto simp: CreatePipeline_pg_def andThen_Inr)

lemma CreatePipeline_Inl: "CreatePipeline_pg r p db = (Inl e, db') \<Longrightarrow> snap db' = snap db"
  by (auto simp: CreatePipeline_pg_def andThen_Inl wrapErr_Inl dest!: uniqueAs_Inl insert_pipeline_Inl encrypt_snap)

lemma UpdatePipeline_cases:
  assumes "UpdatePipeline_pg r p db = (x, db')"
  obtains enc db1 y where "encryptCredentials r (p_SourceCredentials p) db = (Inr enc, db1)" "snap db1 = snap db"
    "update_pipeline (p_ID p) (pipeline_columns p enc) db1 = (y, db')" "x = Inr () \<longleftrightarrow> (\<exists>n > 0. y = Inr n)"
proof -
  obtain enc db1 where e: "encryptCredentials r (p_SourceCredentials p) db = (Inr enc, db1)" using encrypt_total by blast
  obtain y db2 where u: "update_pipeline (p_ID p) (pipeline_columns p enc) db1 = (y, db2)" by fastforce
  have "db' = db2" "x = Inr () \<longleftrightarrow> (\<exists>n > 0. y = Inr n)"
    using assms e u
    by (auto simp: UpdatePipeline_pg_def andThen_def wrapErr_def uniqueAs_def attempt_def ret_def fail_def
        split: sum.splits if_splits)
  with e u show ?thesis using encrypt_snap [OF e] that by simp
qed

lemma pipeline_columns_key [simp]:
  "pr_id (pipeline_columns p enc r) = pr_id r" "pr_customer_slug (pipeline_columns p enc r) = pr_customer_slug r"
  "pr_credentials_external (pipeline_columns p enc r) = pr_credentials_external r"
  "pr_created_at (pipeline_columns p enc r) = pr_created_at r"
  by (simp_all add: pipeline_columns_def)

lemma UpdatePipeline_rows:
  assumes "UpdatePipeline_pg r p db = (x, db')"
  shows "\<forall>j. j \<noteq> p_ID p \<longrightarrow> find_pipeline j db' = find_pipeline j db"
    "map_option pr_customer_slug (find_pipeline (p_ID p) db') = map_option pr_customer_slug (find_pipeline (p_ID p) db)"
    "x = Inl e \<Longrightarrow> find_pipeline (p_ID p) db' = find_pipeline (p_ID p) db"
proof -
  obtain enc db1 y where 1: "encryptCredentials r (p_SourceCredentials p) db = (Inr enc, db1)" "snap db1 = snap db"
    "update_pipeline (p_ID p) (pipeline_columns p enc) db1 = (y, db')" "x = Inr () \<longleftrightarrow> (\<exists>n > 0. y = Inr n)"
    using assms by (rule UpdatePipeline_cases)
  have eq: "find_pipeline j db1 = find_pipeline j db" for j by (rule find_pipeline_snap [OF 1(2)])
  note u = update_pipeline_rows [OF 1(3), simplified, unfolded eq]
  show "\<forall>j. j \<noteq> p_ID p \<longrightarrow> find_pipeline j db' = find_pipeline j db"
    "map_option pr_customer_slug (find_pipeline (p_ID p) db') = map_option pr_customer_slug (find_pipeline (p_ID p) db)"
    using u by blast+
  show "find_pipeline (p_ID p) db' = find_pipeline (p_ID p) db" if "x = Inl e"
    using u 1(4) that by (cases y) auto
qed

lemma DeletePipeline_rows:
  assumes "DeletePipeline_pg r i db = (x, db')"
  shows "\<forall>j. j \<noteq> i \<longrightarrow> find_pipeline j db' = find_pipeline j db"
    "x = Inr () \<Longrightarrow> find_pipeline i db \<noteq> None \<and> find_pipeline i db' = None"
    "x = Inl e \<Longrightarrow> find_pipeline i db' = find_pipeline i db"
proof -
  obtain y where y: "delete_pipeline i db = (y, db')" "x = Inr () \<longleftrightarrow> (\<exists>n. n \<noteq> 0 \<and> y = Inr n)"
    using assms by (cases "delete_pipeline i db")
      (auto simp: DeletePipeline_pg_def andThen_def wrapErr_def ret_def fail_def split: sum.splits if_splits)
  have n: "y = Inr n \<Longrightarrow> n = 0 \<or> n = 1" for n
    using y(1) unfolding delete_pipeline_def by (cases rule: sqlE) (auto split: if_splits)
  note d = delete_pipeline_rows [OF y(1)]
  show "\<forall>j. j \<noteq> i \<longrightarrow> find_pipeline j db' = find_pipeline j db" using d by blast
  show "find_pipeline i db \<noteq> None \<and> find_pipeline i db' = None" if "x = Inr ()" using that d y(2) n by auto
  show "find_pipeline i db' = find_pipeline i db" if "x = Inl e" using that d y(2) n by auto
qed

lemma insert_run_rows: "insert_run run db = (x, db') \<Longrightarrow> t_pipelines db' = t_pipelines db"
  unfolding insert_run_def by (erule sqlE) (auto simp: Let_def split: if_splits)

lemma update_runs_rows: "update_runs P f db = (x, db') \<Longrightarrow> t_pipelines db' = t_pipelines db"
  unfolding update_runs_def by (erule sqlE) auto

lemma CreatePipelineRun_rows: "CreatePipelineRun_pg r run db = (x, db') \<Longrightarrow> t_pipelines db' = t_pipelines db"
  by (auto simp: CreatePipelineRun_pg_def Let_def andThen_def wrapErr_def ret_def split: prod.splits sum.splits if_splits
      dest!: insert_run_rows)

lemma UpdatePipelineRun_rows: "UpdatePipelineRun_pg r run db = (x, db') \<Longrightarrow> t_pipelines db' = t_pipelines db"
  by (auto simp: UpdatePipelineRun_pg_def andThen_def wrapErr_def ret_def fail_def split: prod.splits sum.splits if_splits
      dest!: update_runs_rows)

lemma ListRecentRuns_snap: "ListRecentRuns_pg r i n db = (x, db') \<Longrightarrow> snap db' = snap db"
  by (auto simp: ListRecentRuns_pg_def wrapErr_def split: prod.splits sum.splits dest!: query_snap)

lemma GetPendingRun_snap: "GetPendingRun_pg r i db = (x, db') \<Longrightarrow> snap db' = snap db"
  by (auto simp: GetPendingRun_pg_def wrapErr_def split: prod.splits sum.splits dest!: query_snap)

abbreviation pg_row :: "'a pgdb_scheme \<Rightarrow> string \<Rightarrow> prow option" where
  "pg_row db \<equiv> (\<lambda>i. find_pipeline i db)"

lemma pg_row_snap: "snap db' = snap db \<Longrightarrow> pg_row db' = pg_row db"
  using find_pipeline_snap by (auto simp: fun_eq_iff)

lemma pg_row_tables: "t_pipelines db' = t_pipelines db \<Longrightarrow> pg_row db' = pg_row db"
  by (simp add: find_pipeline_def)

lemma find_pipeline_member:
  "row \<in> set (t_pipelines db) \<Longrightarrow> \<exists>s. find_pipeline (pr_id row) db = Some s"
  using find_pipeline_None [of "pr_id row" db] by (cases "find_pipeline (pr_id row) db") auto

subsection \<open>The schema invariant\<close>

definition pg_ok :: "'a pgdb_scheme \<Rightarrow> bool" where
  "pg_ok db \<longleftrightarrow>
     distinct (map pr_id (t_pipelines db)) \<and>
     distinct (map (\<lambda>r. (pr_customer_slug r, pr_name r)) (t_pipelines db)) \<and>
     distinct (map r_ID (t_pipeline_runs db)) \<and>
     distinct (map cr_PipelineID (t_credential_renders db)) \<and>
     distinct (map dr_PipelineID (t_definition_renders db)) \<and>
     r_PipelineID ` set (t_pipeline_runs db) \<subseteq> pr_id ` set (t_pipelines db) \<and>
     cr_PipelineID ` set (t_credential_renders db) \<subseteq> pr_id ` set (t_pipelines db) \<and>
     dr_PipelineID ` set (t_definition_renders db) \<subseteq> pr_id ` set (t_pipelines db) \<and>
     (\<forall>t \<in> set (t_transformations db). \<forall>i. tr_trigger_after_pipeline_id t = Some i \<longrightarrow> i \<in> pr_id ` set (t_pipelines db))"

lemma pg_ok_snap: "snap db' = snap db \<Longrightarrow> pg_ok db' = pg_ok db"
proof -
  assume "snap db' = snap db"
  note snap_fields [OF this]
  then show ?thesis unfolding pg_ok_def by simp
qed

lemma pg_ok_rows:
  assumes "pg_ok db" "map pr_id ts = map pr_id (t_pipelines db)" "distinct (map (\<lambda>r. (pr_customer_slug r, pr_name r)) ts)"
  shows "pg_ok (db\<lparr>t_pipelines := ts\<rparr>)"
proof -
  have "pr_id ` set ts = pr_id ` set (t_pipelines db)" using assms(2) by (metis set_map)
  then show ?thesis using assms unfolding pg_ok_def by simp
qed

lemma pg_ok_snap' [simp]: "pg_ok (snap db) = pg_ok db"
  by (rule pg_ok_snap) (simp add: snap_def)

lemma pg_ok_distinct: "pg_ok db \<Longrightarrow> row \<in> set (t_pipelines db) \<Longrightarrow> find_pipeline (pr_id row) db = Some row"
proof -
  assume "pg_ok db" "row \<in> set (t_pipelines db)"
  moreover obtain s where s: "find_pipeline (pr_id row) db = Some s"
    using find_pipeline_member [OF \<open>row \<in> set (t_pipelines db)\<close>] by blast
  ultimately have "s = row" using find_pipeline_Some [OF s] by (auto simp: pg_ok_def distinct_map dest: inj_onD)
  with s show ?thesis by simp
qed

lemma pg_ok_runs:
  assumes "pg_ok db" "map r_ID rs = map r_ID (t_pipeline_runs db)" "r_PipelineID ` set rs = r_PipelineID ` set (t_pipeline_runs db)"
  shows "pg_ok (db\<lparr>t_pipeline_runs := rs\<rparr>)"
  using assms unfolding pg_ok_def by simp

lemma insert_pipeline_inv:
  assumes "insert_pipeline ido r db = (x, db')" "pg_ok db"
  shows "pg_ok db'"
proof (cases x)
  case (Inl e)
  then show ?thesis using assms insert_pipeline_Inl pg_ok_snap by blast
next
  case (Inr i)
  from assms(1) [unfolded Inr] obtain c r' where 1: "r' = r\<lparr>pr_id := i, pr_source_config := c\<rparr>"
    "\<not> list_ex (takes_key r') (t_pipelines db)" "snap db' = snap (db\<lparr>t_pipelines := t_pipelines db @ [r']\<rparr>)"
    by (rule insert_pipeline_Inr)
  have "pg_ok (db\<lparr>t_pipelines := t_pipelines db @ [r']\<rparr>)"
    using assms(2) 1(2) by (auto simp: pg_ok_def list_ex_takes_key)
  then show ?thesis using pg_ok_snap [OF 1(3)] by simp
qed

lemma update_pipeline_inv:
  assumes "update_pipeline i f db = (x, db')" "pg_ok db"
    "\<And>r. pr_id (f r) = pr_id r \<and> pr_customer_slug (f r) = pr_customer_slug r"
  shows "pg_ok db'"
  using assms(1)
proof (cases rule: update_pipeline_cases)
  case (hit r c r')
  let ?g = "\<lambda>s. if pr_id s = i then r' else s"
  let ?ts = "map ?g (t_pipelines db)"
  have r: "pr_id r = i" "r \<in> set (t_pipelines db)" using find_pipeline_Some [OF hit(2)] by auto
  have r': "pr_id r' = i" "pr_customer_slug r' = pr_customer_slug r" using hit(4) assms(3) r by auto
  have ids: "map pr_id ?ts = map pr_id (t_pipelines db)" using r' by simp
  have inj: "inj_on pr_id (set (t_pipelines db))" using assms(2) by (simp add: pg_ok_def distinct_map)
  have free: "\<forall>s \<in> set (t_pipelines db). pr_id s \<noteq> i \<longrightarrow> (pr_customer_slug s, pr_name s) \<noteq> (pr_customer_slug r', pr_name r')"
    using hit(5) by (auto simp: list_ex_iff takes_key_def)
  have "inj_on (\<lambda>s. (pr_customer_slug (?g s), pr_name (?g s))) (set (t_pipelines db))"
  proof (rule inj_onI)
    fix a b
    assume ab: "a \<in> set (t_pipelines db)" "b \<in> set (t_pipelines db)"
      and e: "(pr_customer_slug (?g a), pr_name (?g a)) = (pr_customer_slug (?g b), pr_name (?g b))"
    have k: "inj_on (\<lambda>r. (pr_customer_slug r, pr_name r)) (set (t_pipelines db))"
      using assms(2) by (simp add: pg_ok_def distinct_map)
    show "a = b"
      using ab e free inj_onD [OF inj] inj_onD [OF k] by (cases "pr_id a = i"; cases "pr_id b = i") auto
  qed
  then have keys: "distinct (map (\<lambda>r. (pr_customer_slug r, pr_name r)) ?ts)"
    using assms(2) unfolding map_map comp_def by (simp add: pg_ok_def distinct_map)
  have "pg_ok (db\<lparr>t_pipelines := ?ts\<rparr>)" by (rule pg_ok_rows [OF assms(2) ids keys])
  then show ?thesis using pg_ok_snap [OF hit(6)] by simp
qed (use assms pg_ok_snap in blast)+

lemma delete_pipeline_inv:
  assumes "delete_pipeline i db = (x, db')" "pg_ok db"
  shows "pg_ok db'"
  using assms(1) unfolding delete_pipeline_def
proof (cases rule: sqlE)
  case (down ls)
  then show ?thesis using assms(2) pg_ok_snap [of db' db] by simp
next
  case (up ls)
  have img: "pr_id ` set (filter (\<lambda>r. pr_id r \<noteq> i) rows) = pr_id ` set rows - {i}" for rows by auto
  show ?thesis
  proof (cases "find_pipeline i db")
    case None
    then have "snap db' = snap db" using up by auto
    then show ?thesis using assms(2) pg_ok_snap by blast
  next
    case (Some s)
    let ?db = "db\<lparr>t_pipelines := filter (\<lambda>r. pr_id r \<noteq> i) (t_pipelines db),
       t_pipeline_runs := filter (\<lambda>r. r_PipelineID r \<noteq> i) (t_pipeline_runs db),
       t_transformations := map (\<lambda>t. if tr_trigger_after_pipeline_id t = Some i
         then t\<lparr>tr_trigger_after_pipeline_id := None\<rparr> else t) (t_transformations db),
       t_credential_renders := filter (\<lambda>r. cr_PipelineID r \<noteq> i) (t_credential_renders db),
       t_definition_renders := filter (\<lambda>r. dr_PipelineID r \<noteq> i) (t_definition_renders db)\<rparr>"
    have "snap db' = snap ?db" using up Some by auto
    moreover have "pg_ok ?db"
      using assms(2) unfolding pg_ok_def by (simp add: img distinct_map_filter del: set_filter) auto
    ultimately show ?thesis using pg_ok_snap by blast
  qed
qed

lemma insert_run_inv:
  assumes "insert_run run db = (x, db')" "pg_ok db"
  shows "pg_ok db'"
  using assms(1) unfolding insert_run_def
proof (cases rule: sqlE)
  case (down ls)
  then show ?thesis using assms(2) pg_ok_snap [of db' db] by simp
next
  case (up ls)
  let ?i = "if r_ID run = [] then db_gen db (db_next db) else r_ID run"
  have cases: "snap db' = snap db \<or>
      find_pipeline (r_PipelineID run) db \<noteq> None \<and> \<not> list_ex (\<lambda>s. r_ID s = ?i) (t_pipeline_runs db) \<and>
      snap db' = snap (db\<lparr>t_pipeline_runs := t_pipeline_runs db @ [run\<lparr>r_ID := ?i\<rparr>]\<rparr>)"
    using up by (auto simp: Let_def split: if_splits)
  have "pg_ok (db\<lparr>t_pipeline_runs := t_pipeline_runs db @ [run\<lparr>r_ID := ?i\<rparr>]\<rparr>)"
    if "find_pipeline (r_PipelineID run) db \<noteq> None" "\<not> list_ex (\<lambda>s. r_ID s = ?i) (t_pipeline_runs db)"
    using that assms(2) unfolding find_pipeline_None pg_ok_def by (auto simp: list_ex_iff)
  then show ?thesis using cases assms(2) pg_ok_snap by blast
qed

lemma update_runs_inv:
  assumes "update_runs P f db = (x, db')" "pg_ok db" "\<And>r. r_ID (f r) = r_ID r \<and> r_PipelineID (f r) = r_PipelineID r"
  shows "pg_ok db'"
  using assms(1) unfolding update_runs_def
proof (cases rule: sqlE)
  case (down ls)
  then show ?thesis using assms(2) pg_ok_snap [of db' db] by simp
next
  case (up ls)
  let ?rs = "map (\<lambda>r. if P r then f r else r) (t_pipeline_runs db)"
  have "map r_ID ?rs = map r_ID (t_pipeline_runs db)" "map r_PipelineID ?rs = map r_PipelineID (t_pipeline_runs db)"
    using assms(3) by simp_all
  then have "map r_ID ?rs = map r_ID (t_pipeline_runs db)" "r_PipelineID ` set ?rs = r_PipelineID ` set (t_pipeline_runs db)"
    by (blast, metis set_map)
  then have "pg_ok (db\<lparr>t_pipeline_runs := ?rs\<rparr>)" by (rule pg_ok_runs [OF assms(2)])
  moreover have "snap db' = snap (db\<lparr>t_pipeline_runs := ?rs\<rparr>)" using up by auto
  ultimately show ?thesis using pg_ok_snap by blast
qed

lemma CreatePipeline_inv: "CreatePipeline_pg r p db = (x, db') \<Longrightarrow> pg_ok db \<Longrightarrow> pg_ok db'"
proof -
  assume a: "CreatePipeline_pg r p db = (x, db')" "pg_ok db"
  obtain enc db1 where e: "encryptCredentials r (p_SourceCredentials p) db = (Inr enc, db1)" using encrypt_total by blast
  obtain y db2 where i: "insert_pipeline None (new_row p enc) db1 = (y, db2)" by fastforce
  have "db' = db2" using a(1) e i
    by (auto simp: CreatePipeline_pg_def andThen_def wrapErr_def uniqueAs_def attempt_def ret_def fail_def split: sum.splits if_splits)
  then show "pg_ok db'" using insert_pipeline_inv [OF i] pg_ok_snap [OF encrypt_snap [OF e]] a(2) by simp
qed

lemma ImportPipeline_inv: "ImportPipeline_pg r p db = (x, db') \<Longrightarrow> pg_ok db \<Longrightarrow> pg_ok db'"
proof -
  assume a: "ImportPipeline_pg r p db = (x, db')" "pg_ok db"
  obtain enc db1 where e: "encryptCredentials r (emptyJSONObject (p_SourceCredentials p)) db = (Inr enc, db1)"
    using encrypt_total by blast
  obtain y db2 where i: "insert_pipeline (Some (p_ID p))
    ((new_row p enc)\<lparr>pr_credentials_external := p_CredentialsExternal p\<rparr>) db1 = (y, db2)" by fastforce
  have "db' = db2" using a(1) e i
    by (auto simp: ImportPipeline_pg_def andThen_def wrapErr_def uniqueAs_def attempt_def ret_def fail_def split: sum.splits if_splits)
  then show "pg_ok db'" using insert_pipeline_inv [OF i] pg_ok_snap [OF encrypt_snap [OF e]] a(2) by simp
qed

lemma UpdatePipeline_inv:
  assumes "UpdatePipeline_pg r p db = (x, db')" "pg_ok db"
  shows "pg_ok db'"
proof -
  obtain enc db1 y where 1: "snap db1 = snap db" "update_pipeline (p_ID p) (pipeline_columns p enc) db1 = (y, db')"
    using assms(1) by (rule UpdatePipeline_cases)
  then show ?thesis using update_pipeline_inv [OF 1(2)] pg_ok_snap [OF 1(1)] assms(2) by simp
qed

lemma DeletePipeline_inv: "DeletePipeline_pg r i db = (x, db') \<Longrightarrow> pg_ok db \<Longrightarrow> pg_ok db'"
  by (auto simp: DeletePipeline_pg_def andThen_def wrapErr_def ret_def fail_def split: prod.splits sum.splits if_splits
      dest: delete_pipeline_inv)

lemma CreatePipelineRun_inv: "CreatePipelineRun_pg r run db = (x, db') \<Longrightarrow> pg_ok db \<Longrightarrow> pg_ok db'"
  by (auto simp: CreatePipelineRun_pg_def Let_def andThen_def wrapErr_def ret_def split: prod.splits sum.splits if_splits
      dest: insert_run_inv)

lemma UpdatePipelineRun_inv: "UpdatePipelineRun_pg r run db = (x, db') \<Longrightarrow> pg_ok db \<Longrightarrow> pg_ok db'"
  by (auto simp: UpdatePipelineRun_pg_def andThen_def wrapErr_def ret_def fail_def split: prod.splits sum.splits if_splits
      elim!: update_runs_inv)

lemma FailStuck_inv: "FailStuckRunningRuns r c t db = (x, db') \<Longrightarrow> pg_ok db \<Longrightarrow> pg_ok db'"
  by (auto simp: FailStuckRunningRuns_def wrapErr_def split: prod.splits sum.splits elim!: update_runs_inv)

interpretation pg: pipeline_repository "pg_repo r" pg_row pr_customer_slug pg_ok for r
proof (unfold_locales, goal_cases)
  case (1 i w p w')
  then show ?case by (auto simp: pg_repo_def dest: find_pipeline_Some elim!: GetPipeline_Inr)
next
  case (2 i w x w')
  then show ?case by (auto simp: pg_repo_def dest!: GetPipeline_snap intro!: pg_row_snap)
next
  case (3 w c ps w' p)
  then show ?case by (auto simp: pg_repo_def pg_ok_distinct dest!: List_Inr)
next
  case (4 c w y w')
  then show ?case by (auto simp: pg_repo_def dest!: List_snap intro!: pg_row_snap)
next
  case (5 p w q w')
  then have "CreatePipeline_pg r p w = (Inr q, w')" by (simp add: pg_repo_def)
  then obtain enc db1 where c: "encryptCredentials r (p_SourceCredentials p) w = (Inr enc, db1)"
      "insert_pipeline None (new_row p enc) db1 = (Inr (p_ID q), w')" "q = p\<lparr>p_ID := p_ID q\<rparr>"
    by (rule CreatePipeline_Inr)
  have "pr_customer_slug (new_row p enc) = p_CustomerSlug p" by (simp add: new_row_def)
  with insert_pipeline_rows [OF c(2)] pg_row_snap [OF encrypt_snap [OF c(1)]] c(3) show ?case
    by (auto simp: fun_eq_iff)
next
  case (6 p w e w')
  then show ?case by (auto simp: pg_repo_def dest!: CreatePipeline_Inl intro!: pg_row_snap)
next
  case (7 p w z w' i)
  then show ?case using UpdatePipeline_rows(1) by (fastforce simp: pg_repo_def)
next
  case (8 p w z w')
  then show ?case using UpdatePipeline_rows(2) by (simp add: pg_repo_def)
next
  case (9 p w e w')
  then have u: "UpdatePipeline_pg r p w = (Inl e, w')" by (simp add: pg_repo_def)
  show ?case using UpdatePipeline_rows(1,3) [OF u] by (intro ext) metis
next
  case (10 i w u w')
  then have d: "DeletePipeline_pg r i w = (Inr u, w')" by (simp add: pg_repo_def)
  show ?case using DeletePipeline_rows(1,2) [OF d] by (auto simp: fun_eq_iff split: if_splits)
next
  case (11 i w e w')
  then have d: "DeletePipeline_pg r i w = (Inl e, w')" by (simp add: pg_repo_def)
  show ?case using DeletePipeline_rows(1,3) [OF d] by (intro ext) metis
next
  case (12 c w ps w' p)
  then show ?case by (auto simp: pg_repo_def dest: GetEnabled_slug)
next
  case (13 c w y w')
  then show ?case by (auto simp: pg_repo_def dest!: GetEnabled_snap intro!: pg_row_snap)
next
  case (14 run w v w')
  then show ?case by (auto simp: pg_repo_def dest!: CreatePipelineRun_rows intro!: pg_row_tables)
next
  case (15 run w z w')
  then show ?case by (auto simp: pg_repo_def dest!: UpdatePipelineRun_rows intro!: pg_row_tables)
next
  case (16 i n w u' w')
  then show ?case by (auto simp: pg_repo_def dest!: ListRecentRuns_snap intro!: pg_row_snap)
next
  case (17 i w t w')
  then show ?case by (auto simp: pg_repo_def dest!: GetPendingRun_snap intro!: pg_row_snap)
next
  case (18 i w x w')
  then show ?case by (simp add: pg_repo_def GetPipeline_snap [THEN pg_ok_snap])
next
  case (19 c w y w')
  then show ?case by (simp add: pg_repo_def List_snap [THEN pg_ok_snap])
next
  case (20 p w x w')
  then show ?case by (simp add: pg_repo_def CreatePipeline_inv)
next
  case (21 p w z w')
  then show ?case by (simp add: pg_repo_def UpdatePipeline_inv)
next
  case (22 i w z w')
  then show ?case by (simp add: pg_repo_def DeletePipeline_inv)
next
  case (23 c w y w')
  then show ?case by (simp add: pg_repo_def GetEnabled_snap [THEN pg_ok_snap])
next
  case (24 run w v w')
  then show ?case by (simp add: pg_repo_def CreatePipelineRun_inv)
next
  case (25 run w z w')
  then show ?case by (simp add: pg_repo_def UpdatePipelineRun_inv)
next
  case (26 i n w u' w')
  then show ?case by (simp add: pg_repo_def ListRecentRuns_snap [THEN pg_ok_snap])
next
  case (27 i w t w')
  then show ?case by (simp add: pg_repo_def GetPendingRun_snap [THEN pg_ok_snap])
qed


end
