(* ===== verification/PostgresFrames.thy ===== *)
theory PostgresFrames
  imports PostgresLaws
begin

section \<open>What the other statements leave alone\<close>

text \<open>
  \<open>quiet m\<close>: the call leaves the \<^verbatim>\<open>pipelines\<close> table and the transformations' tables as they are and keeps the
  schema invariant. That holds of every repository method on pipelines but the four that write pipeline
  rows and the ownership mark, whichever of their statements fail.
\<close>

named_theorems quiet_rules \<open>calls that leave the pipelines table alone\<close>

text \<open>The transformations, their runs and their rendered files.\<close>

definition tplane :: "'a pgdb_scheme \<Rightarrow> trow list \<times> TransformationRun list \<times> TransformationDefinitionRender list" where
  "tplane db = (t_transformations db, t_transformation_runs db, t_transformation_renders db)"

lemma tplane_snap:
  assumes "snap db' = snap db"
  shows "tplane db' = tplane db"
  using snap_fields [OF assms] by (simp add: tplane_def)

lemma tplane_upd [simp]:
  "tplane (db_link_update a db) = tplane db" "tplane (db_next_update b db) = tplane db" "tplane (db_drawn_update d db) = tplane db"
  "tplane (t_pipelines_update e db) = tplane db" "tplane (t_pipeline_runs_update f db) = tplane db"
  "tplane (t_credential_renders_update g db) = tplane db" "tplane (t_definition_renders_update h db) = tplane db"
  "tplane (t_connections_update i db) = tplane db" "tplane (t_oauth_clients_update j db) = tplane db" "tplane (t_grants_update k db) = tplane db"
  "tplane (db_now_update l db) = tplane db" "tplane (t_source_tests_update m db) = tplane db" "tplane (t_notifications_update n db) = tplane db"
  "tplane (db_channel_update o' db) = tplane db"
  by (simp_all add: tplane_def)

definition quiet :: "('a pgdb_scheme, 'x) io \<Rightarrow> bool" where
  "quiet m \<longleftrightarrow> (\<forall>w x w'. m w = (x, w') \<longrightarrow> t_pipelines w' = t_pipelines w \<and> tplane w' = tplane w \<and> (pg_ok w \<longrightarrow> pg_ok w'))"

lemma quietI: "(\<And>w x w'. m w = (x, w') \<Longrightarrow> t_pipelines w' = t_pipelines w \<and> tplane w' = tplane w \<and> (pg_ok w \<longrightarrow> pg_ok w')) \<Longrightarrow> quiet m"
  by (simp add: quiet_def)

lemma quietD: "quiet m \<Longrightarrow> m w = (x, w') \<Longrightarrow> t_pipelines w' = t_pipelines w \<and> tplane w' = tplane w \<and> (pg_ok w \<longrightarrow> pg_ok w')"
  by (simp add: quiet_def)

lemma quiet_snap: "(\<And>w x w'. m w = (x, w') \<Longrightarrow> snap w' = snap w) \<Longrightarrow> quiet m"
  by (rule quietI) (metis snap_fields(1) tplane_snap pg_ok_snap)

lemma quiet_ret [quiet_rules]: "quiet (ret x)"
  by (simp add: quiet_def)

lemma quiet_fail [quiet_rules]: "quiet (fail e)"
  by (simp add: quiet_def)

lemma quiet_lift [quiet_rules]: "quiet (lift r)"
  by (simp add: quiet_def)

lemma quiet_check [quiet_rules]: "quiet (check e)"
  by (simp add: quiet_def)

lemma quiet_andThen [quiet_rules]:
  assumes "quiet m" "\<And>x. quiet (f x)"
  shows "quiet (andThen m f)"
proof (rule quietI)
  fix w x w' assume eq: "andThen m f w = (x, w')"
  obtain r w1 where m: "m w = (r, w1)" by fastforce
  show "t_pipelines w' = t_pipelines w \<and> tplane w' = tplane w \<and> (pg_ok w \<longrightarrow> pg_ok w')"
    using quietD [OF assms(1) m] quietD [OF assms(2)] eq m by (cases r) (auto simp: andThen_def)
qed

lemma quiet_wrapErr [quiet_rules]: "quiet m \<Longrightarrow> quiet (wrapErr msg m)"
  by (auto simp: quiet_def wrapErr_def split: prod.splits sum.splits)

lemma quiet_uniqueAs [quiet_rules]: "quiet m \<Longrightarrow> quiet (uniqueAs e msg m)"
  by (auto simp: quiet_def uniqueAs_def attempt_def ret_def fail_def split: prod.splits sum.splits if_splits)

lemma quiet_if [quiet_rules]: "quiet m \<Longrightarrow> quiet m' \<Longrightarrow> quiet (if b then m else m')"
  by simp

lemma quiet_option [quiet_rules]: "quiet m \<Longrightarrow> (\<And>y. quiet (f y)) \<Longrightarrow> quiet (case x of None \<Rightarrow> m | Some y \<Rightarrow> f y)"
  by (simp split: option.splits)

lemma quiet_sum [quiet_rules]: "(\<And>e. quiet (g e)) \<Longrightarrow> (\<And>y. quiet (f y)) \<Longrightarrow> quiet (case x of Inl e \<Rightarrow> g e | Inr y \<Rightarrow> f y)"
  by (simp split: sum.splits)

lemma quiet_prod [quiet_rules]: "(\<And>a b. quiet (f a b)) \<Longrightarrow> quiet (case x of (a, b) \<Rightarrow> f a b)"
  by (simp split: prod.splits)

lemma quiet_attempt [quiet_rules]: "quiet m \<Longrightarrow> (\<And>x. quiet (f x)) \<Longrightarrow> quiet (attempt m f)"
  by (auto simp: quiet_def attempt_def split: prod.splits)

lemma quiet_query [quiet_rules]: "quiet (query q)"
  by (rule quiet_snap) (rule query_snap)

lemma quiet_encrypt [quiet_rules]: "quiet (encryptCredentials r c)"
  by (rule quiet_snap) (rule encrypt_snap)

text \<open>A statement is quiet when what it does to the tables is.\<close>

lemma quiet_sql:
  assumes "\<And>db x db'. act db = (x, db') \<Longrightarrow> t_pipelines db' = t_pipelines db \<and> tplane db' = tplane db \<and> (pg_ok db \<longrightarrow> pg_ok db')"
  shows "quiet (sql act)"
proof (rule quietI)
  fix w x w' assume "sql act w = (x, w')"
  then show "t_pipelines w' = t_pipelines w \<and> tplane w' = tplane w \<and> (pg_ok w \<longrightarrow> pg_ok w')"
  proof (cases rule: sqlE)
    case (down ls)
    then show ?thesis using pg_ok_snap [of w' w] by simp
  next
    case (up ls)
    have "pg_ok (w\<lparr>db_link := ls\<rparr>) = pg_ok w" by (rule pg_ok_snap) simp
    then show ?thesis using assms [OF up] by simp
  qed
qed

lemma pg_ok_other [simp]:
  "pg_ok (t_connections_update f db) = pg_ok db" "pg_ok (t_oauth_clients_update g db) = pg_ok db" "pg_ok (t_grants_update h db) = pg_ok db"
  "pg_ok (t_source_tests_update k db) = pg_ok db" "pg_ok (t_notifications_update l db) = pg_ok db"
  "pg_ok (db_channel_update m db) = pg_ok db"
  by (simp_all add: pg_ok_def)

lemma pg_ok_credential_renders:
  "pg_ok db \<Longrightarrow> distinct (map cr_PipelineID rs) \<Longrightarrow> cr_PipelineID ` set rs \<subseteq> pr_id ` set (t_pipelines db) \<Longrightarrow>
   pg_ok (db\<lparr>t_credential_renders := rs\<rparr>)"
  by (simp add: pg_ok_def)

lemma pg_ok_definition_renders:
  "pg_ok db \<Longrightarrow> distinct (map dr_PipelineID rs) \<Longrightarrow> dr_PipelineID ` set rs \<subseteq> pr_id ` set (t_pipelines db) \<Longrightarrow>
   pg_ok (db\<lparr>t_definition_renders := rs\<rparr>)"
  by (simp add: pg_ok_def)

text \<open>Replacing the row of a key, or adding it, keeps the keys distinct.\<close>

definition upserted :: "('r \<Rightarrow> 'k) \<Rightarrow> 'r \<Rightarrow> 'r list \<Rightarrow> 'r list" where
  "upserted key x rs = (if list_ex (\<lambda>s. key s = key x) rs then map (\<lambda>s. if key s = key x then x else s) rs else rs @ [x])"

lemma upserted_distinct:
  assumes "distinct (map key rs)"
  shows "distinct (map key (upserted key x rs))"
proof (cases "list_ex (\<lambda>s. key s = key x) rs")
  case True
  then have "map key (upserted key x rs) = map key rs" by (simp add: upserted_def)
  with assms show ?thesis by (simp only:)
next
  case False
  with assms show ?thesis by (auto simp: upserted_def list_ex_iff)
qed

lemma upserted_keys: "key x \<in> K \<Longrightarrow> key ` set rs \<subseteq> K \<Longrightarrow> key ` set (upserted key x rs) \<subseteq> K"
  by (auto simp: upserted_def)

lemma UpsertPipelineCredentialRender_quiet [quiet_rules]: "quiet (UpsertPipelineCredentialRender_pg r cr)"
proof -
  have act: "UpsertPipelineCredentialRender_pg r cr = wrapErr ''postgres: upsert credential render'' (sql (\<lambda>db.
      if find_pipeline (cr_PipelineID cr) db = None then (Inl ErrForeignKeyViolation, db)
      else (Inr (), db\<lparr>t_credential_renders := upserted cr_PipelineID cr (t_credential_renders db)\<rparr>)))"
    unfolding UpsertPipelineCredentialRender_pg_def upserted_def by (intro arg_cong2 [where f = wrapErr] arg_cong [where f = sql] ext) simp_all
  have "pg_ok (db\<lparr>t_credential_renders := upserted cr_PipelineID cr (t_credential_renders db)\<rparr>)"
    if "pg_ok db" "find_pipeline (cr_PipelineID cr) db \<noteq> None" for db :: "'a pgdb_scheme"
    using that by (intro pg_ok_credential_renders upserted_distinct upserted_keys) (auto simp: find_pipeline_None pg_ok_def)
  then show ?thesis unfolding act by (intro quiet_wrapErr quiet_sql) (auto split: if_splits)
qed

lemma UpsertPipelineDefinitionRender_quiet [quiet_rules]: "quiet (UpsertPipelineDefinitionRender_pg r dr)"
proof -
  let ?d = "dr\<lparr>dr_RefusedBlobSHA := []\<rparr>"
  have act: "UpsertPipelineDefinitionRender_pg r dr = wrapErr ''postgres: upsert definition render'' (sql (\<lambda>db.
      if find_pipeline (dr_PipelineID dr) db = None then (Inl ErrForeignKeyViolation, db)
      else (Inr (), db\<lparr>t_definition_renders := upserted dr_PipelineID ?d (t_definition_renders db)\<rparr>)))"
    unfolding UpsertPipelineDefinitionRender_pg_def upserted_def Let_def
    by (intro arg_cong2 [where f = wrapErr] arg_cong [where f = sql] ext) simp_all
  have "pg_ok (db\<lparr>t_definition_renders := upserted dr_PipelineID ?d (t_definition_renders db)\<rparr>)"
    if "pg_ok db" "find_pipeline (dr_PipelineID dr) db \<noteq> None" for db :: "'a pgdb_scheme"
    using that by (intro pg_ok_definition_renders upserted_distinct upserted_keys) (auto simp: find_pipeline_None pg_ok_def)
  then show ?thesis unfolding act by (intro quiet_wrapErr quiet_sql) (auto split: if_splits)
qed

lemma MarkPipelineDefinitionRefused_quiet [quiet_rules]: "quiet (MarkPipelineDefinitionRefused_pg r i sha)"
  unfolding MarkPipelineDefinitionRefused_pg_def
proof (rule quiet_wrapErr, rule quiet_sql)
  fix db :: "'a pgdb_scheme" and x :: "err + unit" and db'
  let ?m = "map (\<lambda>s. if dr_PipelineID s = i then s\<lparr>dr_RefusedBlobSHA := sha\<rparr> else s) (t_definition_renders db)"
  assume eq: "(Inr (), db\<lparr>t_definition_renders := ?m\<rparr>) = (x, db')"
  have m: "map dr_PipelineID ?m = map dr_PipelineID (t_definition_renders db)" by simp
  then have "dr_PipelineID ` set ?m = dr_PipelineID ` set (t_definition_renders db)" by (metis set_map)
  with m have "pg_ok (db\<lparr>t_definition_renders := ?m\<rparr>) = pg_ok db" unfolding pg_ok_def by (simp del: map_map set_map)
  with eq show "t_pipelines db' = t_pipelines db \<and> tplane db' = tplane db \<and> (pg_ok db \<longrightarrow> pg_ok db')" by auto
qed

lemma DeletePipelineCredentialRender_quiet [quiet_rules]: "quiet (DeletePipelineCredentialRender_pg r i)"
  unfolding DeletePipelineCredentialRender_pg_def
  by (rule quiet_wrapErr, rule quiet_sql) (auto simp: pg_ok_def distinct_map_filter)

lemma runs_tplane: "update_runs P f db = (x, db') \<Longrightarrow> tplane db' = tplane db" "insert_run run db = (y, db') \<Longrightarrow> tplane db' = tplane db"
  by (auto simp: update_runs_def insert_run_def Let_def split: if_splits elim!: sqlE)

lemma update_runs_quiet: "(\<And>r. r_ID (f r) = r_ID r \<and> r_PipelineID (f r) = r_PipelineID r) \<Longrightarrow> quiet (update_runs P f)"
  by (rule quietI) (auto dest: update_runs_rows runs_tplane elim!: update_runs_inv)

lemma insert_run_quiet: "quiet (insert_run run)"
  by (rule quietI) (auto dest: insert_run_rows runs_tplane insert_run_inv)

lemma runs_quiet [quiet_rules]: "quiet (CreatePipelineRun_pg r run)" "quiet (UpdatePipelineRun_pg r run)" "quiet (FailStuckRunningRuns r c t)"
proof -
  show "quiet (CreatePipelineRun_pg r run)"
    by (rule quietI) (auto simp: CreatePipelineRun_pg_def Let_def dest: quietD [OF quiet_andThen [OF quiet_wrapErr [OF insert_run_quiet] quiet_ret]])
  show "quiet (UpdatePipelineRun_pg r run)"
    unfolding UpdatePipelineRun_pg_def by (intro quiet_rules update_runs_quiet) simp
  show "quiet (FailStuckRunningRuns r c t)"
    by (rule quietI) (auto simp: FailStuckRunningRuns_def dest!: quietD [OF quiet_wrapErr [OF update_runs_quiet], rotated])
qed

lemma reads_quiet [quiet_rules]:
  "quiet (GetPipeline_pg r i)" "quiet (ListPipelinesByCustomer_pg r c)" "quiet (GetEnabledPipelines_pg r c)"
  "quiet (ListRecentRuns_pg r i n)" "quiet (GetPendingRun_pg r i)" "quiet (ListPipelineCredentialsByCustomer_pg r c)"
  "quiet (GetPipelineCredentialRenders_pg r c)" "quiet (GetPipelineDefinitionRenders_pg r c)"
  "quiet (GetConnection_pg r c i)" "quiet (ListConnections_pg r c)" "quiet (GetOAuthClient_pg r c pv)"
  unfolding GetPipeline_pg_def ListPipelinesByCustomer_pg_def GetEnabledPipelines_pg_def ListRecentRuns_pg_def GetPendingRun_pg_def
    ListPipelineCredentialsByCustomer_pg_def GetPipelineCredentialRenders_pg_def GetPipelineDefinitionRenders_pg_def
    GetConnection_pg_def ListConnections_pg_def GetOAuthClient_pg_def
  by (intro quiet_rules)+

lemma connections_quiet [quiet_rules]:
  "quiet (CreateConnection_pg r cn)" "quiet (ReauthorizeConnection_pg r c i raw)" "quiet (DeleteConnection_pg r c i)"
  "quiet (UpsertOAuthClient_pg r cl)" "quiet (DeleteOAuthClient_pg r c pv)"
  "quiet (CreateGoogleOAuthGrant_pg r g)" "quiet (ConsumeGoogleOAuthGrant_pg r i c)" "quiet (DeleteExpiredGoogleOAuthGrants_pg r)"
  unfolding CreateConnection_pg_def ReauthorizeConnection_pg_def DeleteConnection_pg_def UpsertOAuthClient_pg_def
    DeleteOAuthClient_pg_def CreateGoogleOAuthGrant_pg_def ConsumeGoogleOAuthGrant_pg_def DeleteExpiredGoogleOAuthGrants_pg_def
  by (intro quiet_rules quiet_sql; auto simp: Let_def split: option.splits if_splits)+

subsection \<open>Invariants of a pass\<close>

text \<open>The pipelines table up to the ownership mark, which a converge may set.\<close>

definition unmarked :: "'a pgdb_scheme \<Rightarrow> prow list" where
  "unmarked db = map (\<lambda>r. r\<lparr>pr_credentials_external := False\<rparr>) (t_pipelines db)"

abbreviation same_rows :: "prow list \<Rightarrow> 'a pgdb_scheme \<Rightarrow> bool" where
  "same_rows X db \<equiv> unmarked db = X"

lemma quiet_within: "quiet m \<Longrightarrow> keeps (pg.within c F) m"
  by (rule pg.within_quiet) (use quietD pg_row_tables in blast)

lemma quiet_same_rows: "quiet m \<Longrightarrow> keeps (same_rows X) m"
  by (rule safeI) (auto simp: unmarked_def dest: quietD)

definition mark_row :: "string \<Rightarrow> bool \<Rightarrow> prow \<Rightarrow> prow" where
  "mark_row i b s = (if pr_id s = i then s\<lparr>pr_credentials_external := b\<rparr> else s)"

lemma mark_row_key [simp]: "pr_id (mark_row i b s) = pr_id s" "pr_customer_slug (mark_row i b s) = pr_customer_slug s"
  "pr_name (mark_row i b s) = pr_name s" "(mark_row i b s)\<lparr>pr_credentials_external := False\<rparr> = s\<lparr>pr_credentials_external := False\<rparr>"
  by (simp_all add: mark_row_def)

lemma SetExternal_rows:
  assumes "SetPipelineCredentialsExternal_pg r i b db = (x, db')"
  shows "snap db' = snap db \<or> snap db' = snap (db\<lparr>t_pipelines := map (mark_row i b) (t_pipelines db)\<rparr>)"
proof -
  have m: "map (\<lambda>s. if pr_id s = i then s\<lparr>pr_credentials_external := b\<rparr> else s) ts = map (mark_row i b) ts" for ts
    by (simp add: mark_row_def)
  from assms obtain y where "sql (\<lambda>db. (Inr (length (filter (\<lambda>s. pr_id s = i) (t_pipelines db))),
        db\<lparr>t_pipelines := map (mark_row i b) (t_pipelines db)\<rparr>)) db = (y :: err + nat, db')"
    unfolding SetPipelineCredentialsExternal_pg_def m
    by (auto simp: andThen_def wrapErr_def ret_def fail_def split: prod.splits sum.splits if_splits)
  then show ?thesis by (cases rule: sqlE) auto
qed

lemma find_mark: "find (\<lambda>r. pr_id r = j) (map (mark_row i b) ts) = map_option (mark_row i b) (find (\<lambda>r. pr_id r = j) ts)"
  by (induction ts) auto

lemma SetExternal_same_rows: "keeps (same_rows X) (SetPipelineCredentialsExternal_pg r i b)"
proof (rule safeI)
  fix w x and w' :: "'a pgdb_scheme"
  assume I: "same_rows X w" and eq: "SetPipelineCredentialsExternal_pg r i b w = (x, w')"
  consider "snap w' = snap w" | "snap w' = snap (w\<lparr>t_pipelines := map (mark_row i b) (t_pipelines w)\<rparr>)"
    using SetExternal_rows [OF eq] by blast
  then have "t_pipelines w' = t_pipelines w \<or> t_pipelines w' = map (mark_row i b) (t_pipelines w)"
    by cases (use snap_fields(1) in \<open>fastforce simp del: snap_push\<close>)+
  then have "unmarked w' = unmarked w" by (auto simp: unmarked_def comp_def)
  with I show "same_rows X w' \<and> (\<forall>v. x = Inr v \<longrightarrow> True)" by simp
qed

lemma SetExternal_within:
  assumes "i \<notin> fst ` F"
  shows "keeps (pg.within c F) (SetPipelineCredentialsExternal_pg r i b)"
proof (rule safeI)
  fix w x and w' :: "'a pgdb_scheme"
  assume I: "pg.within c F w" and eq: "SetPipelineCredentialsExternal_pg r i b w = (x, w')"
  consider "snap w' = snap w" | "snap w' = snap (w\<lparr>t_pipelines := map (mark_row i b) (t_pipelines w)\<rparr>)"
    using SetExternal_rows [OF eq] by blast
  then have "pg.foreign c w' = pg.foreign c w \<and> (pg_ok w \<longrightarrow> pg_ok w')"
  proof cases
    case 1
    then show ?thesis using pg.foreign_cong [OF pg_row_snap] pg_ok_snap by blast
  next
    case 2
    have row: "pg_row w' j = map_option (mark_row i b) (pg_row w j)" for j
      using snap_fields(1) [OF 2] by (simp add: find_pipeline_def find_mark)
    have m: "map pr_id (map (mark_row i b) (t_pipelines w)) = map pr_id (t_pipelines w)"
      "map (\<lambda>r. (pr_customer_slug r, pr_name r)) (map (mark_row i b) (t_pipelines w)) = map (\<lambda>r. (pr_customer_slug r, pr_name r)) (t_pipelines w)"
      by simp_all
    have "pg_ok w'" if "pg_ok w"
    proof -
      have "pg_ok (w\<lparr>t_pipelines := map (mark_row i b) (t_pipelines w)\<rparr>)"
        by (rule pg_ok_rows [OF that m(1)]) (use m(2) that in \<open>simp only: pg_ok_def\<close>)
      with pg_ok_snap [OF 2] show ?thesis by simp
    qed
    moreover have "pg.foreign c w' = pg.foreign c w"
    proof (rule pg.foreign_upd [of i])
      show "pg_row w' j = pg_row w j" if "j \<noteq> i" for j
        using row [of j] that by (cases "pg_row w j") (auto simp: mark_row_def dest!: find_pipeline_Some)
      show "map_option pr_customer_slug (pg_row w i) \<in> {None, Some c}"
        using assms I pg.not_foreign [of i c w] by (simp add: pg.within_def)
      then show "map_option pr_customer_slug (pg_row w' i) \<in> {None, Some c}" using row [of i] by (auto simp: option.map_comp comp_def)
    qed
    ultimately show ?thesis by blast
  qed
  with I show "pg.within c F w' \<and> (\<forall>v. x = Inr v \<longrightarrow> True)" by (simp add: pg.within_def)
qed

text \<open>An import creates a row for the workspace, or nothing.\<close>

lemma ImportPipeline_cases:
  assumes "ImportPipeline_pg r p db = (x, db')"
  obtains enc db1 y where "encryptCredentials r (emptyJSONObject (p_SourceCredentials p)) db = (Inr enc, db1)" "snap db1 = snap db"
    "insert_pipeline (Some (p_ID p)) ((new_row p enc)\<lparr>pr_credentials_external := p_CredentialsExternal p\<rparr>) db1 = (y, db')"
    "x = Inr () \<longleftrightarrow> (\<exists>i. y = Inr i)"
proof -
  obtain enc db1 where e: "encryptCredentials r (emptyJSONObject (p_SourceCredentials p)) db = (Inr enc, db1)"
    using encrypt_total by blast
  obtain y db2 where i: "insert_pipeline (Some (p_ID p))
    ((new_row p enc)\<lparr>pr_credentials_external := p_CredentialsExternal p\<rparr>) db1 = (y, db2)" by fastforce
  have "db' = db2" "x = Inr () \<longleftrightarrow> (\<exists>i. y = Inr i)" using assms e i
    by (auto simp: ImportPipeline_pg_def andThen_def wrapErr_def uniqueAs_def attempt_def ret_def fail_def split: sum.splits if_splits)
  then show ?thesis using that [OF e encrypt_snap [OF e]] i by simp
qed

lemma ImportPipeline_within:
  assumes "p_CustomerSlug p = c"
  shows "keeps (pg.within c F) (ImportPipeline_pg r p)"
proof (rule safeI)
  fix w x and w' :: "'a pgdb_scheme"
  assume I: "pg.within c F w" and eq: "ImportPipeline_pg r p w = (x, w')"
  from eq obtain enc w1 y where 1: "snap w1 = snap w"
    "insert_pipeline (Some (p_ID p)) ((new_row p enc)\<lparr>pr_credentials_external := p_CredentialsExternal p\<rparr>) w1 = (y, w')"
    by (rule ImportPipeline_cases)
  have "pg.foreign c w' = pg.foreign c w"
  proof (cases y)
    case (Inl e)
    then show ?thesis using insert_pipeline_Inl 1 pg.foreign_cong [OF pg_row_snap] by metis
  next
    case (Inr i)
    note ins = insert_pipeline_rows [OF 1(2) [unfolded Inr]]
    have slug: "pr_customer_slug ((new_row p enc)\<lparr>pr_credentials_external := p_CredentialsExternal p\<rparr>) = c"
      using assms by (simp add: new_row_def pipeline_columns_def)
    have "pg.foreign c w' = pg.foreign c w1" by (rule pg.foreign_upd [of i]) (use ins slug in auto)
    then show ?thesis using pg.foreign_cong [OF pg_row_snap [OF 1(1)]] by simp
  qed
  then show "pg.within c F w' \<and> (\<forall>v. x = Inr v \<longrightarrow> True)" using I ImportPipeline_inv [OF eq] by (simp add: pg.within_def)
qed

subsection \<open>A database that answers\<close>

text \<open>No statement to come is scripted to fail and JSONB columns keep the form \<open>J\<close>; the methods leave it so.\<close>

definition reliable :: "'a pgdb_scheme \<Rightarrow> bool" where
  "reliable db \<longleftrightarrow> db_link db = []"

definition answers :: "(raw \<Rightarrow> raw option) \<Rightarrow> 'a pgdb_scheme \<Rightarrow> bool" where
  "answers J db \<longleftrightarrow> reliable db \<and> db_jsonb db = J"

lemma answers_reliable: "answers J db \<Longrightarrow> reliable db"
  by (simp add: answers_def)

lemma reliable_answers: "reliable db \<Longrightarrow> answers (db_jsonb db) db"
  by (simp add: answers_def)

named_theorems reliable_rules \<open>calls after which the database still answers\<close>

lemma reliable_sql:
  assumes "\<And>db x db'. act db = (x, db') \<Longrightarrow> db_link db' = db_link db \<and> db_jsonb db' = db_jsonb db"
  shows "keeps (answers J) (sql act)"
  by (rule safeI) (use assms in \<open>fastforce simp: answers_def reliable_def sql_def\<close>)

lemma sql_reliable: "reliable db \<Longrightarrow> sql act db = act db"
  by (simp add: sql_def reliable_def)

lemma query_reliable: "reliable db \<Longrightarrow> query q db = (Inr (q db), db)"
  by (simp add: query_def sql_reliable)

lemma reliable_query [reliable_rules]: "keeps (answers J) (query q)"
  unfolding query_def by (rule reliable_sql) auto

lemma reliable_encrypt [reliable_rules]: "keeps (answers J) (encryptCredentials r c)"
proof -
  have "keeps (answers J) rand_Read" by (rule safeI) (auto simp: rand_Read_def answers_def reliable_def)
  then show ?thesis unfolding encryptCredentials_def Encrypt_ring_def
    by (cases "rp_Encryptor r") (auto intro!: safe_ret safe_andThen safe_wrapErr)
qed

lemma reliable_uniqueAs [reliable_rules]: "keeps (answers J) m \<Longrightarrow> keeps (answers J) (uniqueAs e msg m)"
  unfolding uniqueAs_def by (rule safe_rules TrueI | assumption)+

lemma reliable_statements [reliable_rules]:
  "keeps (answers J) (insert_pipeline ido row)" "keeps (answers J) (update_pipeline i f)" "keeps (answers J) (delete_pipeline i)"
  "keeps (answers J) (insert_run run)" "keeps (answers J) (update_runs P g)"
  unfolding insert_pipeline_def update_pipeline_def delete_pipeline_def insert_run_def update_runs_def
  by (rule reliable_sql, auto simp: insert_row_def update_row_def Let_def split: option.splits if_splits)+

lemma reliable_reads [reliable_rules]:
  "keeps (answers J) (GetPipeline_pg r i)" "keeps (answers J) (ListPipelinesByCustomer_pg r c)"
  "keeps (answers J) (ListPipelineCredentialsByCustomer_pg r c)" "keeps (answers J) (GetPipelineCredentialRenders_pg r c)"
  "keeps (answers J) (GetPipelineDefinitionRenders_pg r c)" "keeps (answers J) (GetConnection_pg r c i)" "keeps (answers J) (GetOAuthClient_pg r c pv)"
  "keeps (answers J) (GetPendingRun_pg r i)"
  unfolding GetPipeline_pg_def ListPipelinesByCustomer_pg_def ListPipelineCredentialsByCustomer_pg_def
    GetPipelineCredentialRenders_pg_def GetPipelineDefinitionRenders_pg_def GetConnection_pg_def GetOAuthClient_pg_def GetPendingRun_pg_def
  by (rule reliable_query safe_rules keeps_lift TrueI)+

lemma reliable_writes [reliable_rules]:
  "keeps (answers J) (CreatePipeline_pg r p)" "keeps (answers J) (UpdatePipeline_pg r p)" "keeps (answers J) (DeletePipeline_pg r i)"
  unfolding CreatePipeline_pg_def UpdatePipeline_pg_def DeletePipeline_pg_def
  by (rule reliable_encrypt reliable_uniqueAs reliable_statements safe_rules TrueI)+

lemma reliable_marks [reliable_rules]:
  "keeps (answers J) (SetPipelineCredentialsExternal_pg r i b)" "keeps (answers J) (DeletePipelineCredentialRender_pg r i)"
  "keeps (answers J) (UpsertPipelineDefinitionRender_pg r dr)" "keeps (answers J) (UpsertPipelineCredentialRender_pg r cr)"
  "keeps (answers J) (ConsumeGoogleOAuthGrant_pg r g c)"
  unfolding SetPipelineCredentialsExternal_pg_def DeletePipelineCredentialRender_pg_def UpsertPipelineDefinitionRender_pg_def
    UpsertPipelineCredentialRender_pg_def ConsumeGoogleOAuthGrant_pg_def
  by (rule safe_rules TrueI reliable_sql | auto simp: Let_def split: if_splits)+

lemma reliable_lifts [reliable_rules]: "keeps (answers J) (check e)" "keeps (answers J) (lift y)" "keeps (answers J) (ret x)" "keeps (answers J) (fail f)"
  by (simp_all add: safe_def)

end
