(* ===== verification/TransformationStore.thy ===== *)
theory TransformationStore
  imports PostgresFrames
begin

section \<open>Transformations: types and store\<close>

text \<open>
  The structs and ports of \<^verbatim>\<open>workspace/transformation.go\<close> and of \<^verbatim>\<open>workspace/transformationmirror.go\<close>, and
  the repository methods of \<^verbatim>\<open>postgres/transformation.go\<close>, \<^verbatim>\<open>postgres/transformation_definition_renders.go\<close> and
  \<^verbatim>\<open>postgres/import.go\<close> as the SQL they run. A transformation says which dbt project to run and when; it may
  be chained to a pipeline, which the schema keeps as a foreign key that is cleared with the pipeline. Counters are
  32-bit integers.
\<close>

subsection \<open>Structs and ports\<close>

record 'w TransformationRepository =
  repo_CreateTransformation :: "Transformation \<Rightarrow> ('w, Transformation) io"
  repo_GetTransformation :: "string \<Rightarrow> ('w, Transformation) io"
  repo_ListTransformationsByCustomer :: "string \<Rightarrow> ('w, Transformation list) io"
  repo_UpdateTransformation :: "Transformation \<Rightarrow> ('w, unit) io"
  repo_DeleteTransformation :: "string \<Rightarrow> ('w, unit) io"
  repo_GetEnabledTransformations :: "string \<Rightarrow> ('w, Transformation list) io"
  repo_CreateTransformationRun :: "TransformationRun \<Rightarrow> ('w, TransformationRun) io"
  repo_UpdateTransformationRun :: "TransformationRun \<Rightarrow> ('w, unit) io"
  repo_ListRecentTransformationRuns :: "string \<Rightarrow> nat \<Rightarrow> ('w, TransformationRun list) io"

record 'w TransformationDefinitionRenderStore =
  UpsertTransformationDefinitionRender :: "TransformationDefinitionRender \<Rightarrow> ('w, unit) io"
  GetTransformationDefinitionRenders :: "string \<Rightarrow> ('w, (string \<times> TransformationDefinitionRender) list) io"
  MarkTransformationDefinitionRefused :: "string \<Rightarrow> string \<Rightarrow> ('w, unit) io"

record 'w TransformationImporter =
  ImportTransformation :: "Transformation \<Rightarrow> ('w, unit) io"

subsection \<open>Statements\<close>

definition find_transformation :: "string \<Rightarrow> 'a pgdb_scheme \<Rightarrow> trow option" where
  "find_transformation i db = find (\<lambda>t. tr_id t = i) (t_transformations db)"

definition takes_tkey :: "trow \<Rightarrow> trow \<Rightarrow> bool" where
  "takes_tkey r s \<longleftrightarrow> tr_id s = tr_id r \<or> tr_customer_slug s = tr_customer_slug r \<and> tr_name s = tr_name r"

text \<open>The foreign key of the trigger.\<close>

definition dangling :: "trow \<Rightarrow> 'a pgdb_scheme \<Rightarrow> bool" where
  "dangling r db \<longleftrightarrow> (case tr_trigger_after_pipeline_id r of None \<Rightarrow> False | Some i \<Rightarrow> find_pipeline i db = None)"

text \<open>Unique indexes are checked as the row goes in, foreign keys at the end of the statement.\<close>

definition insert_transformation :: "string option \<Rightarrow> trow \<Rightarrow> ('a pgdb_scheme, string) io" where
  "insert_transformation ido r = sql (\<lambda>db.
     let i = (case ido of Some i \<Rightarrow> i | None \<Rightarrow> db_gen db (db_next db));
         db1 = (case ido of Some _ \<Rightarrow> db | None \<Rightarrow> db\<lparr>db_next := Suc (db_next db)\<rparr>);
         r' = r\<lparr>tr_id := i\<rparr> in
     if list_ex (takes_tkey r') (t_transformations db) then (Inl ErrUniqueViolation, db1)
     else if dangling r' db then (Inl ErrForeignKeyViolation, db1)
     else (Inr i, db1\<lparr>t_transformations := t_transformations db @ [r']\<rparr>))"

definition update_transformation :: "string \<Rightarrow> (trow \<Rightarrow> trow) \<Rightarrow> ('a pgdb_scheme, nat) io" where
  "update_transformation i f = sql (\<lambda>db.
     case find_transformation i db of
       None \<Rightarrow> (Inr 0, db)
     | Some r \<Rightarrow>
         (if list_ex (\<lambda>s. tr_id s \<noteq> i \<and> takes_tkey (f r) s) (t_transformations db) then (Inl ErrUniqueViolation, db)
          else if dangling (f r) db then (Inl ErrForeignKeyViolation, db)
          else (Inr 1, db\<lparr>t_transformations := map (\<lambda>s. if tr_id s = i then f r else s) (t_transformations db)\<rparr>)))"

definition delete_transformation :: "string \<Rightarrow> ('a pgdb_scheme, nat) io" where
  "delete_transformation i = sql (\<lambda>db.
     if find_transformation i db = None then (Inr 0, db)
     else (Inr 1, db\<lparr>
       t_transformations := filter (\<lambda>t. tr_id t \<noteq> i) (t_transformations db),
       t_transformation_runs := filter (\<lambda>r. tn_TransformationID r \<noteq> i) (t_transformation_runs db),
       t_transformation_renders := filter (\<lambda>r. td_TransformationID r \<noteq> i) (t_transformation_renders db)\<rparr>))"

definition nullUUID :: "string \<Rightarrow> string option" where
  "nullUUID s = (if s = [] then None else Some s)"

definition jsonArrayOrEmpty :: "raw \<Rightarrow> raw" where
  "jsonArrayOrEmpty raw = (if raw = [] then ''[]'' else raw)"

subsection \<open>The repository methods\<close>

definition transformation_columns :: "Transformation \<Rightarrow> string \<Rightarrow> trow \<Rightarrow> trow" where
  "transformation_columns t encCreds r = r\<lparr>
     tr_name := tf_Name t, tr_repo_url := tf_RepoURL t, tr_repo_ref := tf_RepoRef t, tr_git_credentials := encCreds,
     tr_schedule := tf_Schedule t, tr_trigger_after_pipeline_id := nullUUID (tf_TriggerAfterPipelineID t),
     tr_dbt_selector := tf_DBTSelector t, tr_enabled := tf_Enabled t, tr_updated_at := tf_UpdatedAt t\<rparr>"

definition new_trow :: "Transformation \<Rightarrow> string \<Rightarrow> trow" where
  "new_trow t encCreds = transformation_columns t encCreds
     \<lparr>tr_id = [], tr_customer_slug = tf_CustomerSlug t, tr_name = [], tr_repo_url = [], tr_repo_ref = [],
      tr_git_credentials = [], tr_schedule = [], tr_trigger_after_pipeline_id = None, tr_dbt_selector = [],
      tr_enabled = False, tr_created_at = tf_CreatedAt t, tr_updated_at = 0\<rparr>"

definition CreateTransformation_pg :: "Repository \<Rightarrow> Transformation \<Rightarrow> ('a pgdb_scheme, Transformation) io" where
  "CreateTransformation_pg r t =
     andThen (wrapErr ''postgres: encrypt credentials'' (encryptCredentials r (tf_GitCredentials t))) (\<lambda>encCreds.
     andThen (uniqueAs ErrTransformationAlreadyExists ''postgres: create transformation''
       (insert_transformation None (new_trow t encCreds))) (\<lambda>i. ret (t\<lparr>tf_ID := i\<rparr>)))"

text \<open>A row scanned into the struct, without its credentials; a NULL trigger is the empty id.\<close>

definition scan_transformation :: "trow \<Rightarrow> Transformation" where
  "scan_transformation r =
     \<lparr>tf_ID = tr_id r, tf_CustomerSlug = tr_customer_slug r, tf_Name = tr_name r, tf_RepoURL = tr_repo_url r,
      tf_RepoRef = tr_repo_ref r, tf_GitCredentials = [], tf_Schedule = tr_schedule r,
      tf_TriggerAfterPipelineID = (case tr_trigger_after_pipeline_id r of None \<Rightarrow> [] | Some i \<Rightarrow> i),
      tf_DBTSelector = tr_dbt_selector r, tf_Enabled = tr_enabled r, tf_CreatedAt = tr_created_at r,
      tf_UpdatedAt = tr_updated_at r, tf_TriggerNow = False, tf_PendingRunID = [], tf_LastRunAt = None,
      tf_LastRunTime = None, tf_LastRunStatus = []\<rparr>"

definition GetTransformation_pg :: "Repository \<Rightarrow> string \<Rightarrow> ('a pgdb_scheme, Transformation) io" where
  "GetTransformation_pg r i =
     andThen (wrapErr ''postgres: get transformation'' (query (find_transformation i))) (\<lambda>row.
     case row of
       None \<Rightarrow> fail ErrTransformationNotFound
     | Some s \<Rightarrow>
         andThen (wrapErr ''postgres: decrypt credentials'' (lift (decryptCredentials r (tr_git_credentials s))))
           (\<lambda>creds. ret ((scan_transformation s)\<lparr>tf_GitCredentials := creds\<rparr>)))"

definition truns_of :: "string \<Rightarrow> 'a pgdb_scheme \<Rightarrow> TransformationRun list" where
  "truns_of i db = filter (\<lambda>r. tn_TransformationID r = i) (t_transformation_runs db)"

definition truns_desc :: "TransformationRun list \<Rightarrow> TransformationRun list" where
  "truns_desc rs = sort_key (\<lambda>r. - tn_CreatedAt r) rs"

definition customer_trows :: "string \<Rightarrow> 'a pgdb_scheme \<Rightarrow> trow list" where
  "customer_trows customerSlug db = sort_key tr_created_at (filter (\<lambda>r. tr_customer_slug r = customerSlug) (t_transformations db))"

definition tlist_view :: "'a pgdb_scheme \<Rightarrow> trow \<Rightarrow> Transformation" where
  "tlist_view db row =
     (case truns_desc (truns_of (tr_id row) db) of
        [] \<Rightarrow> scan_transformation row
      | run # _ \<Rightarrow> (scan_transformation row)\<lparr>
          tf_LastRunTime := Some (case tn_StartedAt run of Some t \<Rightarrow> t | None \<Rightarrow> tn_CreatedAt run),
          tf_LastRunStatus := tn_Status run\<rparr>)"

definition ListTransformationsByCustomer_pg :: "Repository \<Rightarrow> string \<Rightarrow> ('a pgdb_scheme, Transformation list) io" where
  "ListTransformationsByCustomer_pg r customerSlug =
     wrapErr ''postgres: list transformations'' (query (\<lambda>db. map (tlist_view db) (customer_trows customerSlug db)))"

definition UpdateTransformation_pg :: "Repository \<Rightarrow> Transformation \<Rightarrow> ('a pgdb_scheme, unit) io" where
  "UpdateTransformation_pg r t =
     andThen (wrapErr ''postgres: encrypt credentials'' (encryptCredentials r (tf_GitCredentials t))) (\<lambda>encCreds.
     andThen (uniqueAs ErrTransformationAlreadyExists ''postgres: update transformation''
       (update_transformation (tf_ID t) (transformation_columns t encCreds))) (\<lambda>n.
     if n = 0 then fail ErrTransformationNotFound else ret ()))"

definition DeleteTransformation_pg :: "Repository \<Rightarrow> string \<Rightarrow> ('a pgdb_scheme, unit) io" where
  "DeleteTransformation_pg r i =
     andThen (wrapErr ''postgres: delete transformation'' (delete_transformation i)) (\<lambda>n.
     if n = 0 then fail ErrTransformationNotFound else ret ())"

text \<open>The oldest pending and the newest successful run, as the two lateral joins select them.\<close>

definition pending_trun :: "string \<Rightarrow> 'a pgdb_scheme \<Rightarrow> string" where
  "pending_trun i db =
     (case sort_key tn_CreatedAt (filter (\<lambda>r. tn_Status r = ''pending'') (truns_of i db)) of [] \<Rightarrow> [] | run # _ \<Rightarrow> tn_ID run)"

definition last_tsuccess :: "string \<Rightarrow> 'a pgdb_scheme \<Rightarrow> int option" where
  "last_tsuccess i db =
     (case truns_desc (filter (\<lambda>r. tn_Status r = ''success'') (truns_of i db)) of [] \<Rightarrow> None | run # _ \<Rightarrow> Some (tn_CreatedAt run))"

fun scan_tenabled :: "Repository \<Rightarrow> (trow \<times> string \<times> int option) list \<Rightarrow> err + Transformation list" where
  "scan_tenabled r [] = Inr []"
| "scan_tenabled r ((row, pending, lastRun) # rows) =
     (case decryptCredentials r (tr_git_credentials row) of
        Inl e \<Rightarrow> Inl (Errorf ''postgres: decrypt credentials for transformation'' e)
      | Inr c \<Rightarrow>
          (case scan_tenabled r rows of
             Inl e \<Rightarrow> Inl e
           | Inr ts \<Rightarrow> Inr ((scan_transformation row)\<lparr>tf_GitCredentials := c, tf_PendingRunID := pending,
               tf_TriggerNow := pending \<noteq> [], tf_LastRunAt := lastRun\<rparr> # ts)))"

definition GetEnabledTransformations_pg :: "Repository \<Rightarrow> string \<Rightarrow> ('a pgdb_scheme, Transformation list) io" where
  "GetEnabledTransformations_pg r customerSlug =
     andThen (wrapErr ''postgres: get enabled transformations'' (query (\<lambda>db.
       map (\<lambda>row. (row, pending_trun (tr_id row) db, last_tsuccess (tr_id row) db)) (filter tr_enabled (customer_trows customerSlug db)))))
     (\<lambda>rows. lift (scan_tenabled r rows))"

definition insert_trun :: "TransformationRun \<Rightarrow> ('a pgdb_scheme, string) io" where
  "insert_trun run = sql (\<lambda>db.
     let i = (if tn_ID run = [] then db_gen db (db_next db) else tn_ID run);
         db1 = (if tn_ID run = [] then db\<lparr>db_next := Suc (db_next db)\<rparr> else db) in
     case db_jsonb db (jsonArrayOrEmpty (tn_ModelResults run)) of
       None \<Rightarrow> (Inl ErrInvalidText, db1)
     | Some j \<Rightarrow>
         (if list_ex (\<lambda>s. tn_ID s = i) (t_transformation_runs db) then (Inl ErrUniqueViolation, db1)
          else if find_transformation (tn_TransformationID run) db = None then (Inl ErrForeignKeyViolation, db1)
          else (Inr i, db1\<lparr>t_transformation_runs := t_transformation_runs db @ [run\<lparr>tn_ID := i, tn_ModelResults := j\<rparr>]\<rparr>)))"

definition CreateTransformationRun_pg :: "Repository \<Rightarrow> TransformationRun \<Rightarrow> ('a pgdb_scheme, TransformationRun) io" where
  "CreateTransformationRun_pg r run db =
     (let run' = (if tn_CreatedAt run = 0 then run\<lparr>tn_CreatedAt := db_now db\<rparr> else run) in
      andThen (wrapErr ''postgres: create transformation run'' (insert_trun run')) (\<lambda>i. ret (run'\<lparr>tn_ID := i\<rparr>)) db)"

definition UpdateTransformationRun_pg :: "Repository \<Rightarrow> TransformationRun \<Rightarrow> ('a pgdb_scheme, unit) io" where
  "UpdateTransformationRun_pg r run =
     andThen (wrapErr ''postgres: update transformation run'' (sql (\<lambda>db.
       let P = (\<lambda>s. tn_ID s = tn_ID run \<and> tn_TransformationID s = tn_TransformationID run) in
       case db_jsonb db (jsonArrayOrEmpty (tn_ModelResults run)) of
         None \<Rightarrow> (Inl ErrInvalidText, db)
       | Some j \<Rightarrow>
           (Inr (length (filter P (t_transformation_runs db))),
            db\<lparr>t_transformation_runs := map (\<lambda>s. if P s then s\<lparr>tn_Status := tn_Status run,
                tn_StartedAt := coalesce (tn_StartedAt run) (tn_StartedAt s),
                tn_CompletedAt := coalesce (tn_CompletedAt run) (tn_CompletedAt s), tn_CommitSHA := tn_CommitSHA run,
                tn_ModelsTotal := tn_ModelsTotal run, tn_ModelsFailed := tn_ModelsFailed run, tn_TestsTotal := tn_TestsTotal run,
                tn_TestsFailed := tn_TestsFailed run, tn_ModelResults := j, tn_ErrorMessage := tn_ErrorMessage run\<rparr> else s)
              (t_transformation_runs db)\<rparr>)))) (\<lambda>n.
     if n = 0 then fail ErrTransformationRunNotFound else ret ())"

definition ListRecentTransformationRuns_pg :: "Repository \<Rightarrow> string \<Rightarrow> nat \<Rightarrow> ('a pgdb_scheme, TransformationRun list) io" where
  "ListRecentTransformationRuns_pg r i limit =
     wrapErr ''postgres: list recent transformation runs'' (query (\<lambda>db. take limit (truns_desc (truns_of i db))))"

definition UpsertTransformationDefinitionRender_pg :: "Repository \<Rightarrow> TransformationDefinitionRender \<Rightarrow> ('a pgdb_scheme, unit) io" where
  "UpsertTransformationDefinitionRender_pg r render =
     wrapErr ''postgres: upsert transformation definition render'' (sql (\<lambda>db.
       let d = render\<lparr>td_RefusedBlobSHA := []\<rparr> in
       if find_transformation (td_TransformationID render) db = None then (Inl ErrForeignKeyViolation, db)
       else if list_ex (\<lambda>s. td_TransformationID s = td_TransformationID render) (t_transformation_renders db)
       then (Inr (), db\<lparr>t_transformation_renders :=
         map (\<lambda>s. if td_TransformationID s = td_TransformationID render then d else s) (t_transformation_renders db)\<rparr>)
       else (Inr (), db\<lparr>t_transformation_renders := t_transformation_renders db @ [d]\<rparr>)))"

definition GetTransformationDefinitionRenders_pg ::
  "Repository \<Rightarrow> string \<Rightarrow> ('a pgdb_scheme, (string \<times> TransformationDefinitionRender) list) io" where
  "GetTransformationDefinitionRenders_pg r customerSlug =
     wrapErr ''postgres: get transformation definition renders'' (query (\<lambda>db.
       map (\<lambda>s. (td_TransformationID s, s)) (filter (\<lambda>s.
         case find_transformation (td_TransformationID s) db of None \<Rightarrow> False | Some t \<Rightarrow> tr_customer_slug t = customerSlug)
         (t_transformation_renders db))))"

definition MarkTransformationDefinitionRefused_pg :: "Repository \<Rightarrow> string \<Rightarrow> string \<Rightarrow> ('a pgdb_scheme, unit) io" where
  "MarkTransformationDefinitionRefused_pg r i refusedSHA =
     wrapErr ''postgres: mark transformation definition refused'' (sql (\<lambda>db.
       (Inr (), db\<lparr>t_transformation_renders :=
          map (\<lambda>s. if td_TransformationID s = i then s\<lparr>td_RefusedBlobSHA := refusedSHA\<rparr> else s) (t_transformation_renders db)\<rparr>)))"

definition ImportTransformation_pg :: "Repository \<Rightarrow> Transformation \<Rightarrow> ('a pgdb_scheme, unit) io" where
  "ImportTransformation_pg r t =
     andThen (wrapErr ''postgres: encrypt credentials'' (encryptCredentials r (emptyJSONObject (tf_GitCredentials t)))) (\<lambda>encCreds.
     andThen (uniqueAs ErrTransformationAlreadyExists ''postgres: import transformation''
       (insert_transformation (Some (tf_ID t)) (new_trow t encCreds))) (\<lambda>_. ret ()))"

subsection \<open>The wired ports\<close>

definition pg_trepo :: "Repository \<Rightarrow> 'a pgdb_scheme TransformationRepository" where
  "pg_trepo r =
     \<lparr>repo_CreateTransformation = CreateTransformation_pg r, repo_GetTransformation = GetTransformation_pg r,
      repo_ListTransformationsByCustomer = ListTransformationsByCustomer_pg r, repo_UpdateTransformation = UpdateTransformation_pg r,
      repo_DeleteTransformation = DeleteTransformation_pg r, repo_GetEnabledTransformations = GetEnabledTransformations_pg r,
      repo_CreateTransformationRun = CreateTransformationRun_pg r, repo_UpdateTransformationRun = UpdateTransformationRun_pg r,
      repo_ListRecentTransformationRuns = ListRecentTransformationRuns_pg r\<rparr>"

definition pg_trenders :: "Repository \<Rightarrow> 'a pgdb_scheme TransformationDefinitionRenderStore" where
  "pg_trenders r = \<lparr>UpsertTransformationDefinitionRender = UpsertTransformationDefinitionRender_pg r,
     GetTransformationDefinitionRenders = GetTransformationDefinitionRenders_pg r,
     MarkTransformationDefinitionRefused = MarkTransformationDefinitionRefused_pg r\<rparr>"

definition pg_timporter :: "Repository \<Rightarrow> 'a pgdb_scheme TransformationImporter" where
  "pg_timporter r = \<lparr>ImportTransformation = ImportTransformation_pg r\<rparr>"

end
