(* ===== verification/TransformationLaws.thy ===== *)
theory TransformationLaws
  imports TransformationStore
begin

section \<open>What the two planes keep of each other\<close>

text \<open>
  The transformations live beside the pipelines: a trigger names a pipeline, and a deleted pipeline clears the
  triggers that name it. The schema knows the foreign key only; that a transformation is chained to a pipeline
  of its own workspace (\<open>chained\<close>) is up to the code. \<open>tenant c F G\<close> is the invariant of a box for both planes:
  the schema holds, no trigger crosses workspaces, and the rows of the other tenants are \<open>F\<close> and \<open>G\<close>. Every
  statement of the repository keeps it when it writes for workspace \<open>c\<close>.
\<close>

definition owner :: "'a pgdb_scheme \<Rightarrow> string \<Rightarrow> string option" where
  "owner db i = map_option pr_customer_slug (find_pipeline i db)"

definition chained :: "'a pgdb_scheme \<Rightarrow> bool" where
  "chained db \<longleftrightarrow> (\<forall>t \<in> set (t_transformations db). \<forall>i. tr_trigger_after_pipeline_id t = Some i \<longrightarrow> owner db i = Some (tr_customer_slug t))"

definition td_ok :: "'a pgdb_scheme \<Rightarrow> bool" where
  "td_ok db \<longleftrightarrow>
     distinct (map tr_id (t_transformations db)) \<and>
     distinct (map (\<lambda>t. (tr_customer_slug t, tr_name t)) (t_transformations db)) \<and>
     distinct (map tn_ID (t_transformation_runs db)) \<and>
     distinct (map td_TransformationID (t_transformation_renders db)) \<and>
     tn_TransformationID ` set (t_transformation_runs db) \<subseteq> tr_id ` set (t_transformations db) \<and>
     td_TransformationID ` set (t_transformation_renders db) \<subseteq> tr_id ` set (t_transformations db)"

definition strangers :: "string \<Rightarrow> 'a pgdb_scheme \<Rightarrow> trow set" where
  "strangers c db = {t \<in> set (t_transformations db). tr_customer_slug t \<noteq> c}"

definition tenant :: "string \<Rightarrow> (string \<times> prow) set \<Rightarrow> trow set \<Rightarrow> 'a pgdb_scheme \<Rightarrow> bool" where
  "tenant c F G db \<longleftrightarrow> pg.within c F db \<and> td_ok db \<and> chained db \<and> strangers c db = G"

lemma td_ok_tplane: "tplane db' = tplane db \<Longrightarrow> td_ok db' = td_ok db"
  by (simp add: tplane_def td_ok_def)

lemma strangers_tplane: "tplane db' = tplane db \<Longrightarrow> strangers c db' = strangers c db"
  by (simp add: tplane_def strangers_def)

lemma owner_rows: "t_pipelines db' = t_pipelines db \<Longrightarrow> owner db' = owner db"
  by (simp add: owner_def find_pipeline_def fun_eq_iff)

lemma owner_not_foreign: "pg.within c F db \<Longrightarrow> owner db i = Some s \<Longrightarrow> i \<notin> fst ` F \<longleftrightarrow> s = c"
  using pg.not_foreign [of i c db] by (auto simp: pg.within_def owner_def)

subsection \<open>The pipelines' side\<close>

text \<open>\<open>steady\<close>: the transformations stay, and every pipeline keeps its row and its owner.\<close>

named_theorems steady_rules \<open>calls that leave the transformations and the owners of pipelines alone\<close>

definition steady :: "('a pgdb_scheme, 'x) io \<Rightarrow> bool" where
  "steady m \<longleftrightarrow> (\<forall>w x w'. m w = (x, w') \<longrightarrow> tplane w' = tplane w \<and> (\<forall>i s. owner w i = Some s \<longrightarrow> owner w' i = Some s))"

lemma steadyI:
  "(\<And>w x w'. m w = (x, w') \<Longrightarrow> tplane w' = tplane w \<and> (\<forall>i s. owner w i = Some s \<longrightarrow> owner w' i = Some s)) \<Longrightarrow> steady m"
  by (simp add: steady_def)

lemma steadyD: "steady m \<Longrightarrow> m w = (x, w') \<Longrightarrow> tplane w' = tplane w \<and> (\<forall>i s. owner w i = Some s \<longrightarrow> owner w' i = Some s)"
  by (simp add: steady_def)

lemma quiet_steady: "quiet m \<Longrightarrow> steady m"
  by (rule steadyI) (metis quietD owner_rows)

lemma steady_andThen [steady_rules]:
  assumes "steady m" "\<And>x. steady (f x)"
  shows "steady (andThen m f)"
proof (rule steadyI)
  fix w x w' assume eq: "andThen m f w = (x, w')"
  obtain r w1 where m: "m w = (r, w1)" by fastforce
  show "tplane w' = tplane w \<and> (\<forall>i s. owner w i = Some s \<longrightarrow> owner w' i = Some s)"
    using steadyD [OF assms(1) m] steadyD [OF assms(2)] eq m by (cases r) (auto simp: andThen_def)
qed

lemma steady_wrapErr [steady_rules]: "steady m \<Longrightarrow> steady (wrapErr msg m)"
  by (auto simp: steady_def wrapErr_def split: prod.splits sum.splits)

lemma steady_uniqueAs [steady_rules]: "steady m \<Longrightarrow> steady (uniqueAs e msg m)"
  by (auto simp: steady_def uniqueAs_def attempt_def ret_def fail_def split: prod.splits sum.splits if_splits)

lemma steady_if [steady_rules]: "steady m \<Longrightarrow> steady m' \<Longrightarrow> steady (if b then m else m')"
  by simp

lemma owner_snap: "snap db' = snap db \<Longrightarrow> owner db' = owner db"
  by (rule owner_rows) (rule snap_fields(1))

lemma snap_steady: "snap w' = snap w \<Longrightarrow> tplane w' = tplane w \<and> (\<forall>i s. owner w i = Some s \<longrightarrow> owner w' i = Some s)"
  using tplane_snap [of w' w] owner_snap [of w' w] by simp

lemma find_append_Some: "find P xs = Some z \<Longrightarrow> find P (xs @ ys) = Some z"
  by (induction xs) auto

lemma insert_pipeline_steady [steady_rules]: "steady (insert_pipeline ido r)"
proof (rule steadyI)
  fix w x and w' :: "'a pgdb_scheme"
  assume i: "insert_pipeline ido r w = (x, w')"
  show "tplane w' = tplane w \<and> (\<forall>j s. owner w j = Some s \<longrightarrow> owner w' j = Some s)"
  proof (cases x)
    case (Inl e)
    then have "snap w' = snap w" using i insert_pipeline_Inl by blast
    then show ?thesis by (rule snap_steady)
  next
    case (Inr k)
    from i [unfolded Inr] obtain r' where s: "snap w' = snap (w\<lparr>t_pipelines := t_pipelines w @ [r']\<rparr>)"
      by (rule insert_pipeline_Inr)
    have "t_pipelines w' = t_pipelines w @ [r']" using snap_fields(1) [OF s] by simp
    then have "owner w' j = Some s" if "owner w j = Some s" for j s
      using that by (auto simp: owner_def find_pipeline_def find_append_Some)
    moreover have "tplane w' = tplane w" using tplane_snap [OF s] by simp
    ultimately show ?thesis by blast
  qed
qed

lemma UpdatePipeline_steady: "steady (UpdatePipeline_pg r p)"
proof (rule steadyI)
  fix w x and w' :: "'a pgdb_scheme"
  assume u: "UpdatePipeline_pg r p w = (x, w')"
  obtain enc db1 y where 1: "snap db1 = snap w" "update_pipeline (p_ID p) (pipeline_columns p enc) db1 = (y, w')"
    using u by (rule UpdatePipeline_cases)
  have "tplane w' = tplane db1" using 1(2)
  proof (cases rule: update_pipeline_cases)
    case (hit s c s')
    then show ?thesis using tplane_snap [OF hit(6)] by simp
  qed (auto dest: tplane_snap)
  moreover have "owner w' j = owner w j" for j
    using UpdatePipeline_rows(1,2) [OF u] by (cases "j = p_ID p") (auto simp: owner_def)
  ultimately show "tplane w' = tplane w \<and> (\<forall>i s. owner w i = Some s \<longrightarrow> owner w' i = Some s)"
    using tplane_snap [OF 1(1)] by simp
qed

lemma SetExternal_steady: "steady (SetPipelineCredentialsExternal_pg r i b)"
proof (rule steadyI)
  fix w x and w' :: "'a pgdb_scheme"
  assume "SetPipelineCredentialsExternal_pg r i b w = (x, w')"
  then consider "snap w' = snap w" | "snap w' = snap (w\<lparr>t_pipelines := map (mark_row i b) (t_pipelines w)\<rparr>)"
    using SetExternal_rows by blast
  then show "tplane w' = tplane w \<and> (\<forall>j s. owner w j = Some s \<longrightarrow> owner w' j = Some s)"
  proof cases
    case 1
    then show ?thesis by (rule snap_steady)
  next
    case 2
    have "owner w' j = owner w j" for j
      using snap_fields(1) [OF 2] by (simp add: owner_def find_pipeline_def find_mark option.map_comp comp_def)
    then show ?thesis using tplane_snap [OF 2] by simp
  qed
qed

lemma pipeline_writes_steady:
  "steady (CreatePipeline_pg r p)" "steady (ImportPipeline_pg r p)"
  unfolding CreatePipeline_pg_def ImportPipeline_pg_def
  by (intro steady_rules quiet_steady [OF quiet_encrypt] quiet_steady [OF quiet_ret])+

lemma tenant_steady:
  assumes "safe (pg.within c F) m Q" "steady m"
  shows "safe (tenant c F G) m Q"
proof (rule safeI)
  fix w x w' assume I: "tenant c F G w" and m: "m w = (x, w')"
  then have "pg.within c F w'" "\<forall>v. x = Inr v \<longrightarrow> Q v" using assms(1) by (auto simp: tenant_def safe_def)
  moreover have s: "tplane w' = tplane w" "\<forall>i s. owner w i = Some s \<longrightarrow> owner w' i = Some s" using steadyD [OF assms(2) m] by auto
  moreover have "chained w'" using I s by (simp add: tenant_def chained_def tplane_def)
  ultimately show "tenant c F G w' \<and> (\<forall>v. x = Inr v \<longrightarrow> Q v)"
    using I td_ok_tplane [OF s(1)] strangers_tplane [OF s(1)] by (simp add: tenant_def)
qed

lemma quiet_tenant: "quiet m \<Longrightarrow> keeps (tenant c F G) m"
  by (rule tenant_steady [OF quiet_within quiet_steady])

text \<open>A deleted pipeline of the workspace clears triggers of the workspace's own transformations only.\<close>

definition untriggered :: "string \<Rightarrow> trow \<Rightarrow> trow" where
  "untriggered i t = (if tr_trigger_after_pipeline_id t = Some i then t\<lparr>tr_trigger_after_pipeline_id := None\<rparr> else t)"

lemma untriggered_key [simp]:
  "tr_id (untriggered i t) = tr_id t" "tr_customer_slug (untriggered i t) = tr_customer_slug t" "tr_name (untriggered i t) = tr_name t"
  by (simp_all add: untriggered_def)

lemma Delete_tables:
  assumes "DeletePipeline_pg r i w = (x, w')"
  shows "tplane w' = tplane w \<and> t_pipelines w' = t_pipelines w \<or>
    tplane w' = (map (untriggered i) (t_transformations w), t_transformation_runs w, t_transformation_renders w) \<and>
    t_pipelines w' = filter (\<lambda>r. pr_id r \<noteq> i) (t_pipelines w)"
proof -
  from assms obtain y where "delete_pipeline i w = (y, w')"
    by (auto simp: DeletePipeline_pg_def andThen_def wrapErr_def ret_def fail_def split: prod.splits sum.splits if_splits)
  then show ?thesis unfolding delete_pipeline_def
    by (cases rule: sqlE) (auto simp: tplane_def untriggered_def split: if_splits)
qed

lemma find_filter_other: "j \<noteq> i \<Longrightarrow> find (\<lambda>r. key r = j) (filter (\<lambda>r. key r \<noteq> i) xs) = find (\<lambda>r. key r = j) xs"
  by (induction xs) auto

lemma tenant_delete:
  assumes "i \<notin> fst ` F"
  shows "keeps (tenant c F G) (DeletePipeline_pg r i)"
proof (rule safeI, intro conjI)
  fix w x and w' :: "'a pgdb_scheme"
  assume I: "tenant c F G w" and d: "DeletePipeline_pg r i w = (x, w')"
  have k: "keeps (pg.within c F) (DeletePipeline_pg r i)" using pg.within_delete [OF assms, of c r] by (simp add: pg_repo_def)
  have "pg.within c F w" using I by (simp add: tenant_def)
  then have W: "pg.within c F w'" using safeD [OF k] d by blast
  have own: "tr_customer_slug t = c" if "t \<in> set (t_transformations w)" "tr_trigger_after_pipeline_id t = Some i" for t
    using I that assms owner_not_foreign [of c F w i] by (auto simp: tenant_def chained_def)
  from Delete_tables [OF d] show "tenant c F G w'"
  proof (elim disjE conjE)
    assume t: "tplane w' = tplane w" and p: "t_pipelines w' = t_pipelines w"
    show ?thesis using I W t owner_rows [OF p] td_ok_tplane [OF t] strangers_tplane [OF t] by (simp add: tenant_def chained_def tplane_def)
  next
    assume t: "tplane w' = (map (untriggered i) (t_transformations w), t_transformation_runs w, t_transformation_renders w)"
      and p: "t_pipelines w' = filter (\<lambda>r. pr_id r \<noteq> i) (t_pipelines w)"
    have o: "owner w' j = owner w j" if "j \<noteq> i" for j using that p by (simp add: owner_def find_pipeline_def find_filter_other)
    have "td_ok w'" using I t by (simp add: tenant_def td_ok_def tplane_def comp_def image_image)
    moreover have "chained w'"
      using I t o by (auto simp: tenant_def chained_def tplane_def untriggered_def split: if_splits)
    moreover have "strangers c w' = strangers c w"
      using t own by (force simp: strangers_def tplane_def untriggered_def image_iff)
    ultimately show ?thesis using I W by (simp add: tenant_def)
  qed
qed simp

subsection \<open>The transformations' side\<close>

text \<open>\<open>tquiet\<close>: pipelines and transformations stay and the keys hold; what the runs and the rendered files need.\<close>

named_theorems tquiet_rules \<open>calls that leave pipelines and transformations alone\<close>

definition tquiet :: "('a pgdb_scheme, 'x) io \<Rightarrow> bool" where
  "tquiet m \<longleftrightarrow> (\<forall>w x w'. m w = (x, w') \<longrightarrow> t_pipelines w' = t_pipelines w \<and> t_transformations w' = t_transformations w \<and>
     (pg_ok w \<longrightarrow> pg_ok w') \<and> (td_ok w \<longrightarrow> td_ok w'))"

lemma tquietI:
  "(\<And>w x w'. m w = (x, w') \<Longrightarrow> t_pipelines w' = t_pipelines w \<and> t_transformations w' = t_transformations w \<and>
     (pg_ok w \<longrightarrow> pg_ok w') \<and> (td_ok w \<longrightarrow> td_ok w')) \<Longrightarrow> tquiet m"
  by (simp add: tquiet_def)

lemma tquietD: "tquiet m \<Longrightarrow> m w = (x, w') \<Longrightarrow> t_pipelines w' = t_pipelines w \<and> t_transformations w' = t_transformations w \<and>
     (pg_ok w \<longrightarrow> pg_ok w') \<and> (td_ok w \<longrightarrow> td_ok w')"
  by (simp add: tquiet_def)

lemma tquiet_tenant:
  assumes "tquiet m"
  shows "keeps (tenant c F G) m"
proof (rule safeI, intro conjI)
  fix w x w' assume I: "tenant c F G w" and m: "m w = (x, w')"
  note q = tquietD [OF assms m]
  have "pg.within c F w'" using I q pg.foreign_cong [OF pg_row_tables, of w' w c] by (simp add: tenant_def pg.within_def)
  then show "tenant c F G w'" using I q owner_rows [of w' w] by (simp add: tenant_def chained_def strangers_def)
qed simp

lemma quiet_tquiet: "quiet m \<Longrightarrow> tquiet m"
proof (rule tquietI)
  fix w x w' assume "quiet m" "m w = (x, w')"
  note q = quietD [OF this]
  then have "td_ok w' = td_ok w" by (intro td_ok_tplane) simp
  with q show "t_pipelines w' = t_pipelines w \<and> t_transformations w' = t_transformations w \<and> (pg_ok w \<longrightarrow> pg_ok w') \<and> (td_ok w \<longrightarrow> td_ok w')"
    by (simp add: tplane_def)
qed

lemma tquiet_andThen [tquiet_rules]:
  assumes "tquiet m" "\<And>x. quiet (f x)"
  shows "tquiet (andThen m f)"
proof (rule tquietI)
  fix w x w' assume eq: "andThen m f w = (x, w')"
  obtain r w1 where m: "m w = (r, w1)" by fastforce
  show "t_pipelines w' = t_pipelines w \<and> t_transformations w' = t_transformations w \<and> (pg_ok w \<longrightarrow> pg_ok w') \<and> (td_ok w \<longrightarrow> td_ok w')"
    using tquietD [OF assms(1) m] tquietD [OF quiet_tquiet [OF assms(2)]] eq m by (cases r) (auto simp: andThen_def)
qed

lemma tquiet_wrapErr [tquiet_rules]: "tquiet m \<Longrightarrow> tquiet (wrapErr msg m)"
  by (auto simp: tquiet_def wrapErr_def split: prod.splits sum.splits)

lemma tquiet_sql:
  assumes "\<And>db x db'. act db = (x, db') \<Longrightarrow> t_pipelines db' = t_pipelines db \<and> t_transformations db' = t_transformations db \<and>
    (pg_ok db \<longrightarrow> pg_ok db') \<and> (td_ok db \<longrightarrow> td_ok db')"
  shows "tquiet (sql act)"
proof (rule tquietI)
  fix w x w' assume "sql act w = (x, w')"
  then show "t_pipelines w' = t_pipelines w \<and> t_transformations w' = t_transformations w \<and> (pg_ok w \<longrightarrow> pg_ok w') \<and> (td_ok w \<longrightarrow> td_ok w')"
  proof (cases rule: sqlE)
    case (down ls)
    then show ?thesis using pg_ok_snap [of w' w] by (simp add: td_ok_def)
  next
    case (up ls)
    have "pg_ok (w\<lparr>db_link := ls\<rparr>) = pg_ok w" "td_ok (w\<lparr>db_link := ls\<rparr>) = td_ok w" by (simp_all add: pg_ok_def td_ok_def)
    then show ?thesis using assms [OF up] by simp
  qed
qed

lemma td_ok_runs:
  "td_ok db \<Longrightarrow> distinct (map tn_ID rs) \<Longrightarrow> tn_TransformationID ` set rs \<subseteq> tr_id ` set (t_transformations db) \<Longrightarrow>
   td_ok (db\<lparr>t_transformation_runs := rs\<rparr>)"
  by (simp add: td_ok_def)

lemma td_ok_renders:
  "td_ok db \<Longrightarrow> distinct (map td_TransformationID rs) \<Longrightarrow> td_TransformationID ` set rs \<subseteq> tr_id ` set (t_transformations db) \<Longrightarrow>
   td_ok (db\<lparr>t_transformation_renders := rs\<rparr>)"
  by (simp add: td_ok_def)

lemma td_ok_upd [simp]:
  "td_ok (db_link_update a db) = td_ok db" "td_ok (db_next_update b db) = td_ok db" "td_ok (db_now_update d db) = td_ok db"
  by (simp_all add: td_ok_def)

lemma pg_ok_tables [simp]:
  "pg_ok (t_transformation_runs_update f db) = pg_ok db" "pg_ok (t_transformation_renders_update g db) = pg_ok db"
  "pg_ok (db_next_update b db) = pg_ok db"
  by (simp_all add: pg_ok_def)

lemma find_transformation_None: "find_transformation i db = None \<longleftrightarrow> i \<notin> tr_id ` set (t_transformations db)"
  by (auto simp: find_transformation_def find_None_iff)

lemma find_transformation_Some: "find_transformation i db = Some t \<Longrightarrow> t \<in> set (t_transformations db) \<and> tr_id t = i"
  unfolding find_transformation_def by (auto simp: find_Some_iff)

lemma insert_trun_tquiet: "tquiet (insert_trun run)"
  unfolding insert_trun_def
  by (rule tquiet_sql) (auto simp: Let_def find_transformation_None list_ex_iff td_ok_def split: option.splits if_splits)

lemma CreateTransformationRun_tquiet: "tquiet (CreateTransformationRun_pg r run)"
  by (rule tquietI) (auto simp: CreateTransformationRun_pg_def Let_def
      dest: tquietD [OF tquiet_andThen [OF tquiet_wrapErr [OF insert_trun_tquiet] quiet_ret]])

lemma td_ok_map_runs:
  "td_ok db \<Longrightarrow> (\<And>s. tn_ID (g s) = tn_ID s \<and> tn_TransformationID (g s) = tn_TransformationID s) \<Longrightarrow>
   td_ok (db\<lparr>t_transformation_runs := map g (t_transformation_runs db)\<rparr>)"
  by (simp add: td_ok_def comp_def image_image)

lemma UpdateTransformationRun_tquiet: "tquiet (UpdateTransformationRun_pg r run)"
  unfolding UpdateTransformationRun_pg_def Let_def
  by (intro tquiet_rules quiet_rules tquiet_sql) (auto intro!: td_ok_map_runs split: option.splits)

lemma UpsertTransformationDefinitionRender_tquiet: "tquiet (UpsertTransformationDefinitionRender_pg r d)"
proof -
  let ?d = "d\<lparr>td_RefusedBlobSHA := []\<rparr>"
  have act: "UpsertTransformationDefinitionRender_pg r d = wrapErr ''postgres: upsert transformation definition render'' (sql (\<lambda>db.
      if find_transformation (td_TransformationID d) db = None then (Inl ErrForeignKeyViolation, db)
      else (Inr (), db\<lparr>t_transformation_renders := upserted td_TransformationID ?d (t_transformation_renders db)\<rparr>)))"
    unfolding UpsertTransformationDefinitionRender_pg_def upserted_def Let_def
    by (intro arg_cong2 [where f = wrapErr] arg_cong [where f = sql] ext) simp_all
  have "td_ok (db\<lparr>t_transformation_renders := upserted td_TransformationID ?d (t_transformation_renders db)\<rparr>)"
    if "td_ok db" "find_transformation (td_TransformationID d) db \<noteq> None" for db :: "'a pgdb_scheme"
    using that by (intro td_ok_renders upserted_distinct upserted_keys) (auto simp: find_transformation_None td_ok_def)
  then show ?thesis unfolding act by (intro tquiet_wrapErr tquiet_sql) (auto split: if_splits)
qed

lemma MarkTransformationDefinitionRefused_tquiet: "tquiet (MarkTransformationDefinitionRefused_pg r i sha)"
  unfolding MarkTransformationDefinitionRefused_pg_def
  by (intro tquiet_rules tquiet_sql) (auto simp: td_ok_def comp_def if_distrib image_image cong: if_cong)

lemma treads_quiet [quiet_rules]:
  "quiet (GetTransformation_pg r i)" "quiet (ListTransformationsByCustomer_pg r c)" "quiet (GetEnabledTransformations_pg r c)"
  "quiet (ListRecentTransformationRuns_pg r i n)" "quiet (GetTransformationDefinitionRenders_pg r c)"
  unfolding GetTransformation_pg_def ListTransformationsByCustomer_pg_def GetEnabledTransformations_pg_def
    ListRecentTransformationRuns_pg_def GetTransformationDefinitionRenders_pg_def
  by (intro quiet_rules)+

text \<open>The statements that write rows.\<close>

lemma tenant_snap:
  assumes "snap w' = snap w"
  shows "tenant c F G w' = tenant c F G w"
  using pg.foreign_cong [OF pg_row_snap [OF assms], of c] pg_ok_snap [OF assms] td_ok_tplane [OF tplane_snap [OF assms]]
    strangers_tplane [OF tplane_snap [OF assms]] owner_snap [OF assms] snap_fields(3) [OF assms]
  by (simp add: tenant_def pg.within_def chained_def)

lemma tenant_put:
  assumes "tenant c F G w" "distinct (map tr_id ts)" "distinct (map (\<lambda>t. (tr_customer_slug t, tr_name t)) ts)"
    "tr_id ` set (t_transformations w) \<subseteq> tr_id ` set ts"
    "\<And>t i. t \<in> set ts \<Longrightarrow> tr_trigger_after_pipeline_id t = Some i \<Longrightarrow> owner w i = Some (tr_customer_slug t)"
    "{t \<in> set ts. tr_customer_slug t \<noteq> c} = G"
  shows "tenant c F G (w\<lparr>t_transformations := ts\<rparr>)"
proof -
  have "i \<in> pr_id ` set (t_pipelines w)" if "t \<in> set ts" "tr_trigger_after_pipeline_id t = Some i" for t i
    using assms(5) [OF that] find_pipeline_None [of i w] by (auto simp: owner_def)
  then have "pg_ok (w\<lparr>t_transformations := ts\<rparr>)" using assms(1) by (auto simp: tenant_def pg.within_def pg_ok_def)
  moreover have "pg.foreign c (w\<lparr>t_transformations := ts\<rparr>) = pg.foreign c w" by (rule pg.foreign_cong) (simp add: find_pipeline_def)
  moreover have "owner (w\<lparr>t_transformations := ts\<rparr>) = owner w" by (rule owner_rows) simp
  moreover have "td_ok (w\<lparr>t_transformations := ts\<rparr>)"
    using assms(1-4) subset_trans [OF _ assms(4)] by (simp add: tenant_def td_ok_def)
  ultimately show ?thesis using assms(1,5,6) by (auto simp: tenant_def pg.within_def chained_def strangers_def)
qed

lemma insert_transformation_cases:
  assumes "insert_transformation ido r w = (x, w')"
  obtains (err) e where "x = Inl e" "snap w' = snap w"
  | (row) i r' where "x = Inr i" "r' = r\<lparr>tr_id := i\<rparr>" "\<not> list_ex (takes_tkey r') (t_transformations w)" "\<not> dangling r' w"
      "snap w' = snap (w\<lparr>t_transformations := t_transformations w @ [r']\<rparr>)"
  using assms unfolding insert_transformation_def
proof (cases rule: sqlE)
  case (down ls)
  then show ?thesis using err by simp
next
  case (up ls)
  then show ?thesis using err row
    by (auto simp: Let_def dangling_def split: if_splits option.splits)
qed

lemma insert_transformation_tenant:
  assumes "tr_customer_slug r = c" "\<And>i. tr_trigger_after_pipeline_id r = Some i \<Longrightarrow> i \<notin> fst ` F"
  shows "safe (tenant c F G) (insert_transformation ido r) (\<lambda>i. i \<notin> tr_id ` G)"
proof (rule safeI)
  fix w x and w' :: "'a pgdb_scheme"
  assume I: "tenant c F G w" and "insert_transformation ido r w = (x, w')"
  from this(2) show "tenant c F G w' \<and> (\<forall>v. x = Inr v \<longrightarrow> v \<notin> tr_id ` G)"
  proof (cases rule: insert_transformation_cases)
    case (err e)
    then show ?thesis using I tenant_snap by blast
  next
    case (row i r')
    have old: "tr_id t \<noteq> i" "(tr_customer_slug t, tr_name t) \<noteq> (c, tr_name r)" if "t \<in> set (t_transformations w)" for t
      using row(2,3) that assms(1) by (auto simp: list_ex_iff takes_tkey_def)
    have "owner w j = Some c" if "tr_trigger_after_pipeline_id r = Some j" for j
      using assms(2) [OF that] row(2,4) that owner_not_foreign [of c F w j] I by (auto simp: dangling_def owner_def tenant_def)
    then have "tenant c F G (w\<lparr>t_transformations := t_transformations w @ [r']\<rparr>)"
      using I old assms(1) row(2) by (intro tenant_put) (force simp: tenant_def td_ok_def chained_def strangers_def)+
    moreover have "i \<notin> tr_id ` G" using I old(1) by (auto simp: tenant_def strangers_def)
    ultimately show ?thesis using tenant_snap [OF row(5)] row(1) by simp
  qed
qed

lemma update_transformation_cases:
  assumes "update_transformation i f w = (x, w')"
  obtains (same) "snap w' = snap w"
  | (hit) r where "find_transformation i w = Some r" "\<not> list_ex (\<lambda>s. tr_id s \<noteq> i \<and> takes_tkey (f r) s) (t_transformations w)"
      "\<not> dangling (f r) w" "snap w' = snap (w\<lparr>t_transformations := map (\<lambda>s. if tr_id s = i then f r else s) (t_transformations w)\<rparr>)"
  using assms unfolding update_transformation_def
proof (cases rule: sqlE)
  case (down ls)
  then show ?thesis using same by simp
next
  case (up ls)
  have l: "find_transformation i (w\<lparr>db_link := ls\<rparr>) = find_transformation i w" "dangling q (w\<lparr>db_link := ls\<rparr>) = dangling q w" for q
    by (simp_all add: find_transformation_def dangling_def split: option.splits)
  show ?thesis using up unfolding l by (auto split: option.splits if_splits intro: same hit)
qed

lemma update_transformation_tenant:
  assumes "i \<notin> tr_id ` G" "\<And>t. tr_id (f t) = tr_id t \<and> tr_customer_slug (f t) = tr_customer_slug t"
    "\<And>t j. tr_trigger_after_pipeline_id (f t) = Some j \<Longrightarrow> j \<notin> fst ` F"
  shows "keeps (tenant c F G) (update_transformation i f)"
proof (rule safeI, intro conjI)
  fix w x and w' :: "'a pgdb_scheme"
  assume I: "tenant c F G w" and "update_transformation i f w = (x, w')"
  from this(2) show "tenant c F G w'"
  proof (cases rule: update_transformation_cases)
    case same
    then show ?thesis using I tenant_snap by blast
  next
    case (hit r)
    let ?g = "\<lambda>s. if tr_id s = i then f r else s"
    have r: "r \<in> set (t_transformations w)" "tr_id r = i" using find_transformation_Some [OF hit(1)] by auto
    have c: "tr_customer_slug r = c" using I r assms(1) by (auto simp: tenant_def strangers_def)
    have inj: "s = r" if "s \<in> set (t_transformations w)" "tr_id s = i" for s
      using I r that by (auto simp: tenant_def td_ok_def distinct_map dest: inj_onD)
    have key: "tr_id (?g s) = tr_id s" "tr_customer_slug (?g s) = tr_customer_slug s" if "s \<in> set (t_transformations w)" for s
      using assms(2) [of r] inj [OF that] r(2) by auto
    have ids: "map tr_id (map ?g (t_transformations w)) = map tr_id (t_transformations w)" using key(1) by simp
    have own: "owner w j = Some c" if "tr_trigger_after_pipeline_id (f r) = Some j" for j
      using assms(3) [OF that] hit(3) that owner_not_foreign [of c F w j] I by (auto simp: dangling_def owner_def tenant_def)
    have free: "(tr_customer_slug s, tr_name s) \<noteq> (tr_customer_slug (f r), tr_name (f r))" if "s \<in> set (t_transformations w)" "tr_id s \<noteq> i" for s
      using hit(2) that by (auto simp: list_ex_iff takes_tkey_def)
    have "inj_on (\<lambda>s. (tr_customer_slug (?g s), tr_name (?g s))) (set (t_transformations w))"
    proof (rule inj_onI)
      fix a b assume ab: "a \<in> set (t_transformations w)" "b \<in> set (t_transformations w)"
        and e: "(tr_customer_slug (?g a), tr_name (?g a)) = (tr_customer_slug (?g b), tr_name (?g b))"
      have k: "inj_on (\<lambda>t. (tr_customer_slug t, tr_name t)) (set (t_transformations w))"
        using I by (simp add: tenant_def td_ok_def distinct_map)
      show "a = b" using ab e free [of a] free [of b] inj inj_onD [OF k] by (cases "tr_id a = i"; cases "tr_id b = i") auto
    qed
    then have keys: "distinct (map (\<lambda>t. (tr_customer_slug t, tr_name t)) (map ?g (t_transformations w)))"
      using I unfolding map_map comp_def by (simp add: tenant_def td_ok_def distinct_map)
    have "tenant c F G (w\<lparr>t_transformations := map ?g (t_transformations w)\<rparr>)"
    proof (rule tenant_put [OF I _ keys])
      show "distinct (map tr_id (map ?g (t_transformations w)))" unfolding ids using I by (simp add: tenant_def td_ok_def)
      show "tr_id ` set (t_transformations w) \<subseteq> tr_id ` set (map ?g (t_transformations w))" using ids by (metis order_refl set_map)
      show "owner w j = Some (tr_customer_slug t)" if "t \<in> set (map ?g (t_transformations w))" "tr_trigger_after_pipeline_id t = Some j" for t j
        using that own c assms(2) [of r] I by (auto simp: tenant_def chained_def split: if_splits)
      show "{t \<in> set (map ?g (t_transformations w)). tr_customer_slug t \<noteq> c} = G"
      proof -
        have "s \<in> set (t_transformations w) \<Longrightarrow> tr_customer_slug s \<noteq> c \<Longrightarrow> tr_id s \<noteq> i" for s using inj c by blast
        then have "{t \<in> set (map ?g (t_transformations w)). tr_customer_slug t \<noteq> c} = strangers c w"
          using c assms(2) [of r] by (force simp: strangers_def image_iff)
        then show ?thesis using I by (simp add: tenant_def)
      qed
    qed
    then show ?thesis using tenant_snap [OF hit(4)] by simp
  qed
qed simp

lemma delete_transformation_tenant:
  assumes "i \<notin> tr_id ` G"
  shows "keeps (tenant c F G) (delete_transformation i)"
proof (rule safeI, intro conjI)
  fix w x and w' :: "'a pgdb_scheme"
  assume I: "tenant c F G w" and "delete_transformation i w = (x, w')"
  from this(2) show "tenant c F G w'" unfolding delete_transformation_def
  proof (cases rule: sqlE)
    case (down ls)
    then show ?thesis using I tenant_snap [of w' w] by simp
  next
    case (up ls)
    let ?w = "w\<lparr>t_transformations := filter (\<lambda>t. tr_id t \<noteq> i) (t_transformations w),
       t_transformation_runs := filter (\<lambda>r. tn_TransformationID r \<noteq> i) (t_transformation_runs w),
       t_transformation_renders := filter (\<lambda>r. td_TransformationID r \<noteq> i) (t_transformation_renders w)\<rparr>"
    consider "snap w' = snap w" | "snap w' = snap ?w" using up by (auto split: if_splits)
    then show ?thesis
    proof cases
      case 1
      then show ?thesis using I tenant_snap by blast
    next
      case 2
      have ids: "tr_id ` set (filter (\<lambda>t. tr_id t \<noteq> i) ts) = tr_id ` set ts - {i}" for ts by auto
      have "pg_ok ?w" using I by (auto simp: tenant_def pg.within_def pg_ok_def)
      moreover have "pg.foreign c ?w = pg.foreign c w" by (rule pg.foreign_cong) (simp add: find_pipeline_def)
      moreover have "td_ok ?w"
        using I unfolding tenant_def td_ok_def by (simp add: ids distinct_map_filter del: set_filter) auto
      moreover have "owner ?w = owner w" by (rule owner_rows) simp
      moreover have "strangers c ?w = strangers c w" using assms I by (auto simp: tenant_def strangers_def)
      ultimately have "tenant c F G ?w" using I by (auto simp: tenant_def pg.within_def chained_def)
      then show ?thesis using tenant_snap [OF 2] by simp
    qed
  qed
qed simp

subsection \<open>The repository's methods\<close>

definition chainable :: "(string \<times> prow) set \<Rightarrow> string set" where
  "chainable F = insert [] (- fst ` F)"

lemma nullUUID_chainable: "i \<in> chainable F \<Longrightarrow> nullUUID i = Some j \<Longrightarrow> j \<notin> fst ` F"
  by (auto simp: chainable_def nullUUID_def split: if_splits)

lemma safe_uniqueAs: "safe I m Q \<Longrightarrow> safe I (uniqueAs e msg m) Q"
  unfolding uniqueAs_def by (rule safe_rules | assumption | simp)+

lemma new_trow_fields [simp]:
  "tr_customer_slug (new_trow t enc) = tf_CustomerSlug t" "tr_trigger_after_pipeline_id (new_trow t enc) = nullUUID (tf_TriggerAfterPipelineID t)"
  by (simp_all add: new_trow_def transformation_columns_def)

lemma CreateTransformation_tenant:
  assumes "tf_CustomerSlug t = c" "tf_TriggerAfterPipelineID t \<in> chainable F"
  shows "safe (tenant c F G) (CreateTransformation_pg r t) (\<lambda>t'. tf_CustomerSlug t' = c \<and> tf_ID t' \<in> - tr_id ` G)"
  unfolding CreateTransformation_pg_def
  by (rule safe_andThen [OF safe_wrapErr [OF quiet_tenant [OF quiet_encrypt]]]
      safe_andThen [OF safe_uniqueAs [OF insert_transformation_tenant]] safe_ret
    | simp add: assms nullUUID_chainable [OF assms(2)])+

lemma ImportTransformation_tenant:
  assumes "tf_CustomerSlug t = c" "tf_TriggerAfterPipelineID t \<in> chainable F"
  shows "keeps (tenant c F G) (ImportTransformation_pg r t)"
  unfolding ImportTransformation_pg_def
  by (rule safe_andThen [OF safe_wrapErr [OF quiet_tenant [OF quiet_encrypt]]]
      safe_andThen [OF safe_uniqueAs [OF insert_transformation_tenant]] safe_ret
    | simp add: assms nullUUID_chainable [OF assms(2)])+

lemma UpdateTransformation_tenant:
  assumes "tf_ID t \<in> - tr_id ` G" "tf_TriggerAfterPipelineID t \<in> chainable F"
  shows "keeps (tenant c F G) (UpdateTransformation_pg r t)"
  unfolding UpdateTransformation_pg_def
  by (rule safe_andThen [OF safe_wrapErr [OF quiet_tenant [OF quiet_encrypt]]]
      safe_andThen [OF safe_uniqueAs [OF update_transformation_tenant]] safe_if safe_ret safe_fail
    | use assms nullUUID_chainable [OF assms(2)] in \<open>auto simp: transformation_columns_def; fail\<close>)+

lemma DeleteTransformation_tenant: "i \<in> - tr_id ` G \<Longrightarrow> keeps (tenant c F G) (DeleteTransformation_pg r i)"
  unfolding DeleteTransformation_pg_def
  by (rule safe_andThen [OF safe_wrapErr [OF delete_transformation_tenant]] safe_if safe_ret safe_fail | simp)+

lemma find_transformation_link [simp]: "find_transformation i (db\<lparr>db_link := ls\<rparr>) = find_transformation i db"
  by (simp add: find_transformation_def)

lemma GetTransformation_Inr:
  assumes "GetTransformation_pg r i w = (Inr t, w')"
  obtains s creds where "find_transformation i w = Some s" "decryptCredentials r (tr_git_credentials s) = Inr creds"
    "t = (scan_transformation s)\<lparr>tf_GitCredentials := creds\<rparr>"
proof -
  from assms obtain x w1 where q: "query (find_transformation i) w = (Inr x, w1)"
    and t: "(case x of None \<Rightarrow> fail ErrTransformationNotFound
      | Some s \<Rightarrow> andThen (wrapErr ''postgres: decrypt credentials'' (lift (decryptCredentials r (tr_git_credentials s))))
          (\<lambda>creds. ret ((scan_transformation s)\<lparr>tf_GitCredentials := creds\<rparr>))) w1 = (Inr t, w')"
    by (auto simp: GetTransformation_pg_def andThen_Inr wrapErr_Inr)
  from q have "find_transformation i w = x" by (auto dest!: query_Inr)
  then show ?thesis using t that by (cases x) (auto simp: andThen_Inr wrapErr_Inr dest!: sym [of "Inr _"])
qed

lemma GetTransformation_tenant:
  "safe (tenant c F G) (GetTransformation_pg r i)
     (\<lambda>t. tf_ID t = i \<and> (tf_CustomerSlug t = c \<longrightarrow> i \<in> - tr_id ` G \<and> tf_TriggerAfterPipelineID t \<in> chainable F))"
proof (rule safeI, intro conjI allI impI)
  fix w x and w' :: "'a pgdb_scheme"
  assume I: "tenant c F G w" and g: "GetTransformation_pg r i w = (x, w')"
  show "tenant c F G w'" using safeD [OF quiet_tenant [OF treads_quiet(1)] I g] .
  fix t assume "x = Inr t"
  then have "GetTransformation_pg r i w = (Inr t, w')" using g by simp
  then obtain s where s: "find_transformation i w = Some s" "tf_ID t = tr_id s" "tf_CustomerSlug t = tr_customer_slug s"
    "tf_TriggerAfterPipelineID t = (case tr_trigger_after_pipeline_id s of None \<Rightarrow> [] | Some j \<Rightarrow> j)"
    by (rule GetTransformation_Inr) (auto simp: scan_transformation_def)
  have m: "s \<in> set (t_transformations w)" "tr_id s = i" using find_transformation_Some [OF s(1)] by auto
  show "tf_ID t = i" using s(2) m by simp
  assume c: "tf_CustomerSlug t = c"
  show "i \<in> - tr_id ` G"
    using I m c s(3) by (auto simp: tenant_def strangers_def td_ok_def distinct_map dest: inj_onD)
  have "owner w j = Some c" if "tr_trigger_after_pipeline_id s = Some j" for j
    using I m(1) that c s(3) by (simp add: tenant_def chained_def)
  then show "tf_TriggerAfterPipelineID t \<in> chainable F"
    using s(4) owner_not_foreign [of c F w] I by (auto simp: chainable_def tenant_def split: option.splits)
qed

lemma ListTransformations_tenant:
  "safe (tenant c F G) (ListTransformationsByCustomer_pg r c) (\<lambda>ts. \<forall>t \<in> set ts. tf_CustomerSlug t = c \<and> tf_ID t \<in> - tr_id ` G)"
proof (rule safeI, intro conjI allI impI ballI)
  fix w x and w' :: "'a pgdb_scheme"
  assume I: "tenant c F G w" and g: "ListTransformationsByCustomer_pg r c w = (x, w')"
  show "tenant c F G w'" using safeD [OF quiet_tenant [OF treads_quiet(2)] I g] .
  fix ts t assume "x = Inr ts" "t \<in> set ts"
  with g obtain s where s: "s \<in> set (t_transformations w)" "tr_customer_slug s = c" "tf_ID t = tr_id s" "tf_CustomerSlug t = tr_customer_slug s"
    by (fastforce simp: ListTransformationsByCustomer_pg_def wrapErr_Inr customer_trows_def tlist_view_def scan_transformation_def
        split: list.splits dest!: query_Inr)
  then show "tf_CustomerSlug t = c" "tf_ID t \<in> - tr_id ` G"
    using I by (auto simp: tenant_def strangers_def td_ok_def distinct_map dest: inj_onD)
qed

lemmas plane_tenant = CreateTransformationRun_tquiet [THEN tquiet_tenant] UpdateTransformationRun_tquiet [THEN tquiet_tenant]
  UpsertTransformationDefinitionRender_tquiet [THEN tquiet_tenant] MarkTransformationDefinitionRefused_tquiet [THEN tquiet_tenant]

text \<open>The pipelines' methods, for the invariant of both planes.\<close>

lemma tenant_reads:
  "safe (tenant c F G) (GetPipeline_pg r i) (\<lambda>p. p_ID p = i \<and> (p_CustomerSlug p = c \<longrightarrow> i \<notin> fst ` F))"
  "safe (tenant c F G) (ListPipelinesByCustomer_pg r c) (\<lambda>ps. \<forall>p \<in> set ps. p_CustomerSlug p = c \<and> p_ID p \<notin> fst ` F)"
  "safe (tenant c F G) (GetEnabledPipelines_pg r c) (\<lambda>ps. \<forall>p \<in> set ps. p_CustomerSlug p = c)"
  using pg.within_get [of c F r i] pg.within_list [of c F r] pg.within_enabled [of c F r]
  by (auto simp: pg_repo_def intro!: tenant_steady quiet_steady reads_quiet)

lemma tenant_writes:
  "p_CustomerSlug p = c \<Longrightarrow> safe (tenant c F G) (CreatePipeline_pg r p) (\<lambda>q. p_CustomerSlug q = c \<and> p_ID q \<notin> fst ` F)"
  "p_ID q \<notin> fst ` F \<Longrightarrow> keeps (tenant c F G) (UpdatePipeline_pg r q)"
  using pg.within_create [of p c F r] pg.within_update [of q F c r]
  by (auto simp: pg_repo_def intro!: tenant_steady pipeline_writes_steady UpdatePipeline_steady)

end
