(* ===== verification/Connections.thy ===== *)
theory Connections
  imports FileDrop Contracts
begin

section \<open>Workspace connections and the serving of Google credentials\<close>

text \<open>
  \<^verbatim>\<open>workspace/connection.go\<close> and \<^verbatim>\<open>workspace/oauth_client.go\<close>: the connection lifecycle, and the
  customer's OAuth app; and \<^verbatim>\<open>oauthClientResolver\<close> of \<^verbatim>\<open>workspace/pipeline.go\<close>, which expands a
  connection reference and adds the customer's client pair when a credential is served. The
  resolver's caches are the fields of \<open>oauthClientResolver\<close>, threaded through the calls.
\<close>

definition ConnectionTypeGoogle :: string where "ConnectionTypeGoogle = ''google''"
definition OAuthProviderGoogle :: string where "OAuthProviderGoogle = ''google''"

subsection \<open>A connection's credentials\<close>

record googleConnectionCredentials =
  gc_RefreshToken :: string
  gc_Email :: string
  gc_ClientID :: string
  gc_Scopes :: "string list"

definition zeroGC :: googleConnectionCredentials where
  "zeroGC = \<lparr>gc_RefreshToken = [], gc_Email = [], gc_ClientID = [], gc_Scopes = []\<rparr>"

definition d_gc :: "googleConnectionCredentials decoder" where
  "d_gc = d_obj (\<lambda>ms c.
     Option.bind (dec_field d_str ''refresh_token'' ms (gc_RefreshToken c)) (\<lambda>t.
     Option.bind (dec_field d_str ''email'' ms (gc_Email c)) (\<lambda>e.
     Option.bind (dec_field d_str ''client_id'' ms (gc_ClientID c)) (\<lambda>i.
     Option.bind (dec_field (d_list [] d_str) ''scopes'' ms (gc_Scopes c)) (\<lambda>s.
     Some \<lparr>gc_RefreshToken = t, gc_Email = e, gc_ClientID = i, gc_Scopes = s\<rparr>)))))"

definition enc_gc :: "googleConnectionCredentials \<Rightarrow> json" where
  "enc_gc c = jobj ([(''refresh_token'', jstr (gc_RefreshToken c))] @ omit_str ''email'' (gc_Email c) @
     omit_str ''client_id'' (gc_ClientID c) @
     (if gc_Scopes c = [] then [] else [(''scopes'', JArr (map jstr (gc_Scopes c)))]))"

definition GoogleEmail :: "Connection \<Rightarrow> string" where
  "GoogleEmail c =
     (if c_Type c \<noteq> ConnectionTypeGoogle \<or> isEmptyJSON (c_Credentials c) then []
      else case Unmarshal d_gc zeroGC (c_Credentials c) of None \<Rightarrow> [] | Some gc \<Rightarrow> gc_Email gc)"

definition GoogleScopes :: "Connection \<Rightarrow> string list" where
  "GoogleScopes c =
     (if c_Type c \<noteq> ConnectionTypeGoogle \<or> isEmptyJSON (c_Credentials c) then []
      else case Unmarshal d_gc zeroGC (c_Credentials c) of None \<Rightarrow> [] | Some gc \<Rightarrow> gc_Scopes gc)"

definition HasGoogleScope :: "Connection \<Rightarrow> string \<Rightarrow> bool" where
  "HasGoogleScope c scope = (let scopes = GoogleScopes c in if scopes = [] then True else scope \<in> set scopes)"

definition googleCredentials :: "Connection \<Rightarrow> err + googleConnectionCredentials" where
  "googleCredentials c =
     (if c_Type c \<noteq> ConnectionTypeGoogle then Inl ErrUnsupportedConnectionType
      else case Unmarshal d_gc zeroGC (c_Credentials c) of
        None \<Rightarrow> Inl (ErrNew ''parse google connection credentials'')
      | Some gc \<Rightarrow> (if gc_RefreshToken gc = [] then Inl (ErrNew ''google connection has no refresh token'') else Inr gc))"

definition credentialReferencesConnection :: "raw \<Rightarrow> string \<Rightarrow> bool" where
  "credentialReferencesConnection raw connectionID =
     (if isEmptyJSON raw then False
      else case Unmarshal d_env None raw of
        Some (Some o') \<Rightarrow> go_ConnectionID o' = connectionID
      | _ \<Rightarrow> False)"

subsection \<open>The connection service\<close>

definition googleConnectionName :: "string \<Rightarrow> string \<Rightarrow> string" where
  "googleConnectionName name email = cmp_Or (cmp_Or (TrimSpace name) email) ''Google''"

definition findGoogleConnectionByEmail :: "Connection list \<Rightarrow> string \<Rightarrow> Connection option" where
  "findGoogleConnectionByEmail conns email =
     (let email = TrimSpace email in
      if email = [] then None
      else find (\<lambda>c. c_Type c = ConnectionTypeGoogle \<and> EqualFold (GoogleEmail c) email) conns)"

text \<open>\<open>cs_newID\<close> is \<^verbatim>\<open>uuid.NewString\<close>.\<close>

record 'w ConnectionService =
  cs_Connections :: "'w ConnectionStore option"
  cs_GoogleOAuth :: "'w GoogleOAuthGrantStore option"
  cs_PipelineCredentials :: "'w PipelineCredentialReader option"
  cs_newID :: "('w, string) io"

definition redeemGoogleGrant ::
  "'w GoogleOAuthGrantStore \<Rightarrow> string \<Rightarrow> string \<Rightarrow> ('w, GoogleOAuthGrant \<times> raw) io" where
  "redeemGoogleGrant g customerSlug grantID =
     attempt (ConsumeGoogleOAuthGrant g grantID customerSlug) (\<lambda>r.
     case r of
       Inl e \<Rightarrow> (if errors_Is e ErrOAuthGrantNotFound then fail ErrOAuthGrantNotFound
                else fail (Errorf ''consume oauth grant'' e))
     | Inr grant \<Rightarrow> ret (grant, Marshal (enc_gc \<lparr>gc_RefreshToken = gr_RefreshToken grant, gc_Email = gr_Email grant,
         gc_ClientID = gr_ClientID grant, gc_Scopes = gr_Scopes grant\<rparr>)))"

definition CreateGoogleConnection :: "'w ConnectionService \<Rightarrow> string \<Rightarrow> string \<Rightarrow> string \<Rightarrow> ('w, Connection) io" where
  "CreateGoogleConnection s customerSlug grantID name =
     (case (cs_Connections s, cs_GoogleOAuth s) of
        (Some conns, Some g) \<Rightarrow>
          (let grantID = TrimSpace grantID in
           if grantID = [] then fail (ErrNew ''grant_id is required'')
           else
             andThen (wrapErr ''list connections'' (ListConnections conns customerSlug)) (\<lambda>existing.
             andThen (redeemGoogleGrant g customerSlug grantID) (\<lambda>(grant, creds).
             case findGoogleConnectionByEmail existing (gr_Email grant) of
               Some prior \<Rightarrow>
                 andThen (ReauthorizeConnection conns customerSlug (c_ID prior) creds)
                   (\<lambda>_. ret (prior\<lparr>c_Status := ''active'', c_Credentials := creds\<rparr>))
             | None \<Rightarrow>
                 andThen (cs_newID s) (\<lambda>i.
                 let c = \<lparr>c_ID = i, c_CustomerSlug = customerSlug, c_Type = ConnectionTypeGoogle,
                       c_Name = googleConnectionName name (gr_Email grant), c_Status = ''active'',
                       c_Config = ''{}'', c_Credentials = creds, c_CreatedAt = 0, c_UpdatedAt = 0\<rparr> in
                 andThen (CreateConnection conns c) (\<lambda>_. ret c)))))
      | _ \<Rightarrow> fail ErrConnectionsNotConfigured)"

definition ListConnections_svc :: "'w ConnectionService \<Rightarrow> string \<Rightarrow> ('w, Connection list) io" where
  "ListConnections_svc s customerSlug =
     (case cs_Connections s of None \<Rightarrow> fail ErrConnectionsNotConfigured | Some conns \<Rightarrow> ListConnections conns customerSlug)"

definition DeleteConnection_svc :: "'w ConnectionService \<Rightarrow> string \<Rightarrow> string \<Rightarrow> ('w, unit) io" where
  "DeleteConnection_svc s customerSlug i =
     (case cs_Connections s of
        None \<Rightarrow> fail ErrConnectionsNotConfigured
      | Some conns \<Rightarrow>
          (case cs_PipelineCredentials s of
             None \<Rightarrow> DeleteConnection conns customerSlug i
           | Some pc \<Rightarrow>
               andThen (wrapErr ''list pipeline credentials'' (ListPipelineCredentialsByCustomer pc customerSlug)) (\<lambda>creds.
               if list_ex (\<lambda>(_, raw). credentialReferencesConnection raw i) creds then fail ErrConnectionInUse
               else DeleteConnection conns customerSlug i)))"

subsection \<open>The customer's OAuth app\<close>

definition ValidateOAuthClient :: "OAuthClient \<Rightarrow> err + OAuthClient" where
  "ValidateOAuthClient c =
     (let provider = cmp_Or (TrimSpace (oc_Provider c)) OAuthProviderGoogle;
          i = TrimSpace (oc_ClientID c); secret = TrimSpace (oc_ClientSecret c) in
      if provider \<noteq> OAuthProviderGoogle then Inl ErrUnsupportedOAuthProvider
      else if i = [] \<or> secret = [] then Inl ErrInvalidOAuthClient
      else Inr (c\<lparr>oc_Provider := provider, oc_ClientID := i, oc_ClientSecret := secret\<rparr>))"

subsection \<open>Serving a Google credential\<close>

record 'w oauthClientResolver =
  or_clients :: "'w OAuthClientStore option"
  or_connections :: "'w ConnectionStore option"
  or_customerSlug :: string
  or_resolved :: bool
  or_clientID :: string
  or_clientSecret :: string
  or_connCache :: "(string \<times> googleConnectionCredentials option) list"

definition newOAuthClientResolver ::
  "'w OAuthClientStore option \<Rightarrow> 'w ConnectionStore option \<Rightarrow> string \<Rightarrow> 'w oauthClientResolver" where
  "newOAuthClientResolver clients connections customerSlug =
     \<lparr>or_clients = clients, or_connections = connections, or_customerSlug = customerSlug, or_resolved = False,
      or_clientID = [], or_clientSecret = [], or_connCache = []\<rparr>"

text \<open>The connection behind an id, from the cache or the store; a failed lookup is cached as nil.\<close>

definition lookupConnection ::
  "'w oauthClientResolver \<Rightarrow> 'w ConnectionStore \<Rightarrow> string \<Rightarrow> ('w, googleConnectionCredentials option \<times> 'w oauthClientResolver) io" where
  "lookupConnection r conns connID =
     (case map_of (or_connCache r) connID of
        Some gc \<Rightarrow> ret (gc, r)
      | None \<Rightarrow>
          attempt (GetConnection conns (or_customerSlug r) connID) (\<lambda>x.
          let gc = (case x of
                Inl _ \<Rightarrow> None
              | Inr conn \<Rightarrow> (case googleCredentials conn of Inl _ \<Rightarrow> None | Inr g \<Rightarrow> Some g)) in
          ret (gc, r\<lparr>or_connCache := AList.update connID gc (or_connCache r)\<rparr>)))"

definition resolveConnectionCredential ::
  "'w oauthClientResolver \<Rightarrow> string \<Rightarrow> raw \<Rightarrow> ('w, raw option \<times> 'w oauthClientResolver) io" where
  "resolveConnectionCredential r sourceType raw =
     (case (googleConnectionRef sourceType raw, or_connections r) of
        (Some connID, Some conns) \<Rightarrow>
          andThen (lookupConnection r conns connID) (\<lambda>(gc, r').
          case gc of
            None \<Rightarrow> ret (None, r')
          | Some g \<Rightarrow>
              (case storedGoogleOAuthCreds sourceType raw (gc_RefreshToken g) (gc_Email g) (gc_ClientID g) of
                 Inl _ \<Rightarrow> ret (None, r')
               | Inr resolved \<Rightarrow> ret (Some resolved, r')))
      | _ \<Rightarrow> ret (None, r))"

definition loadClient :: "'w oauthClientResolver \<Rightarrow> ('w, 'w oauthClientResolver) io" where
  "loadClient r =
     (if or_resolved r then ret r
      else
        (let r1 = r\<lparr>or_resolved := True\<rparr> in
         case or_clients r of
           None \<Rightarrow> ret r1
         | Some clients \<Rightarrow>
             attempt (GetOAuthClient clients (or_customerSlug r) OAuthProviderGoogle) (\<lambda>x.
             case x of
               Inl _ \<Rightarrow> ret r1
             | Inr cc \<Rightarrow> ret (r1\<lparr>or_clientID := oc_ClientID cc, or_clientSecret := oc_ClientSecret cc\<rparr>))))"

definition inject :: "'w oauthClientResolver \<Rightarrow> Pipeline \<Rightarrow> ('w, raw option \<times> 'w oauthClientResolver) io" where
  "inject r p =
     (if \<not> isGoogleOAuthSourceType (p_SourceType p) then ret (None, r)
      else
        andThen (resolveConnectionCredential r (p_SourceType p) (p_SourceCredentials p)) (\<lambda>(resolved, r1).
        let raw = (case resolved of Some x \<Rightarrow> x | None \<Rightarrow> p_SourceCredentials p);
            asIs = (case resolved of Some x \<Rightarrow> Some (serveGoogleOAuthCredential (p_SourceType p) x) | None \<Rightarrow> None) in
        andThen (loadClient r1) (\<lambda>r2.
        if or_clientID r2 = [] \<or> or_clientSecret r2 = [] then ret (asIs, r2)
        else case injectGoogleOAuthClient (p_SourceType p) raw (or_clientID r2) (or_clientSecret r2) of
          Some injected \<Rightarrow> ret (Some injected, r2)
        | None \<Rightarrow> ret (asIs, r2))))"

definition staleClientID :: "'w oauthClientResolver \<Rightarrow> Pipeline \<Rightarrow> ('w, bool \<times> 'w oauthClientResolver) io" where
  "staleClientID r p =
     andThen (resolveConnectionCredential r (p_SourceType p) (p_SourceCredentials p)) (\<lambda>(resolved, r1).
     let raw = (case resolved of Some x \<Rightarrow> x | None \<Rightarrow> p_SourceCredentials p) in
     case googleOAuthClientID (p_SourceType p) raw of
       None \<Rightarrow> ret (False, r1)
     | Some storedID \<Rightarrow>
         andThen (loadClient r1) (\<lambda>r2.
         if or_clientID r2 = [] then ret (False, r2) else ret (storedID \<noteq> or_clientID r2, r2)))"

subsection \<open>What serving a credential touches\<close>

text \<open>
  The lookups the resolver makes: the customer's own connections and OAuth app, and nothing else. The
  locale is the interface of both renderings, the worker's poll and the mirror's credential files.
\<close>

locale oauth_ports =
  fixes clients :: "'w OAuthClientStore option" and connections :: "'w ConnectionStore option"
    and c :: string and I :: "'w \<Rightarrow> bool"
  assumes get_client: "clients = Some cl \<Longrightarrow> keeps I (GetOAuthClient cl c OAuthProviderGoogle)"
    and get_connection: "connections = Some cn \<Longrightarrow> keeps I (GetConnection cn c i)"
begin

definition wired :: "'w oauthClientResolver \<Rightarrow> bool" where
  "wired r \<longleftrightarrow> or_clients r = clients \<and> or_connections r = connections \<and> or_customerSlug r = c"

lemma wired_new: "wired (newOAuthClientResolver clients connections c)"
  by (simp add: wired_def newOAuthClientResolver_def)

lemma wired_fields: "wired r \<Longrightarrow> or_clients r = clients" "wired r \<Longrightarrow> or_connections r = connections" "wired r \<Longrightarrow> or_customerSlug r = c"
  by (simp_all add: wired_def)

lemma wired_cache [simp]:
  "wired (r\<lparr>or_connCache := m\<rparr>) = wired r" "wired (r\<lparr>or_resolved := b\<rparr>) = wired r"
  "wired (r\<lparr>or_clientID := i\<rparr>) = wired r" "wired (r\<lparr>or_clientSecret := t\<rparr>) = wired r"
  by (simp_all add: wired_def)

lemma lookupConnection_safe:
  assumes "wired r" "connections = Some cn"
  shows "safe I (lookupConnection r cn i) (\<lambda>(_, r'). wired r')"
  unfolding lookupConnection_def Let_def wired_fields(3) [OF assms(1)]
  by (rule safe_rules get_connection [OF assms(2)] | simp add: assms(1))+

lemma resolveConnectionCredential_safe:
  assumes "wired r"
  shows "safe I (resolveConnectionCredential r t raw) (\<lambda>(_, r'). wired r')"
  unfolding resolveConnectionCredential_def wired_fields(2) [OF assms]
  by (rule safe_rules lookupConnection_safe [OF assms] | simp (no_asm) add: assms | auto)+

lemma loadClient_safe:
  assumes "wired r"
  shows "safe I (loadClient r) wired"
  unfolding loadClient_def Let_def wired_fields(1,3) [OF assms]
  by (rule safe_rules get_client | assumption | simp (no_asm) add: assms)+

lemma inject_safe: "wired r \<Longrightarrow> safe I (inject r p) (\<lambda>(_, r'). wired r')"
  unfolding inject_def Let_def
  by (rule safe_rules resolveConnectionCredential_safe loadClient_safe | simp)+

lemma staleClientID_safe: "wired r \<Longrightarrow> safe I (staleClientID r p) (\<lambda>(_, r'). wired r')"
  unfolding staleClientID_def Let_def
  by (rule safe_rules resolveConnectionCredential_safe loadClient_safe | simp)+

end

subsection \<open>Properties\<close>



end
