(* ===== verification/PipelineService.thy ===== *)
theory PipelineService
  imports Connections Contracts
begin

section \<open>The pipeline service (\<^verbatim>\<open>workspace/pipeline.go\<close>)\<close>

text \<open>
  The Console's and the worker's pipeline operations, handler by handler, over the ports of
  \<open>PipelineService\<close>: creating, reading, updating, deleting and restoring a pipeline, triggering and
  reporting runs, and serving the enabled pipelines to the worker. Optional ports are \<open>option\<close>s.
  Metrics, spans and log lines are left out; \<^verbatim>\<open>time.Now\<close> is \<open>ps_Now\<close>. The timeout around the
  mirror commit only makes that commit fail, which any port may do.
\<close>

record 'w PipelineService =
  ps_Workspaces :: "'w Resolver"
  ps_Pipelines :: "'w PipelineRepository"
  ps_Notifications :: "'w Notifier option"
  ps_Alerts :: "'w PipelineAlerter option"
  ps_Mirror :: "'w PipelineMirrorer option"
  ps_Users :: "(string \<Rightarrow> ('w, UserInfo) io) option"
  ps_Versions :: "'w PipelineVersioner option"
  ps_Ownership :: "'w OwnershipStore option"
  ps_GoogleOAuth :: "'w GoogleOAuthGrantStore option"
  ps_OAuthClients :: "'w OAuthClientStore option"
  ps_Connections :: "'w ConnectionStore option"
  ps_StripPollCredentials :: bool
  ps_Now :: "'w \<Rightarrow> int"

subsection \<open>The commit tail\<close>

definition commitMirror :: "'w PipelineService \<Rightarrow> string \<Rightarrow> string \<Rightarrow> ('w, unit) io" where
  "commitMirror s callerID customerSlug =
     (case ps_Mirror s of
        None \<Rightarrow> ret ()
      | Some mirror \<Rightarrow>
          andThen (resolveCommitAuthor (ps_Users s) callerID) (\<lambda>author.
          wrapErr ''commit definitions to the box repo'' (SyncCustomer_port mirror customerSlug author)))"

text \<open>A failed compensation is only logged: the commit's error is returned either way.\<close>

definition commitOrCompensate ::
  "'w PipelineService \<Rightarrow> string \<Rightarrow> string \<Rightarrow> ('w, 'x) io \<Rightarrow> ('w, unit) io" where
  "commitOrCompensate s callerID customerSlug compensate =
     attempt (commitMirror s callerID customerSlug) (\<lambda>r.
     case r of
       Inr _ \<Rightarrow> ret ()
     | Inl e \<Rightarrow> attempt compensate (\<lambda>_. fail e))"

lemma commitOrCompensate_triple:
  assumes "keeps P (commitMirror s u c)" "triple P undo (\<lambda>_. E) (\<lambda>_. E)"
  shows "triple P (commitOrCompensate s u c undo) (\<lambda>_. P) (\<lambda>_. E)"
  unfolding commitOrCompensate_def
  by (rule triple_attempt [OF assms(1) [unfolded triple_safe]]) (auto intro!: triple_ret triple_attempt [OF assms(2)] triple_fail)

subsection \<open>Google sign-in credentials\<close>

definition checkGoogleConnection :: "'w PipelineService \<Rightarrow> string \<Rightarrow> string \<Rightarrow> string \<Rightarrow> ('w, unit) io" where
  "checkGoogleConnection s customerSlug sourceType connID =
     (case ps_Connections s of
        None \<Rightarrow> fail (ErrInvalidSourceCredentials ''oauth'')
      | Some conns \<Rightarrow>
          attempt (GetConnection conns customerSlug connID) (\<lambda>r.
          case r of
            Inl e \<Rightarrow> (if errors_Is e ErrConnectionNotFound then fail (ErrInvalidSourceCredentials ''oauth'')
                     else fail (Errorf ''resolve connection'' e))
          | Inr conn \<Rightarrow>
              (if googleScopeRequired sourceType \<noteq> [] \<and> \<not> HasGoogleScope conn (googleScopeRequired sourceType)
               then fail (ErrInvalidSourceCredentials ''oauth'') else ret ())))"

definition swapGoogleOAuthGrant :: "'w PipelineService \<Rightarrow> string \<Rightarrow> Pipeline \<Rightarrow> ('w, Pipeline) io" where
  "swapGoogleOAuthGrant s customerSlug p =
     (case googleConnectionRef (p_SourceType p) (p_SourceCredentials p) of
        Some connID \<Rightarrow> andThen (checkGoogleConnection s customerSlug (p_SourceType p) connID) (\<lambda>_. ret p)
      | None \<Rightarrow>
          (case googleGrantID (p_SourceType p) (p_SourceCredentials p) of
             None \<Rightarrow> ret p
           | Some grantID \<Rightarrow>
               (case ps_GoogleOAuth s of
                  None \<Rightarrow> fail (ErrInvalidSourceCredentials ''oauth'')
                | Some g \<Rightarrow>
                    attempt (ConsumeGoogleOAuthGrant g grantID customerSlug) (\<lambda>r.
                    case r of
                      Inl e \<Rightarrow> (if errors_Is e ErrOAuthGrantNotFound then fail (ErrInvalidSourceCredentials ''oauth'')
                               else fail (Errorf ''consume oauth grant'' e))
                    | Inr grant \<Rightarrow>
                        andThen (wrapErr ''build oauth credentials'' (lift (storedGoogleOAuthCreds (p_SourceType p)
                            (p_SourceCredentials p) (gr_RefreshToken grant) (gr_Email grant) (gr_ClientID grant))))
                          (\<lambda>stored. ret (p\<lparr>p_SourceCredentials := stored\<rparr>))))))"

subsection \<open>Create, read, update, delete\<close>

definition CreatePipeline :: "'w PipelineService \<Rightarrow> string \<Rightarrow> Pipeline \<Rightarrow> ('w, Pipeline) io" where
  "CreatePipeline s callerID p =
     andThen (wrapErr ''get customer'' (GetWorkspaceByUser (ps_Workspaces s) callerID)) (\<lambda>ws.
     (\<lambda>w. let now = ps_Now s w;
              p1 = p\<lparr>p_CustomerSlug := ws_Slug ws, p_CreatedAt := now, p_UpdatedAt := now,
                     p_WriteDisposition := cmp_Or (p_WriteDisposition p) ''append'', p_Enabled := True\<rparr> in
       andThen (check (ValidateSourceConfig (p_SourceType p1) (p_SourceConfig p1))) (\<lambda>_.
       andThen (check (ValidateSourceCredentials (p_SourceType p1) (p_SourceConfig p1) (p_SourceCredentials p1))) (\<lambda>_.
       andThen (swapGoogleOAuthGrant s (ws_Slug ws) p1) (\<lambda>p2.
       andThen (wrapErr ''create pipeline'' (repo_CreatePipeline (ps_Pipelines s) p2)) (\<lambda>p3.
       andThen (commitOrCompensate s callerID (ws_Slug ws) (repo_DeletePipeline (ps_Pipelines s) (p_ID p3))) (\<lambda>_.
       ret p3))))) w))"

definition ListPipelines :: "'w PipelineService \<Rightarrow> string \<Rightarrow> ('w, Pipeline list) io" where
  "ListPipelines s callerID =
     andThen (wrapErr ''get customer'' (GetWorkspaceByUser (ps_Workspaces s) callerID)) (\<lambda>ws.
     wrapErr ''list pipelines'' (repo_ListPipelinesByCustomer (ps_Pipelines s) (ws_Slug ws)))"

text \<open>The tenancy gate the handlers share: the caller's workspace owns the pipeline.\<close>

definition ownedPipeline :: "'w PipelineService \<Rightarrow> string \<Rightarrow> string \<Rightarrow> ('w, Workspace \<times> Pipeline) io" where
  "ownedPipeline s callerID i =
     andThen (wrapErr ''get customer'' (GetWorkspaceByUser (ps_Workspaces s) callerID)) (\<lambda>ws.
     andThen (wrapErr ''get pipeline'' (repo_GetPipeline (ps_Pipelines s) i)) (\<lambda>p.
     if p_CustomerSlug p \<noteq> ws_Slug ws then fail ErrPipelineNotFound else ret (ws, p)))"

definition GetPipeline :: "'w PipelineService \<Rightarrow> string \<Rightarrow> string \<Rightarrow> ('w, Pipeline \<times> PipelineRun list) io" where
  "GetPipeline s callerID i =
     andThen (ownedPipeline s callerID i) (\<lambda>(ws, p).
     andThen (wrapErr ''list recent runs'' (repo_ListRecentRuns (ps_Pipelines s) i 10)) (\<lambda>runs.
     ret (p, runs)))"

definition resolveUpdateCredentials ::
  "'w PipelineService \<Rightarrow> string \<Rightarrow> Pipeline \<Rightarrow> Pipeline \<Rightarrow> bool \<Rightarrow> ('w, Pipeline) io" where
  "resolveUpdateCredentials s customerSlug p existing clearCredentials =
     (if clearCredentials then ret (p\<lparr>p_SourceCredentials := []\<rparr>)
      else if isEmptyJSON (p_SourceCredentials p) then ret (p\<lparr>p_SourceCredentials := p_SourceCredentials existing\<rparr>)
      else
        andThen (check (ValidateSourceCredentials (p_SourceType p) (p_SourceConfig p) (p_SourceCredentials p))) (\<lambda>_.
        swapGoogleOAuthGrant s customerSlug p))"

definition reclaimCredentials :: "'w PipelineService \<Rightarrow> string \<Rightarrow> ('w, unit) io" where
  "reclaimCredentials s i =
     (case ps_Ownership s of
        None \<Rightarrow> ret ()
      | Some o' \<Rightarrow>
          attempt (SetPipelineCredentialsExternal o' i False) (\<lambda>r.
          case r of
            Inl _ \<Rightarrow> ret ()
          | Inr _ \<Rightarrow> attempt (DeletePipelineCredentialRender o' i) (\<lambda>_. ret ())))"

definition finishUpdate ::
  "'w PipelineService \<Rightarrow> string \<Rightarrow> string \<Rightarrow> Pipeline \<Rightarrow> Pipeline \<Rightarrow> bool \<Rightarrow> ('w, Pipeline) io" where
  "finishUpdate s callerID customerSlug p existing credentialsTouched =
     andThen (if credentialsTouched \<and> p_CredentialsExternal existing then reclaimCredentials s (p_ID p) else ret ()) (\<lambda>_.
     andThen (commitOrCompensate s callerID customerSlug (repo_UpdatePipeline (ps_Pipelines s) existing)) (\<lambda>_.
     ret p))"

text \<open>\<open>clearCredentials\<close> is the option \<^verbatim>\<open>ClearCredentials()\<close>.\<close>

definition UpdatePipeline :: "'w PipelineService \<Rightarrow> string \<Rightarrow> Pipeline \<Rightarrow> bool \<Rightarrow> ('w, Pipeline) io" where
  "UpdatePipeline s callerID p clearCredentials =
     (if clearCredentials \<and> \<not> isEmptyJSON (p_SourceCredentials p) then fail (ErrInvalidSourceCredentials ''source_credentials'')
      else
        andThen (ownedPipeline s callerID (p_ID p)) (\<lambda>(ws, existing).
        (\<lambda>w. let p1 = p\<lparr>p_CustomerSlug := ws_Slug ws, p_UpdatedAt := ps_Now s w\<rparr>;
                 credsProvided = (\<not> isEmptyJSON (p_SourceCredentials p1)) in
          andThen (check (ValidateSourceConfig (p_SourceType p1) (p_SourceConfig p1))) (\<lambda>_.
          andThen (resolveUpdateCredentials s (ws_Slug ws) p1 existing clearCredentials) (\<lambda>p2.
          andThen (wrapErr ''update pipeline'' (repo_UpdatePipeline (ps_Pipelines s) p2)) (\<lambda>_.
          finishUpdate s callerID (ws_Slug ws) p2 existing (credsProvided \<or> clearCredentials)))) w)))"

definition DeletePipeline :: "'w PipelineService \<Rightarrow> string \<Rightarrow> string \<Rightarrow> ('w, unit) io" where
  "DeletePipeline s callerID i =
     andThen (ownedPipeline s callerID i) (\<lambda>(ws, existing).
     andThen (wrapErr ''delete pipeline'' (repo_DeletePipeline (ps_Pipelines s) i)) (\<lambda>_.
     commitOrCompensate s callerID (ws_Slug ws) (repo_CreatePipeline (ps_Pipelines s) existing)))"

subsection \<open>Versions\<close>

definition ListPipelineVersions :: "'w PipelineService \<Rightarrow> string \<Rightarrow> string \<Rightarrow> ('w, PipelineVersion list) io" where
  "ListPipelineVersions s callerID i =
     (case ps_Versions s of
        None \<Rightarrow> fail ErrBoxRepoUnavailable
      | Some v \<Rightarrow>
          andThen (wrapErr ''get customer'' (GetWorkspaceByUser (ps_Workspaces s) callerID)) (\<lambda>ws.
          ListVersions_port v (ws_Slug ws) i))"

definition RestorePipelineVersion :: "'w PipelineService \<Rightarrow> string \<Rightarrow> string \<Rightarrow> string \<Rightarrow> ('w, Pipeline) io" where
  "RestorePipelineVersion s callerID i sha =
     (case ps_Versions s of
        None \<Rightarrow> fail ErrBoxRepoUnavailable
      | Some v \<Rightarrow>
          andThen (ownedPipeline s callerID i) (\<lambda>(ws, current).
          andThen (VersionAt_port v (ws_Slug ws) i sha) (\<lambda>restored.
          if p_SourceType restored \<noteq> p_SourceType current then fail (ErrInvalidSourceConfig ''source_type'')
          else UpdatePipeline s callerID restored False)))"

subsection \<open>Runs\<close>

definition TriggerPipeline :: "'w PipelineService \<Rightarrow> string \<Rightarrow> string \<Rightarrow> ('w, PipelineRun) io" where
  "TriggerPipeline s callerID i =
     andThen (ownedPipeline s callerID i) (\<lambda>(ws, existing).
     andThen (wrapErr ''get pending run'' (repo_GetPendingRun (ps_Pipelines s) i)) (\<lambda>pending.
     case pending of
       Some run \<Rightarrow> ret run
     | None \<Rightarrow>
         (\<lambda>w. wrapErr ''create pipeline run'' (repo_CreatePipelineRun (ps_Pipelines s)
            \<lparr>r_ID = [], r_PipelineID = i, r_Status = ''pending'', r_StartedAt = None, r_CompletedAt = None,
             r_RowsLoaded = 0, r_ErrorMessage = [], r_CreatedAt = ps_Now s w\<rparr>) w)))"

definition shouldNotifyRun :: "'w PipelineService \<Rightarrow> PipelineRun \<Rightarrow> bool" where
  "shouldNotifyRun s run \<longleftrightarrow>
     \<not> (ps_Notifications s = None \<and> ps_Alerts s = None) \<and> (r_Status run = ''success'' \<or> r_Status run = ''failed'')"

text \<open>\<^verbatim>\<open>%q\<close>; bytes of multi-byte characters stand for themselves.\<close>

definition goQuote_char :: "char \<Rightarrow> string" where
  "goQuote_char c =
     (let n = of_char c :: nat in
      if c = CHR 0x22 then [CHR 0x5C, CHR 0x22] else if c = CHR 0x5C then [CHR 0x5C, CHR 0x5C]
      else if n = 7 then [CHR 0x5C, CHR ''a''] else if n = 8 then [CHR 0x5C, CHR ''b'']
      else if n = 9 then [CHR 0x5C, CHR ''t''] else if n = 10 then [CHR 0x5C, CHR ''n'']
      else if n = 11 then [CHR 0x5C, CHR ''v''] else if n = 12 then [CHR 0x5C, CHR ''f'']
      else if n = 13 then [CHR 0x5C, CHR ''r'']
      else if n < 32 \<or> n = 127 then [CHR 0x5C, CHR ''x'', hexdig (n div 16), hexdig (n mod 16)]
      else [c])"

definition goQuote :: "string \<Rightarrow> string" where
  "goQuote s = CHR 0x22 # concat (map goQuote_char s) @ [CHR 0x22]"

definition runNotification :: "Pipeline \<Rightarrow> PipelineRun \<Rightarrow> Notification" where
  "runNotification p run =
     (let (title, body) =
        (if r_Status run = ''failed'' then (''Pipeline '' @ goQuote (p_Name p) @ '' failed'', r_ErrorMessage run)
         else if r_RowsLoaded run > 0
         then (''Pipeline '' @ goQuote (p_Name p) @ '' succeeded'', ''Loaded '' @ itoa (nat (r_RowsLoaded run)) @ '' rows.'')
         else (''Pipeline '' @ goQuote (p_Name p) @ '' succeeded'', [])) in
      \<lparr>n_CustomerSlug = p_CustomerSlug p, n_Type = ''pipeline_run'', n_Title = title, n_Body = body,
       n_Link = ''/pipelines?pipeline='' @ r_PipelineID run, n_ID = [], n_Read = False, n_CreatedAt = 0\<rparr>)"

definition publishRunNotification :: "'w Notifier \<Rightarrow> Pipeline \<Rightarrow> PipelineRun \<Rightarrow> ('w, unit) io" where
  "publishRunNotification n p run = attempt (Notify n (runNotification p run)) (\<lambda>_. ret ())"

definition alertRunFailure :: "'w PipelineService \<Rightarrow> Pipeline \<Rightarrow> PipelineRun \<Rightarrow> ('w, unit) io" where
  "alertRunFailure s p run =
     (case ps_Alerts s of
        None \<Rightarrow> ret ()
      | Some a \<Rightarrow>
          (if r_Status run \<noteq> ''failed'' then ret ()
           else attempt (AlertPipelineFailure a (p_CustomerSlug p) (p_Name p) (r_ErrorMessage run)) (\<lambda>_. ret ())))"

definition notifyRun :: "'w PipelineService \<Rightarrow> PipelineRun \<Rightarrow> ('w, unit) io" where
  "notifyRun s run =
     (if \<not> shouldNotifyRun s run then ret ()
      else
        attempt (repo_GetPipeline (ps_Pipelines s) (r_PipelineID run)) (\<lambda>r.
        case r of
          Inl _ \<Rightarrow> ret ()
        | Inr p \<Rightarrow>
            andThen (case ps_Notifications s of None \<Rightarrow> ret () | Some n \<Rightarrow> publishRunNotification n p run) (\<lambda>_.
            alertRunFailure s p run)))"

definition recordRun :: "'w PipelineService \<Rightarrow> PipelineRun \<Rightarrow> ('w, unit) io" where
  "recordRun s run =
     (if r_ID run \<noteq> [] then
        attempt (repo_UpdatePipelineRun (ps_Pipelines s) run) (\<lambda>r.
        case r of
          Inr _ \<Rightarrow> ret ()
        | Inl e \<Rightarrow>
            (if errors_Is e ErrPipelineRunNotFound
             then andThen (wrapErr ''record pipeline run'' (repo_CreatePipelineRun (ps_Pipelines s) run)) (\<lambda>_. ret ())
             else fail (Errorf ''record pipeline run'' e)))
      else andThen (wrapErr ''create pipeline run'' (repo_CreatePipelineRun (ps_Pipelines s) run)) (\<lambda>_. ret ()))"

definition ReportPipelineRun :: "'w PipelineService \<Rightarrow> string \<Rightarrow> PipelineRun \<Rightarrow> ('w, unit) io" where
  "ReportPipelineRun s callerSlug run =
     andThen
       (if callerSlug = [] then ret ()
        else
          andThen (wrapErr ''get pipeline'' (repo_GetPipeline (ps_Pipelines s) (r_PipelineID run))) (\<lambda>p.
          if p_CustomerSlug p \<noteq> callerSlug then fail ErrPipelineNotFound else ret ()))
     (\<lambda>_. andThen (recordRun s run) (\<lambda>_. notifyRun s run))"

subsection \<open>Serving the worker\<close>

definition resolveUploadStorage :: "'w PipelineService \<Rightarrow> string \<Rightarrow> ('w, S3Config) io" where
  "resolveUploadStorage s customerSlug =
     andThen (wrapErr ''get customer'' (GetWorkspace (ps_Workspaces s) customerSlug)) (\<lambda>ws.
     ret (case uploadStorage ws of Inl _ \<Rightarrow> zeroS3 | Inr s3 \<Rightarrow> s3))"

definition appendFileUploadPipeline :: "Pipeline \<Rightarrow> S3Config \<Rightarrow> Pipeline list \<Rightarrow> Pipeline list" where
  "appendFileUploadPipeline p storage out =
     (case resolveFileUploadPipeline p storage of Inr (Some p') \<Rightarrow> out @ [p'] | _ \<Rightarrow> out)"

text \<open>The loop: the storage is resolved at the first \<^verbatim>\<open>file_upload\<close> pipeline and kept.\<close>

fun serveLoop ::
  "'w PipelineService \<Rightarrow> string \<Rightarrow> S3Config option \<Rightarrow> 'w oauthClientResolver \<Rightarrow> Pipeline list \<Rightarrow> Pipeline list
    \<Rightarrow> ('w, Pipeline list) io" where
  "serveLoop s customerSlug storage oauth [] out = ret out"
| "serveLoop s customerSlug storage oauth (p # ps) out =
     (if p_SourceType p \<noteq> SourceTypeFileUpload then
        (if ps_StripPollCredentials s then serveLoop s customerSlug storage oauth ps (out @ [p\<lparr>p_SourceCredentials := []\<rparr>])
         else
           andThen (inject oauth p) (\<lambda>(injected, oauth').
           serveLoop s customerSlug storage oauth' ps
             (out @ [case injected of Some c \<Rightarrow> p\<lparr>p_SourceCredentials := c\<rparr> | None \<Rightarrow> p])))
      else
        andThen (case storage of Some s3 \<Rightarrow> ret s3 | None \<Rightarrow> resolveUploadStorage s customerSlug) (\<lambda>s3.
        serveLoop s customerSlug (Some s3) oauth ps
          (if s3_Bucket s3 = [] then out else appendFileUploadPipeline p s3 out)))"

definition GetEnabledPipelines :: "'w PipelineService \<Rightarrow> string \<Rightarrow> ('w, Pipeline list) io" where
  "GetEnabledPipelines s customerSlug =
     andThen (wrapErr ''get enabled pipelines'' (repo_GetEnabledPipelines (ps_Pipelines s) customerSlug)) (\<lambda>pipelines.
     serveLoop s customerSlug None (newOAuthClientResolver (ps_OAuthClients s) (ps_Connections s) customerSlug) pipelines [])"

subsection \<open>What the handlers keep\<close>

text \<open>
  The ports as a caller of one workspace \<open>c\<close> meets them: each keeps an invariant \<open>I\<close> of the world,
  writes to a pipeline row only under an id in \<open>own\<close>, and an id read back as the workspace's is in
  \<open>own\<close>. Every handler then keeps \<open>I\<close>, on success and on every error path. The locale is instantiated
  with the rows of the other tenants (\<open>own\<close>: ids no other tenant has) and with the schema invariant.
\<close>

locale service_ports =
  fixes s :: "'w PipelineService" and caller :: string and c :: string and I :: "'w \<Rightarrow> bool" and own :: "string set"
  assumes by_user: "safe I (GetWorkspaceByUser (ps_Workspaces s) caller) (\<lambda>ws. ws_Slug ws = c)"
    and by_slug: "keeps I (GetWorkspace (ps_Workspaces s) c)"
    and get: "safe I (repo_GetPipeline (ps_Pipelines s) i) (\<lambda>p. p_ID p = i \<and> (p_CustomerSlug p = c \<longrightarrow> i \<in> own))"
    and list: "safe I (repo_ListPipelinesByCustomer (ps_Pipelines s) c) (\<lambda>ps. \<forall>p \<in> set ps. p_CustomerSlug p = c)"
    and create: "p_CustomerSlug p = c \<Longrightarrow> safe I (repo_CreatePipeline (ps_Pipelines s) p) (\<lambda>q. p_CustomerSlug q = c \<and> p_ID q \<in> own)"
    and update: "p_ID p \<in> own \<Longrightarrow> keeps I (repo_UpdatePipeline (ps_Pipelines s) p)"
    and delete: "i \<in> own \<Longrightarrow> keeps I (repo_DeletePipeline (ps_Pipelines s) i)"
    and enabled: "safe I (repo_GetEnabledPipelines (ps_Pipelines s) c) (\<lambda>ps. \<forall>p \<in> set ps. p_CustomerSlug p = c)"
    and create_run: "keeps I (repo_CreatePipelineRun (ps_Pipelines s) run)"
    and update_run: "keeps I (repo_UpdatePipelineRun (ps_Pipelines s) run)"
    and recent: "keeps I (repo_ListRecentRuns (ps_Pipelines s) i n)"
    and pending: "keeps I (repo_GetPendingRun (ps_Pipelines s) i)"
    and sync: "ps_Mirror s = Some mi \<Longrightarrow> keeps I (SyncCustomer_port mi c a)"
    and user_info: "ps_Users s = Some g \<Longrightarrow> keeps I (g caller)"
    and versions: "ps_Versions s = Some v \<Longrightarrow> keeps I (ListVersions_port v c i)"
    and version_at: "ps_Versions s = Some v \<Longrightarrow> keeps I (VersionAt_port v c i sha)"
    and external: "ps_Ownership s = Some ow \<Longrightarrow> i \<in> own \<Longrightarrow> keeps I (SetPipelineCredentialsExternal ow i b)"
    and forget: "ps_Ownership s = Some ow \<Longrightarrow> keeps I (DeletePipelineCredentialRender ow i)"
    and consume: "ps_GoogleOAuth s = Some gs \<Longrightarrow> keeps I (ConsumeGoogleOAuthGrant gs i c)"
    and client: "ps_OAuthClients s = Some cl \<Longrightarrow> keeps I (GetOAuthClient cl c OAuthProviderGoogle)"
    and connection: "ps_Connections s = Some cn \<Longrightarrow> keeps I (GetConnection cn c i)"
    and notify: "ps_Notifications s = Some nt \<Longrightarrow> keeps I (Notify nt note)"
    and alert: "ps_Alerts s = Some al \<Longrightarrow> keeps I (AlertPipelineFailure al d e f)"
begin

lemma resolveCommitAuthor_safe: "keeps I (resolveCommitAuthor (ps_Users s) caller)"
  unfolding resolveCommitAuthor_def Let_def
  by (rule safe_rules user_info TrueI | assumption)+

lemma commitMirror_safe: "keeps I (commitMirror s caller c)"
  unfolding commitMirror_def by (rule safe_rules resolveCommitAuthor_safe sync TrueI | assumption)+

lemma commitOrCompensate_safe: "keeps I undo \<Longrightarrow> keeps I (commitOrCompensate s caller c undo)"
  unfolding commitOrCompensate_def by (rule safe_rules commitMirror_safe TrueI | assumption | simp)+

lemma checkGoogleConnection_safe: "keeps I (checkGoogleConnection s c t i)"
  unfolding checkGoogleConnection_def by (rule safe_rules connection TrueI | assumption | simp)+

lemma swapGoogleOAuthGrant_safe:
  "safe I (swapGoogleOAuthGrant s c p) (\<lambda>q. p_ID q = p_ID p \<and> p_CustomerSlug q = p_CustomerSlug p)"
  unfolding swapGoogleOAuthGrant_def
  by (rule safe_rules checkGoogleConnection_safe consume | assumption | simp (no_asm))+

lemma CreatePipeline_safe: "safe I (CreatePipeline s caller p) (\<lambda>q. p_CustomerSlug q = c)"
  unfolding CreatePipeline_def Let_def
  by (rule safe_andThen [OF safe_wrapErr [OF by_user]], rule safe_andThen_now)
    (rule safe_rules swapGoogleOAuthGrant_safe create commitOrCompensate_safe delete | simp)+

lemma ListPipelines_safe: "safe I (ListPipelines s caller) (\<lambda>ps. \<forall>p \<in> set ps. p_CustomerSlug p = c)"
  unfolding ListPipelines_def by (rule safe_rules by_user | simp add: list)+

lemma ownedPipeline_safe:
  "safe I (ownedPipeline s caller i) (\<lambda>(ws, p). ws_Slug ws = c \<and> p_ID p = i \<and> p_CustomerSlug p = c \<and> i \<in> own)"
  unfolding ownedPipeline_def by (rule safe_rules by_user get | simp)+

lemma GetPipeline_safe: "safe I (GetPipeline s caller i) (\<lambda>(p, _). p_ID p = i \<and> p_CustomerSlug p = c)"
  unfolding GetPipeline_def by (rule safe_rules ownedPipeline_safe recent | simp)+

lemma resolveUpdateCredentials_safe:
  "p_CustomerSlug p = c \<Longrightarrow> safe I (resolveUpdateCredentials s c p ex cl) (\<lambda>q. p_ID q = p_ID p \<and> p_CustomerSlug q = c)"
  unfolding resolveUpdateCredentials_def
  by (rule safe_rules safe_weaken [OF swapGoogleOAuthGrant_safe] | simp)+

lemma reclaimCredentials_safe: "i \<in> own \<Longrightarrow> keeps I (reclaimCredentials s i)"
  unfolding reclaimCredentials_def by (rule safe_rules external forget TrueI | assumption | simp)+

lemma finishUpdate_safe:
  assumes "p_ID p \<in> own" "p_ID ex \<in> own" "p_CustomerSlug p = c"
  shows "safe I (finishUpdate s caller c p ex touched) (\<lambda>q. p_CustomerSlug q = c)"
  unfolding finishUpdate_def
  by (rule safe_andThen [where P = "\<lambda>_. True"] safe_rules reclaimCredentials_safe commitOrCompensate_safe update TrueI | simp add: assms)+

lemma UpdatePipeline_safe: "safe I (UpdatePipeline s caller p cl) (\<lambda>q. p_CustomerSlug q = c)"
  unfolding UpdatePipeline_def Let_def
  by (rule safe_if safe_fail safe_andThen [OF ownedPipeline_safe] safe_prod)+ (rule safe_andThen_now,
    (rule safe_rules resolveUpdateCredentials_safe update finishUpdate_safe | simp)+)

lemma DeletePipeline_safe: "keeps I (DeletePipeline s caller i)"
  unfolding DeletePipeline_def
  by (rule safe_rules ownedPipeline_safe delete commitOrCompensate_safe safe_weaken [OF create] | simp)+

lemma ListPipelineVersions_safe: "keeps I (ListPipelineVersions s caller i)"
  unfolding ListPipelineVersions_def by (rule safe_rules by_user | simp add: versions)+

lemma RestorePipelineVersion_safe: "safe I (RestorePipelineVersion s caller i sha) (\<lambda>q. p_CustomerSlug q = c)"
  unfolding RestorePipelineVersion_def
  by (rule safe_rules ownedPipeline_safe UpdatePipeline_safe version_at | assumption | simp)+

lemma TriggerPipeline_safe: "keeps I (TriggerPipeline s caller i)"
  unfolding TriggerPipeline_def
  by (rule safe_rules ownedPipeline_safe pending safe_now [OF safe_wrapErr [OF create_run]] TrueI)+

lemma notifyRun_safe: "keeps I (notifyRun s run)"
  unfolding notifyRun_def publishRunNotification_def alertRunFailure_def
  by (rule safe_andThen [where P = "\<lambda>_. True"] safe_rules get notify alert TrueI | assumption)+

lemma recordRun_safe: "keeps I (recordRun s run)"
  unfolding recordRun_def by (rule safe_rules update_run create_run TrueI | assumption | simp)+

lemma ReportPipelineRun_safe: "keeps I (ReportPipelineRun s slug run)"
  unfolding ReportPipelineRun_def
  by (rule safe_andThen [where P = "\<lambda>_. True"] safe_rules safe_weaken [OF get] recordRun_safe notifyRun_safe TrueI | assumption)+

end

sublocale service_ports < served: oauth_ports "ps_OAuthClients s" "ps_Connections s" c I
  by unfold_locales (fact client, fact connection)

context service_ports
begin

lemma resolveUploadStorage_safe: "keeps I (resolveUploadStorage s c)"
  unfolding resolveUploadStorage_def by (rule safe_rules by_slug TrueI)+

lemma appendFileUploadPipeline_slug:
  "p_CustomerSlug p = c \<Longrightarrow> \<forall>q \<in> set out. p_CustomerSlug q = c \<Longrightarrow>
   \<forall>q \<in> set (appendFileUploadPipeline p s3 out). p_CustomerSlug q = c"
  by (auto simp: appendFileUploadPipeline_def resolveFileUploadPipeline_def Let_def split: sum.splits option.splits if_splits)

lemma serveLoop_safe:
  "served.wired oauth \<Longrightarrow> \<forall>p \<in> set ps \<union> set out. p_CustomerSlug p = c \<Longrightarrow>
   safe I (serveLoop s c storage oauth ps out) (\<lambda>qs. \<forall>q \<in> set qs. p_CustomerSlug q = c)"
proof (induction ps arbitrary: storage oauth out)
  case Nil
  then show ?case by (auto intro: safe_ret)
next
  case (Cons p ps)
  have up: "safe I (serveLoop s c (Some s3) oauth ps (if s3_Bucket s3 = [] then out else appendFileUploadPipeline p s3 out))
      (\<lambda>qs. \<forall>q \<in> set qs. p_CustomerSlug q = c)" for s3
    by (rule Cons.IH) (use Cons.prems appendFileUploadPipeline_slug [of p out s3] in \<open>simp_all add: ball_Un\<close>)
  have strip: "safe I (serveLoop s c storage oauth ps (out @ [p\<lparr>p_SourceCredentials := []\<rparr>])) (\<lambda>qs. \<forall>q \<in> set qs. p_CustomerSlug q = c)"
    by (rule Cons.IH) (use Cons.prems in \<open>simp_all add: ball_Un\<close>)
  have inj: "safe I (serveLoop s c storage oauth' ps (out @ [case x of Some d \<Rightarrow> p\<lparr>p_SourceCredentials := d\<rparr> | None \<Rightarrow> p]))
      (\<lambda>qs. \<forall>q \<in> set qs. p_CustomerSlug q = c)" if "served.wired oauth'" for oauth' x
    by (rule Cons.IH) (use Cons.prems that in \<open>simp_all add: ball_Un split: option.splits\<close>)
  have st: "keeps I (case storage of Some s3 \<Rightarrow> ret s3 | None \<Rightarrow> resolveUploadStorage s c)"
    by (intro safe_option safe_ret resolveUploadStorage_safe TrueI)
  show ?case unfolding serveLoop.simps
    by (intro safe_if strip safe_andThen [OF served.inject_safe [OF Cons.prems(1)]] safe_andThen [OF st] safe_prod inj up) simp
qed

lemma GetEnabledPipelines_safe: "safe I (GetEnabledPipelines s c) (\<lambda>qs. \<forall>q \<in> set qs. p_CustomerSlug q = c)"
  unfolding GetEnabledPipelines_def
  by (rule safe_rules enabled serveLoop_safe served.wired_new | simp)+

end

end
