(* ===== verification/Transformations.thy ===== *)
theory Transformations
  imports TransformationStore PipelineService
begin

section \<open>The transformation service (\<^verbatim>\<open>workspace/transformation.go\<close>)\<close>

text \<open>
  The handlers of the Console and of the worker for transformations: the second plane, built like the
  pipelines' with the same commit-or-compensate tail. A trigger pipeline must be one of the caller's
  workspace. Definitions whose Go name the pipeline service also uses end in \<open>_t\<close>.
\<close>

record 'w TransformationService =
  ts_Workspaces :: "'w Resolver"
  ts_Transformations :: "'w TransformationRepository"
  ts_Pipelines :: "string \<Rightarrow> ('w, Pipeline) io"
  ts_Notifications :: "'w Notifier option"
  ts_Mirror :: "'w PipelineMirrorer option"
  ts_Users :: "(string \<Rightarrow> ('w, UserInfo) io) option"
  ts_Now :: "'w \<Rightarrow> int"

subsection \<open>The commit tail\<close>

definition commitMirror_t :: "'w TransformationService \<Rightarrow> string \<Rightarrow> string \<Rightarrow> ('w, unit) io" where
  "commitMirror_t s callerID customerSlug =
     (case ts_Mirror s of
        None \<Rightarrow> ret ()
      | Some mirror \<Rightarrow>
          andThen (resolveCommitAuthor (ts_Users s) callerID) (\<lambda>author.
          wrapErr ''commit definitions to the box repo'' (SyncCustomer_port mirror customerSlug author)))"

definition commitOrCompensate_t ::
  "'w TransformationService \<Rightarrow> string \<Rightarrow> string \<Rightarrow> ('w, 'x) io \<Rightarrow> ('w, unit) io" where
  "commitOrCompensate_t s callerID customerSlug compensate =
     attempt (commitMirror_t s callerID customerSlug) (\<lambda>r.
     case r of
       Inr _ \<Rightarrow> ret ()
     | Inl e \<Rightarrow> attempt compensate (\<lambda>_. fail e))"

definition validateTrigger :: "'w TransformationService \<Rightarrow> string \<Rightarrow> string \<Rightarrow> ('w, unit) io" where
  "validateTrigger s customerSlug i =
     (if i = [] then ret ()
      else
        andThen (wrapErr ''get trigger pipeline'' (ts_Pipelines s i)) (\<lambda>p.
        if p_CustomerSlug p \<noteq> customerSlug then fail ErrPipelineNotFound else ret ()))"

subsection \<open>Create, read, update, delete\<close>

definition CreateTransformation :: "'w TransformationService \<Rightarrow> string \<Rightarrow> Transformation \<Rightarrow> ('w, Transformation) io" where
  "CreateTransformation s callerID t =
     andThen (wrapErr ''get customer'' (GetWorkspaceByUser (ts_Workspaces s) callerID)) (\<lambda>ws.
     (\<lambda>w. let now = ts_Now s w;
              t1 = t\<lparr>tf_CustomerSlug := ws_Slug ws, tf_CreatedAt := now, tf_UpdatedAt := now,
                     tf_RepoRef := (if tf_RepoRef t = [] then ''main'' else tf_RepoRef t), tf_Enabled := True\<rparr> in
       andThen (validateTrigger s (ws_Slug ws) (tf_TriggerAfterPipelineID t1)) (\<lambda>_.
       andThen (wrapErr ''create transformation'' (repo_CreateTransformation (ts_Transformations s) t1)) (\<lambda>t2.
       andThen (commitOrCompensate_t s callerID (ws_Slug ws) (repo_DeleteTransformation (ts_Transformations s) (tf_ID t2))) (\<lambda>_.
       ret t2))) w))"

definition ListTransformations :: "'w TransformationService \<Rightarrow> string \<Rightarrow> ('w, Transformation list) io" where
  "ListTransformations s callerID =
     andThen (wrapErr ''get customer'' (GetWorkspaceByUser (ts_Workspaces s) callerID)) (\<lambda>ws.
     wrapErr ''list transformations'' (repo_ListTransformationsByCustomer (ts_Transformations s) (ws_Slug ws)))"

text \<open>The tenancy gate the handlers share.\<close>

definition ownedTransformation :: "'w TransformationService \<Rightarrow> string \<Rightarrow> string \<Rightarrow> ('w, Workspace \<times> Transformation) io" where
  "ownedTransformation s callerID i =
     andThen (wrapErr ''get customer'' (GetWorkspaceByUser (ts_Workspaces s) callerID)) (\<lambda>ws.
     andThen (wrapErr ''get transformation'' (repo_GetTransformation (ts_Transformations s) i)) (\<lambda>t.
     if tf_CustomerSlug t \<noteq> ws_Slug ws then fail ErrTransformationNotFound else ret (ws, t)))"

definition GetTransformation :: "'w TransformationService \<Rightarrow> string \<Rightarrow> string \<Rightarrow> ('w, Transformation \<times> TransformationRun list) io" where
  "GetTransformation s callerID i =
     andThen (ownedTransformation s callerID i) (\<lambda>(ws, t).
     andThen (wrapErr ''list recent runs'' (repo_ListRecentTransformationRuns (ts_Transformations s) i 10)) (\<lambda>runs.
     ret (t, runs)))"

definition UpdateTransformation :: "'w TransformationService \<Rightarrow> string \<Rightarrow> Transformation \<Rightarrow> ('w, Transformation) io" where
  "UpdateTransformation s callerID t =
     andThen (ownedTransformation s callerID (tf_ID t)) (\<lambda>(ws, existing).
     (\<lambda>w. let t1 = t\<lparr>tf_CustomerSlug := ws_Slug ws, tf_UpdatedAt := ts_Now s w,
                     tf_RepoRef := (if tf_RepoRef t = [] then ''main'' else tf_RepoRef t)\<rparr> in
       andThen (validateTrigger s (ws_Slug ws) (tf_TriggerAfterPipelineID t1)) (\<lambda>_.
       let t2 = (if isEmptyJSON (tf_GitCredentials t1) then t1\<lparr>tf_GitCredentials := tf_GitCredentials existing\<rparr> else t1) in
       andThen (wrapErr ''update transformation'' (repo_UpdateTransformation (ts_Transformations s) t2)) (\<lambda>_.
       andThen (commitOrCompensate_t s callerID (ws_Slug ws) (repo_UpdateTransformation (ts_Transformations s) existing)) (\<lambda>_.
       ret t2))) w))"

definition DeleteTransformation :: "'w TransformationService \<Rightarrow> string \<Rightarrow> string \<Rightarrow> ('w, unit) io" where
  "DeleteTransformation s callerID i =
     andThen (ownedTransformation s callerID i) (\<lambda>(ws, existing).
     andThen (wrapErr ''delete transformation'' (repo_DeleteTransformation (ts_Transformations s) i)) (\<lambda>_.
     commitOrCompensate_t s callerID (ws_Slug ws) (repo_CreateTransformation (ts_Transformations s) existing)))"

subsection \<open>Runs\<close>

definition TriggerTransformation :: "'w TransformationService \<Rightarrow> string \<Rightarrow> string \<Rightarrow> ('w, TransformationRun) io" where
  "TriggerTransformation s callerID i =
     andThen (ownedTransformation s callerID i) (\<lambda>(ws, existing).
     (\<lambda>w. wrapErr ''create transformation run'' (repo_CreateTransformationRun (ts_Transformations s)
        \<lparr>tn_ID = [], tn_TransformationID = i, tn_Status = ''pending'', tn_StartedAt = None, tn_CompletedAt = None,
         tn_CommitSHA = [], tn_ModelsTotal = 0, tn_ModelsFailed = 0, tn_TestsTotal = 0, tn_TestsFailed = 0,
         tn_ModelResults = [], tn_ErrorMessage = [], tn_CreatedAt = ts_Now s w\<rparr>) w))"

definition GetEnabledTransformations :: "'w TransformationService \<Rightarrow> string \<Rightarrow> ('w, Transformation list) io" where
  "GetEnabledTransformations s customerSlug =
     wrapErr ''get enabled transformations'' (repo_GetEnabledTransformations (ts_Transformations s) customerSlug)"

text \<open>\<^verbatim>\<open>%d\<close> of an \<^verbatim>\<open>int32\<close>.\<close>

definition itoa32 :: "32 word \<Rightarrow> string" where
  "itoa32 n = (if sint n < 0 then ''-'' @ itoa (nat (- sint n)) else itoa (nat (sint n)))"

text \<open>The sums and differences are of \<^verbatim>\<open>int32\<close> and wrap.\<close>

definition transformationRunNotificationText :: "string \<Rightarrow> TransformationRun \<Rightarrow> string \<times> string" where
  "transformationRunNotificationText name run =
     (if tn_Status run = ''failed'' then
        (''Transformation '' @ goQuote name @ '' failed'',
         if tn_ErrorMessage run = [] \<and> sint (tn_ModelsFailed run + tn_TestsFailed run) > 0
         then itoa32 (tn_ModelsFailed run) @ '' models and '' @ itoa32 (tn_TestsFailed run) @ '' tests failed.''
         else tn_ErrorMessage run)
      else
        (''Transformation '' @ goQuote name @ '' succeeded'',
         if sint (tn_ModelsTotal run) > 0
         then ''Built '' @ itoa32 (tn_ModelsTotal run) @ '' models, '' @ itoa32 (tn_TestsTotal run - tn_TestsFailed run) @ '' tests passed.''
         else []))"

definition notifyRun_t :: "'w TransformationService \<Rightarrow> TransformationRun \<Rightarrow> ('w, unit) io" where
  "notifyRun_t s run =
     (case ts_Notifications s of
        None \<Rightarrow> ret ()
      | Some n \<Rightarrow>
          (if tn_Status run \<noteq> ''success'' \<and> tn_Status run \<noteq> ''failed'' then ret ()
           else
             attempt (repo_GetTransformation (ts_Transformations s) (tn_TransformationID run)) (\<lambda>r.
             case r of
               Inl _ \<Rightarrow> ret ()
             | Inr t \<Rightarrow>
                 (let (title, body) = transformationRunNotificationText (tf_Name t) run in
                  attempt (Notify n \<lparr>n_CustomerSlug = tf_CustomerSlug t, n_Type = ''transformation_run'', n_Title = title,
                    n_Body = body, n_Link = ''transformations'', n_ID = [], n_Read = False, n_CreatedAt = 0\<rparr>) (\<lambda>_. ret ())))))"

definition recordRun_t :: "'w TransformationService \<Rightarrow> TransformationRun \<Rightarrow> ('w, unit) io" where
  "recordRun_t s run =
     (if tn_ID run \<noteq> [] then
        attempt (repo_UpdateTransformationRun (ts_Transformations s) run) (\<lambda>r.
        case r of
          Inr _ \<Rightarrow> ret ()
        | Inl e \<Rightarrow>
            (if errors_Is e ErrTransformationRunNotFound
             then andThen (wrapErr ''record transformation run'' (repo_CreateTransformationRun (ts_Transformations s) run)) (\<lambda>_. ret ())
             else fail (Errorf ''record transformation run'' e)))
      else andThen (wrapErr ''create transformation run'' (repo_CreateTransformationRun (ts_Transformations s) run)) (\<lambda>_. ret ()))"

definition ReportTransformationRun :: "'w TransformationService \<Rightarrow> string \<Rightarrow> TransformationRun \<Rightarrow> ('w, unit) io" where
  "ReportTransformationRun s callerSlug run =
     andThen
       (if callerSlug = [] then ret ()
        else
          andThen (wrapErr ''get transformation'' (repo_GetTransformation (ts_Transformations s) (tn_TransformationID run))) (\<lambda>t.
          if tf_CustomerSlug t \<noteq> callerSlug then fail ErrTransformationNotFound else ret ()))
     (\<lambda>_. andThen (recordRun_t s run) (\<lambda>_. notifyRun_t s run))"

subsection \<open>What the handlers keep\<close>

text \<open>
  The ports as a caller of one workspace \<open>c\<close> meets them: each keeps the invariant \<open>I\<close>; a row is written for the
  workspace or under an id of \<open>own\<close>, and its trigger is of \<open>chain\<close>; an id or a trigger read back as the workspace's
  is of \<open>own\<close> or of \<open>chain\<close>.
\<close>

locale transformation_ports =
  fixes s :: "'w TransformationService" and caller :: string and c :: string and I :: "'w \<Rightarrow> bool"
    and own :: "string set" and chain :: "string set"
  assumes by_user: "safe I (GetWorkspaceByUser (ts_Workspaces s) caller) (\<lambda>ws. ws_Slug ws = c)"
    and pipeline: "safe I (ts_Pipelines s i) (\<lambda>p. p_CustomerSlug p = c \<longrightarrow> i \<in> chain)"
    and no_trigger: "[] \<in> chain"
    and get: "safe I (repo_GetTransformation (ts_Transformations s) i)
      (\<lambda>t. tf_ID t = i \<and> (tf_CustomerSlug t = c \<longrightarrow> i \<in> own \<and> tf_TriggerAfterPipelineID t \<in> chain))"
    and list: "keeps I (repo_ListTransformationsByCustomer (ts_Transformations s) c)"
    and create: "tf_CustomerSlug t = c \<Longrightarrow> tf_TriggerAfterPipelineID t \<in> chain \<Longrightarrow>
      safe I (repo_CreateTransformation (ts_Transformations s) t) (\<lambda>t'. tf_CustomerSlug t' = c \<and> tf_ID t' \<in> own)"
    and update: "tf_ID t \<in> own \<Longrightarrow> tf_TriggerAfterPipelineID t \<in> chain \<Longrightarrow> keeps I (repo_UpdateTransformation (ts_Transformations s) t)"
    and delete: "i \<in> own \<Longrightarrow> keeps I (repo_DeleteTransformation (ts_Transformations s) i)"
    and enabled: "keeps I (repo_GetEnabledTransformations (ts_Transformations s) c)"
    and create_run: "keeps I (repo_CreateTransformationRun (ts_Transformations s) run)"
    and update_run: "keeps I (repo_UpdateTransformationRun (ts_Transformations s) run)"
    and recent: "keeps I (repo_ListRecentTransformationRuns (ts_Transformations s) i n)"
    and sync: "ts_Mirror s = Some mi \<Longrightarrow> keeps I (SyncCustomer_port mi c a)"
    and user_info: "ts_Users s = Some g \<Longrightarrow> keeps I (g caller)"
    and notify: "ts_Notifications s = Some nt \<Longrightarrow> keeps I (Notify nt note)"
begin

lemma resolveCommitAuthor_safe: "keeps I (resolveCommitAuthor (ts_Users s) caller)"
  unfolding resolveCommitAuthor_def Let_def by (rule safe_rules user_info TrueI | assumption)+

lemma commitMirror_safe: "keeps I (commitMirror_t s caller c)"
  unfolding commitMirror_t_def by (rule safe_rules resolveCommitAuthor_safe sync TrueI | assumption)+

lemma commitOrCompensate_safe: "keeps I undo \<Longrightarrow> keeps I (commitOrCompensate_t s caller c undo)"
  unfolding commitOrCompensate_t_def by (rule safe_rules commitMirror_safe TrueI | assumption | simp)+

lemma validateTrigger_safe: "safe I (validateTrigger s c i) (\<lambda>_. i \<in> chain)"
  unfolding validateTrigger_def by (rule safe_rules pipeline | simp add: no_trigger)+

lemma CreateTransformation_safe: "safe I (CreateTransformation s caller t) (\<lambda>t'. tf_CustomerSlug t' = c)"
  unfolding CreateTransformation_def Let_def
  by (rule safe_andThen [OF safe_wrapErr [OF by_user]], rule safe_andThen_now)
    (rule safe_rules validateTrigger_safe create commitOrCompensate_safe delete | simp)+

lemma ListTransformations_safe: "keeps I (ListTransformations s caller)"
  unfolding ListTransformations_def by (rule safe_rules by_user | simp add: list)+

lemma ownedTransformation_safe:
  "safe I (ownedTransformation s caller i)
     (\<lambda>(ws, t). ws_Slug ws = c \<and> tf_ID t = i \<and> tf_CustomerSlug t = c \<and> i \<in> own \<and> tf_TriggerAfterPipelineID t \<in> chain)"
  unfolding ownedTransformation_def by (rule safe_rules by_user get | simp)+

lemma GetTransformation_safe: "safe I (GetTransformation s caller i) (\<lambda>(t, _). tf_ID t = i \<and> tf_CustomerSlug t = c)"
  unfolding GetTransformation_def by (rule safe_rules ownedTransformation_safe recent | simp)+

lemma UpdateTransformation_safe: "keeps I (UpdateTransformation s caller t)"
  unfolding UpdateTransformation_def Let_def
  by (rule safe_andThen [OF ownedTransformation_safe] safe_prod)+ (rule safe_andThen_now,
    (rule safe_rules validateTrigger_safe update commitOrCompensate_safe | simp)+)

lemma DeleteTransformation_safe: "keeps I (DeleteTransformation s caller i)"
  unfolding DeleteTransformation_def
  by (rule safe_rules ownedTransformation_safe delete commitOrCompensate_safe safe_weaken [OF create] | simp)+

lemma TriggerTransformation_safe: "keeps I (TriggerTransformation s caller i)"
  unfolding TriggerTransformation_def
  by (rule safe_rules ownedTransformation_safe safe_now [OF safe_wrapErr [OF create_run]] TrueI)+

lemma GetEnabledTransformations_safe: "keeps I (GetEnabledTransformations s c)"
  unfolding GetEnabledTransformations_def by (rule safe_wrapErr [OF enabled])

lemma notifyRun_safe: "keeps I (notifyRun_t s run)"
  unfolding notifyRun_t_def by (rule safe_rules get notify TrueI | assumption)+

lemma recordRun_safe: "keeps I (recordRun_t s run)"
  unfolding recordRun_t_def by (rule safe_rules update_run create_run TrueI | assumption | simp)+

lemma ReportTransformationRun_safe: "keeps I (ReportTransformationRun s slug run)"
  unfolding ReportTransformationRun_def
  by (rule safe_andThen [where P = "\<lambda>_. True"] safe_rules safe_weaken [OF get] recordRun_safe notifyRun_safe TrueI | assumption)+

end

end
