(* ===== verification/PipelineMirror.thy ===== *)
theory PipelineMirror
  imports Connections Contracts
begin

section \<open>The pipeline mirror (\<^verbatim>\<open>workspace/pipelinemirror.go\<close>)\<close>

text \<open>
  The converge of a box's pipelines repository to the customer's pipelines: file names, the rendered
  definitions, the age-encrypted credential files, and the puts and deletes that bring the repository
  there. The YAML codec, age encryption and the git host are ports: \<open>YAML\<close>, \<open>m_encryptAge\<close> and
  \<open>RepoFileClient\<close>. Go maps are association lists. What a \<^verbatim>\<open>map[string]any\<close> holds is a JSON value
  with its object keys sorted; numbers keep their literals. The mirror's two in-memory
  \<^verbatim>\<open>importSkips\<close> tables are cells of the world.
\<close>

subsection \<open>Definition files\<close>

record pipelineFile =
  pf_ID :: string
  pf_Name :: string
  pf_SourceType :: string
  pf_SourceConfig :: "(string \<times> json) list"
  pf_DatasetName :: string
  pf_Schedule :: string
  pf_WriteDisposition :: string
  pf_MergeStrategy :: string
  pf_Enabled :: bool

record YAML =
  y_Marshal :: "pipelineFile \<Rightarrow> err + string"
  y_Unmarshal :: "string \<Rightarrow> err + pipelineFile"

record definitionFile =
  df_pipelineID :: string
  df_content :: string

record credentialFile =
  cf_pipelineID :: string
  cf_plaintext :: raw
  cf_external :: bool

definition pipelinesRepo :: string where "pipelinesRepo = ''pipelines''"

definition pipelineFileHeader :: string where
  "pipelineFileHeader = ''# Rendered by the FairTier Console '' @ [CHR 0xE2, CHR 0x80, CHR 0x94] @
     '' a Console save overwrites this file.'' @ [CHR 0x0A]"

definition credentialFingerprintContext :: string where
  "credentialFingerprintContext = ''pipeline-credentials-v1''"

text \<open>The loop of \<^verbatim>\<open>nameFileSlug\<close> over the lowercased name.\<close>

fun slug_loop :: "bool \<Rightarrow> string \<Rightarrow> string" where
  "slug_loop lastDash [] = []"
| "slug_loop lastDash (c # s) =
     (if is_lower c \<or> is_digit c then c # slug_loop False s
      else if \<not> lastDash then CHR ''-'' # slug_loop True s
      else slug_loop lastDash s)"

definition nameFileSlug :: "string \<Rightarrow> string" where
  "nameFileSlug name = trim_by (\<lambda>c. c = CHR ''-'') (slug_loop True (ToLower name))"

definition shortID :: "string \<Rightarrow> string" where
  "shortID i = (if length i > 8 then take 8 i else i)"

definition pipelineFileSlug :: "Pipeline \<Rightarrow> string" where
  "pipelineFileSlug p = cmp_Or (nameFileSlug (p_Name p)) (shortID (p_ID p))"

definition suffixedSlug :: "Pipeline list \<Rightarrow> Pipeline \<Rightarrow> string" where
  "suffixedSlug ps p =
     (let slug = pipelineFileSlug p in
      if length (filter (\<lambda>q. pipelineFileSlug q = slug) ps) > 1 then slug @ ''-'' @ shortID (p_ID p) else slug)"

definition pipelineFileSlugs :: "Pipeline list \<Rightarrow> (string \<times> string) list" where
  "pipelineFileSlugs ps = fold (\<lambda>p m. AList.update (p_ID p) (suffixedSlug ps p) m) ps []"

text \<open>A value decoded into \<^verbatim>\<open>any\<close>: objects are maps.\<close>

fun canon :: "json \<Rightarrow> json" where
  "canon (JArr vs) = JArr (map canon vs)"
| "canon (JObj ms) = jmap (fold (\<lambda>(k, v) m. AList.update k v m) (map (\<lambda>(k, v). (unquote k, canon v)) ms) [])"
| "canon (JStr b) = jstr (unquote b)"
| "canon j = j"

definition d_anyv :: "json decoder" where
  "d_anyv v cur = Some (canon v)"

definition renderPipelineFile :: "YAML \<Rightarrow> Pipeline \<Rightarrow> err + string" where
  "renderPipelineFile Y p =
     (case (if isEmptyJSON (p_SourceConfig p) then Some [] else Unmarshal (d_map JNull d_anyv) [] (p_SourceConfig p)) of
        None \<Rightarrow> Inl (ErrNew ''unmarshal source config'')
      | Some cfg \<Rightarrow>
          (case y_Marshal Y \<lparr>pf_ID = p_ID p, pf_Name = p_Name p, pf_SourceType = p_SourceType p, pf_SourceConfig = cfg,
               pf_DatasetName = p_DatasetName p, pf_Schedule = p_Schedule p, pf_WriteDisposition = p_WriteDisposition p,
               pf_MergeStrategy = p_MergeStrategy p, pf_Enabled = p_Enabled p\<rparr> of
             Inl e \<Rightarrow> Inl (Errorf ''marshal'' e)
           | Inr out \<Rightarrow> Inr (pipelineFileHeader @ out)))"

definition yamlPath :: "string \<Rightarrow> string" where
  "yamlPath slug = ''pipelines/'' @ slug @ ''.yaml''"

definition agePath :: "string \<Rightarrow> string" where
  "agePath slug = ''pipelines/'' @ slug @ ''.credentials.age''"

text \<open>The credential files, by their place and their extension; a definition file is none of them.\<close>

definition age_file :: "string \<Rightarrow> bool" where
  "age_file f \<longleftrightarrow> prefix ''pipelines/'' f \<and> suffix ''.credentials.age'' f"

definition yaml_file :: "string \<Rightarrow> bool" where
  "yaml_file f \<longleftrightarrow> prefix ''pipelines/'' f \<and> suffix ''.yaml'' f"

lemma age_file_agePath [simp]: "age_file (agePath s)"
  by (simp add: age_file_def agePath_def suffix_def)

lemma yaml_file_yamlPath [simp]: "yaml_file (yamlPath s)"
  by (simp add: yaml_file_def yamlPath_def suffix_def)

lemma yaml_not_age: "yaml_file f \<Longrightarrow> \<not> age_file f"
proof
  assume "yaml_file f" "age_file f"
  then have "last f = last ''.yaml''" "last f = last ''.credentials.age''"
    unfolding yaml_file_def age_file_def suffix_def by (metis last_appendR list.distinct(1))+
  then show False by simp
qed

text \<open>A Go map read of a missing key is the zero value; \<open>gm_str\<close> is the slug of an id.\<close>

fun renderLoop :: "YAML \<Rightarrow> (string \<times> string) list \<Rightarrow> Pipeline list \<Rightarrow> (string \<times> definitionFile) list
    \<Rightarrow> err + (string \<times> definitionFile) list" where
  "renderLoop Y slugs [] files = Inr files"
| "renderLoop Y slugs (p # ps) files =
     (case renderPipelineFile Y p of
        Inl e \<Rightarrow> Inl (Errorf ''render pipeline'' e)
      | Inr content \<Rightarrow> renderLoop Y slugs ps
          (AList.update (yamlPath (gm_str slugs (p_ID p))) \<lparr>df_pipelineID = p_ID p, df_content = content\<rparr> files))"

definition renderPipelineFiles :: "YAML \<Rightarrow> Pipeline list \<Rightarrow> (string \<times> string) list \<Rightarrow> err + (string \<times> definitionFile) list" where
  "renderPipelineFiles Y ps slugs = renderLoop Y slugs ps []"

definition pipelineFromFile :: "string \<Rightarrow> pipelineFile \<Rightarrow> Pipeline" where
  "pipelineFromFile i f =
     \<lparr>p_ID = i, p_CustomerSlug = [], p_Name = pf_Name f, p_SourceType = pf_SourceType f,
      p_SourceConfig = (if pf_SourceConfig f = [] then []
        else Marshal (jmap (map (\<lambda>(k, v). (k, canon v)) (pf_SourceConfig f)))),
      p_SourceCredentials = [], p_DatasetName = pf_DatasetName f, p_Schedule = pf_Schedule f,
      p_WriteDisposition = pf_WriteDisposition f, p_MergeStrategy = pf_MergeStrategy f, p_Enabled = pf_Enabled f,
      p_CredentialsExternal = False, p_CreatedAt = 0, p_UpdatedAt = 0, p_TriggerNow = False, p_PendingRunID = [],
      p_LastRunAt = None, p_LastRunTime = None, p_LastRunStatus = []\<rparr>"

subsection \<open>The mirror\<close>

text \<open>A mutex-guarded table of the mirror struct.\<close>

record 'w cell =
  cell_get :: "'w \<Rightarrow> (string \<times> string) list"
  cell_put :: "(string \<times> string) list \<Rightarrow> 'w \<Rightarrow> 'w"

definition firstReport :: "'w cell \<Rightarrow> string \<Rightarrow> string \<Rightarrow> ('w, bool) io" where
  "firstReport c path blobSHA w =
     (let seen = cell_get c w in
      if gm_str seen path = blobSHA then (Inr False, w)
      else (Inr True, cell_put c (AList.update path blobSHA seen) w))"

record 'w PipelineMirror =
  m_Workspaces :: "'w Resolver"
  m_Credentials :: "'w BoxGitCredentialStore option"
  m_Pipelines :: "'w PipelineRepository"
  m_AgeKeys :: "'w BoxAgeKeyStore option"
  m_Renders :: "'w CredentialRenderStore option"
  m_Fingerprint :: "(string list \<Rightarrow> string) option"
  m_PipelineCredentials :: "'w PipelineCredentialReader option"
  m_DefinitionRenders :: "'w DefinitionRenderStore option"
  m_Notifications :: "'w Notifier option"
  m_Ownership :: "'w OwnershipStore option"
  m_Importer :: "'w PipelineImporter option"
  m_OAuthClients :: "'w OAuthClientStore option"
  m_Connections :: "'w ConnectionStore option"
  m_NewClient :: "string \<Rightarrow> string \<Rightarrow> string \<Rightarrow> 'w RepoFileClient"
  m_HasLogger :: bool
  m_importSkips :: "'w cell"
  m_staleOAuth :: "'w cell"
  m_encryptAge :: "string \<Rightarrow> string \<Rightarrow> ('w, string) io"
  m_YAML :: YAML
  m_uuidValidate :: "string \<Rightarrow> bool"
  m_Now :: "'w \<Rightarrow> int"

text \<open>A best-effort notification: its failure is only logged.\<close>

definition notifyBestEffort :: "'w Notifier option \<Rightarrow> Notification \<Rightarrow> ('w, unit) io" where
  "notifyBestEffort n note = (case n of None \<Rightarrow> ret () | Some x \<Rightarrow> attempt (Notify x note) (\<lambda>_. ret ()))"

text \<open>\<^const>\<open>None\<close>: the customer is out of mirror scope.\<close>

definition boxMirrorClientFor ::
  "'w Resolver \<Rightarrow> 'w BoxGitCredentialStore option \<Rightarrow> (string \<Rightarrow> string \<Rightarrow> string \<Rightarrow> 'w RepoFileClient) \<Rightarrow> string
    \<Rightarrow> ('w, ('w RepoFileClient \<times> Workspace) option) io" where
  "boxMirrorClientFor workspaces credentials newClient customerSlug =
     (case credentials of
        None \<Rightarrow> ret None
      | Some creds \<Rightarrow>
          andThen (wrapErr ''get customer'' (GetWorkspace workspaces customerSlug)) (\<lambda>ws.
          if \<not> ws_OnVM ws then ret None
          else if TrimPrefix (ws_CustomerDomain ws) ''*.'' = [] then ret None
          else
            attempt (GetBoxGitCredential creds (ws_Slug ws)) (\<lambda>r.
            case r of
              Inl e \<Rightarrow> (if errors_Is e ErrBoxCredentialNotFound then ret None else fail e)
            | Inr (username, token) \<Rightarrow> ret (Some (newClient (BoxGiteaURL ws) username token, ws)))))"

definition clientFor :: "'w PipelineMirror \<Rightarrow> string \<Rightarrow> ('w, ('w RepoFileClient \<times> Workspace) option) io" where
  "clientFor m customerSlug = boxMirrorClientFor (m_Workspaces m) (m_Credentials m) (m_NewClient m) customerSlug"

subsection \<open>What the repository should hold\<close>

definition mirrorUploadStorage :: "Workspace \<Rightarrow> Pipeline list \<Rightarrow> S3Config option" where
  "mirrorUploadStorage ws ps =
     (if \<not> list_ex (\<lambda>p. p_SourceType p = SourceTypeFileUpload) ps then None
      else case uploadStorage ws of Inl _ \<Rightarrow> None | Inr cfg \<Rightarrow> Some cfg)"

fun resolveLoop :: "S3Config option \<Rightarrow> Pipeline list \<Rightarrow> Pipeline list \<times> (string \<times> raw) list" where
  "resolveLoop s3 [] = ([], [])"
| "resolveLoop s3 (p # ps) =
     (let (out, creds) = resolveLoop s3 ps in
      if p_SourceType p \<noteq> SourceTypeFileUpload then (p # out, creds)
      else case s3 of
        None \<Rightarrow> (out, creds)
      | Some cfg \<Rightarrow>
          (case resolveFileUploadPipeline p cfg of
             Inr (Some p') \<Rightarrow> (p' # out, (p_ID p', p_SourceCredentials p') # creds)
           | _ \<Rightarrow> (out, creds)))"

definition resolveFileUploads :: "Workspace \<Rightarrow> Pipeline list \<Rightarrow> Pipeline list \<times> (string \<times> raw) list" where
  "resolveFileUploads ws ps = resolveLoop (mirrorUploadStorage ws ps) ps"

definition credentialPlaintext ::
  "'w oauthClientResolver \<Rightarrow> Pipeline \<Rightarrow> raw \<Rightarrow> ('w, raw \<times> 'w oauthClientResolver) io" where
  "credentialPlaintext oauth p raw =
     andThen (inject oauth (p\<lparr>p_SourceCredentials := raw\<rparr>)) (\<lambda>(injected, oauth').
     ret (case injected of Some c \<Rightarrow> c | None \<Rightarrow> raw, oauth'))"

definition pipelineLink :: "string \<Rightarrow> string" where
  "pipelineLink i = ''/pipelines?pipeline='' @ i"

definition infoNote :: "string \<Rightarrow> string \<Rightarrow> string \<Rightarrow> string \<Rightarrow> Notification" where
  "infoNote customerSlug title body i =
     \<lparr>n_CustomerSlug = customerSlug, n_Type = ''info'', n_Title = title, n_Body = body, n_Link = pipelineLink i, n_ID = [], n_Read = False, n_CreatedAt = 0\<rparr>"

definition notifyStaleOAuthCredential ::
  "'w PipelineMirror \<Rightarrow> 'w oauthClientResolver \<Rightarrow> string \<Rightarrow> Pipeline \<Rightarrow> raw \<Rightarrow> ('w, 'w oauthClientResolver) io" where
  "notifyStaleOAuthCredential m oauth customerSlug p raw =
     (case m_Notifications m of
        None \<Rightarrow> ret oauth
      | Some _ \<Rightarrow>
          andThen (staleClientID oauth (p\<lparr>p_SourceCredentials := raw\<rparr>)) (\<lambda>(stale, oauth').
          if \<not> stale then ret oauth'
          else
            andThen (firstReport (m_staleOAuth m) (p_ID p) (or_clientID oauth')) (\<lambda>new.
            if \<not> new then ret oauth'
            else
              andThen (notifyBestEffort (m_Notifications m) (infoNote customerSlug
                (''Reconnect '' @ p_Name p @ '' to Google'')
                (p_Name p @ '' was connected with a different Google OAuth app than the one this workspace uses now, so its access can no longer be refreshed. Open the pipeline and sign in with Google again.'')
                (p_ID p))) (\<lambda>_. ret oauth'))))"

fun buildLoop ::
  "'w PipelineMirror \<Rightarrow> string \<Rightarrow> (string \<times> string) list \<Rightarrow> (string \<times> raw) list \<Rightarrow> 'w oauthClientResolver
    \<Rightarrow> Pipeline list \<Rightarrow> (string \<times> credentialFile) list \<Rightarrow> ('w, (string \<times> credentialFile) list) io" where
  "buildLoop m customerSlug slugs creds oauth [] files = ret files"
| "buildLoop m customerSlug slugs creds oauth (p # ps) files =
     (let filePath = agePath (gm_str slugs (p_ID p)) in
      if p_CredentialsExternal p then
        buildLoop m customerSlug slugs creds oauth ps
          (AList.update filePath \<lparr>cf_pipelineID = p_ID p, cf_plaintext = [], cf_external = True\<rparr> files)
      else case map_of creds (p_ID p) of
        None \<Rightarrow> buildLoop m customerSlug slugs creds oauth ps files
      | Some raw \<Rightarrow>
          (if isEmptyJSON raw then buildLoop m customerSlug slugs creds oauth ps files
           else
             andThen (credentialPlaintext oauth p raw) (\<lambda>(plain, oauth1).
             andThen (notifyStaleOAuthCredential m oauth1 customerSlug p raw) (\<lambda>oauth2.
             buildLoop m customerSlug slugs creds oauth2 ps
               (AList.update filePath \<lparr>cf_pipelineID = p_ID p, cf_plaintext = plain, cf_external = False\<rparr> files)))))"

definition buildCredentialFiles ::
  "'w PipelineMirror \<Rightarrow> string \<Rightarrow> Pipeline list \<Rightarrow> (string \<times> string) list \<Rightarrow> (string \<times> raw) list
    \<Rightarrow> ('w, (string \<times> credentialFile) list) io" where
  "buildCredentialFiles m customerSlug ps slugs creds =
     buildLoop m customerSlug slugs creds (newOAuthClientResolver (m_OAuthClients m) (m_Connections m) customerSlug) ps []"

definition loadCredentialState ::
  "'w PipelineCredentialReader \<Rightarrow> 'w CredentialRenderStore \<Rightarrow> string
    \<Rightarrow> ('w, (string \<times> raw) list \<times> (string \<times> PipelineCredentialRender) list) io" where
  "loadCredentialState pc rs customerSlug =
     andThen (wrapErr ''list pipeline credentials'' (ListPipelineCredentialsByCustomer pc customerSlug)) (\<lambda>credentials.
     andThen (wrapErr ''get credential renders'' (GetPipelineCredentialRenders rs customerSlug)) (\<lambda>renders.
     ret (credentials, renders)))"

text \<open>
  The desired credential files (\<^const>\<open>None\<close>: age rendering is not wired and no age path is
  touched), the recipient and the render rows. \<^verbatim>\<open>maps.Copy\<close> puts the injected credentials over the
  stored ones.
\<close>

definition desiredCredentialFiles ::
  "'w PipelineMirror \<Rightarrow> string \<Rightarrow> Pipeline list \<Rightarrow> (string \<times> string) list \<Rightarrow> (string \<times> raw) list
    \<Rightarrow> ('w, (string \<times> credentialFile) list option \<times> string \<times> (string \<times> PipelineCredentialRender) list) io" where
  "desiredCredentialFiles m customerSlug ps slugs extraCreds =
     (case (m_AgeKeys m, m_Renders m, m_Fingerprint m, m_PipelineCredentials m) of
        (Some ak, Some rs, Some fpr, Some pc) \<Rightarrow>
          attempt (GetBoxAgeKey ak customerSlug) (\<lambda>r.
          case r of
            Inl e \<Rightarrow> (if errors_Is e ErrBoxCredentialNotFound then ret (Some [], [], []) else fail (Errorf ''get box age key'' e))
          | Inr recipient \<Rightarrow>
              andThen (loadCredentialState pc rs customerSlug) (\<lambda>(credentials, renders).
              andThen (buildCredentialFiles m customerSlug ps slugs
                (fold (\<lambda>(k, v) mp. AList.update k v mp) extraCreds credentials)) (\<lambda>files.
              ret (Some files, recipient, renders))))
      | _ \<Rightarrow> ret (None, [], []))"

definition definitionRenderRows :: "'w PipelineMirror \<Rightarrow> string \<Rightarrow> ('w, (string \<times> PipelineDefinitionRender) list) io" where
  "definitionRenderRows m customerSlug =
     (case m_DefinitionRenders m of
        None \<Rightarrow> ret []
      | Some d \<Rightarrow> wrapErr ''get definition renders'' (GetPipelineDefinitionRenders d customerSlug))"

subsection \<open>Converging the repository\<close>

text \<open>The definition and the credential files of a tree.\<close>

definition partitionEntry :: "RepoFileEntry \<Rightarrow> (string \<times> string) list \<times> (string \<times> string) list \<Rightarrow> (string \<times> string) list \<times> (string \<times> string) list" where
  "partitionEntry e trees =
     (let (yaml, age) = trees in
      if \<not> prefix ''pipelines/'' (e_Path e) then (yaml, age)
      else if suffix ''.credentials.age'' (e_Path e) then (yaml, AList.update (e_Path e) (e_SHA e) age)
      else if suffix ''.yaml'' (e_Path e) then (AList.update (e_Path e) (e_SHA e) yaml, age)
      else (yaml, age))"

definition partitionPipelineTree :: "RepoFileEntry list \<Rightarrow> (string \<times> string) list \<times> (string \<times> string) list" where
  "partitionPipelineTree tree = fold partitionEntry tree ([], [])"

definition deleteMsg :: "string \<Rightarrow> string" where
  "deleteMsg filePath = ''Delete '' @ filePath @ '' via FairTier Console''"

definition renderMsg :: "string \<Rightarrow> string" where
  "renderMsg filePath = ''Render '' @ filePath @ '' via FairTier Console''"

fun deleteLoop :: "'w RepoFileClient \<Rightarrow> string \<Rightarrow> (string \<times> string) list \<Rightarrow> (string \<Rightarrow> bool) \<Rightarrow> CommitAuthor option
    \<Rightarrow> string list \<Rightarrow> ('w, unit) io" where
  "deleteLoop client repo existing desired author [] = ret ()"
| "deleteLoop client repo existing desired author (filePath # paths) =
     (if desired filePath then deleteLoop client repo existing desired author paths
      else
        andThen (wrapErr (''delete '' @ filePath)
          (DeleteContents client repo filePath (gm_str existing filePath) (deleteMsg filePath) author)) (\<lambda>_.
        deleteLoop client repo existing desired author paths))"

definition deleteStale :: "'w RepoFileClient \<Rightarrow> string \<Rightarrow> (string \<times> string) list \<Rightarrow> (string \<times> 'v) list \<Rightarrow> CommitAuthor option
    \<Rightarrow> ('w, unit) io" where
  "deleteStale client repo existing desired author =
     deleteLoop client repo existing (\<lambda>f. map_of desired f \<noteq> None) author (sortedPaths existing)"

fun deleteRenderedLoop :: "'w RepoFileClient \<Rightarrow> string \<Rightarrow> (string \<times> string) list \<Rightarrow> (string \<Rightarrow> bool) \<Rightarrow> CommitAuthor option
    \<Rightarrow> string list \<Rightarrow> ('w, unit) io" where
  "deleteRenderedLoop client repo existing desired author [] = ret ()"
| "deleteRenderedLoop client repo existing desired author (filePath # paths) =
     (if desired filePath then deleteRenderedLoop client repo existing desired author paths
      else
        andThen (wrapErr (''get '' @ filePath) (GetContents client repo filePath)) (\<lambda>(content, _).
        if \<not> prefix pipelineFileHeader content then deleteRenderedLoop client repo existing desired author paths
        else
          andThen (wrapErr (''delete '' @ filePath)
            (DeleteContents client repo filePath (gm_str existing filePath) (deleteMsg filePath) author)) (\<lambda>_.
          deleteRenderedLoop client repo existing desired author paths)))"

definition deleteStaleRendered :: "'w RepoFileClient \<Rightarrow> string \<Rightarrow> (string \<times> string) list \<Rightarrow> (string \<times> 'v) list
    \<Rightarrow> CommitAuthor option \<Rightarrow> ('w, unit) io" where
  "deleteStaleRendered client repo existing desired author =
     deleteRenderedLoop client repo existing (\<lambda>f. map_of desired f \<noteq> None) author (sortedPaths existing)"

definition recordDefinitionRender :: "'w PipelineMirror \<Rightarrow> string \<Rightarrow> string \<Rightarrow> string \<Rightarrow> ('w, unit) io" where
  "recordDefinitionRender m i filePath blobSHA =
     (case m_DefinitionRenders m of
        None \<Rightarrow> ret ()
      | Some d \<Rightarrow> attempt (UpsertPipelineDefinitionRender d
          \<lparr>dr_PipelineID = i, dr_Path = filePath, dr_BlobSHA = blobSHA, dr_RefusedBlobSHA = []\<rparr>) (\<lambda>_. ret ()))"

definition adoptInSyncRender :: "'w PipelineMirror \<Rightarrow> string \<Rightarrow> string \<Rightarrow> string \<Rightarrow> PipelineDefinitionRender option \<Rightarrow> ('w, unit) io" where
  "adoptInSyncRender m i filePath treeSHA row =
     (case row of
        Some r \<Rightarrow> (if dr_BlobSHA r \<noteq> treeSHA \<or> dr_Path r \<noteq> filePath then recordDefinitionRender m i filePath treeSHA else ret ())
      | None \<Rightarrow> recordDefinitionRender m i filePath treeSHA)"

definition notifyDefinitionDrift :: "'w PipelineMirror \<Rightarrow> string \<Rightarrow> string \<Rightarrow> string \<Rightarrow> ('w, unit) io" where
  "notifyDefinitionDrift m customerSlug filePath i =
     notifyBestEffort (m_Notifications m) (infoNote customerSlug ''Pipeline file changed outside the Console''
       (filePath @ '' in your workspace repo was edited outside the Console; the Console version has been reapplied. The overwritten change remains in the file's git history.'') i)"

definition upsertFile ::
  "'w PipelineMirror \<Rightarrow> 'w RepoFileClient \<Rightarrow> string \<Rightarrow> string \<Rightarrow> definitionFile \<Rightarrow> (string \<times> string) list
    \<Rightarrow> (string \<times> PipelineDefinitionRender) list \<Rightarrow> CommitAuthor option \<Rightarrow> ('w, unit) io" where
  "upsertFile m client customerSlug filePath df existing defRenders author =
     (case map_of existing filePath of
        None \<Rightarrow>
          andThen (wrapErr (''put '' @ filePath)
            (PutContents client pipelinesRepo filePath (df_content df) [] (renderMsg filePath) author)) (\<lambda>newSHA.
          recordDefinitionRender m (df_pipelineID df) filePath newSHA)
      | Some treeSHA \<Rightarrow>
          andThen (wrapErr (''get '' @ filePath) (GetContents client pipelinesRepo filePath)) (\<lambda>(current, sha).
          let row = map_of defRenders (df_pipelineID df) in
          if current = df_content df then adoptInSyncRender m (df_pipelineID df) filePath treeSHA row
          else
            (let drifted = (case row of None \<Rightarrow> False | Some r \<Rightarrow> dr_Path r = filePath \<and> dr_BlobSHA r \<noteq> treeSHA) in
             andThen (wrapErr (''put '' @ filePath)
               (PutContents client pipelinesRepo filePath (df_content df) sha (renderMsg filePath) author)) (\<lambda>newSHA.
             andThen (recordDefinitionRender m (df_pipelineID df) filePath newSHA) (\<lambda>_.
             if drifted then notifyDefinitionDrift m customerSlug filePath (df_pipelineID df) else ret ())))))"

definition notifyForPipeline :: "'w PipelineMirror \<Rightarrow> 'w Notifier \<Rightarrow> string \<Rightarrow> Notification \<Rightarrow> ('w, unit) io" where
  "notifyForPipeline m n i note =
     andThen (repo_GetPipeline (m_Pipelines m) i) (\<lambda>p. Notify n (note\<lparr>n_CustomerSlug := p_CustomerSlug p\<rparr>))"

definition markCredentialsExternal :: "'w PipelineMirror \<Rightarrow> 'w OwnershipStore \<Rightarrow> string \<Rightarrow> string \<Rightarrow> ('w, unit) io" where
  "markCredentialsExternal m own filePath i =
     attempt (SetPipelineCredentialsExternal own i True) (\<lambda>r.
     case r of
       Inl _ \<Rightarrow> ret ()
     | Inr _ \<Rightarrow>
         (case m_Notifications m of
            None \<Rightarrow> ret ()
          | Some n \<Rightarrow> attempt (notifyForPipeline m n i (infoNote [] ''Pipeline credentials are now managed in your repo''
              (filePath @ '' was changed outside the Console. The Console will no longer re-render this file; edit the pipeline's credentials in the Console to take ownership back.'') i))
              (\<lambda>_. ret ())))"

definition skipTrackedCredentialFile ::
  "'w PipelineMirror \<Rightarrow> string \<Rightarrow> credentialFile \<Rightarrow> string \<Rightarrow> string \<Rightarrow> (string \<times> PipelineCredentialRender) list \<Rightarrow> ('w, bool) io" where
  "skipTrackedCredentialFile m filePath cf fp treeSHA renders =
     (case map_of renders (cf_pipelineID cf) of
        None \<Rightarrow> ret False
      | Some row \<Rightarrow>
          (if cr_Fingerprint row = fp \<and> cr_BlobSHA row = treeSHA then ret True
           else if cr_BlobSHA row \<noteq> treeSHA then
             (case m_Ownership m of
                None \<Rightarrow> ret False
              | Some own \<Rightarrow> andThen (markCredentialsExternal m own filePath (cf_pipelineID cf)) (\<lambda>_. ret True))
           else ret False))"

definition upsertCredentialFile ::
  "'w PipelineMirror \<Rightarrow> (string list \<Rightarrow> string) \<Rightarrow> 'w CredentialRenderStore \<Rightarrow> 'w RepoFileClient \<Rightarrow> string \<Rightarrow> credentialFile \<Rightarrow> string
    \<Rightarrow> (string \<times> PipelineCredentialRender) list \<Rightarrow> (string \<times> string) list \<Rightarrow> CommitAuthor option \<Rightarrow> ('w, unit) io" where
  "upsertCredentialFile m fpr rs client filePath cf recipient renders existing author =
     (if cf_external cf then ret ()
      else
        (let fp = fpr [credentialFingerprintContext, recipient, cf_plaintext cf] in
         andThen (case map_of existing filePath of
             None \<Rightarrow> ret False
           | Some treeSHA \<Rightarrow> skipTrackedCredentialFile m filePath cf fp treeSHA renders) (\<lambda>skip.
         if skip then ret ()
         else
           andThen (wrapErr ''encrypt credentials'' (m_encryptAge m recipient (cf_plaintext cf))) (\<lambda>ciphertext.
           andThen (wrapErr (''put '' @ filePath)
             (PutContents client pipelinesRepo filePath ciphertext (gm_str existing filePath) (renderMsg filePath) author)) (\<lambda>newSHA.
           attempt (UpsertPipelineCredentialRender rs
             \<lparr>cr_PipelineID = cf_pipelineID cf, cr_Fingerprint = fp, cr_BlobSHA = newSHA\<rparr>) (\<lambda>_. ret ()))))))"

fun upsertFiles ::
  "'w PipelineMirror \<Rightarrow> 'w RepoFileClient \<Rightarrow> string \<Rightarrow> (string \<times> definitionFile) list \<Rightarrow> (string \<times> string) list
    \<Rightarrow> (string \<times> PipelineDefinitionRender) list \<Rightarrow> CommitAuthor option \<Rightarrow> string list \<Rightarrow> ('w, unit) io" where
  "upsertFiles m client customerSlug desired existing defRenders author [] = ret ()"
| "upsertFiles m client customerSlug desired existing defRenders author (f # fs) =
     (case map_of desired f of
        None \<Rightarrow> upsertFiles m client customerSlug desired existing defRenders author fs
      | Some df \<Rightarrow>
          andThen (upsertFile m client customerSlug f df existing defRenders author) (\<lambda>_.
          upsertFiles m client customerSlug desired existing defRenders author fs))"

fun upsertCredentialFiles ::
  "'w PipelineMirror \<Rightarrow> (string list \<Rightarrow> string) \<Rightarrow> 'w CredentialRenderStore \<Rightarrow> 'w RepoFileClient \<Rightarrow> (string \<times> credentialFile) list \<Rightarrow> string
    \<Rightarrow> (string \<times> PipelineCredentialRender) list \<Rightarrow> (string \<times> string) list \<Rightarrow> CommitAuthor option \<Rightarrow> string list \<Rightarrow> ('w, unit) io" where
  "upsertCredentialFiles m fpr rs client credentials recipient renders existing author [] = ret ()"
| "upsertCredentialFiles m fpr rs client credentials recipient renders existing author (f # fs) =
     (case map_of credentials f of
        None \<Rightarrow> upsertCredentialFiles m fpr rs client credentials recipient renders existing author fs
      | Some cf \<Rightarrow>
          andThen (upsertCredentialFile m fpr rs client f cf recipient renders existing author) (\<lambda>_.
          upsertCredentialFiles m fpr rs client credentials recipient renders existing author fs))"

text \<open>
  The credential phase runs only with the four age ports wired, which is when \<open>credentials\<close> is not
  nil; the two it writes with are passed along.
\<close>

definition convergeCredentials ::
  "'w PipelineMirror \<Rightarrow> 'w RepoFileClient \<Rightarrow> (string \<times> credentialFile) list option \<Rightarrow> string
    \<Rightarrow> (string \<times> PipelineCredentialRender) list \<Rightarrow> (string \<times> string) list \<Rightarrow> CommitAuthor option \<Rightarrow> ('w, unit) io" where
  "convergeCredentials m client credentials recipient renders existingAge author =
     (case (credentials, m_Fingerprint m, m_Renders m) of
        (Some files, Some fpr, Some rs) \<Rightarrow>
          andThen (upsertCredentialFiles m fpr rs client files recipient renders existingAge author (sortedPaths files)) (\<lambda>_.
          deleteStale client pipelinesRepo existingAge files author)
      | _ \<Rightarrow> ret ())"

definition converge ::
  "'w PipelineMirror \<Rightarrow> 'w RepoFileClient \<Rightarrow> string \<Rightarrow> (string \<times> definitionFile) list \<Rightarrow> (string \<times> credentialFile) list option
    \<Rightarrow> string \<Rightarrow> (string \<times> PipelineCredentialRender) list \<Rightarrow> (string \<times> PipelineDefinitionRender) list \<Rightarrow> CommitAuthor option
    \<Rightarrow> ('w, unit) io" where
  "converge m client customerSlug desired credentials recipient renders defRenders author =
     andThen (wrapErr ''list pipelines tree'' (ListTree client pipelinesRepo)) (\<lambda>tree.
     let (existing, existingAge) = partitionPipelineTree tree in
     andThen (upsertFiles m client customerSlug desired existing defRenders author (sortedPaths desired)) (\<lambda>_.
     andThen (deleteStaleRendered client pipelinesRepo existing desired author) (\<lambda>_.
     convergeCredentials m client credentials recipient renders existingAge author)))"

definition SyncCustomer :: "'w PipelineMirror \<Rightarrow> string \<Rightarrow> CommitAuthor option \<Rightarrow> ('w, unit) io" where
  "SyncCustomer m customerSlug author =
     andThen (clientFor m customerSlug) (\<lambda>c.
     case c of
       None \<Rightarrow> ret ()
     | Some (client, ws) \<Rightarrow>
         andThen (wrapErr ''list pipelines'' (repo_ListPipelinesByCustomer (m_Pipelines m) customerSlug)) (\<lambda>listed.
         let (pipelines, fileUploadCreds) = resolveFileUploads ws listed;
             slugs = pipelineFileSlugs pipelines in
         andThen (lift (renderPipelineFiles (m_YAML m) pipelines slugs)) (\<lambda>desired.
         andThen (desiredCredentialFiles m customerSlug pipelines slugs fileUploadCreds) (\<lambda>(credentials, recipient, renders).
         andThen (definitionRenderRows m customerSlug) (\<lambda>defRenders.
         attempt (converge m client customerSlug desired credentials recipient renders defRenders author) (\<lambda>r.
         case r of
           Inr _ \<Rightarrow> ret ()
         | Inl e \<Rightarrow>
             (if errors_Is e ErrRepoFileChanged
              then converge m client customerSlug desired credentials recipient renders defRenders author
              else fail e)))))))"

subsection \<open>Versions\<close>

definition fileHistoryLimit :: nat where "fileHistoryLimit = 20"

definition isCommitSHA :: "string \<Rightarrow> bool" where
  "isCommitSHA ref \<longleftrightarrow> 7 \<le> length ref \<and> length ref \<le> 64 \<and>
     list_all (\<lambda>c. is_digit c \<or> CHR ''a'' \<le> c \<and> c \<le> CHR ''f'') ref"

definition versionClient :: "'w PipelineMirror \<Rightarrow> string \<Rightarrow> string \<Rightarrow> ('w, 'w RepoFileClient \<times> string) io" where
  "versionClient m customerSlug i =
     andThen (clientFor m customerSlug) (\<lambda>c.
     case c of
       None \<Rightarrow> fail ErrBoxRepoUnavailable
     | Some (client, _) \<Rightarrow>
         andThen (wrapErr ''list pipelines'' (repo_ListPipelinesByCustomer (m_Pipelines m) customerSlug)) (\<lambda>ps.
         case map_of (pipelineFileSlugs ps) i of
           None \<Rightarrow> fail ErrPipelineNotFound
         | Some slug \<Rightarrow> ret (client, yamlPath slug)))"

definition ListVersions :: "'w PipelineMirror \<Rightarrow> string \<Rightarrow> string \<Rightarrow> ('w, PipelineVersion list) io" where
  "ListVersions m customerSlug i =
     andThen (versionClient m customerSlug i) (\<lambda>(client, filePath).
     wrapErr (''list history'') (ListCommits client pipelinesRepo filePath fileHistoryLimit))"

definition VersionAt :: "'w PipelineMirror \<Rightarrow> string \<Rightarrow> string \<Rightarrow> string \<Rightarrow> ('w, Pipeline) io" where
  "VersionAt m customerSlug i sha =
     (if \<not> isCommitSHA sha then fail (ErrInvalidSourceConfig ''sha'')
      else
        andThen (versionClient m customerSlug i) (\<lambda>(client, filePath).
        andThen (wrapErr (''get '' @ filePath) (GetContentsAt client pipelinesRepo filePath sha)) (\<lambda>(content, _).
        andThen (wrapErr ''parse version'' (lift (y_Unmarshal (m_YAML m) content))) (\<lambda>f.
        if pf_ID f \<noteq> i then fail ErrPipelineVersionMismatch else ret (pipelineFromFile i f)))))"

subsection \<open>What the mirror keeps\<close>

lemma keeps_deleteRenderedLoop:
  assumes "\<And>r f. keeps I (GetContents cl r f)" "\<And>r f sha msg au. keeps I (DeleteContents cl r f sha msg au)"
  shows "keeps I (deleteRenderedLoop cl r existing desired au fs)"
  by (induction fs)
    (auto intro!: safe_ret safe_if safe_prod safe_andThen [OF safe_wrapErr [OF assms(2)]] safe_andThen [OF safe_wrapErr [OF assms(1)]])

text \<open>
  The ports as a pass over workspace \<open>c\<close> meets them. The only write to a pipeline row a converge makes
  is the ownership mark of a credential file, under the id of one of the workspace's own pipelines.
\<close>

locale mirror_stores =
  fixes m :: "'w PipelineMirror" and c :: string and I :: "'w \<Rightarrow> bool" and own :: "string set"
  assumes by_slug: "keeps I (GetWorkspace (m_Workspaces m) c)"
    and git_credential: "m_Credentials m = Some gc \<Longrightarrow> keeps I (GetBoxGitCredential gc i)"
    and age_key: "m_AgeKeys m = Some ak \<Longrightarrow> keeps I (GetBoxAgeKey ak c)"
    and get: "keeps I (repo_GetPipeline (m_Pipelines m) i)"
    and list: "safe I (repo_ListPipelinesByCustomer (m_Pipelines m) c) (\<lambda>ps. \<forall>p \<in> set ps. p_ID p \<in> own \<and> p_CustomerSlug p = c)"
    and credentials: "m_PipelineCredentials m = Some pc \<Longrightarrow> keeps I (ListPipelineCredentialsByCustomer pc c)"
    and render: "m_Renders m = Some rs \<Longrightarrow> keeps I (UpsertPipelineCredentialRender rs cr)"
    and renders: "m_Renders m = Some rs \<Longrightarrow> keeps I (GetPipelineCredentialRenders rs c)"
    and def_render: "m_DefinitionRenders m = Some ds \<Longrightarrow> keeps I (UpsertPipelineDefinitionRender ds dr)"
    and def_renders: "m_DefinitionRenders m = Some ds \<Longrightarrow> keeps I (GetPipelineDefinitionRenders ds c)"
    and external: "m_Ownership m = Some ow \<Longrightarrow> i \<in> own \<Longrightarrow> keeps I (SetPipelineCredentialsExternal ow i b)"
    and client: "m_OAuthClients m = Some cl \<Longrightarrow> keeps I (GetOAuthClient cl c OAuthProviderGoogle)"
    and connection: "m_Connections m = Some cn \<Longrightarrow> keeps I (GetConnection cn c i)"
    and notify: "m_Notifications m = Some nt \<Longrightarrow> keeps I (Notify nt note)"
    and tree: "keeps I (ListTree (m_NewClient m u n t) r)"
    and contents: "keeps I (GetContents (m_NewClient m u n t) r f)"
    and encrypt: "keeps I (m_encryptAge m rcp txt)"
    and stale: "keeps I (firstReport (m_staleOAuth m) f sha)"

sublocale mirror_stores < rendered: oauth_ports "m_OAuthClients m" "m_Connections m" c I
  by unfold_locales (fact client, fact connection)

context mirror_stores
begin

definition ours :: "'w RepoFileClient \<Rightarrow> bool" where
  "ours cl \<longleftrightarrow> (\<exists>u n t. cl = m_NewClient m u n t)"

lemma clientFor_safe: "safe I (clientFor m c) (\<lambda>x. \<forall>cl ws. x = Some (cl, ws) \<longrightarrow> ours cl)"
  unfolding clientFor_def boxMirrorClientFor_def
  by (rule safe_rules by_slug git_credential | assumption | auto simp: ours_def)+

lemma notifyBestEffort_safe: "keeps I (notifyBestEffort (m_Notifications m) note)"
  unfolding notifyBestEffort_def by (rule safe_rules notify TrueI | assumption)+

lemma credentialPlaintext_safe: "rendered.wired r \<Longrightarrow> safe I (credentialPlaintext r p raw) (\<lambda>(_, r'). rendered.wired r')"
  unfolding credentialPlaintext_def by (rule safe_rules rendered.inject_safe | simp)+

lemma notifyStaleOAuthCredential_safe:
  "rendered.wired r \<Longrightarrow> safe I (notifyStaleOAuthCredential m r c p raw) rendered.wired"
  unfolding notifyStaleOAuthCredential_def
  by (rule safe_rules rendered.staleClientID_safe stale notifyBestEffort_safe | assumption | simp)+

definition files_ours :: "(string \<times> credentialFile) list \<Rightarrow> bool" where
  "files_ours files \<longleftrightarrow> list_all (\<lambda>(f, cf). age_file f \<and> cf_pipelineID cf \<in> own) files"

lemma files_ours_update: "files_ours files \<Longrightarrow> age_file f \<Longrightarrow> cf_pipelineID cf \<in> own \<Longrightarrow> files_ours (AList.update f cf files)"
  by (simp add: files_ours_def list_all_update)

lemma buildLoop_safe:
  "rendered.wired r \<Longrightarrow> \<forall>p \<in> set ps. p_ID p \<in> own \<Longrightarrow> files_ours files \<Longrightarrow>
   safe I (buildLoop m c slugs creds r ps files) files_ours"
proof (induction ps arbitrary: r files)
  case (Cons p ps)
  have p: "p_ID p \<in> own" "\<forall>q \<in> set ps. p_ID q \<in> own" using Cons.prems(2) by auto
  have skip: "safe I (buildLoop m c slugs creds r ps files) files_ours" by (rule Cons.IH [OF Cons.prems(1) p(2) Cons.prems(3)])
  have add: "safe I (buildLoop m c slugs creds r' ps (AList.update (agePath f) \<lparr>cf_pipelineID = p_ID p, cf_plaintext = t, cf_external = b\<rparr> files)) files_ours"
    if "rendered.wired r'" for r' f t b
    by (rule Cons.IH [OF that p(2)]) (simp add: files_ours_update Cons.prems(3) p(1))
  show ?case unfolding buildLoop.simps Let_def
    by (rule safe_if safe_option skip add [OF Cons.prems(1)] safe_andThen [OF credentialPlaintext_safe [OF Cons.prems(1)]]
        safe_prod safe_andThen [OF notifyStaleOAuthCredential_safe] add | simp)+
qed (auto intro: safe_ret)

lemma loadCredentialState_safe:
  "m_PipelineCredentials m = Some pc \<Longrightarrow> m_Renders m = Some rs \<Longrightarrow> keeps I (loadCredentialState pc rs c)"
  unfolding loadCredentialState_def by (rule safe_rules credentials renders TrueI | assumption)+

lemma desiredCredentialFiles_safe:
  assumes "\<forall>p \<in> set ps. p_ID p \<in> own"
  shows "safe I (desiredCredentialFiles m c ps slugs extra) (\<lambda>(files, _). \<forall>fs. files = Some fs \<longrightarrow> files_ours fs)"
proof -
  have b: "safe I (buildCredentialFiles m c ps slugs creds) files_ours" for creds
    unfolding buildCredentialFiles_def
    by (rule buildLoop_safe [OF rendered.wired_new assms]) (simp add: files_ours_def)
  show ?thesis unfolding desiredCredentialFiles_def
    by (auto simp: files_ours_def split: option.splits intro!: safe_rules b [unfolded files_ours_def] loadCredentialState_safe age_key)
qed

lemma definitionRenderRows_safe: "keeps I (definitionRenderRows m c)"
  unfolding definitionRenderRows_def by (rule safe_rules def_renders TrueI | assumption)+

lemma recordDefinitionRender_safe: "keeps I (recordDefinitionRender m i f sha)"
  unfolding recordDefinitionRender_def by (rule safe_rules def_render TrueI | assumption)+

lemma markCredentialsExternal_safe: "m_Ownership m = Some ow \<Longrightarrow> i \<in> own \<Longrightarrow> keeps I (markCredentialsExternal m ow f i)"
  unfolding markCredentialsExternal_def notifyForPipeline_def
  by (rule safe_rules external get notify TrueI | assumption)+

lemma skipTrackedCredentialFile_safe: "cf_pipelineID cf \<in> own \<Longrightarrow> keeps I (skipTrackedCredentialFile m f cf fp sha rows)"
  unfolding skipTrackedCredentialFile_def
  by (rule safe_if safe_option safe_ret safe_andThen [OF markCredentialsExternal_safe] TrueI | assumption)+

lemma resolveLoop_ids: "resolveLoop s3 ps = (out, creds) \<Longrightarrow> p_ID ` set out \<subseteq> p_ID ` set ps"
proof (induction ps arbitrary: out creds)
  case (Cons p ps)
  obtain o1 c1 where r: "resolveLoop s3 ps = (o1, c1)" by fastforce
  have "p_ID p' = p_ID p" if "resolveFileUploadPipeline p cfg = Inr (Some p')" for cfg p'
    using that by (auto simp: resolveFileUploadPipeline_def Let_def split: sum.splits if_splits)
  moreover have "\<And>x. x \<in> set o1 \<Longrightarrow> p_ID x \<in> p_ID ` set ps" using Cons.IH [OF r] by blast
  ultimately show ?case using Cons.prems r by (auto split: if_splits option.splits sum.splits)
qed auto

end

text \<open>With the calls that commit, and those on the history.\<close>

locale mirror_ports = mirror_stores +
  assumes contents_at: "keeps I (GetContentsAt (m_NewClient m u n t) r f sha)"
    and commits: "keeps I (ListCommits (m_NewClient m u n t) r f lim)"
    and put: "keeps I (PutContents (m_NewClient m u n t) r f txt sha msg au)"
    and del: "keeps I (DeleteContents (m_NewClient m u n t) r f sha msg au)"
begin

lemma client_ops:
  assumes "ours cl"
  shows "keeps I (ListTree cl r)" "keeps I (GetContents cl r f)" "keeps I (GetContentsAt cl r f sha)"
    "keeps I (ListCommits cl r f lim)" "keeps I (PutContents cl r f txt sha msg au)" "keeps I (DeleteContents cl r f sha msg au)"
  using assms tree contents contents_at commits put del by (auto simp: ours_def)

lemma upsertFile_safe: "ours cl \<Longrightarrow> keeps I (upsertFile m cl c f df existing rows au)"
  unfolding upsertFile_def adoptInSyncRender_def notifyDefinitionDrift_def Let_def
  by (rule safe_rules client_ops recordDefinitionRender_safe notifyBestEffort_safe TrueI | assumption)+

lemma upsertFiles_safe: "ours cl \<Longrightarrow> keeps I (upsertFiles m cl c desired existing rows au fs)"
  by (induction fs) (auto intro!: safe_ret safe_option safe_andThen [OF upsertFile_safe])

lemma deleteLoop_safe: "ours cl \<Longrightarrow> keeps I (deleteLoop cl r existing desired au fs)"
  by (induction fs) (auto intro!: safe_ret safe_andThen [OF safe_wrapErr [OF client_ops(6)]])

lemma deleteRenderedLoop_safe: "ours cl \<Longrightarrow> keeps I (deleteRenderedLoop cl r existing desired au fs)"
  by (rule keeps_deleteRenderedLoop) (simp_all add: client_ops)

lemma upsertCredentialFile_safe:
  assumes "ours cl" "cf_pipelineID cf \<in> own" "m_Renders m = Some rs"
  shows "keeps I (upsertCredentialFile m fpr rs cl f cf rcp rows existing au)"
proof -
  have s: "keeps I (case map_of existing f of None \<Rightarrow> ret False | Some sha \<Rightarrow> skipTrackedCredentialFile m f cf fp sha rows)" for fp
    by (intro safe_option safe_ret skipTrackedCredentialFile_safe assms TrueI)
  show ?thesis unfolding upsertCredentialFile_def Let_def
    by (intro safe_if safe_ret TrueI safe_andThen [OF s] safe_andThen [OF safe_wrapErr [OF encrypt]]
        safe_andThen [OF safe_wrapErr [OF client_ops(5) [OF assms(1)]]] safe_attempt [OF render [OF assms(3)]])
qed

lemma upsertCredentialFiles_safe:
  "ours cl \<Longrightarrow> files_ours files \<Longrightarrow> m_Renders m = Some rs \<Longrightarrow> keeps I (upsertCredentialFiles m fpr rs cl files rcp rows existing au fs)"
proof (induction fs)
  case (Cons f fs)
  have "cf_pipelineID cf \<in> own" if "map_of files f = Some cf" for cf
    using map_of_SomeD [OF that] Cons.prems(2) by (auto simp: files_ours_def list_all_iff)
  then show ?case using Cons
    by (auto intro!: safe_option safe_andThen [OF upsertCredentialFile_safe])
qed (auto intro: safe_ret)

lemma convergeCredentials_safe:
  assumes "ours cl" "\<forall>fs. files = Some fs \<longrightarrow> files_ours fs"
  shows "keeps I (convergeCredentials m cl files rcp rows existing au)"
  unfolding convergeCredentials_def deleteStale_def
  using assms by (auto split: option.splits intro!: safe_ret safe_andThen [OF upsertCredentialFiles_safe] deleteLoop_safe)

lemma converge_safe:
  assumes "ours cl" "\<forall>fs. files = Some fs \<longrightarrow> files_ours fs"
  shows "keeps I (converge m cl c desired files rcp rows drows au)"
  unfolding converge_def deleteStaleRendered_def Let_def
  by (intro safe_prod safe_andThen [OF safe_wrapErr [OF client_ops(1)]] safe_andThen [OF upsertFiles_safe]
      safe_andThen [OF deleteRenderedLoop_safe] convergeCredentials_safe assms)

lemma SyncCustomer_safe: "keeps I (SyncCustomer m c au)"
proof -
  have conv: "keeps I (attempt (converge m cl c desired files rcp rows drows au) (\<lambda>r.
      case r of Inr _ \<Rightarrow> ret ()
      | Inl e \<Rightarrow> (if errors_Is e ErrRepoFileChanged then converge m cl c desired files rcp rows drows au else fail e)))"
    if "ours cl" "\<forall>fs. files = Some fs \<longrightarrow> files_ours fs" for cl desired files rcp rows drows
    by (rule safe_attempt [OF converge_safe [OF that]]) (auto intro!: safe_rules converge_safe that)
  have ids: "\<forall>p \<in> set out. p_ID p \<in> own" if "\<forall>p \<in> set ps. p_ID p \<in> own \<and> p_CustomerSlug p = c" "resolveFileUploads ws ps = (out, creds)" for ps ws out creds
    using resolveLoop_ids [OF that(2) [unfolded resolveFileUploads_def]] that(1) by auto
  have main: "keeps I (andThen (desiredCredentialFiles m c out slugs creds) (\<lambda>(files, rcp, rows).
        andThen (definitionRenderRows m c) (\<lambda>drows.
        attempt (converge m cl c desired files rcp rows drows au) (\<lambda>r.
      case r of Inr _ \<Rightarrow> ret ()
      | Inl e \<Rightarrow> (if errors_Is e ErrRepoFileChanged then converge m cl c desired files rcp rows drows au else fail e)))))"
    if "ours cl" "\<forall>p \<in> set out. p_ID p \<in> own" for cl out slugs creds desired
    by (rule safe_andThen [OF desiredCredentialFiles_safe [OF that(2)]], intro safe_prod safe_andThen [OF definitionRenderRows_safe] conv)
      (use that in auto)
  show ?thesis unfolding SyncCustomer_def Let_def
    by (intro safe_andThen [OF clientFor_safe] safe_option safe_ret safe_prod safe_andThen [OF safe_wrapErr [OF list]]
        safe_andThen [OF safe_lift] main TrueI ids) auto
qed

lemma versionClient_safe: "safe I (versionClient m c i) (\<lambda>(cl, _). ours cl)"
  unfolding versionClient_def
  by (rule safe_andThen [OF clientFor_safe] safe_option safe_fail safe_prod safe_andThen [OF safe_wrapErr [OF list]] safe_ret | simp)+

lemma ListVersions_safe: "keeps I (ListVersions m c i)"
  unfolding ListVersions_def
  by (rule safe_andThen [OF versionClient_safe], rule safe_prod, rule safe_wrapErr, rule client_ops) simp

lemma VersionAt_safe: "safe I (VersionAt m c i sha) (\<lambda>p. p_ID p = i)"
  unfolding VersionAt_def
  by (rule safe_if safe_fail safe_andThen [OF versionClient_safe] safe_prod safe_andThen [OF safe_wrapErr [OF client_ops(3)]]
      safe_andThen [OF safe_wrapErr [OF safe_lift]] safe_ret | simp add: pipelineFromFile_def)+

end

end
