(* ===== verification/PipelineAdopt.thy ===== *)
theory PipelineAdopt
  imports PipelineMirror
begin

section \<open>Adopting and importing repository edits\<close>

text \<open>
  \<^verbatim>\<open>workspace/pipelinemirror_adopt.go\<close> and \<^verbatim>\<open>workspace/pipelinemirror_import.go\<close>: the pass that pulls
  out-of-band commits of the pipelines repository into the database, and that creates rows for the
  files a fresh database does not know. Metrics and log lines are left out, except for the table that
  remembers which skipped files were reported.
\<close>

subsection \<open>Import\<close>

record importedSet =
  is_ids :: "string list"
  is_names :: "string list"

definition addTaken :: "importedSet \<Rightarrow> string \<Rightarrow> string \<Rightarrow> importedSet" where
  "addTaken s i name = s\<lparr>is_ids := i # is_ids s, is_names := name # is_names s\<rparr>"

definition credentialPathFor :: "string \<Rightarrow> string" where
  "credentialPathFor definitionPath = TrimSuffix definitionPath ''.yaml'' @ ''.credentials.age''"

text \<open>The embedded \<^verbatim>\<open>filesystemConfig\<close> with its tables: the bucket URL and the (name, glob) pairs.\<close>

definition d_filesystemTable :: "(string \<times> string) decoder" where
  "d_filesystemTable = d_obj (\<lambda>ms (n, g).
     Option.bind (dec_field d_str ''name'' ms n) (\<lambda>n'.
     Option.bind (dec_field d_str ''file_glob'' ms g) (\<lambda>g'.
     Option.bind (dec_field (d_list [] d_str) ''files'' ms []) (\<lambda>_.
     Some (n', g')))))"

definition d_filesystemSource :: "(filesystemConfig \<times> (string \<times> string) list) decoder" where
  "d_filesystemSource = d_obj (\<lambda>ms (c, ts).
     Option.bind (d_filesystemConfig_ms ms c) (\<lambda>c'.
     Option.bind (dec_field (d_list ([], []) d_filesystemTable) ''tables'' ms ts) (\<lambda>ts'.
     Some (c', ts'))))"

definition restoreFileUpload :: "Pipeline \<Rightarrow> Pipeline" where
  "restoreFileUpload p =
     (if p_SourceType p \<noteq> ''filesystem'' then p
      else case Unmarshal d_filesystemSource (zeroFilesystemConfig, []) (p_SourceConfig p) of
        None \<Rightarrow> p
      | Some (cfg, tables) \<Rightarrow>
          (if \<not> suffix (''/uploads/'' @ p_ID p @ ''/'') (fs_BucketURL cfg) then p
           else p\<lparr>p_SourceType := SourceTypeFileUpload,
             p_SourceConfig := Marshal (enc_fileUploadConfig
               (map (\<lambda>(n, g). zeroUploadedFile\<lparr>uf_Name := n, uf_File := g\<rparr>) tables))\<rparr>))"

text \<open>\<open>Inl\<close> the reason a file is not imported; the empty reason is nothing to do.\<close>

definition parseImportablePipeline ::
  "YAML \<Rightarrow> (string \<Rightarrow> bool) \<Rightarrow> int \<Rightarrow> string \<Rightarrow> string \<Rightarrow> importedSet \<Rightarrow> string + Pipeline" where
  "parseImportablePipeline Y uuidValid now content customerSlug taken =
     (case y_Unmarshal Y content of
        Inl _ \<Rightarrow> Inl ''the file is not valid YAML''
      | Inr f \<Rightarrow>
          (if \<not> uuidValid (pf_ID f) then Inl ''the file has no valid id''
           else if pf_ID f \<in> set (is_ids taken) then Inl []
           else if pf_Name f = [] then Inl ''the file has no name''
           else if pf_Name f \<in> set (is_names taken) then Inl ''another pipeline already uses that name''
           else
             (let p = restoreFileUpload (pipelineFromFile (pf_ID f) f) in
              if ValidateSourceConfig (p_SourceType p) (p_SourceConfig p) \<noteq> None
              then Inl ''the file's source_config is not valid for its source type''
              else Inr (p\<lparr>p_CustomerSlug := customerSlug, p_CreatedAt := now, p_UpdatedAt := now\<rparr>))))"

definition reportImportSkip :: "'w PipelineMirror \<Rightarrow> string \<Rightarrow> string \<Rightarrow> string \<Rightarrow> ('w, unit) io" where
  "reportImportSkip m filePath blobSHA reason =
     (if reason = [] \<or> \<not> m_HasLogger m then ret ()
      else andThen (firstReport (m_importSkips m) filePath blobSHA) (\<lambda>_. ret ()))"

record pipelineAdoptState =
  st_pipelines :: "Pipeline list"
  st_renders :: "(string \<times> PipelineDefinitionRender) list"
  st_yamlTree :: "(string \<times> string) list"
  st_ageTree :: "(string \<times> string) list"

text \<open>\<open>importContent\<close> is the rest of \<^verbatim>\<open>importFile\<close> once the file is read.\<close>

definition importContent ::
  "'w PipelineMirror \<Rightarrow> 'w PipelineImporter \<Rightarrow> string \<Rightarrow> string \<Rightarrow> pipelineAdoptState \<Rightarrow> importedSet \<Rightarrow> string \<Rightarrow> int
    \<Rightarrow> ('w, importedSet) io" where
  "importContent m imp customerSlug filePath st taken content now =
     (let blobSHA = gm_str (st_yamlTree st) filePath in
      case parseImportablePipeline (m_YAML m) (m_uuidValidate m) now content customerSlug taken of
        Inl reason \<Rightarrow> andThen (reportImportSkip m filePath blobSHA reason) (\<lambda>_. ret taken)
      | Inr p0 \<Rightarrow>
          (let p = p0\<lparr>p_CredentialsExternal := (map_of (st_ageTree st) (credentialPathFor filePath) \<noteq> None)\<rparr> in
           attempt (ImportPipeline imp p) (\<lambda>r.
           case r of
             Inl e \<Rightarrow>
               (if errors_Is e ErrPipelineAlreadyExists
                then andThen (reportImportSkip m filePath blobSHA ''a pipeline with that id or name already exists'') (\<lambda>_. ret taken)
                else fail (Errorf (''import '' @ filePath) e))
           | Inr _ \<Rightarrow>
               andThen (recordDefinitionRender m (p_ID p) filePath blobSHA) (\<lambda>_.
               ret (addTaken taken (p_ID p) (p_Name p))))))"

definition importFile ::
  "'w PipelineMirror \<Rightarrow> 'w PipelineImporter \<Rightarrow> 'w RepoFileClient \<Rightarrow> string \<Rightarrow> string \<Rightarrow> pipelineAdoptState \<Rightarrow> importedSet
    \<Rightarrow> ('w, importedSet) io" where
  "importFile m imp client customerSlug filePath st taken =
     andThen (wrapErr (''get '' @ filePath) (GetContents client pipelinesRepo filePath)) (\<lambda>(content, _).
     (\<lambda>w. importContent m imp customerSlug filePath st taken content (m_Now m w) w))"

fun importLoop ::
  "'w PipelineMirror \<Rightarrow> 'w PipelineImporter \<Rightarrow> 'w RepoFileClient \<Rightarrow> string \<Rightarrow> pipelineAdoptState \<Rightarrow> string list \<Rightarrow> importedSet
    \<Rightarrow> ('w, importedSet) io" where
  "importLoop m imp client customerSlug st [] taken = ret taken"
| "importLoop m imp client customerSlug st (f # fs) taken =
     (if f \<in> set (map (\<lambda>(_, r). dr_Path r) (st_renders st)) then importLoop m imp client customerSlug st fs taken
      else
        andThen (importFile m imp client customerSlug f st taken) (\<lambda>taken'.
        importLoop m imp client customerSlug st fs taken'))"

definition importUnrendered :: "'w PipelineMirror \<Rightarrow> 'w RepoFileClient \<Rightarrow> string \<Rightarrow> pipelineAdoptState \<Rightarrow> ('w, unit) io" where
  "importUnrendered m client customerSlug st =
     (case m_Importer m of
        None \<Rightarrow> ret ()
      | Some imp \<Rightarrow>
          andThen (importLoop m imp client customerSlug st (sortedPaths (st_yamlTree st))
            (fold (\<lambda>p s. addTaken s (p_ID p) (p_Name p)) (st_pipelines st) \<lparr>is_ids = [], is_names = []\<rparr>)) (\<lambda>_. ret ()))"

subsection \<open>Adopt\<close>

text \<open>\<open>Inl\<close> the reason an edit is refused.\<close>

definition parseAdoptablePipeline :: "YAML \<Rightarrow> string \<Rightarrow> Pipeline \<Rightarrow> string + Pipeline" where
  "parseAdoptablePipeline Y content current =
     (case y_Unmarshal Y content of
        Inl _ \<Rightarrow> Inl ''the file is not valid YAML''
      | Inr f \<Rightarrow>
          (if pf_ID f \<noteq> p_ID current then Inl ''the file's id field does not match this pipeline''
           else if pf_SourceType f \<noteq> p_SourceType current then Inl ''the file changes the pipeline's source type''
           else
             (let adopted = pipelineFromFile (p_ID current) f in
              if ValidateSourceConfig (p_SourceType adopted) (p_SourceConfig adopted) \<noteq> None
              then Inl ''the file's source_config is not valid for this source type''
              else Inr (adopted\<lparr>p_CustomerSlug := p_CustomerSlug current, p_SourceCredentials := p_SourceCredentials current,
                p_CreatedAt := p_CreatedAt current, p_CredentialsExternal := p_CredentialsExternal current\<rparr>))))"

definition refuseAdoption ::
  "'w PipelineMirror \<Rightarrow> 'w DefinitionRenderStore \<Rightarrow> Pipeline \<Rightarrow> string \<Rightarrow> string \<Rightarrow> string \<Rightarrow> ('w, unit) io" where
  "refuseAdoption m d p filePath treeSHA reason =
     attempt (MarkPipelineDefinitionRefused d (p_ID p) treeSHA) (\<lambda>r.
     case r of
       Inl _ \<Rightarrow> ret ()
     | Inr _ \<Rightarrow> notifyBestEffort (m_Notifications m) (infoNote (p_CustomerSlug p) ''Pipeline file edit could not be applied''
         (filePath @ '' was edited outside the Console, but '' @ reason @
          ''. The Console keeps its current configuration; fix the file or save the pipeline in the Console to overwrite it.'') (p_ID p)))"

definition notifyAdopted :: "'w PipelineMirror \<Rightarrow> string \<Rightarrow> string \<Rightarrow> string \<Rightarrow> ('w, unit) io" where
  "notifyAdopted m customerSlug filePath i =
     notifyBestEffort (m_Notifications m) (infoNote customerSlug ''Pipeline updated from your repo''
       (filePath @ '' was edited outside the Console; the change has been applied to the pipeline.'') i)"

definition adoptDefinition ::
  "'w PipelineMirror \<Rightarrow> 'w DefinitionRenderStore \<Rightarrow> 'w RepoFileClient \<Rightarrow> Pipeline \<Rightarrow> (string \<times> PipelineDefinitionRender) list
    \<Rightarrow> (string \<times> string) list \<Rightarrow> ('w, unit) io" where
  "adoptDefinition m d client p defRenders yamlTree =
     (case map_of defRenders (p_ID p) of
        None \<Rightarrow> ret ()
      | Some row \<Rightarrow>
          (case map_of yamlTree (dr_Path row) of
             None \<Rightarrow> ret ()
           | Some treeSHA \<Rightarrow>
               (if treeSHA = dr_BlobSHA row then ret ()
                else if treeSHA = dr_RefusedBlobSHA row then ret ()
                else
                  andThen (wrapErr (''get '' @ dr_Path row) (GetContents client pipelinesRepo (dr_Path row))) (\<lambda>(content, _).
                  case parseAdoptablePipeline (m_YAML m) content p of
                    Inl reason \<Rightarrow> refuseAdoption m d p (dr_Path row) treeSHA reason
                  | Inr adopted \<Rightarrow>
                      (\<lambda>w. andThen (wrapErr (''adopt '' @ dr_Path row)
                          (repo_UpdatePipeline (m_Pipelines m) (adopted\<lparr>p_UpdatedAt := m_Now m w\<rparr>))) (\<lambda>_.
                        andThen (recordDefinitionRender m (p_ID p) (dr_Path row) treeSHA) (\<lambda>_.
                        notifyAdopted m (p_CustomerSlug p) (dr_Path row) (p_ID p))) w)))))"

fun adoptLoop ::
  "'w PipelineMirror \<Rightarrow> 'w DefinitionRenderStore \<Rightarrow> 'w RepoFileClient \<Rightarrow> (string \<times> PipelineDefinitionRender) list
    \<Rightarrow> (string \<times> string) list \<Rightarrow> Pipeline list \<Rightarrow> ('w, unit) io" where
  "adoptLoop m d client defRenders yamlTree [] = ret ()"
| "adoptLoop m d client defRenders yamlTree (p # ps) =
     andThen (adoptDefinition m d client p defRenders yamlTree) (\<lambda>_. adoptLoop m d client defRenders yamlTree ps)"

fun flagLoop ::
  "'w PipelineMirror \<Rightarrow> 'w OwnershipStore \<Rightarrow> (string \<times> string) list \<Rightarrow> (string \<times> PipelineCredentialRender) list
    \<Rightarrow> (string \<times> string) list \<Rightarrow> Pipeline list \<Rightarrow> ('w, unit) io" where
  "flagLoop m own slugs renders ageTree [] = ret ()"
| "flagLoop m own slugs renders ageTree (p # ps) =
     andThen
       (if p_CredentialsExternal p then ret ()
        else case map_of renders (p_ID p) of
          None \<Rightarrow> ret ()
        | Some row \<Rightarrow>
            (let filePath = agePath (gm_str slugs (p_ID p)) in
             case map_of ageTree filePath of
               None \<Rightarrow> ret ()
             | Some treeSHA \<Rightarrow> (if treeSHA = cr_BlobSHA row then ret () else markCredentialsExternal m own filePath (p_ID p))))
       (\<lambda>_. flagLoop m own slugs renders ageTree ps)"

definition flagForeignCredentialFiles ::
  "'w PipelineMirror \<Rightarrow> string \<Rightarrow> Pipeline list \<Rightarrow> (string \<times> string) list \<Rightarrow> ('w, unit) io" where
  "flagForeignCredentialFiles m customerSlug ps ageTree =
     (case (m_Renders m, m_Ownership m) of
        (Some rs, Some own) \<Rightarrow>
          attempt (GetPipelineCredentialRenders rs customerSlug) (\<lambda>r.
          case r of
            Inl _ \<Rightarrow> ret ()
          | Inr renders \<Rightarrow> flagLoop m own (pipelineFileSlugs ps) renders ageTree ps)
      | _ \<Rightarrow> ret ())"

definition loadAdoptState :: "'w PipelineMirror \<Rightarrow> 'w DefinitionRenderStore \<Rightarrow> 'w RepoFileClient \<Rightarrow> string \<Rightarrow> ('w, pipelineAdoptState) io" where
  "loadAdoptState m d client customerSlug =
     andThen (wrapErr ''list pipelines tree'' (ListTree client pipelinesRepo)) (\<lambda>tree.
     andThen (wrapErr ''list pipelines'' (repo_ListPipelinesByCustomer (m_Pipelines m) customerSlug)) (\<lambda>ps.
     andThen (wrapErr ''get definition renders'' (GetPipelineDefinitionRenders d customerSlug)) (\<lambda>renders.
     ret \<lparr>st_pipelines = ps, st_renders = renders, st_yamlTree = fst (partitionPipelineTree tree),
          st_ageTree = snd (partitionPipelineTree tree)\<rparr>)))"

definition AdoptCustomer :: "'w PipelineMirror \<Rightarrow> string \<Rightarrow> ('w, unit) io" where
  "AdoptCustomer m customerSlug =
     andThen (clientFor m customerSlug) (\<lambda>c.
     case c of
       None \<Rightarrow> ret ()
     | Some (client, _) \<Rightarrow>
         (case m_DefinitionRenders m of
            None \<Rightarrow> ret ()
          | Some d \<Rightarrow>
              andThen (loadAdoptState m d client customerSlug) (\<lambda>st.
              andThen (importUnrendered m client customerSlug st) (\<lambda>_.
              andThen (adoptLoop m d client (st_renders st) (st_yamlTree st) (st_pipelines st)) (\<lambda>_.
              flagForeignCredentialFiles m customerSlug (st_pipelines st) (st_ageTree st))))))"

subsection \<open>What a pass keeps\<close>

text \<open>The further ports of the adopt and import pass: rows are created for the workspace, or written under ids it owns.\<close>

locale adopt_ports = mirror_ports +
  assumes import: "m_Importer m = Some imp \<Longrightarrow> p_CustomerSlug p = c \<Longrightarrow> keeps I (ImportPipeline imp p)"
    and update: "p_ID p \<in> own \<Longrightarrow> keeps I (repo_UpdatePipeline (m_Pipelines m) p)"
    and refuse: "m_DefinitionRenders m = Some ds \<Longrightarrow> keeps I (MarkPipelineDefinitionRefused ds i sha)"
    and skips: "keeps I (firstReport (m_importSkips m) f sha)"
begin

lemma reportImportSkip_safe: "keeps I (reportImportSkip m f sha why)"
  unfolding reportImportSkip_def by (rule safe_rules skips TrueI)+

lemma parseImportable_slug:
  "parseImportablePipeline Y u n content c taken = Inr p \<Longrightarrow> p_CustomerSlug p = c"
  by (auto simp: parseImportablePipeline_def Let_def split: sum.splits if_splits)

lemma importContent_safe:
  assumes "m_Importer m = Some imp"
  shows "keeps I (importContent m imp c f st taken content now)"
  unfolding importContent_def
  by (rule safe_rules reportImportSkip_safe import [OF assms] recordDefinitionRender_safe TrueI | simp add: parseImportable_slug)+

lemma importFile_safe:
  assumes "ours cl" "m_Importer m = Some imp"
  shows "keeps I (importFile m imp cl c f st taken)"
  unfolding importFile_def
  by (intro safe_andThen [OF safe_wrapErr [OF client_ops(2) [OF assms(1)]]] safe_prod
      safe_now [where f = "\<lambda>w. importContent m imp c f st taken content (m_Now m w)" for content] importContent_safe [OF assms(2)])

lemma importLoop_safe: "ours cl \<Longrightarrow> m_Importer m = Some imp \<Longrightarrow> keeps I (importLoop m imp cl c st fs taken)"
  by (induction fs arbitrary: taken) (auto intro!: safe_ret safe_andThen [OF importFile_safe])

lemma importUnrendered_safe: "ours cl \<Longrightarrow> keeps I (importUnrendered m cl c st)"
  unfolding importUnrendered_def
  by (rule safe_option safe_ret safe_andThen [OF importLoop_safe] TrueI | assumption)+

lemma parseAdoptable_id: "parseAdoptablePipeline Y content p = Inr q \<Longrightarrow> p_ID q = p_ID p"
  by (auto simp: parseAdoptablePipeline_def Let_def pipelineFromFile_def split: sum.splits if_splits)

lemma refuseAdoption_safe: "m_DefinitionRenders m = Some ds \<Longrightarrow> keeps I (refuseAdoption m ds p f sha why)"
  unfolding refuseAdoption_def by (rule safe_rules refuse notifyBestEffort_safe TrueI | assumption)+

lemma adoptDefinition_safe:
  assumes "ours cl" "m_DefinitionRenders m = Some ds" "p_ID p \<in> own"
  shows "keeps I (adoptDefinition m ds cl p rows tr)"
  unfolding adoptDefinition_def notifyAdopted_def
  by (rule safe_option safe_if safe_ret safe_andThen [OF safe_wrapErr [OF client_ops(2) [OF assms(1)]]] safe_prod safe_sum
      refuseAdoption_safe [OF assms(2)] safe_andThen_now [OF safe_andThen [OF safe_wrapErr [OF update]]]
      safe_andThen [OF recordDefinitionRender_safe] notifyBestEffort_safe TrueI | simp add: parseAdoptable_id assms(3))+

lemma adoptLoop_safe:
  "ours cl \<Longrightarrow> m_DefinitionRenders m = Some ds \<Longrightarrow> \<forall>p \<in> set ps. p_ID p \<in> own \<Longrightarrow> keeps I (adoptLoop m ds cl rows tr ps)"
  by (induction ps) (auto intro!: safe_ret safe_andThen [OF adoptDefinition_safe])

lemma flagLoop_safe:
  assumes "m_Ownership m = Some ow"
  shows "\<forall>p \<in> set ps. p_ID p \<in> own \<Longrightarrow> keeps I (flagLoop m ow slugs rows tr ps)"
proof (induction ps)
  case (Cons p ps)
  then show ?case unfolding flagLoop.simps Let_def
    by (intro safe_andThen [where P = "\<lambda>_. True"] safe_if safe_option safe_ret markCredentialsExternal_safe [OF assms] TrueI) auto
qed (auto intro: safe_ret)

lemma flagForeignCredentialFiles_safe:
  "\<forall>p \<in> set ps. p_ID p \<in> own \<Longrightarrow> keeps I (flagForeignCredentialFiles m c ps tr)"
  unfolding flagForeignCredentialFiles_def
  by (auto split: option.splits intro!: safe_ret safe_attempt [OF renders] flagLoop_safe)

lemma loadAdoptState_safe:
  "ours cl \<Longrightarrow> m_DefinitionRenders m = Some ds \<Longrightarrow>
   safe I (loadAdoptState m ds cl c) (\<lambda>st. \<forall>p \<in> set (st_pipelines st). p_ID p \<in> own)"
  unfolding loadAdoptState_def
  by (rule safe_andThen [OF safe_wrapErr [OF client_ops(1)]] safe_andThen [OF safe_wrapErr [OF list]]
      safe_andThen [OF safe_wrapErr [OF def_renders]] safe_ret | simp)+

lemma AdoptCustomer_safe: "keeps I (AdoptCustomer m c)"
  unfolding AdoptCustomer_def
  by (rule safe_andThen [OF clientFor_safe] safe_option safe_ret TrueI safe_prod safe_andThen [OF loadAdoptState_safe]
      safe_andThen [OF importUnrendered_safe] safe_andThen [OF adoptLoop_safe] flagForeignCredentialFiles_safe | simp)+

end

end
