(* ===== verification/TransformationMirror.thy ===== *)
theory TransformationMirror
  imports Transformations PipelineAdopt
begin

section \<open>The mirror of the transformations (\<^verbatim>\<open>workspace/transformationmirror.go\<close>)\<close>

text \<open>
  The execution configurations of the transformations as files of the box's \<^verbatim>\<open>transformations\<close> repository, the
  adopt pass of \<^verbatim>\<open>transformationmirror_adopt.go\<close> and the import of \<^verbatim>\<open>transformationmirror_import.go\<close>. The dbt project
  around the files is the customer's. Slugs, the client, the removal of stale files and the report table are
  shared with the pipelines' mirror. Names that mirror also uses end in \<open>_t\<close>; the YAML codec of a file is
  a parameter.
\<close>

definition transformationsRepo :: string where "transformationsRepo = ''transformations''"

record transformationFile =
  yf_ID :: string
  yf_Name :: string
  yf_RepoURL :: string
  yf_RepoRef :: string
  yf_Schedule :: string
  yf_TriggerAfterPipeline :: string
  yf_DBTSelector :: string
  yf_Enabled :: bool

record TransformationYAML =
  ty_Marshal :: "transformationFile \<Rightarrow> err + string"
  ty_Unmarshal :: "string \<Rightarrow> err + transformationFile"

record transformationDefinitionFile =
  tdf_transformationID :: string
  tdf_content :: string

record 'w TransformationMirror =
  tm_Workspaces :: "'w Resolver"
  tm_Credentials :: "'w BoxGitCredentialStore option"
  tm_Transformations :: "'w TransformationRepository"
  tm_Pipelines :: "string \<Rightarrow> ('w, Pipeline) io"
  tm_DefinitionRenders :: "'w TransformationDefinitionRenderStore option"
  tm_Notifications :: "'w Notifier option"
  tm_Importer :: "'w TransformationImporter option"
  tm_NewClient :: "string \<Rightarrow> string \<Rightarrow> string \<Rightarrow> 'w RepoFileClient"
  tm_HasLogger :: bool
  tm_importSkips :: "'w cell"
  tm_YAML :: TransformationYAML
  tm_uuidValidate :: "string \<Rightarrow> bool"
  tm_Now :: "'w \<Rightarrow> int"

subsection \<open>Rendering\<close>

definition transformationFileSlug :: "Transformation \<Rightarrow> string" where
  "transformationFileSlug t = cmp_Or (nameFileSlug (tf_Name t)) (shortID (tf_ID t))"

definition suffixedSlug_t :: "Transformation list \<Rightarrow> Transformation \<Rightarrow> string" where
  "suffixedSlug_t ts t =
     (let slug = transformationFileSlug t in
      if length (filter (\<lambda>q. transformationFileSlug q = slug) ts) > 1 then slug @ ''-'' @ shortID (tf_ID t) else slug)"

definition transformationFileSlugs :: "Transformation list \<Rightarrow> (string \<times> string) list" where
  "transformationFileSlugs ts = fold (\<lambda>t m. AList.update (tf_ID t) (suffixedSlug_t ts t) m) ts []"

definition renderTransformationFile :: "TransformationYAML \<Rightarrow> Transformation \<Rightarrow> err + string" where
  "renderTransformationFile Y t =
     (case ty_Marshal Y \<lparr>yf_ID = tf_ID t, yf_Name = tf_Name t, yf_RepoURL = tf_RepoURL t, yf_RepoRef = tf_RepoRef t,
          yf_Schedule = tf_Schedule t, yf_TriggerAfterPipeline = tf_TriggerAfterPipelineID t,
          yf_DBTSelector = tf_DBTSelector t, yf_Enabled = tf_Enabled t\<rparr> of
        Inl e \<Rightarrow> Inl (Errorf ''marshal'' e)
      | Inr out \<Rightarrow> Inr (pipelineFileHeader @ out))"

definition tyamlPath :: "string \<Rightarrow> string" where
  "tyamlPath slug = ''transformations/'' @ slug @ ''.yaml''"

fun renderLoop_t :: "TransformationYAML \<Rightarrow> (string \<times> string) list \<Rightarrow> Transformation list
    \<Rightarrow> (string \<times> transformationDefinitionFile) list \<Rightarrow> err + (string \<times> transformationDefinitionFile) list" where
  "renderLoop_t Y slugs [] files = Inr files"
| "renderLoop_t Y slugs (t # ts) files =
     (case renderTransformationFile Y t of
        Inl e \<Rightarrow> Inl (Errorf ''render transformation'' e)
      | Inr content \<Rightarrow> renderLoop_t Y slugs ts
          (AList.update (tyamlPath (gm_str slugs (tf_ID t))) \<lparr>tdf_transformationID = tf_ID t, tdf_content = content\<rparr> files))"

definition renderTransformationFiles ::
  "TransformationYAML \<Rightarrow> Transformation list \<Rightarrow> err + (string \<times> transformationDefinitionFile) list" where
  "renderTransformationFiles Y ts = renderLoop_t Y (transformationFileSlugs ts) ts []"

subsection \<open>Converging the repository\<close>

definition transformationTreeYAML :: "RepoFileEntry list \<Rightarrow> (string \<times> string) list" where
  "transformationTreeYAML tree =
     fold (\<lambda>e files. if prefix ''transformations/'' (e_Path e) \<and> suffix ''.yaml'' (e_Path e)
       then AList.update (e_Path e) (e_SHA e) files else files) tree []"

definition recordDefinitionRender_t :: "'w TransformationMirror \<Rightarrow> string \<Rightarrow> string \<Rightarrow> string \<Rightarrow> ('w, unit) io" where
  "recordDefinitionRender_t m i filePath blobSHA =
     (case tm_DefinitionRenders m of
        None \<Rightarrow> ret ()
      | Some d \<Rightarrow> attempt (UpsertTransformationDefinitionRender d
          \<lparr>td_TransformationID = i, td_Path = filePath, td_BlobSHA = blobSHA, td_RefusedBlobSHA = []\<rparr>) (\<lambda>_. ret ()))"

definition adoptInSyncRender_t ::
  "'w TransformationMirror \<Rightarrow> string \<Rightarrow> string \<Rightarrow> string \<Rightarrow> TransformationDefinitionRender option \<Rightarrow> ('w, unit) io" where
  "adoptInSyncRender_t m i filePath treeSHA row =
     (case row of
        Some r \<Rightarrow> (if td_BlobSHA r \<noteq> treeSHA \<or> td_Path r \<noteq> filePath then recordDefinitionRender_t m i filePath treeSHA else ret ())
      | None \<Rightarrow> recordDefinitionRender_t m i filePath treeSHA)"

definition tnote :: "string \<Rightarrow> string \<Rightarrow> string \<Rightarrow> Notification" where
  "tnote customerSlug title body =
     \<lparr>n_CustomerSlug = customerSlug, n_Type = ''info'', n_Title = title, n_Body = body, n_Link = ''transformations'', n_ID = [], n_Read = False, n_CreatedAt = 0\<rparr>"

definition notifyDefinitionDrift_t :: "'w TransformationMirror \<Rightarrow> string \<Rightarrow> string \<Rightarrow> ('w, unit) io" where
  "notifyDefinitionDrift_t m customerSlug filePath =
     notifyBestEffort (tm_Notifications m) (tnote customerSlug ''Transformation file changed outside the Console''
       (filePath @ '' in your workspace repo was edited outside the Console; the Console version has been reapplied. The overwritten change remains in the file's git history.''))"

definition upsertFile_t ::
  "'w TransformationMirror \<Rightarrow> 'w RepoFileClient \<Rightarrow> string \<Rightarrow> string \<Rightarrow> transformationDefinitionFile \<Rightarrow> (string \<times> string) list
    \<Rightarrow> (string \<times> TransformationDefinitionRender) list \<Rightarrow> CommitAuthor option \<Rightarrow> ('w, unit) io" where
  "upsertFile_t m client customerSlug filePath df existing defRenders author =
     (case map_of existing filePath of
        None \<Rightarrow>
          andThen (wrapErr (''put '' @ filePath)
            (PutContents client transformationsRepo filePath (tdf_content df) [] (renderMsg filePath) author)) (\<lambda>newSHA.
          recordDefinitionRender_t m (tdf_transformationID df) filePath newSHA)
      | Some treeSHA \<Rightarrow>
          andThen (wrapErr (''get '' @ filePath) (GetContents client transformationsRepo filePath)) (\<lambda>(current, sha).
          let row = map_of defRenders (tdf_transformationID df) in
          if current = tdf_content df then adoptInSyncRender_t m (tdf_transformationID df) filePath treeSHA row
          else
            (let drifted = (case row of None \<Rightarrow> False | Some r \<Rightarrow> td_Path r = filePath \<and> td_BlobSHA r \<noteq> treeSHA) in
             andThen (wrapErr (''put '' @ filePath)
               (PutContents client transformationsRepo filePath (tdf_content df) sha (renderMsg filePath) author)) (\<lambda>newSHA.
             andThen (recordDefinitionRender_t m (tdf_transformationID df) filePath newSHA) (\<lambda>_.
             if drifted then notifyDefinitionDrift_t m customerSlug filePath else ret ())))))"

fun upsertFiles_t ::
  "'w TransformationMirror \<Rightarrow> 'w RepoFileClient \<Rightarrow> string \<Rightarrow> (string \<times> transformationDefinitionFile) list \<Rightarrow> (string \<times> string) list
    \<Rightarrow> (string \<times> TransformationDefinitionRender) list \<Rightarrow> CommitAuthor option \<Rightarrow> string list \<Rightarrow> ('w, unit) io" where
  "upsertFiles_t m client customerSlug desired existing defRenders author [] = ret ()"
| "upsertFiles_t m client customerSlug desired existing defRenders author (f # fs) =
     (case map_of desired f of
        None \<Rightarrow> upsertFiles_t m client customerSlug desired existing defRenders author fs
      | Some df \<Rightarrow>
          andThen (upsertFile_t m client customerSlug f df existing defRenders author) (\<lambda>_.
          upsertFiles_t m client customerSlug desired existing defRenders author fs))"

definition converge_t ::
  "'w TransformationMirror \<Rightarrow> 'w RepoFileClient \<Rightarrow> string \<Rightarrow> (string \<times> transformationDefinitionFile) list
    \<Rightarrow> (string \<times> TransformationDefinitionRender) list \<Rightarrow> CommitAuthor option \<Rightarrow> ('w, unit) io" where
  "converge_t m client customerSlug desired defRenders author =
     andThen (wrapErr ''list transformations tree'' (ListTree client transformationsRepo)) (\<lambda>tree.
     let existing = transformationTreeYAML tree in
     andThen (upsertFiles_t m client customerSlug desired existing defRenders author (sortedPaths desired)) (\<lambda>_.
     deleteStaleRendered client transformationsRepo existing desired author))"

definition definitionRenderRows_t ::
  "'w TransformationMirror \<Rightarrow> string \<Rightarrow> ('w, (string \<times> TransformationDefinitionRender) list) io" where
  "definitionRenderRows_t m customerSlug =
     (case tm_DefinitionRenders m of
        None \<Rightarrow> ret []
      | Some d \<Rightarrow> wrapErr ''get definition renders'' (GetTransformationDefinitionRenders d customerSlug))"

definition clientFor_t :: "'w TransformationMirror \<Rightarrow> string \<Rightarrow> ('w, ('w RepoFileClient \<times> Workspace) option) io" where
  "clientFor_t m customerSlug = boxMirrorClientFor (tm_Workspaces m) (tm_Credentials m) (tm_NewClient m) customerSlug"

definition SyncCustomer_t :: "'w TransformationMirror \<Rightarrow> string \<Rightarrow> CommitAuthor option \<Rightarrow> ('w, unit) io" where
  "SyncCustomer_t m customerSlug author =
     andThen (clientFor_t m customerSlug) (\<lambda>c.
     case c of
       None \<Rightarrow> ret ()
     | Some (client, _) \<Rightarrow>
         andThen (wrapErr ''list transformations'' (repo_ListTransformationsByCustomer (tm_Transformations m) customerSlug)) (\<lambda>ts.
         andThen (lift (renderTransformationFiles (tm_YAML m) ts)) (\<lambda>desired.
         andThen (definitionRenderRows_t m customerSlug) (\<lambda>defRenders.
         attempt (converge_t m client customerSlug desired defRenders author) (\<lambda>r.
         case r of
           Inr _ \<Rightarrow> ret ()
         | Inl e \<Rightarrow>
             (if errors_Is e ErrRepoFileChanged then converge_t m client customerSlug desired defRenders author
              else fail e))))))"

subsection \<open>Import\<close>

record transformationAdoptState =
  sta_transformations :: "Transformation list"
  sta_renders :: "(string \<times> TransformationDefinitionRender) list"
  sta_yamlTree :: "(string \<times> string) list"

text \<open>\<open>Inl\<close> the reason a trigger is not taken; a lookup that fails otherwise aborts the pass.\<close>

definition importableTrigger :: "'w TransformationMirror \<Rightarrow> string \<Rightarrow> string \<Rightarrow> ('w, string + string) io" where
  "importableTrigger m i customerSlug =
     (if i = [] then ret (Inr [])
      else
        attempt (tm_Pipelines m i) (\<lambda>r.
        case r of
          Inl e \<Rightarrow> (if errors_Is e ErrPipelineNotFound then ret (Inl ''the file's trigger_after_pipeline does not exist'')
                   else fail (Errorf ''get trigger pipeline'' e))
        | Inr p \<Rightarrow> (if p_CustomerSlug p \<noteq> customerSlug then ret (Inl ''the file's trigger_after_pipeline does not exist'')
                   else ret (Inr i))))"

definition transformationFromFile :: "transformationFile \<Rightarrow> string \<Rightarrow> string \<Rightarrow> int \<Rightarrow> Transformation" where
  "transformationFromFile f customerSlug trigger now =
     \<lparr>tf_ID = yf_ID f, tf_CustomerSlug = customerSlug, tf_Name = yf_Name f, tf_RepoURL = yf_RepoURL f,
      tf_RepoRef = cmp_Or (yf_RepoRef f) ''main'', tf_GitCredentials = [], tf_Schedule = yf_Schedule f,
      tf_TriggerAfterPipelineID = trigger, tf_DBTSelector = yf_DBTSelector f, tf_Enabled = yf_Enabled f,
      tf_CreatedAt = now, tf_UpdatedAt = now, tf_TriggerNow = False, tf_PendingRunID = [], tf_LastRunAt = None,
      tf_LastRunTime = None, tf_LastRunStatus = []\<rparr>"

definition parseImportableTransformation ::
  "'w TransformationMirror \<Rightarrow> string \<Rightarrow> string \<Rightarrow> importedSet \<Rightarrow> ('w, string + Transformation) io" where
  "parseImportableTransformation m content customerSlug taken =
     (case ty_Unmarshal (tm_YAML m) content of
        Inl _ \<Rightarrow> ret (Inl ''the file is not valid YAML'')
      | Inr f \<Rightarrow>
          (if \<not> tm_uuidValidate m (yf_ID f) then ret (Inl ''the file has no valid id'')
           else if yf_ID f \<in> set (is_ids taken) then ret (Inl [])
           else if yf_Name f = [] then ret (Inl ''the file has no name'')
           else if yf_Name f \<in> set (is_names taken) then ret (Inl ''another transformation already uses that name'')
           else
             andThen (importableTrigger m (yf_TriggerAfterPipeline f) customerSlug) (\<lambda>r.
             case r of
               Inl reason \<Rightarrow> ret (Inl reason)
             | Inr trigger \<Rightarrow> (\<lambda>w. ret (Inr (transformationFromFile f customerSlug trigger (tm_Now m w))) w))))"

definition reportImportSkip_t :: "'w TransformationMirror \<Rightarrow> string \<Rightarrow> string \<Rightarrow> string \<Rightarrow> ('w, unit) io" where
  "reportImportSkip_t m filePath blobSHA reason =
     (if reason = [] \<or> \<not> tm_HasLogger m then ret ()
      else andThen (firstReport (tm_importSkips m) filePath blobSHA) (\<lambda>_. ret ()))"

definition importFile_t ::
  "'w TransformationMirror \<Rightarrow> 'w TransformationImporter \<Rightarrow> 'w RepoFileClient \<Rightarrow> string \<Rightarrow> string \<Rightarrow> string \<Rightarrow> importedSet
    \<Rightarrow> ('w, importedSet) io" where
  "importFile_t m imp client customerSlug filePath blobSHA taken =
     andThen (wrapErr (''get '' @ filePath) (GetContents client transformationsRepo filePath)) (\<lambda>(content, _).
     andThen (parseImportableTransformation m content customerSlug taken) (\<lambda>parsed.
     case parsed of
       Inl reason \<Rightarrow> andThen (reportImportSkip_t m filePath blobSHA reason) (\<lambda>_. ret taken)
     | Inr t \<Rightarrow>
         attempt (ImportTransformation imp t) (\<lambda>r.
         case r of
           Inl e \<Rightarrow>
             (if errors_Is e ErrTransformationAlreadyExists
              then andThen (reportImportSkip_t m filePath blobSHA ''another transformation already uses that name'') (\<lambda>_. ret taken)
              else fail (Errorf (''import '' @ filePath) e))
         | Inr _ \<Rightarrow>
             andThen (recordDefinitionRender_t m (tf_ID t) filePath blobSHA) (\<lambda>_.
             ret (addTaken taken (tf_ID t) (tf_Name t))))))"

fun importLoop_t ::
  "'w TransformationMirror \<Rightarrow> 'w TransformationImporter \<Rightarrow> 'w RepoFileClient \<Rightarrow> string \<Rightarrow> transformationAdoptState \<Rightarrow> string list \<Rightarrow> importedSet
    \<Rightarrow> ('w, importedSet) io" where
  "importLoop_t m imp client customerSlug st [] taken = ret taken"
| "importLoop_t m imp client customerSlug st (f # fs) taken =
     (if f \<in> set (map (\<lambda>(_, r). td_Path r) (sta_renders st)) then importLoop_t m imp client customerSlug st fs taken
      else
        andThen (importFile_t m imp client customerSlug f (gm_str (sta_yamlTree st) f) taken) (\<lambda>taken'.
        importLoop_t m imp client customerSlug st fs taken'))"

definition importUnrendered_t :: "'w TransformationMirror \<Rightarrow> 'w RepoFileClient \<Rightarrow> string \<Rightarrow> transformationAdoptState \<Rightarrow> ('w, unit) io" where
  "importUnrendered_t m client customerSlug st =
     (case tm_Importer m of
        None \<Rightarrow> ret ()
      | Some imp \<Rightarrow>
          andThen (importLoop_t m imp client customerSlug st (sortedPaths (sta_yamlTree st))
            (fold (\<lambda>t s. addTaken s (tf_ID t) (tf_Name t)) (sta_transformations st) \<lparr>is_ids = [], is_names = []\<rparr>)) (\<lambda>_. ret ()))"

subsection \<open>Adopt\<close>

definition parseAdoptableTransformation ::
  "'w TransformationMirror \<Rightarrow> string \<Rightarrow> Transformation \<Rightarrow> ('w, string + Transformation) io" where
  "parseAdoptableTransformation m content current =
     (case ty_Unmarshal (tm_YAML m) content of
        Inl _ \<Rightarrow> ret (Inl ''the file is not valid YAML'')
      | Inr f \<Rightarrow>
          (if yf_ID f \<noteq> tf_ID current then ret (Inl ''the file's id field does not match this transformation'')
           else
             andThen (importableTrigger m (yf_TriggerAfterPipeline f) (tf_CustomerSlug current)) (\<lambda>r.
             case r of
               Inl reason \<Rightarrow> ret (Inl reason)
             | Inr trigger \<Rightarrow>
                 ret (Inr ((transformationFromFile f (tf_CustomerSlug current) trigger 0)\<lparr>tf_ID := tf_ID current,
                   tf_GitCredentials := tf_GitCredentials current, tf_CreatedAt := tf_CreatedAt current\<rparr>)))))"

definition refuseAdoption_t ::
  "'w TransformationMirror \<Rightarrow> 'w TransformationDefinitionRenderStore \<Rightarrow> Transformation \<Rightarrow> string \<Rightarrow> string \<Rightarrow> string \<Rightarrow> ('w, unit) io" where
  "refuseAdoption_t m d t filePath treeSHA reason =
     attempt (MarkTransformationDefinitionRefused d (tf_ID t) treeSHA) (\<lambda>r.
     case r of
       Inl _ \<Rightarrow> ret ()
     | Inr _ \<Rightarrow> notifyBestEffort (tm_Notifications m) (tnote (tf_CustomerSlug t) ''Transformation file edit could not be applied''
         (filePath @ '' was edited outside the Console, but '' @ reason @
          ''. The Console keeps its current configuration; fix the file or save the transformation in the Console to overwrite it.'')))"

definition notifyAdopted_t :: "'w TransformationMirror \<Rightarrow> string \<Rightarrow> string \<Rightarrow> ('w, unit) io" where
  "notifyAdopted_t m customerSlug filePath =
     notifyBestEffort (tm_Notifications m) (tnote customerSlug ''Transformation updated from your repo''
       (filePath @ '' was edited outside the Console; the change has been applied to the transformation.''))"

definition adoptDefinition_t ::
  "'w TransformationMirror \<Rightarrow> 'w TransformationDefinitionRenderStore \<Rightarrow> 'w RepoFileClient \<Rightarrow> Transformation
    \<Rightarrow> (string \<times> TransformationDefinitionRender) list \<Rightarrow> (string \<times> string) list \<Rightarrow> ('w, unit) io" where
  "adoptDefinition_t m d client t defRenders yamlTree =
     (case map_of defRenders (tf_ID t) of
        None \<Rightarrow> ret ()
      | Some row \<Rightarrow>
          (case map_of yamlTree (td_Path row) of
             None \<Rightarrow> ret ()
           | Some treeSHA \<Rightarrow>
               (if treeSHA = td_BlobSHA row then ret ()
                else if treeSHA = td_RefusedBlobSHA row then ret ()
                else
                  andThen (wrapErr (''get '' @ td_Path row) (GetContents client transformationsRepo (td_Path row))) (\<lambda>(content, _).
                  andThen (parseAdoptableTransformation m content t) (\<lambda>parsed.
                  case parsed of
                    Inl reason \<Rightarrow> refuseAdoption_t m d t (td_Path row) treeSHA reason
                  | Inr adopted \<Rightarrow>
                      (\<lambda>w. andThen (wrapErr (''adopt '' @ td_Path row)
                          (repo_UpdateTransformation (tm_Transformations m) (adopted\<lparr>tf_UpdatedAt := tm_Now m w\<rparr>))) (\<lambda>_.
                        andThen (recordDefinitionRender_t m (tf_ID t) (td_Path row) treeSHA) (\<lambda>_.
                        notifyAdopted_t m (tf_CustomerSlug t) (td_Path row))) w))))))"

fun adoptLoop_t ::
  "'w TransformationMirror \<Rightarrow> 'w TransformationDefinitionRenderStore \<Rightarrow> 'w RepoFileClient \<Rightarrow> (string \<times> TransformationDefinitionRender) list
    \<Rightarrow> (string \<times> string) list \<Rightarrow> Transformation list \<Rightarrow> ('w, unit) io" where
  "adoptLoop_t m d client defRenders yamlTree [] = ret ()"
| "adoptLoop_t m d client defRenders yamlTree (t # ts) =
     andThen (adoptDefinition_t m d client t defRenders yamlTree) (\<lambda>_. adoptLoop_t m d client defRenders yamlTree ts)"

definition loadAdoptState_t ::
  "'w TransformationMirror \<Rightarrow> 'w TransformationDefinitionRenderStore \<Rightarrow> 'w RepoFileClient \<Rightarrow> string \<Rightarrow> ('w, transformationAdoptState) io" where
  "loadAdoptState_t m d client customerSlug =
     andThen (wrapErr ''list transformations tree'' (ListTree client transformationsRepo)) (\<lambda>tree.
     andThen (wrapErr ''list transformations'' (repo_ListTransformationsByCustomer (tm_Transformations m) customerSlug)) (\<lambda>ts.
     andThen (wrapErr ''get definition renders'' (GetTransformationDefinitionRenders d customerSlug)) (\<lambda>renders.
     ret \<lparr>sta_transformations = ts, sta_renders = renders, sta_yamlTree = transformationTreeYAML tree\<rparr>)))"

definition AdoptCustomer_t :: "'w TransformationMirror \<Rightarrow> string \<Rightarrow> ('w, unit) io" where
  "AdoptCustomer_t m customerSlug =
     andThen (clientFor_t m customerSlug) (\<lambda>c.
     case c of
       None \<Rightarrow> ret ()
     | Some (client, _) \<Rightarrow>
         (case tm_DefinitionRenders m of
            None \<Rightarrow> ret ()
          | Some d \<Rightarrow>
              andThen (loadAdoptState_t m d client customerSlug) (\<lambda>st.
              andThen (importUnrendered_t m client customerSlug st) (\<lambda>_.
              adoptLoop_t m d client (sta_renders st) (sta_yamlTree st) (sta_transformations st)))))"

subsection \<open>The sweep over both planes\<close>

text \<open>\<^verbatim>\<open>AdoptSweeper\<close>: errors are only logged.\<close>

record 'w AdoptSweeper =
  as_Workspaces :: "('w, string list) io"
  as_Mirror :: "'w PipelineMirror option"
  as_Transformations :: "'w TransformationMirror option"

fun sweepSlugs :: "'w AdoptSweeper \<Rightarrow> string list \<Rightarrow> ('w, unit) io" where
  "sweepSlugs s [] = ret ()"
| "sweepSlugs s (slug # slugs) =
     attempt (case as_Mirror s of None \<Rightarrow> ret () | Some m \<Rightarrow> AdoptCustomer m slug) (\<lambda>_.
     attempt (case as_Transformations s of None \<Rightarrow> ret () | Some m \<Rightarrow> AdoptCustomer_t m slug) (\<lambda>_.
     sweepSlugs s slugs))"

definition sweep :: "'w AdoptSweeper \<Rightarrow> ('w, unit) io" where
  "sweep s = attempt (as_Workspaces s) (\<lambda>r. case r of Inl _ \<Rightarrow> ret () | Inr slugs \<Rightarrow> sweepSlugs s slugs)"

subsection \<open>What a pass keeps\<close>

text \<open>
  The ports as a pass over workspace \<open>c\<close> meets them: a row is written under one of the workspace's own ids or
  imported for it, with a trigger of \<open>chain\<close>.
\<close>

locale tmirror_ports =
  fixes m :: "'w TransformationMirror" and c :: string and I :: "'w \<Rightarrow> bool" and own :: "string set" and chain :: "string set"
  assumes by_slug: "keeps I (GetWorkspace (tm_Workspaces m) c)"
    and git_credential: "tm_Credentials m = Some gc \<Longrightarrow> keeps I (GetBoxGitCredential gc i)"
    and list: "safe I (repo_ListTransformationsByCustomer (tm_Transformations m) c) (\<lambda>ts. \<forall>t \<in> set ts. tf_CustomerSlug t = c \<and> tf_ID t \<in> own)"
    and update: "tf_ID t \<in> own \<Longrightarrow> tf_TriggerAfterPipelineID t \<in> chain \<Longrightarrow> keeps I (repo_UpdateTransformation (tm_Transformations m) t)"
    and pipeline: "safe I (tm_Pipelines m i) (\<lambda>p. p_CustomerSlug p = c \<longrightarrow> i \<in> chain)"
    and no_trigger: "[] \<in> chain"
    and import: "tm_Importer m = Some imp \<Longrightarrow> tf_CustomerSlug t = c \<Longrightarrow> tf_TriggerAfterPipelineID t \<in> chain \<Longrightarrow> keeps I (ImportTransformation imp t)"
    and render: "tm_DefinitionRenders m = Some ds \<Longrightarrow> keeps I (UpsertTransformationDefinitionRender ds dr)"
    and renders: "tm_DefinitionRenders m = Some ds \<Longrightarrow> keeps I (GetTransformationDefinitionRenders ds c)"
    and refuse: "tm_DefinitionRenders m = Some ds \<Longrightarrow> keeps I (MarkTransformationDefinitionRefused ds i sha)"
    and notify: "tm_Notifications m = Some nt \<Longrightarrow> keeps I (Notify nt note)"
    and skips: "keeps I (firstReport (tm_importSkips m) f sha)"
    and tree: "keeps I (ListTree (tm_NewClient m u n t') r)"
    and contents: "keeps I (GetContents (tm_NewClient m u n t') r f)"
    and put: "keeps I (PutContents (tm_NewClient m u n t') r f txt sha msg au)"
    and del: "keeps I (DeleteContents (tm_NewClient m u n t') r f sha msg au)"
begin

definition ours :: "'w RepoFileClient \<Rightarrow> bool" where
  "ours cl \<longleftrightarrow> (\<exists>u n t. cl = tm_NewClient m u n t)"

lemma client_ops:
  assumes "ours cl"
  shows "keeps I (ListTree cl r)" "keeps I (GetContents cl r f)" "keeps I (PutContents cl r f txt sha msg au)"
    "keeps I (DeleteContents cl r f sha msg au)"
  using assms tree contents put del by (auto simp: ours_def)

lemma clientFor_safe: "safe I (clientFor_t m c) (\<lambda>x. \<forall>cl ws. x = Some (cl, ws) \<longrightarrow> ours cl)"
  unfolding clientFor_t_def boxMirrorClientFor_def
  by (rule safe_rules by_slug git_credential | assumption | auto simp: ours_def)+

lemma notifyBestEffort_safe: "keeps I (notifyBestEffort (tm_Notifications m) note)"
  unfolding notifyBestEffort_def by (rule safe_rules notify TrueI | assumption)+

lemma recordDefinitionRender_safe: "keeps I (recordDefinitionRender_t m i f sha)"
  unfolding recordDefinitionRender_t_def by (rule safe_rules render TrueI | assumption)+

lemma definitionRenderRows_safe: "keeps I (definitionRenderRows_t m c)"
  unfolding definitionRenderRows_t_def by (rule safe_rules renders TrueI | assumption)+

lemma upsertFile_safe: "ours cl \<Longrightarrow> keeps I (upsertFile_t m cl c f df existing rows au)"
  unfolding upsertFile_t_def adoptInSyncRender_t_def notifyDefinitionDrift_t_def Let_def
  by (rule safe_rules client_ops recordDefinitionRender_safe notifyBestEffort_safe TrueI | assumption)+

lemma upsertFiles_safe: "ours cl \<Longrightarrow> keeps I (upsertFiles_t m cl c desired existing rows au fs)"
  by (induction fs) (auto intro!: safe_ret safe_option safe_andThen [OF upsertFile_safe])

lemma converge_safe: "ours cl \<Longrightarrow> keeps I (converge_t m cl c desired rows au)"
  unfolding converge_t_def deleteStaleRendered_def Let_def
  by (rule safe_andThen [OF safe_wrapErr [OF client_ops(1)]] safe_andThen [OF upsertFiles_safe] keeps_deleteRenderedLoop client_ops | assumption)+

lemma SyncCustomer_safe: "keeps I (SyncCustomer_t m c au)"
  unfolding SyncCustomer_t_def
  by (rule safe_andThen [OF clientFor_safe] safe_option safe_ret safe_prod safe_andThen [OF safe_wrapErr [OF list]]
      safe_andThen [OF safe_lift] safe_andThen [OF definitionRenderRows_safe] safe_attempt [OF converge_safe] safe_sum safe_if safe_fail
      converge_safe TrueI | simp)+

lemma importableTrigger_safe: "safe I (importableTrigger m i c) (\<lambda>r. \<forall>tr. r = Inr tr \<longrightarrow> tr \<in> chain)"
  unfolding importableTrigger_def
  by (rule safe_if safe_ret safe_attempt [OF pipeline] safe_sum safe_fail | simp add: no_trigger)+

lemma parseImportable_safe:
  "safe I (parseImportableTransformation m content c taken)
     (case_sum (\<lambda>_. True) (\<lambda>t. tf_CustomerSlug t = c \<and> tf_TriggerAfterPipelineID t \<in> chain))"
  unfolding parseImportableTransformation_def
  by (rule safe_sum safe_if safe_ret safe_andThen [OF importableTrigger_safe]
      safe_now [where f = "\<lambda>w. ret (Inr (transformationFromFile f c tr (tm_Now m w)))" for f tr] | simp add: transformationFromFile_def)+

lemma reportImportSkip_safe: "keeps I (reportImportSkip_t m f sha why)"
  unfolding reportImportSkip_t_def by (rule safe_rules skips TrueI)+

lemma importFile_safe: "ours cl \<Longrightarrow> tm_Importer m = Some imp \<Longrightarrow> keeps I (importFile_t m imp cl c f sha taken)"
  unfolding importFile_t_def
  by (rule safe_andThen [OF safe_wrapErr [OF client_ops(2)]] safe_prod safe_andThen [OF parseImportable_safe] safe_sum
      safe_andThen [OF reportImportSkip_safe] safe_ret safe_attempt [OF import] safe_if safe_fail
      safe_andThen [OF recordDefinitionRender_safe] TrueI | simp)+

lemma importLoop_safe: "ours cl \<Longrightarrow> tm_Importer m = Some imp \<Longrightarrow> keeps I (importLoop_t m imp cl c st fs taken)"
  by (induction fs arbitrary: taken) (auto intro!: safe_ret safe_andThen [OF importFile_safe])

lemma importUnrendered_safe: "ours cl \<Longrightarrow> keeps I (importUnrendered_t m cl c st)"
  unfolding importUnrendered_t_def
  by (rule safe_option safe_ret safe_andThen [OF importLoop_safe] TrueI | assumption)+

lemma parseAdoptable_safe:
  "tf_CustomerSlug cur = c \<Longrightarrow> safe I (parseAdoptableTransformation m content cur)
     (case_sum (\<lambda>_. True) (\<lambda>t. tf_ID t = tf_ID cur \<and> tf_TriggerAfterPipelineID t \<in> chain))"
  unfolding parseAdoptableTransformation_def
  by (rule safe_sum safe_if safe_ret safe_andThen [OF importableTrigger_safe] | simp add: transformationFromFile_def)+

lemma adopted_safe:
  assumes "tf_ID t \<in> own" "tf_ID a = tf_ID t" "tf_TriggerAfterPipelineID a \<in> chain"
  shows "keeps I (\<lambda>w. andThen (wrapErr msg (repo_UpdateTransformation (tm_Transformations m) (a\<lparr>tf_UpdatedAt := tm_Now m w\<rparr>)))
    (\<lambda>_. andThen (recordDefinitionRender_t m i f sha) (\<lambda>_. notifyAdopted_t m slug f)) w)"
  unfolding notifyAdopted_t_def
  by (rule safe_andThen_now, rule safe_andThen [OF safe_wrapErr [OF update]])
    (use assms in \<open>simp_all add: safe_andThen [OF recordDefinitionRender_safe] notifyBestEffort_safe\<close>)

lemma refuseAdoption_safe: "tm_DefinitionRenders m = Some ds \<Longrightarrow> keeps I (refuseAdoption_t m ds t f sha why)"
  unfolding refuseAdoption_t_def by (rule safe_rules refuse notifyBestEffort_safe TrueI | assumption)+

lemma adoptDefinition_safe:
  assumes "ours cl" "tm_DefinitionRenders m = Some ds" "tf_CustomerSlug t = c" "tf_ID t \<in> own"
  shows "keeps I (adoptDefinition_t m ds cl t rows tr)"
  unfolding adoptDefinition_t_def
  by (intro safe_option safe_if safe_ret TrueI safe_andThen [OF safe_wrapErr [OF client_ops(2) [OF assms(1)]]] safe_prod
      safe_andThen [OF parseAdoptable_safe [OF assms(3)]] safe_sum refuseAdoption_safe [OF assms(2)] adopted_safe [OF assms(4)]) auto

lemma adoptLoop_safe:
  "ours cl \<Longrightarrow> tm_DefinitionRenders m = Some ds \<Longrightarrow> \<forall>t \<in> set ts. tf_CustomerSlug t = c \<and> tf_ID t \<in> own \<Longrightarrow>
   keeps I (adoptLoop_t m ds cl rows tr ts)"
  by (induction ts) (auto intro!: safe_ret safe_andThen [OF adoptDefinition_safe])

lemma loadAdoptState_safe:
  "ours cl \<Longrightarrow> tm_DefinitionRenders m = Some ds \<Longrightarrow>
   safe I (loadAdoptState_t m ds cl c) (\<lambda>st. \<forall>t \<in> set (sta_transformations st). tf_CustomerSlug t = c \<and> tf_ID t \<in> own)"
  unfolding loadAdoptState_t_def
  by (rule safe_andThen [OF safe_wrapErr [OF client_ops(1)]] safe_andThen [OF safe_wrapErr [OF list]]
      safe_andThen [OF safe_wrapErr [OF renders]] safe_ret | simp)+

lemma AdoptCustomer_safe: "keeps I (AdoptCustomer_t m c)"
  unfolding AdoptCustomer_t_def
  by (rule safe_andThen [OF clientFor_safe] safe_option safe_ret TrueI safe_prod safe_andThen [OF loadAdoptState_safe]
      safe_andThen [OF importUnrendered_safe] adoptLoop_safe | simp)+

end

end
