(* ===== verification/Static.thy ===== *)
theory Static
  imports Contracts
begin

section \<open>The static tenancy of a box (\<^verbatim>\<open>workspace/static.go\<close>, \<^verbatim>\<open>core/core.go\<close>)\<close>

text \<open>
  A dedicated-VM box serves one workspace, known from its configuration: the resolver that admits people
  and keeps service accounts and other organisations' users out, and the credential stores that answer
  for the box's own slug only. None of them touches the world.
\<close>

subsection \<open>Subjects\<close>

definition serviceAccountPrefix :: string where "serviceAccountPrefix = ''admin/''"

text \<open>\<^const>\<open>None\<close> is the Go result \<^verbatim>\<open>("", false)\<close>.\<close>

definition ServiceAccountApp :: "string \<Rightarrow> string option" where
  "ServiceAccountApp i =
     (let (app, ok) = CutPrefix i serviceAccountPrefix in if \<not> ok \<or> app = [] then None else Some app)"

definition IsServiceAccount :: "string \<Rightarrow> bool" where
  "IsServiceAccount i \<longleftrightarrow> ServiceAccountApp i \<noteq> None"

subsection \<open>The resolver\<close>

definition GetWorkspace_static :: "Workspace \<Rightarrow> string \<Rightarrow> ('w, Workspace) io" where
  "GetWorkspace_static ws slug = (if slug \<noteq> ws_Slug ws then fail ErrWorkspaceNotFound else ret ws)"

definition GetWorkspaceByUser_static :: "Workspace \<Rightarrow> string \<Rightarrow> ('w, Workspace) io" where
  "GetWorkspaceByUser_static ws userID =
     (if userID = [] \<or> IsServiceAccount userID then fail ErrWorkspaceNotFound
      else case Cut userID ''/'' of
        Some (owner, _) \<Rightarrow> (if owner \<noteq> ws_CasdoorOrg ws then fail ErrWorkspaceNotFound else ret ws)
      | None \<Rightarrow> ret ws)"

definition ListVMWorkspaceSlugs_static :: "Workspace \<Rightarrow> ('w, string list) io" where
  "ListVMWorkspaceSlugs_static ws = ret [ws_Slug ws]"

definition StaticResolver :: "Workspace \<Rightarrow> 'w Resolver" where
  "StaticResolver ws = \<lparr>GetWorkspace = GetWorkspace_static ws, GetWorkspaceByUser = GetWorkspaceByUser_static ws\<rparr>"

definition admitted :: "Workspace \<Rightarrow> string \<Rightarrow> bool" where
  "admitted ws u \<longleftrightarrow> u \<noteq> [] \<and> \<not> IsServiceAccount u \<and> (case Cut u ''/'' of Some (owner, _) \<Rightarrow> owner = ws_CasdoorOrg ws | None \<Rightarrow> True)"

lemma by_user_admitted: "GetWorkspaceByUser_static ws u = (if admitted ws u then ret ws else fail ErrWorkspaceNotFound)"
  by (auto simp: GetWorkspaceByUser_static_def admitted_def split: option.splits)

subsection \<open>The credential stores\<close>

record StaticBoxCredentials =
  sb_Slug :: string
  sb_GitUsername :: string
  sb_GitToken :: string
  sb_SnapshotToken :: string
  sb_AgePublicKey :: string

definition errStaticCredential :: err where
  "errStaticCredential = ErrNew ''box credentials are static config on this deployment''"

definition check_static :: "StaticBoxCredentials \<Rightarrow> string \<Rightarrow> string \<Rightarrow> err option" where
  "check_static s customerSlug v =
     (if customerSlug \<noteq> sb_Slug s then Some ErrWorkspaceNotFound
      else if v = [] then Some ErrBoxCredentialNotFound else None)"

definition GetBoxGitCredential_static :: "StaticBoxCredentials \<Rightarrow> string \<Rightarrow> ('w, string \<times> string) io" where
  "GetBoxGitCredential_static s customerSlug =
     andThen (check (check_static s customerSlug (sb_GitToken s))) (\<lambda>_. ret (sb_GitUsername s, sb_GitToken s))"

definition GetBoxSnapshotCredential_static :: "StaticBoxCredentials \<Rightarrow> string \<Rightarrow> ('w, string) io" where
  "GetBoxSnapshotCredential_static s customerSlug =
     andThen (check (check_static s customerSlug (sb_SnapshotToken s))) (\<lambda>_. ret (sb_SnapshotToken s))"

definition GetBoxAgeKey_static :: "StaticBoxCredentials \<Rightarrow> string \<Rightarrow> ('w, string) io" where
  "GetBoxAgeKey_static s customerSlug =
     andThen (check (check_static s customerSlug (sb_AgePublicKey s))) (\<lambda>_. ret (sb_AgePublicKey s))"

definition UpsertBoxCredential_static :: "StaticBoxCredentials \<Rightarrow> ('w, unit) io" where
  "UpsertBoxCredential_static s = fail errStaticCredential"

subsection \<open>Who is admitted\<close>

lemma IsServiceAccount_iff: "IsServiceAccount i \<longleftrightarrow> (\<exists>app. app \<noteq> [] \<and> i = serviceAccountPrefix @ app)"
  by (auto simp: IsServiceAccount_def ServiceAccountApp_def CutPrefix_def prefix_def)

lemma static_quiet:
  "GetWorkspaceByUser_static ws u w = (x, w') \<Longrightarrow> w' = w" "GetWorkspace_static ws c w = (x, w') \<Longrightarrow> w' = w"
  "GetBoxGitCredential_static s c w = (y, w') \<Longrightarrow> w' = w" "GetBoxAgeKey_static s c w = (z, w') \<Longrightarrow> w' = w"
  by (auto simp: GetWorkspaceByUser_static_def GetWorkspace_static_def GetBoxGitCredential_static_def GetBoxAgeKey_static_def
      andThen_def split: if_splits option.splits prod.splits sum.splits)

text \<open>
  C34. The box admits a subject to the product surface exactly when it is not empty, is not a Casdoor
  application (\<^verbatim>\<open>admin/\<dots>\<close>), and either is a bare user id or belongs to the workspace's own
  organisation; an admitted caller gets the box's own workspace and every other one \<^verbatim>\<open>ErrWorkspaceNotFound\<close>.
\<close>

theorem static_admission:
  "GetWorkspaceByUser_static ws u w =
     (if u \<noteq> [] \<and> \<not> (\<exists>app. app \<noteq> [] \<and> u = ''admin/'' @ app) \<and>
         (CHR ''/'' \<notin> set u \<or> (\<exists>name. u = ws_CasdoorOrg ws @ ''/'' @ name \<and> CHR ''/'' \<notin> set (ws_CasdoorOrg ws)))
      then Inr ws else Inl ErrWorkspaceNotFound, w)"
proof (cases "CHR ''/'' \<in> set u")
  case False
  then have "Cut u ''/'' = None" by (simp add: Cut_char_None)
  with False show ?thesis
    by (auto simp: GetWorkspaceByUser_static_def IsServiceAccount_iff serviceAccountPrefix_def ret_def fail_def)
next
  case True
  then obtain a b where ab: "u = a @ CHR ''/'' # b" "CHR ''/'' \<notin> set a" by (meson split_list_first)
  then have c: "Cut u ''/'' = Some (a, b)" by (simp add: Cut_char)
  have org: "(\<exists>name. u = ws_CasdoorOrg ws @ ''/'' @ name \<and> CHR ''/'' \<notin> set (ws_CasdoorOrg ws)) \<longleftrightarrow> a = ws_CasdoorOrg ws"
  proof
    assume "\<exists>name. u = ws_CasdoorOrg ws @ ''/'' @ name \<and> CHR ''/'' \<notin> set (ws_CasdoorOrg ws)"
    then obtain n where "u = ws_CasdoorOrg ws @ CHR ''/'' # n" "CHR ''/'' \<notin> set (ws_CasdoorOrg ws)" by auto
    then have "Cut u ''/'' = Some (ws_CasdoorOrg ws, n)" by (simp add: Cut_char)
    with c show "a = ws_CasdoorOrg ws" by simp
  qed (use ab in auto)
  show ?thesis using True c org
    by (simp add: GetWorkspaceByUser_static_def IsServiceAccount_iff serviceAccountPrefix_def ret_def fail_def)
qed

text \<open>Three subjects: a data-platform service account, a user of another organisation, and a bare user id.\<close>

theorem static_admission_witness:
  "GetWorkspaceByUser_static exampleWorkspace ''admin/dbt'' () = (Inl ErrWorkspaceNotFound, ()) \<and>
   GetWorkspaceByUser_static exampleWorkspace ''other/eve'' () = (Inl ErrWorkspaceNotFound, ()) \<and>
   GetWorkspaceByUser_static exampleWorkspace ''u-1'' () = (Inr exampleWorkspace, ())"
  using static_admission [of exampleWorkspace "''admin/dbt''" "()"] static_admission [of exampleWorkspace "''other/eve''" "()"]
    static_admission [of exampleWorkspace "''u-1''" "()"]
  by (simp add: exampleWorkspace_def)

end
