(* ===== verification/BoxRepo.thy ===== *)
theory BoxRepo
  imports PipelineMirror
begin

section \<open>The editor of the box's repositories (\<^verbatim>\<open>workspace/boxrepo.go\<close>)\<close>

text \<open>
  The Console reads and edits the customer's own files in two of the box's repositories, and replicates three of
  them to a remote of the customer's. The platform's files are hidden: dotfiles anywhere in a path and two
  files by name. The git host is a port; \<^verbatim>\<open>net/url\<close> is the parameter \<open>URLs\<close>: its parser and the printing of a parsed URL
  without its user part. Go's names that other services also use end in \<open>_repo\<close>. \<open>RepoFileClient\<close>, the commit author
  and \<open>isCommitSHA\<close> stand with the mirror that shares them.
\<close>

record PushMirror =
  pm_RemoteName :: string
  pm_RemoteURL :: string
  pm_LastUpdate :: string
  pm_LastError :: string
  pm_SyncOnCommit :: bool

record 'w RepoMirrorClient =
  ListPushMirrors :: "string \<Rightarrow> ('w, PushMirror list) io"
  AddPushMirror :: "string \<Rightarrow> string \<Rightarrow> string \<Rightarrow> string \<Rightarrow> string \<Rightarrow> ('w, unit) io"
  DeletePushMirror_port :: "string \<Rightarrow> string \<Rightarrow> ('w, unit) io"
  SyncPushMirrors :: "string \<Rightarrow> ('w, unit) io"

record URL =
  u_Scheme :: string
  u_Host :: string
  u_HasUser :: bool
  u_WithoutUser :: string

record 'w BoxRepoService =
  br_Workspaces :: "'w Resolver"
  br_Credentials :: "'w BoxGitCredentialStore option"
  br_Users :: "(string \<Rightarrow> ('w, UserInfo) io) option"
  br_NewClient :: "string \<Rightarrow> string \<Rightarrow> string \<Rightarrow> 'w RepoFileClient"
  br_NewMirrorClient :: "string \<Rightarrow> string \<Rightarrow> string \<Rightarrow> 'w RepoMirrorClient"
  br_ParseURL :: "string \<Rightarrow> URL option"

subsection \<open>Gates\<close>

definition boxRepoAllowlist :: "string list" where
  "boxRepoAllowlist = [''rill'', ''transformations'']"

definition boxRepoMirrorAllowlist :: "string list" where
  "boxRepoMirrorAllowlist = [''rill'', ''transformations'', ''pipelines'']"

definition pushMirrorInterval :: string where "pushMirrorInterval = ''8h0m0s''"

definition boxRepoBlockedFiles :: "string list" where
  "boxRepoBlockedFiles = [''duckdb.yaml'', ''.env'']"

definition isHiddenRepoPath :: "string \<Rightarrow> bool" where
  "isHiddenRepoPath p \<longleftrightarrow> p \<in> set boxRepoBlockedFiles \<or> list_ex (\<lambda>seg. prefix ''.'' seg) (split_on (CHR ''/'') p)"

definition validateRepoPath :: "string \<Rightarrow> err option" where
  "validateRepoPath p =
     (if p = [] then Some (ErrInvalidSourceConfig ''path'')
      else
        (let cleaned = path_Clean p in
         if cleaned \<noteq> p \<or> prefix ''/'' cleaned \<or> prefix ''..'' cleaned then Some (ErrInvalidSourceConfig ''path'')
         else if isHiddenRepoPath cleaned then Some (ErrInvalidSourceConfig ''path'')
         else None))"

definition boxGitea :: "'w BoxRepoService \<Rightarrow> string \<Rightarrow> string \<Rightarrow> ('w, string \<times> string \<times> string) io" where
  "boxGitea s callerID repo =
     (case br_Credentials s of
        None \<Rightarrow> fail ErrBoxRepoUnavailable
      | Some creds \<Rightarrow>
          andThen (wrapErr ''get customer'' (GetWorkspaceByUser (br_Workspaces s) callerID)) (\<lambda>ws.
          if \<not> ws_OnVM ws then fail ErrBoxRepoUnavailable
          else if repo = ''rill'' \<and> \<not> ws_RillEnabled ws then fail ErrBoxRepoUnavailable
          else if TrimPrefix (ws_CustomerDomain ws) ''*.'' = [] then fail ErrBoxRepoUnavailable
          else
            andThen (GetBoxGitCredential creds (ws_Slug ws)) (\<lambda>(username, token).
            ret (BoxGiteaURL ws, username, token))))"

definition clientFor_repo :: "'w BoxRepoService \<Rightarrow> string \<Rightarrow> string \<Rightarrow> ('w, 'w RepoFileClient) io" where
  "clientFor_repo s callerID repo =
     (if repo \<notin> set boxRepoAllowlist then fail (ErrInvalidSourceConfig ''repo'')
      else andThen (boxGitea s callerID repo) (\<lambda>(baseURL, username, token). ret (br_NewClient s baseURL username token)))"

definition mirrorClientFor :: "'w BoxRepoService \<Rightarrow> string \<Rightarrow> string \<Rightarrow> ('w, 'w RepoMirrorClient) io" where
  "mirrorClientFor s callerID repo =
     (if repo \<notin> set boxRepoMirrorAllowlist then fail (ErrInvalidSourceConfig ''repo'')
      else andThen (boxGitea s callerID repo) (\<lambda>(baseURL, username, token). ret (br_NewMirrorClient s baseURL username token)))"

subsection \<open>Files\<close>

definition ListFiles_repo :: "'w BoxRepoService \<Rightarrow> string \<Rightarrow> string \<Rightarrow> ('w, RepoFileEntry list) io" where
  "ListFiles_repo s callerID repo =
     andThen (clientFor_repo s callerID repo) (\<lambda>client.
     andThen (wrapErr (''list '' @ repo @ '' tree'') (ListTree client repo)) (\<lambda>entries.
     ret (filter (\<lambda>e. \<not> isHiddenRepoPath (e_Path e)) entries)))"

definition GetFile_repo :: "'w BoxRepoService \<Rightarrow> string \<Rightarrow> string \<Rightarrow> string \<Rightarrow> ('w, string \<times> string) io" where
  "GetFile_repo s callerID repo filePath =
     andThen (clientFor_repo s callerID repo) (\<lambda>client.
     andThen (check (validateRepoPath filePath)) (\<lambda>_. GetContents client repo filePath))"

definition PutFile_repo ::
  "'w BoxRepoService \<Rightarrow> string \<Rightarrow> string \<Rightarrow> string \<Rightarrow> string \<Rightarrow> string \<Rightarrow> string \<Rightarrow> ('w, string) io" where
  "PutFile_repo s callerID repo filePath content sha message =
     andThen (clientFor_repo s callerID repo) (\<lambda>client.
     andThen (check (validateRepoPath filePath)) (\<lambda>_.
     let msg = (if message = [] then ''Update '' @ filePath @ '' via FairTier Console'' else message) in
     andThen (resolveCommitAuthor (br_Users s) callerID) (\<lambda>author.
     PutContents client repo filePath content sha msg author)))"

definition DeleteFile_repo :: "'w BoxRepoService \<Rightarrow> string \<Rightarrow> string \<Rightarrow> string \<Rightarrow> string \<Rightarrow> string \<Rightarrow> ('w, unit) io" where
  "DeleteFile_repo s callerID repo filePath sha message =
     andThen (clientFor_repo s callerID repo) (\<lambda>client.
     andThen (check (validateRepoPath filePath)) (\<lambda>_.
     let msg = (if message = [] then ''Delete '' @ filePath @ '' via FairTier Console'' else message) in
     andThen (resolveCommitAuthor (br_Users s) callerID) (\<lambda>author.
     DeleteContents client repo filePath sha msg author)))"

definition ListFileHistory :: "'w BoxRepoService \<Rightarrow> string \<Rightarrow> string \<Rightarrow> string \<Rightarrow> ('w, PipelineVersion list) io" where
  "ListFileHistory s callerID repo filePath =
     andThen (clientFor_repo s callerID repo) (\<lambda>client.
     andThen (check (validateRepoPath filePath)) (\<lambda>_.
     wrapErr (''list '' @ filePath @ '' history'') (ListCommits client repo filePath fileHistoryLimit)))"

definition GetFileAtRef :: "'w BoxRepoService \<Rightarrow> string \<Rightarrow> string \<Rightarrow> string \<Rightarrow> string \<Rightarrow> ('w, string) io" where
  "GetFileAtRef s callerID repo filePath ref =
     andThen (clientFor_repo s callerID repo) (\<lambda>client.
     andThen (check (validateRepoPath filePath)) (\<lambda>_.
     if \<not> isCommitSHA ref then fail (ErrInvalidSourceConfig ''ref'')
     else
       andThen (wrapErr (''get '' @ filePath) (GetContentsAt client repo filePath ref)) (\<lambda>(content, _). ret content)))"

subsection \<open>Push mirrors\<close>

definition validateMirrorRemote :: "(string \<Rightarrow> URL option) \<Rightarrow> string \<Rightarrow> err option" where
  "validateMirrorRemote parse remoteURL =
     (case parse remoteURL of
        None \<Rightarrow> Some (ErrInvalidSourceConfig ''remote_url'')
      | Some u \<Rightarrow>
          (if u_Scheme u \<noteq> ''https'' \<or> u_Host u = [] then Some (ErrInvalidSourceConfig ''remote_url'')
           else if u_HasUser u then Some (ErrInvalidSourceConfig ''remote_url'')
           else None))"

definition stripUserinfo :: "(string \<Rightarrow> URL option) \<Rightarrow> string \<Rightarrow> string" where
  "stripUserinfo parse raw = (case parse raw of None \<Rightarrow> raw | Some u \<Rightarrow> u_WithoutUser u)"

fun deleteMirrors :: "'w RepoMirrorClient \<Rightarrow> string \<Rightarrow> string \<Rightarrow> PushMirror list \<Rightarrow> ('w, unit) io" where
  "deleteMirrors client repo msg [] = ret ()"
| "deleteMirrors client repo msg (m # ms) =
     andThen (wrapErr msg (DeletePushMirror_port client repo (pm_RemoteName m))) (\<lambda>_. deleteMirrors client repo msg ms)"

definition SetPushMirror :: "'w BoxRepoService \<Rightarrow> string \<Rightarrow> string \<Rightarrow> string \<Rightarrow> string \<Rightarrow> string \<Rightarrow> ('w, unit) io" where
  "SetPushMirror s callerID repo remoteURL username password =
     andThen (check (validateMirrorRemote (br_ParseURL s) remoteURL)) (\<lambda>_.
     if username = [] then fail (ErrInvalidSourceConfig ''remote_username'')
     else if password = [] then fail (ErrInvalidSourceConfig ''remote_password'')
     else
       andThen (mirrorClientFor s callerID repo) (\<lambda>client.
       andThen (wrapErr ''list push mirrors'' (ListPushMirrors client repo)) (\<lambda>existing.
       andThen (deleteMirrors client repo ''remove previous mirror'' existing) (\<lambda>_.
       wrapErr ''add push mirror'' (AddPushMirror client repo remoteURL username password pushMirrorInterval)))))"

definition GetPushMirror :: "'w BoxRepoService \<Rightarrow> string \<Rightarrow> string \<Rightarrow> ('w, PushMirror option) io" where
  "GetPushMirror s callerID repo =
     andThen (mirrorClientFor s callerID repo) (\<lambda>client.
     andThen (wrapErr ''list push mirrors'' (ListPushMirrors client repo)) (\<lambda>mirrors.
     ret (case mirrors of [] \<Rightarrow> None | m # _ \<Rightarrow> Some (m\<lparr>pm_RemoteURL := stripUserinfo (br_ParseURL s) (pm_RemoteURL m)\<rparr>))))"

definition DeletePushMirror :: "'w BoxRepoService \<Rightarrow> string \<Rightarrow> string \<Rightarrow> ('w, unit) io" where
  "DeletePushMirror s callerID repo =
     andThen (mirrorClientFor s callerID repo) (\<lambda>client.
     andThen (wrapErr ''list push mirrors'' (ListPushMirrors client repo)) (\<lambda>mirrors.
     deleteMirrors client repo ''delete push mirror'' mirrors))"

definition SyncPushMirror :: "'w BoxRepoService \<Rightarrow> string \<Rightarrow> string \<Rightarrow> ('w, unit) io" where
  "SyncPushMirror s callerID repo =
     andThen (mirrorClientFor s callerID repo) (\<lambda>client.
     wrapErr ''sync push mirrors'' (SyncPushMirrors client repo))"

subsection \<open>Paths\<close>

text \<open>A segment that is neither empty nor hidden.\<close>

definition visible_seg :: "string \<Rightarrow> bool" where
  "visible_seg seg \<longleftrightarrow> seg \<noteq> [] \<and> hd seg \<noteq> CHR ''.''"

lemma visible_plain: "visible_seg seg \<Longrightarrow> CHR ''/'' \<notin> set seg \<Longrightarrow> plain_elem seg"
  by (auto simp: visible_seg_def plain_elem_def)

lemma clean_elems_ne: "[] \<notin> set acc \<Longrightarrow> [] \<notin> set (clean_elems rooted acc es)"
  by (induction rooted acc es rule: clean_elems.induct) (auto split: list.splits if_splits)

lemma clean_elems_sub: "set (clean_elems rooted acc es) \<subseteq> set acc \<union> set es"
  by (induction rooted acc es rule: clean_elems.induct) (auto split: list.splits if_splits)

text \<open>A path that cleaning leaves alone has the segments cleaning keeps, none of them empty.\<close>

lemma clean_segments:
  assumes "path_Clean p = p" "p \<noteq> ''.''" "\<not> prefix ''/'' p"
  shows "[] \<notin> set (split_on (CHR ''/'') p)"
proof -
  let ?cs = "clean_elems False [] (split_on (CHR ''/'') p)"
  have rooted: "\<not> (p \<noteq> [] \<and> hd p = CHR ''/'')" using assms(3) by (cases p) auto
  have ne: "?cs \<noteq> []" and p: "join_with ''/'' ?cs = p"
    using assms(1,2) rooted by (auto simp: path_Clean_def Let_def split: if_splits)
  have "\<forall>w \<in> set ?cs. CHR ''/'' \<notin> set w"
    using clean_elems_sub [of False "[]"] split_on_no_sep by fastforce
  then have "split_on (CHR ''/'') p = ?cs" using split_join [OF ne] p by metis
  moreover have "[] \<notin> set ?cs" by (rule clean_elems_ne) simp
  ultimately show ?thesis by metis
qed

lemma visible_clean:
  assumes "\<forall>seg \<in> set (split_on (CHR ''/'') p). visible_seg seg"
  shows "path_Clean p = p \<and> p \<noteq> [] \<and> \<not> prefix ''/'' p \<and> \<not> prefix ''..'' p"
proof -
  have plain: "\<forall>e \<in> set (split_on (CHR ''/'') p). plain_elem e"
    using assms split_on_no_sep by (blast intro: visible_plain)
  have hd: "p \<noteq> [] \<and> hd p \<noteq> CHR ''/'' \<and> hd p \<noteq> CHR ''.''"
    using assms by (cases p) (auto simp: visible_seg_def split: if_splits list.splits)
  moreover from hd have "path_Clean p = p"
    using clean_elems_plain [OF plain, of False "[]"] by (simp add: path_Clean_def Let_def)
  ultimately show ?thesis by (cases p) auto
qed

lemma hidden_iff:
  "isHiddenRepoPath p \<longleftrightarrow> p \<in> set boxRepoBlockedFiles \<or> (\<exists>seg \<in> set (split_on (CHR ''/'') p). seg \<noteq> [] \<and> hd seg = CHR ''.'')"
proof -
  have "prefix ''.'' seg \<longleftrightarrow> seg \<noteq> [] \<and> hd seg = CHR ''.''" for seg :: string by (cases seg) auto
  then show ?thesis by (simp add: isHiddenRepoPath_def list_ex_iff)
qed

lemma validate_visible:
  "validateRepoPath p = None \<longleftrightarrow>
     (\<forall>seg \<in> set (split_on (CHR ''/'') p). visible_seg seg) \<and> p \<notin> set boxRepoBlockedFiles"
proof
  assume v: "validateRepoPath p = None"
  then have c: "path_Clean p = p" "\<not> prefix ''/'' p" "\<not> isHiddenRepoPath p"
    by (auto simp: validateRepoPath_def Let_def split: if_splits)
  moreover from c(3) have "p \<noteq> ''.''" by (auto simp: hidden_iff)
  ultimately have "[] \<notin> set (split_on (CHR ''/'') p)" by (intro clean_segments)
  with c(3) show "(\<forall>seg \<in> set (split_on (CHR ''/'') p). visible_seg seg) \<and> p \<notin> set boxRepoBlockedFiles"
    by (auto simp: hidden_iff visible_seg_def)
next
  assume "(\<forall>seg \<in> set (split_on (CHR ''/'') p). visible_seg seg) \<and> p \<notin> set boxRepoBlockedFiles"
  then show "validateRepoPath p = None"
    using visible_clean [of p] by (auto simp: validateRepoPath_def Let_def hidden_iff visible_seg_def)
qed

text \<open>
  C40. The editor accepts a path exactly when every one of its segments is non-empty and does not start with a dot and the
  path is not one of the platform's files. So no absolute path, no empty, \<^verbatim>\<open>.\<close> or \<^verbatim>\<open>..\<close> segment and no dotfile at any
  depth gets through, and nothing else is turned away.
\<close>

theorem validateRepoPath_iff:
  "validateRepoPath p = None \<longleftrightarrow>
     list_all visible_seg (split_on (CHR ''/'') p) \<and> p \<notin> set boxRepoBlockedFiles"
  unfolding list_all_iff by (rule validate_visible)

end
