(* ===== verification/SourceTests.thy ===== *)
theory SourceTests
  imports PostgresFrames PipelineService
begin

section \<open>Source tests (\<^verbatim>\<open>workspace/sourcetest.go\<close>, \<^verbatim>\<open>postgres/sourcetest.go\<close>)\<close>

text \<open>
  The Console queues a probe of a source before a pipeline is saved, the worker claims it, probes and reports, and the
  Console polls for the outcome. The row holds the credentials being tested: they are encrypted, handed to the worker
  once, dropped with the verdict, and swept when the row expires unanswered. The properties follow the credentials
  through every order of these calls.
\<close>

subsection \<open>Runes\<close>

text \<open>
  \<^verbatim>\<open>[]rune(s)\<close>, each rune as its UTF-8 bytes, so that \<^verbatim>\<open>string(r[:n])\<close> joins the first \<open>n\<close>. \<open>rune_size\<close> is what
  \<^verbatim>\<open>utf8.DecodeRune\<close> accepts at the front of a text; a byte it refuses becomes U+FFFD.
\<close>

definition in_range :: "nat \<Rightarrow> nat \<Rightarrow> char \<Rightarrow> bool" where
  "in_range lo hi c \<longleftrightarrow> lo \<le> of_char c \<and> of_char c \<le> hi"

definition second_range :: "char \<Rightarrow> nat \<times> nat" where
  "second_range c =
     (if of_char c = (224::nat) then (160, 191) else if of_char c = (237::nat) then (128, 159)
      else if of_char c = (240::nat) then (144, 191) else if of_char c = (244::nat) then (128, 143) else (128, 191))"

definition lead_size :: "char \<Rightarrow> nat" where
  "lead_size c =
     (if in_range 0 127 c then 1 else if in_range 194 223 c then 2 else if in_range 224 239 c then 3
      else if in_range 240 244 c then 4 else 0)"

definition rune_size :: "string \<Rightarrow> nat" where
  "rune_size s =
     (case s of
        [] \<Rightarrow> 0
      | c # t \<Rightarrow>
          (let n = lead_size c; u = take (n - 1) t in
           if n = 0 \<or> length u < n - 1 then 0
           else case u of
             [] \<Rightarrow> 1
           | d # v \<Rightarrow> (if in_range (fst (second_range c)) (snd (second_range c)) d \<and> list_all (in_range 128 191) v then n else 0)))"

definition RuneError :: string where "RuneError = [CHR 0xEF, CHR 0xBF, CHR 0xBD]"

function runes :: "string \<Rightarrow> string list" where
  "runes [] = []"
| "runes (c # s) =
     (if rune_size (c # s) = 0 then RuneError # runes s
      else take (rune_size (c # s)) (c # s) # runes (drop (rune_size (c # s)) (c # s)))"
  by pat_completeness auto
termination by (relation "measure length") auto

definition ellipsis :: string where "ellipsis = [CHR 0xE2, CHR 0x80, CHR 0xA6]"

definition truncateRunes :: "string \<Rightarrow> nat \<Rightarrow> string" where
  "truncateRunes s n = (if length (runes s) \<le> n then s else concat (take n (runes s)) @ ellipsis)"

subsection \<open>The table\<close>

definition SourceTestPending :: string where "SourceTestPending = ''pending''"
definition SourceTestRunning :: string where "SourceTestRunning = ''running''"
definition SourceTestSuccess :: string where "SourceTestSuccess = ''success''"
definition SourceTestFailed :: string where "SourceTestFailed = ''failed''"

definition sourceTestTTL :: int where "sourceTestTTL = 900000000000"
definition SourceTestMaxDetails :: nat where "SourceTestMaxDetails = 25"
definition sourceTestMaxMessage :: nat where "sourceTestMaxMessage = 2000"

record 'w SourceTestStore =
  CreateSourceTest :: "SourceTest \<Rightarrow> ('w, unit) io"
  GetSourceTest_port :: "string \<Rightarrow> string \<Rightarrow> ('w, SourceTest) io"
  ClaimPendingSourceTests :: "string \<Rightarrow> ('w, SourceTest list) io"
  CompleteSourceTest :: "string \<Rightarrow> string \<Rightarrow> string \<Rightarrow> string \<Rightarrow> string list \<Rightarrow> ('w, unit) io"
  DeleteExpiredSourceTests :: "('w, nat) io"

definition insert_test :: "SourceTest \<Rightarrow> raw \<Rightarrow> string \<Rightarrow> ('a pgdb_scheme, unit) io" where
  "insert_test t config encCreds = sql (\<lambda>db.
     case db_jsonb db config of
       None \<Rightarrow> (Inl ErrInvalidText, db)
     | Some c \<Rightarrow>
         (if list_ex (\<lambda>r. sr_id r = sx_ID t) (t_source_tests db) then (Inl ErrUniqueViolation, db)
          else (Inr (), db\<lparr>t_source_tests := t_source_tests db @
            [\<lparr>sr_id = sx_ID t, sr_customer_slug = sx_CustomerSlug t, sr_source_type = sx_SourceType t, sr_source_config = c,
              sr_source_credentials = encCreds, sr_status = sx_Status t, sr_message = [], sr_details = ''[]'',
              sr_created_at = sx_CreatedAt t, sr_completed_at = None, sr_expires_at = sx_ExpiresAt t\<rparr>]\<rparr>)))"

definition CreateSourceTest_pg :: "Repository \<Rightarrow> SourceTest \<Rightarrow> ('a pgdb_scheme, unit) io" where
  "CreateSourceTest_pg r t =
     andThen (wrapErr ''postgres: encrypt source test credentials'' (encryptCredentials r (sx_SourceCredentials t))) (\<lambda>encCreds.
     let config = (if sx_SourceConfig t = [] then ''{}'' else sx_SourceConfig t) in
     wrapErr ''postgres: create source test'' (insert_test t config encCreds))"

definition GetSourceTest_pg :: "Repository \<Rightarrow> string \<Rightarrow> string \<Rightarrow> ('a pgdb_scheme, SourceTest) io" where
  "GetSourceTest_pg r i customerSlug =
     andThen (wrapErr ''postgres: get source test'' (query (\<lambda>db.
       find (\<lambda>s. sr_id s = i \<and> sr_customer_slug s = customerSlug \<and> sr_expires_at s > db_now db) (t_source_tests db)))) (\<lambda>row.
     case row of
       None \<Rightarrow> fail ErrSourceTestNotFound
     | Some s \<Rightarrow>
         (case Unmarshal (d_list [] d_str) [] (sr_details s) of
            None \<Rightarrow> fail (ErrNew ''postgres: decode source test details'')
          | Some details \<Rightarrow>
              ret \<lparr>sx_ID = sr_id s, sx_CustomerSlug = sr_customer_slug s, sx_SourceType = sr_source_type s, sx_SourceConfig = [],
                   sx_SourceCredentials = [], sx_Status = sr_status s, sx_Message = sr_message s, sx_Details = details,
                   sx_CreatedAt = sr_created_at s, sx_CompletedAt = sr_completed_at s, sx_ExpiresAt = sr_expires_at s\<rparr>))"

text \<open>\<^verbatim>\<open>UPDATE \<dots> RETURNING\<close>: the rows are taken and read by one statement, in table order.\<close>

definition claimable :: "string \<Rightarrow> 'a pgdb_scheme \<Rightarrow> strow \<Rightarrow> bool" where
  "claimable customerSlug db s \<longleftrightarrow>
     sr_customer_slug s = customerSlug \<and> sr_status s = SourceTestPending \<and> sr_expires_at s > db_now db"

definition take_pending :: "string \<Rightarrow> ('a pgdb_scheme, strow list) io" where
  "take_pending customerSlug = sql (\<lambda>db.
     (Inr (filter (claimable customerSlug db) (t_source_tests db)),
      db\<lparr>t_source_tests := map (\<lambda>s. if claimable customerSlug db s then s\<lparr>sr_status := SourceTestRunning\<rparr> else s) (t_source_tests db)\<rparr>))"

fun scan_claimed :: "Repository \<Rightarrow> strow list \<Rightarrow> err + SourceTest list" where
  "scan_claimed r [] = Inr []"
| "scan_claimed r (s # ss) =
     (case decryptCredentials r (sr_source_credentials s) of
        Inl e \<Rightarrow> Inl (Errorf ''postgres: decrypt source test credentials'' e)
      | Inr creds \<Rightarrow>
          (case scan_claimed r ss of
             Inl e \<Rightarrow> Inl e
           | Inr ts \<Rightarrow>
               Inr (\<lparr>sx_ID = sr_id s, sx_CustomerSlug = sr_customer_slug s, sx_SourceType = sr_source_type s,
                     sx_SourceConfig = sr_source_config s, sx_SourceCredentials = creds, sx_Status = SourceTestRunning,
                     sx_Message = [], sx_Details = [], sx_CreatedAt = sr_created_at s, sx_CompletedAt = None,
                     sx_ExpiresAt = sr_expires_at s\<rparr> # ts)))"

definition ClaimPendingSourceTests_pg :: "Repository \<Rightarrow> string \<Rightarrow> ('a pgdb_scheme, SourceTest list) io" where
  "ClaimPendingSourceTests_pg r customerSlug =
     andThen (wrapErr ''postgres: claim source tests'' (take_pending customerSlug)) (\<lambda>rows. lift (scan_claimed r rows))"

definition completed :: "string \<Rightarrow> string \<Rightarrow> strow \<Rightarrow> bool" where
  "completed i customerSlug s \<longleftrightarrow> sr_id s = i \<and> sr_customer_slug s = customerSlug"

definition complete_test :: "string \<Rightarrow> string \<Rightarrow> string \<Rightarrow> string \<Rightarrow> raw \<Rightarrow> ('a pgdb_scheme, nat) io" where
  "complete_test i customerSlug status message encoded = sql (\<lambda>db.
     if \<not> list_ex (completed i customerSlug) (t_source_tests db) then (Inr 0, db)
     else case db_jsonb db encoded of
       None \<Rightarrow> (Inl ErrInvalidText, db)
     | Some d \<Rightarrow>
         (Inr (length (filter (completed i customerSlug) (t_source_tests db))),
          db\<lparr>t_source_tests := map (\<lambda>s. if completed i customerSlug s
             then s\<lparr>sr_status := status, sr_message := message, sr_details := d, sr_completed_at := Some (db_now db),
                    sr_source_credentials := []\<rparr> else s) (t_source_tests db)\<rparr>))"

definition CompleteSourceTest_pg ::
  "Repository \<Rightarrow> string \<Rightarrow> string \<Rightarrow> string \<Rightarrow> string \<Rightarrow> string list \<Rightarrow> ('a pgdb_scheme, unit) io" where
  "CompleteSourceTest_pg r i customerSlug status message details =
     andThen (wrapErr ''postgres: complete source test''
       (complete_test i customerSlug status message (Marshal (JArr (map jstr details))))) (\<lambda>n.
     if n = 0 then fail ErrSourceTestNotFound else ret ())"

definition DeleteExpiredSourceTests_pg :: "Repository \<Rightarrow> ('a pgdb_scheme, nat) io" where
  "DeleteExpiredSourceTests_pg r =
     wrapErr ''postgres: sweep expired source tests'' (sql (\<lambda>db.
       (Inr (length (filter (\<lambda>s. sr_expires_at s \<le> db_now db) (t_source_tests db))),
        db\<lparr>t_source_tests := filter (\<lambda>s. \<not> sr_expires_at s \<le> db_now db) (t_source_tests db)\<rparr>)))"

definition pg_source_tests :: "Repository \<Rightarrow> 'a pgdb_scheme SourceTestStore" where
  "pg_source_tests r = \<lparr>CreateSourceTest = CreateSourceTest_pg r, GetSourceTest_port = GetSourceTest_pg r,
     ClaimPendingSourceTests = ClaimPendingSourceTests_pg r, CompleteSourceTest = CompleteSourceTest_pg r,
     DeleteExpiredSourceTests = DeleteExpiredSourceTests_pg r\<rparr>"

subsection \<open>The service\<close>

text \<open>\<open>st_newID\<close> is \<^verbatim>\<open>uuid.NewString\<close>, \<open>st_Now\<close> the clock.\<close>

record 'w SourceTestService =
  st_Workspaces :: "'w Resolver"
  st_Tests :: "'w SourceTestStore"
  st_Pipelines :: "(string \<Rightarrow> ('w, Pipeline) io) option"
  st_OAuthClients :: "'w OAuthClientStore option"
  st_Connections :: "'w ConnectionStore option"
  st_newID :: "('w, string) io"
  st_Now :: "'w \<Rightarrow> int"

definition testableSourceTypes :: "string list" where
  "testableSourceTypes = [SourceTypeDuckDB, ''sql_database'']"

definition SourceTestSupported :: "string \<Rightarrow> bool" where
  "SourceTestSupported sourceType \<longleftrightarrow> list_ex (\<lambda>t. t = sourceType) testableSourceTypes"

definition StartSourceTest :: "'w SourceTestService \<Rightarrow> string \<Rightarrow> SourceTest \<Rightarrow> ('w, SourceTest) io" where
  "StartSourceTest s callerID inp =
     andThen (wrapErr ''get customer'' (GetWorkspaceByUser (st_Workspaces s) callerID)) (\<lambda>ws.
     if \<not> SourceTestSupported (sx_SourceType inp) then fail ErrSourceTestUnsupported
     else
       andThen (check (ValidateSourceConfig (sx_SourceType inp) (sx_SourceConfig inp))) (\<lambda>_.
       andThen (\<lambda>w. ret (st_Now s w) w) (\<lambda>now.
       andThen (st_newID s) (\<lambda>i.
       let t = \<lparr>sx_ID = i, sx_CustomerSlug = ws_Slug ws, sx_SourceType = sx_SourceType inp, sx_SourceConfig = sx_SourceConfig inp,
                sx_SourceCredentials = sx_SourceCredentials inp, sx_Status = SourceTestPending, sx_Message = [], sx_Details = [],
                sx_CreatedAt = now, sx_CompletedAt = None, sx_ExpiresAt = now + sourceTestTTL\<rparr> in
       andThen (check (ValidateSourceCredentials (sx_SourceType t) (sx_SourceConfig t) (sx_SourceCredentials t))) (\<lambda>_.
       andThen (wrapErr ''create source test'' (CreateSourceTest (st_Tests s) t)) (\<lambda>_.
       ret (t\<lparr>sx_SourceCredentials := []\<rparr>)))))))"

definition PipelineCredentials :: "'w SourceTestService \<Rightarrow> string \<Rightarrow> string \<Rightarrow> ('w, raw) io" where
  "PipelineCredentials s callerID i =
     andThen (wrapErr ''get customer'' (GetWorkspaceByUser (st_Workspaces s) callerID)) (\<lambda>ws.
     case st_Pipelines s of
       None \<Rightarrow> fail ErrPipelineNotFound
     | Some get \<Rightarrow>
         andThen (get i) (\<lambda>p.
         if p_CustomerSlug p \<noteq> ws_Slug ws then fail ErrPipelineNotFound else ret (p_SourceCredentials p)))"

definition GetSourceTest :: "'w SourceTestService \<Rightarrow> string \<Rightarrow> string \<Rightarrow> ('w, SourceTest) io" where
  "GetSourceTest s callerID i =
     andThen (wrapErr ''get customer'' (GetWorkspaceByUser (st_Workspaces s) callerID)) (\<lambda>ws.
     andThen (GetSourceTest_port (st_Tests s) i (ws_Slug ws)) (\<lambda>t.
     ret (t\<lparr>sx_SourceConfig := [], sx_SourceCredentials := []\<rparr>)))"

text \<open>The pipeline the resolver is shown has a source type and credentials and nothing else.\<close>

definition probePipeline :: "SourceTest \<Rightarrow> Pipeline" where
  "probePipeline t =
     \<lparr>p_ID = [], p_CustomerSlug = [], p_Name = [], p_SourceType = sx_SourceType t, p_SourceConfig = [],
      p_SourceCredentials = sx_SourceCredentials t, p_DatasetName = [], p_Schedule = [], p_WriteDisposition = [], p_MergeStrategy = [],
      p_Enabled = False, p_CredentialsExternal = False, p_CreatedAt = 0, p_UpdatedAt = 0, p_TriggerNow = False, p_PendingRunID = [],
      p_LastRunAt = None, p_LastRunTime = None, p_LastRunStatus = []\<rparr>"

fun injectTests :: "'w oauthClientResolver \<Rightarrow> SourceTest list \<Rightarrow> ('w, SourceTest list) io" where
  "injectTests oauth [] = ret []"
| "injectTests oauth (t # ts) =
     andThen (inject oauth (probePipeline t)) (\<lambda>(injected, oauth').
     andThen (injectTests oauth' ts) (\<lambda>ts'.
     ret ((case injected of Some c \<Rightarrow> t\<lparr>sx_SourceCredentials := c\<rparr> | None \<Rightarrow> t) # ts')))"

definition ClaimSourceTests :: "'w SourceTestService \<Rightarrow> string \<Rightarrow> ('w, SourceTest list) io" where
  "ClaimSourceTests s customerSlug =
     andThen (wrapErr ''claim source tests'' (ClaimPendingSourceTests (st_Tests s) customerSlug)) (\<lambda>tests.
     if tests = [] then ret []
     else injectTests (newOAuthClientResolver (st_OAuthClients s) (st_Connections s) customerSlug) tests)"

definition ReportSourceTest ::
  "'w SourceTestService \<Rightarrow> string \<Rightarrow> string \<Rightarrow> string \<Rightarrow> string \<Rightarrow> string list \<Rightarrow> ('w, unit) io" where
  "ReportSourceTest s customerSlug i status message details =
     (if status \<noteq> SourceTestSuccess \<and> status \<noteq> SourceTestFailed then fail (ErrNew ''invalid source test status'')
      else CompleteSourceTest (st_Tests s) i customerSlug status (truncateRunes message sourceTestMaxMessage)
             (take SourceTestMaxDetails details))"

text \<open>\<^verbatim>\<open>SanitizeSourceTestDetails\<close>, the loop with what it has kept so far.\<close>

fun sanitizeLoop :: "string list \<Rightarrow> string list \<Rightarrow> string list" where
  "sanitizeLoop out [] = out"
| "sanitizeLoop out (d # ds) =
     (let d' = TrimSpace d in
      if d' = [] then sanitizeLoop out ds
      else
        (let out' = out @ [truncateRunes d' 500] in
         if length out' = SourceTestMaxDetails then out' else sanitizeLoop out' ds))"

definition SanitizeSourceTestDetails :: "string list \<Rightarrow> string list" where
  "SanitizeSourceTestDetails details = sanitizeLoop [] details"

subsection \<open>Runes of a text\<close>

definition is_rune :: "string \<Rightarrow> bool" where
  "is_rune c \<longleftrightarrow> c \<noteq> [] \<and> rune_size c = length c"

lemma rune_size_take:
  assumes "rune_size s \<noteq> 0"
  shows "rune_size (take (rune_size s) s @ t) = rune_size s \<and> rune_size s \<le> length s"
proof (cases s)
  case Nil
  then show ?thesis using assms by (simp add: rune_size_def)
next
  case (Cons c r)
  obtain k where k: "lead_size c = Suc k" using assms Cons by (cases "lead_size c") (auto simp: rune_size_def Let_def)
  have size: "rune_size s = Suc k" and len: "k \<le> length r"
    using assms Cons k by (auto simp: rune_size_def Let_def min_def split: if_splits list.splits)
  have "take k (take k r @ t) = take k r" using len by simp
  then have "rune_size (take (Suc k) s @ t) = rune_size s"
    using Cons k len by (simp add: rune_size_def Let_def)
  then show ?thesis using size len Cons by simp
qed

lemma is_rune_taken: "rune_size s \<noteq> 0 \<Longrightarrow> is_rune (take (rune_size s) s)"
  using rune_size_take [of s "[]"] by (auto simp: is_rune_def min_def)

lemma is_rune_marks: "is_rune RuneError" "is_rune ellipsis"
  by code_simp+

lemma runes_are: "c \<in> set (runes s) \<Longrightarrow> is_rune c"
  by (induction s rule: runes.induct) (auto simp: is_rune_marks is_rune_taken simp del: take_Suc_Cons split: if_splits)

text \<open>Runes written one after the other are read back one by one.\<close>

lemma runes_rune:
  assumes "is_rune c"
  shows "runes (c @ t) = c # runes t"
proof -
  obtain x r where c: "c = x # r" using assms by (cases c) (auto simp: is_rune_def)
  have "rune_size c \<noteq> 0" using assms by (auto simp: is_rune_def)
  from rune_size_take [OF this, of t] have "rune_size (c @ t) = length c" using assms by (simp add: is_rune_def)
  then show ?thesis using c by simp
qed

lemma runes_concat: "\<forall>c \<in> set cs. is_rune c \<Longrightarrow> runes (concat cs @ t) = cs @ runes t"
  by (induction cs) (auto simp: runes_rune)

text \<open>
  A message is cut between runes: the first \<open>n\<close> runes of the text, as the text has them, and an ellipsis. A text of at
  most \<open>n\<close> runes stays as it is. So what is stored has at most \<open>n + 1\<close> runes and never half of one.
\<close>

theorem truncateRunes_runes:
  "runes (truncateRunes s n) = (if length (runes s) \<le> n then runes s else take n (runes s) @ [ellipsis])"
  using runes_concat [of "take n (runes s)" ellipsis] runes_rune [OF is_rune_marks(2), of "[]"]
  by (auto simp: truncateRunes_def dest!: in_set_takeD runes_are)

lemma truncateRunes_length: "length (runes (truncateRunes s n)) \<le> Suc n"
proof (cases "length (runes s) \<le> n")
  case False
  then have "runes (truncateRunes s n) = take n (runes s) @ runes ellipsis"
    by (auto simp: truncateRunes_def intro!: runes_concat dest!: in_set_takeD runes_are)
  moreover have "length (runes ellipsis) = 1" by code_simp
  ultimately show ?thesis by simp
qed (simp add: truncateRunes_def)

lemma sanitizeLoop_eq:
  "length out < SourceTestMaxDetails \<Longrightarrow>
   sanitizeLoop out ds = take SourceTestMaxDetails (out @ map (\<lambda>d. truncateRunes d 500) (filter (\<lambda>d. d \<noteq> []) (map TrimSpace ds)))"
  by (induction ds arbitrary: out) (auto simp: Let_def take_Cons split: nat.splits intro!: arg_cong2 [where f = take])

text \<open>
  What the worker's lines become: the first 25 that are not blank, in order, trimmed and cut to 500 runes. The loop
  stops at the 25th and looks at nothing after it.
\<close>

theorem SanitizeSourceTestDetails_eq:
  "SanitizeSourceTestDetails details =
     take SourceTestMaxDetails (map (\<lambda>d. truncateRunes d 500) (filter (\<lambda>d. d \<noteq> []) (map TrimSpace details)))"
  unfolding SanitizeSourceTestDetails_def by (subst sanitizeLoop_eq) (simp_all add: SourceTestMaxDetails_def)

subsection \<open>What the statements do to the table\<close>

text \<open>The row a verdict leaves, and the row a claim leaves.\<close>

definition verdict :: "string \<Rightarrow> string \<Rightarrow> raw \<Rightarrow> int \<Rightarrow> strow \<Rightarrow> strow" where
  "verdict status message d n s = s\<lparr>sr_status := status, sr_message := message, sr_details := d, sr_completed_at := Some n, sr_source_credentials := []\<rparr>"

definition due :: "string \<Rightarrow> int \<Rightarrow> strow \<Rightarrow> bool" where
  "due c n s \<longleftrightarrow> sr_customer_slug s = c \<and> sr_status s = SourceTestPending \<and> sr_expires_at s > n"

definition handed :: "string \<Rightarrow> int \<Rightarrow> strow list \<Rightarrow> strow list" where
  "handed c n = map (\<lambda>s. if due c n s then s\<lparr>sr_status := SourceTestRunning\<rparr> else s)"

lemma triple_sql:
  assumes "\<And>w v w'. P w \<Longrightarrow> act w = (Inr v, w') \<Longrightarrow> Q v w'" "\<And>w e w'. P w \<Longrightarrow> act w = (Inl e, w') \<Longrightarrow> E e w'"
    "\<And>w ls. P w \<Longrightarrow> P (w\<lparr>db_link := ls\<rparr>)" "\<And>w. P w \<Longrightarrow> E ErrDriver w"
  shows "triple P (sql act) Q E"
  by (rule tripleI) (auto elim!: sqlE dest: assms)

abbreviation tests_are :: "strow list \<Rightarrow> 'a pgdb_scheme \<Rightarrow> bool" where
  "tests_are T w \<equiv> t_source_tests w = T"

lemma encrypt_tests: "silent t_source_tests (encryptCredentials r c)"
proof (rule silentI)
  fix w x and w' :: "'a pgdb_scheme" assume "encryptCredentials r c w = (x, w')"
  then have "snap w' = snap w" by (rule encrypt_snap)
  from arg_cong [OF this, of t_source_tests] show "t_source_tests w' = t_source_tests w" by (simp add: snap_def)
qed

lemma query_tests: "keeps (tests_are T) (query q)"
  unfolding query_def by (rule safeI) (auto elim!: sqlE)

lemma lookups_tests: "silent t_source_tests (GetOAuthClient_pg r c v)" "silent t_source_tests (GetConnection_pg r c i)"
  unfolding silent_keeps GetOAuthClient_pg_def GetConnection_pg_def
  by (intro allI, (rule safe_rules query_tests TrueI)+)+

lemma CreateSourceTest_effect:
  "triple (tests_are T) (CreateSourceTest_pg r t)
     (\<lambda>_ w. \<exists>c e. sx_ID t \<notin> sr_id ` set T \<and> t_source_tests w = T @
        [\<lparr>sr_id = sx_ID t, sr_customer_slug = sx_CustomerSlug t, sr_source_type = sx_SourceType t, sr_source_config = c,
          sr_source_credentials = e, sr_status = sx_Status t, sr_message = [], sr_details = ''[]'', sr_created_at = sx_CreatedAt t,
          sr_completed_at = None, sr_expires_at = sx_ExpiresAt t\<rparr>])
     (\<lambda>_. tests_are T)"
  unfolding CreateSourceTest_pg_def Let_def insert_test_def
  by (rule triple_andThen, rule triple_wrapErr, rule silent_triple [OF encrypt_tests], rule triple_wrapErr, rule triple_sql)
    (auto simp: list_ex_iff split: option.splits if_splits)

lemma GetSourceTest_tests: "silent t_source_tests (GetSourceTest_pg r i c)"
proof (rule silentI)
  fix w x and w' :: "'a pgdb_scheme" assume "GetSourceTest_pg r i c w = (x, w')"
  then show "t_source_tests w' = t_source_tests w"
    by (auto simp: GetSourceTest_pg_def andThen_def wrapErr_def query_def ret_def fail_def split: prod.splits sum.splits option.splits elim!: sqlE)
qed

lemma ClaimPending_effect:
  "triple (\<lambda>w. tests_are T w \<and> db_now w = n) (ClaimPendingSourceTests_pg r c)
     (\<lambda>ts w. t_source_tests w = handed c n T \<and> scan_claimed r (filter (due c n) T) = Inr ts)
     (\<lambda>_ w. t_source_tests w \<in> {T, handed c n T})"
proof -
  have d: "claimable c w = due c (db_now w)" for w :: "'a pgdb_scheme" by (intro ext) (simp add: claimable_def due_def)
  show ?thesis
    unfolding ClaimPendingSourceTests_pg_def take_pending_def d
    by (rule triple_andThen [where R = "\<lambda>rows w. t_source_tests w = handed c n T \<and> rows = filter (due c n) T"],
        rule triple_wrapErr, rule triple_sql) (auto simp: handed_def intro!: triple_lift)
qed

lemma CompleteSourceTest_effect:
  "triple (tests_are T) (CompleteSourceTest_pg r i c status message details)
     (\<lambda>_ w. \<exists>d n. (\<exists>s \<in> set T. completed i c s) \<and>
        t_source_tests w = map (\<lambda>s. if completed i c s then verdict status message d n s else s) T)
     (\<lambda>_. tests_are T)"
  unfolding CompleteSourceTest_pg_def complete_test_def
  by (rule triple_andThen [where R = "\<lambda>k w. if k = 0 then tests_are T w else \<exists>d n. (\<exists>s \<in> set T. completed i c s) \<and>
        t_source_tests w = map (\<lambda>s. if completed i c s then verdict status message d n s else s) T"],
      rule triple_wrapErr, rule triple_sql)
    (auto simp: list_ex_iff verdict_def filter_empty_conv split: option.splits if_splits intro!: triple_if triple_ret triple_fail)

lemma DeleteExpired_effect:
  "triple (\<lambda>w. tests_are T w \<and> db_now w = n) (DeleteExpiredSourceTests_pg r)
     (\<lambda>_ w. t_source_tests w = filter (\<lambda>s. n < sr_expires_at s) T)
     (\<lambda>_. tests_are T)"
  unfolding DeleteExpiredSourceTests_pg_def
  by (rule triple_wrapErr, rule triple_sql) (auto simp: not_le)

lemma source_tests_quiet [quiet_rules]:
  "quiet (CreateSourceTest_pg r t)" "quiet (GetSourceTest_pg r i c)" "quiet (ClaimPendingSourceTests_pg r c)"
  "quiet (CompleteSourceTest_pg r i c status message details)" "quiet (DeleteExpiredSourceTests_pg r)"
  unfolding CreateSourceTest_pg_def Let_def insert_test_def GetSourceTest_pg_def ClaimPendingSourceTests_pg_def take_pending_def
    CompleteSourceTest_pg_def complete_test_def DeleteExpiredSourceTests_pg_def
  by (intro quiet_rules quiet_sql; auto split: option.splits if_splits)+

subsection \<open>The service over the table\<close>

text \<open>
  The service with the PostgreSQL store behind it and other ports that leave the table alone. The box's wiring is the
  instance.
\<close>

lemma silent_ret: "silent h (ret x)" "silent h (fail e)"
  by (simp_all add: silent_def)

lemma scan_claimed_ids: "scan_claimed r rows = Inr ts \<Longrightarrow> map sx_ID ts = map sr_id rows"
  by (induction rows arbitrary: ts) (auto split: sum.splits)

text \<open>Filling in the credentials makes the lookups of the worker's poll and nothing else.\<close>

lemma injectTests_safe:
  assumes "oauth_ports cl cn c I" "or_clients oauth = cl" "or_connections oauth = cn" "or_customerSlug oauth = c"
  shows "safe I (injectTests oauth ts) (\<lambda>ts'. map sx_ID ts' = map sx_ID ts)"
  using assms(2-4)
proof (induction ts arbitrary: oauth)
  case Nil
  show ?case by (auto intro: safe_ret)
next
  case (Cons t ts)
  note inj = oauth_ports.inject_safe [OF assms(1), unfolded oauth_ports.wired_def [OF assms(1)]]
  have "safe I (case x of (injected, oauth') \<Rightarrow> andThen (injectTests oauth' ts) (\<lambda>ts'. ret ((case injected of Some c \<Rightarrow> t\<lparr>sx_SourceCredentials := c\<rparr> | None \<Rightarrow> t) # ts')))
      (\<lambda>ts'. map sx_ID ts' = map sx_ID (t # ts))"
    if "case x of (_, o') \<Rightarrow> or_clients o' = cl \<and> or_connections o' = cn \<and> or_customerSlug o' = c" for x
    using that by (cases x) (auto intro!: safe_andThen [OF Cons.IH] safe_ret split: option.splits)
  then show ?case unfolding injectTests.simps by (intro safe_andThen [OF inj]) (use Cons.prems in auto)
qed

locale test_ports =
  fixes s :: "'a pgdb_scheme SourceTestService" and r :: Repository
  assumes store: "st_Tests s = pg_source_tests r"
    and by_user: "silent t_source_tests (GetWorkspaceByUser (st_Workspaces s) u)"
    and client: "st_OAuthClients s = Some cl \<Longrightarrow> silent t_source_tests (GetOAuthClient cl c OAuthProviderGoogle)"
    and connection: "st_Connections s = Some cn \<Longrightarrow> silent t_source_tests (GetConnection cn c i)"
    and new_id: "silent t_source_tests (st_newID s)"
begin

lemma injectTests_effect:
  assumes "or_clients oauth = st_OAuthClients s" "or_connections oauth = st_Connections s" "or_customerSlug oauth = c"
  shows "triple (tests_are T) (injectTests oauth ts) (\<lambda>ts' w. tests_are T w \<and> map sx_ID ts' = map sx_ID ts) (\<lambda>_. tests_are T)"
proof -
  have "oauth_ports (st_OAuthClients s) (st_Connections s) c (tests_are T)"
    by unfold_locales (use client connection in \<open>simp_all add: silent_keeps\<close>)
  from injectTests_safe [OF this assms] show ?thesis by (simp add: triple_safe)
qed

lemma StartSourceTest_effect:
  "triple (tests_are T) (StartSourceTest s u inp)
     (\<lambda>t w. \<exists>row. sr_id row = sx_ID t \<and> sr_status row = SourceTestPending \<and> sx_ID t \<notin> sr_id ` set T \<and> t_source_tests w = T @ [row])
     (\<lambda>_. tests_are T)"
proof -
  have now: "triple (tests_are T) (\<lambda>w. ret (st_Now s w) w) (\<lambda>_. tests_are T) (\<lambda>_. tests_are T)" by (simp add: triple_def)
  have create: "CreateSourceTest (st_Tests s) = CreateSourceTest_pg r" by (simp add: store pg_source_tests_def)
  show ?thesis
    unfolding StartSourceTest_def Let_def create
    by (rule triple_andThen, rule triple_wrapErr, rule silent_triple [OF by_user], rule triple_if, rule triple_fail, assumption,
        rule triple_andThen [where R = "\<lambda>_. tests_are T"], rule triple_check, assumption, assumption, rule triple_andThen [OF now],
        rule triple_andThen, rule silent_triple [OF new_id], rule triple_andThen [where R = "\<lambda>_. tests_are T"], rule triple_check, assumption, assumption,
        rule triple_andThen, rule triple_wrapErr, rule CreateSourceTest_effect, rule triple_ret) auto
qed

lemma ClaimSourceTests_effect:
  "triple (\<lambda>w. tests_are T w \<and> db_now w = n) (ClaimSourceTests s c)
     (\<lambda>ts w. t_source_tests w = handed c n T \<and> map sx_ID ts = map sr_id (filter (due c n) T))
     (\<lambda>_ w. t_source_tests w \<in> {T, handed c n T})"
proof -
  have claim: "ClaimPendingSourceTests (st_Tests s) = ClaimPendingSourceTests_pg r" by (simp add: store pg_source_tests_def)
  have rest: "triple (\<lambda>w. t_source_tests w = handed c n T \<and> scan_claimed r (filter (due c n) T) = Inr ts)
      (if ts = [] then ret [] else injectTests (newOAuthClientResolver (st_OAuthClients s) (st_Connections s) c) ts)
      (\<lambda>ts w. t_source_tests w = handed c n T \<and> map sx_ID ts = map sr_id (filter (due c n) T))
      (\<lambda>_ w. t_source_tests w \<in> {T, handed c n T})" for ts
  proof (rule triple_pull, goal_cases)
    case 1
    note ids = scan_claimed_ids [OF 1]
    have inj: "triple (tests_are (handed c n T)) (injectTests (newOAuthClientResolver (st_OAuthClients s) (st_Connections s) c) ts)
        (\<lambda>ts' w. tests_are (handed c n T) w \<and> map sx_ID ts' = map sx_ID ts) (\<lambda>_. tests_are (handed c n T))"
      by (rule injectTests_effect [where c = c]) (simp_all add: newOAuthClientResolver_def)
    show ?case by (rule triple_if, rule triple_ret) (use ids in \<open>auto intro!: triple_conseq [OF inj]\<close>)
  qed
  show ?thesis unfolding ClaimSourceTests_def claim
    by (rule triple_andThen [OF triple_wrapErr [OF ClaimPending_effect] rest])
qed

lemma ReportSourceTest_effect:
  "triple (tests_are T) (ReportSourceTest s c i status message details)
     (\<lambda>_ w. \<exists>d n. status \<in> {SourceTestSuccess, SourceTestFailed} \<and> (\<exists>s \<in> set T. completed i c s) \<and>
        t_source_tests w = map (\<lambda>s. if completed i c s then verdict status (truncateRunes message sourceTestMaxMessage) d n s else s) T)
     (\<lambda>_. tests_are T)"
  unfolding ReportSourceTest_def store pg_source_tests_def SourceTestStore.simps
  by (rule triple_if, rule triple_fail, assumption) (auto intro!: triple_conseq [OF CompleteSourceTest_effect])

lemma GetSourceTest_effect: "silent t_source_tests (GetSourceTest s u i)"
proof -
  have get: "silent t_source_tests (GetSourceTest_port (st_Tests s) j c)" for j c
    by (simp add: store pg_source_tests_def GetSourceTest_tests)
  show ?thesis
    unfolding silent_keeps GetSourceTest_def
    by (intro allI) (rule safe_rules get [unfolded silent_keeps, rule_format] by_user [unfolded silent_keeps, rule_format] TrueI)+
qed

end

subsection \<open>Runs\<close>

text \<open>
  Any sequence of the service's calls and the sweep, between changes of the world that leave the table alone:
  \<open>cs\<close> are the ids of the tests queued, \<open>ks\<close> the ids handed to the worker, latest first.
\<close>

inductive test_run ::
  "'a pgdb_scheme SourceTestService \<Rightarrow> 'a pgdb_scheme \<Rightarrow> string list \<Rightarrow> string list \<Rightarrow> 'a pgdb_scheme \<Rightarrow> bool" for s w where
  none: "test_run s w [] [] w"
| start: "test_run s w cs ks w1 \<Longrightarrow> StartSourceTest s u inp w1 = (x, w2) \<Longrightarrow>
    test_run s w (case x of Inl _ \<Rightarrow> cs | Inr t \<Rightarrow> sx_ID t # cs) ks w2"
| claim: "test_run s w cs ks w1 \<Longrightarrow> ClaimSourceTests s c w1 = (y, w2) \<Longrightarrow>
    test_run s w cs (case y of Inl _ \<Rightarrow> ks | Inr ts \<Rightarrow> map sx_ID ts @ ks) w2"
| report: "test_run s w cs ks w1 \<Longrightarrow> ReportSourceTest s c i status message details w1 = (z, w2) \<Longrightarrow> test_run s w cs ks w2"
| get: "test_run s w cs ks w1 \<Longrightarrow> GetSourceTest s u i w1 = (v, w2) \<Longrightarrow> test_run s w cs ks w2"
| sweep: "test_run s w cs ks w1 \<Longrightarrow> DeleteExpiredSourceTests (st_Tests s) w1 = (k, w2) \<Longrightarrow> test_run s w cs ks w2"
| other: "test_run s w cs ks w1 \<Longrightarrow> t_source_tests w2 = t_source_tests w1 \<Longrightarrow> test_run s w cs ks w2"

text \<open>What a step makes of the table.\<close>

inductive test_change :: "strow list \<Rightarrow> string list \<Rightarrow> string list \<Rightarrow> strow list \<Rightarrow> bool" where
  same: "test_change T [] [] T"
| queued: "sr_id row \<notin> sr_id ` set T \<Longrightarrow> sr_status row = SourceTestPending \<Longrightarrow> test_change T [sr_id row] [] (T @ [row])"
| taken: "ks \<in> {[], map sr_id (filter (due c n) T)} \<Longrightarrow> test_change T [] ks (handed c n T)"
| settled: "status \<in> {SourceTestSuccess, SourceTestFailed} \<Longrightarrow>
    test_change T [] [] (map (\<lambda>s. if completed i c s then verdict status (truncateRunes message sourceTestMaxMessage) d n s else s) T)"
| swept: "test_change T [] [] (filter (\<lambda>s. n < sr_expires_at s) T)"

lemma triple_split:
  assumes "triple P m Q E" "P w" "m w = (x, w')"
  obtains (failed) e where "x = Inl e" "E e w'" | (returned) v where "x = Inr v" "Q v w'"
  using assms by (cases x) (auto dest: triple_Inr triple_Inl)

text \<open>A settled test has a verdict, a bounded message and no credentials.\<close>

definition settled_row :: "strow \<Rightarrow> bool" where
  "settled_row s \<longleftrightarrow> sr_status s \<in> {SourceTestSuccess, SourceTestFailed} \<and> sr_source_credentials s = [] \<and> sr_completed_at s \<noteq> None
     \<and> length (runes (sr_message s)) \<le> Suc sourceTestMaxMessage"

definition life :: "strow \<Rightarrow> bool" where
  "life s \<longleftrightarrow> sr_status s \<in> {SourceTestPending, SourceTestRunning} \<or> settled_row s"

lemma life_change: "test_change T cs ks T' \<Longrightarrow> \<forall>s \<in> set T. life s \<Longrightarrow> \<forall>s \<in> set T'. life s"
  by (induction rule: test_change.induct)
    (auto simp: life_def settled_row_def verdict_def handed_def due_def truncateRunes_length)

definition claimed_once :: "string list \<Rightarrow> string list \<Rightarrow> string list \<Rightarrow> strow list \<Rightarrow> bool" where
  "claimed_once I cs ks T \<longleftrightarrow> (distinct (cs @ I) \<longrightarrow>
     distinct (map sr_id T) \<and> sr_id ` set T \<subseteq> set (cs @ I) \<and> set ks \<subseteq> set (cs @ I) \<and> distinct ks \<and>
     (\<forall>s \<in> set T. sr_id s \<in> set ks \<longrightarrow> sr_status s \<noteq> SourceTestPending))"

lemma statuses_differ: "SourceTestRunning \<noteq> SourceTestPending" "SourceTestSuccess \<noteq> SourceTestPending" "SourceTestFailed \<noteq> SourceTestPending"
  by (simp_all add: SourceTestPending_def SourceTestRunning_def SourceTestSuccess_def SourceTestFailed_def)

lemma handed_ids [simp]: "map sr_id (handed c n T) = map sr_id T" "sr_id ` set (handed c n T) = sr_id ` set T"
proof -
  show m: "map sr_id (handed c n T) = map sr_id T" by (simp add: handed_def)
  from arg_cong [OF m, of set] show "sr_id ` set (handed c n T) = sr_id ` set T" by simp
qed

lemma handed_status: "s \<in> set (handed c n T) \<Longrightarrow> \<exists>s0 \<in> set T. sr_id s0 = sr_id s \<and> (sr_status s = SourceTestPending \<longrightarrow> sr_status s0 = SourceTestPending \<and> \<not> due c n s0)"
  by (auto simp: handed_def statuses_differ)

lemma once_change:
  assumes "test_change T cs' ks' T'" "claimed_once I cs ks T"
  shows "claimed_once I (cs' @ cs) (ks' @ ks) T'"
  using assms
proof (induction rule: test_change.induct)
  case (taken ks' c n T)
  show ?case unfolding claimed_once_def
  proof (intro impI)
    assume d: "distinct (([] @ cs) @ I)"
    with taken(2) have T: "distinct (map sr_id T)" "sr_id ` set T \<subseteq> set (cs @ I)" "set ks \<subseteq> set (cs @ I)" "distinct ks"
      "\<forall>s \<in> set T. sr_id s \<in> set ks \<longrightarrow> sr_status s \<noteq> SourceTestPending" by (auto simp: claimed_once_def)
    have sub: "set ks' \<subseteq> sr_id ` set (filter (due c n) T)" "distinct ks'" using taken(1) T(1) by (auto simp: distinct_map_filter)
    have new: "set ks' \<subseteq> set (cs @ I)" using sub(1) T(2) by auto
    have "set ks' \<inter> set ks = {}" using sub(1) T(5) by (fastforce simp: due_def)
    moreover have "\<forall>s \<in> set (handed c n T). sr_id s \<in> set (ks' @ ks) \<longrightarrow> sr_status s \<noteq> SourceTestPending"
    proof (intro ballI impI)
      fix s assume s: "s \<in> set (handed c n T)" "sr_id s \<in> set (ks' @ ks)"
      obtain s0 where s0: "s0 \<in> set T" "sr_id s0 = sr_id s"
        "sr_status s = SourceTestPending \<longrightarrow> sr_status s0 = SourceTestPending \<and> \<not> due c n s0" using handed_status [OF s(1)] by blast
      have "due c n s0" if "sr_id s \<in> set ks'"
      proof -
        from that sub(1) obtain s1 where "s1 \<in> set T" "due c n s1" "sr_id s1 = sr_id s0" using s0(2) by auto
        then show ?thesis using T(1) s0(1) by (metis distinct_map inj_onD)
      qed
      then show "sr_status s \<noteq> SourceTestPending" using s0 s(2) T(5) by auto
    qed
    ultimately show "distinct (map sr_id (handed c n T)) \<and> sr_id ` set (handed c n T) \<subseteq> set (([] @ cs) @ I) \<and>
        set (ks' @ ks) \<subseteq> set (([] @ cs) @ I) \<and> distinct (ks' @ ks) \<and>
        (\<forall>s \<in> set (handed c n T). sr_id s \<in> set (ks' @ ks) \<longrightarrow> sr_status s \<noteq> SourceTestPending)"
      using T(1-4) sub(2) new by simp
  qed
next
  case (settled status T i c message d n)
  have m: "map sr_id (map (\<lambda>s. if completed i c s then verdict status (truncateRunes message sourceTestMaxMessage) d n s else s) T) = map sr_id T"
    by (simp add: verdict_def)
  from arg_cong [OF m, of set] settled show ?case
    unfolding claimed_once_def m by (auto simp: verdict_def statuses_differ)
qed (fastforce simp: claimed_once_def distinct_map_filter)+

context test_ports
begin

lemma run_change:
  "test_run s w cs ks w' \<Longrightarrow> P [] [] (t_source_tests w) \<Longrightarrow>
   (\<And>cs ks T cs' ks' T'. P cs ks T \<Longrightarrow> test_change T cs' ks' T' \<Longrightarrow> P (cs' @ cs) (ks' @ ks) T') \<Longrightarrow> P cs ks (t_source_tests w')"
proof (induction rule: test_run.induct)
  case none
  then show ?case by simp
next
  case (start cs ks w1 u inp x w2)
  then have P: "P cs ks (t_source_tests w1)" by blast
  from StartSourceTest_effect [where T = "t_source_tests w1"] refl start.hyps(2) show ?case
  proof (cases rule: triple_split)
    case (failed e)
    then show ?thesis using P by simp
  next
    case (returned t)
    then obtain row where row: "sr_id row = sx_ID t" "sr_status row = SourceTestPending" "sx_ID t \<notin> sr_id ` set (t_source_tests w1)"
      "t_source_tests w2 = t_source_tests w1 @ [row]" by blast
    then show ?thesis using start.prems(2) [OF P queued, of row] returned(1) by simp
  qed
next
  case (claim cs ks w1 c y w2)
  then have P: "P cs ks (t_source_tests w1)" by blast
  have "t_source_tests w1 = t_source_tests w1 \<and> db_now w1 = db_now w1" by simp
  from ClaimSourceTests_effect this claim.hyps(2) show ?case
  proof (cases rule: triple_split)
    case (failed e)
    then show ?thesis using P claim.prems(2) [OF P taken, of "[]" c "db_now w1"] by auto
  next
    case (returned ts)
    then show ?thesis using claim.prems(2) [OF P taken, of "map sx_ID ts" c "db_now w1"] by auto
  qed
next
  case (report cs ks w1 c i status message details z w2)
  then have P: "P cs ks (t_source_tests w1)" by blast
  from ReportSourceTest_effect [where T = "t_source_tests w1"] refl report.hyps(2) show ?case
  proof (cases rule: triple_split)
    case (failed e)
    then show ?thesis using P by simp
  next
    case (returned v)
    then show ?thesis using report.prems(2) [OF P settled] by auto
  qed
next
  case (get cs ks w1 u i v w2)
  then show ?case using silentD [OF GetSourceTest_effect get.hyps(2)] by simp
next
  case (sweep cs ks w1 k w2)
  then have P: "P cs ks (t_source_tests w1)" by blast
  have "t_source_tests w1 = t_source_tests w1 \<and> db_now w1 = db_now w1" by simp
  from DeleteExpired_effect [of _ _ r] this sweep.hyps(2) [unfolded store pg_source_tests_def SourceTestStore.simps] show ?case
  proof (cases rule: triple_split)
    case (failed e)
    then show ?thesis using P by simp
  next
    case (returned v)
    then show ?thesis using sweep.prems(2) [OF P swept, of "db_now w1"] by simp
  qed
next
  case (other cs ks w1 w2)
  then show ?case by simp
qed

lemma run_life: "test_run s w cs ks w' \<Longrightarrow> \<forall>s \<in> set (t_source_tests w). life s \<Longrightarrow> \<forall>s \<in> set (t_source_tests w'). life s"
  by (erule run_change [where P = "\<lambda>_ _ T. \<forall>s \<in> set T. life s"]) (auto dest: life_change)

lemma run_once:
  assumes "test_run s w cs ks w'" "distinct (cs @ map sr_id (t_source_tests w))"
  shows "distinct ks"
proof -
  let ?I = "map sr_id (t_source_tests w)"
  have "claimed_once ?I [] [] (t_source_tests w)" by (simp add: claimed_once_def)
  from run_change [OF assms(1), of "claimed_once ?I", OF this once_change] assms(2) show ?thesis by (simp add: claimed_once_def)
qed

end

end
