(* ===== verification/Notifications.thy ===== *)
theory Notifications
  imports PostgresFrames "HOL-Library.Sublist"
begin

section \<open>Notifications (\<^verbatim>\<open>workspace/notification.go\<close>, \<^verbatim>\<open>postgres/notification.go\<close>, \<^verbatim>\<open>postgres/notification_listen.go\<close>)\<close>

text \<open>
  A notification is a row first: the Console's bell lists the rows. On top of it a frame goes over a PostgreSQL
  channel to every replica, whose listener hands it to a broker of live streams. The broker's channels hold sixteen
  frames and a slow stream misses some. A send to a closed channel and a second close would panic in Go; here both are
  errors and the properties show neither happens. How the process prints a time is the parameter \<open>TimeText\<close>: it
  depends on the zone the process runs in.
\<close>

subsection \<open>The table\<close>

record 'w NotificationRepository =
  CreateNotification :: "Notification \<Rightarrow> ('w, Notification) io"
  ListNotifications_port :: "string \<Rightarrow> nat \<Rightarrow> ('w, Notification list) io"
  UnreadCount_port :: "string \<Rightarrow> ('w, nat) io"
  MarkRead_port :: "string \<Rightarrow> string \<Rightarrow> ('w, unit) io"
  MarkAllRead_port :: "string \<Rightarrow> ('w, unit) io"

definition insert_notification :: "Notification \<Rightarrow> ('a pgdb_scheme, Notification) io" where
  "insert_notification n = sql (\<lambda>db.
     let n' = n\<lparr>n_ID := db_gen db (db_next db), n_CreatedAt := db_now db\<rparr>; db1 = db\<lparr>db_next := Suc (db_next db)\<rparr> in
     if list_ex (\<lambda>m. n_ID m = n_ID n') (t_notifications db) then (Inl ErrUniqueViolation, db1)
     else (Inr n', db1\<lparr>t_notifications := t_notifications db @ [n']\<rparr>))"

definition CreateNotification_pg :: "Repository \<Rightarrow> Notification \<Rightarrow> ('a pgdb_scheme, Notification) io" where
  "CreateNotification_pg r n = wrapErr ''postgres: create notification'' (insert_notification n)"

definition ListNotifications_pg :: "Repository \<Rightarrow> string \<Rightarrow> nat \<Rightarrow> ('a pgdb_scheme, Notification list) io" where
  "ListNotifications_pg r customerSlug limit =
     wrapErr ''postgres: list notifications'' (query (\<lambda>db.
       take limit (sort_key (\<lambda>n. - n_CreatedAt n) (filter (\<lambda>n. n_CustomerSlug n = customerSlug) (t_notifications db)))))"

definition unread :: "string \<Rightarrow> Notification \<Rightarrow> bool" where
  "unread customerSlug n \<longleftrightarrow> n_CustomerSlug n = customerSlug \<and> \<not> n_Read n"

definition UnreadCount_pg :: "Repository \<Rightarrow> string \<Rightarrow> ('a pgdb_scheme, nat) io" where
  "UnreadCount_pg r customerSlug =
     wrapErr ''postgres: unread count'' (query (\<lambda>db. length (filter (unread customerSlug) (t_notifications db))))"

definition update_read :: "(Notification \<Rightarrow> bool) \<Rightarrow> ('a pgdb_scheme, nat) io" where
  "update_read P = sql (\<lambda>db.
     (Inr (length (filter P (t_notifications db))),
      db\<lparr>t_notifications := map (\<lambda>n. if P n then n\<lparr>n_Read := True\<rparr> else n) (t_notifications db)\<rparr>))"

definition MarkRead_pg :: "Repository \<Rightarrow> string \<Rightarrow> string \<Rightarrow> ('a pgdb_scheme, unit) io" where
  "MarkRead_pg r customerSlug i =
     andThen (wrapErr ''postgres: mark notification read'' (update_read (\<lambda>n. n_ID n = i \<and> n_CustomerSlug n = customerSlug))) (\<lambda>k.
     if k = 0 then fail ErrNotificationNotFound else ret ())"

definition MarkAllRead_pg :: "Repository \<Rightarrow> string \<Rightarrow> ('a pgdb_scheme, unit) io" where
  "MarkAllRead_pg r customerSlug =
     andThen (wrapErr ''postgres: mark all notifications read'' (update_read (unread customerSlug))) (\<lambda>_. ret ())"

definition pg_notifications :: "Repository \<Rightarrow> 'a pgdb_scheme NotificationRepository" where
  "pg_notifications r = \<lparr>CreateNotification = CreateNotification_pg r, ListNotifications_port = ListNotifications_pg r,
     UnreadCount_port = UnreadCount_pg r, MarkRead_port = MarkRead_pg r, MarkAllRead_port = MarkAllRead_pg r\<rparr>"

subsection \<open>The frame on the channel\<close>

record TimeText =
  tt_marshal :: "int \<Rightarrow> string"
  tt_unmarshal :: "string \<Rightarrow> int option"

definition maxNotifyPayload :: nat where "maxNotifyPayload = 7000"

text \<open>\<^verbatim>\<open>toPayload\<close> and \<^verbatim>\<open>toDomain\<close> copy the fields, so the payload is the notification with its JSON names.\<close>

definition enc_payload :: "TimeText \<Rightarrow> Notification \<Rightarrow> json" where
  "enc_payload tt n = jobj
     [(''id'', jstr (n_ID n)), (''customer_slug'', jstr (n_CustomerSlug n)), (''type'', jstr (n_Type n)), (''title'', jstr (n_Title n)),
      (''body'', jstr (n_Body n)), (''link'', jstr (n_Link n)), (''read'', JBool (n_Read n)), (''created_at'', jstr (tt_marshal tt (n_CreatedAt n)))]"

definition d_time :: "TimeText \<Rightarrow> int decoder" where
  "d_time tt v cur = (case v of JNull \<Rightarrow> Some cur | JStr s \<Rightarrow> tt_unmarshal tt (unquote s) | _ \<Rightarrow> None)"

definition d_payload :: "TimeText \<Rightarrow> Notification decoder" where
  "d_payload tt = d_obj (\<lambda>ms n.
     Option.bind (dec_field d_str ''id'' ms (n_ID n)) (\<lambda>i.
     Option.bind (dec_field d_str ''customer_slug'' ms (n_CustomerSlug n)) (\<lambda>c.
     Option.bind (dec_field d_str ''type'' ms (n_Type n)) (\<lambda>t.
     Option.bind (dec_field d_str ''title'' ms (n_Title n)) (\<lambda>ti.
     Option.bind (dec_field d_str ''body'' ms (n_Body n)) (\<lambda>b.
     Option.bind (dec_field d_str ''link'' ms (n_Link n)) (\<lambda>l.
     Option.bind (dec_field d_bool ''read'' ms (n_Read n)) (\<lambda>rd.
     Option.bind (dec_field (d_time tt) ''created_at'' ms (n_CreatedAt n)) (\<lambda>at.
     Some \<lparr>n_CustomerSlug = c, n_Type = t, n_Title = ti, n_Body = b, n_Link = l, n_ID = i, n_Read = rd, n_CreatedAt = at\<rparr>)))))))))"

definition zeroPayload :: Notification where
  "zeroPayload = \<lparr>n_CustomerSlug = [], n_Type = [], n_Title = [], n_Body = [], n_Link = [], n_ID = [], n_Read = False, n_CreatedAt = 0\<rparr>"

definition utf8RuneStart :: "char \<Rightarrow> bool" where
  "utf8RuneStart b \<longleftrightarrow> \<not> ((128::nat) \<le> of_char b \<and> of_char b < (192::nat))"

fun backToRuneStart :: "string \<Rightarrow> nat \<Rightarrow> nat" where
  "backToRuneStart body 0 = 0"
| "backToRuneStart body (Suc k) = (if utf8RuneStart (body ! Suc k) then Suc k else backToRuneStart body k)"

definition frameEllipsis :: string where "frameEllipsis = [CHR 0xE2, CHR 0x80, CHR 0xA6]"

definition trimBody :: "string \<Rightarrow> nat \<Rightarrow> string" where
  "trimBody body overflow =
     (if overflow \<ge> length body then []
      else take (backToRuneStart body (length body - overflow)) body @ frameEllipsis)"

definition encodeNotification :: "TimeText \<Rightarrow> Notification \<Rightarrow> string" where
  "encodeNotification tt n =
     (let raw = Marshal (enc_payload tt n) in
      if length raw \<le> maxNotifyPayload then raw
      else Marshal (enc_payload tt (n\<lparr>n_Body := trimBody (n_Body n) (length raw - maxNotifyPayload + length frameEllipsis)\<rparr>)))"

text \<open>PostgreSQL refuses a payload of 8000 bytes or more.\<close>

definition PublishNotification :: "TimeText \<Rightarrow> Repository \<Rightarrow> Notification \<Rightarrow> ('a pgdb_scheme, unit) io" where
  "PublishNotification tt r n =
     wrapErr ''postgres: pg_notify notification'' (sql (\<lambda>db.
       if length (encodeNotification tt n) \<ge> 8000 then (Inl (ErrNew ''payload string too long''), db)
       else (Inr (), db\<lparr>db_channel := db_channel db @ [encodeNotification tt n]\<rparr>)))"

subsection \<open>The broker\<close>

text \<open>
  \<open>nb_subs\<close>: the live subscribers of each tenant, by number. \<open>nb_queue\<close>: what waits in a subscriber's channel;
  \<open>nb_closed\<close>: the channels closed.
\<close>

record NotificationBroker =
  nb_subs :: "(string \<times> nat list) list"
  nb_queue :: "(nat \<times> Notification list) list"
  nb_closed :: "nat list"
  nb_next :: nat

definition NewNotificationBroker :: NotificationBroker where
  "NewNotificationBroker = \<lparr>nb_subs = [], nb_queue = [], nb_closed = [], nb_next = 0\<rparr>"

definition channelCapacity :: nat where "channelCapacity = 16"

definition subs_of :: "NotificationBroker \<Rightarrow> string \<Rightarrow> nat list" where
  "subs_of b slug = (case map_of (nb_subs b) slug of None \<Rightarrow> [] | Some xs \<Rightarrow> xs)"

definition queue_of :: "NotificationBroker \<Rightarrow> nat \<Rightarrow> Notification list" where
  "queue_of b i = (case map_of (nb_queue b) i of None \<Rightarrow> [] | Some q \<Rightarrow> q)"

definition Subscribe_broker :: "NotificationBroker \<Rightarrow> string \<Rightarrow> nat \<times> NotificationBroker" where
  "Subscribe_broker b customerSlug =
     (let i = nb_next b in
      (i, b\<lparr>nb_next := Suc i, nb_queue := AList.update i [] (nb_queue b),
            nb_subs := AList.update customerSlug (subs_of b customerSlug @ [i]) (nb_subs b)\<rparr>))"

text \<open>\<^verbatim>\<open>close\<close> and the send of a \<^verbatim>\<open>select\<close> with a default; \<^const>\<open>Inl\<close> is a panic.\<close>

definition close_channel :: "nat \<Rightarrow> NotificationBroker \<Rightarrow> err + NotificationBroker" where
  "close_channel i b = (if i \<in> set (nb_closed b) then Inl (ErrNew ''close of closed channel'') else Inr (b\<lparr>nb_closed := i # nb_closed b\<rparr>))"

definition offer :: "Notification \<Rightarrow> nat \<Rightarrow> NotificationBroker \<Rightarrow> err + NotificationBroker" where
  "offer n i b =
     (if i \<in> set (nb_closed b) then Inl (ErrNew ''send on closed channel'')
      else if length (queue_of b i) < channelCapacity then Inr (b\<lparr>nb_queue := AList.update i (queue_of b i @ [n]) (nb_queue b)\<rparr>)
      else Inr b)"

definition cancel :: "string \<Rightarrow> nat \<Rightarrow> NotificationBroker \<Rightarrow> err + NotificationBroker" where
  "cancel customerSlug i b =
     (case map_of (nb_subs b) customerSlug of
        None \<Rightarrow> Inr b
      | Some xs \<Rightarrow>
          (let xs' = filter (\<lambda>j. j \<noteq> i) xs;
               drop_empty = (\<lambda>c. if xs' = [] then c\<lparr>nb_subs := AList.delete customerSlug (nb_subs c)\<rparr> else c) in
           if i \<in> set xs then map_sum id drop_empty (close_channel i (b\<lparr>nb_subs := AList.update customerSlug xs' (nb_subs b)\<rparr>))
           else Inr (drop_empty b)))"

fun offer_all :: "Notification \<Rightarrow> nat list \<Rightarrow> NotificationBroker \<Rightarrow> err + NotificationBroker" where
  "offer_all n [] b = Inr b"
| "offer_all n (i # is) b = (case offer n i b of Inl e \<Rightarrow> Inl e | Inr b' \<Rightarrow> offer_all n is b')"

definition Broadcast :: "Notification \<Rightarrow> NotificationBroker \<Rightarrow> err + NotificationBroker" where
  "Broadcast n b = offer_all n (subs_of b (n_CustomerSlug n)) b"

text \<open>The stream's receive: the next frame, nothing to read yet, or the end.\<close>

datatype received = Frame Notification | Waiting | Ended

definition receive :: "nat \<Rightarrow> NotificationBroker \<Rightarrow> received \<times> NotificationBroker" where
  "receive i b =
     (case queue_of b i of
        n # q \<Rightarrow> (Frame n, b\<lparr>nb_queue := AList.update i q (nb_queue b)\<rparr>)
      | [] \<Rightarrow> (if i \<in> set (nb_closed b) then Ended else Waiting, b))"

subsection \<open>The service and the listener\<close>

record 'w brokerCell =
  bk_get :: "'w \<Rightarrow> NotificationBroker"
  bk_put :: "NotificationBroker \<Rightarrow> 'w \<Rightarrow> 'w"

record 'w NotificationService =
  ns_Workspaces :: "'w Resolver"
  ns_Notifications :: "'w NotificationRepository"
  ns_Broker :: "'w brokerCell option"
  ns_Publisher :: "(Notification \<Rightarrow> ('w, unit) io) option"

definition defaultListLimit :: nat where "defaultListLimit = 50"

definition onBroker :: "'w brokerCell \<Rightarrow> (NotificationBroker \<Rightarrow> err + NotificationBroker) \<Rightarrow> ('w, unit) io" where
  "onBroker c f w = (case f (bk_get c w) of Inl e \<Rightarrow> (Inl e, w) | Inr b \<Rightarrow> (Inr (), bk_put c b w))"

definition broadcastLocal :: "'w NotificationService \<Rightarrow> Notification \<Rightarrow> ('w, unit) io" where
  "broadcastLocal s n = (case ns_Broker s of None \<Rightarrow> ret () | Some c \<Rightarrow> onBroker c (Broadcast n))"

definition List_notifications :: "'w NotificationService \<Rightarrow> string \<Rightarrow> ('w, Notification list) io" where
  "List_notifications s callerID =
     andThen (wrapErr ''get workspace'' (GetWorkspaceByUser (ns_Workspaces s) callerID)) (\<lambda>ws.
     ListNotifications_port (ns_Notifications s) (ws_Slug ws) defaultListLimit)"

definition UnreadCount :: "'w NotificationService \<Rightarrow> string \<Rightarrow> ('w, nat) io" where
  "UnreadCount s callerID =
     andThen (wrapErr ''get workspace'' (GetWorkspaceByUser (ns_Workspaces s) callerID)) (\<lambda>ws.
     UnreadCount_port (ns_Notifications s) (ws_Slug ws))"

definition MarkRead :: "'w NotificationService \<Rightarrow> string \<Rightarrow> string \<Rightarrow> ('w, unit) io" where
  "MarkRead s callerID i =
     andThen (wrapErr ''get workspace'' (GetWorkspaceByUser (ns_Workspaces s) callerID)) (\<lambda>ws.
     MarkRead_port (ns_Notifications s) (ws_Slug ws) i)"

definition MarkAllRead :: "'w NotificationService \<Rightarrow> string \<Rightarrow> ('w, unit) io" where
  "MarkAllRead s callerID =
     andThen (wrapErr ''get workspace'' (GetWorkspaceByUser (ns_Workspaces s) callerID)) (\<lambda>ws.
     MarkAllRead_port (ns_Notifications s) (ws_Slug ws))"

definition Subscribe :: "'w NotificationService \<Rightarrow> string \<Rightarrow> ('w, string \<times> nat) io" where
  "Subscribe s callerID =
     andThen (wrapErr ''get workspace'' (GetWorkspaceByUser (ns_Workspaces s) callerID)) (\<lambda>ws.
     case ns_Broker s of
       None \<Rightarrow> fail (ErrNew ''broker not configured'')
     | Some c \<Rightarrow> (\<lambda>w. case Subscribe_broker (bk_get c w) (ws_Slug ws) of (i, b) \<Rightarrow> ret (ws_Slug ws, i) (bk_put c b w)))"

definition Notify_service :: "'w NotificationService \<Rightarrow> Notification \<Rightarrow> ('w, unit) io" where
  "Notify_service s n =
     (let n1 = (if n_Type n = [] then n\<lparr>n_Type := ''info''\<rparr> else n) in
      andThen (wrapErr ''create notification'' (CreateNotification (ns_Notifications s) n1)) (\<lambda>n2.
      case ns_Publisher s of
        Some publish \<Rightarrow>
          attempt (publish n2) (\<lambda>r.
          case r of
            Inl e \<Rightarrow> andThen (broadcastLocal s n2) (\<lambda>_. fail (Errorf ''publish notification'' e))
          | Inr _ \<Rightarrow> ret ())
      | None \<Rightarrow> broadcastLocal s n2))"

text \<open>One turn of \<^verbatim>\<open>NotificationListener.listen\<close>: the oldest frame of the channel; one that does not parse is skipped.\<close>

definition listenOnce :: "TimeText \<Rightarrow> 'a pgdb_scheme brokerCell \<Rightarrow> ('a pgdb_scheme, unit) io" where
  "listenOnce tt c w =
     (case db_channel w of
        [] \<Rightarrow> (Inr (), w)
      | payload # rest \<Rightarrow>
          (let w1 = w\<lparr>db_channel := rest\<rparr> in
           case Unmarshal (d_payload tt) zeroPayload payload of
             None \<Rightarrow> (Inr (), w1)
           | Some n \<Rightarrow> onBroker c (Broadcast n) w1))"

subsection \<open>The frame fits and reads back\<close>

lemma quote_char_len: "1 \<le> length (quote_char c)"
  by (simp add: quote_char_def)

lemma quote_len: "length s \<le> length (quote s)"
proof (induction s rule: quote.induct, goal_cases)
  case (2 a b c r)
  then show ?case using quote_char_len [of a] by (auto simp: quote.simps split: if_splits)
next
  case (3 a)
  then show ?case using quote_char_len [of a] by (simp add: quote.simps)
next
  case (4 a v)
  then show ?case using quote_char_len [of a] quote_char_len [of v] by (simp add: quote.simps)
qed (simp add: quote.simps)

text \<open>Quoting is piecewise at the start of a rune.\<close>

lemma quote_append: "t = [] \<or> utf8RuneStart (hd t) \<Longrightarrow> quote (s @ t) = quote s @ quote t"
proof (induction s rule: quote.induct, goal_cases)
  case (2 a b c r)
  then show ?case by (auto simp: quote.simps split: if_splits)
next
  case (3 a)
  then show ?case by (cases t; cases "tl t") (auto simp: quote.simps utf8RuneStart_def of_char_def)
next
  case (4 a v)
  then show ?case by (cases t) (auto simp: quote.simps utf8RuneStart_def of_char_def)
qed (simp add: quote.simps)

lemma backToRuneStart_le: "backToRuneStart body k \<le> k"
  by (induction body k rule: backToRuneStart.induct) auto

lemma backToRuneStart_at: "backToRuneStart body k = 0 \<or> utf8RuneStart (body ! backToRuneStart body k)"
  by (induction body k rule: backToRuneStart.induct) auto

lemma ellipsis_start: "utf8RuneStart (hd frameEllipsis)" "length (quote frameEllipsis) = 3" "length frameEllipsis = 3" "frameEllipsis \<noteq> []"
  by code_simp+

lemma trimBody_quote:
  assumes "overflow < length body"
  shows "length (quote (trimBody body overflow)) + overflow \<le> length (quote body) + 3"
proof -
  let ?k = "backToRuneStart body (length body - overflow)"
  have k: "?k + overflow \<le> length body" "?k \<le> length body" using backToRuneStart_le [of body "length body - overflow"] assms by linarith+
  have "quote body = quote (take ?k body) @ quote (drop ?k body)"
  proof (cases "?k = 0")
    case False
    then have "utf8RuneStart (body ! ?k)" using backToRuneStart_at by metis
    moreover have "drop ?k body \<noteq> [] \<Longrightarrow> hd (drop ?k body) = body ! ?k" by (simp add: hd_drop_conv_nth)
    ultimately show ?thesis using quote_append [of "drop ?k body" "take ?k body"] by (cases "drop ?k body = []") auto
  qed (simp add: quote.simps)
  moreover have "length body - ?k \<le> length (quote (drop ?k body))" using quote_len [of "drop ?k body"] by simp
  moreover have "quote (trimBody body overflow) = quote (take ?k body) @ quote frameEllipsis"
    using assms ellipsis_start by (simp add: trimBody_def quote_append)
  ultimately show ?thesis using k ellipsis_start(2) by simp
qed

lemma payload_len:
  "length (Marshal (enc_payload tt (n\<lparr>n_Body := b\<rparr>))) = length (Marshal (enc_payload tt (n\<lparr>n_Body := []\<rparr>))) + length (quote b)"
  by (simp add: Marshal_def enc_payload_def jobj_def jstr_def quote.simps(1))

lemma payload_json_ok: "json_ok (enc_payload tt n)"
  by (simp add: enc_payload_def)

definition payload_keys :: "string list" where
  "payload_keys = [''id'', ''customer_slug'', ''type'', ''title'', ''body'', ''link'', ''read'', ''created_at'']"

lemma payload_keys_differ: "a \<in> set payload_keys \<Longrightarrow> b \<in> set payload_keys \<Longrightarrow> EqualFold a b \<longleftrightarrow> a = b"
proof -
  have "list_all (\<lambda>a. list_all (\<lambda>b. EqualFold a b \<longleftrightarrow> a = b) payload_keys) payload_keys" by code_simp
  then show "a \<in> set payload_keys \<Longrightarrow> b \<in> set payload_keys \<Longrightarrow> EqualFold a b \<longleftrightarrow> a = b" by (simp add: list_all_iff)
qed

lemma payload_reads:
  assumes "\<forall>t. tt_unmarshal tt (tt_marshal tt t) = Some t"
  shows "Unmarshal (d_payload tt) z (Marshal (enc_payload tt n)) = Some n"
proof -
  have time: "d_time tt (jstr (tt_marshal tt t)) cur = Some t" for t cur using assms by (simp add: d_time_def jstr_def)
  show ?thesis
    by (subst Unmarshal_Marshal [OF payload_json_ok])
      (simp add: enc_payload_def d_payload_def payload_keys_differ payload_keys_def time d_bool_def)
qed


definition plainTime :: TimeText where
  "plainTime = \<lparr>tt_marshal = (\<lambda>t. (if t < 0 then CHR ''-'' else CHR ''+'') # replicate (nat \<bar>t\<bar>) (CHR ''1'')),
     tt_unmarshal = (\<lambda>s. Some ((if hd s = CHR ''-'' then - 1 else 1) * int (length (tl s))))\<rparr>"

definition longNotification :: Notification where
  "longNotification = \<lparr>n_CustomerSlug = ''acme'', n_Type = ''info'', n_Title = ''t'', n_Body = replicate 7000 (CHR ''x''), n_Link = [], n_ID = ''n1'',
     n_Read = False, n_CreatedAt = 3\<rparr>"


subsection \<open>The broker never panics and keeps the order\<close>

text \<open>
  A registered subscriber is registered once, for one tenant, and its channel is open and within its capacity.
\<close>

definition broker_ok :: "NotificationBroker \<Rightarrow> bool" where
  "broker_ok b \<longleftrightarrow>
     (\<forall>c. distinct (subs_of b c)) \<and> (\<forall>c i. i \<in> set (subs_of b c) \<longrightarrow> i < nb_next b \<and> i \<notin> set (nb_closed b)) \<and>
     (\<forall>c d i. i \<in> set (subs_of b c) \<longrightarrow> i \<in> set (subs_of b d) \<longrightarrow> c = d) \<and>
     (\<forall>i. length (queue_of b i) \<le> channelCapacity) \<and> (\<forall>i. nb_next b \<le> i \<longrightarrow> queue_of b i = []) \<and>
     (\<forall>i \<in> set (nb_closed b). i < nb_next b)"

lemma broker_sel [simp]:
  "subs_of (b\<lparr>nb_queue := q\<rparr>) c = subs_of b c" "subs_of (b\<lparr>nb_closed := x\<rparr>) c = subs_of b c" "subs_of (b\<lparr>nb_next := y\<rparr>) c = subs_of b c"
  "queue_of (b\<lparr>nb_subs := t\<rparr>) i = queue_of b i" "queue_of (b\<lparr>nb_closed := x\<rparr>) i = queue_of b i" "queue_of (b\<lparr>nb_next := y\<rparr>) i = queue_of b i"
  "subs_of (b\<lparr>nb_subs := AList.update d xs (nb_subs b)\<rparr>) c = (if c = d then xs else subs_of b c)"
  "subs_of (b\<lparr>nb_subs := AList.delete d (nb_subs b)\<rparr>) c = (if c = d then [] else subs_of b c)"
  "queue_of (b\<lparr>nb_queue := AList.update j q' (nb_queue b)\<rparr>) i = (if i = j then q' else queue_of b i)"
  by (simp_all add: subs_of_def queue_of_def update_conv' delete_conv')

lemma broker_new: "broker_ok NewNotificationBroker"
  by (simp add: broker_ok_def NewNotificationBroker_def subs_of_def queue_of_def)

lemma broker_okI:
  assumes "\<And>c. distinct (subs_of b c)" "\<And>c i. i \<in> set (subs_of b c) \<Longrightarrow> i < nb_next b" "\<And>c i. i \<in> set (subs_of b c) \<Longrightarrow> i \<notin> set (nb_closed b)"
    "\<And>c d i. i \<in> set (subs_of b c) \<Longrightarrow> i \<in> set (subs_of b d) \<Longrightarrow> c = d" "\<And>i. length (queue_of b i) \<le> channelCapacity"
    "\<And>i. nb_next b \<le> i \<Longrightarrow> queue_of b i = []" "\<And>i. i \<in> set (nb_closed b) \<Longrightarrow> i < nb_next b"
  shows "broker_ok b"
  using assms unfolding broker_ok_def by blast

lemma broker_okD:
  assumes "broker_ok b"
  shows "distinct (subs_of b c)" "i \<in> set (subs_of b c) \<Longrightarrow> i < nb_next b" "i \<in> set (subs_of b c) \<Longrightarrow> i \<notin> set (nb_closed b)"
    "i \<in> set (subs_of b c) \<Longrightarrow> i \<in> set (subs_of b d) \<Longrightarrow> c = d" "length (queue_of b i) \<le> channelCapacity"
    "nb_next b \<le> i \<Longrightarrow> queue_of b i = []" "i \<in> set (nb_closed b) \<Longrightarrow> i < nb_next b"
  using assms unfolding broker_ok_def by blast+

lemma Subscribe_eqs:
  assumes "Subscribe_broker b c = (i, b')"
  shows "i = nb_next b" "nb_next b' = Suc i" "nb_closed b' = nb_closed b" "queue_of b' j = (if j = i then [] else queue_of b j)"
    "subs_of b' d = (if d = c then subs_of b c @ [i] else subs_of b d)"
  using assms by (auto simp: Subscribe_broker_def Let_def subs_of_def queue_of_def update_conv')

lemma Subscribe_ok:
  assumes "broker_ok b" "Subscribe_broker b c = (i, b')"
  shows "broker_ok b'"
proof -
  note e = Subscribe_eqs [OF assms(2)] and ok = broker_okD [OF assms(1)]
  have new: "i \<notin> set (subs_of b d)" for d using ok(2) [of i d] e(1) by auto
  show ?thesis
  proof (rule broker_okI)
    fix d j k assume "j \<in> set (subs_of b' d)" "j \<in> set (subs_of b' k)"
    then show "d = k" using new ok(4) by (auto simp: e(5) split: if_splits)
  next
    fix d j assume "j \<in> set (subs_of b' d)"
    then show "j \<notin> set (nb_closed b')" using ok(3,7) e(1) by (auto simp: e(3,5) split: if_splits)
  next
    fix d j assume "j \<in> set (subs_of b' d)"
    then show "j < nb_next b'" using ok(2) e(1) by (auto simp: e(2,5) less_Suc_eq split: if_splits)
  next
    fix j assume "j \<in> set (nb_closed b')"
    then show "j < nb_next b'" using ok(7) e(1) by (simp add: e(2,3) less_Suc_eq)
  qed (use ok new e(1) in \<open>auto simp: e(2,4,5)\<close>)
qed

lemma cancel_eqs:
  assumes "broker_ok b"
  obtains b' where "cancel c i b = Inr b'" "nb_next b' = nb_next b" "\<And>j. queue_of b' j = queue_of b j"
    "\<And>d. subs_of b' d = (if d = c then filter (\<lambda>j. j \<noteq> i) (subs_of b c) else subs_of b d)"
    "set (nb_closed b') = set (nb_closed b) \<union> ({i} \<inter> set (subs_of b c))"
proof (cases "map_of (nb_subs b) c")
  case None
  then show ?thesis by (intro that [of b]) (simp_all add: cancel_def subs_of_def)
next
  case (Some xs)
  then have xs: "subs_of b c = xs" by (simp add: subs_of_def)
  let ?xs = "filter (\<lambda>j. j \<noteq> i) xs"
  show ?thesis
  proof (cases "i \<in> set xs")
    case True
    then have open': "i \<notin> set (nb_closed b)" using broker_okD(3) [OF assms] xs by blast
    then show ?thesis using True Some xs
      by (intro that [of "case cancel c i b of Inr b' \<Rightarrow> b'"])
        (auto simp: cancel_def Let_def close_channel_def subs_of_def queue_of_def update_conv' delete_conv')
  next
    case False
    then have "?xs = xs" by (auto intro: filter_True)
    then show ?thesis using False Some xs
      by (intro that [of "case cancel c i b of Inr b' \<Rightarrow> b'"]) (auto simp: cancel_def Let_def subs_of_def queue_of_def delete_conv')
  qed
qed

lemma cancel_ok:
  assumes "broker_ok b"
  obtains b' where "cancel c i b = Inr b'" "broker_ok b'" "\<And>j. queue_of b' j = queue_of b j" "nb_next b' = nb_next b"
    "\<And>d. set (subs_of b' d) \<subseteq> set (subs_of b d)"
proof -
  note ok = broker_okD [OF assms]
  obtain b' where b': "cancel c i b = Inr b'" and e: "nb_next b' = nb_next b" "\<And>j. queue_of b' j = queue_of b j"
    "\<And>d. subs_of b' d = (if d = c then filter (\<lambda>j. j \<noteq> i) (subs_of b c) else subs_of b d)"
    "set (nb_closed b') = set (nb_closed b) \<union> ({i} \<inter> set (subs_of b c))" by (rule cancel_eqs [OF assms, of c i]) blast
  have "broker_ok b'"
  proof (rule broker_okI)
    fix d j assume "j \<in> set (subs_of b' d)"
    then show "j \<notin> set (nb_closed b')" using ok(3) ok(4) by (auto simp: e(3,4) split: if_splits)
  next
    fix j assume "j \<in> set (nb_closed b')"
    then show "j < nb_next b'" using ok(2,7) by (auto simp: e(1,4))
  next
    fix d j k assume "j \<in> set (subs_of b' d)" "j \<in> set (subs_of b' k)"
    then show "d = k" using ok(4) by (auto simp: e(3) split: if_splits)
  next
    fix d j assume "j \<in> set (subs_of b' d)"
    then show "j < nb_next b'" using ok(2) by (auto simp: e(1,3) split: if_splits)
  qed (use ok(1,5,6) in \<open>simp_all add: e(1-3)\<close>)
  then show ?thesis by (rule that [OF b']) (auto simp: e(1-3))
qed

lemma offer_ok:
  assumes "broker_ok b" "i < nb_next b" "i \<notin> set (nb_closed b)"
  obtains b' where "offer n i b = Inr b'" "broker_ok b'" "subs_of b' = subs_of b" "nb_closed b' = nb_closed b" "nb_next b' = nb_next b"
    "\<And>j. queue_of b' j = (if j = i \<and> length (queue_of b i) < channelCapacity then queue_of b i @ [n] else queue_of b j)"
proof (cases "length (queue_of b i) < channelCapacity")
  case True
  let ?b = "b\<lparr>nb_queue := AList.update i (queue_of b i @ [n]) (nb_queue b)\<rparr>"
  have "broker_ok ?b" using assms True by (intro broker_okI) (auto simp: less_eq_Suc_le dest: broker_okD)
  then show ?thesis using True assms(3) by (intro that [of ?b]) (auto simp: offer_def)
next
  case False
  then show ?thesis using assms by (intro that [of b]) (auto simp: offer_def)
qed

lemma offer_all_ok:
  assumes "broker_ok b" "\<forall>i \<in> set is. i < nb_next b \<and> i \<notin> set (nb_closed b)" "distinct is"
  shows "\<exists>b'. offer_all n is b = Inr b' \<and> broker_ok b' \<and> subs_of b' = subs_of b \<and> nb_closed b' = nb_closed b \<and> nb_next b' = nb_next b \<and>
    (\<forall>j. queue_of b' j = (if j \<in> set is \<and> length (queue_of b j) < channelCapacity then queue_of b j @ [n] else queue_of b j))"
  using assms
proof (induction "is" arbitrary: b)
  case Nil
  then show ?case by simp
next
  case (Cons i "is")
  then obtain b1 where b1: "offer n i b = Inr b1" "broker_ok b1" "subs_of b1 = subs_of b" "nb_closed b1 = nb_closed b" "nb_next b1 = nb_next b"
    "\<And>j. queue_of b1 j = (if j = i \<and> length (queue_of b i) < channelCapacity then queue_of b i @ [n] else queue_of b j)"
    by (auto elim: offer_ok [of b i n])
  have "\<exists>b'. offer_all n is b1 = Inr b' \<and> broker_ok b' \<and> subs_of b' = subs_of b1 \<and> nb_closed b' = nb_closed b1 \<and> nb_next b' = nb_next b1 \<and>
    (\<forall>j. queue_of b' j = (if j \<in> set is \<and> length (queue_of b1 j) < channelCapacity then queue_of b1 j @ [n] else queue_of b1 j))"
    by (rule Cons.IH) (use b1 Cons.prems in auto)
  then show ?case using b1 Cons.prems(3) by auto
qed

lemma Broadcast_ok:
  assumes "broker_ok b"
  obtains b' where "Broadcast n b = Inr b'" "broker_ok b'" "subs_of b' = subs_of b" "nb_next b' = nb_next b"
    "\<And>j. queue_of b' j = (if j \<in> set (subs_of b (n_CustomerSlug n)) \<and> length (queue_of b j) < channelCapacity then queue_of b j @ [n] else queue_of b j)"
  using offer_all_ok [OF assms, of "subs_of b (n_CustomerSlug n)" n] broker_okD(1-3) [OF assms]
  by (auto simp: Broadcast_def)

lemma receive_ok:
  assumes "broker_ok b" "receive i b = (x, b')"
  shows "broker_ok b'" "subs_of b' = subs_of b" "nb_next b' = nb_next b"
    "queue_of b j = (if j = i then (case x of Frame n \<Rightarrow> [n] | _ \<Rightarrow> []) else []) @ queue_of b' j"
proof -
  note ok = broker_okD [OF assms(1)]
  show "broker_ok b'"
  proof (cases "queue_of b i")
    case Nil
    then show ?thesis using assms by (auto simp: receive_def)
  next
    case (Cons n q)
    then have b': "b' = b\<lparr>nb_queue := AList.update i q (nb_queue b)\<rparr>" using assms(2) by (simp add: receive_def)
    have q: "length q \<le> channelCapacity" "\<not> nb_next b \<le> i" using ok(5) [of i] ok(6) [of i] Cons by auto
    show ?thesis unfolding b' by (rule broker_okI) (use ok q in auto)
  qed
qed (use assms in \<open>auto simp: receive_def split: list.splits if_splits\<close>)

text \<open>
  Any interleaving of subscriptions, cancels, broadcasts and receives, with the frames delivered and to whom.
\<close>

datatype broker_op = Sub string | Unsub string nat | Send Notification | Recv nat

fun play :: "broker_op list \<Rightarrow> NotificationBroker \<Rightarrow> err + (nat \<times> Notification) list \<times> NotificationBroker" where
  "play [] b = Inr ([], b)"
| "play (Sub c # ops) b = play ops (snd (Subscribe_broker b c))"
| "play (Unsub c i # ops) b = (case cancel c i b of Inl e \<Rightarrow> Inl e | Inr b' \<Rightarrow> play ops b')"
| "play (Send n # ops) b = (case Broadcast n b of Inl e \<Rightarrow> Inl e | Inr b' \<Rightarrow> play ops b')"
| "play (Recv i # ops) b =
     (case receive i b of (x, b') \<Rightarrow>
        map_sum id (apfst ((@) (case x of Frame n \<Rightarrow> [(i, n)] | _ \<Rightarrow> []))) (play ops b'))"

definition got :: "nat \<Rightarrow> (nat \<times> Notification) list \<Rightarrow> Notification list" where
  "got i log = map snd (filter (\<lambda>(j, _). j = i) log)"

fun sends :: "string \<Rightarrow> broker_op list \<Rightarrow> Notification list" where
  "sends c [] = []"
| "sends c (Send n # ops) = (if n_CustomerSlug n = c then n # sends c ops else sends c ops)"
| "sends c (_ # ops) = sends c ops"

lemma play_ok: "broker_ok b \<Longrightarrow> \<exists>log b'. play ops b = Inr (log, b') \<and> broker_ok b'"
proof (induction ops arbitrary: b)
  case (Cons op ops)
  show ?case
  proof (cases op)
    case (Sub c)
    obtain i b1 where b1: "Subscribe_broker b c = (i, b1)" by fastforce
    from Cons.IH [OF Subscribe_ok [OF Cons.prems b1]] show ?thesis using Sub b1 by simp
  next
    case (Unsub c i)
    obtain b1 where "cancel c i b = Inr b1" "broker_ok b1" using cancel_ok [OF Cons.prems] by metis
    with Cons.IH show ?thesis using Unsub by simp
  next
    case (Send n)
    obtain b1 where "Broadcast n b = Inr b1" "broker_ok b1" using Broadcast_ok [OF Cons.prems] by metis
    with Cons.IH show ?thesis using Send by simp
  next
    case (Recv i)
    obtain x b1 where b1: "receive i b = (x, b1)" by fastforce
    from Cons.IH [OF receive_ok(1) [OF Cons.prems b1]] show ?thesis using Recv b1 by auto
  qed
qed simp

lemma got_append [simp]: "got i (xs @ ys) = got i xs @ got i ys" "got i [] = []" "got i [(j, n)] = (if j = i then [n] else [])"
  by (simp_all add: got_def)

text \<open>A subscriber of one tenant: what it reads and what waits are broadcasts of that tenant, in order.\<close>

lemma play_order:
  assumes "broker_ok b" "i < nb_next b" "\<And>d. d \<noteq> c \<Longrightarrow> i \<notin> set (subs_of b d)" "play ops b = Inr (log, b')"
  shows "subseq (got i log @ queue_of b' i) (queue_of b i @ sends c ops)"
  using assms
proof (induction ops arbitrary: b log)
  case (Cons op ops)
  show ?case
  proof (cases op)
    case (Sub d)
    obtain j b1 where b1: "Subscribe_broker b d = (j, b1)" by fastforce
    note e = Subscribe_eqs [OF b1]
    have "subseq (got i log @ queue_of b' i) (queue_of b1 i @ sends c ops)"
      by (rule Cons.IH [OF Subscribe_ok [OF Cons.prems(1) b1]]) (use Cons.prems b1 Sub e in auto)
    then show ?thesis using Sub e Cons.prems(2) by simp
  next
    case (Unsub d j)
    obtain b1 where b1: "cancel d j b = Inr b1" "broker_ok b1" "\<And>j. queue_of b1 j = queue_of b j" "nb_next b1 = nb_next b"
      "\<And>d. set (subs_of b1 d) \<subseteq> set (subs_of b d)" by (rule cancel_ok [OF Cons.prems(1), of d j]) blast
    have "subseq (got i log @ queue_of b' i) (queue_of b1 i @ sends c ops)"
      by (rule Cons.IH [OF b1(2)]) (use Cons.prems b1 Unsub in \<open>auto dest: subsetD [OF b1(5)]\<close>)
    then show ?thesis using Unsub b1(3) by simp
  next
    case (Send n)
    obtain b1 where b1: "Broadcast n b = Inr b1" "broker_ok b1" "subs_of b1 = subs_of b" "nb_next b1 = nb_next b"
      "\<And>j. queue_of b1 j = (if j \<in> set (subs_of b (n_CustomerSlug n)) \<and> length (queue_of b j) < channelCapacity then queue_of b j @ [n] else queue_of b j)"
      by (rule Broadcast_ok [OF Cons.prems(1), of n]) blast
    have ih: "subseq (got i log @ queue_of b' i) (queue_of b1 i @ sends c ops)"
      by (rule Cons.IH [OF b1(2)]) (use Cons.prems b1 Send in auto)
    moreover have "subseq (queue_of b1 i @ sends c ops) (queue_of b i @ sends c (op # ops))"
      using Cons.prems(3) [of "n_CustomerSlug n"] by (auto simp: b1(5) Send simp del: subseq_append' intro!: list_emb_append_mono)
    ultimately show ?thesis by (rule subseq_order.order_trans)
  next
    case (Recv j)
    obtain x b1 where b1: "receive j b = (x, b1)" by fastforce
    note e = receive_ok [OF Cons.prems(1) b1]
    let ?x = "case x of Frame n \<Rightarrow> [(j, n)] | _ \<Rightarrow> []"
    obtain log1 where log: "play ops b1 = Inr (log1, b')" "log = ?x @ log1"
      using Cons.prems(4) Recv b1 by (cases "play ops b1") auto
    have "subseq (got i log1 @ queue_of b' i) (queue_of b1 i @ sends c ops)"
      by (rule Cons.IH [OF e(1)]) (use Cons.prems e log(1) in auto)
    then have "subseq (got i ?x @ got i log1 @ queue_of b' i) (got i ?x @ queue_of b1 i @ sends c ops)"
      by (rule list_emb_append_mono [OF subseq_order.order_refl])
    moreover have "queue_of b i = got i ?x @ queue_of b1 i" using e(4) [of i] by (cases x) auto
    ultimately show ?thesis using log(2) Recv by simp
  qed
qed simp

text \<open>
  C23. Whatever the order of subscriptions, cancels (a second cancel of the same stream included), broadcasts and reads, a
  broker never sends to a closed channel and never closes one twice, and no channel ever holds more than sixteen
  frames.
\<close>

theorem broker_never_panics:
  "\<exists>log b. play ops NewNotificationBroker = Inr (log, b) \<and> (\<forall>i. length (queue_of b i) \<le> channelCapacity)"
  using play_ok [OF broker_new, of ops] broker_okD(5) by blast

text \<open>
  C24. A stream opened for a tenant is given broadcasts of that tenant only, those made after it was opened, each at most
  once and in the order they were made. What a slow stream misses is skipped, nothing is reordered and nothing of
  another tenant comes in between.
\<close>

theorem stream_order:
  assumes "play before NewNotificationBroker = Inr (log0, b0)" "Subscribe_broker b0 c = (i, b1)" "play after b1 = Inr (log, b)"
  shows "subseq (got i log @ queue_of b i) (sends c after)"
proof -
  have ok: "broker_ok b0" using play_ok [OF broker_new, of before] assms(1) by auto
  note e = Subscribe_eqs [OF assms(2)]
  have "subseq (got i log @ queue_of b i) (queue_of b1 i @ sends c after)"
    by (rule play_order [OF Subscribe_ok [OF ok assms(2)] _ _ assms(3)]) (use e broker_okD(2) [OF ok, of i] in auto)
  then show ?thesis using e(4) [of i] by simp
qed

definition frameNo :: "nat \<Rightarrow> Notification" where
  "frameNo k = \<lparr>n_CustomerSlug = ''acme'', n_Type = ''info'', n_Title = ''t'', n_Body = [], n_Link = [], n_ID = itoa k, n_Read = False, n_CreatedAt = 0\<rparr>"

definition streamOps :: "broker_op list" where
  "streamOps = map (\<lambda>k. Send (frameNo k)) [0..<18] @ [Recv 0, Recv 0, Send (frameNo 18), Unsub ''acme'' 0, Unsub ''acme'' 0, Recv 0]"

theorem stream_order_witness:
  "\<exists>log b. play streamOps (snd (Subscribe_broker NewNotificationBroker ''acme'')) = Inr (log, b) \<and>
     got 0 log = map frameNo [0, 1, 2] \<and> queue_of b 0 = map frameNo ([3..<16] @ [18]) \<and>
     subseq (got 0 log @ queue_of b 0) (sends ''acme'' streamOps)"
proof -
  let ?b1 = "snd (Subscribe_broker NewNotificationBroker ''acme'')"
  have sub: "Subscribe_broker NewNotificationBroker ''acme'' = (0, ?b1)" by (simp add: Subscribe_broker_def NewNotificationBroker_def)
  obtain log b where run: "play streamOps ?b1 = Inr (log, b)"
    using play_ok [OF Subscribe_ok [OF broker_new sub], of streamOps] by blast
  have "(case play streamOps ?b1 of Inl _ \<Rightarrow> False | Inr (log, b) \<Rightarrow>
      got 0 log = map frameNo [0, 1, 2] \<and> queue_of b 0 = map frameNo ([3..<16] @ [18]))" by code_simp
  moreover have "subseq (got 0 log @ queue_of b 0) (sends ''acme'' streamOps)"
    by (rule stream_order [of "[]" "[]" NewNotificationBroker, OF _ sub run]) simp
  ultimately show ?thesis using run by auto
qed

subsection \<open>The rows of a tenant\<close>

lemma notifications_quiet [quiet_rules]:
  "quiet (CreateNotification_pg r n)" "quiet (ListNotifications_pg r c k)" "quiet (UnreadCount_pg r c)" "quiet (MarkRead_pg r c i)"
  "quiet (MarkAllRead_pg r c)" "quiet (PublishNotification tt r n)"
  unfolding CreateNotification_pg_def insert_notification_def ListNotifications_pg_def UnreadCount_pg_def MarkRead_pg_def MarkAllRead_pg_def
    update_read_def PublishNotification_def Let_def
  by (intro quiet_rules quiet_sql; auto simp: pg_ok_def split: if_splits)+

text \<open>What the statements, the publisher and the broker keep, raising a notification keeps.\<close>

lemma Notify_service_safe:
  assumes "\<And>m. keeps I (CreateNotification (ns_Notifications s) m)" "\<And>p m. ns_Publisher s = Some p \<Longrightarrow> keeps I (p m)"
    "\<And>c f. ns_Broker s = Some c \<Longrightarrow> keeps I (onBroker c f)"
  shows "keeps I (Notify_service s n)"
proof -
  have local: "keeps I (broadcastLocal s m)" for m
    by (cases "ns_Broker s") (auto simp: broadcastLocal_def intro!: safe_ret assms(3))
  show ?thesis
  proof (cases "ns_Publisher s")
    case None
    then show ?thesis unfolding Notify_service_def Let_def by (simp add: safe_andThen [OF safe_wrapErr [OF assms(1)] local])
  next
    case (Some p)
    have "keeps I (attempt (p m) (\<lambda>r. case r of Inl e \<Rightarrow> andThen (broadcastLocal s m) (\<lambda>_. fail (Errorf ''publish notification'' e)) | Inr _ \<Rightarrow> ret ()))" for m
      by (rule safe_attempt [OF assms(2) [OF Some]]) (simp_all add: safe_andThen [OF local] safe_fail safe_ret)
    then show ?thesis unfolding Notify_service_def Let_def Some option.case by (rule safe_andThen [OF safe_wrapErr [OF assms(1)]])
  qed
qed

end
