(* ===== verification/Box.thy ===== *)
theory Box
  imports TransformationLaws TransformationMirror Static BoxRepo SourceTests Notifications
begin

section \<open>A box: the services wired as \<^verbatim>\<open>cmd/workspace_api/main.go\<close> wires them\<close>

text \<open>
  The world of a box is its database, extended by the clock, the in-memory tables of the mirrors and
  \<open>bx_ext\<close>, the state of everything outside the process: the git host, the object store, the alert
  channel. The broker of live notifications is \<open>bx_broker\<close>. What main.go reads from the environment is \<open>boxConfig\<close>. A port of
  an outside service is lifted over \<open>bx_ext\<close>, so it cannot reach the database; every store port is the
  PostgreSQL repository.
\<close>

record 'e box = pgdb +
  bx_ext :: 'e
  bx_clock :: int
  bx_staleOAuth :: "(string \<times> string) list"
  bx_importSkips :: "(string \<times> string) list"
  bx_timportSkips :: "(string \<times> string) list"
  bx_broker :: NotificationBroker

definition onExt :: "('e, 'a) io \<Rightarrow> ('e box, 'a) io" where
  "onExt m w = (case m (bx_ext w) of (r, e) \<Rightarrow> (r, w\<lparr>bx_ext := e\<rparr>))"

record 'e boxConfig =
  bc_Workspace :: Workspace
  bc_Credentials :: StaticBoxCredentials
  bc_Repository :: Repository
  bc_NewClient :: "string \<Rightarrow> string \<Rightarrow> string \<Rightarrow> 'e RepoFileClient"
  bc_NewMirrorClient :: "string \<Rightarrow> string \<Rightarrow> string \<Rightarrow> 'e RepoMirrorClient"
  bc_ParseURL :: "string \<Rightarrow> URL option"
  bc_TimeText :: TimeText
  bc_Alerts :: "'e PipelineAlerter option"
  bc_Users :: "string \<Rightarrow> ('e, UserInfo) io"
  bc_Store :: "'e ObjectStore"
  bc_Fingerprint :: "string list \<Rightarrow> string"
  bc_encryptAge :: "string \<Rightarrow> string \<Rightarrow> ('e, string) io"
  bc_YAML :: YAML
  bc_TransformationYAML :: TransformationYAML
  bc_uuidValidate :: "string \<Rightarrow> bool"
  bc_newID :: "('e, string) io"
  bc_ImportFromRepo :: bool
  bc_StripPollCredentials :: bool
  bc_MaxBytes :: int
  bc_StuckTimeout :: int

definition liftClient :: "'e RepoFileClient \<Rightarrow> 'e box RepoFileClient" where
  "liftClient c = \<lparr>ListTree = (\<lambda>r. onExt (ListTree c r)), GetContents = (\<lambda>r f. onExt (GetContents c r f)),
     GetContentsAt = (\<lambda>r f s. onExt (GetContentsAt c r f s)), ListCommits = (\<lambda>r f n. onExt (ListCommits c r f n)),
     PutContents = (\<lambda>r f t s m a. onExt (PutContents c r f t s m a)),
     DeleteContents = (\<lambda>r f s m a. onExt (DeleteContents c r f s m a))\<rparr>"

definition liftMirrorClient :: "'e RepoMirrorClient \<Rightarrow> 'e box RepoMirrorClient" where
  "liftMirrorClient c = \<lparr>ListPushMirrors = (\<lambda>r. onExt (ListPushMirrors c r)),
     AddPushMirror = (\<lambda>r u n p i. onExt (AddPushMirror c r u n p i)), DeletePushMirror_port = (\<lambda>r n. onExt (DeletePushMirror_port c r n)),
     SyncPushMirrors = (\<lambda>r. onExt (SyncPushMirrors c r))\<rparr>"

definition boxBroker :: "'e box brokerCell" where
  "boxBroker = \<lparr>bk_get = bx_broker, bk_put = (\<lambda>b w. w\<lparr>bx_broker := b\<rparr>)\<rparr>"

definition boxNotifications :: "'e boxConfig \<Rightarrow> 'e box NotificationService" where
  "boxNotifications B =
     \<lparr>ns_Workspaces = StaticResolver (bc_Workspace B),
      ns_Notifications = pg_notifications (bc_Repository B),
      ns_Broker = Some boxBroker,
      ns_Publisher = Some (PublishNotification (bc_TimeText B) (bc_Repository B))\<rparr>"

definition boxNotifier :: "'e boxConfig \<Rightarrow> 'e box Notifier" where
  "boxNotifier B = \<lparr>Notify = Notify_service (boxNotifications B)\<rparr>"

definition liftAlerter :: "'e PipelineAlerter \<Rightarrow> 'e box PipelineAlerter" where
  "liftAlerter a = \<lparr>AlertPipelineFailure = (\<lambda>c n m. onExt (AlertPipelineFailure a c n m))\<rparr>"

definition liftStore :: "'e ObjectStore \<Rightarrow> 'e box ObjectStore" where
  "liftStore s = \<lparr>Put = (\<lambda>c k n b. onExt (Put s c k n b)), Delete = (\<lambda>c k. onExt (Delete s c k)), Head = (\<lambda>c k. onExt (Head s c k))\<rparr>"

definition boxMirror :: "'e boxConfig \<Rightarrow> 'e box PipelineMirror" where
  "boxMirror B =
     \<lparr>m_Workspaces = StaticResolver (bc_Workspace B),
      m_Credentials = Some \<lparr>GetBoxGitCredential = GetBoxGitCredential_static (bc_Credentials B)\<rparr>,
      m_Pipelines = pg_repo (bc_Repository B),
      m_AgeKeys = Some \<lparr>GetBoxAgeKey = GetBoxAgeKey_static (bc_Credentials B)\<rparr>,
      m_Renders = Some (pg_credential_renders (bc_Repository B)),
      m_Fingerprint = Some (bc_Fingerprint B),
      m_PipelineCredentials = Some (pg_credential_reader (bc_Repository B)),
      m_DefinitionRenders = Some (pg_definition_renders (bc_Repository B)),
      m_Notifications = Some (boxNotifier B),
      m_Ownership = Some (pg_ownership (bc_Repository B)),
      m_Importer = (if bc_ImportFromRepo B then Some (pg_importer (bc_Repository B)) else None),
      m_OAuthClients = Some (pg_oauth_clients (bc_Repository B)),
      m_Connections = Some (pg_connections (bc_Repository B)),
      m_NewClient = (\<lambda>u n t. liftClient (bc_NewClient B u n t)),
      m_HasLogger = True,
      m_importSkips = \<lparr>cell_get = bx_importSkips, cell_put = (\<lambda>t w. w\<lparr>bx_importSkips := t\<rparr>)\<rparr>,
      m_staleOAuth = \<lparr>cell_get = bx_staleOAuth, cell_put = (\<lambda>t w. w\<lparr>bx_staleOAuth := t\<rparr>)\<rparr>,
      m_encryptAge = (\<lambda>r t. onExt (bc_encryptAge B r t)),
      m_YAML = bc_YAML B,
      m_uuidValidate = bc_uuidValidate B,
      m_Now = bx_clock\<rparr>"

definition boxPipelines :: "'e boxConfig \<Rightarrow> 'e box PipelineService" where
  "boxPipelines B =
     \<lparr>ps_Workspaces = StaticResolver (bc_Workspace B),
      ps_Pipelines = pg_repo (bc_Repository B),
      ps_Notifications = Some (boxNotifier B),
      ps_Alerts = map_option liftAlerter (bc_Alerts B),
      ps_Mirror = Some \<lparr>SyncCustomer_port = SyncCustomer (boxMirror B)\<rparr>,
      ps_Users = Some (\<lambda>u. onExt (bc_Users B u)),
      ps_Versions = Some \<lparr>ListVersions_port = ListVersions (boxMirror B), VersionAt_port = VersionAt (boxMirror B)\<rparr>,
      ps_Ownership = Some (pg_ownership (bc_Repository B)),
      ps_GoogleOAuth = Some (pg_grants (bc_Repository B)),
      ps_OAuthClients = Some (pg_oauth_clients (bc_Repository B)),
      ps_Connections = Some (pg_connections (bc_Repository B)),
      ps_StripPollCredentials = bc_StripPollCredentials B,
      ps_Now = bx_clock\<rparr>"

definition boxTransformationMirror :: "'e boxConfig \<Rightarrow> 'e box TransformationMirror" where
  "boxTransformationMirror B =
     \<lparr>tm_Workspaces = StaticResolver (bc_Workspace B),
      tm_Credentials = Some \<lparr>GetBoxGitCredential = GetBoxGitCredential_static (bc_Credentials B)\<rparr>,
      tm_Transformations = pg_trepo (bc_Repository B),
      tm_Pipelines = GetPipeline_pg (bc_Repository B),
      tm_DefinitionRenders = Some (pg_trenders (bc_Repository B)),
      tm_Notifications = Some (boxNotifier B),
      tm_Importer = (if bc_ImportFromRepo B then Some (pg_timporter (bc_Repository B)) else None),
      tm_NewClient = (\<lambda>u n t. liftClient (bc_NewClient B u n t)),
      tm_HasLogger = True,
      tm_importSkips = \<lparr>cell_get = bx_timportSkips, cell_put = (\<lambda>t w. w\<lparr>bx_timportSkips := t\<rparr>)\<rparr>,
      tm_YAML = bc_TransformationYAML B,
      tm_uuidValidate = bc_uuidValidate B,
      tm_Now = bx_clock\<rparr>"

definition boxTransformations :: "'e boxConfig \<Rightarrow> 'e box TransformationService" where
  "boxTransformations B =
     \<lparr>ts_Workspaces = StaticResolver (bc_Workspace B),
      ts_Transformations = pg_trepo (bc_Repository B),
      ts_Pipelines = GetPipeline_pg (bc_Repository B),
      ts_Notifications = Some (boxNotifier B),
      ts_Mirror = Some \<lparr>SyncCustomer_port = SyncCustomer_t (boxTransformationMirror B)\<rparr>,
      ts_Users = Some (\<lambda>u. onExt (bc_Users B u)),
      ts_Now = bx_clock\<rparr>"

definition boxAdoptSweeper :: "'e boxConfig \<Rightarrow> 'e box AdoptSweeper" where
  "boxAdoptSweeper B = \<lparr>as_Workspaces = ListVMWorkspaceSlugs_static (bc_Workspace B), as_Mirror = Some (boxMirror B),
     as_Transformations = Some (boxTransformationMirror B)\<rparr>"

definition boxFileDrop :: "'e boxConfig \<Rightarrow> 'e box FileDropService" where
  "boxFileDrop B = \<lparr>fd_Workspaces = StaticResolver (bc_Workspace B), fd_Pipelines = pg_repo (bc_Repository B),
     fd_Store = liftStore (bc_Store B), fd_MaxBytes = bc_MaxBytes B, fd_Now = bx_clock\<rparr>"

definition boxRepoEditor :: "'e boxConfig \<Rightarrow> 'e box BoxRepoService" where
  "boxRepoEditor B =
     \<lparr>br_Workspaces = StaticResolver (bc_Workspace B),
      br_Credentials = Some \<lparr>GetBoxGitCredential = GetBoxGitCredential_static (bc_Credentials B)\<rparr>,
      br_Users = Some (\<lambda>u. onExt (bc_Users B u)),
      br_NewClient = (\<lambda>u n t. liftClient (bc_NewClient B u n t)),
      br_NewMirrorClient = (\<lambda>u n t. liftMirrorClient (bc_NewMirrorClient B u n t)),
      br_ParseURL = bc_ParseURL B\<rparr>"

definition boxSourceTests :: "'e boxConfig \<Rightarrow> 'e box SourceTestService" where
  "boxSourceTests B =
     \<lparr>st_Workspaces = StaticResolver (bc_Workspace B),
      st_Tests = pg_source_tests (bc_Repository B),
      st_Pipelines = Some (GetPipeline_pg (bc_Repository B)),
      st_OAuthClients = Some (pg_oauth_clients (bc_Repository B)),
      st_Connections = Some (pg_connections (bc_Repository B)),
      st_newID = onExt (bc_newID B),
      st_Now = bx_clock\<rparr>"

definition boxConnections :: "'e boxConfig \<Rightarrow> 'e box ConnectionService" where
  "boxConnections B = \<lparr>cs_Connections = Some (pg_connections (bc_Repository B)), cs_GoogleOAuth = Some (pg_grants (bc_Repository B)),
     cs_PipelineCredentials = Some (pg_credential_reader (bc_Repository B)), cs_newID = onExt (bc_newID B)\<rparr>"

text \<open>\<^verbatim>\<open>StuckRunSweeper.SweepOnce\<close>, scoped to the box's slug.\<close>

definition DefaultStuckRunTimeout :: int where "DefaultStuckRunTimeout = 3600000000000"

definition sweepTimeout :: "int \<Rightarrow> int" where
  "sweepTimeout t = (if t > 0 then t else DefaultStuckRunTimeout)"

definition SweepOnce :: "'e boxConfig \<Rightarrow> ('e box, unit) io" where
  "SweepOnce B =
     andThen (wrapErr ''fail stuck running runs''
       (FailStuckRunningRuns (bc_Repository B) (ws_Slug (bc_Workspace B)) (sweepTimeout (bc_StuckTimeout B)))) (\<lambda>_. ret ())"

subsection \<open>The wired ports keep the tenancy\<close>

lemma pg_ok_box [simp]:
  "pg_ok (bx_ext_update f w) = pg_ok w" "pg_ok (bx_staleOAuth_update g w) = pg_ok w" "pg_ok (bx_importSkips_update h w) = pg_ok w"
  "pg_ok (bx_timportSkips_update k w) = pg_ok w" "pg_ok (bx_broker_update l w) = pg_ok w"
  by (simp_all add: pg_ok_def)

lemma tplane_box [simp]:
  "tplane (bx_ext_update f w) = tplane w" "tplane (bx_staleOAuth_update g w) = tplane w" "tplane (bx_importSkips_update h w) = tplane w"
  "tplane (bx_timportSkips_update k w) = tplane w" "tplane (bx_clock_update l w) = tplane w" "tplane (bx_broker_update m w) = tplane w"
  by (simp_all add: tplane_def)

lemma onExt_quiet [quiet_rules]: "quiet (onExt m)"
  by (rule quietI) (auto simp: onExt_def split: prod.splits)

lemma static_quiet_io [quiet_rules]:
  "quiet (GetWorkspaceByUser_static ws u)" "quiet (GetWorkspace_static ws c)"
  "quiet (GetBoxGitCredential_static s c)" "quiet (GetBoxAgeKey_static s c)"
  by (rule quietI, auto dest: static_quiet)+

lemma cells_quiet [quiet_rules]:
  "quiet (firstReport (m_staleOAuth (boxMirror B)) f sha)" "quiet (firstReport (m_importSkips (boxMirror B)) f sha)"
  "quiet (firstReport (tm_importSkips (boxTransformationMirror B)) f sha)"
  by (rule quietI, auto simp: firstReport_def boxMirror_def boxTransformationMirror_def Let_def split: if_splits)+

lemma onBroker_quiet [quiet_rules]: "quiet (onBroker boxBroker f)"
  by (rule quietI) (auto simp: onBroker_def boxBroker_def split: sum.splits)

lemma boxNotify_quiet [quiet_rules]: "quiet (Notify_service (boxNotifications B) n)"
  unfolding Notify_service_def broadcastLocal_def boxNotifications_def pg_notifications_def Let_def NotificationService.simps
    NotificationRepository.simps option.case
  by (intro quiet_rules)

lemma static_user_slug: "safe I (GetWorkspaceByUser_static ws u) (\<lambda>v. v = ws)"
  unfolding GetWorkspaceByUser_static_def by (intro safe_rules) simp_all

lemmas box_port_defs = boxMirror_def boxPipelines_def boxFileDrop_def StaticResolver_def pg_repo_def pg_credential_renders_def
  pg_credential_reader_def pg_definition_renders_def pg_ownership_def pg_importer_def pg_oauth_clients_def pg_connections_def
  pg_grants_def boxTransformationMirror_def boxTransformations_def pg_trepo_def pg_trenders_def pg_timporter_def boxNotifier_def liftAlerter_def liftClient_def liftStore_def

text \<open>The pass over the box's workspace, for the rows of the other tenants and for the table up to the ownership mark.\<close>

interpretation tenant_mirror: adopt_ports "boxMirror B" "ws_Slug (bc_Workspace B)" "tenant (ws_Slug (bc_Workspace B)) F G" "- fst ` F" for B F G
proof (unfold_locales, goal_cases)
  case 5
  show ?case by (auto simp: box_port_defs intro!: safe_weaken [OF tenant_reads(2)])
next
  case (11 ow i b)
  then show ?case by (auto simp: box_port_defs intro!: tenant_steady SetExternal_within SetExternal_steady)
next
  case (23 imp p)
  then show ?case by (auto simp: box_port_defs intro!: tenant_steady ImportPipeline_within pipeline_writes_steady split: if_splits)
next
  case (24 p)
  then show ?case by (simp add: box_port_defs tenant_writes)
qed (auto simp: box_port_defs cells_quiet [unfolded boxMirror_def, simplified] intro!: quiet_tenant quiet_rules)

interpretation tenant_tmirror: tmirror_ports "boxTransformationMirror B" "ws_Slug (bc_Workspace B)"
  "tenant (ws_Slug (bc_Workspace B)) F G" "- tr_id ` G" "chainable F" for B F G
proof (unfold_locales, goal_cases)
  case 3
  show ?case using ListTransformations_tenant [of _ F G] by (simp add: box_port_defs)
next
  case (4 t)
  then show ?case by (simp add: box_port_defs UpdateTransformation_tenant)
next
  case (5 i)
  show ?case by (auto simp: box_port_defs chainable_def intro!: safe_weaken [OF tenant_reads(1)])
next
  case 6
  show ?case by (simp add: chainable_def)
next
  case (7 imp t)
  then show ?case by (auto simp: box_port_defs intro!: ImportTransformation_tenant split: if_splits)
next
  case (8 ds dr)
  then show ?case by (auto simp: box_port_defs plane_tenant)
next
  case (10 ds i sha)
  then show ?case by (auto simp: box_port_defs plane_tenant)
qed (auto simp: box_port_defs cells_quiet [unfolded boxTransformationMirror_def, simplified]
    intro!: quiet_tenant quiet_rules)

interpretation row_mirror: mirror_ports "boxMirror B" "ws_Slug (bc_Workspace B)" "same_rows X" UNIV for B X
proof (unfold_locales, goal_cases)
  case 5
  show ?case
  proof (rule safeI, intro conjI)
    fix w x and w' :: "'a box"
    assume "same_rows X w" and l: "repo_ListPipelinesByCustomer (m_Pipelines (boxMirror B)) (ws_Slug (bc_Workspace B)) w = (x, w')"
    moreover from l have lp: "ListPipelinesByCustomer_pg (bc_Repository B) (ws_Slug (bc_Workspace B)) w = (x, w')"
      by (simp add: boxMirror_def pg_repo_def)
    ultimately show "same_rows X w'" using quietD [OF reads_quiet(2) lp] by (simp add: unmarked_def)
    show "\<forall>v. x = Inr v \<longrightarrow> (\<forall>p \<in> set v. p_ID p \<in> UNIV \<and> p_CustomerSlug p = ws_Slug (bc_Workspace B))"
      using lp by (auto dest!: List_Inr)
  qed
next
  case (11 ow i b)
  then show ?case by (auto simp: boxMirror_def pg_ownership_def intro: SetExternal_same_rows)
qed (auto simp: box_port_defs cells_quiet [unfolded boxMirror_def, simplified] intro!: quiet_same_rows quiet_rules)

interpretation tenant_service: service_ports "boxPipelines B" caller "ws_Slug (bc_Workspace B)" "tenant (ws_Slug (bc_Workspace B)) F G" "- fst ` F"
  for B caller F G
proof (unfold_locales, goal_cases)
  case 1
  show ?case by (auto simp: box_port_defs intro: safe_weaken [OF static_user_slug])
next
  case (3 i)
  show ?case using tenant_reads(1) [of _ F G] by (simp add: box_port_defs)
next
  case 4
  show ?case by (auto simp: box_port_defs intro!: safe_weaken [OF tenant_reads(2)])
next
  case (5 p)
  then show ?case using tenant_writes(1) by (simp add: box_port_defs)
next
  case (6 p)
  then show ?case by (simp add: box_port_defs tenant_writes)
next
  case (7 i)
  then show ?case by (simp add: box_port_defs tenant_delete)
next
  case 8
  show ?case by (simp add: box_port_defs tenant_reads)
next
  case (13 mi a)
  then show ?case by (auto simp: boxPipelines_def intro: tenant_mirror.SyncCustomer_safe)
next
  case (15 v i)
  then show ?case by (auto simp: boxPipelines_def intro: tenant_mirror.ListVersions_safe)
next
  case (16 v i sha)
  then show ?case by (auto simp: boxPipelines_def intro: safe_weaken [OF tenant_mirror.VersionAt_safe])
next
  case (17 ow i b)
  then show ?case by (auto simp: box_port_defs intro!: tenant_steady SetExternal_within SetExternal_steady)
qed (auto simp: box_port_defs intro!: quiet_tenant quiet_rules)

interpretation tenant_files: filedrop_ports "boxFileDrop B" caller "ws_Slug (bc_Workspace B)" "tenant (ws_Slug (bc_Workspace B)) F G" "- fst ` F"
  for B caller F G
proof (unfold_locales, goal_cases)
  case 1
  show ?case by (auto simp: box_port_defs intro: safe_weaken [OF static_user_slug])
next
  case (2 i)
  show ?case using tenant_reads(1) [of _ F G] by (simp add: box_port_defs)
next
  case (3 p)
  then show ?case by (simp add: box_port_defs tenant_writes)
qed (auto simp: box_port_defs intro!: quiet_tenant quiet_rules)

interpretation tenant_transformations: transformation_ports "boxTransformations B" caller "ws_Slug (bc_Workspace B)"
  "tenant (ws_Slug (bc_Workspace B)) F G" "- tr_id ` G" "chainable F" for B caller F G
proof (unfold_locales, goal_cases)
  case 1
  show ?case by (auto simp: box_port_defs intro: safe_weaken [OF static_user_slug])
next
  case (2 i)
  show ?case by (auto simp: box_port_defs chainable_def intro!: safe_weaken [OF tenant_reads(1)])
next
  case 3
  show ?case by (simp add: chainable_def)
next
  case (4 i)
  show ?case using GetTransformation_tenant [of _ F G] by (simp add: box_port_defs)
next
  case (6 t)
  then show ?case using CreateTransformation_tenant [of t "ws_Slug (bc_Workspace B)" F G] by (simp add: box_port_defs)
next
  case (7 t)
  then show ?case by (simp add: box_port_defs UpdateTransformation_tenant)
next
  case (8 i)
  then show ?case by (simp add: box_port_defs DeleteTransformation_tenant)
next
  case (10 run)
  show ?case by (simp add: box_port_defs plane_tenant)
next
  case (11 run)
  show ?case by (simp add: box_port_defs plane_tenant)
next
  case (13 mi a)
  then show ?case by (auto simp: boxTransformations_def intro: tenant_tmirror.SyncCustomer_safe)
qed (auto simp: box_port_defs intro!: quiet_tenant quiet_rules)

lemma boxAdoptSweep_safe: "keeps (tenant (ws_Slug (bc_Workspace B)) F G) (sweep (boxAdoptSweeper B))"
  unfolding sweep_def boxAdoptSweeper_def ListVMWorkspaceSlugs_static_def
  by (rule safe_rules tenant_mirror.AdoptCustomer_safe tenant_tmirror.AdoptCustomer_safe TrueI | simp)+

lemma onExt_reliable [reliable_rules]: "keeps (answers J) (onExt m)"
  by (rule safeI) (auto simp: onExt_def answers_def reliable_def split: prod.splits)

lemma boxNotify_reliable [reliable_rules]: "keeps (answers J) (Notify_service (boxNotifications B) n)"
proof (rule Notify_service_safe, goal_cases)
  case (1 m)
  show ?case unfolding boxNotifications_def pg_notifications_def
    by (auto simp: CreateNotification_pg_def insert_notification_def Let_def answers_def reliable_def intro!: safe_wrapErr reliable_sql split: if_splits)
next
  case (2 p m)
  then show ?case by (auto simp: boxNotifications_def PublishNotification_def intro!: safe_wrapErr reliable_sql split: if_splits)
next
  case (3 c f)
  then show ?case
    by (intro safeI) (auto simp: boxNotifications_def onBroker_def boxBroker_def answers_def reliable_def split: sum.splits)
qed

lemma static_reliable [reliable_rules]:
  "keeps (answers J) (GetWorkspace_static ws c)" "keeps (answers J) (GetBoxGitCredential_static s c)" "keeps (answers J) (GetBoxAgeKey_static s c)"
  by (rule safeI, auto dest: static_quiet)+

lemma cells_reliable [reliable_rules]: "keeps (answers J) (firstReport (m_staleOAuth (boxMirror B)) f sha)"
  by (rule safeI) (auto simp: firstReport_def boxMirror_def Let_def answers_def reliable_def split: if_splits)

interpretation link_mirror: mirror_ports "boxMirror B" "ws_Slug (bc_Workspace B)" "answers J" UNIV for B J
proof (unfold_locales, goal_cases)
  case 5
  show ?case
  proof (rule safeI, intro conjI)
    fix w x and w' :: "'a box"
    assume r: "answers J w" and l: "repo_ListPipelinesByCustomer (m_Pipelines (boxMirror B)) (ws_Slug (bc_Workspace B)) w = (x, w')"
    from l have lp: "ListPipelinesByCustomer_pg (bc_Repository B) (ws_Slug (bc_Workspace B)) w = (x, w')"
      by (simp add: boxMirror_def pg_repo_def)
    show "answers J w'" using safeD [OF reliable_reads(2) r lp] .
    show "\<forall>v. x = Inr v \<longrightarrow> (\<forall>p \<in> set v. p_ID p \<in> UNIV \<and> p_CustomerSlug p = ws_Slug (bc_Workspace B))"
      using lp by (auto dest!: List_Inr)
  qed
qed (auto simp: box_port_defs cells_reliable [unfolded boxMirror_def, simplified] intro!: reliable_rules)

text \<open>The ports of the wired services, for the properties of the box.\<close>

lemma boxPipelines_sel [simp]:
  "ps_Workspaces (boxPipelines B) = StaticResolver (bc_Workspace B)" "ps_Pipelines (boxPipelines B) = pg_repo (bc_Repository B)"
  "ps_Notifications (boxPipelines B) = Some (boxNotifier B)" "ps_Alerts (boxPipelines B) = map_option liftAlerter (bc_Alerts B)"
  "ps_Mirror (boxPipelines B) = Some \<lparr>SyncCustomer_port = SyncCustomer (boxMirror B)\<rparr>" "ps_Users (boxPipelines B) = Some (\<lambda>u. onExt (bc_Users B u))"
  "ps_Versions (boxPipelines B) = Some \<lparr>ListVersions_port = ListVersions (boxMirror B), VersionAt_port = VersionAt (boxMirror B)\<rparr>"
  "ps_Ownership (boxPipelines B) = Some (pg_ownership (bc_Repository B))" "ps_GoogleOAuth (boxPipelines B) = Some (pg_grants (bc_Repository B))"
  "ps_OAuthClients (boxPipelines B) = Some (pg_oauth_clients (bc_Repository B))" "ps_Connections (boxPipelines B) = Some (pg_connections (bc_Repository B))"
  "ps_StripPollCredentials (boxPipelines B) = bc_StripPollCredentials B" "ps_Now (boxPipelines B) = bx_clock"
  by (simp_all add: boxPipelines_def)

lemma pg_repo_sel [simp]:
  "repo_CreatePipeline (pg_repo r) = CreatePipeline_pg r" "repo_GetPipeline (pg_repo r) = GetPipeline_pg r"
  "repo_ListPipelinesByCustomer (pg_repo r) = ListPipelinesByCustomer_pg r" "repo_UpdatePipeline (pg_repo r) = UpdatePipeline_pg r"
  "repo_DeletePipeline (pg_repo r) = DeletePipeline_pg r" "repo_GetEnabledPipelines (pg_repo r) = GetEnabledPipelines_pg r"
  "repo_CreatePipelineRun (pg_repo r) = CreatePipelineRun_pg r" "repo_UpdatePipelineRun (pg_repo r) = UpdatePipelineRun_pg r"
  "repo_ListRecentRuns (pg_repo r) = ListRecentRuns_pg r" "repo_GetPendingRun (pg_repo r) = GetPendingRun_pg r"
  by (simp_all add: pg_repo_def)

lemma StaticResolver_sel [simp]:
  "GetWorkspace (StaticResolver ws) = GetWorkspace_static ws" "GetWorkspaceByUser (StaticResolver ws) = GetWorkspaceByUser_static ws"
  by (simp_all add: StaticResolver_def)

subsection \<open>The operations off the two planes\<close>

text \<open>
  The repository editor and its push mirrors, the source tests and their sweep, the bell and its live streams. None of
  them touches a pipeline, a transformation or a run.
\<close>

inductive side_step :: "'e boxConfig \<Rightarrow> 'e box \<Rightarrow> 'e box \<Rightarrow> bool" for B where
  rlist: "ListFiles_repo (boxRepoEditor B) u repo w = (x1, w') \<Longrightarrow> side_step B w w'"
| rget: "GetFile_repo (boxRepoEditor B) u repo f w = (x2, w') \<Longrightarrow> side_step B w w'"
| rput: "PutFile_repo (boxRepoEditor B) u repo f t sha msg w = (x3, w') \<Longrightarrow> side_step B w w'"
| rdelete: "DeleteFile_repo (boxRepoEditor B) u repo f sha msg w = (x4, w') \<Longrightarrow> side_step B w w'"
| rhistory: "ListFileHistory (boxRepoEditor B) u repo f w = (x5, w') \<Longrightarrow> side_step B w w'"
| rversion: "GetFileAtRef (boxRepoEditor B) u repo f ref w = (x6, w') \<Longrightarrow> side_step B w w'"
| mset: "SetPushMirror (boxRepoEditor B) u repo url name pw w = (x4, w') \<Longrightarrow> side_step B w w'"
| mget: "GetPushMirror (boxRepoEditor B) u repo w = (x7, w') \<Longrightarrow> side_step B w w'"
| mdelete: "DeletePushMirror (boxRepoEditor B) u repo w = (x4, w') \<Longrightarrow> side_step B w w'"
| msync: "SyncPushMirror (boxRepoEditor B) u repo w = (x4, w') \<Longrightarrow> side_step B w w'"
| sstart: "StartSourceTest (boxSourceTests B) u inp w = (x8, w') \<Longrightarrow> side_step B w w'"
| scredentials: "PipelineCredentials (boxSourceTests B) u i w = (x6, w') \<Longrightarrow> side_step B w w'"
| sget: "GetSourceTest (boxSourceTests B) u i w = (x8, w') \<Longrightarrow> side_step B w w'"
| sclaim: "ClaimSourceTests (boxSourceTests B) c w = (x9, w') \<Longrightarrow> side_step B w w'"
| sreport: "ReportSourceTest (boxSourceTests B) c i status msg details w = (x4, w') \<Longrightarrow> side_step B w w'"
| ssweep: "DeleteExpiredSourceTests (st_Tests (boxSourceTests B)) w = (x10, w') \<Longrightarrow> side_step B w w'"
| nlist: "List_notifications (boxNotifications B) u w = (x11, w') \<Longrightarrow> side_step B w w'"
| nunread: "UnreadCount (boxNotifications B) u w = (x10, w') \<Longrightarrow> side_step B w w'"
| nread: "MarkRead (boxNotifications B) u i w = (x4, w') \<Longrightarrow> side_step B w w'"
| nreadall: "MarkAllRead (boxNotifications B) u w = (x4, w') \<Longrightarrow> side_step B w w'"
| nsubscribe: "Subscribe (boxNotifications B) u w = (x12, w') \<Longrightarrow> side_step B w w'"
| ncancel: "onBroker boxBroker (cancel c k) w = (x4, w') \<Longrightarrow> side_step B w w'"
| nreceive: "onBroker boxBroker (\<lambda>b. Inr (snd (receive k b))) w = (x4, w') \<Longrightarrow> side_step B w w'"
| nlisten: "listenOnce (bc_TimeText B) boxBroker w = (x4, w') \<Longrightarrow> side_step B w w'"

lemma resolveCommitAuthor_quiet [quiet_rules]: "quiet (resolveCommitAuthor (Some (\<lambda>u. onExt (m u))) u)"
  unfolding resolveCommitAuthor_def option.case Let_def by (intro quiet_rules)

lemma lifted_quiet [quiet_rules]:
  "quiet (ListTree (liftClient cl) r)" "quiet (GetContents (liftClient cl) r f)" "quiet (GetContentsAt (liftClient cl) r f sha)"
  "quiet (ListCommits (liftClient cl) r f n)" "quiet (PutContents (liftClient cl) r f t sha msg a)" "quiet (DeleteContents (liftClient cl) r f sha msg a)"
  "quiet (ListPushMirrors (liftMirrorClient mc) r)" "quiet (AddPushMirror (liftMirrorClient mc) r url name pw iv)"
  "quiet (DeletePushMirror_port (liftMirrorClient mc) r name)" "quiet (SyncPushMirrors (liftMirrorClient mc) r)"
  by (simp_all add: liftClient_def liftMirrorClient_def onExt_quiet)

lemma deleteMirrors_quiet [quiet_rules]: "quiet (deleteMirrors (liftMirrorClient cl) repo msg ms)"
  by (induction ms) (auto intro!: quiet_rules)

lemma editor_sel [simp]:
  "br_Workspaces (boxRepoEditor B) = StaticResolver (bc_Workspace B)" "br_Users (boxRepoEditor B) = Some (\<lambda>u. onExt (bc_Users B u))"
  "br_Credentials (boxRepoEditor B) = Some \<lparr>GetBoxGitCredential = GetBoxGitCredential_static (bc_Credentials B)\<rparr>"
  "br_NewClient (boxRepoEditor B) u n t = liftClient (bc_NewClient B u n t)"
  "br_NewMirrorClient (boxRepoEditor B) u n t = liftMirrorClient (bc_NewMirrorClient B u n t)" "br_ParseURL (boxRepoEditor B) = bc_ParseURL B"
  by (simp_all add: boxRepoEditor_def)

definition same_planes :: "'a pgdb_scheme \<Rightarrow> 'a pgdb_scheme \<Rightarrow> bool" where
  "same_planes w0 w \<longleftrightarrow> t_pipelines w = t_pipelines w0 \<and> tplane w = tplane w0 \<and> (pg_ok w0 \<longrightarrow> pg_ok w)"

lemma quiet_same: "quiet m \<Longrightarrow> keeps (same_planes w0) m"
  by (rule safeI) (auto simp: same_planes_def dest: quietD)

lemma same_quiet: "(\<And>w0. keeps (same_planes w0) m) \<Longrightarrow> quiet m"
  by (rule quietI) (use safeD in \<open>fastforce simp: same_planes_def\<close>)

lemma boxGitea_same: "keeps (same_planes w0) (boxGitea (boxRepoEditor B) u repo)"
  unfolding boxGitea_def editor_sel option.case StaticResolver_sel BoxGitCredentialStore.simps
  by (rule safe_rules quiet_same static_quiet_io TrueI | simp only: prod.case)+

lemma clients_same:
  "safe (same_planes w0) (clientFor_repo (boxRepoEditor B) u repo) (\<lambda>cl. \<exists>c. cl = liftClient c)"
  "safe (same_planes w0) (mirrorClientFor (boxRepoEditor B) u repo) (\<lambda>cl. \<exists>c. cl = liftMirrorClient c)"
  unfolding clientFor_repo_def mirrorClientFor_def editor_sel
  by (intro safe_if safe_fail safe_andThen [OF boxGitea_same] safe_prod safe_ret; blast)+

lemma quiet_clients:
  "(\<And>c. quiet (f (liftClient c))) \<Longrightarrow> quiet (andThen (clientFor_repo (boxRepoEditor B) u repo) f)"
  "(\<And>c. quiet (g (liftMirrorClient c))) \<Longrightarrow> quiet (andThen (mirrorClientFor (boxRepoEditor B) u repo) g)"
  by (rule same_quiet, rule safe_andThen [OF clients_same(1)], auto intro: quiet_same)
    (rule same_quiet, rule safe_andThen [OF clients_same(2)], auto intro: quiet_same)

lemma editor_quiet:
  "quiet (ListFiles_repo (boxRepoEditor B) u repo)" "quiet (GetFile_repo (boxRepoEditor B) u repo f)"
  "quiet (PutFile_repo (boxRepoEditor B) u repo f t sha msg)" "quiet (DeleteFile_repo (boxRepoEditor B) u repo f sha msg)"
  "quiet (ListFileHistory (boxRepoEditor B) u repo f)" "quiet (GetFileAtRef (boxRepoEditor B) u repo f ref)"
  "quiet (SetPushMirror (boxRepoEditor B) u repo url name pw)" "quiet (GetPushMirror (boxRepoEditor B) u repo)"
  "quiet (DeletePushMirror (boxRepoEditor B) u repo)" "quiet (SyncPushMirror (boxRepoEditor B) u repo)"
  unfolding ListFiles_repo_def GetFile_repo_def PutFile_repo_def DeleteFile_repo_def ListFileHistory_def GetFileAtRef_def
    SetPushMirror_def GetPushMirror_def DeletePushMirror_def SyncPushMirror_def Let_def editor_sel
  by (rule quiet_clients quiet_rules)+

subsection \<open>Source tests and notifications of a box\<close>

interpretation box_tests: test_ports "boxSourceTests B" "bc_Repository B" for B
proof (unfold_locales, goal_cases)
  case 1
  show ?case by (simp add: boxSourceTests_def)
next
  case (2 u)
  show ?case by (rule silentI) (auto simp: boxSourceTests_def dest: static_quiet)
next
  case (3 cl c)
  then show ?case by (auto simp: boxSourceTests_def pg_oauth_clients_def lookups_tests)
next
  case (4 cn c i)
  then show ?case by (auto simp: boxSourceTests_def pg_connections_def lookups_tests)
next
  case 5
  show ?case by (rule silentI) (auto simp: boxSourceTests_def onExt_def split: prod.splits)
qed

lemma injectTests_quiet: "quiet (injectTests (newOAuthClientResolver (Some (pg_oauth_clients r)) (Some (pg_connections r)) c) ts)"
proof (rule same_quiet)
  fix w0 :: "'a pgdb_scheme"
  have "oauth_ports (Some (pg_oauth_clients r)) (Some (pg_connections r)) c (same_planes w0)"
    by unfold_locales (auto simp: pg_oauth_clients_def pg_connections_def intro!: quiet_same quiet_rules)
  from injectTests_safe [OF this] show "keeps (same_planes w0) (injectTests (newOAuthClientResolver (Some (pg_oauth_clients r)) (Some (pg_connections r)) c) ts)"
    by (rule safe_weaken) (simp_all add: newOAuthClientResolver_def)
qed

lemma tests_quiet:
  "quiet (StartSourceTest (boxSourceTests B) u inp)" "quiet (PipelineCredentials (boxSourceTests B) u i)" "quiet (GetSourceTest (boxSourceTests B) u i)"
  "quiet (ClaimSourceTests (boxSourceTests B) c)" "quiet (ReportSourceTest (boxSourceTests B) c i status msg details)"
  "quiet (DeleteExpiredSourceTests (st_Tests (boxSourceTests B)))"
proof -
  have now: "quiet (\<lambda>w. ret (bx_clock w) w)" by (simp add: quiet_def)
  show "quiet (StartSourceTest (boxSourceTests B) u inp)" "quiet (PipelineCredentials (boxSourceTests B) u i)" "quiet (GetSourceTest (boxSourceTests B) u i)"
    "quiet (ClaimSourceTests (boxSourceTests B) c)" "quiet (ReportSourceTest (boxSourceTests B) c i status msg details)"
    "quiet (DeleteExpiredSourceTests (st_Tests (boxSourceTests B)))"
    unfolding StartSourceTest_def PipelineCredentials_def GetSourceTest_def ClaimSourceTests_def ReportSourceTest_def boxSourceTests_def Let_def
      SourceTestService.simps pg_source_tests_def SourceTestStore.simps StaticResolver_sel option.case
    by (rule quiet_rules now injectTests_quiet)+
qed

lemma bell_quiet:
  "quiet (List_notifications (boxNotifications B) u)" "quiet (UnreadCount (boxNotifications B) u)" "quiet (MarkRead (boxNotifications B) u i)"
  "quiet (MarkAllRead (boxNotifications B) u)" "quiet (Subscribe (boxNotifications B) u)" "quiet (listenOnce tt boxBroker)"
proof -
  have sub: "quiet (\<lambda>w. case Subscribe_broker (bk_get boxBroker w) c of (i, b) \<Rightarrow> ret (c, i) (bk_put boxBroker b w))" for c
    by (rule quietI) (auto simp: boxBroker_def split: prod.splits)
  show "quiet (List_notifications (boxNotifications B) u)" "quiet (UnreadCount (boxNotifications B) u)" "quiet (MarkRead (boxNotifications B) u i)"
    "quiet (MarkAllRead (boxNotifications B) u)" "quiet (Subscribe (boxNotifications B) u)"
    unfolding List_notifications_def UnreadCount_def MarkRead_def MarkAllRead_def Subscribe_def boxNotifications_def NotificationService.simps
      pg_notifications_def NotificationRepository.simps StaticResolver_sel option.case
    by (rule quiet_rules sub)+
  show "quiet (listenOnce tt boxBroker)"
    by (rule quietI) (auto simp: listenOnce_def Let_def onBroker_def boxBroker_def split: list.splits option.splits sum.splits)
qed

lemma side_planes: "side_step B w w' \<Longrightarrow> same_planes w w'"
  unfolding same_planes_def
  by (induction rule: side_step.induct) (erule quietD [rotated], rule editor_quiet tests_quiet bell_quiet onBroker_quiet)+

lemma side_tenant: "side_step B w w' \<Longrightarrow> tenant c F G w \<Longrightarrow> tenant c F G w'"
proof -
  assume s: "side_step B w w'" and t: "tenant c F G w"
  have "quiet (\<lambda>v. ((Inr () :: err + unit), if v = w then w' else v))"
    using side_planes [OF s] by (auto simp: quiet_def same_planes_def)
  from safeD [OF quiet_tenant [OF this] t] show "tenant c F G w'" by simp
qed

subsection \<open>The operations of a box\<close>

text \<open>
  One step is one operation, by whoever asks for it: a Console request of any subject, a request of the
  worker, a pass of a sweep, an operation off the planes, or a change of the outside world between them: its state, the clocks and
  which statements the database will answer. Operations that change the tables do so through the
  handlers above; each may fail at any point.
\<close>

inductive box_step :: "'e boxConfig \<Rightarrow> 'e box \<Rightarrow> 'e box \<Rightarrow> bool" for B where
  create: "CreatePipeline (boxPipelines B) u p w = (x, w') \<Longrightarrow> box_step B w w'"
| list: "ListPipelines (boxPipelines B) u w = (x, w') \<Longrightarrow> box_step B w w'"
| get: "GetPipeline (boxPipelines B) u i w = (x, w') \<Longrightarrow> box_step B w w'"
| update: "UpdatePipeline (boxPipelines B) u p cl w = (x, w') \<Longrightarrow> box_step B w w'"
| delete: "DeletePipeline (boxPipelines B) u i w = (x, w') \<Longrightarrow> box_step B w w'"
| versions: "ListPipelineVersions (boxPipelines B) u i w = (x, w') \<Longrightarrow> box_step B w w'"
| restore: "RestorePipelineVersion (boxPipelines B) u i sha w = (x, w') \<Longrightarrow> box_step B w w'"
| trigger: "TriggerPipeline (boxPipelines B) u i w = (x, w') \<Longrightarrow> box_step B w w'"
| report: "ReportPipelineRun (boxPipelines B) c run w = (x, w') \<Longrightarrow> box_step B w w'"
| poll: "GetEnabledPipelines (boxPipelines B) (ws_Slug (bc_Workspace B)) w = (x, w') \<Longrightarrow> box_step B w w'"
| upload: "Upload (boxFileDrop B) u i name sz body w = (x, w') \<Longrightarrow> box_step B w w'"
| files: "ListFiles (boxFileDrop B) u i w = (x, w') \<Longrightarrow> box_step B w w'"
| drop: "DeleteFile (boxFileDrop B) u i name w = (x, w') \<Longrightarrow> box_step B w w'"
| adopt: "sweep (boxAdoptSweeper B) w = (x, w') \<Longrightarrow> box_step B w w'"
| sync: "SyncCustomer (boxMirror B) (ws_Slug (bc_Workspace B)) au w = (x, w') \<Longrightarrow> box_step B w w'"
| sweep: "SweepOnce B w = (x, w') \<Longrightarrow> box_step B w w'"
| connect: "CreateGoogleConnection (boxConnections B) c g name w = (x, w') \<Longrightarrow> box_step B w w'"
| disconnect: "DeleteConnection_svc (boxConnections B) c i w = (x, w') \<Longrightarrow> box_step B w w'"
| tcreate: "CreateTransformation (boxTransformations B) u t w = (x, w') \<Longrightarrow> box_step B w w'"
| tlist: "ListTransformations (boxTransformations B) u w = (x, w') \<Longrightarrow> box_step B w w'"
| tget: "GetTransformation (boxTransformations B) u i w = (x, w') \<Longrightarrow> box_step B w w'"
| tupdate: "UpdateTransformation (boxTransformations B) u t w = (x, w') \<Longrightarrow> box_step B w w'"
| tdelete: "DeleteTransformation (boxTransformations B) u i w = (x, w') \<Longrightarrow> box_step B w w'"
| ttrigger: "TriggerTransformation (boxTransformations B) u i w = (x, w') \<Longrightarrow> box_step B w w'"
| treport: "ReportTransformationRun (boxTransformations B) c trun w = (x, w') \<Longrightarrow> box_step B w w'"
| tpoll: "GetEnabledTransformations (boxTransformations B) (ws_Slug (bc_Workspace B)) w = (x, w') \<Longrightarrow> box_step B w w'"
| tsync: "SyncCustomer_t (boxTransformationMirror B) (ws_Slug (bc_Workspace B)) au w = (x, w') \<Longrightarrow> box_step B w w'"
| side: "side_step B w w' \<Longrightarrow> box_step B w w'"
| outside: "box_step B w (w\<lparr>bx_ext := e, bx_clock := t, db_now := n, db_link := ls, db_channel := ch\<rparr>)"

lemma connections_box_quiet:
  "quiet (CreateGoogleConnection (boxConnections B) c g name)" "quiet (DeleteConnection_svc (boxConnections B) c i)"
  unfolding CreateGoogleConnection_def redeemGoogleGrant_def DeleteConnection_svc_def boxConnections_def pg_connections_def
    pg_grants_def pg_credential_reader_def Let_def
  by (auto intro!: quiet_rules)

lemma step_tenant:
  assumes "box_step B w w'" "tenant (ws_Slug (bc_Workspace B)) F G w"
  shows "tenant (ws_Slug (bc_Workspace B)) F G w'"
  using assms(1)
proof cases
  case side
  then show ?thesis using side_tenant assms(2) by blast
next
  case (sweep x)
  have q: "quiet (SweepOnce B)" unfolding SweepOnce_def by (intro quiet_rules)
  show ?thesis using safeD [OF quiet_tenant [OF q] assms(2) sweep] .
next
  case (connect c g name x)
  then show ?thesis using safeD [OF quiet_tenant [OF connections_box_quiet(1)] assms(2)] by blast
next
  case (disconnect c i x)
  then show ?thesis using safeD [OF quiet_tenant [OF connections_box_quiet(2)] assms(2)] by blast
next
  case (outside ch ls n t e)
  have "quiet (\<lambda>w :: 'a box. ((Inr () :: err + unit), w\<lparr>bx_ext := e, bx_clock := t, db_now := n, db_link := ls, db_channel := ch\<rparr>))" by (rule quietI) (auto simp: pg_ok_def)
  then show ?thesis using safeD [OF quiet_tenant assms(2)] outside by blast
next
  case (create u p x)
  show ?thesis by (rule safeD [OF tenant_service.CreatePipeline_safe assms(2) create])
next
  case (list u x)
  show ?thesis by (rule safeD [OF tenant_service.ListPipelines_safe assms(2) list])
next
  case (get u i x)
  show ?thesis by (rule safeD [OF tenant_service.GetPipeline_safe assms(2) get])
next
  case (update u p cl x)
  show ?thesis by (rule safeD [OF tenant_service.UpdatePipeline_safe assms(2) update])
next
  case (delete u i x)
  show ?thesis by (rule safeD [OF tenant_service.DeletePipeline_safe assms(2) delete])
next
  case (versions u i x)
  show ?thesis by (rule safeD [OF tenant_service.ListPipelineVersions_safe assms(2) versions])
next
  case (restore u i sha x)
  show ?thesis by (rule safeD [OF tenant_service.RestorePipelineVersion_safe assms(2) restore])
next
  case (trigger u i x)
  show ?thesis by (rule safeD [OF tenant_service.TriggerPipeline_safe assms(2) trigger])
next
  case (report c run x)
  show ?thesis by (rule safeD [OF tenant_service.ReportPipelineRun_safe assms(2) report])
next
  case (poll x)
  show ?thesis by (rule safeD [OF tenant_service.GetEnabledPipelines_safe assms(2) poll])
next
  case (upload u i name sz body x)
  show ?thesis by (rule safeD [OF tenant_files.Upload_safe assms(2) upload])
next
  case (files u i x)
  show ?thesis by (rule safeD [OF tenant_files.ListFiles_safe assms(2) files])
next
  case (drop u i name x)
  show ?thesis by (rule safeD [OF tenant_files.DeleteFile_safe assms(2) drop])
next
  case (adopt x)
  show ?thesis by (rule safeD [OF boxAdoptSweep_safe assms(2) adopt])
next
  case (sync au x)
  show ?thesis by (rule safeD [OF tenant_mirror.SyncCustomer_safe assms(2) sync])
next
  case (tcreate u t x)
  show ?thesis by (rule safeD [OF tenant_transformations.CreateTransformation_safe assms(2) tcreate])
next
  case (tlist u x)
  show ?thesis by (rule safeD [OF tenant_transformations.ListTransformations_safe assms(2) tlist])
next
  case (tget u i x)
  show ?thesis by (rule safeD [OF tenant_transformations.GetTransformation_safe assms(2) tget])
next
  case (tupdate u t x)
  show ?thesis by (rule safeD [OF tenant_transformations.UpdateTransformation_safe assms(2) tupdate])
next
  case (tdelete u i x)
  show ?thesis by (rule safeD [OF tenant_transformations.DeleteTransformation_safe assms(2) tdelete])
next
  case (ttrigger u i x)
  show ?thesis by (rule safeD [OF tenant_transformations.TriggerTransformation_safe assms(2) ttrigger])
next
  case (treport c trun x)
  show ?thesis by (rule safeD [OF tenant_transformations.ReportTransformationRun_safe assms(2) treport])
next
  case (tpoll x)
  show ?thesis by (rule safeD [OF tenant_transformations.GetEnabledTransformations_safe assms(2) tpoll])
next
  case (tsync au x)
  show ?thesis by (rule safeD [OF tenant_tmirror.SyncCustomer_safe assms(2) tsync])
qed

text \<open>Rule induction over the operations, from any state.\<close>

lemma steps_tenant:
  assumes "(box_step B)\<^sup>*\<^sup>* w w'" "tenant (ws_Slug (bc_Workspace B)) F G w"
  shows "tenant (ws_Slug (bc_Workspace B)) F G w'"
  using assms by (induction rule: rtranclp_induct) (auto intro: step_tenant)

text \<open>The rows of the other tenants.\<close>

definition others :: "string \<Rightarrow> 'a pgdb_scheme \<Rightarrow> prow set" where
  "others c db = {r \<in> set (t_pipelines db). pr_customer_slug r \<noteq> c}"

lemma others_foreign: "pg_ok db \<Longrightarrow> others c db = snd ` pg.foreign c db"
  unfolding others_def pg.foreign_def
  by (force simp: image_iff dest: pg_ok_distinct find_pipeline_Some)

text \<open>The schema's keys and foreign keys, and the chaining of transformations.\<close>

definition box_ok :: "'a pgdb_scheme \<Rightarrow> bool" where
  "box_ok db \<longleftrightarrow> pg_ok db \<and> td_ok db \<and> chained db"

lemma tenant_start: "box_ok db \<Longrightarrow> tenant c (pg.foreign c db) (strangers c db) db"
  by (simp add: box_ok_def tenant_def pg.within_def)

lemma tenant_others:
  "box_ok db \<Longrightarrow> tenant c (pg.foreign c db) (strangers c db) db' \<Longrightarrow>
   box_ok db' \<and> others c db' = others c db \<and> strangers c db' = strangers c db"
  by (simp add: box_ok_def tenant_def pg.within_def others_foreign)

end
