(* ===== verification/Example.thy ===== *)
theory Example
  imports Box
begin

section \<open>A small box\<close>

text \<open>
  Concrete instances of the parameters, for the instances of the theorems: a git host that is a table from
  paths to contents and whose blob ids are the contents themselves, with the optimistic check of a put
  or a delete against the id it is given; a database with one pipeline of the box's workspace and one of
  another tenant; no encryption key. The YAML codecs write the id and the name of a
  definition and read back the one file they are given; age and the identifiers are not needed here and
  always fail. \<open>downBox\<close> is the box while its git host refuses commits.
\<close>

type_synonym files = "(string \<times> string) list"

definition exampleClient :: "files RepoFileClient" where
  "exampleClient =
     \<lparr>ListTree = (\<lambda>r e. (Inr (map (\<lambda>(f, t). \<lparr>e_Path = f, e_SHA = t\<rparr>) e), e)),
      GetContents = (\<lambda>r f e. (case map_of e f of None \<Rightarrow> Inl (ErrNew ''404'') | Some t \<Rightarrow> Inr (t, t), e)),
      GetContentsAt = (\<lambda>r f s e. (case map_of e f of None \<Rightarrow> Inl (ErrNew ''404'') | Some t \<Rightarrow> Inr (t, t), e)),
      ListCommits = (\<lambda>r f n e. (Inr [], e)),
      PutContents = (\<lambda>r f t s m a e. if gm_str e f = s then (Inr t, AList.update f t e) else (Inl ErrRepoFileChanged, e)),
      DeleteContents = (\<lambda>r f s m a e. if gm_str e f = s then (Inr (), AList.delete f e) else (Inl ErrRepoFileChanged, e))\<rparr>"

definition exampleConfig :: raw where
  "exampleConfig = ''{\"base_url\":\"u\",\"resources\":[{\"name\":\"o\",\"endpoint\":\"/o\"}]}''"

definition exampleFile :: pipelineFile where
  "exampleFile =
     \<lparr>pf_ID = ''p1'', pf_Name = ''orders'', pf_SourceType = ''rest_api'',
      pf_SourceConfig = (case Unmarshal (d_map JNull d_anyv) [] exampleConfig of Some m \<Rightarrow> m | None \<Rightarrow> []),
      pf_DatasetName = ''raw'', pf_Schedule = [], pf_WriteDisposition = ''append'', pf_MergeStrategy = [], pf_Enabled = True\<rparr>"

definition exampleYAML :: YAML where
  "exampleYAML =
     \<lparr>y_Marshal = (\<lambda>f. Inr (pf_ID f @ '' '' @ pf_Name f)),
      y_Unmarshal = (\<lambda>s. if s = pipelineFileHeader @ ''p1 orders'' then Inr exampleFile else Inl (ErrNew ''yaml''))\<rparr>"

definition exampleTransformationYAML :: TransformationYAML where
  "exampleTransformationYAML =
     \<lparr>ty_Marshal = (\<lambda>f. Inr (yf_ID f @ '' '' @ yf_Name f)),
      ty_Unmarshal = (\<lambda>s. if s = pipelineFileHeader @ ''t1 marts'' then
        Inr \<lparr>yf_ID = ''t1'', yf_Name = ''marts'', yf_RepoURL = ''u'', yf_RepoRef = [], yf_Schedule = ''@daily'',
          yf_TriggerAfterPipeline = [], yf_DBTSelector = [], yf_Enabled = True\<rparr> else Inl (ErrNew ''yaml''))\<rparr>"

definition exampleBox :: "files boxConfig" where
  "exampleBox =
     \<lparr>bc_Workspace = exampleWorkspace,
      bc_Credentials = \<lparr>sb_Slug = ''acme'', sb_GitUsername = ''fairtier-admin'', sb_GitToken = ''t0'', sb_SnapshotToken = [],
        sb_AgePublicKey = []\<rparr>,
      bc_Repository = \<lparr>rp_Encryptor = None\<rparr>,
      bc_NewClient = (\<lambda>u n t. exampleClient),
      bc_NewMirrorClient = (\<lambda>u n t. \<lparr>ListPushMirrors = (\<lambda>r e. (Inr [], e)), AddPushMirror = (\<lambda>r u n p i e. (Inr (), e)),
        DeletePushMirror_port = (\<lambda>r n e. (Inr (), e)), SyncPushMirrors = (\<lambda>r e. (Inr (), e))\<rparr>),
      bc_ParseURL = (\<lambda>s. None),
      bc_TimeText = plainTime,
      bc_Alerts = None,
      bc_Users = (\<lambda>u e. (Inl (ErrNew ''no claims''), e)),
      bc_Store = \<lparr>Put = (\<lambda>c k n b e. (Inr (), e)), Delete = (\<lambda>c k e. (Inr (), e)), Head = (\<lambda>c k e. (Inr True, e))\<rparr>,
      bc_Fingerprint = concat,
      bc_encryptAge = (\<lambda>r t e. (Inl (ErrNew ''age''), e)),
      bc_YAML = exampleYAML,
      bc_TransformationYAML = exampleTransformationYAML,
      bc_uuidValidate = (\<lambda>s. length s = 36),
      bc_newID = (\<lambda>e. (Inl (ErrNew ''uuid''), e)),
      bc_ImportFromRepo = True,
      bc_StripPollCredentials = True,
      bc_MaxBytes = 0,
      bc_StuckTimeout = 0\<rparr>"

definition downBox :: "files boxConfig" where
  "downBox = exampleBox\<lparr>bc_NewClient := (\<lambda>u n t. exampleClient\<lparr>
     PutContents := (\<lambda>r f t s m a e. (Inl (ErrNew ''503''), e)), DeleteContents := (\<lambda>r f s m a e. (Inl (ErrNew ''503''), e))\<rparr>)\<rparr>"

definition exampleRow :: "string \<Rightarrow> string \<Rightarrow> string \<Rightarrow> prow" where
  "exampleRow i c name =
     \<lparr>pr_id = i, pr_customer_slug = c, pr_name = name, pr_source_type = ''rest_api'', pr_source_config = exampleConfig,
      pr_source_credentials = ''{}'', pr_dataset_name = ''raw'', pr_schedule = [], pr_write_disposition = ''append'',
      pr_merge_strategy = [], pr_credentials_external = False, pr_enabled = True, pr_created_at = 1, pr_updated_at = 1\<rparr>"

definition exampleWorld :: "files box" where
  "exampleWorld =
     \<lparr>db_link = [], db_now = 9, db_gen = (\<lambda>n. ''id-'' @ itoa n), db_next = 0, db_entropy = (\<lambda>n. n), db_drawn = 0,
      db_jsonb = Some, t_pipelines = [exampleRow ''p1'' ''acme'' ''orders'', exampleRow ''p2'' ''other'' ''orders''],
      t_pipeline_runs = [], t_transformations = [], t_credential_renders = [], t_definition_renders = [], t_connections = [],
      t_oauth_clients = [], t_grants = [], t_transformation_runs = [], t_transformation_renders = [], t_source_tests = [], t_notifications = [], db_channel = [], bx_ext = [], bx_clock = 5, bx_staleOAuth = [], bx_importSkips = [], bx_timportSkips = [], bx_broker = NewNotificationBroker\<rparr>"

lemma exampleWorld_ok: "pg_ok exampleWorld"
  by (simp add: pg_ok_def exampleWorld_def exampleRow_def)

definition exampleTransformationRow :: "string \<Rightarrow> string \<Rightarrow> string \<Rightarrow> string option \<Rightarrow> trow" where
  "exampleTransformationRow i c name trigger =
     \<lparr>tr_id = i, tr_customer_slug = c, tr_name = name, tr_repo_url = ''u'', tr_repo_ref = ''main'', tr_git_credentials = ''{}'',
      tr_schedule = [], tr_trigger_after_pipeline_id = trigger, tr_dbt_selector = [], tr_enabled = True, tr_created_at = 1, tr_updated_at = 1\<rparr>"

text \<open>One transformation of each tenant, chained to the tenant's pipeline.\<close>

definition chainedWorld :: "files box" where
  "chainedWorld = exampleWorld\<lparr>t_transformations :=
     [exampleTransformationRow ''t1'' ''acme'' ''marts'' (Some ''p1''), exampleTransformationRow ''t2'' ''other'' ''marts'' (Some ''p2'')]\<rparr>"

definition exampleTransformation :: "string \<Rightarrow> string \<Rightarrow> Transformation" where
  "exampleTransformation name trigger =
     \<lparr>tf_ID = [], tf_CustomerSlug = [], tf_Name = name, tf_RepoURL = ''u'', tf_RepoRef = [], tf_GitCredentials = [], tf_Schedule = ''@daily'',
      tf_TriggerAfterPipelineID = trigger, tf_DBTSelector = [], tf_Enabled = False, tf_CreatedAt = 0, tf_UpdatedAt = 0, tf_TriggerNow = False,
      tf_PendingRunID = [], tf_LastRunAt = None, tf_LastRunTime = None, tf_LastRunStatus = []\<rparr>"

lemma chainedWorld_ok: "box_ok chainedWorld"
  by (simp add: box_ok_def pg_ok_def td_ok_def chained_def owner_def find_pipeline_def chainedWorld_def exampleWorld_def exampleRow_def
      exampleTransformationRow_def)

end
