(* ===== verification/StoreProperties.thy ===== *)
theory StoreProperties
  imports PostgresFrames
begin

section \<open>Properties of the store\<close>

text \<open>
  What the PostgreSQL repository promises the components above it, method by method: what is written is
  what is read back, an update leaves the columns it does not own alone, the stuck-run sweep and the
  single use of a grant.
\<close>

definition exampleStore :: pgdb where
  "exampleStore =
     \<lparr>db_link = [], db_now = 7200000000000, db_gen = (\<lambda>n. ''id-'' @ itoa n), db_next = 0, db_entropy = (\<lambda>n. n), db_drawn = 0,
      db_jsonb = Some,
      t_pipelines = [\<lparr>pr_id = ''p1'', pr_customer_slug = ''acme'', pr_name = ''orders'', pr_source_type = ''rest_api'',
        pr_source_config = ''{}'', pr_source_credentials = ''{}'', pr_dataset_name = ''raw'', pr_schedule = [],
        pr_write_disposition = ''append'', pr_merge_strategy = [], pr_credentials_external = True, pr_enabled = True,
        pr_created_at = 1, pr_updated_at = 1\<rparr>],
      t_pipeline_runs = [\<lparr>r_ID = ''r1'', r_PipelineID = ''p1'', r_Status = ''running'', r_StartedAt = Some 0, r_CompletedAt = None,
        r_RowsLoaded = 0, r_ErrorMessage = [], r_CreatedAt = 0\<rparr>],
      t_transformations = [], t_credential_renders = [], t_definition_renders = [], t_connections = [], t_oauth_clients = [],
      t_grants = [\<lparr>gw_grant_id = ''g1'', gw_customer_slug = ''acme'', gw_user_sub = ''u-1'', gw_refresh_token = ''rt'', gw_email = [],
        gw_client_id = [], gw_scopes = [], gw_created_at = 0, gw_expires_at = 9000000000000\<rparr>], t_transformation_runs = [], t_transformation_renders = [], t_source_tests = [], t_notifications = [], db_channel = []\<rparr>"

definition plainRepo :: Repository where "plainRepo = \<lparr>rp_Encryptor = None\<rparr>"

definition examplePipeline :: Pipeline where
  "examplePipeline =
     \<lparr>p_ID = ''p1'', p_CustomerSlug = ''acme'', p_Name = ''invoices'', p_SourceType = ''rest_api'', p_SourceConfig = ''{}'',
      p_SourceCredentials = ''{\"api_key\":\"k\"}'', p_DatasetName = ''raw'', p_Schedule = [], p_WriteDisposition = ''append'',
      p_MergeStrategy = [], p_Enabled = True, p_CredentialsExternal = False, p_CreatedAt = 3, p_UpdatedAt = 4, p_TriggerNow = False,
      p_PendingRunID = [], p_LastRunAt = None, p_LastRunTime = None, p_LastRunStatus = []\<rparr>"

lemma itoa_0: "itoa 0 = ''0''"
  by code_simp

lemma plainRepo_ok: "repo_ok plainRepo"
  by (simp add: repo_ok_def plainRepo_def)

lemma Get_reliable:
  assumes "reliable db" "find_pipeline i db = Some s" "decryptCredentials r (pr_source_credentials s) = Inr c"
  shows "GetPipeline_pg r i db = (Inr ((scan_pipeline s)\<lparr>p_SourceCredentials := c\<rparr>), db)"
  using assms by (simp add: GetPipeline_pg_def andThen_def wrapErr_def query_reliable lift_def ret_def)

lemma Get_reliable_missing:
  assumes "reliable db" "find_pipeline i db = None"
  shows "GetPipeline_pg r i db = (Inl ErrPipelineNotFound, db)"
  using assms by (simp add: GetPipeline_pg_def andThen_def wrapErr_def query_reliable fail_def)

lemma Create_row:
  assumes "CreatePipeline_pg r p db = (Inr q, db')" "repo_ok r"
  obtains c s where "db_jsonb db (p_SourceConfig p) = Some c" "find_pipeline (p_ID q) db = None" "find_pipeline (p_ID q) db' = Some s"
    "decryptCredentials r (pr_source_credentials s) = Inr (p_SourceCredentials p)"
    "s = (new_row p (pr_source_credentials s))\<lparr>pr_id := p_ID q, pr_source_config := c\<rparr>"
proof -
  from assms(1) obtain enc db1 where e: "encryptCredentials r (p_SourceCredentials p) db = (Inr enc, db1)"
    and i: "insert_pipeline None (new_row p enc) db1 = (Inr (p_ID q), db')" "q = p\<lparr>p_ID := p_ID q\<rparr>" by (rule CreatePipeline_Inr)
  from i(1) obtain c s where s: "db_jsonb db1 (pr_source_config (new_row p enc)) = Some c" "s = (new_row p enc)\<lparr>pr_id := p_ID q, pr_source_config := c\<rparr>"
    "\<not> list_ex (takes_key s) (t_pipelines db1)" "snap db' = snap (db1\<lparr>t_pipelines := t_pipelines db1 @ [s]\<rparr>)"
    by (rule insert_pipeline_Inr)
  note sn = snap_fields [OF encrypt_snap [OF e]]
  have new: "pr_source_config (new_row p enc) = p_SourceConfig p" "pr_source_credentials (new_row p enc) = enc"
    by (simp_all add: new_row_def pipeline_columns_def)
  have fresh: "p_ID q \<notin> pr_id ` set (t_pipelines db1)" using s(2,3) by (auto simp: list_ex_takes_key)
  have t: "t_pipelines db' = t_pipelines db1 @ [s]" using snap_fields(1) [OF s(4)] by simp
  have found: "find_pipeline (p_ID q) db' = Some s" unfolding find_pipeline_def t using find_append [of s "t_pipelines db1" "p_ID q"] fresh s(2) by simp
  have "pr_source_credentials s = enc" using s(2) new(2) by simp
  with that [of c s] s(1,2) sn(1,6) new fresh found decrypt_encrypt [OF assms(2) e] show ?thesis
    by (simp add: find_pipeline_None)
qed



lemma Update_row:
  assumes "UpdatePipeline_pg r p db = (Inr (), db')" "repo_ok r"
  obtains c s enc where "find_pipeline (p_ID p) db = Some s" "db_jsonb db (p_SourceConfig p) = Some c"
    "find_pipeline (p_ID p) db' = Some ((pipeline_columns p enc s)\<lparr>pr_source_config := c\<rparr>)" "decryptCredentials r enc = Inr (p_SourceCredentials p)"
    "t_pipelines db' = map (\<lambda>s'. if pr_id s' = p_ID p then (pipeline_columns p enc s)\<lparr>pr_source_config := c\<rparr> else s') (t_pipelines db)"
proof -
  from assms(1) obtain enc db1 y where e: "encryptCredentials r (p_SourceCredentials p) db = (Inr enc, db1)" "snap db1 = snap db"
    and u: "update_pipeline (p_ID p) (pipeline_columns p enc) db1 = (y, db')" "\<exists>n > 0. y = Inr n"
    by (auto elim: UpdatePipeline_cases)
  note sn = snap_fields [OF e(2)]
  from u(1) show ?thesis
  proof (cases rule: update_pipeline_cases)
    case (hit s c s')
    have s: "find_pipeline (p_ID p) db = Some s" using hit(2) find_pipeline_snap [OF e(2)] by simp
    have id: "pr_id s = p_ID p" "p_ID p \<in> pr_id ` set (t_pipelines db)" using find_pipeline_Some [OF s] by (auto, metis imageI)
    have t: "t_pipelines db' = map (\<lambda>x. if pr_id x = p_ID p then s' else x) (t_pipelines db)"
      using snap_fields(1) [OF hit(6)] sn(1) by simp
    have "find_pipeline (p_ID p) db' = Some s'"
      unfolding find_pipeline_def t using find_map_row [of s' "p_ID p" "p_ID p" "t_pipelines db"] id hit(4) by simp
    moreover have "db_jsonb db (p_SourceConfig p) = Some c" using hit(3) sn(6) by (simp add: pipeline_columns_def)
    ultimately show ?thesis using that [OF s] hit(4) t decrypt_encrypt [OF assms(2) e(1)] by simp
  qed (use u(2) in auto)
qed



lemma is_stuck_upd [simp]: "is_stuck c k (db\<lparr>t_pipeline_runs := rs\<rparr>) s = is_stuck c k db s"
  by (simp add: is_stuck_def find_pipeline_def)

lemma FailStuck_reliable:
  assumes "reliable db"
  shows "FailStuckRunningRuns r c t db =
    (Inr (length (filter (is_stuck c (db_now db - t) db) (t_pipeline_runs db))),
     db\<lparr>t_pipeline_runs := map (\<lambda>s. if is_stuck c (db_now db - t) db s
       then s\<lparr>r_Status := ''failed'', r_CompletedAt := Some (db_now db), r_ErrorMessage := stuckMessage\<rparr> else s) (t_pipeline_runs db)\<rparr>)"
  using assms by (simp add: FailStuckRunningRuns_def update_runs_def sql_reliable wrapErr_def)

lemma failed_not_stuck: "\<not> is_stuck c k db (s\<lparr>r_Status := ''failed'', r_CompletedAt := x, r_ErrorMessage := y\<rparr>)"
  by (auto simp: is_stuck_def split: option.splits)



text \<open>
  C28. A Google grant is redeemed at most once, by the workspace it was minted for, and not after it expired:
  what is returned is an unexpired grant of that workspace, and from then on redeeming it finds nothing.
\<close>

theorem grant_single_use:
  assumes "ConsumeGoogleOAuthGrant_pg r g c db = (Inr x, db')" "reliable db'" "db_now db \<le> n"
  shows "gr_GrantID x = g \<and> gr_CustomerSlug x = c \<and> db_now db < gr_ExpiresAt x \<and>
    fst (ConsumeGoogleOAuthGrant_pg r g c (db'\<lparr>db_now := n\<rparr>)) = Inl ErrOAuthGrantNotFound"
proof -
  from assms(1) obtain ls d where d: "find (redeemable g c (db\<lparr>db_link := ls\<rparr>)) (t_grants db) = Some d"
    "gr_GrantID x = gw_grant_id d" "gr_CustomerSlug x = gw_customer_slug d" "gr_ExpiresAt x = gw_expires_at d"
    and t: "db' = db\<lparr>db_link := ls, t_grants := filter (\<lambda>d. \<not> redeemable g c (db\<lparr>db_link := ls\<rparr>) d) (t_grants db)\<rparr>"
    unfolding ConsumeGoogleOAuthGrant_pg_def by (auto simp: andThen_Inr elim!: sqlE split: option.splits)
  have rd: "redeemable g c (db\<lparr>db_link := ls\<rparr>) d" using d(1) by (auto simp: find_Some_iff)
  have "find (redeemable g c (db'\<lparr>db_now := n\<rparr>)) (t_grants db') = None"
    unfolding find_None_iff t using assms(3) by (auto simp: redeemable_def)
  then have "fst (ConsumeGoogleOAuthGrant_pg r g c (db'\<lparr>db_now := n\<rparr>)) = Inl ErrOAuthGrantNotFound"
    using assms(2) by (simp add: ConsumeGoogleOAuthGrant_pg_def andThen_def wrapErr_def sql_def reliable_def fail_def)
  with rd d show ?thesis by (simp add: redeemable_def)
qed

theorem grant_single_use_witness:
  "\<exists>x db'. ConsumeGoogleOAuthGrant_pg plainRepo ''g1'' ''acme'' exampleStore = (Inr x, db') \<and> gr_RefreshToken x = ''rt'' \<and>
     fst (ConsumeGoogleOAuthGrant_pg plainRepo ''g1'' ''acme'' (db'\<lparr>db_now := 8000000000000\<rparr>)) = Inl ErrOAuthGrantNotFound"
proof -
  obtain x db' where c: "ConsumeGoogleOAuthGrant_pg plainRepo ''g1'' ''acme'' exampleStore = (Inr x, db')" "gr_RefreshToken x = ''rt''" "reliable db'"
    by (simp add: ConsumeGoogleOAuthGrant_pg_def andThen_def wrapErr_def sql_def exampleStore_def redeemable_def lift_def decryptCredentials_def
        plainRepo_def ret_def reliable_def)
  with grant_single_use [OF c(1,3), of 8000000000000] show ?thesis by (auto simp: exampleStore_def)
qed

end
