(* ===== verification/ServiceProperties.thy ===== *)
theory ServiceProperties
  imports Example StoreProperties
begin

section \<open>Properties of the pipeline service\<close>

text \<open>
  What the Console's and the worker's operations do on a box whose database answers: who sees which
  pipeline, what a trigger and a report change, and that saves are all or nothing.
\<close>

subsection \<open>The tenancy gate\<close>


text \<open>The tenancy gate on a database that answers.\<close>

lemma ownedPipeline_box:
  assumes "reliable w" "admitted (bc_Workspace B) u"
  shows "ownedPipeline (boxPipelines B) u i w =
    (case find_pipeline i w of
       None \<Rightarrow> (Inl (Errorf ''get pipeline'' ErrPipelineNotFound), w)
     | Some s \<Rightarrow>
         (case decryptCredentials (bc_Repository B) (pr_source_credentials s) of
            Inl e \<Rightarrow> (Inl (Errorf ''get pipeline'' (Errorf ''postgres: decrypt credentials'' e)), w)
          | Inr c \<Rightarrow>
              (if pr_customer_slug s = ws_Slug (bc_Workspace B)
               then (Inr (bc_Workspace B, (scan_pipeline s)\<lparr>p_SourceCredentials := c\<rparr>), w)
               else (Inl ErrPipelineNotFound, w))))"
  using assms
  by (simp add: ownedPipeline_def by_user_admitted andThen_def wrapErr_def ret_def GetPipeline_pg_def query_reliable lift_def fail_def
      split: option.splits sum.splits)



subsection \<open>Runs\<close>

lemma scan_enabled_pending:
  "scan_enabled r rows = Inr ps \<Longrightarrow>
   map (\<lambda>p. (p_ID p, p_PendingRunID p, p_TriggerNow p)) ps = map (\<lambda>(row, pend, _). (pr_id row, pend, pend \<noteq> [])) rows"
  by (induction r rows arbitrary: ps rule: scan_enabled.induct) (auto split: sum.splits)

text \<open>A run that is pending is what the poll serves its pipeline with, enabled or paused.\<close>

lemma pending_served:
  assumes "GetEnabledPipelines_pg r c db = (Inr ps, db')" "owned_by c db i" "pending_run i db = Some run"
  shows "\<exists>p \<in> set ps. p_ID p = i \<and> p_PendingRunID p = r_ID run \<and> (p_TriggerNow p \<longleftrightarrow> r_ID run \<noteq> [])"
proof -
  from assms(1) obtain ls where s: "scan_enabled r (enabled_rows c (db\<lparr>db_link := ls\<rparr>)) = Inr ps"
    by (auto simp: GetEnabledPipelines_pg_def andThen_Inr dest!: query_Inr)
  from assms(2) obtain row where row: "find_pipeline i db = Some row" "pr_customer_slug row = c" by (auto simp: owned_by_def split: option.splits)
  have pend: "pending_run j (db\<lparr>db_link := ls\<rparr>) = pending_run j db" for j by (simp add: pending_run_def)
  have "pr_id row = i" "row \<in> set (t_pipelines db)" using find_pipeline_Some [OF row(1)] by auto
  then have "(row, r_ID run, last_success i db) \<in> set (enabled_rows c (db\<lparr>db_link := ls\<rparr>))"
    using row(2) assms(3) by (force simp: enabled_rows_def pend last_success_def)
  then have "(i, r_ID run, r_ID run \<noteq> []) \<in> set (map (\<lambda>(row, pend, _). (pr_id row, pend, pend \<noteq> [])) (enabled_rows c (db\<lparr>db_link := ls\<rparr>)))"
    using \<open>pr_id row = i\<close> by force
  then show ?thesis unfolding scan_enabled_pending [OF s, symmetric] by auto
qed

lemma oldest_run_Some: "oldest_run rs = Some x \<Longrightarrow> x \<in> set rs"
proof -
  assume "oldest_run rs = Some x"
  then obtain ys where "sort_key r_CreatedAt rs = x # ys" by (auto simp: oldest_run_def split: list.splits)
  then have "x \<in> set (sort_key r_CreatedAt rs)" by simp
  then show ?thesis by simp
qed

lemma oldest_run_None: "oldest_run rs = None \<longleftrightarrow> rs = []"
proof -
  have "sort_key r_CreatedAt rs = [] \<longleftrightarrow> rs = []" using length_sort [of r_CreatedAt rs] by (metis length_0_conv)
  then show ?thesis by (auto simp: oldest_run_def split: list.splits)
qed

lemma insert_run_Inr:
  assumes "insert_run run db = (Inr i, db')" "reliable db"
  shows "t_pipeline_runs db' = t_pipeline_runs db @ [run\<lparr>r_ID := i\<rparr>] \<and> t_pipelines db' = t_pipelines db \<and> reliable db' \<and>
    i = (if r_ID run = [] then db_gen db (db_next db) else r_ID run)"
  using assms by (auto simp: insert_run_def sql_reliable Let_def reliable_def split: if_splits)

lemma CreatePipelineRun_Inr:
  assumes "CreatePipelineRun_pg r run db = (Inr run', db')" "reliable db"
  shows "t_pipeline_runs db' = t_pipeline_runs db @ [run'] \<and> t_pipelines db' = t_pipelines db \<and> reliable db' \<and>
    run' = run\<lparr>r_ID := r_ID run', r_CreatedAt := r_CreatedAt run'\<rparr>"
  using assms by (auto simp: CreatePipelineRun_pg_def Let_def andThen_Inr dest!: insert_run_Inr)

lemma TriggerPipeline_Inr:
  assumes "reliable w" "TriggerPipeline (boxPipelines B) u i w = (Inr run, w')"
  shows "admitted (bc_Workspace B) u \<and> owned_by (ws_Slug (bc_Workspace B)) w i \<and> pending_run i w' = Some run \<and> t_pipelines w' = t_pipelines w \<and>
    reliable w' \<and> (pending_run i w = None \<longrightarrow> t_pipeline_runs w' = t_pipeline_runs w @ [run]) \<and> (pending_run i w \<noteq> None \<longrightarrow> w' = w)"
proof -
  have adm: "admitted (bc_Workspace B) u"
    using assms(2) by (auto simp: TriggerPipeline_def ownedPipeline_def by_user_admitted andThen_Inr split: if_splits)
  from assms(2) obtain x w1 where o: "ownedPipeline (boxPipelines B) u i w = (Inr x, w1)" by (auto simp: TriggerPipeline_def andThen_Inr)
  have own: "owned_by (ws_Slug (bc_Workspace B)) w i" "w1 = w"
    using o ownedPipeline_box [OF assms(1) adm, of i] by (auto simp: owned_by_def split: option.splits sum.splits if_splits)
  have pend: "GetPendingRun_pg (bc_Repository B) i w = (Inr (pending_run i w), w)"
    using assms(1) by (simp add: GetPendingRun_pg_def wrapErr_def query_reliable)
  show ?thesis
  proof (cases "pending_run i w")
    case (Some r)
    then show ?thesis using assms o own adm pend by (auto simp: TriggerPipeline_def andThen_def wrapErr_def)
  next
    case None
    then have cr: "CreatePipelineRun_pg (bc_Repository B) \<lparr>r_ID = [], r_PipelineID = i, r_Status = ''pending'', r_StartedAt = None, r_CompletedAt = None,
        r_RowsLoaded = 0, r_ErrorMessage = [], r_CreatedAt = bx_clock w\<rparr> w = (Inr run, w')"
      using assms o own pend by (auto simp: TriggerPipeline_def andThen_def wrapErr_def split: prod.splits sum.splits)
    note c = CreatePipelineRun_Inr [OF cr assms(1)]
    have eq: "run = \<lparr>r_ID = [], r_PipelineID = i, r_Status = ''pending'', r_StartedAt = None, r_CompletedAt = None,
        r_RowsLoaded = 0, r_ErrorMessage = [], r_CreatedAt = bx_clock w\<rparr>\<lparr>r_ID := r_ID run, r_CreatedAt := r_CreatedAt run\<rparr>" using c by simp
    have run: "r_PipelineID run = i" "r_Status run = ''pending''" by (subst eq, simp)+
    have none: "filter (\<lambda>r. r_Status r = ''pending'') (runs_of i w) = []"
      using None by (simp add: pending_run_def oldest_run_None)
    have "pending_run i w' = Some run" using c none run by (simp add: pending_run_def runs_of_def oldest_run_def)
    then show ?thesis using c None own(1) adm by simp
  qed
qed




lemma notifyRun_runs: "silent t_pipeline_runs (notifyRun (boxPipelines B) run)"
proof -
  have ext: "keeps (\<lambda>w. t_pipeline_runs w = H) (onExt m)" for m :: "('a, 'b) io" and H
    by (rule safeI) (auto simp: onExt_def split: prod.splits)
  have get: "keeps (\<lambda>w. t_pipeline_runs w = H) (GetPipeline_pg (bc_Repository B) i)" for i H
    by (rule safeI) (auto dest!: GetPipeline_snap snap_fields(2))
  have bell: "keeps (\<lambda>w. t_pipeline_runs w = H) (Notify_service (boxNotifications B) n)" for n H
  proof (rule Notify_service_safe, goal_cases)
    case (1 m)
    show ?case unfolding boxNotifications_def pg_notifications_def
      by (intro safeI) (auto simp: CreateNotification_pg_def insert_notification_def Let_def wrapErr_def split: prod.splits sum.splits if_splits elim!: sqlE)
  next
    case (2 p m)
    then show ?case
      by (intro safeI) (auto simp: boxNotifications_def PublishNotification_def wrapErr_def split: prod.splits sum.splits if_splits elim!: sqlE)
  next
    case (3 c f)
    then show ?case by (intro safeI) (auto simp: boxNotifications_def onBroker_def boxBroker_def split: sum.splits)
  qed
  show ?thesis unfolding silent_keeps notifyRun_def publishRunNotification_def alertRunFailure_def boxPipelines_sel pg_repo_sel
    by (auto simp: boxNotifier_def liftAlerter_def split: option.splits sum.splits
        intro!: safe_ret safe_attempt [OF get] safe_andThen [where P = "\<lambda>_. True"] safe_attempt [OF ext] safe_attempt [OF bell])
qed

definition elsewhere :: "string \<Rightarrow> 'a pgdb_scheme \<Rightarrow> PipelineRun list" where
  "elsewhere i db = filter (\<lambda>r. r_PipelineID r \<noteq> i) (t_pipeline_runs db)"

lemma update_runs_elsewhere:
  assumes "update_runs P f db = (x, db')" "\<And>s. P s \<Longrightarrow> r_PipelineID s = i" "\<And>s. r_PipelineID (f s) = r_PipelineID s"
  shows "elsewhere i db' = elsewhere i db"
proof -
  have "filter (\<lambda>r. r_PipelineID r \<noteq> i) (map (\<lambda>r. if P r then f r else r) rs) = filter (\<lambda>r. r_PipelineID r \<noteq> i) rs" for rs
    using assms(2,3) by (induction rs) auto
  with assms(1) show ?thesis unfolding update_runs_def elsewhere_def by (cases rule: sqlE) auto
qed

lemma UpdateRun_elsewhere: "UpdatePipelineRun_pg r run db = (x, db') \<Longrightarrow> elsewhere (r_PipelineID run) db' = elsewhere (r_PipelineID run) db"
  by (auto simp: UpdatePipelineRun_pg_def andThen_def wrapErr_def split: prod.splits sum.splits if_splits dest!: update_runs_elsewhere)

lemma CreateRun_elsewhere: "CreatePipelineRun_pg r run db = (x, db') \<Longrightarrow> elsewhere (r_PipelineID run) db' = elsewhere (r_PipelineID run) db"
  by (auto simp: CreatePipelineRun_pg_def insert_run_def Let_def andThen_def wrapErr_def elsewhere_def split: prod.splits sum.splits if_splits elim!: sqlE)

lemma recordRun_elsewhere: "silent (elsewhere (r_PipelineID run)) (recordRun (boxPipelines B) run)"
proof -
  have c: "keeps (\<lambda>w. elsewhere (r_PipelineID run) w = H) (CreatePipelineRun_pg (bc_Repository B) run)" for H
    by (rule safeI) (auto dest: CreateRun_elsewhere)
  have u: "keeps (\<lambda>w. elsewhere (r_PipelineID run) w = H) (UpdatePipelineRun_pg (bc_Repository B) run)" for H
    by (rule safeI) (auto dest: UpdateRun_elsewhere)
  show ?thesis unfolding silent_keeps recordRun_def boxPipelines_sel pg_repo_sel
    by (auto intro!: safe_if safe_attempt [OF u] safe_andThen [OF safe_wrapErr [OF c]] safe_ret safe_fail)
qed

text \<open>What a report stores.\<close>

definition reported :: "PipelineRun \<Rightarrow> PipelineRun \<Rightarrow> bool" where
  "reported run s \<longleftrightarrow> r_PipelineID s = r_PipelineID run \<and> r_Status s = r_Status run \<and> r_RowsLoaded s = r_RowsLoaded run \<and>
     r_ErrorMessage s = r_ErrorMessage run \<and> (r_ID run \<noteq> [] \<longrightarrow> r_ID s = r_ID run)"

lemma UpdateRun_reported:
  assumes "UpdatePipelineRun_pg r run db = (Inr (), db')"
  shows "\<exists>s \<in> set (t_pipeline_runs db'). reported run s"
proof -
  let ?P = "\<lambda>s. r_ID s = r_ID run \<and> r_PipelineID s = r_PipelineID run"
  from assms obtain n where "update_runs ?P (\<lambda>s. s\<lparr>r_Status := r_Status run, r_StartedAt := coalesce (r_StartedAt run) (r_StartedAt s),
      r_CompletedAt := coalesce (r_CompletedAt run) (r_CompletedAt s), r_RowsLoaded := r_RowsLoaded run, r_ErrorMessage := r_ErrorMessage run\<rparr>) db = (Inr n, db')"
    and n: "n \<noteq> 0" by (auto simp: UpdatePipelineRun_pg_def andThen_Inr split: if_splits)
  then obtain s where s: "s \<in> set (t_pipeline_runs db)" "?P s"
    and t: "t_pipeline_runs db' = map (\<lambda>s. if ?P s then s\<lparr>r_Status := r_Status run, r_StartedAt := coalesce (r_StartedAt run) (r_StartedAt s),
      r_CompletedAt := coalesce (r_CompletedAt run) (r_CompletedAt s), r_RowsLoaded := r_RowsLoaded run, r_ErrorMessage := r_ErrorMessage run\<rparr> else s) (t_pipeline_runs db)"
    unfolding update_runs_def by (cases rule: sqlE) (auto simp: filter_empty_conv)
  show ?thesis unfolding t set_map by (rule bexI [OF _ imageI [OF s(1)]]) (simp add: s(2) reported_def)
qed

lemma CreateRun_reported:
  assumes "CreatePipelineRun_pg r run db = (Inr run', db')"
  shows "\<exists>s \<in> set (t_pipeline_runs db'). reported run s"
proof -
  have "\<exists>s \<in> set (t_pipeline_runs db'). reported run s" if "insert_run (run\<lparr>r_CreatedAt := t\<rparr>) db = (Inr i, db')" for t i
    using that unfolding insert_run_def by (cases rule: sqlE) (auto simp: Let_def reported_def split: if_splits)
  moreover have "(if r_CreatedAt run = 0 then run\<lparr>r_CreatedAt := db_now db\<rparr> else run) =
      run\<lparr>r_CreatedAt := if r_CreatedAt run = 0 then db_now db else r_CreatedAt run\<rparr>" by simp
  moreover obtain i where "insert_run (if r_CreatedAt run = 0 then run\<lparr>r_CreatedAt := db_now db\<rparr> else run) db = (Inr i, db')"
    using assms unfolding CreatePipelineRun_pg_def Let_def by (auto simp: andThen_Inr simp del: if_split)
  ultimately show ?thesis by metis
qed

lemma recordRun_reported: "recordRun (boxPipelines B) run w = (Inr (), w') \<Longrightarrow> \<exists>s \<in> set (t_pipeline_runs w'). reported run s"
  by (auto simp: recordRun_def attempt_def andThen_Inr split: if_splits prod.splits sum.splits
      dest: UpdateRun_reported CreateRun_reported)

lemma report_effect:
  assumes "ReportPipelineRun (boxPipelines B) c run w = (x, w')"
  shows "elsewhere (r_PipelineID run) w' = elsewhere (r_PipelineID run) w \<and>
    (c \<noteq> [] \<and> \<not> owned_by c w (r_PipelineID run) \<longrightarrow> (\<exists>e. x = Inl e) \<and> t_pipeline_runs w' = t_pipeline_runs w) \<and>
    (x = Inr () \<longrightarrow> (\<exists>s \<in> set (t_pipeline_runs w'). reported run s))"
proof -
  let ?gate = "if c = [] then ret () else andThen (wrapErr ''get pipeline'' (GetPipeline_pg (bc_Repository B) (r_PipelineID run)))
      (\<lambda>p. if p_CustomerSlug p \<noteq> c then fail ErrPipelineNotFound else ret ())"
  obtain y w1 where g: "?gate w = (y, w1)" by fastforce
  have w1: "snap w1 = snap w"
    using g by (auto simp: andThen_def wrapErr_def split: if_splits prod.splits sum.splits dest!: GetPipeline_snap)
  have own: "c = [] \<or> owned_by c w (r_PipelineID run)" if "y = Inr ()"
    using g that by (auto simp: andThen_Inr owned_by_def scan_pipeline_fields split: if_splits option.splits elim!: GetPipeline_Inr)
  have rest: "ReportPipelineRun (boxPipelines B) c run w = (case y of Inl e \<Rightarrow> (Inl e, w1)
      | Inr _ \<Rightarrow> andThen (recordRun (boxPipelines B) run) (\<lambda>_. notifyRun (boxPipelines B) run) w1)"
    using g unfolding ReportPipelineRun_def boxPipelines_sel pg_repo_sel by (simp add: andThen_def [of ?gate] split: sum.splits)
  show ?thesis
  proof (cases y)
    case (Inl e)
    then have "x = Inl e" "w' = w1" using assms rest by simp_all
    then show ?thesis using snap_fields(2) [OF w1] by (simp add: elsewhere_def)
  next
    case (Inr z)
    obtain v w2 where r: "recordRun (boxPipelines B) run w1 = (v, w2)" by fastforce
    have "t_pipeline_runs w' = t_pipeline_runs w2" "x = Inr () \<Longrightarrow> v = Inr ()"
      using assms rest Inr r silentD [OF notifyRun_runs] by (auto simp: andThen_def split: sum.splits)
    then show ?thesis using silentD [OF recordRun_elsewhere r] recordRun_reported own Inr snap_fields(2) [OF w1] r
      by (auto simp: elsewhere_def)
  qed
qed



subsection \<open>Saving\<close>

lemma commitMirror_rows: "keeps (\<lambda>w. same_rows X w \<and> answers J w) (commitMirror (boxPipelines B) u (ws_Slug (bc_Workspace B)))"
proof -
  have a: "keeps (same_rows X) (resolveCommitAuthor (ps_Users (boxPipelines B)) u)" for X
    unfolding resolveCommitAuthor_def Let_def boxPipelines_sel
    by (rule safe_rules quiet_same_rows [OF onExt_quiet] TrueI | simp)+
  have b: "keeps (answers J) (resolveCommitAuthor (ps_Users (boxPipelines B)) u)"
    unfolding resolveCommitAuthor_def Let_def boxPipelines_sel
    by (rule safe_rules onExt_reliable TrueI | simp)+
  show ?thesis unfolding commitMirror_def boxPipelines_sel option.case PipelineMirrorer.select_convs
    by (intro safe_conj safe_andThen [OF a [unfolded boxPipelines_sel]] safe_andThen [OF b [unfolded boxPipelines_sel]] safe_wrapErr row_mirror.SyncCustomer_safe link_mirror.SyncCustomer_safe)
qed

lemma swap_quiet: "quiet (swapGoogleOAuthGrant (boxPipelines B) c p)"
  unfolding swapGoogleOAuthGrant_def checkGoogleConnection_def boxPipelines_sel
  by (auto simp: pg_connections_def pg_grants_def split: option.splits intro!: quiet_rules)

lemma swap_reliable: "keeps (answers J) (swapGoogleOAuthGrant (boxPipelines B) c p)"
  unfolding swapGoogleOAuthGrant_def checkGoogleConnection_def boxPipelines_sel
  by (auto simp: pg_connections_def pg_grants_def split: option.splits sum.splits
      intro!: safe_andThen [where P = "\<lambda>_. True"] safe_attempt [where P = "\<lambda>_. True"] safe_wrapErr safe_if reliable_rules)

lemma swap_key:
  "swapGoogleOAuthGrant (boxPipelines B) c p w = (Inr q, w') \<Longrightarrow>
   p_ID q = p_ID p \<and> p_CustomerSlug q = p_CustomerSlug p \<and> p_Name q = p_Name p \<and>
   q = p\<lparr>p_SourceCredentials := p_SourceCredentials q\<rparr> \<and> (googleGrantID (p_SourceType p) (p_SourceCredentials p) = None \<longrightarrow> q = p)"
  by (auto simp: swapGoogleOAuthGrant_def andThen_Inr attempt_def split: option.splits sum.splits prod.splits if_splits)

lemma Create_table:
  assumes "CreatePipeline_pg r p db = (x, db')"
  shows "(\<exists>e. x = Inl e \<and> t_pipelines db' = t_pipelines db) \<or>
    (\<exists>q s. x = Inr q \<and> q = p\<lparr>p_ID := p_ID q\<rparr> \<and> t_pipelines db' = t_pipelines db @ [s] \<and> pr_id s = p_ID q \<and> p_ID q \<notin> pr_id ` set (t_pipelines db) \<and>
       pr_customer_slug s = p_CustomerSlug p \<and> pr_name s = p_Name p \<and> pr_source_type s = p_SourceType p \<and> pr_enabled s = p_Enabled p)"
proof (cases x)
  case (Inl e)
  then show ?thesis using assms snap_fields(1) [OF CreatePipeline_Inl] by auto
next
  case (Inr q)
  with assms have c: "CreatePipeline_pg r p db = (Inr q, db')" by simp
  then obtain enc db1 where e: "encryptCredentials r (p_SourceCredentials p) db = (Inr enc, db1)"
    and i: "insert_pipeline None (new_row p enc) db1 = (Inr (p_ID q), db')" "q = p\<lparr>p_ID := p_ID q\<rparr>" by (rule CreatePipeline_Inr)
  from i(1) obtain c s where s: "s = (new_row p enc)\<lparr>pr_id := p_ID q, pr_source_config := c\<rparr>"
    "\<not> list_ex (takes_key s) (t_pipelines db1)" "snap db' = snap (db1\<lparr>t_pipelines := t_pipelines db1 @ [s]\<rparr>)" by (rule insert_pipeline_Inr)
  have "t_pipelines db' = t_pipelines db @ [s]" using snap_fields(1) [OF s(3)] snap_fields(1) [OF encrypt_snap [OF e]] by simp
  moreover have "p_ID q \<notin> pr_id ` set (t_pipelines db)"
    using s(1,2) snap_fields(1) [OF encrypt_snap [OF e]] by (auto simp: list_ex_takes_key)
  ultimately show ?thesis using Inr i(2) s(1) by (auto simp: new_row_def pipeline_columns_def)
qed

lemma Delete_reliable_rows:
  assumes "DeletePipeline_pg r i db = (x, db')" "reliable db"
  shows "t_pipelines db' = filter (\<lambda>s. pr_id s \<noteq> i) (t_pipelines db)"
proof -
  have "t_pipelines db = filter (\<lambda>s. pr_id s \<noteq> i) (t_pipelines db)" if "find_pipeline i db = None"
    by (rule filter_True [symmetric]) (use that in \<open>auto simp: find_pipeline_None\<close>)
  then show ?thesis using assms
    by (auto simp: DeletePipeline_pg_def delete_pipeline_def andThen_def wrapErr_def sql_reliable ret_def fail_def split: if_splits)
qed

definition unmark :: "prow \<Rightarrow> prow" where "unmark r = r\<lparr>pr_credentials_external := False\<rparr>"

lemma unmarked_unmark: "unmarked db = map unmark (t_pipelines db)"
  by (simp add: unmarked_def unmark_def)

lemma unmark_key [simp]: "pr_id (unmark r) = pr_id r" "pr_customer_slug (unmark r) = pr_customer_slug r" "pr_name (unmark r) = pr_name r"
  "pr_source_credentials (unmark r) = pr_source_credentials r"
  by (simp_all add: unmark_def)

text \<open>The table after an insert, up to the mark: what there was, and the new row.\<close>

definition grown :: "(raw \<Rightarrow> raw option) \<Rightarrow> prow list \<Rightarrow> Pipeline \<Rightarrow> prow \<Rightarrow> 'a pgdb_scheme \<Rightarrow> bool" where
  "grown J X p s db \<longleftrightarrow> same_rows (X @ [s]) db \<and> answers J db \<and> pr_id s = p_ID p \<and> p_ID p \<notin> pr_id ` set X \<and>
     pr_customer_slug s = p_CustomerSlug p \<and> pr_name s = p_Name p"

lemma Create_triple:
  "triple (\<lambda>w. same_rows X w \<and> answers J w) (CreatePipeline_pg r p) (\<lambda>q w. \<exists>s. grown J X q s w) (\<lambda>_ w. same_rows X w \<and> answers J w)"
proof (rule tripleI)
  fix w q w' assume w: "same_rows X w \<and> answers J w" and c: "CreatePipeline_pg r p w = (Inr q, w')"
  have rel: "answers J w'" using safeD [OF reliable_writes(1) _ c] w by simp
  from Create_table [OF c] obtain s where s: "q = p\<lparr>p_ID := p_ID q\<rparr>" "t_pipelines w' = t_pipelines w @ [s]" "pr_id s = p_ID q"
    "p_ID q \<notin> pr_id ` set (t_pipelines w)" "pr_customer_slug s = p_CustomerSlug p" "pr_name s = p_Name p" by auto
  have q: "p_CustomerSlug q = p_CustomerSlug p" "p_Name q = p_Name p" by (subst s(1), simp)+
  have "pr_id ` set X = pr_id ` set (t_pipelines w)" using w by (auto simp: unmarked_unmark image_image)
  then have "grown J X q (unmark s) w'" using s q rel w by (auto simp: grown_def unmarked_unmark)
  then show "\<exists>s. grown J X q s w'" ..
next
  fix w e w' assume w: "same_rows X w \<and> answers J w" and c: "CreatePipeline_pg r p w = (Inl e, w')"
  then show "same_rows X w' \<and> answers J w'"
    using Create_table [OF c] safeD [OF reliable_writes(1) _ c] by (auto simp: unmarked_def)
qed

lemma Delete_grown: "triple (grown J X q s) (DeletePipeline_pg r (p_ID q)) (\<lambda>_. same_rows X) (\<lambda>_. same_rows X)"
proof -
  have "same_rows X w'" if "grown J X q s w" "DeletePipeline_pg r (p_ID q) w = (x, w')" for w w' and x :: "err + unit"
  proof -
    have "unmarked w' = filter (\<lambda>s. pr_id s \<noteq> p_ID q) (unmarked w)"
      using Delete_reliable_rows [OF that(2)] that(1) unfolding unmarked_unmark by (simp add: grown_def answers_def filter_map comp_def)
    also have "\<dots> = X" using that(1) by (auto simp: grown_def image_iff intro!: filter_True)
    finally show ?thesis .
  qed
  then show ?thesis by (intro tripleI) blast+
qed


definition newPipeline :: Pipeline where
  "newPipeline = examplePipeline\<lparr>p_SourceConfig := exampleConfig\<rparr>"

lemma exampleWorld_reliable: "reliable exampleWorld"
  by (simp add: reliable_def exampleWorld_def)


end
