(* ===== verification/UpdateProperties.thy ===== *)
theory UpdateProperties
  imports ServiceProperties
begin

section \<open>Updating a pipeline\<close>

text \<open>
  An update saves the pipeline or leaves every row reading as before; what a failed update or delete does not put
  back is shown on the example.
\<close>

text \<open>What the repository returns for a row, up to the ownership mark: its columns and its credentials, decrypted.\<close>

definition secret_view :: "Repository \<Rightarrow> prow \<Rightarrow> prow \<times> (err + raw)" where
  "secret_view r s = (s\<lparr>pr_source_credentials := [], pr_credentials_external := False\<rparr>, decryptCredentials r (pr_source_credentials s))"

lemma secret_view_unmark [simp]: "secret_view r (unmark s) = secret_view r s"
  by (simp add: secret_view_def unmark_def)

lemma secret_view_unmarked: "map (secret_view r) (unmarked db) = map (secret_view r) (t_pipelines db)"
  by (simp add: unmarked_unmark comp_def)

text \<open>The table with the row of \<open>s0\<close> replaced by \<open>n\<close>, up to the mark.\<close>

definition replaced :: "(raw \<Rightarrow> raw option) \<Rightarrow> prow list \<Rightarrow> prow \<Rightarrow> prow \<Rightarrow> 'a pgdb_scheme \<Rightarrow> bool" where
  "replaced J T s0 n db \<longleftrightarrow> same_rows (map (\<lambda>s. if pr_id s = pr_id s0 then n else unmark s) T) db \<and> answers J db \<and>
     pr_id n = pr_id s0 \<and> pr_customer_slug n = pr_customer_slug s0 \<and> pr_created_at n = pr_created_at s0"

lemma replaced_rows:
  assumes "replaced J T s0 n db"
  shows "list_all2 (\<lambda>d s. pr_id d = pr_id s \<and> unmark d = (if pr_id s = pr_id s0 then n else unmark s)) (t_pipelines db) T"
proof -
  have "list_all2 (\<lambda>d s. unmark d = (if pr_id s = pr_id s0 then n else unmark s)) (t_pipelines db) T"
    using assms by (simp add: replaced_def unmarked_unmark list_eq_iff_nth_eq list_all2_conv_all_nth)
  then show ?thesis
  proof (rule list.rel_mono_strong)
    fix d s assume "unmark d = (if pr_id s = pr_id s0 then n else unmark s)"
    then show "pr_id d = pr_id s \<and> unmark d = (if pr_id s = pr_id s0 then n else unmark s)"
      using assms unmark_key(1) [of d] unmark_key(1) [of s] by (auto simp: replaced_def split: if_splits)
  qed
qed

lemma replaced_find:
  assumes "replaced J T s0 n db" "s0 \<in> set T" "distinct (map pr_id T)"
  shows "\<exists>d. find_pipeline (pr_id s0) db = Some d \<and> unmark d = n"
proof -
  note rel = replaced_rows [OF assms(1)]
  from list_all2_member2 [OF rel assms(2)] obtain d where "d \<in> set (t_pipelines db)" "pr_id d = pr_id s0" by auto
  then obtain d where d: "find_pipeline (pr_id s0) db = Some d" using find_pipeline_member by metis
  then show ?thesis using list_all2_member1 [OF rel, of d] find_pipeline_Some [OF d] by auto
qed

text \<open>No other row of the table takes the key the row had.\<close>

lemma replaced_free:
  assumes "replaced J T s0 n db" "s0 \<in> set T" "distinct (map (\<lambda>s. (pr_customer_slug s, pr_name s)) T)"
    "pr_id r' = pr_id s0" "pr_customer_slug r' = pr_customer_slug s0" "pr_name r' = pr_name s0"
  shows "\<not> list_ex (\<lambda>s. pr_id s \<noteq> pr_id s0 \<and> takes_key r' s) (t_pipelines db)"
proof
  assume "list_ex (\<lambda>s. pr_id s \<noteq> pr_id s0 \<and> takes_key r' s) (t_pipelines db)"
  then obtain d where d: "d \<in> set (t_pipelines db)" "pr_id d \<noteq> pr_id s0" "pr_customer_slug d = pr_customer_slug s0" "pr_name d = pr_name s0"
    using assms by (auto simp: list_ex_iff takes_key_def)
  then obtain s where s: "s \<in> set T" "pr_id s = pr_id d" "unmark d = unmark s"
    using list_all2_member1 [OF replaced_rows [OF assms(1)] d(1)] by auto
  then have "(pr_customer_slug s, pr_name s) = (pr_customer_slug s0, pr_name s0)" using d by (metis unmark_key(2,3))
  then have "s = s0" using s(1) assms(2,3) by (simp add: distinct_map inj_on_def)
  then show False using d(2) s(2) by simp
qed

text \<open>Writing a row back as it was read restores it, whatever the row holds in between.\<close>

lemma Update_restores:
  assumes "UpdatePipeline_pg r ((scan_pipeline s0)\<lparr>p_SourceCredentials := c\<rparr>) db = (x, db')" "repo_ok r"
    "decryptCredentials r (pr_source_credentials s0) = Inr c" "J (pr_source_config s0) = Some (pr_source_config s0)"
    "replaced J T s0 n db" "s0 \<in> set T" "distinct (map pr_id T)" "distinct (map (\<lambda>s. (pr_customer_slug s, pr_name s)) T)"
  shows "map (secret_view r) (t_pipelines db') = map (secret_view r) T"
proof -
  let ?p = "(scan_pipeline s0)\<lparr>p_SourceCredentials := c\<rparr>"
  have db: "answers J db" using assms(5) by (simp add: replaced_def)
  from assms(1) obtain enc db1 y where e: "encryptCredentials r (p_SourceCredentials ?p) db = (Inr enc, db1)" "snap db1 = snap db"
    and u: "update_pipeline (p_ID ?p) (pipeline_columns ?p enc) db1 = (y, db')" by (rule UpdatePipeline_cases)
  have rel1: "answers J db1" using safeD [OF reliable_encrypt db e(1)] .
  from replaced_find [OF assms(5-7)] obtain d where d: "find_pipeline (pr_id s0) db = Some d" "unmark d = n" by blast
  define r' where "r' = (pipeline_columns ?p enc d)\<lparr>pr_source_config := pr_source_config s0\<rparr>"
  have cols: "pr_id d = pr_id s0" "pr_customer_slug d = pr_customer_slug s0" "pr_created_at d = pr_created_at s0"
    using d(2) assms(5) by (auto simp: replaced_def unmark_def)
  have key: "pr_id r' = pr_id s0" "pr_customer_slug r' = pr_customer_slug s0" "pr_name r' = pr_name s0"
    using cols by (simp_all add: r'_def pipeline_columns_def scan_pipeline_def)
  have view: "secret_view r r' = secret_view r s0"
    using decrypt_encrypt [OF assms(2) e(1)] assms(3) cols
    by (simp add: secret_view_def r'_def pipeline_columns_def scan_pipeline_def)
  have t': "t_pipelines db' = map (\<lambda>s. if pr_id s = pr_id s0 then r' else s) (t_pipelines db)"
    using u d(1) assms(4) replaced_free [OF assms(5,6,8) key] rel1 snap_fields(1) [OF e(2)] find_pipeline_snap [OF e(2)]
    by (auto simp: update_pipeline_def sql_reliable update_row_def r'_def pipeline_columns_def scan_pipeline_def Let_def answers_def)
  have "list_all2 (\<lambda>d s. secret_view r (if pr_id d = pr_id s0 then r' else d) = secret_view r s) (t_pipelines db) T"
  proof (rule list.rel_mono_strong [OF replaced_rows [OF assms(5)]])
    fix d s assume s: "s \<in> set T" "pr_id d = pr_id s \<and> unmark d = (if pr_id s = pr_id s0 then n else unmark s)"
    then have "pr_id s = pr_id s0 \<Longrightarrow> s = s0" using assms(6,7) by (simp add: distinct_map inj_on_def)
    with s show "secret_view r (if pr_id d = pr_id s0 then r' else d) = secret_view r s"
      using view secret_view_unmark by (metis (full_types))
  qed
  then show ?thesis unfolding t' by (simp add: list_all2_conv_all_nth list_eq_iff_nth_eq)
qed

definition saved_as :: "Repository \<Rightarrow> Pipeline \<Rightarrow> prow \<Rightarrow> bool" where
  "saved_as r p n \<longleftrightarrow> decryptCredentials r (pr_source_credentials n) = Inr (p_SourceCredentials p) \<and> pr_name n = p_Name p \<and>
     pr_source_type n = p_SourceType p \<and> pr_dataset_name n = p_DatasetName p \<and> pr_schedule n = p_Schedule p \<and>
     pr_write_disposition n = p_WriteDisposition p \<and> pr_merge_strategy n = p_MergeStrategy p \<and> pr_enabled n = p_Enabled p"

lemma Update_replaced:
  assumes "repo_ok r" "distinct (map pr_id T)" "s0 \<in> set T" "p_ID p = pr_id s0"
  shows "triple (\<lambda>w. t_pipelines w = T \<and> answers J w) (UpdatePipeline_pg r p)
    (\<lambda>_ w. \<exists>n. replaced J T s0 n w \<and> saved_as r p n) (\<lambda>_ w. t_pipelines w = T)"
proof (rule tripleI)
  fix w v w' assume w: "t_pipelines w = T \<and> answers J w" and "UpdatePipeline_pg r p w = (Inr v, w')"
  then have u: "UpdatePipeline_pg r p w = (Inr (), w')" by simp
  from u assms(1) obtain c s enc where s: "find_pipeline (p_ID p) w = Some s" "decryptCredentials r enc = Inr (p_SourceCredentials p)"
    "t_pipelines w' = map (\<lambda>s'. if pr_id s' = p_ID p then (pipeline_columns p enc s)\<lparr>pr_source_config := c\<rparr> else s') (t_pipelines w)"
    by (rule Update_row)
  have "s = s0" using find_pipeline_Some [OF s(1)] w assms(2-4) by (auto simp: distinct_map inj_on_def)
  moreover have "answers J w'" using safeD [OF reliable_writes(2) _ u] w by simp
  ultimately have "replaced J T s0 (unmark ((pipeline_columns p enc s0)\<lparr>pr_source_config := c\<rparr>)) w'"
    using s(3) w assms(4) by (simp add: replaced_def unmarked_unmark comp_def if_distrib cong: if_cong)
      (simp add: pipeline_columns_def unmark_def)
  moreover have "saved_as r p (unmark ((pipeline_columns p enc s0)\<lparr>pr_source_config := c\<rparr>))"
    using s(2) by (simp add: saved_as_def pipeline_columns_def unmark_def)
  ultimately show "\<exists>n. replaced J T s0 n w' \<and> saved_as r p n" by blast
next
  fix w e w' assume w: "t_pipelines w = T \<and> answers J w" and u: "UpdatePipeline_pg r p w = (Inl e, w')"
  obtain enc w1 y where 1: "snap w1 = snap w" "update_pipeline (p_ID p) (pipeline_columns p enc) w1 = (y, w')" "\<not> (\<exists>n > 0. y = Inr n)"
    using u by (auto elim: UpdatePipeline_cases)
  from 1(2) have "snap w' = snap w1" by (cases rule: update_pipeline_cases) (use 1(3) in auto)
  then show "t_pipelines w' = T" using w 1(1) snap_fields(1) by metis
qed

lemma reclaim_replaced: "keeps (replaced J T s0 n) (reclaimCredentials (boxPipelines B) i)"
proof -
  have a: "keeps (same_rows X) (reclaimCredentials (boxPipelines B) i)" for X
    unfolding reclaimCredentials_def boxPipelines_sel option.case pg_ownership_def OwnershipStore.select_convs
    by (rule safe_rules SetExternal_same_rows quiet_same_rows DeletePipelineCredentialRender_quiet TrueI)+
  have b: "keeps (answers J) (reclaimCredentials (boxPipelines B) i)" for J
    unfolding reclaimCredentials_def boxPipelines_sel option.case pg_ownership_def OwnershipStore.select_convs
    by (rule safe_rules reliable_rules TrueI)+
  show ?thesis unfolding replaced_def conj_assoc [symmetric] by (intro safe_const safe_conj a b)
qed

lemma reclaim_total: "reclaimCredentials s i w \<noteq> (Inl e, w')"
  by (auto simp: reclaimCredentials_def attempt_def split: option.splits prod.splits sum.splits)

lemma commit_replaced: "keeps (replaced J T s0 n) (commitMirror (boxPipelines B) u (ws_Slug (bc_Workspace B)))"
  unfolding replaced_def conj_assoc [symmetric] by (intro safe_const commitMirror_rows)

text \<open>The credentials an update stores.\<close>

definition kept_credentials :: "bool \<Rightarrow> raw \<Rightarrow> Pipeline \<Rightarrow> Pipeline \<Rightarrow> bool" where
  "kept_credentials cl old p q \<longleftrightarrow>
     (if cl then p_SourceCredentials q = []
      else if isEmptyJSON (p_SourceCredentials p) then p_SourceCredentials q = old
      else googleGrantID (p_SourceType p) (p_SourceCredentials p) = None \<longrightarrow> p_SourceCredentials q = p_SourceCredentials p)"

lemma resolve_triple:
  "triple (\<lambda>w. t_pipelines w = T \<and> answers J w) (resolveUpdateCredentials (boxPipelines B) c p e cl)
     (\<lambda>q w. (t_pipelines w = T \<and> answers J w) \<and> q = p\<lparr>p_SourceCredentials := p_SourceCredentials q\<rparr> \<and> kept_credentials cl (p_SourceCredentials e) p q)
     (\<lambda>_ w. t_pipelines w = T)"
proof -
  have k: "keeps (\<lambda>w. t_pipelines w = T \<and> answers J w) (swapGoogleOAuthGrant (boxPipelines B) c p)"
    by (intro safe_conj swap_reliable) (rule safeI, auto dest: quietD [OF swap_quiet] snap_fields(1))
  have s: "triple (\<lambda>w. t_pipelines w = T \<and> answers J w) (swapGoogleOAuthGrant (boxPipelines B) c p)
     (\<lambda>q w. (t_pipelines w = T \<and> answers J w) \<and> q = p\<lparr>p_SourceCredentials := p_SourceCredentials q\<rparr> \<and> 
        (googleGrantID (p_SourceType p) (p_SourceCredentials p) = None \<longrightarrow> q = p)) (\<lambda>_ w. t_pipelines w = T)"
    by (intro tripleI) (use safeD [OF k] swap_key [of B c p] in blast)+
  show ?thesis unfolding resolveUpdateCredentials_def
    by (auto intro!: triple_ret triple_if triple_andThen [OF triple_check [where Q = "\<lambda>_ w. t_pipelines w = T \<and> answers J w"]]
        triple_conseq [OF s] simp: kept_credentials_def)
qed

lemma ownedPipeline_triple:
  "triple (\<lambda>w. t_pipelines w = T \<and> answers J w) (ownedPipeline (boxPipelines B) u i)
     (\<lambda>v w. (t_pipelines w = T \<and> answers J w) \<and> (\<exists>s0 c. s0 \<in> set T \<and> pr_id s0 = i \<and> pr_customer_slug s0 = ws_Slug (bc_Workspace B) \<and>
        decryptCredentials (bc_Repository B) (pr_source_credentials s0) = Inr c \<and> v = (bc_Workspace B, (scan_pipeline s0)\<lparr>p_SourceCredentials := c\<rparr>)))
     (\<lambda>_ w. t_pipelines w = T)"
proof (cases "admitted (bc_Workspace B) u")
  case True
  then show ?thesis
    by (intro tripleI) (auto simp: answers_def ownedPipeline_box split: option.splits sum.splits if_splits dest!: find_pipeline_Some)
next
  case False
  then show ?thesis unfolding ownedPipeline_def boxPipelines_sel StaticResolver_sel by_user_admitted
    by (auto simp: andThen_def wrapErr_def fail_def intro!: tripleI)
qed

lemma finishUpdate_triple:
  assumes "repo_ok (bc_Repository B)" "decryptCredentials (bc_Repository B) (pr_source_credentials s0) = Inr c"
    "J (pr_source_config s0) = Some (pr_source_config s0)"
    "s0 \<in> set T" "distinct (map pr_id T)" "distinct (map (\<lambda>s. (pr_customer_slug s, pr_name s)) T)"
  shows "triple (replaced J T s0 n) (finishUpdate (boxPipelines B) u (ws_Slug (bc_Workspace B)) q ((scan_pipeline s0)\<lparr>p_SourceCredentials := c\<rparr>) touched)
    (\<lambda>v w. v = q \<and> replaced J T s0 n w)
    (\<lambda>_ w. map (secret_view (bc_Repository B)) (t_pipelines w) = map (secret_view (bc_Repository B)) T)"
proof -
  let ?E = "\<lambda>w. map (secret_view (bc_Repository B)) (t_pipelines w) = map (secret_view (bc_Repository B)) T"
  have w': "?E w'" if "replaced J T s0 n w" "UpdatePipeline_pg (bc_Repository B) ((scan_pipeline s0)\<lparr>p_SourceCredentials := c\<rparr>) w = (x, w')" for w x w'
    by (rule Update_restores [OF that(2) assms(1-3) that(1) assms(4-6)])
  have undo: "triple (replaced J T s0 n) (UpdatePipeline_pg (bc_Repository B) ((scan_pipeline s0)\<lparr>p_SourceCredentials := c\<rparr>)) (\<lambda>_. ?E) (\<lambda>_. ?E)"
    by (intro tripleI) (blast intro: w')+
  have re: "triple (replaced J T s0 n) (if b then reclaimCredentials (boxPipelines B) i else ret ()) (\<lambda>_. replaced J T s0 n) (\<lambda>_. ?E)" for b i
    using safeD [OF reclaim_replaced] by (auto intro!: tripleI simp: reclaim_total)
  show ?thesis unfolding finishUpdate_def boxPipelines_sel pg_repo_sel
    by (rule triple_andThen [OF re triple_andThen [OF commitOrCompensate_triple [OF commit_replaced undo] triple_ret]]) simp
qed

lemma triple_untouched:
  "triple P m Q (\<lambda>_ w. t_pipelines w = T) \<Longrightarrow> triple P m Q (\<lambda>_ w. map (secret_view r) (t_pipelines w) = map (secret_view r) T)"
  by (erule triple_conseq) auto

lemma update_fields:
  "q = p\<lparr>p_CustomerSlug := c, p_UpdatedAt := t, p_SourceCredentials := d\<rparr> \<Longrightarrow>
   q = p\<lparr>p_CustomerSlug := c, p_UpdatedAt := p_UpdatedAt q, p_SourceCredentials := p_SourceCredentials q\<rparr> \<and> p_ID q = p_ID p"
  by simp

text \<open>What an update of the row \<open>s0\<close> returns and stores.\<close>

definition updated_row :: "'a boxConfig \<Rightarrow> Pipeline \<Rightarrow> bool \<Rightarrow> prow \<Rightarrow> Pipeline \<Rightarrow> prow \<Rightarrow> bool" where
  "updated_row B p cl s0 q n \<longleftrightarrow> pr_id s0 = p_ID p \<and> pr_customer_slug s0 = ws_Slug (bc_Workspace B) \<and> saved_as (bc_Repository B) q n \<and>
     q = p\<lparr>p_CustomerSlug := ws_Slug (bc_Workspace B), p_UpdatedAt := p_UpdatedAt q, p_SourceCredentials := p_SourceCredentials q\<rparr> \<and>
     (\<exists>c. decryptCredentials (bc_Repository B) (pr_source_credentials s0) = Inr c \<and> kept_credentials cl c p q)"

lemma update_tail:
  assumes "repo_ok (bc_Repository B)" "J (pr_source_config s0) = Some (pr_source_config s0)"
    "distinct (map pr_id T)" "distinct (map (\<lambda>s. (pr_customer_slug s, pr_name s)) T)"
    "s0 \<in> set T" "pr_id s0 = p_ID p" "pr_customer_slug s0 = ws_Slug (bc_Workspace B)"
    "decryptCredentials (bc_Repository B) (pr_source_credentials s0) = Inr c"
  shows "triple (\<lambda>w. t_pipelines w = T \<and> answers J w)
     (andThen (resolveUpdateCredentials (boxPipelines B) (ws_Slug (bc_Workspace B)) (p\<lparr>p_CustomerSlug := ws_Slug (bc_Workspace B), p_UpdatedAt := t\<rparr>)
        ((scan_pipeline s0)\<lparr>p_SourceCredentials := c\<rparr>) cl) (\<lambda>p2.
      andThen (wrapErr m (UpdatePipeline_pg (bc_Repository B) p2)) (\<lambda>_.
      finishUpdate (boxPipelines B) u (ws_Slug (bc_Workspace B)) p2 ((scan_pipeline s0)\<lparr>p_SourceCredentials := c\<rparr>) touched)))
     (\<lambda>q w. \<exists>n. replaced J T s0 n w \<and> updated_row B p cl s0 q n)
     (\<lambda>_ w. map (secret_view (bc_Repository B)) (t_pipelines w) = map (secret_view (bc_Repository B)) T)"
proof (rule triple_andThen [OF triple_untouched [OF resolve_triple]], rule triple_pull)
  let ?r = "bc_Repository B" and ?c = "ws_Slug (bc_Workspace B)" and ?e = "(scan_pipeline s0)\<lparr>p_SourceCredentials := c\<rparr>"
  let ?p1 = "p\<lparr>p_CustomerSlug := ?c, p_UpdatedAt := t\<rparr>" and ?E = "\<lambda>_ w. map (secret_view ?r) (t_pipelines w) = map (secret_view ?r) T"
  fix p2 assume "p2 = ?p1\<lparr>p_SourceCredentials := p_SourceCredentials p2\<rparr> \<and> kept_credentials cl (p_SourceCredentials ?e) ?p1 p2"
  then have p2: "p2 = p\<lparr>p_CustomerSlug := ?c, p_UpdatedAt := p_UpdatedAt p2, p_SourceCredentials := p_SourceCredentials p2\<rparr>"
    "kept_credentials cl c p p2" "p_ID p2 = pr_id s0"
    using update_fields [where q = p2 and p = p and c = ?c and t = t and d = "p_SourceCredentials p2"] assms(6)
    by (blast, simp add: kept_credentials_def, simp)
  show "triple (\<lambda>w. t_pipelines w = T \<and> answers J w) (andThen (wrapErr m (UpdatePipeline_pg ?r p2)) (\<lambda>_. finishUpdate (boxPipelines B) u ?c p2 ?e touched))
    (\<lambda>q w. \<exists>n. replaced J T s0 n w \<and> updated_row B p cl s0 q n) ?E"
  proof (rule triple_andThen)
    show "triple (\<lambda>w. t_pipelines w = T \<and> answers J w) (wrapErr m (UpdatePipeline_pg ?r p2)) (\<lambda>_ w. \<exists>n. replaced J T s0 n w \<and> saved_as ?r p2 n) ?E"
      by (rule triple_wrapErr, rule triple_untouched, rule Update_replaced) (use assms p2 in auto)
    have new: "updated_row B p cl s0 p2 n" if "saved_as ?r p2 n" for n unfolding updated_row_def using assms that p2 by blast
    have fin: "triple (replaced J T s0 n) (finishUpdate (boxPipelines B) u ?c p2 ?e touched) (\<lambda>v w. v = p2 \<and> replaced J T s0 n w) ?E" for n
      by (rule finishUpdate_triple) (use assms in auto)
    show "triple (\<lambda>w. \<exists>n. replaced J T s0 n w \<and> saved_as ?r p2 n) (finishUpdate (boxPipelines B) u ?c p2 ?e touched)
      (\<lambda>q w. \<exists>n. replaced J T s0 n w \<and> updated_row B p cl s0 q n) ?E"
      by (rule triple_ex, rule triple_pull, rule triple_conseq [OF fin]) (use new in auto)
  qed
qed


text \<open>A paused version of the example's pipeline, and the example with that pipeline's credentials owned by its file.\<close>

definition pausedPipeline :: Pipeline where
  "pausedPipeline = newPipeline\<lparr>p_ID := ''p1'', p_Name := ''paused'', p_Enabled := False\<rparr>"

definition externalWorld :: "files box" where
  "externalWorld = exampleWorld\<lparr>
     t_pipelines := [(exampleRow ''p1'' ''acme'' ''orders'')\<lparr>pr_credentials_external := True\<rparr>, exampleRow ''p2'' ''other'' ''orders''],
     t_credential_renders := [\<lparr>cr_PipelineID = ''p1'', cr_Fingerprint = ''f'', cr_BlobSHA = ''b''\<rparr>],
     t_pipeline_runs := [\<lparr>r_ID = ''r1'', r_PipelineID = ''p1'', r_Status = ''success'', r_StartedAt = None, r_CompletedAt = None, r_RowsLoaded = 3,
       r_ErrorMessage = [], r_CreatedAt = 2\<rparr>],
     bx_ext := [(''pipelines/orders.yaml'', pipelineFileHeader @ ''p1 orders'')]\<rparr>"


text \<open>
  The ownership mark is not restored: a failed update that touched the credentials leaves the pipeline without the
  mark its file had given it, and without the record of what the mirror last wrote there.
\<close>

lemma failed_update_drops_mark:
  "(let (x, w') = UpdatePipeline (boxPipelines downBox) ''alice'' (newPipeline\<lparr>p_ID := ''p1'', p_SourceCredentials := []\<rparr>) True externalWorld in
    isl x \<and> map pr_credentials_external (t_pipelines externalWorld) = [True, False] \<and>
    map pr_credentials_external (t_pipelines w') = [False, False] \<and> t_credential_renders w' = [])"
  by code_simp

text \<open>A failed delete puts the pipeline back under a new identifier and without its runs, as its comment says, but also without its mark.\<close>

lemma failed_delete_drops_mark:
  "(let (x, w') = DeletePipeline (boxPipelines downBox) ''alice'' ''p1'' externalWorld in
    isl x \<and> map pr_id (t_pipelines externalWorld) = [''p1'', ''p2''] \<and> map pr_id (t_pipelines w') = [''p2'', ''id-0''] \<and>
    map pr_name (t_pipelines w') = [''orders'', ''orders''] \<and> map pr_credentials_external (t_pipelines w') = [False, False] \<and>
    map r_ID (t_pipeline_runs externalWorld) = [''r1''] \<and> t_pipeline_runs w' = [])"
  by code_simp

end
