(* ===== verification/MirrorProperties.thy ===== *)
theory MirrorProperties
  imports Example
begin

section \<open>The mirror against a git host\<close>

text \<open>
  What a pass of the mirror makes of the branch of a git host that does what it says, and what it leaves alone. A pass
  is followed call by call with triples over the host's view of the branch; the calls that do not commit are the
  locale \<open>mirror_stores\<close>, whose laws hold of the wired box for whatever is true of the branch.
\<close>

subsection \<open>The host\<close>

text \<open>
  What the mirror relies on of the git host, over its view of the branch \<open>tree\<close> (from paths to contents): a listing
  names the files, a read returns the file, a successful put or delete has taken place, and neither touches another
  path, whether it succeeds or not.
\<close>

definition git_host :: "('e \<Rightarrow> string \<Rightarrow> string option) \<Rightarrow> 'e RepoFileClient \<Rightarrow> bool" where
  "git_host tree cl \<longleftrightarrow>
     (\<forall>r e. tree (snd (ListTree cl r e)) = tree e) \<and> (\<forall>r f e. tree (snd (GetContents cl r f e)) = tree e) \<and>
     (\<forall>e es. fst (ListTree cl pipelinesRepo e) = Inr es \<longrightarrow> e_Path ` set es = dom (tree e)) \<and>
     (\<forall>f e c s. fst (GetContents cl pipelinesRepo f e) = Inr (c, s) \<longrightarrow> tree e f = Some c) \<and>
     (\<forall>f t s m a e. \<exists>v. tree (snd (PutContents cl pipelinesRepo f t s m a e)) = (tree e)(f := v)) \<and>
     (\<forall>f t s m a e s'. fst (PutContents cl pipelinesRepo f t s m a e) = Inr s' \<longrightarrow> tree (snd (PutContents cl pipelinesRepo f t s m a e)) f = Some t) \<and>
     (\<forall>f s m a e. tree (snd (DeleteContents cl pipelinesRepo f s m a e)) \<in> {tree e, (tree e)(f := None)}) \<and>
     (\<forall>f s m a e. fst (DeleteContents cl pipelinesRepo f s m a e) = Inr () \<longrightarrow> tree (snd (DeleteContents cl pipelinesRepo f s m a e)) f = None)"

lemma git_hostD:
  assumes "git_host tree cl"
  shows "tree (snd (ListTree cl r e)) = tree e" "tree (snd (GetContents cl r f e)) = tree e"
    "fst (ListTree cl pipelinesRepo e) = Inr es \<Longrightarrow> e_Path ` set es = dom (tree e)"
    "fst (GetContents cl pipelinesRepo f e) = Inr (c, s) \<Longrightarrow> tree e f = Some c"
    "\<exists>v. tree (snd (PutContents cl pipelinesRepo f t s m a e)) = (tree e)(f := v)"
    "fst (PutContents cl pipelinesRepo f t s m a e) = Inr s' \<Longrightarrow> tree (snd (PutContents cl pipelinesRepo f t s m a e)) f = Some t"
    "tree (snd (DeleteContents cl pipelinesRepo f s m a e)) \<in> {tree e, (tree e)(f := None)}"
    "fst (DeleteContents cl pipelinesRepo f s m a e) = Inr () \<Longrightarrow> tree (snd (DeleteContents cl pipelinesRepo f s m a e)) f = None"
  using assms unfolding git_host_def by (simp_all del: insert_iff)

text \<open>The other services a converge calls do not write to the branch.\<close>

definition host_ok :: "('e \<Rightarrow> string \<Rightarrow> string option) \<Rightarrow> 'e boxConfig \<Rightarrow> bool" where
  "host_ok tree B \<longleftrightarrow> (\<forall>u n t. git_host tree (bc_NewClient B u n t)) \<and>
     (\<forall>r t e. tree (snd (bc_encryptAge B r t e)) = tree e)"

lemma onExt_tree:
  assumes "\<And>e. tree (snd (m e)) = tree e"
  shows "keeps (\<lambda>w. \<Phi> (tree (bx_ext w))) (onExt m)"
proof (rule safeI)
  fix w x w' assume "\<Phi> (tree (bx_ext w))" "onExt m w = (x, w')"
  then show "\<Phi> (tree (bx_ext w')) \<and> (\<forall>v. x = Inr v \<longrightarrow> True)"
    using assms [of "bx_ext w"] by (auto simp: onExt_def split: prod.splits)
qed

named_theorems outside_rules \<open>calls that leave the world outside the database alone\<close>

lemma outside_sql:
  assumes "\<And>w x w'. act w = (x, w') \<Longrightarrow> bx_ext w' = bx_ext w"
  shows "keeps (\<lambda>w. \<Phi> (bx_ext w)) (sql act)"
  by (rule safeI) (use assms in \<open>fastforce simp: sql_def split: list.splits if_splits\<close>)

lemma outside_query [outside_rules]: "keeps (\<lambda>w. \<Phi> (bx_ext w)) (query q)"
  unfolding query_def by (rule outside_sql) auto

lemma outside_reads [outside_rules]:
  "keeps (\<lambda>w. \<Phi> (bx_ext w)) (GetPipeline_pg r i)" "keeps (\<lambda>w. \<Phi> (bx_ext w)) (ListPipelinesByCustomer_pg r c)"
  "keeps (\<lambda>w. \<Phi> (bx_ext w)) (ListPipelineCredentialsByCustomer_pg r c)" "keeps (\<lambda>w. \<Phi> (bx_ext w)) (GetPipelineCredentialRenders_pg r c)"
  "keeps (\<lambda>w. \<Phi> (bx_ext w)) (GetPipelineDefinitionRenders_pg r c)" "keeps (\<lambda>w. \<Phi> (bx_ext w)) (GetConnection_pg r c i)"
  "keeps (\<lambda>w. \<Phi> (bx_ext w)) (GetOAuthClient_pg r c pv)"
  unfolding GetPipeline_pg_def ListPipelinesByCustomer_pg_def ListPipelineCredentialsByCustomer_pg_def
    GetPipelineCredentialRenders_pg_def GetPipelineDefinitionRenders_pg_def GetConnection_pg_def GetOAuthClient_pg_def
  by (rule outside_query safe_rules keeps_lift TrueI)+

lemma outside_marks [outside_rules]:
  "keeps (\<lambda>w. \<Phi> (bx_ext w)) (SetPipelineCredentialsExternal_pg r i b)"
  "keeps (\<lambda>w. \<Phi> (bx_ext w)) (UpsertPipelineDefinitionRender_pg r dr)" "keeps (\<lambda>w. \<Phi> (bx_ext w)) (UpsertPipelineCredentialRender_pg r cr)"
  unfolding SetPipelineCredentialsExternal_pg_def UpsertPipelineDefinitionRender_pg_def UpsertPipelineCredentialRender_pg_def
  by (rule safe_rules TrueI outside_sql | auto simp: Let_def split: if_splits)+

lemma outside_static [outside_rules]:
  "keeps (\<lambda>w. \<Phi> (bx_ext w)) (GetWorkspace_static ws c)" "keeps (\<lambda>w. \<Phi> (bx_ext w)) (GetBoxGitCredential_static s c)"
  "keeps (\<lambda>w. \<Phi> (bx_ext w)) (GetBoxAgeKey_static s c)"
  by (rule safeI, auto dest: static_quiet)+

lemma outside_cells [outside_rules]: "keeps (\<lambda>w. \<Phi> (bx_ext w)) (firstReport (m_staleOAuth (boxMirror B)) f sha)"
  by (rule safeI, auto simp: firstReport_def boxMirror_def Let_def split: if_splits)+

lemma outside_notify [outside_rules]: "keeps (\<lambda>w. \<Phi> (bx_ext w)) (Notify_service (boxNotifications B) n)"
proof (rule Notify_service_safe, goal_cases)
  case (1 m)
  show ?case unfolding boxNotifications_def pg_notifications_def
    by (auto simp: CreateNotification_pg_def insert_notification_def Let_def intro!: safe_wrapErr outside_sql split: if_splits)
next
  case (2 p m)
  then show ?case by (auto simp: boxNotifications_def PublishNotification_def intro!: safe_wrapErr outside_sql split: if_splits)
next
  case (3 c f)
  then show ?case by (intro safeI) (auto simp: boxNotifications_def onBroker_def boxBroker_def split: sum.splits)
qed

text \<open>So the part of a pass that does not commit keeps what holds of the branch.\<close>

lemma host_stores:
  assumes "host_ok tree B"
  shows "mirror_stores (boxMirror B) (ws_Slug (bc_Workspace B)) (\<lambda>w. \<Phi> (tree (bx_ext w))) UNIV"
proof -
  have n: "tree (snd (bc_encryptAge B r t e)) = tree e" for e r t
    using assms by (simp_all add: host_ok_def)
  have g: "tree (snd (ListTree (bc_NewClient B u k t) r e)) = tree e"
    "tree (snd (GetContents (bc_NewClient B u k t) r f e)) = tree e" for u k t f e r
    using assms by (simp_all add: host_ok_def git_host_def)
  show ?thesis
  proof (unfold_locales, goal_cases)
    case 5
    show ?case
    proof (rule safeI, intro conjI)
      fix w x and w' :: "'a box"
      assume P: "\<Phi> (tree (bx_ext w))" and l: "repo_ListPipelinesByCustomer (m_Pipelines (boxMirror B)) (ws_Slug (bc_Workspace B)) w = (x, w')"
      from l have lp: "ListPipelinesByCustomer_pg (bc_Repository B) (ws_Slug (bc_Workspace B)) w = (x, w')"
        by (simp add: boxMirror_def pg_repo_def)
      show "\<Phi> (tree (bx_ext w'))" by (rule safeD [OF outside_reads(2) [where \<Phi> = "\<lambda>e. \<Phi> (tree e)"] P lp])
      show "\<forall>v. x = Inr v \<longrightarrow> (\<forall>p \<in> set v. p_ID p \<in> UNIV \<and> p_CustomerSlug p = ws_Slug (bc_Workspace B))"
        using lp by (auto dest!: List_Inr)
    qed
  qed (auto simp: box_port_defs outside_cells [where \<Phi> = "\<lambda>e. \<Phi> (tree e)" and B = B, unfolded boxMirror_def, simplified] n g
      intro!: onExt_tree outside_rules [where \<Phi> = "\<lambda>e. \<Phi> (tree e)"])
qed

lemmas host_rules = mirror_stores.recordDefinitionRender_safe [OF host_stores] mirror_stores.notifyBestEffort_safe [OF host_stores]
  mirror_stores.skipTrackedCredentialFile_safe [OF host_stores]

subsection \<open>Single calls\<close>

lemma host_client: "host_ok tree B \<Longrightarrow> git_host tree (bc_NewClient B u n t)"
  by (simp add: host_ok_def)

lemma onExtE:
  assumes "onExt m w = (x, w')"
  obtains "x = fst (m (bx_ext w))" "bx_ext w' = snd (m (bx_ext w))"
  using assms by (auto simp: onExt_def split: prod.splits)

lemma list_triple:
  assumes "host_ok tree B"
  shows "triple (\<lambda>w. \<Phi> (tree (bx_ext w))) (ListTree (liftClient (bc_NewClient B u n t)) pipelinesRepo)
    (\<lambda>es w. \<Phi> (tree (bx_ext w)) \<and> e_Path ` set es = dom (tree (bx_ext w))) (\<lambda>_ w. \<Phi> (tree (bx_ext w)))"
  by (intro tripleI) (clarsimp simp: liftClient_def git_hostD(1) [OF host_client [OF assms]]
      elim!: onExtE dest!: sym [of "Inr _"] git_hostD(3) [OF host_client [OF assms]])+

lemma get_triple:
  assumes "host_ok tree B"
  shows "triple (\<lambda>w. \<Phi> (tree (bx_ext w))) (GetContents (liftClient (bc_NewClient B u n t)) pipelinesRepo f)
    (\<lambda>x w. \<Phi> (tree (bx_ext w)) \<and> tree (bx_ext w) f = Some (fst x)) (\<lambda>_ w. \<Phi> (tree (bx_ext w)))"
  using git_hostD(2,4) [OF host_client [OF assms]]
  by (intro tripleI) (auto simp: liftClient_def dest!: sym [of "Inr _"] elim!: onExtE)

lemma put_triple:
  assumes "host_ok tree B"
  shows "triple (\<lambda>w. \<Phi> (tree (bx_ext w))) (PutContents (liftClient (bc_NewClient B u n t)) pipelinesRepo f body sha msg a)
    (\<lambda>_ w. \<exists>G. \<Phi> G \<and> tree (bx_ext w) = G(f \<mapsto> body)) (\<lambda>_ w. \<exists>G v. \<Phi> G \<and> tree (bx_ext w) = G(f := v))"
proof (rule tripleI)
  note h = git_hostD(5,6) [OF host_client [OF assms]]
  fix w s' w' assume P: "\<Phi> (tree (bx_ext w))" and "PutContents (liftClient (bc_NewClient B u n t)) pipelinesRepo f body sha msg a w = (Inr s', w')"
  then have "fst (PutContents (bc_NewClient B u n t) pipelinesRepo f body sha msg a (bx_ext w)) = Inr s'"
    "bx_ext w' = snd (PutContents (bc_NewClient B u n t) pipelinesRepo f body sha msg a (bx_ext w))" by (auto simp: liftClient_def elim!: onExtE)
  with h(2) [OF this(1)] h(1) [of u n t f body sha msg a "bx_ext w"] have "tree (bx_ext w') = (tree (bx_ext w))(f \<mapsto> body)" by auto
  with P show "\<exists>G. \<Phi> G \<and> tree (bx_ext w') = G(f \<mapsto> body)" by blast
next
  note h = git_hostD(5) [OF host_client [OF assms]]
  fix w e w' assume P: "\<Phi> (tree (bx_ext w))" and "PutContents (liftClient (bc_NewClient B u n t)) pipelinesRepo f body sha msg a w = (Inl e, w')"
  then obtain v where "tree (bx_ext w') = (tree (bx_ext w))(f := v)"
    using h [of u n t f body sha msg a "bx_ext w"] by (auto simp: liftClient_def elim!: onExtE)
  with P show "\<exists>G v. \<Phi> G \<and> tree (bx_ext w') = G(f := v)" by blast
qed

lemma delete_triple:
  assumes "host_ok tree B"
  shows "triple (\<lambda>w. \<Phi> (tree (bx_ext w))) (DeleteContents (liftClient (bc_NewClient B u n t)) pipelinesRepo f sha msg a)
    (\<lambda>_ w. \<exists>G. \<Phi> G \<and> tree (bx_ext w) = G(f := None)) (\<lambda>_ w. \<exists>G. \<Phi> G \<and> (tree (bx_ext w) = G \<or> tree (bx_ext w) = G(f := None)))"
proof (rule tripleI)
  note h = git_hostD(7,8) [OF host_client [OF assms]]
  fix w v w' assume P: "\<Phi> (tree (bx_ext w))" and "DeleteContents (liftClient (bc_NewClient B u n t)) pipelinesRepo f sha msg a w = (Inr v, w')"
  then have "fst (DeleteContents (bc_NewClient B u n t) pipelinesRepo f sha msg a (bx_ext w)) = Inr ()"
    "bx_ext w' = snd (DeleteContents (bc_NewClient B u n t) pipelinesRepo f sha msg a (bx_ext w))" by (auto simp: liftClient_def elim!: onExtE)
  with h(2) [OF this(1)] h(1) [of u n t f sha msg a "bx_ext w"] have "tree (bx_ext w') = (tree (bx_ext w))(f := None)" by auto
  with P show "\<exists>G. \<Phi> G \<and> tree (bx_ext w') = G(f := None)" by blast
next
  note h = git_hostD(7) [OF host_client [OF assms]]
  fix w e w' assume "\<Phi> (tree (bx_ext w))" "DeleteContents (liftClient (bc_NewClient B u n t)) pipelinesRepo f sha msg a w = (Inl e, w')"
  then show "\<exists>G. \<Phi> G \<and> (tree (bx_ext w') = G \<or> tree (bx_ext w') = G(f := None))"
    using h [of u n t f sha msg a "bx_ext w"] by (auto simp: liftClient_def elim!: onExtE)
qed

subsection \<open>The converge\<close>

text \<open>A file the mirror has written: a definition file that opens with its header.\<close>

definition console_file :: "(string \<Rightarrow> string option) \<Rightarrow> string \<Rightarrow> bool" where
  "console_file F f \<longleftrightarrow> yaml_file f \<and> (\<exists>c. F f = Some c \<and> prefix pipelineFileHeader c)"

text \<open>
  The branch \<open>G\<close> while a pass that started from \<open>F\<close> runs: what is neither desired nor a credential file is as it was, or was
  written by the mirror and is gone.
\<close>

definition spared :: "(string \<Rightarrow> string option) \<Rightarrow> (string \<Rightarrow> definitionFile option) \<Rightarrow> (string \<Rightarrow> string option) \<Rightarrow> bool" where
  "spared F D G \<longleftrightarrow> (\<forall>f. D f = None \<and> \<not> age_file f \<longrightarrow> G f = F f \<or> G f = None \<and> console_file F f)"

text \<open>How far it has come: the desired files of \<open>S\<close> are written, the stale ones of \<open>X\<close> gone.\<close>

definition advanced ::
  "(string \<Rightarrow> string option) \<Rightarrow> (string \<Rightarrow> definitionFile option) \<Rightarrow> string set \<Rightarrow> string set \<Rightarrow> (string \<Rightarrow> string option) \<Rightarrow> bool" where
  "advanced F D S X G \<longleftrightarrow> spared F D G \<and> (\<forall>f \<in> S. \<forall>df. D f = Some df \<longrightarrow> G f = Some (df_content df)) \<and>
     (\<forall>f \<in> X. D f = None \<and> console_file F f \<longrightarrow> G f = None)"

lemma advanced_spared: "advanced F D S X G \<Longrightarrow> spared F D G"
  by (simp add: advanced_def)

lemma advanced_put: "advanced F D S X G \<Longrightarrow> D f = Some df \<Longrightarrow> advanced F D (insert f S) X (G(f \<mapsto> df_content df))"
  by (auto simp: advanced_def spared_def)

lemma advanced_there: "advanced F D S X G \<Longrightarrow> D f = Some df \<Longrightarrow> G f = Some (df_content df) \<Longrightarrow> advanced F D (insert f S) X G"
  by (auto simp: advanced_def)

lemma spared_put: "spared F D G \<Longrightarrow> D f = Some df \<Longrightarrow> spared F D (G(f := v))"
  by (auto simp: spared_def)

lemma spared_delete: "spared F D G \<Longrightarrow> console_file F f \<Longrightarrow> spared F D (G(f := None))"
  by (auto simp: spared_def)

lemma advanced_delete: "advanced F D S X G \<Longrightarrow> D f = None \<Longrightarrow> console_file F f \<Longrightarrow> advanced F D S (insert f X) (G(f := None))"
  by (auto simp: advanced_def intro: spared_delete)

lemma advanced_skip: "advanced F D S X G \<Longrightarrow> D f \<noteq> None \<or> \<not> console_file F f \<Longrightarrow> advanced F D S (insert f X) G"
  by (auto simp: advanced_def)

lemma advanced_age: "advanced F D S X G \<Longrightarrow> \<forall>f. D f \<noteq> None \<longrightarrow> yaml_file f \<Longrightarrow> age_file f \<Longrightarrow> advanced F D S X (G(f := v))"
  by (auto simp: advanced_def spared_def console_file_def dest: yaml_not_age)

lemma upsertFile_triple:
  assumes "host_ok tree B" "D f = Some df"
  shows "triple (\<lambda>w. advanced F D S X (tree (bx_ext w)))
    (upsertFile (boxMirror B) (liftClient (bc_NewClient B u n t)) (ws_Slug (bc_Workspace B)) f df existing rows au)
    (\<lambda>_ w. advanced F D (insert f S) X (tree (bx_ext w))) (\<lambda>_ w. spared F D (tree (bx_ext w)))"
proof -
  have k: "triple (\<lambda>w. advanced F D (insert f S) X (tree (bx_ext w))) m (\<lambda>_ w. advanced F D (insert f S) X (tree (bx_ext w))) (\<lambda>_ w. spared F D (tree (bx_ext w)))"
    if "keeps (\<lambda>w. advanced F D (insert f S) X (tree (bx_ext w))) m" for m :: "('a box, unit) io"
    by (rule triple_conseq [OF that [unfolded triple_safe]]) (auto dest: advanced_spared)
  note rec = k [OF host_rules(1) [OF assms(1)]] and nt = k [OF host_rules(2) [OF assms(1)]]
  have put: "triple (\<lambda>w. advanced F D S X (tree (bx_ext w))) (wrapErr m0 (PutContents (liftClient (bc_NewClient B u n t)) pipelinesRepo f (df_content df) sha msg au))
      (\<lambda>_ w. advanced F D (insert f S) X (tree (bx_ext w))) (\<lambda>_ w. spared F D (tree (bx_ext w)))" for m0 sha msg
    by (rule triple_wrapErr, rule triple_conseq [OF put_triple [OF assms(1), where \<Phi> = "advanced F D S X"]])
      (auto simp: assms(2) intro!: advanced_put spared_put [OF advanced_spared])
  have get: "triple (\<lambda>w. advanced F D S X (tree (bx_ext w))) (wrapErr m0 (GetContents (liftClient (bc_NewClient B u n t)) pipelinesRepo f))
      (\<lambda>x w. advanced F D S X (tree (bx_ext w)) \<and> tree (bx_ext w) f = Some (fst x)) (\<lambda>_ w. spared F D (tree (bx_ext w)))" for m0
    by (rule triple_wrapErr, rule triple_conseq [OF get_triple [OF assms(1), where \<Phi> = "advanced F D S X"]]) (auto dest: advanced_spared)
  have there: "triple (\<lambda>w. advanced F D S X (tree (bx_ext w)) \<and> tree (bx_ext w) f = Some (df_content df))
      (adoptInSyncRender (boxMirror B) i f sha row) (\<lambda>_ w. advanced F D (insert f S) X (tree (bx_ext w))) (\<lambda>_ w. spared F D (tree (bx_ext w)))" for i sha row
  proof -
    have adv: "advanced F D (insert f S) X G" if "advanced F D S X G \<and> G f = Some (df_content df)" for G
      using that assms(2) by (blast intro: advanced_there)
    show ?thesis unfolding adoptInSyncRender_def
      by (rule triple_conseq [where P = "\<lambda>w. advanced F D (insert f S) X (tree (bx_ext w))"])
        (use adv in \<open>auto split: option.splits intro!: triple_if triple_ret rec\<close>)
  qed
  show ?thesis unfolding upsertFile_def Let_def
  proof (rule triple_option, goal_cases)
    case 1
    show ?case by (rule triple_andThen [OF put [unfolded boxMirror_def] rec])
  next
    case (2 sha)
    show ?case unfolding notifyDefinitionDrift_def
      by (rule triple_andThen [OF get], rule triple_prod, rule triple_if, rule triple_conseq [OF there], simp, simp, simp,
          rule triple_andThen [OF triple_conseq [OF put] triple_andThen [OF rec triple_if [OF nt triple_ret]]]) auto
  qed
qed

lemma upsertFiles_triple:
  assumes "host_ok tree B"
  shows "triple (\<lambda>w. advanced F (map_of desired) S X (tree (bx_ext w)))
    (upsertFiles (boxMirror B) (liftClient (bc_NewClient B u n t)) (ws_Slug (bc_Workspace B)) desired existing rows au fs)
    (\<lambda>_ w. advanced F (map_of desired) (set fs \<union> S) X (tree (bx_ext w))) (\<lambda>_ w. spared F (map_of desired) (tree (bx_ext w)))"
proof (induction fs arbitrary: S)
  case Nil
  show ?case by (auto intro: triple_ret)
next
  case (Cons f fs)
  have none: "advanced F (map_of desired) (set fs \<union> S) X G \<Longrightarrow> map_of desired f = None \<Longrightarrow> advanced F (map_of desired) (set (f # fs) \<union> S) X G" for G
    by (auto simp: advanced_def)
  show ?case unfolding upsertFiles.simps
  proof (rule triple_option)
    assume "map_of desired f = None"
    then show "triple (\<lambda>w. advanced F (map_of desired) S X (tree (bx_ext w)))
      (upsertFiles (boxMirror B) (liftClient (bc_NewClient B u n t)) (ws_Slug (bc_Workspace B)) desired existing rows au fs)
      (\<lambda>_ w. advanced F (map_of desired) (set (f # fs) \<union> S) X (tree (bx_ext w))) (\<lambda>_ w. spared F (map_of desired) (tree (bx_ext w)))"
      by (intro triple_conseq [OF Cons.IH [of S]] none) auto
  next
    fix df assume f: "map_of desired f = Some df"
    show "triple (\<lambda>w. advanced F (map_of desired) S X (tree (bx_ext w)))
      (andThen (upsertFile (boxMirror B) (liftClient (bc_NewClient B u n t)) (ws_Slug (bc_Workspace B)) f df existing rows au) (\<lambda>_.
       upsertFiles (boxMirror B) (liftClient (bc_NewClient B u n t)) (ws_Slug (bc_Workspace B)) desired existing rows au fs))
      (\<lambda>_ w. advanced F (map_of desired) (set (f # fs) \<union> S) X (tree (bx_ext w))) (\<lambda>_ w. spared F (map_of desired) (tree (bx_ext w)))"
      by (rule triple_andThen [OF upsertFile_triple [where D = "map_of desired", OF assms f] triple_conseq [OF Cons.IH [of "insert f S"]]]) auto
  qed
qed

lemma deleteRendered_triple:
  assumes "host_ok tree B" "list_all yaml_file fs"
  shows "triple (\<lambda>w. advanced F D S X (tree (bx_ext w)))
    (deleteRenderedLoop (liftClient (bc_NewClient B u n t)) pipelinesRepo existing (\<lambda>f. D f \<noteq> None) au fs)
    (\<lambda>_ w. advanced F D S (set fs \<union> X) (tree (bx_ext w))) (\<lambda>_ w. spared F D (tree (bx_ext w)))"
  using assms(2)
proof (induction fs arbitrary: X)
  case Nil
  show ?case by (auto intro: triple_ret)
next
  case (Cons f fs)
  let ?A = "\<lambda>X w. advanced F D S X (tree (bx_ext w))" and ?E = "\<lambda>_ w. spared F D (tree (bx_ext w))"
  let ?cl = "liftClient (bc_NewClient B u n t)"
  have rest: "triple (?A (insert f X)) (deleteRenderedLoop ?cl pipelinesRepo existing (\<lambda>f. D f \<noteq> None) au fs) (\<lambda>_. ?A (set (f # fs) \<union> X)) ?E"
    using Cons.IH [of "insert f X"] Cons.prems by simp
  have skip: "advanced F D S (insert f X) G" if "advanced F D S X G" "D f \<noteq> None \<or> \<not> console_file F f" for G
    by (rule advanced_skip [OF that])
  have get: "triple (?A X) (wrapErr m (GetContents ?cl pipelinesRepo f)) (\<lambda>x w. ?A X w \<and> tree (bx_ext w) f = Some (fst x)) ?E" for m
    by (rule triple_wrapErr, rule triple_conseq [OF get_triple [OF assms(1), where \<Phi> = "advanced F D S X"]]) (auto dest: advanced_spared)
  have del: "triple (\<lambda>w. ?A X w \<and> D f = None \<and> console_file F f) (wrapErr m (DeleteContents ?cl pipelinesRepo f sha msg au)) (\<lambda>_. ?A (insert f X)) ?E" for m sha msg
    by (rule triple_pull, rule triple_wrapErr, rule triple_conseq [OF delete_triple [OF assms(1), where \<Phi> = "advanced F D S X"]])
      (auto intro!: advanced_delete spared_delete [OF advanced_spared] dest: advanced_spared)
  have was: "F f = G f" if "advanced F D S X G" "D f = None" "G f = Some c" for G c
    using that Cons.prems yaml_not_age [of f] by (auto simp: advanced_def spared_def)
  have cont: "triple (\<lambda>w. (?A X w \<and> D f = None) \<and> tree (bx_ext w) f = Some (fst x)) (case x of (content, _) \<Rightarrow>
      if \<not> prefix pipelineFileHeader content then deleteRenderedLoop ?cl pipelinesRepo existing (\<lambda>f. D f \<noteq> None) au fs
      else andThen (wrapErr m (DeleteContents ?cl pipelinesRepo f sha msg au)) (\<lambda>_. deleteRenderedLoop ?cl pipelinesRepo existing (\<lambda>f. D f \<noteq> None) au fs))
      (\<lambda>_. ?A (set (f # fs) \<union> X)) ?E" for x m sha msg
  proof (rule triple_prod, rule triple_if)
    fix content sha' assume x: "x = (content, sha')" and h: "\<not> prefix pipelineFileHeader content"
    then show "triple (\<lambda>w. (?A X w \<and> D f = None) \<and> tree (bx_ext w) f = Some (fst x)) (deleteRenderedLoop ?cl pipelinesRepo existing (\<lambda>f. D f \<noteq> None) au fs)
      (\<lambda>_. ?A (set (f # fs) \<union> X)) ?E"
      by (intro triple_conseq [OF rest] skip) (auto dest: was simp: console_file_def)
  next
    fix content sha' assume x: "x = (content, sha')" and h: "\<not> \<not> prefix pipelineFileHeader content"
    then show "triple (\<lambda>w. (?A X w \<and> D f = None) \<and> tree (bx_ext w) f = Some (fst x))
      (andThen (wrapErr m (DeleteContents ?cl pipelinesRepo f sha msg au)) (\<lambda>_. deleteRenderedLoop ?cl pipelinesRepo existing (\<lambda>f. D f \<noteq> None) au fs))
      (\<lambda>_. ?A (set (f # fs) \<union> X)) ?E"
      using Cons.prems by (intro triple_andThen [OF triple_conseq [OF del] rest]) (auto dest: was simp: console_file_def)
  qed
  show ?case unfolding deleteRenderedLoop.simps
  proof (rule triple_if)
    assume "D f \<noteq> None"
    then show "triple (?A X) (deleteRenderedLoop ?cl pipelinesRepo existing (\<lambda>f. D f \<noteq> None) au fs) (\<lambda>_. ?A (set (f # fs) \<union> X)) ?E"
      by (intro triple_conseq [OF rest] skip) auto
  next
    assume "\<not> D f \<noteq> None"
    then show "triple (?A X) (andThen (wrapErr (''get '' @ f) (GetContents ?cl pipelinesRepo f)) (\<lambda>(content, _).
        if \<not> prefix pipelineFileHeader content then deleteRenderedLoop ?cl pipelinesRepo existing (\<lambda>f. D f \<noteq> None) au fs
        else andThen (wrapErr (''delete '' @ f) (DeleteContents ?cl pipelinesRepo f (gm_str existing f) (deleteMsg f) au))
          (\<lambda>_. deleteRenderedLoop ?cl pipelinesRepo existing (\<lambda>f. D f \<noteq> None) au fs))) (\<lambda>_. ?A (set (f # fs) \<union> X)) ?E"
      by (intro triple_andThen [OF get] triple_conseq [OF cont]) auto
  qed
qed

text \<open>The credential phase commits to credential files only.\<close>

definition beside_age :: "((string \<Rightarrow> string option) \<Rightarrow> bool) \<Rightarrow> bool" where
  "beside_age \<Psi> \<longleftrightarrow> (\<forall>G f v. \<Psi> G \<and> age_file f \<longrightarrow> \<Psi> (G(f := v)))"

lemma commits_beside:
  assumes "host_ok tree B" "beside_age \<Psi>" "age_file f"
  shows "keeps (\<lambda>w. \<Psi> (tree (bx_ext w))) (PutContents (liftClient (bc_NewClient B u n t)) pipelinesRepo f body sha msg a)"
    "keeps (\<lambda>w. \<Psi> (tree (bx_ext w))) (DeleteContents (liftClient (bc_NewClient B u n t)) pipelinesRepo f sha msg a)"
proof -
  have upd: "\<Psi> (G(f := v))" if "\<Psi> G" for G v using assms(2,3) that by (simp add: beside_age_def)
  show "keeps (\<lambda>w. \<Psi> (tree (bx_ext w))) (PutContents (liftClient (bc_NewClient B u n t)) pipelinesRepo f body sha msg a)"
    unfolding triple_safe by (rule triple_conseq [OF put_triple [OF assms(1), where \<Phi> = \<Psi>]]) (auto intro: upd)
  show "keeps (\<lambda>w. \<Psi> (tree (bx_ext w))) (DeleteContents (liftClient (bc_NewClient B u n t)) pipelinesRepo f sha msg a)"
    unfolding triple_safe by (rule triple_conseq [OF delete_triple [OF assms(1), where \<Phi> = \<Psi>]]) (auto intro: upd)
qed

lemma deleteLoop_beside:
  assumes "host_ok tree B" "beside_age \<Psi>" "list_all age_file fs"
  shows "keeps (\<lambda>w. \<Psi> (tree (bx_ext w))) (deleteLoop (liftClient (bc_NewClient B u n t)) pipelinesRepo existing desired au fs)"
  using assms(3)
  by (induction fs) (auto intro!: safe_ret safe_andThen [OF safe_wrapErr [OF commits_beside(2) [OF assms(1,2)]]])

lemma upsertCredentialFile_beside:
  assumes "host_ok tree B" "beside_age \<Psi>" "age_file f" "m_Renders (boxMirror B) = Some rs"
  shows "keeps (\<lambda>w. \<Psi> (tree (bx_ext w))) (upsertCredentialFile (boxMirror B) fpr rs (liftClient (bc_NewClient B u n t)) f cf rcp rows existing au)"
proof -
  note st = host_stores [OF assms(1), of \<Psi>]
  have s: "keeps (\<lambda>w. \<Psi> (tree (bx_ext w))) (case map_of existing f of None \<Rightarrow> ret False | Some sha \<Rightarrow> skipTrackedCredentialFile (boxMirror B) f cf fp sha rows)" for fp
    by (intro safe_option safe_ret mirror_stores.skipTrackedCredentialFile_safe [OF st] UNIV_I TrueI)
  show ?thesis unfolding upsertCredentialFile_def Let_def
    by (intro safe_if safe_ret TrueI safe_andThen [OF s] safe_andThen [OF safe_wrapErr [OF mirror_stores.encrypt [OF st]]]
        safe_andThen [OF safe_wrapErr [OF commits_beside(1) [OF assms(1-3)]]] safe_attempt [OF mirror_stores.render [OF st assms(4)]])
qed

lemma convergeCredentials_beside:
  assumes "host_ok tree B" "beside_age \<Psi>" "list_all age_file (map fst existing)"
    "\<And>fs. files = Some fs \<Longrightarrow> list_all age_file (map fst fs)"
  shows "keeps (\<lambda>w. \<Psi> (tree (bx_ext w))) (convergeCredentials (boxMirror B) (liftClient (bc_NewClient B u n t)) files rcp rows existing au)"
proof -
  have up: "keeps (\<lambda>w. \<Psi> (tree (bx_ext w))) (upsertCredentialFiles (boxMirror B) fpr rs (liftClient (bc_NewClient B u n t)) fs rcp rows existing au ps)"
    if "list_all age_file (map fst fs)" "m_Renders (boxMirror B) = Some rs" for fpr rs fs ps
  proof (induction ps)
    case (Cons p ps)
    have "age_file p" if "map_of fs p = Some cf" for cf
      using map_of_SomeD [OF that] \<open>list_all age_file (map fst fs)\<close> by (force simp: list_all_iff)
    then show ?case using Cons that(2) by (auto intro!: safe_option safe_andThen [OF upsertCredentialFile_beside [OF assms(1,2)]])
  qed (auto intro: safe_ret)
  have del: "keeps (\<lambda>w. \<Psi> (tree (bx_ext w))) (deleteLoop (liftClient (bc_NewClient B u n t)) pipelinesRepo existing desired au (sortedPaths existing))" for desired
    by (rule deleteLoop_beside [OF assms(1,2)]) (use assms(3) in \<open>auto simp: list_all_iff\<close>)
  show ?thesis unfolding convergeCredentials_def deleteStale_def
    using assms(4) by (auto split: option.splits intro!: safe_ret safe_andThen [OF up] del)
qed

lemma partitionEntry_keys:
  "fst ` set (fst (partitionEntry e x)) = fst ` set (fst x) \<union> (if yaml_file (e_Path e) then {e_Path e} else {})"
  "fst ` set (snd (partitionEntry e x)) = fst ` set (snd x) \<union> (if age_file (e_Path e) then {e_Path e} else {})"
  using yaml_not_age [of "e_Path e"]
  by (auto simp: partitionEntry_def Let_def yaml_file_def age_file_def AList.dom_update split: prod.splits)

lemma partition_keys:
  "fst ` set (fst (partitionPipelineTree es)) = {f \<in> e_Path ` set es. yaml_file f}"
  "fst ` set (snd (partitionPipelineTree es)) = {f \<in> e_Path ` set es. age_file f}"
proof -
  have "fst ` set (fst (fold partitionEntry es x)) = fst ` set (fst x) \<union> {f \<in> e_Path ` set es. yaml_file f} \<and>
    fst ` set (snd (fold partitionEntry es x)) = fst ` set (snd x) \<union> {f \<in> e_Path ` set es. age_file f}" for x
    by (induction es arbitrary: x) (auto simp: partitionEntry_keys)
  from this [of "([], [])"] show "fst ` set (fst (partitionPipelineTree es)) = {f \<in> e_Path ` set es. yaml_file f}"
    "fst ` set (snd (partitionPipelineTree es)) = {f \<in> e_Path ` set es. age_file f}" by (simp_all add: partitionPipelineTree_def)
qed

lemma advanced_listed:
  assumes "spared F D G" "\<And>f. yaml_file f \<Longrightarrow> f \<notin> K \<Longrightarrow> G f = None"
  shows "advanced F D {} (- K) G"
  using assms by (auto simp: advanced_def console_file_def)

lemma advanced_all: "advanced F (map_of d) (fst ` set d \<union> S) X G \<Longrightarrow> advanced F (map_of d) UNIV X G"
  using dom_map_of_conv_image_fst [of d] unfolding advanced_def by blast

lemma converge_triple:
  assumes "host_ok tree B" "list_all yaml_file (map fst desired)" "\<And>fs. files = Some fs \<Longrightarrow> list_all age_file (map fst fs)"
  shows "triple (\<lambda>w. spared F (map_of desired) (tree (bx_ext w)))
    (converge (boxMirror B) (liftClient (bc_NewClient B u n t)) (ws_Slug (bc_Workspace B)) desired files rcp rows drows au)
    (\<lambda>_ w. advanced F (map_of desired) UNIV UNIV (tree (bx_ext w))) (\<lambda>_ w. spared F (map_of desired) (tree (bx_ext w)))"
proof -
  let ?D = "map_of desired"
  have yaml: "\<forall>f. ?D f \<noteq> None \<longrightarrow> yaml_file f" using assms(2) by (auto simp: list_all_iff dest!: map_of_SomeD)
  have beside: "beside_age (advanced F ?D UNIV UNIV)" using yaml by (auto simp: beside_age_def intro: advanced_age)
  have rest: "triple (\<lambda>w. spared F ?D (tree (bx_ext w)) \<and> e_Path ` set es = dom (tree (bx_ext w)))
      (let (existing, existingAge) = partitionPipelineTree es in
       andThen (upsertFiles (boxMirror B) (liftClient (bc_NewClient B u n t)) (ws_Slug (bc_Workspace B)) desired existing drows au (sortedPaths desired)) (\<lambda>_.
       andThen (deleteStaleRendered (liftClient (bc_NewClient B u n t)) pipelinesRepo existing desired au) (\<lambda>_.
       convergeCredentials (boxMirror B) (liftClient (bc_NewClient B u n t)) files rcp rows existingAge au)))
      (\<lambda>_ w. advanced F ?D UNIV UNIV (tree (bx_ext w))) (\<lambda>_ w. spared F ?D (tree (bx_ext w)))" for es
  proof -
    obtain existing existingAge where p: "partitionPipelineTree es = (existing, existingAge)" by fastforce
    note keys = partition_keys [of es, unfolded p fst_conv snd_conv]
    have ups: "triple (\<lambda>w. spared F ?D (tree (bx_ext w)) \<and> e_Path ` set es = dom (tree (bx_ext w)))
        (upsertFiles (boxMirror B) (liftClient (bc_NewClient B u n t)) (ws_Slug (bc_Workspace B)) desired existing drows au (sortedPaths desired))
        (\<lambda>_ w. advanced F ?D UNIV (- fst ` set existing) (tree (bx_ext w))) (\<lambda>_ w. spared F ?D (tree (bx_ext w)))"
      by (rule triple_conseq [OF upsertFiles_triple [OF assms(1), where S = "{}" and X = "- fst ` set existing"]])
        (auto simp: keys intro!: advanced_listed advanced_all [where S = "{}"])
    have del: "triple (\<lambda>w. advanced F ?D UNIV (- fst ` set existing) (tree (bx_ext w)))
        (deleteStaleRendered (liftClient (bc_NewClient B u n t)) pipelinesRepo existing desired au)
        (\<lambda>_ w. advanced F ?D UNIV UNIV (tree (bx_ext w))) (\<lambda>_ w. spared F ?D (tree (bx_ext w)))"
      unfolding deleteStaleRendered_def
      by (rule triple_conseq [OF deleteRendered_triple [OF assms(1)]]) (auto simp: keys list_all_iff)
    have cred: "triple (\<lambda>w. advanced F ?D UNIV UNIV (tree (bx_ext w)))
        (convergeCredentials (boxMirror B) (liftClient (bc_NewClient B u n t)) files rcp rows existingAge au)
        (\<lambda>_ w. advanced F ?D UNIV UNIV (tree (bx_ext w))) (\<lambda>_ w. spared F ?D (tree (bx_ext w)))"
      by (rule triple_conseq [OF convergeCredentials_beside [OF assms(1) beside, unfolded triple_safe]])
        (use keys(2) assms(3) in \<open>auto simp: list_all_iff dest: advanced_spared\<close>)
    show ?thesis unfolding p Let_def prod.case by (rule triple_andThen [OF ups triple_andThen [OF del cred]])
  qed
  show ?thesis unfolding converge_def
    by (rule triple_andThen [OF triple_wrapErr [OF list_triple [OF assms(1)]] rest])
qed

subsection \<open>A pass\<close>

text \<open>The box's workspace is in mirror scope and its git credential is configured.\<close>

definition mirrored :: "'e boxConfig \<Rightarrow> bool" where
  "mirrored B \<longleftrightarrow> ws_OnVM (bc_Workspace B) \<and> TrimPrefix (ws_CustomerDomain (bc_Workspace B)) ''*.'' \<noteq> [] \<and>
     sb_Slug (bc_Credentials B) = ws_Slug (bc_Workspace B) \<and> sb_GitToken (bc_Credentials B) \<noteq> []"

text \<open>The definition files the rows of the workspace give.\<close>

definition rendered_rows :: "'e boxConfig \<Rightarrow> 'e box \<Rightarrow> err + (string \<times> definitionFile) list" where
  "rendered_rows B w =
     (let ps = fst (resolveFileUploads (bc_Workspace B) (map (list_view w) (customer_rows (ws_Slug (bc_Workspace B)) w))) in
      renderPipelineFiles (bc_YAML B) ps (pipelineFileSlugs ps))"

definition wanted :: "'e boxConfig \<Rightarrow> 'e box \<Rightarrow> string \<Rightarrow> definitionFile option" where
  "wanted B w = (case rendered_rows B w of Inr d \<Rightarrow> map_of d | Inl _ \<Rightarrow> Map.empty)"

lemma clientFor_box:
  "mirrored B \<Longrightarrow> clientFor (boxMirror B) (ws_Slug (bc_Workspace B)) w =
     (Inr (Some (liftClient (bc_NewClient B (BoxGiteaURL (bc_Workspace B)) (sb_GitUsername (bc_Credentials B)) (sb_GitToken (bc_Credentials B))), bc_Workspace B)), w)"
  "\<not> mirrored B \<Longrightarrow> \<exists>x. clientFor (boxMirror B) (ws_Slug (bc_Workspace B)) w = (x, w) \<and> (\<forall>v. x = Inr v \<longrightarrow> v = None)"
  by (auto simp: clientFor_def boxMirrorClientFor_def boxMirror_def StaticResolver_def mirrored_def GetWorkspace_static_def
      GetBoxGitCredential_static_def check_static_def andThen_def attempt_def wrapErr_def check_def ret_def fail_def
      split: if_splits)

lemma renderLoop_yaml: "list_all yaml_file (map fst files) \<Longrightarrow> renderLoop Y slugs ps files = Inr d \<Longrightarrow> list_all yaml_file (map fst d)"
proof (induction Y slugs ps files arbitrary: d rule: renderLoop.induct)
  case (2 Y slugs p ps files)
  then show ?case by (auto split: sum.splits simp: list_all_iff AList.dom_update)
qed auto

lemma wanted_yaml: "rendered_rows B w = Inr d \<Longrightarrow> list_all yaml_file (map fst d)"
  unfolding rendered_rows_def renderPipelineFiles_def Let_def by (rule renderLoop_yaml [rotated]) auto

lemma retry_triple:
  assumes "triple P m (\<lambda>_. Q) (\<lambda>_. P)" "\<And>w. Q w \<Longrightarrow> P w"
  shows "triple P (attempt m (\<lambda>r. case r of Inr _ \<Rightarrow> ret () | Inl e \<Rightarrow> (if b e then m else fail e))) (\<lambda>_. Q) (\<lambda>_. P)"
  by (rule triple_attempt [OF assms(1)]) (auto intro!: triple_ret triple_if assms(1) triple_fail)

lemma commitPass_triple:
  assumes "host_ok tree B" "rendered_rows B w0 = renderPipelineFiles (bc_YAML B) ps slugs"
  shows "triple (\<lambda>w. spared F (wanted B w0) (tree (bx_ext w)))
     (andThen (lift (renderPipelineFiles (bc_YAML B) ps slugs)) (\<lambda>desired.
      andThen (desiredCredentialFiles (boxMirror B) (ws_Slug (bc_Workspace B)) ps slugs extra) (\<lambda>(credentials, recipient, renders).
      andThen (definitionRenderRows (boxMirror B) (ws_Slug (bc_Workspace B))) (\<lambda>defRenders.
      attempt (converge (boxMirror B) (liftClient (bc_NewClient B u n t)) (ws_Slug (bc_Workspace B)) desired credentials recipient renders defRenders au) (\<lambda>r.
      case r of
        Inr _ \<Rightarrow> ret ()
      | Inl e \<Rightarrow>
          (if errors_Is e ErrRepoFileChanged
           then converge (boxMirror B) (liftClient (bc_NewClient B u n t)) (ws_Slug (bc_Workspace B)) desired credentials recipient renders defRenders au
           else fail e))))))
     (\<lambda>_ w. (\<exists>d. rendered_rows B w0 = Inr d) \<and> advanced F (wanted B w0) UNIV UNIV (tree (bx_ext w)))
     (\<lambda>_ w. spared F (wanted B w0) (tree (bx_ext w)))"
proof -
  let ?S = "\<lambda>w. spared F (wanted B w0) (tree (bx_ext w))" and ?c = "ws_Slug (bc_Workspace B)"
  note st = host_stores [OF assms(1), of "spared F (wanted B w0)"]
  have lift: "triple ?S (lift (renderPipelineFiles (bc_YAML B) ps slugs)) (\<lambda>d w. ?S w \<and> rendered_rows B w0 = Inr d) (\<lambda>_. ?S)"
    by (rule triple_lift) (simp_all add: assms(2))
  have creds: "triple ?S (desiredCredentialFiles (boxMirror B) ?c ps slugs extra)
      (\<lambda>x w. ?S w \<and> (\<forall>fs. fst x = Some fs \<longrightarrow> list_all age_file (map fst fs))) (\<lambda>_. ?S)"
    using mirror_stores.desiredCredentialFiles_safe [OF st, of ps slugs extra, unfolded triple_safe]
    by (rule triple_conseq) (auto simp: mirror_stores.files_ours_def [OF st] list_all_iff)
  have rows: "triple ?S (definitionRenderRows (boxMirror B) ?c) (\<lambda>_. ?S) (\<lambda>_. ?S)"
    using mirror_stores.definitionRenderRows_safe [OF st, unfolded triple_safe] by simp
  show ?thesis
  proof (rule triple_andThen [OF lift], rule triple_pull, rule triple_andThen [OF creds], rule triple_pull, rule triple_prod, rule triple_prod, rule triple_andThen [OF rows])
    fix d x y recipient renders defRenders and files :: "(string \<times> credentialFile) list option"
    assume d: "rendered_rows B w0 = Inr d" and x: "\<forall>fs. fst x = Some fs \<longrightarrow> list_all age_file (map fst fs)" "x = (files, y)"
    have w: "wanted B w0 = map_of d" by (simp add: wanted_def d)
    have f: "list_all age_file (map fst fs)" if "files = Some fs" for fs using x that by simp
    show "triple ?S (attempt (converge (boxMirror B) (liftClient (bc_NewClient B u n t)) ?c d files recipient renders defRenders au) (\<lambda>r.
       case r of Inr _ \<Rightarrow> ret () | Inl e \<Rightarrow> (if errors_Is e ErrRepoFileChanged
         then converge (boxMirror B) (liftClient (bc_NewClient B u n t)) ?c d files recipient renders defRenders au else fail e)))
      (\<lambda>_ w. (\<exists>d. rendered_rows B w0 = Inr d) \<and> advanced F (wanted B w0) UNIV UNIV (tree (bx_ext w))) (\<lambda>_. ?S)"
      unfolding w
      by (rule triple_conseq [OF retry_triple [OF converge_triple [OF assms(1) wanted_yaml [OF d] f]]]) (auto simp: d dest: advanced_spared)
  qed
qed

lemma SyncCustomer_triple:
  assumes "host_ok tree B"
  shows "triple (\<lambda>w. w = w0) (SyncCustomer (boxMirror B) (ws_Slug (bc_Workspace B)) au)
    (\<lambda>_ w. spared (tree (bx_ext w0)) (wanted B w0) (tree (bx_ext w)) \<and> (mirrored B \<longrightarrow> (\<exists>d. rendered_rows B w0 = Inr d) \<and>
       advanced (tree (bx_ext w0)) (wanted B w0) UNIV UNIV (tree (bx_ext w))))
    (\<lambda>_ w. spared (tree (bx_ext w0)) (wanted B w0) (tree (bx_ext w)))"
proof -
  let ?F = "tree (bx_ext w0)" and ?c = "ws_Slug (bc_Workspace B)"
  let ?S = "\<lambda>w. spared ?F (wanted B w0) (tree (bx_ext w))"
  have refl: "?S w0" by (simp add: spared_def)
  show ?thesis
  proof (cases "mirrored B")
    case True
    have list: "triple (\<lambda>w. w = w0) (wrapErr m (ListPipelinesByCustomer_pg (bc_Repository B) ?c))
        (\<lambda>ps w. ?S w \<and> ps = map (list_view w0) (customer_rows ?c w0)) (\<lambda>_. ?S)" for m
    proof (rule triple_wrapErr, rule tripleI)
      fix w ps w' assume "w = w0" and l: "ListPipelinesByCustomer_pg (bc_Repository B) ?c w = (Inr ps, w')"
      then show "?S w' \<and> ps = map (list_view w0) (customer_rows ?c w0)"
        using refl safeD [OF outside_reads(2) [where \<Phi> = "\<lambda>e. spared ?F (wanted B w0) (tree e)"] _ l] List_Inr [OF l] by simp
    next
      fix w e w' assume "w = w0" and l: "ListPipelinesByCustomer_pg (bc_Repository B) ?c w = (Inl e, w')"
      then show "?S w'" using refl safeD [OF outside_reads(2) [where \<Phi> = "\<lambda>e. spared ?F (wanted B w0) (tree e)"] _ l] by simp
    qed
    have client: "triple (\<lambda>w. w = w0) (clientFor (boxMirror B) ?c)
        (\<lambda>v w. w = w0 \<and> (\<exists>u n t. v = Some (liftClient (bc_NewClient B u n t), bc_Workspace B))) (\<lambda>_. ?S)"
      by (intro tripleI) (auto simp: clientFor_box(1) [OF True])
    show ?thesis unfolding SyncCustomer_def
    proof (rule triple_andThen [OF client], rule triple_pull, elim exE, simp only: option.case prod.case, goal_cases)
      case (1 v u n t)
      obtain ps extra where ps: "resolveFileUploads (bc_Workspace B) (map (list_view w0) (customer_rows ?c w0)) = (ps, extra)" by fastforce
      have sel: "m_Pipelines (boxMirror B) = pg_repo (bc_Repository B)" "m_YAML (boxMirror B) = bc_YAML B" by (simp_all add: boxMirror_def)
      have rr: "rendered_rows B w0 = renderPipelineFiles (bc_YAML B) ps (pipelineFileSlugs ps)" by (simp add: rendered_rows_def ps)
      show ?case unfolding sel pg_repo_sel
        by (rule triple_andThen [OF list], rule triple_pull, simp only: ps prod.case Let_def,
            rule triple_conseq [OF commitPass_triple [OF assms rr]]) (auto dest: advanced_spared)
    qed
  next
    case False
    have "\<exists>x. SyncCustomer (boxMirror B) ?c au w0 = (x, w0)"
      using clientFor_box(2) [OF False, of w0] by (auto simp: SyncCustomer_def andThen_def split: sum.splits)
    then show ?thesis using False refl by (auto intro!: tripleI)
  qed
qed


lemma exampleClient_host: "git_host map_of exampleClient"
proof -
  have p: "e_Path ` set (map (\<lambda>(f, t). \<lparr>e_Path = f, e_SHA = t\<rparr>) e) = dom (map_of e)" for e
    by (force simp: dom_map_of_conv_image_fst)
  have u: "\<exists>v. map_of e = (map_of e)(f := v)" "\<exists>v. (map_of e)(f \<mapsto> t) = (map_of e)(f := v)" for e :: files and f t
    by (metis fun_upd_triv) blast
  show ?thesis unfolding git_host_def
    by (auto simp: exampleClient_def p u update_conv' delete_conv' simp del: set_map split: option.splits if_splits)
qed

lemma exampleBox_host: "host_ok map_of exampleBox"
  by (simp add: host_ok_def exampleClient_host exampleBox_def)

text \<open>The example with a file of the box's owner and a definition whose pipeline is gone.\<close>

definition staleWorld :: "files box" where
  "staleWorld = exampleWorld\<lparr>bx_ext := [(''README.md'', ''hello''), (''pipelines/old.yaml'', pipelineFileHeader @ ''p0 old'')]\<rparr>"


text \<open>
  C6. The mirror never harms a file that is not its own: whether the pass succeeds, fails midway or is retried, a file that is
  neither a rendered definition nor a credential file, and does not open with the Console's header, is as it was.
\<close>

theorem sync_spares_foreign_files:
  assumes "host_ok tree B" "SyncCustomer (boxMirror B) (ws_Slug (bc_Workspace B)) au w = (x, w')"
    "wanted B w f = None" "\<not> age_file f" "\<not> console_file (tree (bx_ext w)) f"
  shows "tree (bx_ext w') f = tree (bx_ext w) f"
proof -
  have "spared (tree (bx_ext w)) (wanted B w) (tree (bx_ext w'))"
    using triple_Inr [OF SyncCustomer_triple [OF assms(1)] refl] triple_Inl [OF SyncCustomer_triple [OF assms(1)] refl] assms(2)
    by (cases x) auto
  then show ?thesis using assms(3-5) by (auto simp: spared_def)
qed

lemma downBox_host: "host_ok map_of downBox"
proof -
  have "git_host map_of (exampleClient\<lparr>PutContents := (\<lambda>r f t s m a e. (Inl (ErrNew ''503''), e)), DeleteContents := (\<lambda>r f s m a e. (Inl (ErrNew ''503''), e))\<rparr>)"
    using exampleClient_host by (auto simp: git_host_def intro!: exI [of _ "map_of _ _"])
  then show ?thesis by (simp add: host_ok_def downBox_def exampleBox_def)
qed

theorem sync_spares_foreign_files_witness:
  "map_of (bx_ext (snd (SyncCustomer (boxMirror downBox) (ws_Slug (bc_Workspace downBox)) None staleWorld))) ''README.md'' = Some ''hello''"
proof -
  have d: "wanted downBox staleWorld ''README.md'' = None" "\<not> age_file ''README.md''" by code_simp+
  have "\<not> yaml_file ''README.md''" by code_simp
  then have c: "\<not> console_file (map_of (bx_ext staleWorld)) ''README.md''" "map_of (bx_ext staleWorld) ''README.md'' = Some ''hello''"
    by (simp_all add: console_file_def staleWorld_def)
  show ?thesis using sync_spares_foreign_files [OF downBox_host prod.collapse [symmetric] d c(1)] c(2) by simp
qed

end
