(* ===== verification/SideProperties.thy ===== *)
theory SideProperties
  imports Example
begin

section \<open>Properties of the editor, the source tests and the bell of a box\<close>

text \<open>
  The wired services off the two planes: which files the repository editor reaches, and what becomes of the credentials
  of a source test through every order of queueing, claiming, reporting and sweeping.
\<close>

subsection \<open>The repository editor\<close>

text \<open>Whose box answers for which repository, and which file of it may be edited.\<close>

definition reachable_repo :: "'e boxConfig \<Rightarrow> string \<Rightarrow> string \<Rightarrow> bool" where
  "reachable_repo B u repo \<longleftrightarrow>
     admitted (bc_Workspace B) u \<and> ws_OnVM (bc_Workspace B) \<and> (repo \<noteq> ''rill'' \<or> ws_RillEnabled (bc_Workspace B)) \<and>
     TrimPrefix (ws_CustomerDomain (bc_Workspace B)) ''*.'' \<noteq> [] \<and>
     sb_Slug (bc_Credentials B) = ws_Slug (bc_Workspace B) \<and> sb_GitToken (bc_Credentials B) \<noteq> []"

definition editable :: "'e boxConfig \<Rightarrow> string \<Rightarrow> string \<Rightarrow> string \<Rightarrow> bool" where
  "editable B u repo f \<longleftrightarrow> repo \<in> {''rill'', ''transformations''} \<and> reachable_repo B u repo \<and>
     (\<forall>seg \<in> set (split_on (CHR ''/'') f). visible_seg seg) \<and> f \<notin> {''duckdb.yaml'', ''.env''}"

definition boxGitClient :: "'e boxConfig \<Rightarrow> 'e RepoFileClient" where
  "boxGitClient B = bc_NewClient B (BoxGiteaURL (bc_Workspace B)) (sb_GitUsername (bc_Credentials B)) (sb_GitToken (bc_Credentials B))"

lemma wrapErr_known: "wrapErr msg (ret x) = ret x" "wrapErr msg (fail e) = fail (Errorf msg e)" "fail e = fail e' \<longleftrightarrow> e = e'"
  by (auto simp: fun_eq_iff wrapErr_def ret_def fail_def)

lemma boxGitea_reachable:
  "reachable_repo B u repo \<Longrightarrow> boxGitea (boxRepoEditor B) u repo =
     ret (BoxGiteaURL (bc_Workspace B), sb_GitUsername (bc_Credentials B), sb_GitToken (bc_Credentials B))"
  "\<not> reachable_repo B u repo \<Longrightarrow> \<exists>e. boxGitea (boxRepoEditor B) u repo = fail e"
  by (auto simp: reachable_repo_def boxGitea_def by_user_admitted GetBoxGitCredential_static_def check_static_def wrapErr_known check_def)

lemma editor_reaches:
  "if editable B u repo f
   then andThen (clientFor_repo (boxRepoEditor B) u repo) (\<lambda>client. andThen (check (validateRepoPath f)) (\<lambda>_. k client)) = k (liftClient (boxGitClient B))
   else \<exists>e. andThen (clientFor_repo (boxRepoEditor B) u repo) (\<lambda>client. andThen (check (validateRepoPath f)) (\<lambda>_. k client)) = fail e"
proof (cases "repo \<in> set boxRepoAllowlist \<and> reachable_repo B u repo")
  case True
  then have "clientFor_repo (boxRepoEditor B) u repo = ret (liftClient (boxGitClient B))"
    by (simp add: clientFor_repo_def boxGitea_reachable boxGitClient_def)
  moreover have "editable B u repo f \<longleftrightarrow> validateRepoPath f = None"
    using True validate_visible [of f] by (auto simp: editable_def boxRepoAllowlist_def boxRepoBlockedFiles_def)
  ultimately show ?thesis by (cases "validateRepoPath f") (auto simp: check_def wrapErr_known)
next
  case False
  then have "\<not> editable B u repo f" by (auto simp: editable_def boxRepoAllowlist_def)
  moreover from False have "\<exists>e. clientFor_repo (boxRepoEditor B) u repo = fail e"
    using boxGitea_reachable(2) [of B u repo] by (auto simp: clientFor_repo_def wrapErr_known)
  ultimately show ?thesis by (auto simp: wrapErr_known)
qed

lemma onExt_andThen: "onExt (andThen m k) = andThen (onExt m) (\<lambda>x. onExt (k x))"
  by (auto simp: fun_eq_iff onExt_def andThen_def split: prod.splits sum.splits)

lemma onExt_attempt: "onExt (attempt m k) = attempt (onExt m) (\<lambda>x. onExt (k x))"
  by (auto simp: fun_eq_iff onExt_def attempt_def split: prod.splits)

lemma onExt_ret: "onExt (ret x) = ret x" "onExt (fail e) = fail e" "onExt (if b then m else m') = (if b then onExt m else onExt m')"
  by (auto simp: fun_eq_iff onExt_def ret_def fail_def)

lemma author_outside: "resolveCommitAuthor (Some (\<lambda>u. onExt (m u))) u = onExt (resolveCommitAuthor (Some m) u)"
  unfolding resolveCommitAuthor_def option.case Let_def onExt_ret onExt_attempt
  by (intro if_cong refl arg_cong2 [where f = attempt] ext) (simp add: onExt_ret split: sum.splits)

text \<open>
  C20. The editor commits exactly one file of the customer's own and touches nothing else: for a caller of the box's
  workspace, one of the two editable repositories, a configured box and a visible path, the call is the commit of that
  path under the caller's name by the box's own credential; in every other case it fails and neither the git host nor
  the database is touched. Reading a file goes through the same gates.
\<close>

theorem editor_commits_visible_files:
  "if editable B u repo f
   then PutFile_repo (boxRepoEditor B) u repo f content sha msg =
          onExt (andThen (resolveCommitAuthor (Some (bc_Users B)) u) (\<lambda>author.
            PutContents (boxGitClient B) repo f content sha (if msg = [] then ''Update '' @ f @ '' via FairTier Console'' else msg) author)) \<and>
        DeleteFile_repo (boxRepoEditor B) u repo f sha msg =
          onExt (andThen (resolveCommitAuthor (Some (bc_Users B)) u) (\<lambda>author.
            DeleteContents (boxGitClient B) repo f sha (if msg = [] then ''Delete '' @ f @ '' via FairTier Console'' else msg) author)) \<and>
        GetFile_repo (boxRepoEditor B) u repo f = onExt (GetContents (boxGitClient B) repo f)
   else (\<exists>e. PutFile_repo (boxRepoEditor B) u repo f content sha msg = fail e) \<and>
        (\<exists>e. DeleteFile_repo (boxRepoEditor B) u repo f sha msg = fail e) \<and> (\<exists>e. GetFile_repo (boxRepoEditor B) u repo f = fail e)"
proof -
  let ?author = "resolveCommitAuthor (Some (bc_Users B)) u"
  let ?m = "\<lambda>verb. if msg = [] then verb @ f @ '' via FairTier Console'' else msg"
  show ?thesis
    using editor_reaches [of B u repo f "\<lambda>cl. andThen (onExt ?author) (\<lambda>a. PutContents cl repo f content sha (?m ''Update '') a)"]
      editor_reaches [of B u repo f "\<lambda>cl. andThen (onExt ?author) (\<lambda>a. DeleteContents cl repo f sha (?m ''Delete '') a)"]
      editor_reaches [of B u repo f "\<lambda>cl. GetContents cl repo f"]
    unfolding PutFile_repo_def DeleteFile_repo_def GetFile_repo_def Let_def editor_sel author_outside onExt_andThen
    by (cases "editable B u repo f") (simp_all add: liftClient_def)
qed

subsection \<open>Source tests\<close>

text \<open>
  C18. A source test is handed to the worker at most once. Over any run of queueing, claiming, reporting, polling and
  sweeping, whichever statements fail, the ids handed out are all different, as long as the ids minted for new tests
  are: a password that is tried twice locks an account.
\<close>

theorem source_test_claimed_once:
  assumes "test_run (boxSourceTests B) w cs ks w'" "distinct (cs @ map sr_id (t_source_tests w))"
  shows "distinct ks"
  by (rule box_tests.run_once [OF assms])

text \<open>
  C19. A test that has its verdict holds no credentials. From an empty table, every row is waiting, is with the worker, or
  is settled: success or failed, completed, its message within the bound and its credential column empty.
\<close>

theorem settled_tests_hold_no_credentials:
  assumes "test_run (boxSourceTests B) w cs ks w'" "t_source_tests w = []" "row \<in> set (t_source_tests w')"
  shows "sr_status row = SourceTestPending \<or> sr_status row = SourceTestRunning \<or>
    (sr_status row = SourceTestSuccess \<or> sr_status row = SourceTestFailed) \<and> sr_source_credentials row = [] \<and>
    sr_completed_at row \<noteq> None \<and> length (runes (sr_message row)) \<le> 2001"
  using box_tests.run_life [OF assms(1)] assms(2,3) by (auto simp: life_def settled_row_def sourceTestMaxMessage_def)

text \<open>A box that mints one id, and a test queued, claimed, claimed again and reported.\<close>

definition testBox :: "files boxConfig" where
  "testBox = exampleBox\<lparr>bc_newID := (\<lambda>e. (Inr ''t1'', e))\<rparr>"

definition exampleTest :: SourceTest where
  "exampleTest = \<lparr>sx_ID = [], sx_CustomerSlug = [], sx_SourceType = ''sql_database'', sx_SourceConfig = ''{\"schema\":\"public\"}'',
     sx_SourceCredentials = ''{\"connection_string\":\"postgres://u:p@h/d\"}'', sx_Status = [], sx_Message = [], sx_Details = [], sx_CreatedAt = 0, sx_CompletedAt = None,
     sx_ExpiresAt = 0\<rparr>"

definition queuedWorld :: "files box" where
  "queuedWorld = snd (StartSourceTest (boxSourceTests testBox) ''alice'' exampleTest exampleWorld)"

definition claimedWorld :: "files box" where
  "claimedWorld = snd (ClaimSourceTests (boxSourceTests testBox) ''acme'' queuedWorld)"

definition settledWorld :: "files box" where
  "settledWorld = snd (ReportSourceTest (boxSourceTests testBox) ''acme'' ''t1'' SourceTestFailed ''refused'' [''timeout'']
     (snd (ClaimSourceTests (boxSourceTests testBox) ''acme'' claimedWorld)))"

lemma run_steps:
  "test_run s w cs ks w1 \<Longrightarrow> fst (StartSourceTest s u inp w1) = Inr t \<Longrightarrow> test_run s w (sx_ID t # cs) ks (snd (StartSourceTest s u inp w1))"
  "test_run s w cs ks w1 \<Longrightarrow> fst (ClaimSourceTests s c w1) = Inr ts \<Longrightarrow> test_run s w cs (map sx_ID ts @ ks) (snd (ClaimSourceTests s c w1))"
  by (drule test_run.start [where u = u and inp = inp], rule prod.collapse [symmetric], simp)
    (drule test_run.claim [where c = c], rule prod.collapse [symmetric], simp)

lemma settled_run: "test_run (boxSourceTests testBox) exampleWorld [''t1''] [''t1''] settledWorld"
proof -
  let ?s = "boxSourceTests testBox"
  have q: "map_sum id sx_ID (fst (StartSourceTest ?s ''alice'' exampleTest exampleWorld)) = Inr ''t1''" by code_simp
  have c: "map_sum id (map sx_ID) (fst (ClaimSourceTests ?s ''acme'' queuedWorld)) = Inr [''t1'']"
    "map_sum id (map sx_ID) (fst (ClaimSourceTests ?s ''acme'' claimedWorld)) = Inr []" by code_simp+
  from q obtain t where "fst (StartSourceTest ?s ''alice'' exampleTest exampleWorld) = Inr t" "sx_ID t = ''t1''"
    by (cases "fst (StartSourceTest ?s ''alice'' exampleTest exampleWorld)") auto
  from run_steps(1) [OF test_run.none this(1)] this(2) have 1: "test_run ?s exampleWorld [''t1''] [] queuedWorld" by (simp add: queuedWorld_def)
  from c(1) obtain ts where "fst (ClaimSourceTests ?s ''acme'' queuedWorld) = Inr ts" "map sx_ID ts = [''t1'']"
    by (cases "fst (ClaimSourceTests ?s ''acme'' queuedWorld)") auto
  from run_steps(2) [OF 1 this(1)] this(2) have 2: "test_run ?s exampleWorld [''t1''] [''t1''] claimedWorld" by (simp add: claimedWorld_def)
  from c(2) have "fst (ClaimSourceTests ?s ''acme'' claimedWorld) = Inr []"
    by (cases "fst (ClaimSourceTests ?s ''acme'' claimedWorld)") auto
  from run_steps(2) [OF 2 this] have "test_run ?s exampleWorld [''t1''] [''t1''] (snd (ClaimSourceTests ?s ''acme'' claimedWorld))" by simp
  then show ?thesis unfolding settledWorld_def by (rule test_run.report) (rule prod.collapse [symmetric])
qed

theorem source_test_claimed_once_witness:
  "test_run (boxSourceTests testBox) exampleWorld [''t1''] [''t1''] settledWorld \<and> distinct [''t1'']"
  using source_test_claimed_once [OF settled_run] settled_run by (simp add: exampleWorld_def)

theorem settled_tests_hold_no_credentials_witness:
  "\<exists>row \<in> set (t_source_tests settledWorld). sr_id row = ''t1'' \<and> sr_status row = SourceTestFailed \<and> sr_source_credentials row = []"
proof -
  have "map (\<lambda>r. (sr_id r, sr_status r)) (t_source_tests settledWorld) = [(''t1'', SourceTestFailed)]" by code_simp
  then obtain row where row: "row \<in> set (t_source_tests settledWorld)" "sr_id row = ''t1''" "sr_status row = SourceTestFailed"
    by (cases "t_source_tests settledWorld") auto
  have "SourceTestFailed \<noteq> SourceTestPending" "SourceTestFailed \<noteq> SourceTestRunning"
    by (simp_all add: SourceTestFailed_def SourceTestPending_def SourceTestRunning_def)
  then show ?thesis using settled_tests_hold_no_credentials [OF settled_run _ row(1)] row by (auto simp: exampleWorld_def)
qed

end
