(* ===== verification/Rewrap.thy ===== *)
theory Rewrap
  imports StoreProperties
begin

section \<open>Re-encrypting stored credentials (\<^verbatim>\<open>postgres/rewrap.go\<close>)\<close>

text \<open>
  The middle step of a key rotation: with the new key as the ring's primary and the old one kept for reading, every
  stored ciphertext that is not tagged with the primary key's id is decrypted and sealed again, so that the old
  key can be dropped. The columns are addressed by name, as the statements are put together; the pattern of
  the \<^verbatim>\<open>LIKE\<close> is a prefix, as the key id is hex. An update is a compare-and-swap against the ciphertext that was
  read. The count that \<^verbatim>\<open>applyRewrap\<close> returns beside an error is dropped by its caller and left out. The audit over
  \<^verbatim>\<open>information_schema\<close> is not modelled.
\<close>

record EncryptedColumn =
  ec_Table :: string
  ec_KeyColumns :: "string list"
  ec_Column :: string

definition WorkspaceEncryptedColumns :: "EncryptedColumn list" where
  "WorkspaceEncryptedColumns =
     [\<lparr>ec_Table = ''pipelines'', ec_KeyColumns = [''id''], ec_Column = ''source_credentials''\<rparr>,
      \<lparr>ec_Table = ''transformations'', ec_KeyColumns = [''id''], ec_Column = ''git_credentials''\<rparr>,
      \<lparr>ec_Table = ''google_oauth_grants'', ec_KeyColumns = [''grant_id''], ec_Column = ''refresh_token''\<rparr>,
      \<lparr>ec_Table = ''customer_oauth_clients'', ec_KeyColumns = [''customer_slug'', ''provider''], ec_Column = ''client_secret''\<rparr>,
      \<lparr>ec_Table = ''connections'', ec_KeyColumns = [''id''], ec_Column = ''credentials''\<rparr>,
      \<lparr>ec_Table = ''source_tests'', ec_KeyColumns = [''id''], ec_Column = ''source_credentials''\<rparr>]"

text \<open>The key and the value of each row of a column, and the column with every value mapped.\<close>

definition column_rows :: "EncryptedColumn \<Rightarrow> 'a pgdb_scheme \<Rightarrow> (string list \<times> string) list option" where
  "column_rows c db =
     (if c = WorkspaceEncryptedColumns ! 0 then Some (map (\<lambda>r. ([pr_id r], pr_source_credentials r)) (t_pipelines db))
      else if c = WorkspaceEncryptedColumns ! 1 then Some (map (\<lambda>r. ([tr_id r], tr_git_credentials r)) (t_transformations db))
      else if c = WorkspaceEncryptedColumns ! 2 then Some (map (\<lambda>r. ([gw_grant_id r], gw_refresh_token r)) (t_grants db))
      else if c = WorkspaceEncryptedColumns ! 3 then Some (map (\<lambda>r. ([oc_CustomerSlug r, oc_Provider r], oc_ClientSecret r)) (t_oauth_clients db))
      else if c = WorkspaceEncryptedColumns ! 4 then Some (map (\<lambda>r. ([c_ID r], c_Credentials r)) (t_connections db))
      else if c = WorkspaceEncryptedColumns ! 5 then Some (map (\<lambda>r. ([sr_id r], sr_source_credentials r)) (t_source_tests db))
      else None)"

definition map_column :: "EncryptedColumn \<Rightarrow> (string list \<Rightarrow> string \<Rightarrow> string) \<Rightarrow> 'a pgdb_scheme \<Rightarrow> 'a pgdb_scheme" where
  "map_column c f db =
     (if c = WorkspaceEncryptedColumns ! 0
      then db\<lparr>t_pipelines := map (\<lambda>r. r\<lparr>pr_source_credentials := f [pr_id r] (pr_source_credentials r)\<rparr>) (t_pipelines db)\<rparr>
      else if c = WorkspaceEncryptedColumns ! 1
      then db\<lparr>t_transformations := map (\<lambda>r. r\<lparr>tr_git_credentials := f [tr_id r] (tr_git_credentials r)\<rparr>) (t_transformations db)\<rparr>
      else if c = WorkspaceEncryptedColumns ! 2
      then db\<lparr>t_grants := map (\<lambda>r. r\<lparr>gw_refresh_token := f [gw_grant_id r] (gw_refresh_token r)\<rparr>) (t_grants db)\<rparr>
      else if c = WorkspaceEncryptedColumns ! 3
      then db\<lparr>t_oauth_clients := map (\<lambda>r. r\<lparr>oc_ClientSecret := f [oc_CustomerSlug r, oc_Provider r] (oc_ClientSecret r)\<rparr>) (t_oauth_clients db)\<rparr>
      else if c = WorkspaceEncryptedColumns ! 4
      then db\<lparr>t_connections := map (\<lambda>r. r\<lparr>c_Credentials := f [c_ID r] (c_Credentials r)\<rparr>) (t_connections db)\<rparr>
      else if c = WorkspaceEncryptedColumns ! 5
      then db\<lparr>t_source_tests := map (\<lambda>r. r\<lparr>sr_source_credentials := f [sr_id r] (sr_source_credentials r)\<rparr>) (t_source_tests db)\<rparr>
      else db)"

definition PrimaryKeyID :: "Keyring \<Rightarrow> string" where
  "PrimaryKeyID k = ke_id (kr_primary k)"

definition primaryEnvelopePattern :: "string \<Rightarrow> string" where
  "primaryEnvelopePattern primaryID = ''enc:'' @ primaryID @ '':''"

definition stale :: "string \<Rightarrow> string \<Rightarrow> bool" where
  "stale primaryID v \<longleftrightarrow> prefix ''enc:'' v \<and> \<not> prefix (primaryEnvelopePattern primaryID) v"

definition selectStaleRows :: "string \<Rightarrow> EncryptedColumn \<Rightarrow> ('a pgdb_scheme, (string list \<times> string) list) io" where
  "selectStaleRows primaryID c =
     wrapErr (''postgres: query stale '' @ ec_Table c @ ''.'' @ ec_Column c) (sql (\<lambda>db.
       case column_rows c db of
         None \<Rightarrow> (Inl (ErrNew ''relation does not exist''), db)
       | Some rows \<Rightarrow> (Inr (filter (\<lambda>(_, v). stale primaryID v) rows), db)))"

definition swapValue :: "EncryptedColumn \<Rightarrow> string list \<Rightarrow> string \<Rightarrow> string \<Rightarrow> ('a pgdb_scheme, nat) io" where
  "swapValue c key stored rewrapped = sql (\<lambda>db.
     case column_rows c db of
       None \<Rightarrow> (Inl (ErrNew ''relation does not exist''), db)
     | Some rows \<Rightarrow> (Inr (length (filter (\<lambda>r. r = (key, stored)) rows)),
         map_column c (\<lambda>k v. if k = key \<and> v = stored then rewrapped else v) db))"

fun applyRewrap ::
  "AEAD \<times> Keyring \<Rightarrow> EncryptedColumn \<Rightarrow> (string list \<times> string) list \<Rightarrow> nat \<Rightarrow> ('a pgdb_scheme, nat) io" where
  "applyRewrap enc c [] rewrote = ret rewrote"
| "applyRewrap enc c ((key, stored) # pending) rewrote =
     andThen (wrapErr (''postgres: rewrap '' @ ec_Table c @ ''.'' @ ec_Column c) (lift (Decrypt_ring (fst enc) (snd enc) stored))) (\<lambda>plaintext.
     andThen (wrapErr (''postgres: re-encrypt '' @ ec_Table c @ ''.'' @ ec_Column c) (Encrypt_ring (fst enc) rand_Read (snd enc) plaintext)) (\<lambda>rewrapped.
     andThen (wrapErr (''postgres: update rewrapped '' @ ec_Table c @ ''.'' @ ec_Column c) (swapValue c key stored rewrapped)) (\<lambda>n.
     applyRewrap enc c pending (rewrote + n))))"

definition rewrapColumn :: "AEAD \<times> Keyring \<Rightarrow> string \<Rightarrow> EncryptedColumn \<Rightarrow> ('a pgdb_scheme, nat) io" where
  "rewrapColumn enc primaryID c =
     andThen (selectStaleRows primaryID c) (\<lambda>pending. applyRewrap enc c pending 0)"

fun rewrapColumns :: "AEAD \<times> Keyring \<Rightarrow> string \<Rightarrow> EncryptedColumn list \<Rightarrow> nat \<Rightarrow> ('a pgdb_scheme, nat) io" where
  "rewrapColumns enc primaryID [] n = ret n"
| "rewrapColumns enc primaryID (c # cols) n =
     andThen (rewrapColumn enc primaryID c) (\<lambda>m. rewrapColumns enc primaryID cols (n + m))"

definition RewrapEncrypted :: "(AEAD \<times> Keyring) option \<Rightarrow> EncryptedColumn list \<Rightarrow> ('a pgdb_scheme, nat) io" where
  "RewrapEncrypted encryptor cols =
     (case encryptor of None \<Rightarrow> ret 0 | Some enc \<Rightarrow> rewrapColumns enc (PrimaryKeyID (snd enc)) cols 0)"

subsection \<open>Columns\<close>

abbreviation columns :: "EncryptedColumn list" where
  "columns \<equiv> WorkspaceEncryptedColumns"

definition values_of :: "EncryptedColumn \<Rightarrow> 'a pgdb_scheme \<Rightarrow> (string list \<times> string) list" where
  "values_of c db = (case column_rows c db of None \<Rightarrow> [] | Some rows \<Rightarrow> rows)"

lemma columns_distinct: "distinct columns"
  by (simp add: WorkspaceEncryptedColumns_def)

lemma columns_cases:
  assumes "c \<in> set columns"
  obtains i where "i < 6" "c = columns ! i"
proof -
  have "length columns = 6" by (simp add: WorkspaceEncryptedColumns_def)
  then show ?thesis using assms that by (auto simp: in_set_conv_nth)
qed

lemma column_nth_eq: "i < 6 \<Longrightarrow> j < 6 \<Longrightarrow> columns ! i = columns ! j \<longleftrightarrow> i = j"
  using nth_eq_iff_index_eq [OF columns_distinct, of i j] by (simp add: WorkspaceEncryptedColumns_def)

lemma column_known:
  assumes "c \<in> set columns"
  shows "column_rows c db = Some (values_of c db)"
proof -
  obtain i where i: "i < 6" "c = columns ! i" using assms by (rule columns_cases)
  then have "i \<in> {0, 1, 2, 3, 4, 5}" by auto
  then show ?thesis unfolding i(2) by (auto simp: values_of_def column_rows_def column_nth_eq)
qed

lemma values_map:
  assumes "c \<in> set columns"
  shows "values_of c (map_column c f db) = map (\<lambda>(k, v). (k, f k v)) (values_of c db)"
proof -
  obtain i where i: "i < 6" "c = columns ! i" using assms by (rule columns_cases)
  then have "i \<in> {0, 1, 2, 3, 4, 5}" by auto
  then show ?thesis unfolding i(2) by (auto simp: values_of_def column_rows_def map_column_def column_nth_eq)
qed

lemma values_map_other: "c' \<noteq> c \<Longrightarrow> values_of c' (map_column c f db) = values_of c' db"
  by (auto simp: values_of_def column_rows_def map_column_def column_nth_eq)

lemma values_upd [simp]:
  "values_of c (db\<lparr>db_link := ls\<rparr>) = values_of c db" "values_of c (db\<lparr>db_drawn := n\<rparr>) = values_of c db"
  by (simp_all add: values_of_def column_rows_def)

lemma link_map_column [simp]: "db_link (map_column c f db) = db_link db"
  by (simp add: map_column_def)

subsection \<open>What a value becomes\<close>

text \<open>A value stays, or is sealed anew under the primary key with the same content.\<close>

definition resealed :: "AEAD \<Rightarrow> Keyring \<Rightarrow> string \<Rightarrow> string \<Rightarrow> bool" where
  "resealed A k v v' \<longleftrightarrow> v' = v \<or> (\<exists>nonce p. length nonce = NonceSize \<and> Decrypt_ring A k v = Inr p \<and> v' = sealed A k nonce p)"

lemma primary_in: "ring_ok A k \<Longrightarrow> kr_primary k \<in> set (kr_order k)"
  by (auto simp: ring_ok_def)

lemma resealed_reads: "aead_ok A \<Longrightarrow> ring_ok A k \<Longrightarrow> resealed A k v v' \<Longrightarrow> Decrypt_ring A k v' = Decrypt_ring A k v"
  unfolding resealed_def using decrypt_sealed [of A k k] primary_in [of A k] by auto

lemma resealed_trans:
  assumes "aead_ok A" "ring_ok A k" "resealed A k u v" "resealed A k v w"
  shows "resealed A k u w"
  using assms(4) resealed_reads [OF assms(1-3)] assms(3) unfolding resealed_def by metis

lemma sealed_not_stale: "\<not> stale (PrimaryKeyID k) (sealed A k nonce p)"
  by (simp add: stale_def primaryEnvelopePattern_def sealed_def encPrefix_def PrimaryKeyID_def)

lemma splitEnvelope_tagged: "CHR '':'' \<notin> set i \<Longrightarrow> splitEnvelope (i @ CHR '':'' # x) = (i, x)"
  using Cut_char [of "CHR '':''" i x] by (simp add: splitEnvelope_def)

text \<open>A value that is not stale reads the same under every ring with the same primary key.\<close>

lemma fresh_reads_alone:
  assumes "aead_ok A" "ring_ok A k" "ring_ok A k1" "kr_primary k1 = kr_primary k" "\<not> stale (PrimaryKeyID k) v"
  shows "Decrypt_ring A k1 v = Decrypt_ring A k v"
proof (cases "prefix ''enc:'' v")
  case False
  then show ?thesis by (simp add: Decrypt_ring_def encPrefix_def)
next
  case True
  let ?i = "ke_id (kr_primary k)"
  have id: "?i = DeriveKeyID A (ke_key (kr_primary k))" using assms(2) primary_in by (auto simp: ring_ok_def)
  have col: "CHR '':'' \<notin> set ?i" and ne: "?i \<noteq> []" using DeriveKeyID_ne [OF assms(1)] id by (simp_all add: DeriveKeyID_def hexEncode_colon)
  obtain x where v: "v = encPrefix @ ?i @ CHR '':'' # x"
    using True assms(5) by (auto simp: stale_def primaryEnvelopePattern_def PrimaryKeyID_def prefix_def encPrefix_def)
  have "map_of (kr_byID r) ?i = Some (kr_primary k)" if "ring_ok A r" "kr_primary r = kr_primary k" for r
    using byID_lookup [OF that(1) primary_in [OF that(1)]] that(2) by simp
  then show ?thesis using ne assms(2-4) v splitEnvelope_tagged [OF col, of x]
    by (simp add: Decrypt_ring_def split: option.splits)
qed

subsection \<open>One column\<close>

definition rewritten :: "(string \<Rightarrow> string \<Rightarrow> bool) \<Rightarrow> EncryptedColumn \<Rightarrow> 'a pgdb_scheme \<Rightarrow> 'a pgdb_scheme \<Rightarrow> bool" where
  "rewritten R c db db' \<longleftrightarrow> list_all2 (\<lambda>(i, v) (i', v'). i' = i \<and> R v v') (values_of c db) (values_of c db') \<and>
     (\<forall>c'. c' \<noteq> c \<longrightarrow> values_of c' db' = values_of c' db)"

lemma rewritten_refl: "(\<And>v. R v v) \<Longrightarrow> values_of c db' = values_of c db \<Longrightarrow> (\<And>c'. values_of c' db' = values_of c' db) \<Longrightarrow> rewritten R c db db'"
  by (auto simp: rewritten_def intro!: list_all2_refl)

lemma rewritten_trans:
  assumes "\<And>u v w. R u v \<Longrightarrow> R v w \<Longrightarrow> R u w" "rewritten R c db db1" "rewritten R c db1 db2"
  shows "rewritten R c db db2"
proof -
  have "list_all2 (\<lambda>(i, v) (i', v'). i' = i \<and> R v v') (values_of c db) (values_of c db2)"
    by (rule list_all2_trans [where bs = "values_of c db1" and ?P1.0 = "\<lambda>(i, v) (i', v'). i' = i \<and> R v v'"
          and ?P2.0 = "\<lambda>(i, v) (i', v'). i' = i \<and> R v v'"])
      (use assms in \<open>auto simp: rewritten_def\<close>)
  then show ?thesis using assms by (simp add: rewritten_def)
qed

lemma Encrypt_up:
  "\<exists>nonce n. length nonce = NonceSize \<and> Encrypt_ring A rand_Read k p db = (Inr (sealed A k nonce p), db\<lparr>db_drawn := n\<rparr>)"
proof -
  obtain r db' where rd: "rand_Read db = (r, db')" by fastforce
  then obtain nonce n where "r = Inr nonce" "length nonce = NonceSize" "db' = db\<lparr>db_drawn := n\<rparr>"
    by (auto simp: rand_Read_def)
  with rd have "length nonce = NonceSize \<and> Encrypt_ring A rand_Read k p db = (Inr (sealed A k nonce p), db\<lparr>db_drawn := n\<rparr>)"
    by (simp add: Encrypt_ring_def andThen_def wrapErr_def ret_def)
  then show ?thesis by blast
qed

lemma applyRewrap_ok:
  assumes ok: "aead_ok A" "ring_ok A k" and c: "c \<in> set columns"
  shows "db_link db = [] \<Longrightarrow> \<forall>(i, v) \<in> set pending. stale (PrimaryKeyID k) v \<and> (\<exists>p. Decrypt_ring A k v = Inr p) \<Longrightarrow>
    \<exists>m db'. applyRewrap (A, k) c pending n db = (Inr m, db') \<and> db_link db' = [] \<and> rewritten (resealed A k) c db db' \<and>
      (\<forall>x \<in> set (values_of c db'). stale (PrimaryKeyID k) (snd x) \<longrightarrow> x \<in> set (values_of c db) \<and> x \<notin> set pending)"
proof (induction pending arbitrary: n db)
  case Nil
  then show ?case by (auto simp: ret_def intro!: rewritten_refl simp: resealed_def)
next
  case (Cons x pending)
  obtain key stored where x: "x = (key, stored)" by fastforce
  from Cons.prems(2) obtain p where p: "Decrypt_ring A k stored = Inr p" and st: "stale (PrimaryKeyID k) stored" by (auto simp: x)
  obtain nonce d where e: "length nonce = NonceSize" "Encrypt_ring A rand_Read k p db = (Inr (sealed A k nonce p), db\<lparr>db_drawn := d\<rparr>)"
    using Encrypt_up by blast
  let ?s = "sealed A k nonce p"
  let ?f = "\<lambda>i v. if i = key \<and> v = stored then ?s else v"
  let ?db = "map_column c ?f (db\<lparr>db_drawn := d\<rparr>)"
  have vals: "values_of c ?db = map (\<lambda>(i, v). (i, ?f i v)) (values_of c db)" by (simp add: values_map [OF c])
  have "resealed A k stored ?s" "\<And>v. resealed A k v v" unfolding resealed_def using e(1) p by blast+
  then have step: "rewritten (resealed A k) c db ?db"
    by (auto simp: rewritten_def vals values_map_other list_all2_map2 intro!: list_all2_refl)
  have stale1: "y \<in> set (values_of c db) \<and> y \<noteq> x" if "y \<in> set (values_of c ?db)" "stale (PrimaryKeyID k) (snd y)" for y
    using that sealed_not_stale [of k A nonce p] by (auto simp: vals x split: if_splits)
  have link: "db_link ?db = []" using Cons.prems(1) by simp
  have pend: "\<forall>(i, v) \<in> set pending. stale (PrimaryKeyID k) v \<and> (\<exists>p. Decrypt_ring A k v = Inr p)" using Cons.prems(2) by simp
  obtain m db' where rest: "applyRewrap (A, k) c pending (n + length (filter (\<lambda>r. r = (key, stored)) (values_of c db))) ?db = (Inr m, db')"
      "db_link db' = []" "rewritten (resealed A k) c ?db db'"
      "\<forall>y \<in> set (values_of c db'). stale (PrimaryKeyID k) (snd y) \<longrightarrow> y \<in> set (values_of c ?db) \<and> y \<notin> set pending"
    using Cons.IH [OF link pend] by blast
  have run: "applyRewrap (A, k) c (x # pending) n db =
      applyRewrap (A, k) c pending (n + length (filter (\<lambda>r. r = (key, stored)) (values_of c db))) ?db"
    using p e(2) Cons.prems(1) column_known [OF c, of "db\<lparr>db_drawn := d\<rparr>"]
    by (simp add: x andThen_def wrapErr_def lift_def swapValue_def sql_def)
  have "rewritten (resealed A k) c db db'"
    using rewritten_trans [OF _ step rest(3)] resealed_trans [OF ok] by blast
  then show ?case using run rest stale1 by auto
qed

text \<open>One round of the loop, whatever fails: it stops with every column as it was, or swaps the one value.\<close>

lemma swapValue_cases:
  assumes "c \<in> set columns" "swapValue c key stored s db = (x, db')"
  obtains (down) e where "x = Inl e" "\<And>c'. values_of c' db' = values_of c' db"
  | (swap) m where "x = Inr m" "\<And>c'. c' \<noteq> c \<Longrightarrow> values_of c' db' = values_of c' db"
      "values_of c db' = map (\<lambda>(i, v). (i, if i = key \<and> v = stored then s else v)) (values_of c db)"
  using assms(2) unfolding swapValue_def
proof (cases rule: sqlE)
  case (down ls)
  then show ?thesis using that(1) by simp
next
  case (up ls)
  then have "x = Inr (length (filter (\<lambda>r. r = (key, stored)) (values_of c db)))"
    "db' = map_column c (\<lambda>k v. if k = key \<and> v = stored then s else v) (db\<lparr>db_link := ls\<rparr>)"
    by (auto simp: column_known [OF assms(1)])
  then show ?thesis using that(2) by (simp add: values_map [OF assms(1)] values_map_other)
qed

lemma applyRewrap_step:
  assumes c: "c \<in> set columns" and run: "applyRewrap (A, k) c ((key, stored) # pending) n db = (x, db')"
  obtains (stop) "\<forall>c'. values_of c' db' = values_of c' db"
  | (go) s m db1 where "applyRewrap (A, k) c pending (n + m) db1 = (x, db')" "\<forall>c'. c' \<noteq> c \<longrightarrow> values_of c' db1 = values_of c' db"
      "values_of c db1 = map (\<lambda>(i, v). (i, if i = key \<and> v = stored then s else v)) (values_of c db)"
proof (cases "Decrypt_ring A k stored")
  case (Inl e)
  then show ?thesis using run that(1) by (simp add: andThen_def wrapErr_def lift_def)
next
  case (Inr p)
  obtain nonce d where e: "Encrypt_ring A rand_Read k p db = (Inr (sealed A k nonce p), db\<lparr>db_drawn := d\<rparr>)" using Encrypt_up by blast
  obtain r db1 where s: "swapValue c key stored (sealed A k nonce p) (db\<lparr>db_drawn := d\<rparr>) = (r, db1)" by fastforce
  from c s show ?thesis
  proof (cases rule: swapValue_cases)
    case (down e')
    then show ?thesis using run Inr e s that(1) by (simp add: andThen_def wrapErr_def lift_def)
  next
    case (swap m)
    then show ?thesis using run Inr e s that(2) [of m db1 "sealed A k nonce p"] by (simp add: andThen_def wrapErr_def lift_def)
  qed
qed

subsection \<open>All columns\<close>

definition readable :: "AEAD \<Rightarrow> Keyring \<Rightarrow> EncryptedColumn \<Rightarrow> 'a pgdb_scheme \<Rightarrow> bool" where
  "readable A k c db \<longleftrightarrow> list_all (\<lambda>(_, v). Decrypt_ring A k v \<in> range Inr) (values_of c db)"

definition clean :: "AEAD \<Rightarrow> Keyring \<Rightarrow> EncryptedColumn \<Rightarrow> 'a pgdb_scheme \<Rightarrow> 'a pgdb_scheme \<Rightarrow> bool" where
  "clean A k c db db' \<longleftrightarrow>
     list_all2 (\<lambda>(i, v) (i', v'). i' = i \<and> resealed A k v v' \<and> \<not> stale (PrimaryKeyID k) v') (values_of c db) (values_of c db')"

lemma rewrapColumn_ok:
  assumes ok: "aead_ok A" "ring_ok A k" and c: "c \<in> set columns" and up: "db_link db = []" and read: "readable A k c db"
  obtains m db' where "rewrapColumn (A, k) (PrimaryKeyID k) c db = (Inr m, db')" "db_link db' = []" "clean A k c db db'"
    "\<And>c'. c' \<noteq> c \<Longrightarrow> values_of c' db' = values_of c' db"
proof -
  let ?pending = "filter (\<lambda>(_, v). stale (PrimaryKeyID k) v) (values_of c db)"
  have sel: "selectStaleRows (PrimaryKeyID k) c db = (Inr ?pending, db)"
    using up column_known [OF c, of db] by (simp add: selectStaleRows_def wrapErr_def sql_def)
  have pend: "\<forall>(i, v) \<in> set ?pending. stale (PrimaryKeyID k) v \<and> (\<exists>p. Decrypt_ring A k v = Inr p)"
    using read by (auto simp: readable_def list_all_iff)
  obtain m db' where a: "applyRewrap (A, k) c ?pending 0 db = (Inr m, db')" "db_link db' = []" "rewritten (resealed A k) c db db'"
      "\<forall>x \<in> set (values_of c db'). stale (PrimaryKeyID k) (snd x) \<longrightarrow> x \<in> set (values_of c db) \<and> x \<notin> set ?pending"
    using applyRewrap_ok [OF ok c up pend] by blast
  have fresh: "\<forall>x \<in> set (values_of c db'). \<not> stale (PrimaryKeyID k) (snd x)" using a(4) by auto
  have "clean A k c db db'" unfolding clean_def
    by (rule list.rel_mono_strong [OF a(3) [unfolded rewritten_def, THEN conjunct1]]) (use fresh in auto)
  then show ?thesis using that a sel by (auto simp: rewrapColumn_def andThen_def rewritten_def)
qed

lemma rewrapColumns_ok:
  assumes ok: "aead_ok A" "ring_ok A k"
  shows "distinct cols \<Longrightarrow> set cols \<subseteq> set columns \<Longrightarrow> db_link db = [] \<Longrightarrow> \<forall>c \<in> set cols. readable A k c db \<Longrightarrow>
    \<exists>m db'. rewrapColumns (A, k) (PrimaryKeyID k) cols n db = (Inr m, db') \<and> (\<forall>c \<in> set cols. clean A k c db db') \<and>
      (\<forall>c'. c' \<notin> set cols \<longrightarrow> values_of c' db' = values_of c' db)"
proof (induction cols arbitrary: n db)
  case (Cons c cols)
  have "c \<in> set columns" "readable A k c db" using Cons.prems by auto
  then obtain m1 db1 where s: "rewrapColumn (A, k) (PrimaryKeyID k) c db = (Inr m1, db1)" "db_link db1 = []" "clean A k c db db1"
      "\<And>c'. c' \<noteq> c \<Longrightarrow> values_of c' db1 = values_of c' db"
    using rewrapColumn_ok [OF ok _ Cons.prems(3)] by metis
  have other: "values_of c' db1 = values_of c' db" if "c' \<in> set cols" for c'
    by (rule s(4)) (use that Cons.prems(1) in auto)
  have "\<forall>c \<in> set cols. readable A k c db1" using Cons.prems(4) other by (simp add: readable_def)
  with Cons.IH [of db1 "n + m1"] Cons.prems(1,2) s(2) obtain m db' where
      r: "rewrapColumns (A, k) (PrimaryKeyID k) cols (n + m1) db1 = (Inr m, db')" "\<forall>c \<in> set cols. clean A k c db1 db'"
      "\<forall>c'. c' \<notin> set cols \<longrightarrow> values_of c' db' = values_of c' db1" by auto
  have "clean A k c' db db'" if "c' \<in> set cols" for c' using r(2) [THEN bspec, OF that] other [OF that] by (simp add: clean_def)
  moreover have "clean A k c db db'" using s(3) r(3) Cons.prems(1) by (simp add: clean_def)
  ultimately show ?case using r s by (auto simp: andThen_def)
qed (simp add: ret_def)

subsection \<open>Properties\<close>

text \<open>
  C21. Key rotation: when every stored credential can be read, the sweep completes, and afterwards a ring that holds
  the new key alone reads every value of every encrypted column, each row's value as it was: the retired keys can
  be dropped.
\<close>

theorem rewrap_frees_old_keys:
  assumes "aead_ok A" "NewKeyring A key previous = Inr k" "NewKeyring A key [] = Inr k1" "db_link db = []"
    and "\<forall>c \<in> set WorkspaceEncryptedColumns. readable A k c db"
  shows "\<exists>n db'. RewrapEncrypted (Some (A, k)) WorkspaceEncryptedColumns db = (Inr n, db') \<and>
    (\<forall>c \<in> set WorkspaceEncryptedColumns. list_all2 (\<lambda>(i, v) (i', v'). i' = i \<and> Decrypt_ring A k1 v' = Decrypt_ring A k v)
       (values_of c db) (values_of c db'))"
proof -
  have r: "ring_ok A k" "ring_ok A k1" using NewKeyring_ok(1) assms(2,3) by auto
  have "ke_key (kr_primary k1) = ke_key (kr_primary k)" using NewKeyring_ok(3) assms(2,3) by metis
  moreover have "ke_id (kr_primary q) = DeriveKeyID A (ke_key (kr_primary q))" if "ring_ok A q" for q using that primary_in by (auto simp: ring_ok_def)
  ultimately have p: "kr_primary k1 = kr_primary k" using r by (simp add: keyEntry.equality)
  obtain m db' where run: "rewrapColumns (A, k) (PrimaryKeyID k) columns 0 db = (Inr m, db')" "\<forall>c \<in> set columns. clean A k c db db'"
    using rewrapColumns_ok [OF assms(1) r(1) columns_distinct order_refl assms(4,5)] by blast
  have "list_all2 (\<lambda>(i, v) (i', v'). i' = i \<and> Decrypt_ring A k1 v' = Decrypt_ring A k v) (values_of c db) (values_of c db')"
    if "c \<in> set columns" for c
    by (rule list.rel_mono_strong [OF run(2) [THEN bspec, OF that, unfolded clean_def]])
      (use resealed_reads [OF assms(1) r(1)] fresh_reads_alone [OF assms(1) r p] in auto)
  then show ?thesis using run(1) by (auto simp: RewrapEncrypted_def)
qed

text \<open>A grant whose token was sealed before the rotation.\<close>

definition exampleRing :: "string list \<Rightarrow> Keyring" where
  "exampleRing previous = (case NewKeyring exampleAEAD (exampleKey (CHR ''b'')) previous of Inr r \<Rightarrow> r)"

definition oldToken :: string where
  "oldToken = sealed exampleAEAD (case NewKeyring exampleAEAD (exampleKey (CHR ''a'')) [] of Inr r \<Rightarrow> r) (replicate 12 (CHR ''n'')) ''rt''"

definition rotatedStore :: pgdb where
  "rotatedStore = exampleStore\<lparr>t_grants := map (\<lambda>d. d\<lparr>gw_refresh_token := oldToken\<rparr>) (t_grants exampleStore)\<rparr>"

lemma exampleRing_ok:
  "NewKeyring exampleAEAD (exampleKey (CHR ''b'')) [exampleKey (CHR ''a'')] = Inr (exampleRing [exampleKey (CHR ''a'')])"
  "NewKeyring exampleAEAD (exampleKey (CHR ''b'')) [] = Inr (exampleRing [])"
  using exampleRings by (auto simp: exampleRing_def)

lemma oldToken_reads: "Decrypt_ring exampleAEAD (exampleRing [exampleKey (CHR ''a'')]) oldToken = Inr ''rt''"
proof -
  obtain old where o: "NewKeyring exampleAEAD (exampleKey (CHR ''a'')) [] = Inr old" using exampleRings by blast
  have "ke_key ` set (kr_order (exampleRing [exampleKey (CHR ''a'')])) = {exampleKey (CHR ''b''), exampleKey (CHR ''a'')}"
    using NewKeyring_ok(2) [OF exampleRing_ok(1)] by (metis list.set(1,2) set_map)
  then show ?thesis unfolding oldToken_def using NewKeyring_ok(1,3) [OF o] o
    by (simp add: decrypt_sealed exampleAEAD_ok NewKeyring_ok(1) [OF exampleRing_ok(1)] NonceSize_def)
qed

theorem rewrap_frees_old_keys_witness:
  "\<exists>n db'. RewrapEncrypted (Some (exampleAEAD, exampleRing [exampleKey (CHR ''a'')])) WorkspaceEncryptedColumns rotatedStore = (Inr n, db') \<and>
     map (\<lambda>d. Decrypt_ring exampleAEAD (exampleRing []) (gw_refresh_token d)) (t_grants db') = [Inr ''rt'']"
proof -
  have plain: "Decrypt_ring A k v = Inr v" if "\<not> prefix encPrefix v" for A k v using that by (simp add: Decrypt_ring_def)
  have ok: "\<forall>c \<in> set WorkspaceEncryptedColumns. readable exampleAEAD (exampleRing [exampleKey (CHR ''a'')]) c rotatedStore"
    by (auto simp: readable_def values_of_def column_rows_def rotatedStore_def exampleStore_def oldToken_reads plain encPrefix_def)
  have up: "db_link rotatedStore = []" by (simp add: rotatedStore_def exampleStore_def)
  obtain n db' where run: "RewrapEncrypted (Some (exampleAEAD, exampleRing [exampleKey (CHR ''a'')])) WorkspaceEncryptedColumns rotatedStore = (Inr n, db')"
      "\<forall>c \<in> set WorkspaceEncryptedColumns. list_all2 (\<lambda>(i, v) (i', v'). i' = i \<and>
         Decrypt_ring exampleAEAD (exampleRing []) v' = Decrypt_ring exampleAEAD (exampleRing [exampleKey (CHR ''a'')]) v)
       (values_of c rotatedStore) (values_of c db')"
    using rewrap_frees_old_keys [OF exampleAEAD_ok exampleRing_ok up ok] by blast
  have "columns ! 2 \<in> set columns" by (simp add: WorkspaceEncryptedColumns_def)
  from run(2) [THEN bspec, OF this] have "map (\<lambda>d. Decrypt_ring exampleAEAD (exampleRing []) (gw_refresh_token d)) (t_grants db') = [Inr ''rt'']"
    by (auto simp: values_of_def column_rows_def column_nth_eq rotatedStore_def exampleStore_def oldToken_reads list_all2_Cons1 map_eq_Cons_conv)
  with run(1) show ?thesis by (intro exI conjI)
qed



end
