(* ===== verification/Connect.thy ===== *)
theory Connect
  imports Contracts
begin

section \<open>Connect errors (\<^verbatim>\<open>server/errors.go\<close>)\<close>

text \<open>
  What a ConnectRPC handler answers: a value or an error with a code. The underlying error is kept, because its text is the
  message of the answer, and a validation error carries the field it is about. A handler of the workspace plane turns
  every error of a service into such an answer with \<^verbatim>\<open>domainError\<close>.
\<close>

datatype Code =
    CodeInvalidArgument
  | CodeNotFound
  | CodeAlreadyExists
  | CodePermissionDenied
  | CodeFailedPrecondition
  | CodeUnimplemented
  | CodeInternal
  | CodeUnavailable
  | CodeAborted
  | CodeUnauthenticated

record ConnectError =
  ce_Code :: Code
  ce_Err :: err
  ce_Violation :: "string option"

definition NewError :: "Code \<Rightarrow> err \<Rightarrow> ConnectError" where
  "NewError code e = \<lparr>ce_Code = code, ce_Err = e, ce_Violation = None\<rparr>"

definition domainErrorCodes :: "(err \<times> Code) list" where
  "domainErrorCodes =
     [(ErrUserAlreadyExists, CodeAlreadyExists),
      (ErrUserNotFound, CodeNotFound),
      (ErrNotFileUploadPipeline, CodeFailedPrecondition),
      (ErrInvalidRole, CodeInvalidArgument),
      (ErrInvalidWarehouseName, CodeInvalidArgument),
      (ErrInvalidKeyPrefix, CodeInvalidArgument),
      (ErrInvalidS3Endpoint, CodeInvalidArgument),
      (ErrCustomerNotProvisioned, CodeFailedPrecondition),
      (ErrLakekeeperUsersUnavailable, CodeFailedPrecondition),
      (ErrPipelineNotFound, CodeNotFound),
      (ErrPipelineAlreadyExists, CodeAlreadyExists),
      (ErrPipelineRunNotFound, CodeNotFound),
      (ErrTransformationNotFound, CodeNotFound),
      (ErrTransformationAlreadyExists, CodeAlreadyExists),
      (ErrTransformationRunNotFound, CodeNotFound),
      (ErrWorkspaceNotFound, CodeNotFound),
      (ErrBoxRepoUnavailable, CodeFailedPrecondition),
      (ErrBoxUnreachable, CodeUnavailable),
      (ErrBoxCredentialNotFound, CodeFailedPrecondition),
      (ErrPipelineVersionMismatch, CodeFailedPrecondition),
      (ErrDemoNotConfigured, CodeUnimplemented),
      (ErrDemoAlreadyLoaded, CodeAlreadyExists),
      (ErrDemoNotLoaded, CodeNotFound),
      (ErrSourceTestNotFound, CodeNotFound),
      (ErrSourceTestUnsupported, CodeFailedPrecondition)]"

text \<open>\<^verbatim>\<open>errors.As\<close> at the two structured validation errors, and at the refusal of an upload.\<close>

fun errors_As_config :: "err \<Rightarrow> string option" where
  "errors_As_config (ErrInvalidSourceConfig field) = Some field"
| "errors_As_config (Errorf m e) = errors_As_config e"
| "errors_As_config e = None"

fun errors_As_credentials :: "err \<Rightarrow> string option" where
  "errors_As_credentials (ErrInvalidSourceCredentials field) = Some field"
| "errors_As_credentials (Errorf m e) = errors_As_credentials e"
| "errors_As_credentials e = None"

text \<open>The detail is the field; building it from two strings does not fail.\<close>

definition validationError :: "err \<Rightarrow> string \<Rightarrow> ConnectError" where
  "validationError e field = (NewError CodeInvalidArgument e)\<lparr>ce_Violation := Some field\<rparr>"

definition validationDomainError :: "err \<Rightarrow> ConnectError option" where
  "validationDomainError e =
     (case errors_As_config e of
        Some field \<Rightarrow> Some (validationError e field)
      | None \<Rightarrow>
          (case errors_As_credentials e of
             Some field \<Rightarrow> Some (validationError e field)
           | None \<Rightarrow> (if errors_Is e ErrInvalidUploadFile then Some (NewError CodeInvalidArgument e) else None)))"

definition domainError :: "err \<Rightarrow> ConnectError" where
  "domainError e =
     (case validationDomainError e of
        Some cerr \<Rightarrow> cerr
      | None \<Rightarrow>
          (case find (\<lambda>m. errors_Is e (fst m)) domainErrorCodes of
             Some m \<Rightarrow> NewError (snd m) e
           | None \<Rightarrow> NewError CodeInternal e))"

subsection \<open>Calls of a handler\<close>

type_synonym ('w, 'a) rpc = "'w \<Rightarrow> (ConnectError + 'a) \<times> 'w"

definition answer :: "'a \<Rightarrow> ('w, 'a) rpc" where
  "answer x w = (Inr x, w)"

definition deny :: "Code \<Rightarrow> err \<Rightarrow> ('w, 'a) rpc" where
  "deny code e w = (Inl (NewError code e), w)"

text \<open>A gate that returns its error as it is, and a call of a service, whose error goes through \<^verbatim>\<open>domainError\<close>.\<close>

definition guarded :: "ConnectError + 'a \<Rightarrow> ('a \<Rightarrow> ('w, 'b) rpc) \<Rightarrow> ('w, 'b) rpc" where
  "guarded r f w = (case r of Inl e \<Rightarrow> (Inl e, w) | Inr x \<Rightarrow> f x w)"

definition serve :: "('w, 'a) io \<Rightarrow> ('a \<Rightarrow> ('w, 'b) rpc) \<Rightarrow> ('w, 'b) rpc" where
  "serve m f w = (case m w of (Inl e, w') \<Rightarrow> (Inl (domainError e), w') | (Inr x, w') \<Rightarrow> f x w')"

lemma answer_eq [simp]: "answer x w = (r, w') \<longleftrightarrow> r = Inr x \<and> w' = w"
  by (auto simp: answer_def)

lemma deny_eq [simp]: "deny c e w = (r, w') \<longleftrightarrow> r = Inl (NewError c e) \<and> w' = w"
  by (auto simp: deny_def)

lemma guarded_known [simp]: "guarded (Inl e) f w = (Inl e, w)" "guarded (Inr x) f = f x"
  by (auto simp: guarded_def)

lemma serve_Inr: "serve m f w = (Inr y, w') \<longleftrightarrow> (\<exists>x w1. m w = (Inr x, w1) \<and> f x w1 = (Inr y, w'))"
  by (auto simp: serve_def split: prod.splits sum.splits)

lemma serve_answer: "serve m (\<lambda>x. answer (f x)) w = (map_sum domainError f (fst (m w)), snd (m w))"
  by (auto simp: serve_def answer_def split: prod.splits sum.splits)

lemma NewError_code [simp]: "ce_Code (NewError c e) = c" "ce_Err (NewError c e) = e"
  by (simp_all add: NewError_def)

subsection \<open>Which code an error gets\<close>

text \<open>The sentinels of the table under any number of wrappings get their own code.\<close>

fun root_err :: "err \<Rightarrow> err" where
  "root_err (Errorf m e) = root_err e"
| "root_err e = e"

lemma errors_Is_root: "(\<forall>m e'. t \<noteq> Errorf m e') \<Longrightarrow> errors_Is e t \<longleftrightarrow> root_err e = t"
  by (induction e) auto

lemma errors_As_root:
  "errors_As_config e = errors_As_config (root_err e)" "errors_As_credentials e = errors_As_credentials (root_err e)"
  by (induction e) auto

lemma domainError_root: "ce_Code (domainError e) = ce_Code (domainError (root_err e)) \<and> ce_Violation (domainError e) = ce_Violation (domainError (root_err e))"
proof -
  have root: "root_err (root_err e) = root_err e" by (induction e) auto
  have "find (\<lambda>m. errors_Is e (fst m)) domainErrorCodes = find (\<lambda>m. errors_Is (root_err e) (fst m)) domainErrorCodes"
    by (simp add: domainErrorCodes_def errors_Is_root root)
  then show ?thesis
    using errors_As_root [of e] errors_Is_root [of ErrInvalidUploadFile e] errors_Is_root [of ErrInvalidUploadFile "root_err e"] root
    by (auto simp: domainError_def validationDomainError_def validationError_def NewError_def split: option.splits)
qed

end
