(* ===== verification/Auth.thy ===== *)
theory Auth
  imports Connect Static
begin

section \<open>Token authentication (\<^verbatim>\<open>core/auth.go\<close>)\<close>

text \<open>
  Two surfaces, two kinds of token. The Console's interceptor admits people: a token of the pinned issuer whose subject is
  no Casdoor application. The internal interceptor admits machines and binds a tenant to them, by the issuer of a box or
  by the name of the application. Checking a JWT is the work of a library: \<open>JWT\<close> is that library, with a key set
  of type \<open>'k\<close>, and \<open>jwt_ok\<close> is what its documentation promises. The time is the moment of the call.
\<close>

subsection \<open>The caller in the context\<close>

record TokenProfile =
  tp_Subject :: string
  tp_Name :: string
  tp_DisplayName :: string
  tp_Email :: string

record InternalCaller =
  ic_App :: string
  ic_Slug :: string
  ic_Issuer :: string

definition noCaller :: InternalCaller where
  "noCaller = \<lparr>ic_App = [], ic_Slug = [], ic_Issuer = []\<rparr>"

text \<open>The three keys of the package; \<^const>\<open>None\<close> is a key that was never set.\<close>

record Context =
  ctx_userID :: "string option"
  ctx_internalCaller :: "InternalCaller option"
  ctx_tokenProfile :: "TokenProfile option"

definition Background :: Context where
  "Background = \<lparr>ctx_userID = None, ctx_internalCaller = None, ctx_tokenProfile = None\<rparr>"

definition TokenProfileFromContext :: "Context \<Rightarrow> TokenProfile option" where
  "TokenProfileFromContext ctx = ctx_tokenProfile ctx"

definition ContextWithTokenProfile :: "Context \<Rightarrow> TokenProfile \<Rightarrow> Context" where
  "ContextWithTokenProfile ctx p = ctx\<lparr>ctx_tokenProfile := Some p\<rparr>"

definition UserIDFromContext :: "Context \<Rightarrow> string" where
  "UserIDFromContext ctx = (case ctx_userID ctx of Some v \<Rightarrow> v | None \<Rightarrow> [])"

definition ContextWithUserID :: "Context \<Rightarrow> string \<Rightarrow> Context" where
  "ContextWithUserID ctx i = ctx\<lparr>ctx_userID := Some i\<rparr>"

definition InternalCallerFromContext :: "Context \<Rightarrow> InternalCaller" where
  "InternalCallerFromContext ctx = (case ctx_internalCaller ctx of Some v \<Rightarrow> v | None \<Rightarrow> noCaller)"

definition ContextWithInternalCaller :: "Context \<Rightarrow> InternalCaller \<Rightarrow> Context" where
  "ContextWithInternalCaller ctx c = ctx\<lparr>ctx_internalCaller := Some c\<rparr>"

subsection \<open>Tokens\<close>

datatype ParserOption =
    WithValidMethods "string list"
  | WithExpirationRequired
  | WithIssuer string
  | WithAudience "string list"

type_synonym MapClaims = "string \<rightharpoonup> json"

text \<open>
  \<open>Parse\<close> and \<open>ParseUnverified\<close> are the library's calls, the getters those of its \<^verbatim>\<open>MapClaims\<close> (\<^const>\<open>None\<close> is an error);
  \<open>Verifies\<close> and \<open>Algorithm\<close> are what its documentation speaks of: the signature holds under a key of the set, and the
  algorithm the token's header names.
\<close>

record 'k JWT =
  Parse :: "string \<Rightarrow> 'k \<Rightarrow> ParserOption list \<Rightarrow> int \<Rightarrow> MapClaims option"
  ParseUnverified :: "string \<Rightarrow> MapClaims option"
  GetSubject :: "MapClaims \<Rightarrow> string option"
  GetIssuer :: "MapClaims \<Rightarrow> string option"
  GetAudience :: "MapClaims \<Rightarrow> string list"
  GetExpirationTime :: "MapClaims \<Rightarrow> int option"
  Verifies :: "string \<Rightarrow> 'k \<Rightarrow> bool"
  Algorithm :: "string \<Rightarrow> string"

text \<open>A token that parses has the claims it shows without verification, and each option is met. An empty issuer asks for nothing.\<close>

definition honours :: "'k JWT \<Rightarrow> string \<Rightarrow> MapClaims \<Rightarrow> int \<Rightarrow> ParserOption \<Rightarrow> bool" where
  "honours J token c now opt =
     (case opt of
        WithValidMethods ms \<Rightarrow> Algorithm J token \<in> set ms
      | WithExpirationRequired \<Rightarrow> (case GetExpirationTime J c of Some t \<Rightarrow> now < t | None \<Rightarrow> False)
      | WithIssuer iss \<Rightarrow> iss = [] \<or> GetIssuer J c = Some iss
      | WithAudience auds \<Rightarrow> set auds \<inter> set (GetAudience J c) \<noteq> {})"

definition jwt_ok :: "'k JWT \<Rightarrow> bool" where
  "jwt_ok J \<longleftrightarrow> (\<forall>token keys opts now c. Parse J token keys opts now = Some c \<longrightarrow>
     ParseUnverified J token = Some c \<and> Verifies J token keys \<and> (\<forall>opt \<in> set opts. honours J token c now opt))"

definition validSigningMethods :: "string list" where
  "validSigningMethods =
     [''RS256'', ''RS384'', ''RS512'', ''PS256'', ''PS384'', ''PS512'', ''ES256'', ''ES384'', ''ES512'', ''EdDSA'']"

definition tokenFromHeader :: "string \<Rightarrow> err + string" where
  "tokenFromHeader auth =
     (if auth = [] then Inl (ErrNew ''missing authorization header'')
      else let (token, ok) = CutPrefix auth ''Bearer '' in
        if \<not> ok \<or> token = [] then Inl (ErrNew ''invalid authorization header'') else Inr token)"

subsection \<open>People\<close>

record 'k UserAuth =
  ua_JWKS :: 'k
  ua_Issuer :: string
  ua_Audiences :: "string list"

definition parserOptions :: "'k UserAuth \<Rightarrow> ParserOption list" where
  "parserOptions a =
     [WithValidMethods validSigningMethods, WithExpirationRequired, WithIssuer (ua_Issuer a)] @
     (if length (ua_Audiences a) > 0 then [WithAudience (ua_Audiences a)] else [])"

definition stringClaim :: "MapClaims \<Rightarrow> string \<Rightarrow> string" where
  "stringClaim m name = (case m name of Some (JStr s) \<Rightarrow> unquote s | _ \<Rightarrow> [])"

definition tokenProfile :: "string \<Rightarrow> MapClaims \<Rightarrow> TokenProfile" where
  "tokenProfile sub m =
     (let profile = \<lparr>tp_Subject = sub, tp_Name = [], tp_DisplayName = [], tp_Email = stringClaim m ''email''\<rparr>;
          username = stringClaim m ''preferred_username'' in
      if username \<noteq> [] then profile\<lparr>tp_Name := username, tp_DisplayName := stringClaim m ''name''\<rparr>
      else profile\<lparr>tp_Name := stringClaim m ''name'', tp_DisplayName := stringClaim m ''displayName''\<rparr>)"

definition parseToken :: "'k JWT \<Rightarrow> 'k UserAuth \<Rightarrow> int \<Rightarrow> string \<Rightarrow> err + string \<times> TokenProfile" where
  "parseToken J a now token =
     (case Parse J token (ua_JWKS a) (parserOptions a) now of
        None \<Rightarrow> Inl (ErrNew ''invalid token'')
      | Some claims \<Rightarrow>
          (case GetSubject J claims of
             None \<Rightarrow> Inl (ErrNew ''missing subject'')
           | Some sub \<Rightarrow>
               (if sub = [] then Inl (ErrNew ''missing subject'')
                else if IsServiceAccount sub then Inl (ErrNew ''service-account token is not a user identity'')
                else Inr (sub, tokenProfile sub claims))))"

definition userIDFromToken :: "'k JWT \<Rightarrow> 'k UserAuth \<Rightarrow> int \<Rightarrow> string \<Rightarrow> err + string" where
  "userIDFromToken J a now token = map_sum id fst (parseToken J a now token)"

definition UserIDFromBearer :: "'k JWT \<Rightarrow> 'k UserAuth \<Rightarrow> int \<Rightarrow> string \<Rightarrow> err + string" where
  "UserIDFromBearer J a now authHeader =
     (case tokenFromHeader authHeader of Inl e \<Rightarrow> Inl e | Inr token \<Rightarrow> userIDFromToken J a now token)"

definition authenticateToken :: "'k JWT \<Rightarrow> 'k UserAuth \<Rightarrow> int \<Rightarrow> Context \<Rightarrow> string \<Rightarrow> err + Context" where
  "authenticateToken J a now ctx token =
     (case parseToken J a now token of
        Inl e \<Rightarrow> Inl e
      | Inr (userID, profile) \<Rightarrow> Inr (ctx\<lparr>ctx_userID := Some userID, ctx_tokenProfile := Some profile\<rparr>))"

definition authenticateBearer :: "'k JWT \<Rightarrow> 'k UserAuth \<Rightarrow> int \<Rightarrow> Context \<Rightarrow> string \<Rightarrow> err + Context" where
  "authenticateBearer J a now ctx authHeader =
     (case tokenFromHeader authHeader of Inl e \<Rightarrow> Inl e | Inr token \<Rightarrow> authenticateToken J a now ctx token)"

subsection \<open>The Console's interceptors\<close>

text \<open>
  A request is the value of its \<^verbatim>\<open>Authorization\<close> header, the empty string when it has none, and the message. A
  streaming handler is wrapped alike, with the connection in place of the message.
\<close>

definition WrapUnary ::
  "'k JWT \<Rightarrow> 'k UserAuth \<Rightarrow> ('w \<Rightarrow> int) \<Rightarrow> (Context \<Rightarrow> 'q \<Rightarrow> ('w, 'a) rpc) \<Rightarrow> Context \<Rightarrow> string \<Rightarrow> 'q \<Rightarrow> ('w, 'a) rpc" where
  "WrapUnary J a clock handler ctx header req w =
     (case authenticateBearer J a (clock w) ctx header of
        Inl e \<Rightarrow> deny CodeUnauthenticated e w
      | Inr authed \<Rightarrow> handler authed req w)"

definition WrapStreamingHandler ::
  "'k JWT \<Rightarrow> 'k UserAuth \<Rightarrow> ('w \<Rightarrow> int) \<Rightarrow> (Context \<Rightarrow> 'c \<Rightarrow> ('w, unit) rpc) \<Rightarrow> Context \<Rightarrow> string \<Rightarrow> 'c \<Rightarrow> ('w, unit) rpc" where
  "WrapStreamingHandler J a clock handler ctx header conn w =
     (case authenticateBearer J a (clock w) ctx header of
        Inl e \<Rightarrow> deny CodeUnauthenticated e w
      | Inr authed \<Rightarrow> handler authed conn w)"

definition NewOptionalAuthInterceptor ::
  "'k JWT \<Rightarrow> 'k UserAuth \<Rightarrow> ('w \<Rightarrow> int) \<Rightarrow> (Context \<Rightarrow> 'q \<Rightarrow> ('w, 'a) rpc) \<Rightarrow> Context \<Rightarrow> string \<Rightarrow> 'q \<Rightarrow> ('w, 'a) rpc" where
  "NewOptionalAuthInterceptor J a clock handler ctx header req w =
     (case tokenFromHeader header of
        Inl e \<Rightarrow> handler ctx req w
      | Inr token \<Rightarrow>
          (case authenticateToken J a (clock w) ctx token of
             Inl e \<Rightarrow> deny CodeUnauthenticated e w
           | Inr authed \<Rightarrow> handler authed req w))"

subsection \<open>Whose machine a token belongs to\<close>

text \<open>
  \<^verbatim>\<open>boxTrust\<close>. The control plane recognises its customers' boxes by the host of the issuer and fetches each box's keys on
  first use; the cache is a cell of the world, read before the fetch and again before the entry is written, so
  that what other requests do between the two locks is what the calls between them do to the world.
\<close>

record ('w, 'k) boxTrust =
  slugForIssuer :: "string \<Rightarrow> string"
  keyfuncFor :: "string \<Rightarrow> string \<Rightarrow> ('w, 'k) io"

record ('w, 'k) BoxIssuerTrust =
  bt_baseDomain :: string
  bt_IsVMCustomer :: "string \<Rightarrow> ('w, bool) io"
  bt_newKeyfunc :: "string \<Rightarrow> ('w, 'k) io"
  bt_cache :: "'w \<Rightarrow> (string \<times> 'k) list"
  bt_setCache :: "(string \<times> 'k) list \<Rightarrow> 'w \<Rightarrow> 'w"

text \<open>The pattern \<^verbatim>\<open>[a-z0-9](?:[a-z0-9-]{0,61}[a-z0-9])?\<close> between a literal prefix and a literal suffix, anchored at both ends.\<close>

definition is_slug_end :: "char \<Rightarrow> bool" where
  "is_slug_end c \<longleftrightarrow> (CHR ''a'' \<le> c \<and> c \<le> CHR ''z'') \<or> (CHR ''0'' \<le> c \<and> c \<le> CHR ''9'')"

definition is_slug :: "string \<Rightarrow> bool" where
  "is_slug s =
     (case s of
        [] \<Rightarrow> False
      | c # t \<Rightarrow> is_slug_end c \<and>
          (t = [] \<or> length t \<le> 62 \<and> is_slug_end (last t) \<and> list_all (\<lambda>d. is_slug_end d \<or> d = CHR ''-'') (butlast t)))"

definition boxIssuer :: "string \<Rightarrow> string \<Rightarrow> string" where
  "boxIssuer slug baseDomain = ''https://auth.customer-'' @ slug @ ''.'' @ baseDomain"

definition slugForIssuer_box :: "string \<Rightarrow> string \<Rightarrow> string" where
  "slugForIssuer_box baseDomain iss =
     (if iss = [] then []
      else
        let (rest, ok) = CutPrefix iss ''https://auth.customer-'';
            slug = take (length rest - (length baseDomain + 1)) rest in
        if ok \<and> suffix (''.'' @ baseDomain) rest \<and> is_slug slug then slug else [])"

definition keyfuncFor_box :: "('w, 'k) BoxIssuerTrust \<Rightarrow> string \<Rightarrow> string \<Rightarrow> ('w, 'k) io" where
  "keyfuncFor_box b iss slug w =
     (case map_of (bt_cache b w) iss of
        Some kf \<Rightarrow> ret kf w
      | None \<Rightarrow>
          andThen (bt_IsVMCustomer b slug) (\<lambda>isVM.
          if \<not> isVM then fail (ErrNew ''unknown box issuer'')
          else
            andThen (bt_newKeyfunc b (iss @ ''/.well-known/jwks'')) (\<lambda>kf w'.
            case map_of (bt_cache b w') iss of
              Some existing \<Rightarrow> ret existing w'
            | None \<Rightarrow> ret kf (bt_setCache b ((iss, kf) # bt_cache b w') w'))) w)"

definition NewBoxIssuerTrust :: "('w, 'k) BoxIssuerTrust \<Rightarrow> ('w, 'k) boxTrust option" where
  "NewBoxIssuerTrust b =
     (if bt_baseDomain b = [] then None
      else Some \<lparr>slugForIssuer = slugForIssuer_box (bt_baseDomain b), keyfuncFor = keyfuncFor_box b\<rparr>)"

text \<open>A box trusts its own Casdoor.\<close>

definition slugForIssuer_pinned :: "string \<Rightarrow> string \<Rightarrow> string \<Rightarrow> string" where
  "slugForIssuer_pinned issuer slug iss = (if iss = [] \<or> iss \<noteq> issuer then [] else slug)"

definition NewPinnedBoxTrust :: "string \<Rightarrow> string \<Rightarrow> 'k \<Rightarrow> ('w, 'k) boxTrust" where
  "NewPinnedBoxTrust issuer slug jwks =
     \<lparr>slugForIssuer = slugForIssuer_pinned issuer slug, keyfuncFor = (\<lambda>_ _. ret jwks)\<rparr>"

subsection \<open>Machines\<close>

definition serviceAppFromSubject :: "'k JWT \<Rightarrow> MapClaims \<Rightarrow> err + string" where
  "serviceAppFromSubject J claims =
     (case GetSubject J claims of
        None \<Rightarrow> Inl (ErrNew ''missing subject'')
      | Some sub \<Rightarrow>
          (if sub = [] then Inl (ErrNew ''missing subject'')
           else case ServiceAccountApp sub of
             None \<Rightarrow> Inl (ErrNew ''not a service-account token'')
           | Some app \<Rightarrow> Inr app))"

text \<open>
  The two branches of \<^verbatim>\<open>internalCallerFromRequest\<close>: a token of a box under that box's keys and its issuer, and a token of
  the platform. The unverified issuer only chooses the branch; a failed \<^verbatim>\<open>GetIssuer\<close> leaves the empty string.
\<close>

definition callerUnder ::
  "'k JWT \<Rightarrow> string \<Rightarrow> 'k \<Rightarrow> ParserOption list \<Rightarrow> ('w \<Rightarrow> int) \<Rightarrow> string \<Rightarrow> string \<Rightarrow> ('w, InternalCaller) io" where
  "callerUnder J token kf opts clock slug iss w =
     (case Parse J token kf ([WithValidMethods validSigningMethods, WithExpirationRequired] @ opts) (clock w) of
        None \<Rightarrow> fail (ErrNew ''invalid token'') w
      | Some parsed \<Rightarrow>
          andThen (lift (serviceAppFromSubject J parsed)) (\<lambda>app. ret \<lparr>ic_App = app, ic_Slug = slug, ic_Issuer = iss\<rparr>) w)"

definition boxCaller :: "'k JWT \<Rightarrow> ('w, 'k) boxTrust \<Rightarrow> string \<Rightarrow> ('w \<Rightarrow> int) \<Rightarrow> string \<Rightarrow> string \<Rightarrow> ('w, InternalCaller) io" where
  "boxCaller J b token clock slug iss =
     attempt (keyfuncFor b iss slug) (\<lambda>r.
     case r of
       Inl e \<Rightarrow> fail (ErrNew ''untrusted issuer'')
     | Inr kf \<Rightarrow> callerUnder J token kf [WithIssuer iss] clock slug iss)"

definition internalCallerFromRequest ::
  "'k JWT \<Rightarrow> 'k \<Rightarrow> ('w, 'k) boxTrust option \<Rightarrow> ('w \<Rightarrow> int) \<Rightarrow> string \<Rightarrow> ('w, InternalCaller) io" where
  "internalCallerFromRequest J jwks box clock header =
     andThen (lift (tokenFromHeader header)) (\<lambda>token.
     case ParseUnverified J token of
       None \<Rightarrow> fail (ErrNew ''invalid token'')
     | Some routing \<Rightarrow>
         (let iss = (case GetIssuer J routing of Some i \<Rightarrow> i | None \<Rightarrow> []) in
          case box of
            None \<Rightarrow> callerUnder J token jwks [] clock [] []
          | Some b \<Rightarrow>
              (let slug = slugForIssuer b iss in
               if slug \<noteq> [] then boxCaller J b token clock slug iss else callerUnder J token jwks [] clock [] [])))"

definition NewInternalAuthInterceptor ::
  "'k JWT \<Rightarrow> 'k \<Rightarrow> ('w, 'k) boxTrust option \<Rightarrow> ('w \<Rightarrow> int) \<Rightarrow> (Context \<Rightarrow> 'q \<Rightarrow> ('w, 'a) rpc) \<Rightarrow> Context \<Rightarrow> string \<Rightarrow> 'q \<Rightarrow> ('w, 'a) rpc" where
  "NewInternalAuthInterceptor J jwks box clock handler ctx header req w =
     (case internalCallerFromRequest J jwks box clock header w of
        (Inl e, w') \<Rightarrow> deny CodeUnauthenticated e w'
      | (Inr caller, w') \<Rightarrow> handler (ctx\<lparr>ctx_internalCaller := Some caller\<rparr>) req w')"

text \<open>The commit author of a box is read from the caller's own token (\<^verbatim>\<open>server/token_user.go\<close>).\<close>

definition GetCommitUser :: "Context \<Rightarrow> string \<Rightarrow> ('w, UserInfo) io" where
  "GetCommitUser ctx callerID =
     (case TokenProfileFromContext ctx of
        None \<Rightarrow> fail ErrUserNotFound
      | Some profile \<Rightarrow>
          (if tp_Subject profile \<noteq> callerID then fail ErrUserNotFound
           else ret \<lparr>u_Name = tp_Name profile, u_DisplayName = tp_DisplayName profile, u_Email = tp_Email profile\<rparr>))"

subsection \<open>What a token proves\<close>

text \<open>A token under a key set, by an algorithm of the allowlist, that has not expired.\<close>

definition genuine :: "'k JWT \<Rightarrow> 'k \<Rightarrow> int \<Rightarrow> string \<Rightarrow> MapClaims \<Rightarrow> bool" where
  "genuine J keys now token c \<longleftrightarrow>
     ParseUnverified J token = Some c \<and> Verifies J token keys \<and> Algorithm J token \<in> set validSigningMethods \<and>
     (\<exists>t. GetExpirationTime J c = Some t \<and> now < t)"

lemma tokenFromHeader_Inr: "tokenFromHeader h = Inr token \<longleftrightarrow> h = ''Bearer '' @ token \<and> token \<noteq> []"
  by (auto simp: tokenFromHeader_def CutPrefix_def prefix_def)

lemma Parse_genuine:
  assumes "jwt_ok J" "Parse J token keys (WithValidMethods validSigningMethods # WithExpirationRequired # opts) now = Some c"
  shows "genuine J keys now token c \<and> (\<forall>opt \<in> set opts. honours J token c now opt)"
proof -
  have "ParseUnverified J token = Some c" "Verifies J token keys"
    "\<forall>opt \<in> set (WithValidMethods validSigningMethods # WithExpirationRequired # opts). honours J token c now opt"
    using assms unfolding jwt_ok_def by blast+
  then show ?thesis by (auto simp: genuine_def honours_def split: option.splits)
qed

lemma parseToken_Inr:
  "parseToken J a now token = Inr (u, p) \<longleftrightarrow>
     (\<exists>c. Parse J token (ua_JWKS a) (parserOptions a) now = Some c \<and> GetSubject J c = Some u \<and> u \<noteq> [] \<and>
        \<not> IsServiceAccount u \<and> p = tokenProfile u c)"
  by (auto simp: parseToken_def split: option.splits if_splits)

lemma parseToken_sound:
  assumes "jwt_ok J" "ua_Issuer a \<noteq> []" "parseToken J a now token = Inr (u, p)"
  shows "\<exists>c. genuine J (ua_JWKS a) now token c \<and> GetIssuer J c = Some (ua_Issuer a) \<and>
    (ua_Audiences a = [] \<or> set (ua_Audiences a) \<inter> set (GetAudience J c) \<noteq> {}) \<and>
    GetSubject J c = Some u \<and> u \<noteq> [] \<and> \<not> IsServiceAccount u \<and> p = tokenProfile u c"
proof -
  from assms(3) obtain c where c: "Parse J token (ua_JWKS a) (parserOptions a) now = Some c" "GetSubject J c = Some u" "u \<noteq> []"
    "\<not> IsServiceAccount u" "p = tokenProfile u c" by (auto simp: parseToken_Inr)
  then show ?thesis
    using Parse_genuine [OF assms(1), of token "ua_JWKS a" "WithIssuer (ua_Issuer a) # (if ua_Audiences a = [] then [] else [WithAudience (ua_Audiences a)])" now c] assms(2)
    by (auto simp: parserOptions_def honours_def split: if_splits)
qed

text \<open>An admitted request runs its handler under the subject of the token; a refused one touches nothing.\<close>

definition person :: "'k JWT \<Rightarrow> 'k UserAuth \<Rightarrow> int \<Rightarrow> string \<Rightarrow> MapClaims \<Rightarrow> string \<Rightarrow> bool" where
  "person J a now header c sub \<longleftrightarrow>
     (\<exists>token. header = ''Bearer '' @ token \<and> genuine J (ua_JWKS a) now token c) \<and> GetIssuer J c = Some (ua_Issuer a) \<and>
     (ua_Audiences a = [] \<or> set (ua_Audiences a) \<inter> set (GetAudience J c) \<noteq> {}) \<and>
     GetSubject J c = Some sub \<and> sub \<noteq> [] \<and> \<not> (\<exists>app. app \<noteq> [] \<and> sub = ''admin/'' @ app)"

lemma authenticateBearer_sound:
  assumes "jwt_ok J" "ua_Issuer a \<noteq> []" "authenticateBearer J a now ctx header = Inr ctx'"
  shows "\<exists>c sub. person J a now header c sub \<and> ctx' = ctx\<lparr>ctx_userID := Some sub, ctx_tokenProfile := Some (tokenProfile sub c)\<rparr>"
proof -
  from assms(3) obtain token u p where t: "header = ''Bearer '' @ token" "parseToken J a now token = Inr (u, p)"
    "ctx' = ctx\<lparr>ctx_userID := Some u, ctx_tokenProfile := Some p\<rparr>"
    by (auto simp: authenticateBearer_def authenticateToken_def tokenFromHeader_Inr split: sum.splits)
  then show ?thesis
    using parseToken_sound [OF assms(1,2) t(2)] unfolding person_def IsServiceAccount_iff serviceAccountPrefix_def by blast
qed

text \<open>
  C11. Only people reach the Console's handlers. Whatever the header of a request, the handler runs under the subject of a
  token that verifies under the configured keys by an asymmetric algorithm, has not expired, is of the configured issuer and
  audience and whose subject is no Casdoor application, and the profile beside it is that token's; every other request,
  unary or streaming, is answered with \<^verbatim>\<open>Unauthenticated\<close> and nothing is touched.
\<close>

theorem console_admits_people:
  assumes "jwt_ok J" "ua_Issuer a \<noteq> []"
  shows "(\<exists>e. WrapUnary J a clock handler ctx header req w = (Inl (NewError CodeUnauthenticated e), w) \<and>
            WrapStreamingHandler J a clock stream ctx header conn w = (Inl (NewError CodeUnauthenticated e), w)) \<or>
    (\<exists>c sub. person J a (clock w) header c sub \<and>
       (let ctx' = ctx\<lparr>ctx_userID := Some sub, ctx_tokenProfile := Some (tokenProfile sub c)\<rparr> in
        WrapUnary J a clock handler ctx header req w = handler ctx' req w \<and>
        WrapStreamingHandler J a clock stream ctx header conn w = stream ctx' conn w))"
proof (cases "authenticateBearer J a (clock w) ctx header")
  case (Inl e)
  then show ?thesis by (auto simp: WrapUnary_def WrapStreamingHandler_def deny_def)
next
  case (Inr ctx')
  then show ?thesis
    using authenticateBearer_sound [OF assms Inr] by (auto simp: WrapUnary_def WrapStreamingHandler_def Let_def)
qed

subsection \<open>What binds a tenant\<close>

lemma serviceAppFromSubject_Inr:
  "serviceAppFromSubject J c = Inr app \<longleftrightarrow> GetSubject J c = Some (''admin/'' @ app) \<and> app \<noteq> []"
  by (auto simp: serviceAppFromSubject_def ServiceAccountApp_def CutPrefix_def prefix_def serviceAccountPrefix_def split: option.splits)

lemma callerUnder_Inr:
  "callerUnder J token kf opts clock slug iss w = (Inr caller, w') \<longleftrightarrow> w' = w \<and> ic_Slug caller = slug \<and> ic_Issuer caller = iss \<and>
     (\<exists>c. Parse J token kf (WithValidMethods validSigningMethods # WithExpirationRequired # opts) (clock w) = Some c \<and>
        serviceAppFromSubject J c = Inr (ic_App caller))"
  by (cases caller) (auto simp: callerUnder_def andThen_Inr split: option.splits)

lemma internalCaller_cases:
  assumes "internalCallerFromRequest J jwks box clock header w = (Inr caller, w')"
  obtains (central) token where "header = ''Bearer '' @ token" "callerUnder J token jwks [] clock [] [] w = (Inr caller, w')"
  | (box) token b slug iss kf where "header = ''Bearer '' @ token" "box = Some b" "slug \<noteq> []" "slugForIssuer b iss = slug"
    "keyfuncFor b iss slug w = (Inr kf, w')" "callerUnder J token kf [WithIssuer iss] clock slug iss w' = (Inr caller, w')"
proof -
  obtain token where h: "tokenFromHeader header = Inr token"
    using assms by (cases "tokenFromHeader header") (auto simp: internalCallerFromRequest_def andThen_def lift_def)
  obtain routing where r: "ParseUnverified J token = Some routing"
    using assms by (cases "ParseUnverified J token") (auto simp: internalCallerFromRequest_def andThen_def lift_def h)
  have t: "header = ''Bearer '' @ token" using h by (simp add: tokenFromHeader_Inr)
  show thesis
  proof (cases "callerUnder J token jwks [] clock [] [] w = (Inr caller, w')")
    case True
    then show thesis using t by (rule central [rotated])
  next
    case False
    then obtain b iss where b: "box = Some b" "slugForIssuer b iss \<noteq> []" "boxCaller J b token clock (slugForIssuer b iss) iss w = (Inr caller, w')"
      using assms by (auto simp: internalCallerFromRequest_def andThen_def lift_def h r Let_def split: option.splits if_splits)
    then show thesis using t
      by (auto simp: boxCaller_def attempt_def callerUnder_Inr split: prod.splits sum.splits intro: box)
  qed
qed

lemma slugForIssuer_box_iff: "slug \<noteq> [] \<Longrightarrow> slugForIssuer_box d iss = slug \<longleftrightarrow> is_slug slug \<and> iss = boxIssuer slug d"
  by (auto simp: slugForIssuer_box_def boxIssuer_def CutPrefix_def prefix_def suffix_def Let_def split: if_splits)

text \<open>Every cached key set was fetched from the box it is kept for, when the box was a customer's.\<close>

definition sound_cache :: "('w, 'k) BoxIssuerTrust \<Rightarrow> (string \<Rightarrow> bool) \<Rightarrow> (string \<Rightarrow> 'k \<Rightarrow> bool) \<Rightarrow> 'w \<Rightarrow> bool" where
  "sound_cache b customer keys_of w \<longleftrightarrow>
     (\<forall>(iss, kf) \<in> set (bt_cache b w). \<exists>slug. is_slug slug \<and> iss = boxIssuer slug (bt_baseDomain b) \<and> customer slug \<and>
        keys_of (iss @ ''/.well-known/jwks'') kf)"

lemma keyfuncFor_box_safe:
  assumes "\<And>w c. bt_cache b (bt_setCache b c w) = c"
    and "safe (sound_cache b customer keys_of) (bt_IsVMCustomer b slug) (\<lambda>v. v \<longrightarrow> customer slug)"
    and "\<And>url. safe (sound_cache b customer keys_of) (bt_newKeyfunc b url) (keys_of url)"
    and "is_slug slug" "iss = boxIssuer slug (bt_baseDomain b)"
  shows "safe (sound_cache b customer keys_of) (keyfuncFor_box b iss slug) (\<lambda>kf. customer slug \<and> keys_of (iss @ ''/.well-known/jwks'') kf)"
proof -
  have inj: "boxIssuer sl (bt_baseDomain b) = iss \<Longrightarrow> sl = slug" for sl using assms(5) by (simp add: boxIssuer_def)
  have hit: "customer slug \<and> keys_of (iss @ ''/.well-known/jwks'') kf" if "sound_cache b customer keys_of w" "map_of (bt_cache b w) iss = Some kf" for w kf
    using that inj by (fastforce simp: sound_cache_def dest: map_of_SomeD)
  let ?store = "\<lambda>kf w'. case map_of (bt_cache b w') iss of Some existing \<Rightarrow> ret existing w' | None \<Rightarrow> ret kf (bt_setCache b ((iss, kf) # bt_cache b w') w')"
  have store: "safe (sound_cache b customer keys_of) (?store kf) (\<lambda>kf. customer slug \<and> keys_of (iss @ ''/.well-known/jwks'') kf)"
    if "customer slug" "keys_of (iss @ ''/.well-known/jwks'') kf" for kf
    by (rule safeI) (use that assms(1,4,5) hit in \<open>auto simp: sound_cache_def split: option.splits\<close>)
  have fetch: "safe (sound_cache b customer keys_of) (andThen (bt_IsVMCustomer b slug) (\<lambda>isVM. if \<not> isVM then fail (ErrNew ''unknown box issuer'')
      else andThen (bt_newKeyfunc b (iss @ ''/.well-known/jwks'')) ?store)) (\<lambda>kf. customer slug \<and> keys_of (iss @ ''/.well-known/jwks'') kf)"
    by (rule safe_andThen [OF assms(2)], rule safe_if, rule safe_fail, rule safe_andThen [OF assms(3)], rule store) simp_all
  show ?thesis
  proof (rule safeI)
    fix w x w' assume I: "sound_cache b customer keys_of w" and eq: "keyfuncFor_box b iss slug w = (x, w')"
    show "sound_cache b customer keys_of w' \<and> (\<forall>v. x = Inr v \<longrightarrow> customer slug \<and> keys_of (iss @ ''/.well-known/jwks'') v)"
      using I eq hit [OF I] safeD [OF fetch I] safe_value [OF fetch I]
      by (cases "map_of (bt_cache b w) iss") (auto simp: keyfuncFor_box_def)
  qed
qed

text \<open>
  C12. A box's token speaks for that box's tenant alone. From a sound cache, a caller whom the control plane's interceptor
  binds to a slug holds a genuine token whose issuer is the box of that slug, under keys fetched from that box's own
  address, when the slug was a customer's, and its subject is the application named; a caller with no slug holds a
  token under the platform's keys. The cache stays sound, whatever other requests do to it meanwhile.
\<close>

theorem box_token_binds_own_tenant:
  assumes "jwt_ok J" "NewBoxIssuerTrust b = Some trust"
    and "\<And>w c. bt_cache b (bt_setCache b c w) = c"
    and "\<And>slug. safe (sound_cache b customer keys_of) (bt_IsVMCustomer b slug) (\<lambda>v. v \<longrightarrow> customer slug)"
    and "\<And>url. safe (sound_cache b customer keys_of) (bt_newKeyfunc b url) (keys_of url)"
    and "sound_cache b customer keys_of w" "internalCallerFromRequest J jwks (Some trust) clock header w = (Inr caller, w')"
  shows "sound_cache b customer keys_of w' \<and>
    (\<exists>token keys c. header = ''Bearer '' @ token \<and> genuine J keys (clock w') token c \<and>
       GetSubject J c = Some (''admin/'' @ ic_App caller) \<and> ic_App caller \<noteq> [] \<and>
       (if ic_Slug caller = [] then keys = jwks
        else GetIssuer J c = Some (boxIssuer (ic_Slug caller) (bt_baseDomain b)) \<and> customer (ic_Slug caller) \<and>
          keys_of (boxIssuer (ic_Slug caller) (bt_baseDomain b) @ ''/.well-known/jwks'') keys))"
  using assms(7)
proof (cases rule: internalCaller_cases)
  case (central token)
  then show ?thesis
    using Parse_genuine [OF assms(1), of token jwks "[]"] assms(6) by (fastforce simp: callerUnder_Inr serviceAppFromSubject_Inr)
next
  case (box token b' slug iss kf)
  have tr: "slugForIssuer b' = slugForIssuer_box (bt_baseDomain b)" "keyfuncFor b' = keyfuncFor_box b"
    using assms(2) box(2) by (auto simp: NewBoxIssuerTrust_def split: if_splits)
  have iss: "is_slug slug" "iss = boxIssuer slug (bt_baseDomain b)" using box(3,4) slugForIssuer_box_iff by (auto simp: tr)
  note key = keyfuncFor_box_safe [OF assms(3,4,5) iss]
  obtain c where c: "Parse J token kf [WithValidMethods validSigningMethods, WithExpirationRequired, WithIssuer iss] (clock w') = Some c"
    "serviceAppFromSubject J c = Inr (ic_App caller)" "ic_Slug caller = slug" using box(6) by (auto simp: callerUnder_Inr)
  have "GetIssuer J c = Some iss" "genuine J kf (clock w') token c"
    using Parse_genuine [OF assms(1) c(1)] by (auto simp: honours_def iss boxIssuer_def)
  then show ?thesis
    using safeD [OF key assms(6) box(5) [unfolded tr]] safe_value [OF key assms(6) box(5) [unfolded tr]] c box(1,3) iss
    by (auto simp: serviceAppFromSubject_Inr)
qed

text \<open>
  C13. No token passes both surfaces: one that makes its holder a user of the Console is refused by the internal API,
  whichever trust anchor and keys that has, now or at any other time.
\<close>

theorem token_surfaces_disjoint:
  assumes "jwt_ok J" "UserIDFromBearer J a now header = Inr u"
  shows "\<exists>e w'. internalCallerFromRequest J jwks box clock header w = (Inl e, w')"
proof (rule ccontr)
  assume "\<not> ?thesis"
  then obtain caller w' where i: "internalCallerFromRequest J jwks box clock header w = (Inr caller, w')"
    by (metis old.sum.exhaust surj_pair)
  obtain token keys opts t c where c: "header = ''Bearer '' @ token" "Parse J token keys opts t = Some c" "serviceAppFromSubject J c = Inr (ic_App caller)"
    using i by (cases rule: internalCaller_cases) (auto simp: callerUnder_Inr)
  have h: "tokenFromHeader header = Inr token" using assms(2) c(1) tokenFromHeader_Inr [of header]
    by (auto simp: UserIDFromBearer_def split: sum.splits)
  then obtain p where u: "parseToken J a now token = Inr (u, p)"
    using assms(2) by (cases "parseToken J a now token") (auto simp: UserIDFromBearer_def userIDFromToken_def)
  then obtain d where d: "Parse J token (ua_JWKS a) (parserOptions a) now = Some d" "GetSubject J d = Some u" "\<not> IsServiceAccount u"
    by (auto simp: parseToken_Inr)
  have "ParseUnverified J token = Some c" "ParseUnverified J token = Some d" using assms(1) c(2) d(1) unfolding jwt_ok_def by blast+
  then show False using c(3) d(2,3) by (auto simp: serviceAppFromSubject_Inr IsServiceAccount_iff serviceAccountPrefix_def)
qed

subsection \<open>A verifier\<close>

text \<open>
  An instance of the library for the examples: the token is its own claims table, every token of the key set's prefix
  verifies, and every option is checked.
\<close>

definition exampleClaims :: "string \<Rightarrow> MapClaims option" where
  "exampleClaims token =
     (if token = ''box:alice'' then Some [''sub'' \<mapsto> JStr ''acme-org/alice'', ''iss'' \<mapsto> JStr ''https://auth.acme.example'', ''name'' \<mapsto> JStr ''alice'', ''email'' \<mapsto> JStr ''a@acme.example'']
      else if token = ''box:worker'' then Some [''sub'' \<mapsto> JStr ''admin/dlt-worker'', ''iss'' \<mapsto> JStr ''https://auth.acme.example'']
      else if token = ''vm:worker'' then Some [''sub'' \<mapsto> JStr ''admin/dlt-worker'', ''iss'' \<mapsto> JStr ''https://auth.customer-acme.fairtier.com'']
      else None)"

definition claimText :: "string \<Rightarrow> MapClaims \<Rightarrow> string option" where
  "claimText name c = (case c name of None \<Rightarrow> Some [] | Some (JStr s) \<Rightarrow> Some (unquote s) | Some _ \<Rightarrow> None)"

definition plainJWT :: "string JWT" where
  "plainJWT = \<lparr>Parse = (\<lambda>_ _ _ _. None), ParseUnverified = exampleClaims, GetSubject = claimText ''sub'', GetIssuer = claimText ''iss'',
     GetAudience = (\<lambda>_. []), GetExpirationTime = (\<lambda>_. Some 100), Verifies = (\<lambda>token keys. prefix keys token), Algorithm = (\<lambda>_. ''RS256'')\<rparr>"

definition exampleJWT :: "string JWT" where
  "exampleJWT = plainJWT\<lparr>Parse := (\<lambda>token keys opts now. case exampleClaims token of None \<Rightarrow> None
     | Some c \<Rightarrow> (if prefix keys token \<and> list_all (honours plainJWT token c now) opts then Some c else None))\<rparr>"

lemma exampleJWT_ok: "jwt_ok exampleJWT"
proof -
  have "honours exampleJWT = honours plainJWT" by (simp add: fun_eq_iff honours_def exampleJWT_def split: ParserOption.splits)
  then show ?thesis
    by (auto simp: jwt_ok_def list_all_iff split: option.splits if_splits) (auto simp: exampleJWT_def plainJWT_def list_all_iff split: option.splits if_splits)
qed

definition exampleUserAuth :: "string UserAuth" where
  "exampleUserAuth = \<lparr>ua_JWKS = ''box:'', ua_Issuer = ''https://auth.acme.example'', ua_Audiences = []\<rparr>"

text \<open>Alice's request runs under her subject and profile; a request under the worker's token and one with no token are refused.\<close>

theorem console_admits_people_witness:
  "\<exists>c sub. person exampleJWT exampleUserAuth 5 ''Bearer box:alice'' c sub \<and>
     WrapUnary exampleJWT exampleUserAuth (\<lambda>_. 5) (\<lambda>ctx _. answer ctx) Background ''Bearer box:alice'' () () =
       (Inr (Background\<lparr>ctx_userID := Some sub, ctx_tokenProfile := Some (tokenProfile sub c)\<rparr>), ())"
proof -
  have "\<not> isl (fst (WrapUnary exampleJWT exampleUserAuth (\<lambda>_. 5) (\<lambda>ctx _. answer ctx) Background ''Bearer box:alice'' () ()))" by code_simp
  then show ?thesis
    using console_admits_people [OF exampleJWT_ok, of exampleUserAuth "\<lambda>_. 5" "\<lambda>ctx _. answer ctx" Background "''Bearer box:alice''" "()" "()" "\<lambda>_ _. answer ()" "()"]
    by (auto simp: exampleUserAuth_def Let_def answer_def)
qed

theorem token_surfaces_disjoint_witness:
  "UserIDFromBearer exampleJWT exampleUserAuth 5 ''Bearer box:alice'' = Inr ''acme-org/alice'' \<and>
   (\<exists>e w'. internalCallerFromRequest exampleJWT ''box:'' None (\<lambda>_. 5) ''Bearer box:alice'' () = (Inl e, w'))"
proof -
  have u: "UserIDFromBearer exampleJWT exampleUserAuth 5 ''Bearer box:alice'' = Inr ''acme-org/alice''" by code_simp
  then show ?thesis by (rule conjI [OF _ token_surfaces_disjoint [OF exampleJWT_ok u]])
qed

text \<open>A control plane with one customer, whose world is its cache; the key set of an address is the address's token prefix.\<close>

definition exampleTrust :: "((string \<times> string) list, string) BoxIssuerTrust" where
  "exampleTrust = \<lparr>bt_baseDomain = ''fairtier.com'', bt_IsVMCustomer = (\<lambda>slug. ret (slug = ''acme'')), bt_newKeyfunc = (\<lambda>url. ret ''vm:''),
     bt_cache = id, bt_setCache = (\<lambda>c _. c)\<rparr>"

theorem box_token_binds_own_tenant_witness:
  "\<exists>trust caller w'. NewBoxIssuerTrust exampleTrust = Some trust \<and>
     internalCallerFromRequest exampleJWT ''box:'' (Some trust) (\<lambda>_. 5) ''Bearer vm:worker'' [] = (Inr caller, w') \<and> ic_Slug caller = ''acme'' \<and>
     sound_cache exampleTrust (\<lambda>slug. slug = ''acme'') (\<lambda>_ keys. keys = ''vm:'') w' \<and> w' \<noteq> []"
proof -
  define trust where "trust = the (NewBoxIssuerTrust exampleTrust)"
  have t: "NewBoxIssuerTrust exampleTrust = Some trust" by (simp add: trust_def NewBoxIssuerTrust_def exampleTrust_def)
  have run: "internalCallerFromRequest exampleJWT ''box:'' (Some (the (NewBoxIssuerTrust exampleTrust))) (\<lambda>_. 5) ''Bearer vm:worker'' [] =
     (Inr \<lparr>ic_App = ''dlt-worker'', ic_Slug = ''acme'', ic_Issuer = ''https://auth.customer-acme.fairtier.com''\<rparr>,
      [(''https://auth.customer-acme.fairtier.com'', ''vm:'')])" by code_simp
  have ports: "safe I (bt_IsVMCustomer exampleTrust slug) (\<lambda>v. v \<longrightarrow> slug = ''acme'')" "safe I (bt_newKeyfunc exampleTrust url) (\<lambda>keys. keys = ''vm:'')" for I slug url
    by (simp_all add: safe_def exampleTrust_def)
  have "sound_cache exampleTrust (\<lambda>slug. slug = ''acme'') (\<lambda>_ keys. keys = ''vm:'') []" by (simp add: sound_cache_def exampleTrust_def)
  from box_token_binds_own_tenant [OF exampleJWT_ok t _ ports(1) ports(2) this run [folded trust_def]] run t show ?thesis
    by (auto simp: trust_def exampleTrust_def)
qed

end
