(* ===== verification/PipelineServer.thy ===== *)
theory PipelineServer
  imports Auth SourceTests
begin

section \<open>The pipeline RPCs (\<^verbatim>\<open>server/pipeline.go\<close>, \<^verbatim>\<open>server/workerauth.go\<close>)\<close>

text \<open>
  The ConnectRPC handlers in front of the pipeline service, the file drop and the source tests: each reads the caller from
  the context the interceptor made, checks the message, calls the service and turns its answer into wire messages. The
  server is mounted twice, for people and for the worker; the worker's RPCs serve from the internal instance only, and
  only the tenant bound to the token. The text of a time is \<open>WireTime\<close> and the UUID library's \<^verbatim>\<open>Parse\<close>, followed
  by \<^verbatim>\<open>String\<close>, is \<open>uuidParse\<close>. Definitions whose name a service already has end in \<open>_rpc\<close>.
\<close>

subsection \<open>The worker's gate\<close>

record workerAuth =
  wa_internal :: bool

definition newWorkerAuth :: workerAuth where
  "newWorkerAuth = \<lparr>wa_internal = True\<rparr>"

definition zeroWorkerAuth :: workerAuth where
  "zeroWorkerAuth = \<lparr>wa_internal = False\<rparr>"

definition callerSlug :: "workerAuth \<Rightarrow> Context \<Rightarrow> ConnectError + string" where
  "callerSlug w ctx =
     (if \<not> wa_internal w then Inl (NewError CodePermissionDenied (ErrNew ''worker RPC is served on the internal API only''))
      else
        let caller = InternalCallerFromContext ctx in
        if ic_Slug caller \<noteq> [] then Inr (ic_Slug caller)
        else if ic_App caller = [] then
          Inl (NewError CodeUnauthenticated (ErrNew ''worker RPC requires a tenant-bound service token''))
        else
          let (slug, ok) = CutPrefix (ic_App caller) ''dlt-worker-'' in
          if \<not> ok \<or> slug = [] then Inl (NewError CodePermissionDenied (ErrNew ''token is not a dlt-worker identity'')) else Inr slug)"

lemma callerSlug_ne: "callerSlug w ctx = Inr slug \<Longrightarrow> slug \<noteq> [] \<and> wa_internal w"
  by (auto simp: callerSlug_def Let_def split: if_splits prod.splits)

subsection \<open>Messages\<close>

record WireTime =
  wt_Format :: "int \<Rightarrow> string"
  wt_Parse :: "string \<Rightarrow> err + int"

record PipelinePB =
  pb_Id :: string
  pb_CustomerSlug :: string
  pb_Name :: string
  pb_SourceType :: string
  pb_SourceConfig :: string
  pb_DatasetName :: string
  pb_Schedule :: string
  pb_WriteDisposition :: string
  pb_MergeStrategy :: string
  pb_Enabled :: bool
  pb_CreatedAt :: string
  pb_UpdatedAt :: string
  pb_LastRunStatus :: string
  pb_LastRunAt :: string

record PipelineRunPB =
  rb_Id :: string
  rb_PipelineId :: string
  rb_Status :: string
  rb_RowsLoaded :: int
  rb_ErrorMessage :: string
  rb_CreatedAt :: string
  rb_StartedAt :: string
  rb_CompletedAt :: string

record CreatePipelineRequest =
  cq_Name :: string
  cq_SourceType :: string
  cq_SourceConfig :: string
  cq_SourceCredentials :: string
  cq_DatasetName :: string
  cq_Schedule :: string
  cq_WriteDisposition :: string
  cq_MergeStrategy :: string

record UpdatePipelineRequest = CreatePipelineRequest +
  uq_Id :: string
  uq_Enabled :: bool
  uq_ClearCredentials :: bool

record GetPipelineResponse =
  gp_Pipeline :: PipelinePB
  gp_RecentRuns :: "PipelineRunPB list"
  gp_ConnectionId :: string
  gp_HasCredentials :: bool

record SourceTestPB =
  tb_Id :: string
  tb_Status :: string
  tb_Message :: string
  tb_Details :: "string list"
  tb_CreatedAt :: string
  tb_CompletedAt :: string

record TestSourceConnectionRequest =
  tq_SourceType :: string
  tq_SourceConfig :: string
  tq_SourceCredentials :: string
  tq_PipelineId :: string

record PendingSourceTest =
  pt_Id :: string
  pt_SourceType :: string
  pt_SourceConfig :: string
  pt_SourceCredentials :: string

record PipelineConfigItem =
  pi_Id :: string
  pi_SourceCredentials :: string
  pi_TriggerNow :: bool
  pi_PendingRunId :: string
  pi_LastRunAt :: string

record ReportPipelineRunRequest =
  rq_PipelineId :: string
  rq_RunId :: string
  rq_Status :: string
  rq_StartedAt :: string
  rq_CompletedAt :: string
  rq_RowsLoaded :: int
  rq_ErrorMessage :: string

definition timeOrEmpty :: "WireTime \<Rightarrow> int option \<Rightarrow> string" where
  "timeOrEmpty tt t = (case t of Some x \<Rightarrow> wt_Format tt x | None \<Rightarrow> [])"

definition pipelineToPB :: "WireTime \<Rightarrow> Pipeline \<Rightarrow> PipelinePB" where
  "pipelineToPB tt p =
     \<lparr>pb_Id = p_ID p, pb_CustomerSlug = p_CustomerSlug p, pb_Name = p_Name p, pb_SourceType = p_SourceType p,
      pb_SourceConfig = p_SourceConfig p, pb_DatasetName = p_DatasetName p, pb_Schedule = p_Schedule p,
      pb_WriteDisposition = p_WriteDisposition p, pb_MergeStrategy = p_MergeStrategy p, pb_Enabled = p_Enabled p,
      pb_CreatedAt = wt_Format tt (p_CreatedAt p), pb_UpdatedAt = wt_Format tt (p_UpdatedAt p),
      pb_LastRunStatus = p_LastRunStatus p, pb_LastRunAt = timeOrEmpty tt (p_LastRunTime p)\<rparr>"

definition pipelineRunToPB :: "WireTime \<Rightarrow> PipelineRun \<Rightarrow> PipelineRunPB" where
  "pipelineRunToPB tt r =
     \<lparr>rb_Id = r_ID r, rb_PipelineId = r_PipelineID r, rb_Status = r_Status r, rb_RowsLoaded = r_RowsLoaded r,
      rb_ErrorMessage = r_ErrorMessage r, rb_CreatedAt = wt_Format tt (r_CreatedAt r),
      rb_StartedAt = timeOrEmpty tt (r_StartedAt r), rb_CompletedAt = timeOrEmpty tt (r_CompletedAt r)\<rparr>"

definition sourceTestProto :: "WireTime \<Rightarrow> SourceTest \<Rightarrow> SourceTestPB" where
  "sourceTestProto tt t =
     \<lparr>tb_Id = sx_ID t, tb_Status = sx_Status t, tb_Message = sx_Message t, tb_Details = sx_Details t,
      tb_CreatedAt = wt_Format tt (sx_CreatedAt t), tb_CompletedAt = timeOrEmpty tt (sx_CompletedAt t)\<rparr>"

definition jsonOrEmpty :: "string \<Rightarrow> raw" where
  "jsonOrEmpty s = (if s = [] then ''{}'' else s)"

definition parseTimePtr :: "WireTime \<Rightarrow> string \<Rightarrow> err + int option" where
  "parseTimePtr tt s =
     (if s = [] then Inr None
      else case wt_Parse tt s of Inl e \<Rightarrow> Inl (Errorf (''invalid RFC 3339 timestamp '' @ goQuote s) e) | Inr t \<Rightarrow> Inr (Some t))"

definition HasCredentials :: "Pipeline \<Rightarrow> bool" where
  "HasCredentials p \<longleftrightarrow> \<not> isEmptyJSON (p_SourceCredentials p)"

text \<open>A struct literal leaves the fields it does not name at their zero values.\<close>

definition zeroPipeline :: Pipeline where
  "zeroPipeline =
     \<lparr>p_ID = [], p_CustomerSlug = [], p_Name = [], p_SourceType = [], p_SourceConfig = [], p_SourceCredentials = [],
      p_DatasetName = [], p_Schedule = [], p_WriteDisposition = [], p_MergeStrategy = [], p_Enabled = False,
      p_CredentialsExternal = False, p_CreatedAt = 0, p_UpdatedAt = 0, p_TriggerNow = False, p_PendingRunID = [],
      p_LastRunAt = None, p_LastRunTime = None, p_LastRunStatus = []\<rparr>"

definition requestPipeline :: "'x CreatePipelineRequest_scheme \<Rightarrow> Pipeline" where
  "requestPipeline m = zeroPipeline\<lparr>p_Name := cq_Name m, p_SourceType := cq_SourceType m,
     p_SourceConfig := jsonOrEmpty (cq_SourceConfig m), p_SourceCredentials := jsonOrEmpty (cq_SourceCredentials m),
     p_DatasetName := cq_DatasetName m, p_Schedule := cq_Schedule m, p_WriteDisposition := cq_WriteDisposition m,
     p_MergeStrategy := cq_MergeStrategy m\<rparr>"

subsection \<open>The server\<close>

record 'w PipelineServer =
  sv_Service :: "'w PipelineService"
  sv_FileDrop :: "'w FileDropService option"
  sv_SourceTests :: "'w SourceTestService option"
  sv_worker :: workerAuth
  sv_Time :: WireTime
  sv_uuidParse :: "string \<Rightarrow> err + string"

definition NewInternalPipelineServer ::
  "'w PipelineService \<Rightarrow> 'w SourceTestService option \<Rightarrow> WireTime \<Rightarrow> (string \<Rightarrow> err + string) \<Rightarrow> 'w PipelineServer" where
  "NewInternalPipelineServer svc tests tt parse =
     \<lparr>sv_Service = svc, sv_FileDrop = None, sv_SourceTests = tests, sv_worker = newWorkerAuth, sv_Time = tt, sv_uuidParse = parse\<rparr>"

text \<open>The first lines of every user-facing handler.\<close>

definition requireUser :: "Context \<Rightarrow> (string \<Rightarrow> ('w, 'a) rpc) \<Rightarrow> ('w, 'a) rpc" where
  "requireUser ctx k =
     (let callerID = UserIDFromContext ctx in
      if callerID = [] then deny CodeUnauthenticated (ErrNew ''authentication required'') else k callerID)"

definition require :: "string \<Rightarrow> string \<Rightarrow> ('w, 'a) rpc \<Rightarrow> ('w, 'a) rpc" where
  "require v msg k = (if v = [] then deny CodeInvalidArgument (ErrNew msg) else k)"

subsection \<open>User-facing RPCs\<close>

definition CreatePipeline_rpc :: "'w PipelineServer \<Rightarrow> Context \<Rightarrow> CreatePipelineRequest \<Rightarrow> ('w, PipelinePB) rpc" where
  "CreatePipeline_rpc s ctx m =
     requireUser ctx (\<lambda>callerID.
     require (cq_Name m) ''name is required'' (
     require (cq_SourceType m) ''source_type is required'' (
     require (cq_DatasetName m) ''dataset_name is required'' (
     serve (CreatePipeline (sv_Service s) callerID (requestPipeline m)) (\<lambda>result.
     answer (pipelineToPB (sv_Time s) result))))))"

definition ListPipelines_rpc :: "'w PipelineServer \<Rightarrow> Context \<Rightarrow> ('w, PipelinePB list) rpc" where
  "ListPipelines_rpc s ctx =
     requireUser ctx (\<lambda>callerID.
     serve (ListPipelines (sv_Service s) callerID) (\<lambda>pipelines.
     answer (map (pipelineToPB (sv_Time s)) pipelines)))"

text \<open>The detail view shows the latest run in the fields the list view has.\<close>

definition withLatestRun :: "PipelineRun list \<Rightarrow> Pipeline \<Rightarrow> Pipeline" where
  "withLatestRun runs p =
     (case runs of
        [] \<Rightarrow> p
      | latest # _ \<Rightarrow> p\<lparr>p_LastRunStatus := r_Status latest,
          p_LastRunTime := (case r_StartedAt latest of Some t \<Rightarrow> Some t | None \<Rightarrow> Some (r_CreatedAt latest))\<rparr>)"

definition GetPipeline_rpc :: "'w PipelineServer \<Rightarrow> Context \<Rightarrow> string \<Rightarrow> ('w, GetPipelineResponse) rpc" where
  "GetPipeline_rpc s ctx i =
     requireUser ctx (\<lambda>callerID.
     require i ''id is required'' (
     serve (GetPipeline (sv_Service s) callerID i) (\<lambda>(pipeline, runs).
     let p = withLatestRun runs pipeline in
     answer \<lparr>gp_Pipeline = pipelineToPB (sv_Time s) p, gp_RecentRuns = map (pipelineRunToPB (sv_Time s)) runs,
             gp_ConnectionId = ConnectionID p, gp_HasCredentials = HasCredentials p\<rparr>)))"

definition UpdatePipeline_rpc :: "'w PipelineServer \<Rightarrow> Context \<Rightarrow> UpdatePipelineRequest \<Rightarrow> ('w, PipelinePB) rpc" where
  "UpdatePipeline_rpc s ctx m =
     requireUser ctx (\<lambda>callerID.
     require (uq_Id m) ''id is required'' (
     serve (UpdatePipeline (sv_Service s) callerID ((requestPipeline m)\<lparr>p_ID := uq_Id m, p_Enabled := uq_Enabled m\<rparr>) (uq_ClearCredentials m)) (\<lambda>result.
     answer (pipelineToPB (sv_Time s) result))))"

definition DeletePipeline_rpc :: "'w PipelineServer \<Rightarrow> Context \<Rightarrow> string \<Rightarrow> ('w, unit) rpc" where
  "DeletePipeline_rpc s ctx i =
     requireUser ctx (\<lambda>callerID.
     require i ''id is required'' (
     serve (DeletePipeline (sv_Service s) callerID i) answer))"

definition TriggerPipeline_rpc :: "'w PipelineServer \<Rightarrow> Context \<Rightarrow> string \<Rightarrow> ('w, PipelineRunPB) rpc" where
  "TriggerPipeline_rpc s ctx i =
     requireUser ctx (\<lambda>callerID.
     require i ''id is required'' (
     serve (TriggerPipeline (sv_Service s) callerID i) (\<lambda>run.
     answer (pipelineRunToPB (sv_Time s) run))))"

text \<open>A version goes over the wire as it is.\<close>

definition ListPipelineVersions_rpc :: "'w PipelineServer \<Rightarrow> Context \<Rightarrow> string \<Rightarrow> ('w, PipelineVersion list) rpc" where
  "ListPipelineVersions_rpc s ctx i =
     requireUser ctx (\<lambda>callerID.
     require i ''pipeline_id is required'' (
     serve (ListPipelineVersions (sv_Service s) callerID i) answer))"

definition RestorePipelineVersion_rpc :: "'w PipelineServer \<Rightarrow> Context \<Rightarrow> string \<Rightarrow> string \<Rightarrow> ('w, PipelinePB) rpc" where
  "RestorePipelineVersion_rpc s ctx i sha =
     requireUser ctx (\<lambda>callerID.
     if i = [] \<or> sha = [] then deny CodeInvalidArgument (ErrNew ''pipeline_id and sha are required'')
     else
       serve (RestorePipelineVersion (sv_Service s) callerID i sha) (\<lambda>restored.
       answer (pipelineToPB (sv_Time s) restored)))"

subsection \<open>File drop RPCs\<close>

definition requireFileDrop :: "'w PipelineServer \<Rightarrow> ('w FileDropService \<Rightarrow> ('w, 'a) rpc) \<Rightarrow> ('w, 'a) rpc" where
  "requireFileDrop s k =
     (case sv_FileDrop s of
        None \<Rightarrow> deny CodeUnimplemented (ErrNew ''file drop is not available on this endpoint'')
      | Some fd \<Rightarrow> k fd)"

definition ListUploadedFiles_rpc :: "'w PipelineServer \<Rightarrow> Context \<Rightarrow> string \<Rightarrow> ('w, UploadedFile list) rpc" where
  "ListUploadedFiles_rpc s ctx i =
     requireUser ctx (\<lambda>callerID.
     requireFileDrop s (\<lambda>fd.
     require i ''pipeline_id is required'' (
     serve (ListFiles fd callerID i) answer)))"

definition DeleteUploadedFile_rpc :: "'w PipelineServer \<Rightarrow> Context \<Rightarrow> string \<Rightarrow> string \<Rightarrow> ('w, unit) rpc" where
  "DeleteUploadedFile_rpc s ctx i file =
     requireUser ctx (\<lambda>callerID.
     requireFileDrop s (\<lambda>fd.
     require i ''pipeline_id is required'' (
     require file ''file is required'' (
     serve (DeleteFile fd callerID i file) answer))))"

subsection \<open>Source tests\<close>

definition requireTests :: "'w PipelineServer \<Rightarrow> ('w SourceTestService \<Rightarrow> ('w, 'a) rpc) \<Rightarrow> ('w, 'a) rpc" where
  "requireTests s k =
     (case sv_SourceTests s of
        None \<Rightarrow> deny CodeUnimplemented (ErrNew ''source tests are not available on this endpoint'')
      | Some t \<Rightarrow> k t)"

definition requestTest :: "TestSourceConnectionRequest \<Rightarrow> raw \<Rightarrow> SourceTest" where
  "requestTest m creds =
     \<lparr>sx_ID = [], sx_CustomerSlug = [], sx_SourceType = tq_SourceType m, sx_SourceConfig = tq_SourceConfig m,
      sx_SourceCredentials = creds, sx_Status = [], sx_Message = [], sx_Details = [], sx_CreatedAt = 0, sx_CompletedAt = None,
      sx_ExpiresAt = 0\<rparr>"

definition TestSourceConnection_rpc :: "'w PipelineServer \<Rightarrow> Context \<Rightarrow> TestSourceConnectionRequest \<Rightarrow> ('w, SourceTestPB) rpc" where
  "TestSourceConnection_rpc s ctx m =
     requireUser ctx (\<lambda>callerID.
     requireTests s (\<lambda>tests.
     require (tq_SourceType m) ''source_type is required'' (
     serve (if tq_SourceCredentials m = [] \<and> tq_PipelineId m \<noteq> [] then PipelineCredentials tests callerID (tq_PipelineId m)
            else ret (tq_SourceCredentials m)) (\<lambda>creds.
     serve (StartSourceTest tests callerID (requestTest m creds)) (\<lambda>test.
     answer (sourceTestProto (sv_Time s) test))))))"

definition GetSourceTest_rpc :: "'w PipelineServer \<Rightarrow> Context \<Rightarrow> string \<Rightarrow> ('w, SourceTestPB) rpc" where
  "GetSourceTest_rpc s ctx i =
     requireUser ctx (\<lambda>callerID.
     requireTests s (\<lambda>tests.
     require i ''id is required'' (
     serve (GetSourceTest tests callerID i) (\<lambda>test.
     answer (sourceTestProto (sv_Time s) test)))))"

subsection \<open>Worker-facing RPCs\<close>

text \<open>The gate of the RPCs that name a tenant: the token's tenant is the one named.\<close>

definition requireTenant :: "workerAuth \<Rightarrow> Context \<Rightarrow> string \<Rightarrow> ('w, 'a) rpc \<Rightarrow> ('w, 'a) rpc" where
  "requireTenant wa ctx customerSlug k =
     require customerSlug ''customer_slug is required'' (
     guarded (callerSlug wa ctx) (\<lambda>slug.
     if slug \<noteq> customerSlug then deny CodePermissionDenied (ErrNew ''token tenant does not match customer_slug'') else k))"

definition pendingTestPB :: "SourceTest \<Rightarrow> PendingSourceTest" where
  "pendingTestPB t = \<lparr>pt_Id = sx_ID t, pt_SourceType = sx_SourceType t, pt_SourceConfig = sx_SourceConfig t,
     pt_SourceCredentials = sx_SourceCredentials t\<rparr>"

definition GetPendingSourceTests_rpc :: "'w PipelineServer \<Rightarrow> Context \<Rightarrow> string \<Rightarrow> ('w, PendingSourceTest list) rpc" where
  "GetPendingSourceTests_rpc s ctx customerSlug =
     requireTenant (sv_worker s) ctx customerSlug (
     requireTests s (\<lambda>tests.
     serve (ClaimSourceTests tests customerSlug) (\<lambda>ts. answer (map pendingTestPB ts))))"

definition ReportSourceTest_rpc ::
  "'w PipelineServer \<Rightarrow> Context \<Rightarrow> string \<Rightarrow> string \<Rightarrow> string \<Rightarrow> string list \<Rightarrow> ('w, unit) rpc" where
  "ReportSourceTest_rpc s ctx i status message details =
     guarded (callerSlug (sv_worker s) ctx) (\<lambda>slug.
     requireTests s (\<lambda>tests.
     require i ''id is required'' (
     require status ''status is required'' (
     serve (ReportSourceTest tests slug i status message (SanitizeSourceTestDetails details)) answer))))"

definition configItem :: "WireTime \<Rightarrow> Pipeline \<Rightarrow> PipelineConfigItem" where
  "configItem tt p = \<lparr>pi_Id = p_ID p, pi_SourceCredentials = p_SourceCredentials p, pi_TriggerNow = p_TriggerNow p,
     pi_PendingRunId = p_PendingRunID p, pi_LastRunAt = timeOrEmpty tt (p_LastRunAt p)\<rparr>"

definition GetPipelineConfigs_rpc :: "'w PipelineServer \<Rightarrow> Context \<Rightarrow> string \<Rightarrow> ('w, PipelineConfigItem list) rpc" where
  "GetPipelineConfigs_rpc s ctx customerSlug =
     requireTenant (sv_worker s) ctx customerSlug (
     serve (GetEnabledPipelines (sv_Service s) customerSlug) (\<lambda>pipelines.
     answer (map (configItem (sv_Time s)) pipelines)))"

text \<open>\<^verbatim>\<open>fmt.Errorf\<close> around a parse error.\<close>

definition badArgument :: "string \<Rightarrow> err + 'a \<Rightarrow> ConnectError + 'a" where
  "badArgument msg r = map_sum (\<lambda>e. NewError CodeInvalidArgument (if msg = [] then e else Errorf msg e)) id r"

definition ReportPipelineRun_rpc :: "'w PipelineServer \<Rightarrow> Context \<Rightarrow> ReportPipelineRunRequest \<Rightarrow> ('w, unit) rpc" where
  "ReportPipelineRun_rpc s ctx m =
     guarded (callerSlug (sv_worker s) ctx) (\<lambda>slug.
     require (rq_PipelineId m) ''pipeline_id is required'' (
     guarded (badArgument ''pipeline_id'' (sv_uuidParse s (rq_PipelineId m))) (\<lambda>pipelineID.
     require (rq_Status m) ''status is required'' (
     guarded (if rq_RunId m = [] then Inr [] else badArgument ''run_id'' (sv_uuidParse s (rq_RunId m))) (\<lambda>runID.
     guarded (badArgument [] (parseTimePtr (sv_Time s) (rq_StartedAt m))) (\<lambda>startedAt.
     guarded (badArgument [] (parseTimePtr (sv_Time s) (rq_CompletedAt m))) (\<lambda>completedAt.
     serve (ReportPipelineRun (sv_Service s) slug
       \<lparr>r_ID = runID, r_PipelineID = pipelineID, r_Status = rq_Status m, r_StartedAt = startedAt, r_CompletedAt = completedAt,
        r_RowsLoaded = rq_RowsLoaded m, r_ErrorMessage = rq_ErrorMessage m, r_CreatedAt = 0\<rparr>) answer)))))))"

end
