(* ===== verification/TransformationServer.thy ===== *)
theory TransformationServer
  imports PipelineServer Transformations
begin

section \<open>The transformation RPCs (\<^verbatim>\<open>server/transformation.go\<close>)\<close>

text \<open>
  The handlers in front of the transformation service, mounted twice like the pipelines'. The counters of a run are
  \<^verbatim>\<open>int32\<close> on the wire and in the struct.
\<close>

record 'w TransformationServer =
  tv_Service :: "'w TransformationService"
  tv_worker :: workerAuth
  tv_Time :: WireTime
  tv_uuidParse :: "string \<Rightarrow> err + string"

definition NewInternalTransformationServer ::
  "'w TransformationService \<Rightarrow> WireTime \<Rightarrow> (string \<Rightarrow> err + string) \<Rightarrow> 'w TransformationServer" where
  "NewInternalTransformationServer svc tt parse =
     \<lparr>tv_Service = svc, tv_worker = newWorkerAuth, tv_Time = tt, tv_uuidParse = parse\<rparr>"

subsection \<open>Messages\<close>

record TransformationPB =
  xb_Id :: string
  xb_CustomerSlug :: string
  xb_Name :: string
  xb_RepoUrl :: string
  xb_RepoRef :: string
  xb_Schedule :: string
  xb_TriggerAfterPipelineId :: string
  xb_DbtSelector :: string
  xb_Enabled :: bool
  xb_CreatedAt :: string
  xb_UpdatedAt :: string
  xb_LastRunStatus :: string
  xb_LastRunAt :: string

record TransformationRunPB =
  yb_Id :: string
  yb_TransformationId :: string
  yb_Status :: string
  yb_CommitSha :: string
  yb_ModelsTotal :: "32 word"
  yb_ModelsFailed :: "32 word"
  yb_TestsTotal :: "32 word"
  yb_TestsFailed :: "32 word"
  yb_ModelResults :: string
  yb_ErrorMessage :: string
  yb_CreatedAt :: string
  yb_StartedAt :: string
  yb_CompletedAt :: string

record CreateTransformationRequest =
  xq_Name :: string
  xq_RepoUrl :: string
  xq_RepoRef :: string
  xq_GitCredentials :: string
  xq_Schedule :: string
  xq_TriggerAfterPipelineId :: string
  xq_DbtSelector :: string

record UpdateTransformationRequest = CreateTransformationRequest +
  xu_Id :: string
  xu_Enabled :: bool

record TransformationConfigItem =
  xi_Id :: string
  xi_Name :: string
  xi_RepoUrl :: string
  xi_RepoRef :: string
  xi_GitCredentials :: string
  xi_Schedule :: string
  xi_TriggerAfterPipelineId :: string
  xi_DbtSelector :: string
  xi_Enabled :: bool
  xi_TriggerNow :: bool
  xi_PendingRunId :: string
  xi_LastRunAt :: string

record ReportTransformationRunRequest =
  yq_TransformationId :: string
  yq_RunId :: string
  yq_Status :: string
  yq_StartedAt :: string
  yq_CompletedAt :: string
  yq_CommitSha :: string
  yq_ModelsTotal :: "32 word"
  yq_ModelsFailed :: "32 word"
  yq_TestsTotal :: "32 word"
  yq_TestsFailed :: "32 word"
  yq_ModelResults :: string
  yq_ErrorMessage :: string

definition transformationToPB :: "WireTime \<Rightarrow> Transformation \<Rightarrow> TransformationPB" where
  "transformationToPB tt t =
     \<lparr>xb_Id = tf_ID t, xb_CustomerSlug = tf_CustomerSlug t, xb_Name = tf_Name t, xb_RepoUrl = tf_RepoURL t,
      xb_RepoRef = tf_RepoRef t, xb_Schedule = tf_Schedule t, xb_TriggerAfterPipelineId = tf_TriggerAfterPipelineID t,
      xb_DbtSelector = tf_DBTSelector t, xb_Enabled = tf_Enabled t, xb_CreatedAt = wt_Format tt (tf_CreatedAt t),
      xb_UpdatedAt = wt_Format tt (tf_UpdatedAt t), xb_LastRunStatus = tf_LastRunStatus t,
      xb_LastRunAt = timeOrEmpty tt (tf_LastRunTime t)\<rparr>"

definition transformationRunToPB :: "WireTime \<Rightarrow> TransformationRun \<Rightarrow> TransformationRunPB" where
  "transformationRunToPB tt r =
     \<lparr>yb_Id = tn_ID r, yb_TransformationId = tn_TransformationID r, yb_Status = tn_Status r, yb_CommitSha = tn_CommitSHA r,
      yb_ModelsTotal = tn_ModelsTotal r, yb_ModelsFailed = tn_ModelsFailed r, yb_TestsTotal = tn_TestsTotal r,
      yb_TestsFailed = tn_TestsFailed r, yb_ModelResults = tn_ModelResults r, yb_ErrorMessage = tn_ErrorMessage r,
      yb_CreatedAt = wt_Format tt (tn_CreatedAt r), yb_StartedAt = timeOrEmpty tt (tn_StartedAt r),
      yb_CompletedAt = timeOrEmpty tt (tn_CompletedAt r)\<rparr>"

definition jsonArrayOrEmptyPB :: "string \<Rightarrow> raw" where
  "jsonArrayOrEmptyPB s = (if s = [] then ''[]'' else s)"

definition requestTransformation :: "'x CreateTransformationRequest_scheme \<Rightarrow> Transformation" where
  "requestTransformation m =
     \<lparr>tf_ID = [], tf_CustomerSlug = [], tf_Name = xq_Name m, tf_RepoURL = xq_RepoUrl m, tf_RepoRef = xq_RepoRef m,
      tf_GitCredentials = jsonOrEmpty (xq_GitCredentials m), tf_Schedule = xq_Schedule m,
      tf_TriggerAfterPipelineID = xq_TriggerAfterPipelineId m, tf_DBTSelector = xq_DbtSelector m, tf_Enabled = False,
      tf_CreatedAt = 0, tf_UpdatedAt = 0, tf_TriggerNow = False, tf_PendingRunID = [], tf_LastRunAt = None,
      tf_LastRunTime = None, tf_LastRunStatus = []\<rparr>"

definition checkTrigger :: "'w TransformationServer \<Rightarrow> string \<Rightarrow> ConnectError + unit" where
  "checkTrigger s i =
     (if i = [] then Inr () else map_sum id (\<lambda>_. ()) (badArgument ''trigger_after_pipeline_id'' (tv_uuidParse s i)))"

subsection \<open>User-facing RPCs\<close>

definition CreateTransformation_rpc :: "'w TransformationServer \<Rightarrow> Context \<Rightarrow> CreateTransformationRequest \<Rightarrow> ('w, TransformationPB) rpc" where
  "CreateTransformation_rpc s ctx m =
     requireUser ctx (\<lambda>callerID.
     require (xq_Name m) ''name is required'' (
     guarded (checkTrigger s (xq_TriggerAfterPipelineId m)) (\<lambda>_.
     serve (CreateTransformation (tv_Service s) callerID (requestTransformation m)) (\<lambda>result.
     answer (transformationToPB (tv_Time s) result)))))"

definition ListTransformations_rpc :: "'w TransformationServer \<Rightarrow> Context \<Rightarrow> ('w, TransformationPB list) rpc" where
  "ListTransformations_rpc s ctx =
     requireUser ctx (\<lambda>callerID.
     serve (ListTransformations (tv_Service s) callerID) (\<lambda>ts. answer (map (transformationToPB (tv_Time s)) ts)))"

definition withLatestRun_t :: "TransformationRun list \<Rightarrow> Transformation \<Rightarrow> Transformation" where
  "withLatestRun_t runs t =
     (case runs of
        [] \<Rightarrow> t
      | latest # _ \<Rightarrow> t\<lparr>tf_LastRunStatus := tn_Status latest,
          tf_LastRunTime := (case tn_StartedAt latest of Some x \<Rightarrow> Some x | None \<Rightarrow> Some (tn_CreatedAt latest))\<rparr>)"

definition GetTransformation_rpc ::
  "'w TransformationServer \<Rightarrow> Context \<Rightarrow> string \<Rightarrow> ('w, TransformationPB \<times> TransformationRunPB list) rpc" where
  "GetTransformation_rpc s ctx i =
     requireUser ctx (\<lambda>callerID.
     require i ''id is required'' (
     serve (GetTransformation (tv_Service s) callerID i) (\<lambda>(t, runs).
     answer (transformationToPB (tv_Time s) (withLatestRun_t runs t), map (transformationRunToPB (tv_Time s)) runs))))"

definition UpdateTransformation_rpc :: "'w TransformationServer \<Rightarrow> Context \<Rightarrow> UpdateTransformationRequest \<Rightarrow> ('w, TransformationPB) rpc" where
  "UpdateTransformation_rpc s ctx m =
     requireUser ctx (\<lambda>callerID.
     require (xu_Id m) ''id is required'' (
     guarded (checkTrigger s (xq_TriggerAfterPipelineId m)) (\<lambda>_.
     serve (UpdateTransformation (tv_Service s) callerID ((requestTransformation m)\<lparr>tf_ID := xu_Id m, tf_Enabled := xu_Enabled m\<rparr>)) (\<lambda>result.
     answer (transformationToPB (tv_Time s) result)))))"

definition DeleteTransformation_rpc :: "'w TransformationServer \<Rightarrow> Context \<Rightarrow> string \<Rightarrow> ('w, unit) rpc" where
  "DeleteTransformation_rpc s ctx i =
     requireUser ctx (\<lambda>callerID.
     require i ''id is required'' (
     serve (DeleteTransformation (tv_Service s) callerID i) answer))"

definition TriggerTransformation_rpc :: "'w TransformationServer \<Rightarrow> Context \<Rightarrow> string \<Rightarrow> ('w, TransformationRunPB) rpc" where
  "TriggerTransformation_rpc s ctx i =
     requireUser ctx (\<lambda>callerID.
     require i ''id is required'' (
     serve (TriggerTransformation (tv_Service s) callerID i) (\<lambda>run.
     answer (transformationRunToPB (tv_Time s) run))))"

subsection \<open>Worker-facing RPCs\<close>

definition configItem_t :: "WireTime \<Rightarrow> Transformation \<Rightarrow> TransformationConfigItem" where
  "configItem_t tt t =
     \<lparr>xi_Id = tf_ID t, xi_Name = tf_Name t, xi_RepoUrl = tf_RepoURL t, xi_RepoRef = tf_RepoRef t,
      xi_GitCredentials = tf_GitCredentials t, xi_Schedule = tf_Schedule t,
      xi_TriggerAfterPipelineId = tf_TriggerAfterPipelineID t, xi_DbtSelector = tf_DBTSelector t, xi_Enabled = tf_Enabled t,
      xi_TriggerNow = tf_TriggerNow t, xi_PendingRunId = tf_PendingRunID t, xi_LastRunAt = timeOrEmpty tt (tf_LastRunAt t)\<rparr>"

definition GetTransformationConfigs_rpc :: "'w TransformationServer \<Rightarrow> Context \<Rightarrow> string \<Rightarrow> ('w, TransformationConfigItem list) rpc" where
  "GetTransformationConfigs_rpc s ctx customerSlug =
     requireTenant (tv_worker s) ctx customerSlug (
     serve (GetEnabledTransformations (tv_Service s) customerSlug) (\<lambda>ts.
     answer (map (configItem_t (tv_Time s)) ts)))"

definition ReportTransformationRun_rpc :: "'w TransformationServer \<Rightarrow> Context \<Rightarrow> ReportTransformationRunRequest \<Rightarrow> ('w, unit) rpc" where
  "ReportTransformationRun_rpc s ctx m =
     guarded (callerSlug (tv_worker s) ctx) (\<lambda>slug.
     require (yq_TransformationId m) ''transformation_id is required'' (
     guarded (badArgument ''transformation_id'' (tv_uuidParse s (yq_TransformationId m))) (\<lambda>transformationID.
     require (yq_Status m) ''status is required'' (
     guarded (if yq_RunId m = [] then Inr [] else badArgument ''run_id'' (tv_uuidParse s (yq_RunId m))) (\<lambda>runID.
     guarded (badArgument [] (parseTimePtr (tv_Time s) (yq_StartedAt m))) (\<lambda>startedAt.
     guarded (badArgument [] (parseTimePtr (tv_Time s) (yq_CompletedAt m))) (\<lambda>completedAt.
     serve (ReportTransformationRun (tv_Service s) slug
       \<lparr>tn_ID = runID, tn_TransformationID = transformationID, tn_Status = yq_Status m, tn_StartedAt = startedAt,
        tn_CompletedAt = completedAt, tn_CommitSHA = yq_CommitSha m, tn_ModelsTotal = yq_ModelsTotal m,
        tn_ModelsFailed = yq_ModelsFailed m, tn_TestsTotal = yq_TestsTotal m, tn_TestsFailed = yq_TestsFailed m,
        tn_ModelResults = jsonArrayOrEmptyPB (yq_ModelResults m), tn_ErrorMessage = yq_ErrorMessage m, tn_CreatedAt = 0\<rparr>) answer)))))))"

end
