(* ===== verification/OAuthFlow.thy ===== *)
theory OAuthFlow
  imports Auth Connections Crypto
begin

section \<open>Sign in with Google (\<^verbatim>\<open>oauthgoogle/oauthgoogle.go\<close>, \<^verbatim>\<open>server/oauth_google.go\<close>)\<close>

text \<open>
  The redirect pair outside ConnectRPC. \<^verbatim>\<open>/oauth/google/start\<close> authenticates a person of the Console and gives them the consent
  address with a signed state; \<^verbatim>\<open>/oauth/google/callback\<close> carries no token of the Console, so who is signing in is read from
  that state alone, and the refresh token Google returns is stored as a short-lived grant. Signing and checking a state is
  the JWT library's HMAC (\<open>StateLib\<close>); Google's token endpoint is a call of the world. The HTML of the popup is left
  out: an answer is the payload it posts to the Console.
\<close>

subsection \<open>Query strings\<close>

text \<open>\<^verbatim>\<open>url.Values.Encode\<close>: the keys in order, each side escaped by \<^verbatim>\<open>url.QueryEscape\<close>.\<close>

definition is_unreserved :: "char \<Rightarrow> bool" where
  "is_unreserved c \<longleftrightarrow> (CHR ''a'' \<le> c \<and> c \<le> CHR ''z'') \<or> (CHR ''A'' \<le> c \<and> c \<le> CHR ''Z'') \<or> (CHR ''0'' \<le> c \<and> c \<le> CHR ''9'') \<or>
     c \<in> {CHR ''-'', CHR ''_'', CHR ''.'', CHR ''~''}"

definition upperhex :: "nat \<Rightarrow> char" where
  "upperhex n = ''0123456789ABCDEF'' ! n"

definition escapeByte :: "char \<Rightarrow> string" where
  "escapeByte c =
     (if is_unreserved c then [c] else if c = CHR '' '' then ''+''
      else [CHR ''%'', upperhex (of_char c div 16), upperhex (of_char c mod 16)])"

definition QueryEscape :: "string \<Rightarrow> string" where
  "QueryEscape s = concat (map escapeByte s)"

definition Encode :: "(string \<times> string) list \<Rightarrow> string" where
  "Encode kvs = join_with ''&'' (map (\<lambda>(k, v). QueryEscape k @ ''='' @ QueryEscape v) (sort_key fst kvs))"

subsection \<open>Scopes\<close>

datatype Capability = CapabilityNone | CapabilityDrive

definition ParseCapability :: "string \<Rightarrow> err + Capability" where
  "ParseCapability s =
     (if s = [] then Inr CapabilityNone else if s = ''drive'' then Inr CapabilityDrive
      else Inl (ErrNew ''oauthgoogle: unknown capability''))"

definition SheetsReadonlyScope :: string where
  "SheetsReadonlyScope = ''https://www.googleapis.com/auth/spreadsheets.readonly''"

definition baseScopes :: string where
  "baseScopes = ''openid email '' @ SheetsReadonlyScope"

definition scopes :: "Capability \<Rightarrow> string" where
  "scopes capability = (if capability = CapabilityDrive then baseScopes @ '' '' @ GoogleDriveFileScope else baseScopes)"

definition AllScopes :: "string list" where
  "AllScopes = [''openid'', ''email'', SheetsReadonlyScope, GoogleDriveFileScope]"

subsection \<open>The client\<close>

text \<open>Dates in a claim are whole seconds.\<close>

record stateClaims =
  sc_Slug :: string
  sc_Subject :: string
  sc_IssuedAt :: int
  sc_ExpiresAt :: int
  sc_ID :: string

record StateLib =
  SignedString :: "string \<Rightarrow> stateClaims \<Rightarrow> err + string"
  ParseWithClaims :: "string \<Rightarrow> string \<Rightarrow> int \<Rightarrow> stateClaims option"

record 'w GoogleClient =
  gc_redirectURL :: string
  gc_stateSecret :: string
  gc_AuthEndpoint :: string
  gc_post :: "string \<Rightarrow> ('w, nat \<times> string) io"
  gc_nonce :: "('w, string) io"
  gc_Lib :: StateLib

definition second :: int where "second = 1000000000"
definition stateTTL :: int where "stateTTL = 15 * 60 * second"

definition AuthURL :: "'w GoogleClient \<Rightarrow> string \<Rightarrow> string \<Rightarrow> Capability \<Rightarrow> string" where
  "AuthURL c state clientID capability =
     gc_AuthEndpoint c @ ''?'' @ Encode
       [(''client_id'', clientID), (''redirect_uri'', gc_redirectURL c), (''response_type'', ''code''), (''scope'', scopes capability),
        (''access_type'', ''offline''), (''prompt'', ''consent''), (''include_granted_scopes'', ''true''), (''state'', state)]"

text \<open>\<^verbatim>\<open>base64.RawURLEncoding\<close>: the URL alphabet without padding.\<close>

definition urlchar :: "char \<Rightarrow> char" where
  "urlchar c = (if c = CHR ''+'' then CHR ''-'' else if c = CHR ''/'' then CHR ''_'' else c)"

definition rawURLEncode :: "string \<Rightarrow> string" where
  "rawURLEncode s = map urlchar (filter (\<lambda>c. c \<noteq> CHR ''='') (b64enc s))"

definition urlval :: "char \<Rightarrow> nat option" where
  "urlval c =
     (if c = CHR ''-'' then Some 62 else if c = CHR ''_'' then Some 63
      else if c = CHR ''+'' \<or> c = CHR ''/'' then None else b64val c)"

fun rawURLGroups :: "nat list \<Rightarrow> string option" where
  "rawURLGroups [] = Some []"
| "rawURLGroups [x] = None"
| "rawURLGroups [x, y] = Some [char_of (x * 4 + y div 16)]"
| "rawURLGroups [x, y, z] = Some [char_of (x * 4 + y div 16), char_of (y mod 16 * 16 + z div 4)]"
| "rawURLGroups (x # y # z # u # s) =
     map_option (\<lambda>r. char_of (x * 4 + y div 16) # char_of (y mod 16 * 16 + z div 4) # char_of (z mod 4 * 64 + u) # r) (rawURLGroups s)"

definition rawURLDecode :: "string \<Rightarrow> string option" where
  "rawURLDecode s =
     (let vs = map urlval (filter (\<lambda>c. c \<noteq> CHR 0x0D \<and> c \<noteq> CHR 0x0A) s) in
      if None \<in> set vs then None else rawURLGroups (map the vs))"

definition SignState :: "'w GoogleClient \<Rightarrow> ('w \<Rightarrow> int) \<Rightarrow> string \<Rightarrow> string \<Rightarrow> ('w, string) io" where
  "SignState c clock userSub customerSlug =
     andThen (wrapErr ''oauthgoogle: nonce'' (gc_nonce c)) (\<lambda>nonce w.
     wrapErr ''oauthgoogle: sign state'' (lift (SignedString (gc_Lib c) (gc_stateSecret c)
       \<lparr>sc_Slug = customerSlug, sc_Subject = userSub, sc_IssuedAt = clock w div second,
        sc_ExpiresAt = (clock w + stateTTL) div second, sc_ID = rawURLEncode nonce\<rparr>)) w)"

definition VerifyState :: "'w GoogleClient \<Rightarrow> int \<Rightarrow> string \<Rightarrow> err + string \<times> string" where
  "VerifyState c now state =
     (case ParseWithClaims (gc_Lib c) (gc_stateSecret c) state now of
        None \<Rightarrow> Inl (ErrNew ''oauthgoogle: verify state'')
      | Some claims \<Rightarrow>
          (if sc_Subject claims = [] then Inl (ErrNew ''oauthgoogle: state missing subject'')
           else Inr (sc_Subject claims, sc_Slug claims)))"

record TokenResult =
  tk_RefreshToken :: string
  tk_Email :: string
  tk_Scopes :: "string list"

record tokenResponse =
  tx_AccessToken :: string
  tx_RefreshToken :: string
  tx_IDToken :: string
  tx_Scope :: string
  tx_TokenType :: string
  tx_ExpiresIn :: int
  tx_Error :: string
  tx_ErrorDesc :: string

definition d_tokenResponse :: "tokenResponse decoder" where
  "d_tokenResponse = d_obj (\<lambda>ms t.
     Option.bind (dec_field d_str ''access_token'' ms (tx_AccessToken t)) (\<lambda>a.
     Option.bind (dec_field d_str ''refresh_token'' ms (tx_RefreshToken t)) (\<lambda>r.
     Option.bind (dec_field d_str ''id_token'' ms (tx_IDToken t)) (\<lambda>i.
     Option.bind (dec_field d_str ''scope'' ms (tx_Scope t)) (\<lambda>s.
     Option.bind (dec_field d_str ''token_type'' ms (tx_TokenType t)) (\<lambda>y.
     Option.bind (dec_field d_int64 ''expires_in'' ms (tx_ExpiresIn t)) (\<lambda>x.
     Option.bind (dec_field d_str ''error'' ms (tx_Error t)) (\<lambda>e.
     Option.bind (dec_field d_str ''error_description'' ms (tx_ErrorDesc t)) (\<lambda>d.
     Some \<lparr>tx_AccessToken = a, tx_RefreshToken = r, tx_IDToken = i, tx_Scope = s, tx_TokenType = y, tx_ExpiresIn = x, tx_Error = e,
           tx_ErrorDesc = d\<rparr>)))))))))"

definition zeroTokenResponse :: tokenResponse where
  "zeroTokenResponse = \<lparr>tx_AccessToken = [], tx_RefreshToken = [], tx_IDToken = [], tx_Scope = [], tx_TokenType = [], tx_ExpiresIn = 0,
     tx_Error = [], tx_ErrorDesc = []\<rparr>"

definition emailFromIDToken :: "string \<Rightarrow> string" where
  "emailFromIDToken idToken =
     (let parts = split_on (CHR ''.'') idToken in
      if length parts \<noteq> 3 then []
      else case rawURLDecode (parts ! 1) of
        None \<Rightarrow> []
      | Some payload \<Rightarrow>
          (case Unmarshal (d_obj (\<lambda>ms e. dec_field d_str ''email'' ms e)) [] payload of None \<Rightarrow> [] | Some email \<Rightarrow> email))"

text \<open>\<open>gc_post\<close> posts the form and returns the status and the body, of which at most 64 KiB are read (\<^verbatim>\<open>io.LimitReader\<close>).\<close>

fun limitRead :: "int \<Rightarrow> string \<Rightarrow> string" where
  "limitRead n [] = []"
| "limitRead n (c # s) = (if n \<le> 0 then [] else c # limitRead (n - 1) s)"

definition Exchange :: "'w GoogleClient \<Rightarrow> string \<Rightarrow> string \<Rightarrow> string \<Rightarrow> ('w, TokenResult) io" where
  "Exchange c code clientID clientSecret =
     andThen (wrapErr ''oauthgoogle: token exchange'' (gc_post c (Encode
       [(''code'', code), (''client_id'', clientID), (''client_secret'', clientSecret), (''redirect_uri'', gc_redirectURL c),
        (''grant_type'', ''authorization_code'')]))) (\<lambda>(status, body).
     case Unmarshal d_tokenResponse zeroTokenResponse (limitRead 65536 body) of
       None \<Rightarrow> fail (ErrNew ''oauthgoogle: decode token response'')
     | Some tr \<Rightarrow>
         (if status < 200 \<or> status \<ge> 300 \<or> tx_Error tr \<noteq> [] then fail (ErrNew ''oauthgoogle: token exchange failed'')
          else if tx_RefreshToken tr = [] then fail (ErrNew ''oauthgoogle: no refresh_token returned'')
          else ret \<lparr>tk_RefreshToken = tx_RefreshToken tr, tk_Email = emailFromIDToken (tx_IDToken tr), tk_Scopes = Fields (tx_Scope tr)\<rparr>))"

subsection \<open>The handlers\<close>

text \<open>An error answer is its HTTP status and the machine-readable code; a start answers the consent address.\<close>

definition oauthClientNotConfiguredCode :: string where
  "oauthClientNotConfiguredCode = ''oauth_client_not_configured''"

definition startSignIn ::
  "'k JWT \<Rightarrow> 'k UserAuth \<Rightarrow> ('w \<Rightarrow> int) \<Rightarrow> 'w GoogleClient \<Rightarrow> 'w Resolver \<Rightarrow> 'w OAuthClientStore \<Rightarrow> string \<Rightarrow> string
    \<Rightarrow> 'w \<Rightarrow> (nat \<times> string + string \<times> string \<times> Capability) \<times> 'w" where
  "startSignIn J auth clock client workspaces clients capabilityText header w =
     (case ParseCapability capabilityText of
        Inl e \<Rightarrow> (Inl (400, []), w)
      | Inr capability \<Rightarrow>
          (case UserIDFromBearer J auth (clock w) header of
             Inl e \<Rightarrow> (Inl (401, []), w)
           | Inr userID \<Rightarrow>
               (case GetWorkspaceByUser workspaces userID w of
                  (Inl e, w1) \<Rightarrow> (Inl (403, []), w1)
                | (Inr ws, w1) \<Rightarrow>
                    (case GetOAuthClient clients (ws_Slug ws) OAuthProviderGoogle w1 of
                       (Inl e, w2) \<Rightarrow>
                         (if errors_Is e ErrOAuthClientNotFound then (Inl (412, oauthClientNotConfiguredCode), w2) else (Inl (500, []), w2))
                     | (Inr cc, w2) \<Rightarrow>
                         (case SignState client clock userID (ws_Slug ws) w2 of
                            (Inl e, w3) \<Rightarrow> (Inl (500, []), w3)
                          | (Inr state, w3) \<Rightarrow> (Inr (state, oc_ClientID cc, capability), w3))))))"

definition GoogleOAuthStartHandler ::
  "'k JWT \<Rightarrow> 'k UserAuth \<Rightarrow> ('w \<Rightarrow> int) \<Rightarrow> 'w GoogleClient option \<Rightarrow> 'w Resolver \<Rightarrow> 'w OAuthClientStore option \<Rightarrow> string \<Rightarrow> string
    \<Rightarrow> 'w \<Rightarrow> (nat \<times> string + string) \<times> 'w" where
  "GoogleOAuthStartHandler J auth clock client workspaces clients capabilityText header w =
     (case (client, clients) of
        (Some c, Some cl) \<Rightarrow>
          (case startSignIn J auth clock c workspaces cl capabilityText header w of
             (r, w') \<Rightarrow> (map_sum id (\<lambda>(state, clientID, capability). AuthURL c state clientID capability) r, w'))
      | _ \<Rightarrow> (Inl (501, []), w))"

definition safeErrorCode :: "string \<Rightarrow> string" where
  "safeErrorCode code =
     (if length code = 0 \<or> length code > 40 then []
      else if list_ex (\<lambda>r. (r < CHR ''a'' \<or> r > CHR ''z'') \<and> r \<noteq> CHR ''_'') code then [] else code)"

definition googleConsentError :: "string \<Rightarrow> string" where
  "googleConsentError code =
     (if code = ''access_denied'' then ''access to your Google account was not granted''
      else if code = ''invalid_scope'' then
        ''your Google app does not allow one of the permissions this source needs. '' @
        ''Add the scopes listed under Integrations to that app's OAuth consent screen in '' @ ''Google Cloud, then sign in again''
      else if code = ''admin_policy_enforced'' then
        ''your Google Workspace administrator blocks this app from the access this '' @
        ''source needs. They have to allow it before the sign-in can complete''
      else if code = ''org_internal'' then
        ''this Google app is limited to its own organisation, and the account you '' @ ''signed in with is outside it''
      else if code \<in> {''disallowed_useragent'', ''invalid_request'', ''invalid_client'', ''unauthorized_client''} then
        ''Google refused the sign-in request ('' @ safeErrorCode code @ ''). '' @
        ''Check the client id, secret and redirect URI under Integrations''
      else if safeErrorCode code \<noteq> [] then ''Google refused the sign-in ('' @ safeErrorCode code @ '')''
      else ''Google refused the sign-in'')"

record oauthResult =
  ox_GrantID :: string
  ox_Email :: string
  ox_Error :: string

definition oauthFailure :: "string \<Rightarrow> oauthResult" where
  "oauthFailure msg = \<lparr>ox_GrantID = [], ox_Email = [], ox_Error = msg\<rparr>"

definition grantTTL :: int where "grantTTL = 15 * 60 * second"

text \<open>From a verified state to the stored grant. A failing \<^verbatim>\<open>uuid.NewString\<close> panics, which ends the request with nothing stored.\<close>

definition storeGrant ::
  "('w \<Rightarrow> int) \<Rightarrow> ('w, string) io \<Rightarrow> 'w GoogleOAuthGrantStore \<Rightarrow> string \<Rightarrow> string \<Rightarrow> string \<Rightarrow> TokenResult \<Rightarrow> 'w \<Rightarrow> oauthResult \<times> 'w" where
  "storeGrant clock newID grants userSub slug clientID tok w =
     (case newID w of
        (Inl e, w1) \<Rightarrow> (oauthFailure ''internal error'', w1)
      | (Inr i, w1) \<Rightarrow>
          (let grant = \<lparr>gr_GrantID = i, gr_CustomerSlug = slug, gr_UserSub = userSub, gr_RefreshToken = tk_RefreshToken tok,
                        gr_Email = tk_Email tok, gr_ClientID = clientID, gr_Scopes = tk_Scopes tok, gr_CreatedAt = clock w,
                        gr_ExpiresAt = clock w + grantTTL\<rparr> in
           case CreateGoogleOAuthGrant grants grant w1 of
             (Inl e, w2) \<Rightarrow> (oauthFailure ''could not save the Google connection'', w2)
           | (Inr _, w2) \<Rightarrow> (\<lparr>ox_GrantID = i, ox_Email = tk_Email tok, ox_Error = []\<rparr>, w2)))"

text \<open>The query parameters are \<open>err\<close>, \<open>state\<close> and \<open>code\<close>, empty when absent.\<close>

definition GoogleOAuthCallbackHandler ::
  "('w \<Rightarrow> int) \<Rightarrow> ('w, string) io \<Rightarrow> 'w GoogleClient option \<Rightarrow> 'w GoogleOAuthGrantStore \<Rightarrow> 'w OAuthClientStore option
    \<Rightarrow> string \<Rightarrow> string \<Rightarrow> string \<Rightarrow> 'w \<Rightarrow> oauthResult \<times> 'w" where
  "GoogleOAuthCallbackHandler clock newID client grants clients err state code w =
     (case (client, clients) of
        (Some c, Some cl) \<Rightarrow>
          (if err \<noteq> [] then (oauthFailure (googleConsentError err), w)
           else case VerifyState c (clock w) state of
             Inl e \<Rightarrow> (oauthFailure ''the sign-in link expired; please try again'', w)
           | Inr (userSub, slug) \<Rightarrow>
               (if code = [] then (oauthFailure ''missing authorization code'', w)
                else case GetOAuthClient cl slug OAuthProviderGoogle w of
                  (Inl e, w1) \<Rightarrow> (oauthFailure ''could not complete the Google sign-in'', w1)
                | (Inr cc, w1) \<Rightarrow>
                    (case Exchange c code (oc_ClientID cc) (oc_ClientSecret cc) w1 of
                       (Inl e, w2) \<Rightarrow> (oauthFailure ''could not complete the Google sign-in'', w2)
                     | (Inr tok, w2) \<Rightarrow> storeGrant clock newID grants userSub slug (oc_ClientID cc) tok w2)))
      | _ \<Rightarrow> (oauthFailure ''Sign in with Google is not configured'', w))"

end
