(* ===== verification/SideServers.thy ===== *)
theory SideServers
  imports TransformationServer BoxRepo Notifications OAuthFlow
begin

section \<open>The other handlers of the Console (\<^verbatim>\<open>server/\<close>)\<close>

text \<open>
  The RPCs in front of the repository editor, the notifications, the connections and the customer's OAuth application,
  the streamed upload of a file, which is plain HTTP, and the checks at registration that keep the two instances of a
  server on their own muxes.
\<close>

subsection \<open>Calls with an error mapping of their own\<close>

definition serveWith :: "(err \<Rightarrow> ConnectError) \<Rightarrow> ('w, 'a) io \<Rightarrow> ('a \<Rightarrow> ('w, 'b) rpc) \<Rightarrow> ('w, 'b) rpc" where
  "serveWith g m f w = (case m w of (Inl e, w') \<Rightarrow> (Inl (g e), w') | (Inr x, w') \<Rightarrow> f x w')"

definition andThen_rpc :: "('w, 'a) rpc \<Rightarrow> ('a \<Rightarrow> ('w, 'b) rpc) \<Rightarrow> ('w, 'b) rpc" where
  "andThen_rpc m f w = (case m w of (Inl e, w') \<Rightarrow> (Inl e, w') | (Inr x, w') \<Rightarrow> f x w')"

lemma serve_with: "serve = serveWith domainError"
  by (simp add: fun_eq_iff serve_def serveWith_def)

subsection \<open>The repository editor (\<^verbatim>\<open>server/boxrepo.go\<close>)\<close>

definition boxRepoError :: "err \<Rightarrow> ConnectError" where
  "boxRepoError e =
     (if errors_Is e ErrBoxRepoUnavailable \<or> errors_Is e ErrBoxCredentialNotFound then NewError CodeFailedPrecondition e
      else if errors_Is e ErrRepoFileChanged then NewError CodeAborted e
      else domainError e)"

definition ListFiles_repo_rpc :: "'w BoxRepoService \<Rightarrow> Context \<Rightarrow> string \<Rightarrow> ('w, RepoFileEntry list) rpc" where
  "ListFiles_repo_rpc s ctx repo =
     requireUser ctx (\<lambda>callerID. serveWith boxRepoError (ListFiles_repo s callerID repo) answer)"

definition GetFile_rpc :: "'w BoxRepoService \<Rightarrow> Context \<Rightarrow> string \<Rightarrow> string \<Rightarrow> ('w, string \<times> string) rpc" where
  "GetFile_rpc s ctx repo path =
     requireUser ctx (\<lambda>callerID. serveWith boxRepoError (GetFile_repo s callerID repo path) answer)"

definition PutFile_rpc ::
  "'w BoxRepoService \<Rightarrow> Context \<Rightarrow> string \<Rightarrow> string \<Rightarrow> string \<Rightarrow> string \<Rightarrow> string \<Rightarrow> ('w, string) rpc" where
  "PutFile_rpc s ctx repo path content sha message =
     requireUser ctx (\<lambda>callerID. serveWith boxRepoError (PutFile_repo s callerID repo path content sha message) answer)"

definition ListFileHistory_rpc :: "'w BoxRepoService \<Rightarrow> Context \<Rightarrow> string \<Rightarrow> string \<Rightarrow> ('w, PipelineVersion list) rpc" where
  "ListFileHistory_rpc s ctx repo path =
     requireUser ctx (\<lambda>callerID. serveWith boxRepoError (ListFileHistory s callerID repo path) answer)"

definition GetFileAtRef_rpc :: "'w BoxRepoService \<Rightarrow> Context \<Rightarrow> string \<Rightarrow> string \<Rightarrow> string \<Rightarrow> ('w, string) rpc" where
  "GetFileAtRef_rpc s ctx repo path ref =
     requireUser ctx (\<lambda>callerID. serveWith boxRepoError (GetFileAtRef s callerID repo path ref) answer)"

definition SetPushMirror_rpc :: "'w BoxRepoService \<Rightarrow> Context \<Rightarrow> string \<Rightarrow> string \<Rightarrow> string \<Rightarrow> string \<Rightarrow> ('w, unit) rpc" where
  "SetPushMirror_rpc s ctx repo url username password =
     requireUser ctx (\<lambda>callerID. serveWith boxRepoError (SetPushMirror s callerID repo url username password) answer)"

record GetPushMirrorResponse =
  gm_Configured :: bool
  gm_RemoteUrl :: string
  gm_LastUpdate :: string
  gm_LastError :: string

definition GetPushMirror_rpc :: "'w BoxRepoService \<Rightarrow> Context \<Rightarrow> string \<Rightarrow> ('w, GetPushMirrorResponse) rpc" where
  "GetPushMirror_rpc s ctx repo =
     requireUser ctx (\<lambda>callerID.
     serveWith boxRepoError (GetPushMirror s callerID repo) (\<lambda>r.
     case r of
       None \<Rightarrow> answer \<lparr>gm_Configured = False, gm_RemoteUrl = [], gm_LastUpdate = [], gm_LastError = []\<rparr>
     | Some mirror \<Rightarrow> answer \<lparr>gm_Configured = True, gm_RemoteUrl = pm_RemoteURL mirror, gm_LastUpdate = pm_LastUpdate mirror,
         gm_LastError = pm_LastError mirror\<rparr>))"

definition DeletePushMirror_rpc :: "'w BoxRepoService \<Rightarrow> Context \<Rightarrow> string \<Rightarrow> ('w, unit) rpc" where
  "DeletePushMirror_rpc s ctx repo =
     requireUser ctx (\<lambda>callerID. serveWith boxRepoError (DeletePushMirror s callerID repo) answer)"

definition SyncPushMirror_rpc :: "'w BoxRepoService \<Rightarrow> Context \<Rightarrow> string \<Rightarrow> ('w, unit) rpc" where
  "SyncPushMirror_rpc s ctx repo =
     requireUser ctx (\<lambda>callerID. serveWith boxRepoError (SyncPushMirror s callerID repo) answer)"

subsection \<open>Notifications (\<^verbatim>\<open>server/notification.go\<close>)\<close>

record NotificationPB =
  nb_Id :: string
  nb_Type :: string
  nb_Title :: string
  nb_Body :: string
  nb_Link :: string
  nb_Read :: bool
  nb_CreatedAt :: string
  nb_Heartbeat :: bool

definition notificationError :: "err \<Rightarrow> ConnectError" where
  "notificationError e = (if errors_Is e ErrNotificationNotFound then NewError CodeNotFound e else domainError e)"

definition notificationToPB :: "WireTime \<Rightarrow> Notification \<Rightarrow> NotificationPB" where
  "notificationToPB tt n =
     \<lparr>nb_Id = n_ID n, nb_Type = n_Type n, nb_Title = n_Title n, nb_Body = n_Body n, nb_Link = n_Link n, nb_Read = n_Read n,
      nb_CreatedAt = wt_Format tt (n_CreatedAt n), nb_Heartbeat = False\<rparr>"

definition heartbeat :: NotificationPB where
  "heartbeat = \<lparr>nb_Id = [], nb_Type = [], nb_Title = [], nb_Body = [], nb_Link = [], nb_Read = False, nb_CreatedAt = [], nb_Heartbeat = True\<rparr>"

text \<open>The count is converted to \<^verbatim>\<open>int32\<close>.\<close>

definition ListNotifications_rpc ::
  "WireTime \<Rightarrow> 'w NotificationService \<Rightarrow> Context \<Rightarrow> ('w, NotificationPB list \<times> 32 word) rpc" where
  "ListNotifications_rpc tt s ctx =
     requireUser ctx (\<lambda>callerID.
     serveWith notificationError (List_notifications s callerID) (\<lambda>list.
     serveWith notificationError (UnreadCount s callerID) (\<lambda>unread.
     answer (map (notificationToPB tt) list, word_of_nat unread))))"

definition GetUnreadCount_rpc :: "'w NotificationService \<Rightarrow> Context \<Rightarrow> ('w, 32 word) rpc" where
  "GetUnreadCount_rpc s ctx =
     requireUser ctx (\<lambda>callerID.
     serveWith notificationError (UnreadCount s callerID) (\<lambda>unread. answer (word_of_nat unread)))"

definition MarkRead_rpc :: "'w NotificationService \<Rightarrow> Context \<Rightarrow> string \<Rightarrow> ('w, unit) rpc" where
  "MarkRead_rpc s ctx i =
     requireUser ctx (\<lambda>callerID.
     require i ''id is required'' (serveWith notificationError (MarkRead s callerID i) answer))"

definition MarkAllRead_rpc :: "'w NotificationService \<Rightarrow> Context \<Rightarrow> ('w, unit) rpc" where
  "MarkAllRead_rpc s ctx =
     requireUser ctx (\<lambda>callerID. serveWith notificationError (MarkAllRead s callerID) answer)"

text \<open>
  The send loop of a stream, over what its \<^verbatim>\<open>select\<close> picks in turn: the end of the request, a tick, a frame off the
  channel or the channel's close. \<^const>\<open>None\<close> is a loop still waiting when the events run out.
\<close>

datatype pump_event = Done | Tick | Frame Notification | Closed

fun pumpLoop :: "WireTime \<Rightarrow> (NotificationPB \<Rightarrow> ('w, unit) io) \<Rightarrow> pump_event list \<Rightarrow> ('w, unit option) io" where
  "pumpLoop tt send [] = ret None"
| "pumpLoop tt send (Done # _) = ret (Some ())"
| "pumpLoop tt send (Tick # es) = andThen (send heartbeat) (\<lambda>_. pumpLoop tt send es)"
| "pumpLoop tt send (Closed # _) = ret (Some ())"
| "pumpLoop tt send (Frame n # es) = andThen (send (notificationToPB tt n)) (\<lambda>_. pumpLoop tt send es)"

definition pumpNotifications :: "WireTime \<Rightarrow> (NotificationPB \<Rightarrow> ('w, unit) io) \<Rightarrow> pump_event list \<Rightarrow> ('w, unit option) io" where
  "pumpNotifications tt send events = andThen (send heartbeat) (\<lambda>_. pumpLoop tt send events)"

text \<open>The events that end the loop, the frame an event puts on the wire, and sending frames until one fails.\<close>

definition ends :: "pump_event \<Rightarrow> bool" where
  "ends e \<longleftrightarrow> e = Done \<or> e = Closed"

fun frameOf :: "WireTime \<Rightarrow> pump_event \<Rightarrow> NotificationPB" where
  "frameOf tt (Frame n) = notificationToPB tt n"
| "frameOf tt _ = heartbeat"

fun sendAll :: "(NotificationPB \<Rightarrow> ('w, unit) io) \<Rightarrow> NotificationPB list \<Rightarrow> ('w, unit) io" where
  "sendAll send [] = ret ()"
| "sendAll send (f # fs) = andThen (send f) (\<lambda>_. sendAll send fs)"

lemma pumpLoop_ends:
  "pumpLoop tt send events =
     andThen (sendAll send (map (frameOf tt) (takeWhile (\<lambda>e. \<not> ends e) events))) (\<lambda>_. ret (if list_ex ends events then Some () else None))"
  by (induction tt send events rule: pumpLoop.induct) (simp_all add: ends_def andThen_assoc)

text \<open>
  C17. A stream of notifications opens with a heartbeat and then puts one frame on the wire for each tick and each notification, in
  order and none twice, and it returns: with the first error of a send, or without one as soon as the request ends or its
  channel is closed. Only when neither has happened and every send succeeded does it still wait.
\<close>

theorem stream_pump_returns:
  "pumpNotifications tt send events =
     andThen (sendAll send (heartbeat # map (frameOf tt) (takeWhile (\<lambda>e. \<not> ends e) events)))
       (\<lambda>_. ret (if list_ex ends events then Some () else None))"
  by (simp add: pumpNotifications_def pumpLoop_ends andThen_assoc)

subsection \<open>Connections (\<^verbatim>\<open>server/connection.go\<close>)\<close>

record 'w ConnectionServer =
  cv_Workspaces :: "'w Resolver"
  cv_Service :: "'w ConnectionService"
  cv_Mirror :: "'w PipelineMirrorer option"
  cv_Time :: WireTime

record ConnectionPB =
  kb_Id :: string
  kb_Type :: string
  kb_Name :: string
  kb_Status :: string
  kb_Email :: string
  kb_Scopes :: "string list"
  kb_CreatedAt :: string

definition connectionErr :: "err \<Rightarrow> ConnectError" where
  "connectionErr e =
     (if errors_Is e ErrConnectionNotFound then NewError CodeNotFound e
      else if errors_Is e ErrConnectionAlreadyExists then NewError CodeAlreadyExists e
      else if errors_Is e ErrConnectionInUse then NewError CodeFailedPrecondition e
      else if errors_Is e ErrOAuthGrantNotFound then
        NewError CodeInvalidArgument (ErrNew ''the Google sign-in expired or was already used; please reconnect'')
      else if errors_Is e ErrConnectionsNotConfigured then NewError CodeUnimplemented e
      else NewError CodeInternal e)"

definition connectionProto :: "WireTime \<Rightarrow> Connection \<Rightarrow> ConnectionPB" where
  "connectionProto tt c =
     \<lparr>kb_Id = c_ID c, kb_Type = c_Type c, kb_Name = c_Name c, kb_Status = c_Status c, kb_Email = GoogleEmail c,
      kb_Scopes = GoogleScopes c, kb_CreatedAt = (if c_CreatedAt c = 0 then [] else wt_Format tt (c_CreatedAt c))\<rparr>"

definition resolve_connection :: "'w Resolver \<Rightarrow> Context \<Rightarrow> (string \<Rightarrow> ('w, 'a) rpc) \<Rightarrow> ('w, 'a) rpc" where
  "resolve_connection workspaces ctx k =
     requireUser ctx (\<lambda>callerID.
     serveWith (\<lambda>_. NewError CodePermissionDenied (ErrNew ''no workspace for this user'')) (GetWorkspaceByUser workspaces callerID) (\<lambda>ws.
     k (ws_Slug ws)))"

definition ListConnections_rpc :: "'w ConnectionServer \<Rightarrow> Context \<Rightarrow> ('w, ConnectionPB list) rpc" where
  "ListConnections_rpc s ctx =
     resolve_connection (cv_Workspaces s) ctx (\<lambda>slug.
     serveWith connectionErr (ListConnections_svc (cv_Service s) slug) (\<lambda>conns.
     answer (map (connectionProto (cv_Time s)) conns)))"

definition CreateConnection_rpc :: "'w ConnectionServer \<Rightarrow> Context \<Rightarrow> string \<Rightarrow> string \<Rightarrow> ('w, ConnectionPB) rpc" where
  "CreateConnection_rpc s ctx grantID name =
     resolve_connection (cv_Workspaces s) ctx (\<lambda>slug.
     require grantID ''a connection source is required (google_grant_id)'' (
     serveWith connectionErr (CreateGoogleConnection (cv_Service s) slug grantID name) (\<lambda>c.
     answer (connectionProto (cv_Time s) c))))"

text \<open>The render after the change is best-effort: its error is only logged.\<close>

definition converge :: "'w PipelineMirrorer option \<Rightarrow> string \<Rightarrow> ('w, unit) rpc" where
  "converge mirror slug w =
     (case mirror of None \<Rightarrow> answer () w | Some m \<Rightarrow> (case SyncCustomer_port m slug None w of (_, w') \<Rightarrow> answer () w'))"

definition DeleteConnection_rpc :: "'w ConnectionServer \<Rightarrow> Context \<Rightarrow> string \<Rightarrow> ('w, unit) rpc" where
  "DeleteConnection_rpc s ctx i =
     resolve_connection (cv_Workspaces s) ctx (\<lambda>slug.
     require i ''id is required'' (
     serveWith connectionErr (DeleteConnection_svc (cv_Service s) slug i) (\<lambda>_. converge (cv_Mirror s) slug)))"

subsection \<open>The customer's OAuth application (\<^verbatim>\<open>server/oauthclient.go\<close>)\<close>

text \<open>\<open>ov_OAuth\<close> is the redirect address of the deployment's OAuth flow, when it has one.\<close>

record 'w OAuthClientServer =
  ov_Workspaces :: "'w Resolver"
  ov_Clients :: "'w OAuthClientStore"
  ov_OAuth :: "string option"
  ov_Mirror :: "'w PipelineMirrorer option"
  ov_Time :: WireTime

record GetOAuthClientResponse =
  go_RequiredScopes :: "string list"
  go_FlowAvailable :: bool
  go_RedirectUri :: string
  go_Configured :: bool
  go_ClientId :: string
  go_UpdatedBy :: string
  go_UpdatedAt :: string

definition resolve_oauth :: "'w OAuthClientServer \<Rightarrow> Context \<Rightarrow> string \<Rightarrow> (string \<Rightarrow> string \<Rightarrow> ('w, 'a) rpc) \<Rightarrow> ('w, 'a) rpc" where
  "resolve_oauth s ctx provider k =
     resolve_connection (ov_Workspaces s) ctx (\<lambda>slug.
     guarded (map_sum (NewError CodeInvalidArgument) id (ValidateOAuthClient
       \<lparr>oc_CustomerSlug = [], oc_Provider = provider, oc_ClientID = ''x'', oc_ClientSecret = ''x'', oc_UpdatedAt = 0, oc_UpdatedBy = []\<rparr>)) (\<lambda>probe.
     k slug (oc_Provider probe)))"

definition state_oauth :: "'w OAuthClientServer \<Rightarrow> string \<Rightarrow> string \<Rightarrow> ('w, GetOAuthClientResponse) rpc" where
  "state_oauth s slug provider w =
     (let out = \<lparr>go_RequiredScopes = AllScopes, go_FlowAvailable = (ov_OAuth s \<noteq> None),
                 go_RedirectUri = (case ov_OAuth s of Some u \<Rightarrow> u | None \<Rightarrow> []), go_Configured = False, go_ClientId = [],
                 go_UpdatedBy = [], go_UpdatedAt = []\<rparr> in
      case GetOAuthClient (ov_Clients s) slug provider w of
        (Inl e, w') \<Rightarrow> (if errors_Is e ErrOAuthClientNotFound then answer out w' else deny CodeInternal e w')
      | (Inr cc, w') \<Rightarrow> answer (out\<lparr>go_Configured := True, go_ClientId := oc_ClientID cc, go_UpdatedBy := oc_UpdatedBy cc,
          go_UpdatedAt := (if oc_UpdatedAt cc = 0 then [] else wt_Format (ov_Time s) (oc_UpdatedAt cc))\<rparr>) w')"

definition GetOAuthClient_rpc :: "'w OAuthClientServer \<Rightarrow> Context \<Rightarrow> string \<Rightarrow> ('w, GetOAuthClientResponse) rpc" where
  "GetOAuthClient_rpc s ctx provider = resolve_oauth s ctx provider (state_oauth s)"

definition SetOAuthClient_rpc ::
  "'w OAuthClientServer \<Rightarrow> Context \<Rightarrow> string \<Rightarrow> string \<Rightarrow> string \<Rightarrow> ('w, GetOAuthClientResponse) rpc" where
  "SetOAuthClient_rpc s ctx provider clientId clientSecret =
     resolve_oauth s ctx provider (\<lambda>slug p.
     guarded (map_sum (NewError CodeInvalidArgument) id (ValidateOAuthClient
       \<lparr>oc_CustomerSlug = slug, oc_Provider = p, oc_ClientID = clientId, oc_ClientSecret = clientSecret, oc_UpdatedAt = 0,
        oc_UpdatedBy = UserIDFromContext ctx\<rparr>)) (\<lambda>cc.
     serveWith (NewError CodeInternal) (UpsertOAuthClient (ov_Clients s) cc) (\<lambda>_.
     andThen_rpc (converge (ov_Mirror s) slug) (\<lambda>_.
     state_oauth s slug p))))"

definition DeleteOAuthClient_rpc :: "'w OAuthClientServer \<Rightarrow> Context \<Rightarrow> string \<Rightarrow> ('w, unit) rpc" where
  "DeleteOAuthClient_rpc s ctx provider =
     resolve_oauth s ctx provider (\<lambda>slug p.
     serveWith (NewError CodeInternal) (DeleteOAuthClient (ov_Clients s) slug p) (\<lambda>_. converge (ov_Mirror s) slug))"

subsection \<open>Uploads (\<^verbatim>\<open>server/filedrop.go\<close>)\<close>

text \<open>The answer is a status with the recorded file, or with the error its message is taken from; \<^const>\<open>None\<close> is a fixed text.\<close>

definition fileDropStatus :: "err \<Rightarrow> nat \<times> err option" where
  "fileDropStatus e =
     (let cerr = domainError e in
      case ce_Code cerr of
        CodeInvalidArgument \<Rightarrow> (400, Some (ce_Err cerr))
      | CodeNotFound \<Rightarrow> (404, Some (ce_Err cerr))
      | CodeFailedPrecondition \<Rightarrow> (409, Some (ce_Err cerr))
      | _ \<Rightarrow> (500, None))"

definition FileDropUploadHandler ::
  "'k JWT \<Rightarrow> 'k UserAuth \<Rightarrow> ('w \<Rightarrow> int) \<Rightarrow> 'w FileDropService \<Rightarrow> string \<Rightarrow> string \<Rightarrow> string \<Rightarrow> int \<Rightarrow> string
    \<Rightarrow> 'w \<Rightarrow> (nat \<times> (err option + UploadedFile)) \<times> 'w" where
  "FileDropUploadHandler J auth clock svc header pipelineID filename contentLength body w =
     (case UserIDFromBearer J auth (clock w) header of
        Inl e \<Rightarrow> ((401, Inl None), w)
      | Inr userID \<Rightarrow>
          (if pipelineID = [] \<or> filename = [] then ((400, Inl None), w)
           else if contentLength \<le> 0 then ((411, Inl None), w)
           else case Upload svc userID pipelineID filename contentLength body w of
             (Inl e, w') \<Rightarrow> ((case fileDropStatus e of (status, msg) \<Rightarrow> (status, Inl msg)), w')
           | (Inr file, w') \<Rightarrow> ((201, Inr file), w')))"

subsection \<open>Registration (\<^verbatim>\<open>server/register_workspace.go\<close>)\<close>

text \<open>What makes the process panic at startup; \<^const>\<open>None\<close> registers the handlers.\<close>

definition RegisterWorkspacePlane :: "'w PipelineServer option \<Rightarrow> 'w TransformationServer option \<Rightarrow> bool \<Rightarrow> string option" where
  "RegisterWorkspacePlane pipelines transformations health =
     (if (case pipelines of None \<Rightarrow> True | Some s \<Rightarrow> wa_internal (sv_worker s))
      then Some ''RegisterWorkspacePlane: Pipelines must be a public-mux PipelineServer''
      else if (case transformations of None \<Rightarrow> True | Some s \<Rightarrow> wa_internal (tv_worker s))
      then Some ''RegisterWorkspacePlane: Transformations must be a public-mux TransformationServer''
      else if \<not> health then Some ''RegisterWorkspacePlane: Health must be set'' else None)"

definition RegisterWorkspaceInternal :: "'w PipelineServer option \<Rightarrow> 'w TransformationServer option \<Rightarrow> string option" where
  "RegisterWorkspaceInternal pipelines transformations =
     (if (case pipelines of None \<Rightarrow> True | Some s \<Rightarrow> \<not> wa_internal (sv_worker s))
      then Some ''RegisterWorkspaceInternal: Pipelines must come from NewInternalPipelineServer''
      else if (case transformations of None \<Rightarrow> True | Some s \<Rightarrow> \<not> wa_internal (tv_worker s))
      then Some ''RegisterWorkspaceInternal: Transformations must come from NewInternalTransformationServer''
      else None)"

end
