(* ===== verification/Lakekeeper.thy ===== *)
theory Lakekeeper
  imports SideServers
begin

section \<open>The catalog's client and Casdoor's applications (\<^verbatim>\<open>lakekeeper/client.go\<close>, \<^verbatim>\<open>casdoor/\<close>)\<close>

text \<open>
  Lakekeeper, the Iceberg catalog of a box, keeps warehouses, users and grants of relations on warehouses; Casdoor keeps an
  application per service account. This theory has their types and ports (\<^verbatim>\<open>core/lakekeeper.go\<close>, \<^verbatim>\<open>workspace/ports.go\<close>) and
  the two clients behind the ports. The go-lakekeeper and Casdoor SDKs are the parameters \<open>LakekeeperSDK\<close> and \<open>CasdoorSDK\<close>.
  A failed SDK call has the status of the HTTP answer, when there was one. The calls of the client that only the
  provisioning of a box makes (bootstrap, storage migration, server roles) are left out.
\<close>

subsection \<open>Types and ports\<close>

record Warehouse =
  wh_ID :: string
  wh_Name :: string

record WarehouseAssignment =
  wg_UserID :: string
  wg_Relation :: string

record CasdoorApp =
  ap_Name :: string
  ap_ClientID :: string
  ap_ClientSecret :: string

record 'w LakekeeperClient =
  lk_CreateWarehouse :: "string \<Rightarrow> string \<Rightarrow> string \<Rightarrow> S3Config \<Rightarrow> ('w, string) io"
  lk_ListWarehouses :: "string \<Rightarrow> string \<Rightarrow> ('w, Warehouse list) io"
  lk_GetWarehouseID :: "string \<Rightarrow> string \<Rightarrow> string \<Rightarrow> ('w, string) io"
  lk_CreateUser :: "string \<Rightarrow> string \<Rightarrow> string \<Rightarrow> string \<Rightarrow> ('w, unit) io"
  lk_DeleteUser :: "string \<Rightarrow> string \<Rightarrow> string \<Rightarrow> ('w, unit) io"
  lk_AssignWarehouseRole :: "string \<Rightarrow> string \<Rightarrow> string \<Rightarrow> string \<Rightarrow> string \<Rightarrow> ('w, unit) io"
  lk_RemoveWarehouseRole :: "string \<Rightarrow> string \<Rightarrow> string \<Rightarrow> string \<Rightarrow> ('w, unit) io"
  lk_GetWarehouseAssignments :: "string \<Rightarrow> string \<Rightarrow> string \<Rightarrow> ('w, WarehouseAssignment list) io"

record 'w TokenProvider =
  GetClientToken :: "string \<Rightarrow> string \<Rightarrow> string \<Rightarrow> ('w, string) io"

record 'w CasdoorAppManager =
  AddApp :: "string \<Rightarrow> string \<Rightarrow> ('w, CasdoorApp) io"
  DeleteApp :: "string \<Rightarrow> string \<Rightarrow> ('w, unit) io"
  ListApps :: "string \<Rightarrow> ('w, CasdoorApp list) io"

record 'w AudienceUpdater =
  UpdateAudiences :: "string \<Rightarrow> string list \<Rightarrow> ('w, unit) io"

subsection \<open>The SDK\<close>

type_synonym ('w, 'a) sdk = "'w \<Rightarrow> (nat option \<times> err + 'a) \<times> 'w"

datatype S3Option =
    WithS3Flavor string
  | WithS3Endpoint string
  | WithS3KeyPrefix string
  | WithS3PathStyleAccess
  | WithS3STSEnabled
  | WithS3AssumeRoleARN string
  | WithS3RemoteSigningEnabled bool

record S3Profile =
  sp_Bucket :: string
  sp_Region :: string
  sp_Options :: "S3Option list"

datatype StorageCredential =
    NewS3CloudflareR2 string string string string
  | NewS3AccessKey string string

record AssignmentRow =
  row_PrincipalType :: string
  row_PrincipalID :: string
  row_Relation :: string

record ('g, 'w) LakekeeperSDK =
  sdk_New :: "string \<Rightarrow> string \<Rightarrow> ('w, unit) io"
  sdk_CreateWarehouse :: "string \<Rightarrow> string \<Rightarrow> string \<Rightarrow> string \<Rightarrow> S3Profile \<Rightarrow> StorageCredential \<Rightarrow> ('w, unit) io"
  sdk_ListWarehouses :: "string \<Rightarrow> string \<Rightarrow> string \<Rightarrow> ('w, Warehouse list) io"
  sdk_CreateUser :: "string \<Rightarrow> string \<Rightarrow> string \<Rightarrow> string \<Rightarrow> ('w, unit) sdk"
  sdk_DeleteUser :: "string \<Rightarrow> string \<Rightarrow> string \<Rightarrow> ('w, unit) sdk"
  sdk_GetAssignments :: "string \<Rightarrow> string \<Rightarrow> string \<Rightarrow> ('w, 'g list) io"
  sdk_UpdateAssignments :: "string \<Rightarrow> string \<Rightarrow> string \<Rightarrow> 'g list \<Rightarrow> 'g list \<Rightarrow> ('w, unit) sdk"
  BuildAssignment :: "string \<Rightarrow> string \<Rightarrow> err + 'g"
  DescribeAssignment :: "'g \<Rightarrow> AssignmentRow option"

text \<open>The error of a call, wrapped; and a call for which one status counts as success.\<close>

definition sdkErr :: "string \<Rightarrow> ('w, 'a) sdk \<Rightarrow> ('w, 'a) io" where
  "sdkErr msg m w = (case m w of (Inl (status, e), w') \<Rightarrow> (Inl (Errorf msg e), w') | (Inr x, w') \<Rightarrow> (Inr x, w'))"

definition sdkUnless :: "nat \<Rightarrow> string \<Rightarrow> ('w, unit) sdk \<Rightarrow> ('w, unit) io" where
  "sdkUnless code msg m w =
     (case m w of
        (Inl (status, e), w') \<Rightarrow> (if status = Some code then (Inr (), w') else (Inl (Errorf msg e), w'))
      | (Inr x, w') \<Rightarrow> (Inr (), w'))"

subsection \<open>Storage of a warehouse\<close>

definition defaultProjectID :: string where
  "defaultProjectID = ''00000000-0000-0000-0000-000000000000''"

definition derefBool :: "bool option \<Rightarrow> bool \<Rightarrow> bool" where
  "derefBool p d = (case p of Some b \<Rightarrow> b | None \<Rightarrow> d)"

definition resolveDelegationFlags :: "S3Config \<Rightarrow> bool \<times> bool" where
  "resolveDelegationFlags s3 =
     (let mode = s3_CredentialDelegationMode s3 in
      if mode = ''vended'' then (True, False)
      else if mode = ''remote-signing'' then (False, True)
      else if mode = ''none'' then (False, False)
      else (derefBool (s3_STSEnabled s3) False, derefBool (s3_RemoteSigningEnabled s3) True))"

definition s3ProfileOptions :: "S3Config \<Rightarrow> bool \<Rightarrow> bool \<Rightarrow> S3Option list" where
  "s3ProfileOptions s3 stsEnabled remoteSigningEnabled =
     (if s3_StorageProvider s3 = ''aws'' then [WithS3Flavor ''aws''] else [WithS3Flavor ''s3-compat'']) @
     (if s3_Endpoint s3 \<noteq> [] then [WithS3Endpoint (s3_Endpoint s3)] else []) @
     (if s3_KeyPrefix s3 \<noteq> [] then [WithS3KeyPrefix (s3_KeyPrefix s3)] else []) @
     (if derefBool (s3_PathStyleAccess s3) False then [WithS3PathStyleAccess] else []) @
     (if stsEnabled then [WithS3STSEnabled] else []) @
     (if s3_AssumeRoleARN s3 \<noteq> [] then [WithS3AssumeRoleARN (s3_AssumeRoleARN s3)] else []) @
     [WithS3RemoteSigningEnabled remoteSigningEnabled]"

definition buildStorageConfig :: "S3Config \<Rightarrow> S3Profile \<times> StorageCredential" where
  "buildStorageConfig s3 =
     (let (stsEnabled, remoteSigningEnabled) = resolveDelegationFlags s3;
          profile = \<lparr>sp_Bucket = s3_Bucket s3, sp_Region = s3_Region s3, sp_Options = s3ProfileOptions s3 stsEnabled remoteSigningEnabled\<rparr>;
          isR2 = (s3_CloudflareAPIToken s3 \<noteq> [] \<and> s3_CloudflareAccountID s3 \<noteq> []) in
      if isR2 \<and> s3_CredentialDelegationMode s3 = ''vended'' then
        (profile, NewS3CloudflareR2 (s3_AccessKeyID s3) (s3_SecretAccessKey s3) (s3_CloudflareAccountID s3) (s3_CloudflareAPIToken s3))
      else (profile, NewS3AccessKey (s3_AccessKeyID s3) (s3_SecretAccessKey s3)))"

definition CreateWarehouse_lk :: "('g, 'w) LakekeeperSDK \<Rightarrow> string \<Rightarrow> string \<Rightarrow> string \<Rightarrow> S3Config \<Rightarrow> ('w, string) io" where
  "CreateWarehouse_lk k url token name s3 =
     andThen (wrapErr ''create warehouse: create SDK client'' (sdk_New k url token)) (\<lambda>_.
     let (profile, cred) = buildStorageConfig s3 in
     andThen (wrapErr ''create warehouse'' (sdk_CreateWarehouse k url token defaultProjectID name profile cred)) (\<lambda>_. ret name))"

definition ListWarehouses_lk :: "('g, 'w) LakekeeperSDK \<Rightarrow> string \<Rightarrow> string \<Rightarrow> ('w, Warehouse list) io" where
  "ListWarehouses_lk k url token =
     andThen (wrapErr ''list warehouses: create SDK client'' (sdk_New k url token)) (\<lambda>_.
     wrapErr ''list warehouses'' (sdk_ListWarehouses k url token defaultProjectID))"

definition GetWarehouseID_lk :: "('g, 'w) LakekeeperSDK \<Rightarrow> string \<Rightarrow> string \<Rightarrow> string \<Rightarrow> ('w, string) io" where
  "GetWarehouseID_lk k url token warehouseName =
     andThen (ListWarehouses_lk k url token) (\<lambda>ws.
     case List.find (\<lambda>x. wh_Name x = warehouseName) ws of
       Some x \<Rightarrow> ret (wh_ID x)
     | None \<Rightarrow> fail (ErrNew ''warehouse not found''))"

subsection \<open>Users\<close>

definition CreateUser_lk :: "('g, 'w) LakekeeperSDK \<Rightarrow> string \<Rightarrow> string \<Rightarrow> string \<Rightarrow> string \<Rightarrow> ('w, unit) io" where
  "CreateUser_lk k url token userID name =
     andThen (wrapErr ''create user: create SDK client'' (sdk_New k url token)) (\<lambda>_.
     sdkUnless 409 ''create user'' (sdk_CreateUser k url token userID name))"

definition DeleteUser_lk :: "('g, 'w) LakekeeperSDK \<Rightarrow> string \<Rightarrow> string \<Rightarrow> string \<Rightarrow> ('w, unit) io" where
  "DeleteUser_lk k url token userID =
     andThen (wrapErr ''delete user: create SDK client'' (sdk_New k url token)) (\<lambda>_.
     sdkUnless 404 ''delete user'' (sdk_DeleteUser k url token userID))"

subsection \<open>Roles\<close>

definition warehouseRelations :: "string \<Rightarrow> err + string list" where
  "warehouseRelations role =
     (if role = ''reader'' then Inr [''describe'', ''select'']
      else if role = ''writer'' then Inr [''describe'', ''select'', ''create'', ''modify'']
      else if role = ''admin'' then Inr [''ownership'']
      else Inl (ErrNew ''unknown role''))"

definition roleManagedRelations :: "string list" where
  "roleManagedRelations = [''describe'', ''select'', ''create'', ''modify'', ''ownership'']"

text \<open>A Go map used as a set is the list of its keys, in any order, without repetition.\<close>

definition userRelation :: "('g, 'w) LakekeeperSDK \<Rightarrow> string \<Rightarrow> 'g \<Rightarrow> string option" where
  "userRelation k userID a =
     (case DescribeAssignment k a of
        None \<Rightarrow> None
      | Some row \<Rightarrow> if row_PrincipalType row \<noteq> ''user'' \<or> row_PrincipalID row \<noteq> userID then None else Some (row_Relation row))"

definition currentUserRelations :: "('g, 'w) LakekeeperSDK \<Rightarrow> 'g list \<Rightarrow> string \<Rightarrow> string list" where
  "currentUserRelations k assignments userID = remdups (List.map_filter (userRelation k userID) assignments)"

fun warehouseAssignmentDiff ::
  "('g, 'w) LakekeeperSDK \<Rightarrow> string list \<Rightarrow> string list \<Rightarrow> string \<Rightarrow> string list option \<Rightarrow> err + 'g list" where
  "warehouseAssignmentDiff k [] want userID managed = Inr []"
| "warehouseAssignmentDiff k (rel # have) want userID managed =
     (if (case managed of Some m \<Rightarrow> rel \<notin> set m | None \<Rightarrow> False) \<or> rel \<in> set want
      then warehouseAssignmentDiff k have want userID managed
      else
        case BuildAssignment k rel userID of
          Inl e \<Rightarrow> Inl (Errorf ''assign warehouse role'' e)
        | Inr a \<Rightarrow> map_sum id (Cons a) (warehouseAssignmentDiff k have want userID managed))"

definition AssignWarehouseRole_lk ::
  "('g, 'w) LakekeeperSDK \<Rightarrow> string \<Rightarrow> string \<Rightarrow> string \<Rightarrow> string \<Rightarrow> string \<Rightarrow> ('w, unit) io" where
  "AssignWarehouseRole_lk k url token warehouseID userID role =
     andThen (lift (warehouseRelations role)) (\<lambda>desired.
     andThen (wrapErr ''assign warehouse role: create SDK client'' (sdk_New k url token)) (\<lambda>_.
     andThen (wrapErr ''assign warehouse role: get current assignments'' (sdk_GetAssignments k url token warehouseID)) (\<lambda>assignments.
     let current = currentUserRelations k assignments userID in
     andThen (lift (warehouseAssignmentDiff k desired current userID None)) (\<lambda>writes.
     andThen (lift (warehouseAssignmentDiff k current desired userID (Some roleManagedRelations))) (\<lambda>deletes.
     if writes = [] \<and> deletes = [] then ret ()
     else sdkErr ''assign warehouse role'' (sdk_UpdateAssignments k url token warehouseID writes deletes))))))"

fun buildRelations :: "('g, 'w) LakekeeperSDK \<Rightarrow> string list \<Rightarrow> string \<Rightarrow> err + 'g list" where
  "buildRelations k [] userID = Inr []"
| "buildRelations k (rel # rels) userID =
     (case BuildAssignment k rel userID of
        Inl e \<Rightarrow> Inl (Errorf ''remove warehouse role'' e)
      | Inr a \<Rightarrow> map_sum id (Cons a) (buildRelations k rels userID))"

definition RemoveWarehouseRole_lk :: "('g, 'w) LakekeeperSDK \<Rightarrow> string \<Rightarrow> string \<Rightarrow> string \<Rightarrow> string \<Rightarrow> ('w, unit) io" where
  "RemoveWarehouseRole_lk k url token warehouseID userID =
     andThen (wrapErr ''remove warehouse role: create SDK client'' (sdk_New k url token)) (\<lambda>_.
     andThen (lift (buildRelations k
       [''ownership'', ''pass_grants'', ''manage_grants'', ''describe'', ''select'', ''create'', ''modify''] userID)) (\<lambda>deletes.
     sdkUnless 404 ''remove warehouse role'' (sdk_UpdateAssignments k url token warehouseID [] deletes)))"

definition userAssignment :: "('g, 'w) LakekeeperSDK \<Rightarrow> 'g \<Rightarrow> WarehouseAssignment option" where
  "userAssignment k a =
     (case DescribeAssignment k a of
        None \<Rightarrow> None
      | Some row \<Rightarrow> if row_PrincipalType row \<noteq> ''user'' then None else Some \<lparr>wg_UserID = row_PrincipalID row, wg_Relation = row_Relation row\<rparr>)"

definition GetWarehouseAssignments_lk :: "('g, 'w) LakekeeperSDK \<Rightarrow> string \<Rightarrow> string \<Rightarrow> string \<Rightarrow> ('w, WarehouseAssignment list) io" where
  "GetWarehouseAssignments_lk k url token warehouseID =
     andThen (wrapErr ''get warehouse assignments: create SDK client'' (sdk_New k url token)) (\<lambda>_.
     andThen (wrapErr ''get warehouse assignments'' (sdk_GetAssignments k url token warehouseID)) (\<lambda>assignments.
     ret (List.map_filter (userAssignment k) assignments)))"

definition lakekeeperClient :: "('g, 'w) LakekeeperSDK \<Rightarrow> 'w LakekeeperClient" where
  "lakekeeperClient k =
     \<lparr>lk_CreateWarehouse = CreateWarehouse_lk k, lk_ListWarehouses = ListWarehouses_lk k, lk_GetWarehouseID = GetWarehouseID_lk k,
      lk_CreateUser = CreateUser_lk k, lk_DeleteUser = DeleteUser_lk k, lk_AssignWarehouseRole = AssignWarehouseRole_lk k,
      lk_RemoveWarehouseRole = RemoveWarehouseRole_lk k, lk_GetWarehouseAssignments = GetWarehouseAssignments_lk k\<rparr>"

subsection \<open>Casdoor's applications (\<^verbatim>\<open>casdoor/apps.go\<close>)\<close>

record Application =
  ca_Owner :: string
  ca_AppName :: string
  ca_Organization :: string
  ca_AppDisplayName :: string
  ca_Tags :: "string list"
  ca_GrantTypes :: "string list"
  ca_TokenFormat :: string
  ca_ExpireInHours :: int
  ca_RefreshExpireInHours :: int
  ca_ClientId :: string
  ca_ClientSecret :: string

record 'w CasdoorSDK =
  AddApplication :: "Application \<Rightarrow> ('w, bool) io"
  GetApplication :: "string \<Rightarrow> ('w, Application option) io"
  DeleteApplication :: "Application \<Rightarrow> ('w, bool) io"
  GetOrganizationApplications :: "('w, Application list) io"

record 'w AppManager =
  am_Client :: "string \<Rightarrow> 'w CasdoorSDK"

definition zeroApplication :: Application where
  "zeroApplication = \<lparr>ca_Owner = [], ca_AppName = [], ca_Organization = [], ca_AppDisplayName = [], ca_Tags = [], ca_GrantTypes = [],
     ca_TokenFormat = [], ca_ExpireInHours = 0, ca_RefreshExpireInHours = 0, ca_ClientId = [], ca_ClientSecret = []\<rparr>"

definition newApplication :: "string \<Rightarrow> string \<Rightarrow> Application" where
  "newApplication org name = zeroApplication\<lparr>ca_Owner := ''admin'', ca_AppName := name, ca_Organization := org, ca_AppDisplayName := name,
     ca_Tags := [''dcr''], ca_GrantTypes := [''client_credentials''], ca_TokenFormat := ''JWT'', ca_ExpireInHours := 168,
     ca_RefreshExpireInHours := 336\<rparr>"

definition AddApp_casdoor :: "'w AppManager \<Rightarrow> string \<Rightarrow> string \<Rightarrow> ('w, CasdoorApp) io" where
  "AddApp_casdoor m org name =
     andThen (wrapErr ''casdoor add application'' (AddApplication (am_Client m org) (newApplication org name))) (\<lambda>ok.
     if \<not> ok then fail ErrUserAlreadyExists
     else
       andThen (wrapErr ''casdoor get application after creation'' (GetApplication (am_Client m org) name)) (\<lambda>created.
       case created of
         None \<Rightarrow> fail (ErrNew ''casdoor application not found after creation'')
       | Some a \<Rightarrow> ret \<lparr>ap_Name = ca_AppName a, ap_ClientID = ca_ClientId a, ap_ClientSecret = ca_ClientSecret a\<rparr>))"

definition DeleteApp_casdoor :: "'w AppManager \<Rightarrow> string \<Rightarrow> string \<Rightarrow> ('w, unit) io" where
  "DeleteApp_casdoor m org name =
     andThen (wrapErr ''casdoor delete application''
       (DeleteApplication (am_Client m org) (zeroApplication\<lparr>ca_Owner := ''admin'', ca_AppName := name, ca_Organization := org\<rparr>))) (\<lambda>ok.
     if \<not> ok then fail ErrUserNotFound else ret ())"

definition serviceApp :: "Application \<Rightarrow> CasdoorApp option" where
  "serviceApp a =
     (if ca_GrantTypes a \<noteq> [''client_credentials''] then None
      else Some \<lparr>ap_Name = ca_AppName a, ap_ClientID = ca_ClientId a, ap_ClientSecret = ca_ClientSecret a\<rparr>)"

definition ListApps_casdoor :: "'w AppManager \<Rightarrow> string \<Rightarrow> ('w, CasdoorApp list) io" where
  "ListApps_casdoor m org =
     andThen (wrapErr ''casdoor list applications'' (GetOrganizationApplications (am_Client m org))) (\<lambda>apps.
     ret (List.map_filter serviceApp apps))"

definition casdoorAppManager :: "'w AppManager \<Rightarrow> 'w CasdoorAppManager" where
  "casdoorAppManager m = \<lparr>AddApp = AddApp_casdoor m, DeleteApp = DeleteApp_casdoor m, ListApps = ListApps_casdoor m\<rparr>"

subsection \<open>What the permission store promises\<close>

text \<open>
  \<open>tuples\<close> reads the assignments of a warehouse. A read returns them; an update is one transaction, which takes the
  deletes away and adds the writes, or changes nothing. Both leave other warehouses alone. An assignment is determined by
  the row it describes, and the one built for a user and a relation describes them.
\<close>

definition permission_store :: "('g, 'w) LakekeeperSDK \<Rightarrow> ('w \<Rightarrow> string \<Rightarrow> 'g list) \<Rightarrow> bool" where
  "permission_store k tuples \<longleftrightarrow>
     (\<forall>url token w. tuples (snd (sdk_New k url token w)) = tuples w) \<and>
     (\<forall>url token wid w r w'. sdk_GetAssignments k url token wid w = (r, w') \<longrightarrow>
        tuples w' = tuples w \<and> (\<forall>as. r = Inr as \<longrightarrow> as = tuples w wid)) \<and>
     (\<forall>url token wid writes deletes w r w'. sdk_UpdateAssignments k url token wid writes deletes w = (r, w') \<longrightarrow>
        (\<forall>x. x \<noteq> wid \<longrightarrow> tuples w' x = tuples w x) \<and>
        (case r of Inl _ \<Rightarrow> tuples w' wid = tuples w wid
         | Inr _ \<Rightarrow> set (tuples w' wid) = (set (tuples w wid) - set deletes) \<union> set writes)) \<and>
     (\<forall>rel u g. BuildAssignment k rel u = Inr g \<longrightarrow>
        DescribeAssignment k g = Some \<lparr>row_PrincipalType = ''user'', row_PrincipalID = u, row_Relation = rel\<rparr>) \<and>
     (\<forall>g h r. DescribeAssignment k g = Some r \<longrightarrow> DescribeAssignment k h = Some r \<longrightarrow> g = h)"

text \<open>The relations a user holds on a warehouse.\<close>

definition relations :: "('g, 'w) LakekeeperSDK \<Rightarrow> 'g list \<Rightarrow> string \<Rightarrow> string set" where
  "relations k assignments u = {rel. \<exists>g \<in> set assignments. userRelation k u g = Some rel}"

lemma set_currentUserRelations: "set (currentUserRelations k as u) = relations k as u"
  by (force simp: currentUserRelations_def relations_def map_filter_def)

lemma userRelation_Some:
  "userRelation k u g = Some rel \<longleftrightarrow> DescribeAssignment k g = Some \<lparr>row_PrincipalType = ''user'', row_PrincipalID = u, row_Relation = rel\<rparr>"
  by (cases "DescribeAssignment k g"; cases "the (DescribeAssignment k g)") (auto simp: userRelation_def)

lemma permission_storeD:
  assumes "permission_store k tuples"
  shows "tuples (snd (sdk_New k url token w)) = tuples w"
    and "sdk_GetAssignments k url token wid w = (r, w') \<Longrightarrow> tuples w' = tuples w \<and> (\<forall>as. r = Inr as \<longrightarrow> as = tuples w wid)"
    and "sdk_UpdateAssignments k url token wid writes deletes w = (q, w') \<Longrightarrow>
      (\<forall>x. x \<noteq> wid \<longrightarrow> tuples w' x = tuples w x) \<and>
      (case q of Inl _ \<Rightarrow> tuples w' wid = tuples w wid | Inr _ \<Rightarrow> set (tuples w' wid) = (set (tuples w wid) - set deletes) \<union> set writes)"
    and "BuildAssignment k rel u = Inr g \<Longrightarrow> userRelation k u g = Some rel"
    and "userRelation k u g = Some rel \<Longrightarrow> userRelation k u h = Some rel \<Longrightarrow> g = h"
proof (goal_cases)
  case 1 show ?case using assms unfolding permission_store_def by (elim conjE) simp
next
  case 2 then show ?case using assms unfolding permission_store_def by (elim conjE) simp
next
  case 3 then show ?case using assms unfolding permission_store_def by (elim conjE) simp
next
  case 4 then show ?case using assms unfolding permission_store_def userRelation_Some by (elim conjE) simp
next
  case 5 then show ?case using assms unfolding permission_store_def userRelation_Some by (elim conjE) metis
qed

lemma built:
  assumes "permission_store k tuples" "BuildAssignment k rel u = Inr a"
  shows "userRelation k u g = Some rel \<longleftrightarrow> g = a"
  using permission_storeD(4) [OF assms] permission_storeD(5) [OF assms(1)] by blast

lemma diff_set:
  assumes "permission_store k tuples"
  shows "warehouseAssignmentDiff k xs want u managed = Inr gs \<Longrightarrow>
    set gs = {g. \<exists>rel \<in> set xs. rel \<notin> set want \<and> (case managed of Some m \<Rightarrow> rel \<in> set m | None \<Rightarrow> True) \<and> userRelation k u g = Some rel}"
proof (induction xs arbitrary: gs)
  case (Cons rel xs)
  show ?case
  proof (cases "(case managed of Some m \<Rightarrow> rel \<notin> set m | None \<Rightarrow> False) \<or> rel \<in> set want")
    case True
    then show ?thesis using Cons by (auto split: option.splits)
  next
    case False
    then obtain a hs where b: "BuildAssignment k rel u = Inr a" "warehouseAssignmentDiff k xs want u managed = Inr hs" "gs = a # hs"
      using Cons.prems by (auto split: sum.splits simp: map_sum_def)
    show ?thesis using False b(3) Cons.IH [OF b(2)] built [OF assms b(1)] by (auto split: option.splits)
  qed
qed simp

lemma diff_covers:
  assumes "permission_store k tuples"
  shows "warehouseAssignmentDiff k xs want u managed = Inr gs \<Longrightarrow> rel \<in> set xs \<Longrightarrow> rel \<notin> set want \<Longrightarrow>
    (case managed of Some m \<Rightarrow> rel \<in> set m | None \<Rightarrow> True) \<Longrightarrow> \<exists>g. userRelation k u g = Some rel"
  by (induction xs arbitrary: gs)
    (auto split: if_splits sum.splits option.splits simp: map_sum_def dest: permission_storeD(4) [OF assms])

text \<open>
  Assigning a role: afterwards the user holds the role's relations and, of the others, those no role manages; every other
  assignment stands as it did, on this warehouse and on every other.
\<close>

lemma AssignWarehouseRole_effect:
  assumes "permission_store k tuples" "AssignWarehouseRole_lk k url token wid u role w = (Inr (), w')"
  obtains desired where "warehouseRelations role = Inr desired"
    "relations k (tuples w' wid) u = set desired \<union> (relations k (tuples w wid) u - set roleManagedRelations)"
    "\<And>v. v \<noteq> u \<Longrightarrow> relations k (tuples w' wid) v = relations k (tuples w wid) v"
    "\<And>x. x \<noteq> wid \<Longrightarrow> tuples w' x = tuples w x"
proof -
  obtain desired w1 w2 as writes deletes where run: "warehouseRelations role = Inr desired" "sdk_New k url token w = (Inr (), w1)"
    "sdk_GetAssignments k url token wid w1 = (Inr as, w2)"
    "warehouseAssignmentDiff k desired (currentUserRelations k as u) u None = Inr writes"
    "warehouseAssignmentDiff k (currentUserRelations k as u) desired u (Some roleManagedRelations) = Inr deletes"
    "(if writes = [] \<and> deletes = [] then ret () else sdkErr ''assign warehouse role'' (sdk_UpdateAssignments k url token wid writes deletes)) w2 = (Inr (), w')"
    using assms(2)
    by (auto simp: AssignWarehouseRole_lk_def andThen_Inr Let_def eq_commute [of "Inr _" "warehouseRelations _"]
      eq_commute [of "Inr _" "warehouseAssignmentDiff _ _ _ _ _"])
  have t: "tuples w2 = tuples w" "as = tuples w wid"
    using permission_storeD(1) [OF assms(1), of url token w] permission_storeD(2) [OF assms(1) run(3)] run(2) by simp_all
  have w: "set writes = {g. \<exists>rel \<in> set desired - relations k as u. userRelation k u g = Some rel}"
    using diff_set [OF assms(1) run(4)] by (auto simp: set_currentUserRelations)
  have d: "set deletes = {g. \<exists>rel \<in> (relations k as u \<inter> set roleManagedRelations) - set desired. userRelation k u g = Some rel}"
    using diff_set [OF assms(1) run(5)] by (auto simp: set_currentUserRelations)
  have eff: "set (tuples w' wid) = (set as - set deletes) \<union> set writes" "\<And>x. x \<noteq> wid \<Longrightarrow> tuples w' x = tuples w x"
    using run(6) t permission_storeD(3) [OF assms(1), of url token wid writes deletes w2 _ w']
    by (auto simp: sdkErr_def split: if_splits prod.splits sum.splits)
  have sub: "set desired \<subseteq> set roleManagedRelations"
    using run(1) by (auto simp: warehouseRelations_def roleManagedRelations_def split: if_splits)
  have ex: "\<exists>g. userRelation k u g = Some rel" if "rel \<in> set desired - relations k as u" for rel
    using diff_covers [OF assms(1) run(4)] that by (simp add: set_currentUserRelations)
  have new: "relations k writes u = set desired - relations k as u"
    using ex unfolding relations_def w by fastforce
  have old: "{rel. \<exists>g \<in> set as - set deletes. userRelation k u g = Some rel} = relations k as u - (set roleManagedRelations - set desired)"
    unfolding d by (auto simp: relations_def)
  have "relations k (tuples w' wid) u = {rel. \<exists>g \<in> set as - set deletes. userRelation k u g = Some rel} \<union> relations k writes u"
    unfolding relations_def eff(1) by auto
  then have "relations k (tuples w' wid) u = set desired \<union> (relations k (tuples w wid) u - set roleManagedRelations)"
    using sub old new unfolding t(2) [symmetric] by auto
  moreover have "relations k (tuples w' wid) v = relations k (tuples w wid) v" if "v \<noteq> u" for v
    using w d that unfolding relations_def eff(1) t(2) by (auto simp: userRelation_Some)
  ultimately show thesis using that [OF run(1)] eff(2) by blast
qed

subsection \<open>Roles read back (\<^verbatim>\<open>workspace/lakekeeper_user.go\<close>)\<close>

definition relationsToRole :: "string list \<Rightarrow> string" where
  "relationsToRole rels =
     (if ''ownership'' \<in> set rels then ''admin''
      else if ''create'' \<in> set rels \<or> ''modify'' \<in> set rels then ''writer''
      else if ''describe'' \<in> set rels \<or> ''select'' \<in> set rels then ''reader''
      else [])"

lemma relations_read:
  "set (map wg_Relation (filter (\<lambda>a. wg_UserID a = u) (List.map_filter (userAssignment k) gs))) = relations k gs u"
  by (force simp: relations_def map_filter_def userAssignment_def userRelation_def split: option.splits if_splits)

lemma relationsToRole_role:
  assumes "warehouseRelations role = Inr desired" "set rels = set desired \<union> (R - set roleManagedRelations)"
  shows "relationsToRole rels = role"
  using assms unfolding relationsToRole_def assms(2)
  by (auto simp: warehouseRelations_def roleManagedRelations_def split: if_splits)

text \<open>A permission store that keeps the rows of one warehouse.\<close>

definition exampleSDK :: "(AssignmentRow, AssignmentRow list) LakekeeperSDK" where
  "exampleSDK =
     \<lparr>sdk_New = (\<lambda>url token. ret ()),
      sdk_CreateWarehouse = (\<lambda>url token project name profile cred. fail (ErrNew ''read-only'')),
      sdk_ListWarehouses = (\<lambda>url token project. ret [\<lparr>wh_ID = ''w1'', wh_Name = ''default''\<rparr>]),
      sdk_CreateUser = (\<lambda>url token i name w. (Inr (), w)),
      sdk_DeleteUser = (\<lambda>url token i w. (Inl (Some 404, ErrNew ''no such user''), w)),
      sdk_GetAssignments = (\<lambda>url token wid w. (Inr (if wid = ''w1'' then w else []), w)),
      sdk_UpdateAssignments = (\<lambda>url token wid writes deletes w.
        if wid = ''w1'' then (Inr (), filter (\<lambda>g. g \<notin> set deletes) w @ writes) else (Inl (Some 404, ErrNew ''no such warehouse''), w)),
      BuildAssignment = (\<lambda>rel u. Inr \<lparr>row_PrincipalType = ''user'', row_PrincipalID = u, row_Relation = rel\<rparr>),
      DescribeAssignment = Some\<rparr>"

definition exampleTuples :: "AssignmentRow list \<Rightarrow> string \<Rightarrow> AssignmentRow list" where
  "exampleTuples w wid = (if wid = ''w1'' then w else [])"

definition exampleGrants :: "AssignmentRow list" where
  "exampleGrants = map (\<lambda>(u, rel). \<lparr>row_PrincipalType = ''user'', row_PrincipalID = u, row_Relation = rel\<rparr>)
     [(''bob'', ''describe''), (''bob'', ''select''), (''bob'', ''create''), (''bob'', ''modify''), (''bob'', ''pass_grants''), (''eve'', ''ownership'')]"

lemma example_store: "permission_store exampleSDK exampleTuples"
  by (auto simp: permission_store_def exampleSDK_def exampleTuples_def fun_eq_iff io_defs)



end
