(* ===== verification/ServerProperties.thy ===== *)
theory ServerProperties
  imports ServiceProperties SideProperties SideServers
begin

section \<open>Properties of the requests a box answers\<close>

text \<open>
  From the header of a request to the tables: what a token lets its holder do on either mux of a box, wired as
  \<^verbatim>\<open>main.go\<close> wires them, and whose name a commit carries.
\<close>

subsection \<open>The two muxes of a box\<close>

text \<open>
  The commit author of a request is read from its context, so the services of one request are those of the box with
  that reader (\<^verbatim>\<open>commitUsers\<close>).
\<close>

definition onRequest :: "'e boxConfig \<Rightarrow> Context \<Rightarrow> 'e boxConfig" where
  "onRequest B ctx = B\<lparr>bc_Users := GetCommitUser ctx\<rparr>"

definition publicPipelines :: "'e boxConfig \<Rightarrow> WireTime \<Rightarrow> (string \<Rightarrow> err + string) \<Rightarrow> 'e box PipelineServer" where
  "publicPipelines B tt parse =
     \<lparr>sv_Service = boxPipelines B, sv_FileDrop = Some (boxFileDrop B), sv_SourceTests = Some (boxSourceTests B),
      sv_worker = zeroWorkerAuth, sv_Time = tt, sv_uuidParse = parse\<rparr>"

definition internalPipelines :: "'e boxConfig \<Rightarrow> WireTime \<Rightarrow> (string \<Rightarrow> err + string) \<Rightarrow> 'e box PipelineServer" where
  "internalPipelines B tt parse = NewInternalPipelineServer (boxPipelines B) (Some (boxSourceTests B)) tt parse"

definition boxInternalAuth ::
  "'k JWT \<Rightarrow> 'k \<Rightarrow> string \<Rightarrow> 'e boxConfig \<Rightarrow> (Context \<Rightarrow> 'q \<Rightarrow> ('e box, 'a) rpc) \<Rightarrow> string \<Rightarrow> 'q \<Rightarrow> ('e box, 'a) rpc" where
  "boxInternalAuth J jwks issuer B handler header req =
     NewInternalAuthInterceptor J jwks (Some (NewPinnedBoxTrust issuer (ws_Slug (bc_Workspace B)) jwks)) bx_clock handler Background header req"

lemma muxes_register:
  "RegisterWorkspacePlane (Some (publicPipelines B tt parse)) (Some \<lparr>tv_Service = boxTransformations B, tv_worker = zeroWorkerAuth, tv_Time = tt, tv_uuidParse = parse\<rparr>) True = None"
  "RegisterWorkspaceInternal (Some (internalPipelines B tt parse)) (Some (NewInternalTransformationServer (boxTransformations B) tt parse)) = None"
  by (simp_all add: RegisterWorkspacePlane_def RegisterWorkspaceInternal_def publicPipelines_def internalPipelines_def NewInternalPipelineServer_def
      NewInternalTransformationServer_def zeroWorkerAuth_def newWorkerAuth_def)

text \<open>A service token and the tenant it is bound to: the box's own by the issuer, or the one its application is named for.\<close>

definition worker_token :: "'k JWT \<Rightarrow> 'k \<Rightarrow> string \<Rightarrow> string \<Rightarrow> int \<Rightarrow> string \<Rightarrow> string \<Rightarrow> bool" where
  "worker_token J jwks issuer own now header slug \<longleftrightarrow> slug \<noteq> [] \<and>
     (\<exists>token c app. header = ''Bearer '' @ token \<and> genuine J jwks now token c \<and> GetSubject J c = Some (''admin/'' @ app) \<and> app \<noteq> [] \<and>
        (slug = own \<and> GetIssuer J c = Some issuer \<or> app = ''dlt-worker-'' @ slug))"

lemma callerSlug_caller:
  "callerSlug wa (ctx\<lparr>ctx_internalCaller := Some caller\<rparr>) = Inr slug \<longleftrightarrow>
     wa_internal wa \<and> slug \<noteq> [] \<and> (if ic_Slug caller \<noteq> [] then slug = ic_Slug caller else ic_App caller = ''dlt-worker-'' @ slug)"
  by (auto simp: callerSlug_def InternalCallerFromContext_def CutPrefix_def prefix_def Let_def)

lemma pinned_worker_token:
  assumes "jwt_ok J" "internalCallerFromRequest J jwks (Some (NewPinnedBoxTrust issuer own jwks)) clock header w = (Inr caller, w')"
    "callerSlug wa (ctx\<lparr>ctx_internalCaller := Some caller\<rparr>) = Inr slug"
  shows "w' = w \<and> worker_token J jwks issuer own (clock w) header slug"
  using assms(2)
proof (cases rule: internalCaller_cases)
  case (central token)
  then show ?thesis using Parse_genuine [OF assms(1), of token jwks "[]"] assms(3)
    by (fastforce simp: callerUnder_Inr callerSlug_caller worker_token_def serviceAppFromSubject_Inr)
next
  case (box token b sl iss kf)
  then have b: "iss = issuer" "sl = own" "kf = jwks" "w' = w" "iss \<noteq> []"
    by (auto simp: NewPinnedBoxTrust_def slugForIssuer_pinned_def split: if_splits)
  obtain c where c: "Parse J token jwks [WithValidMethods validSigningMethods, WithExpirationRequired, WithIssuer issuer] (clock w) = Some c"
    "serviceAppFromSubject J c = Inr (ic_App caller)" "ic_Slug caller = own" using box(6) b by (auto simp: callerUnder_Inr)
  then show ?thesis using Parse_genuine [OF assms(1) c(1)] assms(3) box(1,3) b
    by (auto simp: callerSlug_caller worker_token_def serviceAppFromSubject_Inr honours_def)
qed

subsection \<open>Polling and reporting\<close>

text \<open>What the worker is served comes from rows of the tenant it names.\<close>

lemma serveLoop_ids: "safe (\<lambda>_. True) (serveLoop s c storage oauth ps out) (\<lambda>qs. p_ID ` set qs \<subseteq> p_ID ` (set ps \<union> set out))"
proof (induction ps arbitrary: storage oauth out)
  case Nil
  then show ?case by (auto intro: safe_ret)
next
  case (Cons p ps)
  have add: "safe (\<lambda>_. True) (serveLoop s c st oa ps (out @ xs)) (\<lambda>qs. p_ID ` set qs \<subseteq> p_ID ` (set (p # ps) \<union> set out))"
    if "p_ID ` set xs \<subseteq> {p_ID p}" for st oa xs
    by (rule safe_weaken [OF Cons.IH]) (use that in auto)
  have up: "\<exists>xs. appendFileUploadPipeline p s3 out = out @ xs \<and> p_ID ` set xs \<subseteq> {p_ID p}" for s3
    by (auto simp: appendFileUploadPipeline_def resolveFileUploadPipeline_def Let_def split: sum.splits option.splits if_splits)
  show ?case unfolding serveLoop.simps
  proof (intro safe_if)
    show "safe (\<lambda>_. True) (serveLoop s c storage oauth ps (out @ [p\<lparr>p_SourceCredentials := []\<rparr>])) (\<lambda>qs. p_ID ` set qs \<subseteq> p_ID ` (set (p # ps) \<union> set out))"
      by (rule add) simp
    show "safe (\<lambda>_. True) (andThen (inject oauth p) (\<lambda>(injected, oauth'). serveLoop s c storage oauth' ps
        (out @ [case injected of Some c \<Rightarrow> p\<lparr>p_SourceCredentials := c\<rparr> | None \<Rightarrow> p]))) (\<lambda>qs. p_ID ` set qs \<subseteq> p_ID ` (set (p # ps) \<union> set out))"
      by (rule safe_andThen [where P = "\<lambda>_. True"], simp add: safe_def, rule safe_prod, rule add) (simp split: option.splits)
    show "safe (\<lambda>_. True) (andThen (case storage of Some s3 \<Rightarrow> ret s3 | None \<Rightarrow> resolveUploadStorage s c) (\<lambda>s3. serveLoop s c (Some s3) oauth ps
        (if s3_Bucket s3 = [] then out else appendFileUploadPipeline p s3 out))) (\<lambda>qs. p_ID ` set qs \<subseteq> p_ID ` (set (p # ps) \<union> set out))"
    proof (rule safe_andThen [where P = "\<lambda>_. True"])
      show "safe (\<lambda>_. True) (case storage of Some s3 \<Rightarrow> ret s3 | None \<Rightarrow> resolveUploadStorage s c) (\<lambda>_. True)" by (simp add: safe_def)
      fix s3
      show "safe (\<lambda>_. True) (serveLoop s c (Some s3) oauth ps (if s3_Bucket s3 = [] then out else appendFileUploadPipeline p s3 out))
          (\<lambda>qs. p_ID ` set qs \<subseteq> p_ID ` (set (p # ps) \<union> set out))"
        using add [of "[]" "Some s3" oauth] add [of _ "Some s3" oauth] up [of s3] by auto
    qed
  qed
qed

lemma GetEnabled_owned:
  assumes "pg_ok db" "GetEnabledPipelines_pg r c db = (Inr ps, db')" "p \<in> set ps"
  shows "owned_by c db (p_ID p)"
proof -
  from assms(2) obtain ls where s: "scan_enabled r (enabled_rows c (db\<lparr>db_link := ls\<rparr>)) = Inr ps"
    by (auto simp: GetEnabledPipelines_pg_def andThen_Inr dest!: query_Inr)
  have "(p_ID p, p_CustomerSlug p) \<in> set (map (\<lambda>p. (p_ID p, p_CustomerSlug p)) ps)" using assms(3) by auto
  then obtain row where "row \<in> set (t_pipelines db)" "pr_id row = p_ID p" "pr_customer_slug row = c"
    unfolding scan_enabled_slug [OF s] by (auto simp: enabled_rows_def)
  then show ?thesis using pg_ok_distinct [OF assms(1), of row] by (simp add: owned_by_def)
qed

lemma GetEnabledPipelines_owned:
  assumes "pg_ok w" "GetEnabledPipelines (boxPipelines B) c w = (Inr ps, w')" "p \<in> set ps"
  shows "owned_by c w (p_ID p)"
proof -
  from assms(2) obtain qs w1 where e: "GetEnabledPipelines_pg (bc_Repository B) c w = (Inr qs, w1)"
    and l: "serveLoop (boxPipelines B) c None (newOAuthClientResolver (ps_OAuthClients (boxPipelines B)) (ps_Connections (boxPipelines B)) c) qs [] w1 = (Inr ps, w')"
    by (auto simp: GetEnabledPipelines_def andThen_Inr boxPipelines_sel pg_repo_sel)
  from safe_value [OF serveLoop_ids _ l] assms(3) obtain q where "q \<in> set qs" "p_ID q = p_ID p" by auto
  then show ?thesis using GetEnabled_owned [OF assms(1) e] by metis
qed

lemma GetPipelineConfigs_Inr:
  assumes "GetPipelineConfigs_rpc s ctx c w = (Inr items, w')"
  shows "callerSlug (sv_worker s) ctx = Inr c \<and> (\<exists>ps. GetEnabledPipelines (sv_Service s) c w = (Inr ps, w') \<and> items = map (configItem (sv_Time s)) ps)"
  using assms by (cases "callerSlug (sv_worker s) ctx")
    (auto simp: GetPipelineConfigs_rpc_def requireTenant_def require_def serve_Inr deny_def split: if_splits)

text \<open>A report reaches the service with a tenant, or changes nothing.\<close>

lemma ReportPipelineRun_rpc_cases:
  assumes "ReportPipelineRun_rpc s ctx m w = (y, w')"
  obtains (refused) e where "y = Inl e" "w' = w"
  | (served) slug run x where "callerSlug (sv_worker s) ctx = Inr slug" "ReportPipelineRun (sv_Service s) slug run w = (x, w')"
proof (cases "callerSlug (sv_worker s) ctx")
  case (Inl e)
  then show thesis using assms refused [of e] by (simp add: ReportPipelineRun_rpc_def)
next
  case (Inr slug)
  show thesis
  proof (cases "w' = w \<and> (\<exists>e. y = Inl e)")
    case True
    then show thesis using refused by blast
  next
    case False
    then have "\<exists>run x. ReportPipelineRun (sv_Service s) slug run w = (x, w')"
      using assms Inr unfolding ReportPipelineRun_rpc_def require_def badArgument_def guarded_def serve_def
      by (auto split: if_splits sum.splits prod.splits)
    then show thesis using served Inr by blast
  qed
qed

lemma internalAuth_cases:
  assumes "boxInternalAuth J jwks issuer B handler header req w = (x, w')"
  obtains (refused) e where "x = Inl e" "w' = w"
  | (served) caller where "internalCallerFromRequest J jwks (Some (NewPinnedBoxTrust issuer (ws_Slug (bc_Workspace B)) jwks)) bx_clock header w = (Inr caller, w)"
    "handler (Background\<lparr>ctx_internalCaller := Some caller\<rparr>) req w = (x, w')"
proof -
  let ?i = "internalCallerFromRequest J jwks (Some (NewPinnedBoxTrust issuer (ws_Slug (bc_Workspace B)) jwks)) bx_clock header"
  have quiet: "snd (?i w) = w"
    by (auto simp: internalCallerFromRequest_def callerUnder_def boxCaller_def NewPinnedBoxTrust_def io_defs Let_def split: option.splits sum.splits)
  then show thesis using assms refused served
    by (cases "?i w"; cases "fst (?i w)") (auto simp: boxInternalAuth_def NewInternalAuthInterceptor_def)
qed

text \<open>
  C10. The worker's RPCs are confined to the tenant of the token. On the internal mux of a box, a poll is answered only for
  the tenant a genuine service token is bound to and lists only that tenant's pipelines; a request that changes the runs
  holds such a token and changes only the runs of a pipeline of its tenant, so the service's unguarded form, for an empty
  tenant, is never reached. The same RPCs on the public mux refuse every caller, whatever context an interceptor made, and
  change nothing.
\<close>

theorem worker_requests_confined:
  assumes "jwt_ok J" "pg_ok w"
    and "boxInternalAuth J jwks issuer B (GetPipelineConfigs_rpc (internalPipelines B tt parse)) header c w = (x, v)"
    and "boxInternalAuth J jwks issuer B (ReportPipelineRun_rpc (internalPipelines B tt parse)) header m w = (y, w')"
  shows "(\<forall>items. x = Inr items \<longrightarrow> worker_token J jwks issuer (ws_Slug (bc_Workspace B)) (bx_clock w) header c \<and>
      (\<forall>item \<in> set items. owned_by c w (pi_Id item))) \<and>
    (t_pipeline_runs w' \<noteq> t_pipeline_runs w \<longrightarrow>
      (\<exists>slug i. worker_token J jwks issuer (ws_Slug (bc_Workspace B)) (bx_clock w) header slug \<and> owned_by slug w i \<and>
         elsewhere i w' = elsewhere i w)) \<and>
    (\<exists>e. GetPipelineConfigs_rpc (publicPipelines B tt parse) ctx c w = (Inl e, w)) \<and>
    (\<exists>e. ReportPipelineRun_rpc (publicPipelines B tt parse) ctx m w = (Inl e, w))"
proof (intro conjI allI impI ballI)
  have sel: "sv_Service (internalPipelines B tt parse) = boxPipelines B"
    by (simp add: internalPipelines_def NewInternalPipelineServer_def)
  show "\<exists>e. GetPipelineConfigs_rpc (publicPipelines B tt parse) ctx c w = (Inl e, w)"
    "\<exists>e. ReportPipelineRun_rpc (publicPipelines B tt parse) ctx m w = (Inl e, w)"
    by (simp_all add: GetPipelineConfigs_rpc_def ReportPipelineRun_rpc_def requireTenant_def require_def publicPipelines_def
        callerSlug_def zeroWorkerAuth_def deny_def)
  {
    fix items assume "x = Inr items"
    with assms(3) obtain caller where caller: "internalCallerFromRequest J jwks (Some (NewPinnedBoxTrust issuer (ws_Slug (bc_Workspace B)) jwks)) bx_clock header w = (Inr caller, w)"
      "GetPipelineConfigs_rpc (internalPipelines B tt parse) (Background\<lparr>ctx_internalCaller := Some caller\<rparr>) c w = (Inr items, v)"
      by (cases rule: internalAuth_cases) auto
    from GetPipelineConfigs_Inr [OF caller(2), unfolded sel] obtain ps
      where s: "callerSlug (sv_worker (internalPipelines B tt parse)) (Background\<lparr>ctx_internalCaller := Some caller\<rparr>) = Inr c"
      and ps: "GetEnabledPipelines (boxPipelines B) c w = (Inr ps, v)" "items = map (configItem (sv_Time (internalPipelines B tt parse))) ps" by blast
    show "worker_token J jwks issuer (ws_Slug (bc_Workspace B)) (bx_clock w) header c"
      using pinned_worker_token [OF assms(1) caller(1) s] by simp
    fix item assume "item \<in> set items"
    then show "owned_by c w (pi_Id item)" using GetEnabledPipelines_owned [OF assms(2) ps(1)] ps(2) by (auto simp: configItem_def)
  }
  assume changed: "t_pipeline_runs w' \<noteq> t_pipeline_runs w"
  from assms(4) show "\<exists>slug i. worker_token J jwks issuer (ws_Slug (bc_Workspace B)) (bx_clock w) header slug \<and> owned_by slug w i \<and> elsewhere i w' = elsewhere i w"
  proof (cases rule: internalAuth_cases)
    case (refused e)
    then show ?thesis using changed by simp
  next
    case (served caller)
    from served(2) show ?thesis
    proof (cases rule: ReportPipelineRun_rpc_cases)
      case (refused e)
      then show ?thesis using changed by simp
    next
      case s: (served slug run z)
      have "slug \<noteq> []" "worker_token J jwks issuer (ws_Slug (bc_Workspace B)) (bx_clock w) header slug"
        using pinned_worker_token [OF assms(1) served(1) s(1)] callerSlug_ne [OF s(1)] by simp_all
      then show ?thesis using report_effect [OF s(2) [unfolded sel]] changed by blast
    qed
  qed
qed

text \<open>A poll and a report of the box's own worker, whose token names the box's issuer.\<close>

definition plainTimes :: WireTime where
  "plainTimes = \<lparr>wt_Format = (\<lambda>t. ''t''), wt_Parse = (\<lambda>s. Inl (ErrNew s))\<rparr>"

definition exampleReport :: ReportPipelineRunRequest where
  "exampleReport = \<lparr>rq_PipelineId = ''p1'', rq_RunId = [], rq_Status = ''success'', rq_StartedAt = [], rq_CompletedAt = [], rq_RowsLoaded = 3,
     rq_ErrorMessage = []\<rparr>"

definition workerPoll :: "string \<Rightarrow> (ConnectError + PipelineConfigItem list) \<times> files box" where
  "workerPoll c = boxInternalAuth exampleJWT ''box:'' ''https://auth.acme.example'' exampleBox
     (GetPipelineConfigs_rpc (internalPipelines exampleBox plainTimes Inr)) ''Bearer box:worker'' c exampleWorld"

definition workerReport :: "(ConnectError + unit) \<times> files box" where
  "workerReport = boxInternalAuth exampleJWT ''box:'' ''https://auth.acme.example'' exampleBox
     (ReportPipelineRun_rpc (internalPipelines exampleBox plainTimes Inr)) ''Bearer box:worker'' exampleReport exampleWorld"

theorem worker_requests_confined_witness:
  "map_sum ce_Code (map pi_Id) (fst (workerPoll ''acme'')) = Inr [''p1''] \<and> map_sum ce_Code (map pi_Id) (fst (workerPoll ''other'')) = Inl CodePermissionDenied \<and>
   map r_Status (t_pipeline_runs (snd workerReport)) = [''success''] \<and>
   (\<exists>slug i. worker_token exampleJWT ''box:'' ''https://auth.acme.example'' ''acme'' 5 ''Bearer box:worker'' slug \<and> owned_by slug exampleWorld i \<and>
      elsewhere i (snd workerReport) = elsewhere i exampleWorld)"
proof -
  have v: "map_sum ce_Code (map pi_Id) (fst (workerPoll ''acme'')) = Inr [''p1'']"
    "map_sum ce_Code (map pi_Id) (fst (workerPoll ''other'')) = Inl CodePermissionDenied"
    "map r_Status (t_pipeline_runs (snd workerReport)) = [''success'']" by code_simp+
  have "t_pipeline_runs exampleWorld = []" "bx_clock exampleWorld = 5" "ws_Slug (bc_Workspace exampleBox) = ''acme''" by code_simp+
  then show ?thesis
    using worker_requests_confined [OF exampleJWT_ok exampleWorld_ok, of "''box:''" "''https://auth.acme.example''" exampleBox plainTimes Inr
        "''Bearer box:worker''" "''acme''" _ _ exampleReport "fst workerReport" "snd workerReport" Background, OF prod.collapse [symmetric]] v
    by (auto simp: workerReport_def)
qed

subsection \<open>Whose name a commit carries\<close>

definition tokenAuthor :: "TokenProfile \<Rightarrow> CommitAuthor option" where
  "tokenAuthor p =
     (if tp_Email p = [] then None
      else Some \<lparr>ca_Name = (if tp_DisplayName p \<noteq> [] then tp_DisplayName p else if tp_Name p \<noteq> [] then tp_Name p
                            else case Cut (tp_Email p) ''@'' of None \<Rightarrow> tp_Email p | Some (a, _) \<Rightarrow> a), ca_Email = tp_Email p\<rparr>)"

lemma author_of_token:
  "u \<noteq> [] \<Longrightarrow> tp_Subject p = u \<Longrightarrow> resolveCommitAuthor (Some (GetCommitUser (ctx\<lparr>ctx_tokenProfile := Some p\<rparr>))) u = ret (tokenAuthor p)"
  by (auto simp: resolveCommitAuthor_def GetCommitUser_def TokenProfileFromContext_def attempt_def tokenAuthor_def cmp_Or_def fun_eq_iff ret_def
      split: option.splits)

lemma onRequest_same:
  "editable (onRequest B ctx) u repo f = editable B u repo f" "boxGitClient (onRequest B ctx) = boxGitClient B"
  by (simp_all add: editable_def reachable_repo_def boxGitClient_def onRequest_def)

text \<open>
  C14. A commit made through the Console names the person whose token asked for it. A write of the repository editor either is
  refused and changes nothing, or is the commit of a visible file of an editable repository for a person the Console
  admits, and its author is that person's profile in the very token, none when the token has no email.
\<close>

theorem editor_commit_attributed:
  assumes "jwt_ok J" "ua_Issuer a \<noteq> []"
    and "WrapUnary J a bx_clock (\<lambda>ctx m. PutFile_rpc (boxRepoEditor (onRequest B ctx)) ctx repo f content sha m) Background header msg w = (x, w')"
  shows "w' = w \<and> (\<exists>e. x = Inl e) \<or>
    (\<exists>c sub. person J a (bx_clock w) header c sub \<and> editable B sub repo f \<and>
       serveWith boxRepoError (onExt (PutContents (boxGitClient B) repo f content sha
         (if msg = [] then ''Update '' @ f @ '' via FairTier Console'' else msg) (tokenAuthor (tokenProfile sub c)))) answer w = (x, w'))"
proof (cases "authenticateBearer J a (bx_clock w) Background header")
  case (Inl e)
  then show ?thesis using assms(3) by (auto simp: WrapUnary_def)
next
  case (Inr ctx)
  then obtain c sub where p: "person J a (bx_clock w) header c sub"
    and ctx: "ctx = Background\<lparr>ctx_userID := Some sub, ctx_tokenProfile := Some (tokenProfile sub c)\<rparr>"
    using authenticateBearer_sound [OF assms(1,2)] by blast
  have sub: "sub \<noteq> []" "UserIDFromContext ctx = sub" "tp_Subject (tokenProfile sub c) = sub"
    using p by (auto simp: person_def ctx UserIDFromContext_def tokenProfile_def Let_def)
  let ?m = "if msg = [] then ''Update '' @ f @ '' via FairTier Console'' else msg"
  let ?put = "PutFile_repo (boxRepoEditor (onRequest B ctx)) sub repo f content sha msg"
  have author: "resolveCommitAuthor (Some (GetCommitUser ctx)) sub = ret (tokenAuthor (tokenProfile sub c))"
    unfolding ctx by (rule author_of_token [OF sub(1,3)])
  have put: "if editable B sub repo f then ?put = onExt (PutContents (boxGitClient B) repo f content sha ?m (tokenAuthor (tokenProfile sub c)))
      else \<exists>e. ?put = fail e"
    using editor_reaches [of "onRequest B ctx" sub repo f
        "\<lambda>cl. andThen (onExt (ret (tokenAuthor (tokenProfile sub c)))) (\<lambda>au. PutContents cl repo f content sha ?m au)"]
    unfolding PutFile_repo_def Let_def editor_sel onRequest_same
    by (cases "editable B sub repo f") (simp_all add: author_outside author onRequest_def liftClient_def onExt_ret)
  have run: "serveWith boxRepoError ?put answer w = (x, w')"
    using assms(3) Inr sub by (simp add: WrapUnary_def PutFile_rpc_def requireUser_def)
  then show ?thesis using put p by (cases "editable B sub repo f") (auto simp: serveWith_def fail_def)
qed

text \<open>Alice writes a model.\<close>

definition consoleCommit :: "(ConnectError + string) \<times> files box" where
  "consoleCommit = WrapUnary exampleJWT exampleUserAuth bx_clock (\<lambda>ctx m. PutFile_rpc (boxRepoEditor (onRequest exampleBox ctx)) ctx
     ''transformations'' ''models/a.sql'' ''select 1'' [] m) Background ''Bearer box:alice'' [] exampleWorld"

theorem editor_commit_attributed_witness:
  "\<exists>c sub. person exampleJWT exampleUserAuth 5 ''Bearer box:alice'' c sub \<and> editable exampleBox sub ''transformations'' ''models/a.sql'' \<and>
     map fst (bx_ext (snd consoleCommit)) = [''models/a.sql'']"
proof -
  have e: "\<not> isl (fst consoleCommit)" "map fst (bx_ext (snd consoleCommit)) = [''models/a.sql'']" by code_simp+
  have "ua_Issuer exampleUserAuth \<noteq> []" "bx_clock exampleWorld = 5" by code_simp+
  then show ?thesis
    using editor_commit_attributed [OF exampleJWT_ok, of exampleUserAuth exampleBox "''transformations''" "''models/a.sql''" "''select 1''" "[]"
        "''Bearer box:alice''" "[]" exampleWorld "fst consoleCommit" "snd consoleCommit"] e
    by (auto simp: consoleCommit_def)
qed

subsection \<open>The answer to an update\<close>

text \<open>
  The struct an update is answered from is built from the request, which has no creation time, and the service does not fill
  it in: the \<^verbatim>\<open>created_at\<close> on the wire is the text of Go's zero time, whatever the row holds.
\<close>

lemma swap_created: "swapGoogleOAuthGrant s c p w = (Inr q, w') \<Longrightarrow> p_CreatedAt q = p_CreatedAt p"
  by (auto simp: swapGoogleOAuthGrant_def andThen_Inr attempt_def split: option.splits sum.splits prod.splits if_splits)

lemma UpdatePipeline_created: "UpdatePipeline s u p cl w = (Inr q, w') \<Longrightarrow> p_CreatedAt q = p_CreatedAt p"
  by (auto simp: UpdatePipeline_def andThen_Inr Let_def resolveUpdateCredentials_def finishUpdate_def split: if_splits dest: swap_created)

lemma update_answers_zero_time: "UpdatePipeline_rpc s ctx m w = (Inr pb, w') \<Longrightarrow> pb_CreatedAt pb = wt_Format (sv_Time s) 0"
  by (auto simp: UpdatePipeline_rpc_def requireUser_def require_def Let_def serve_Inr pipelineToPB_def requestPipeline_def zeroPipeline_def
      split: if_splits dest!: UpdatePipeline_created)

end
