(* ===== verification/SignInProperties.thy ===== *)
theory SignInProperties
  imports Example OAuthFlow
begin

section \<open>Properties of the Google sign-in of a box\<close>

text \<open>
  The callback is open to the world: anyone can call it with any state and code. The runs below are any order of starts,
  callbacks and other work of the box; a state that verifies is one the box signed, which is what an HMAC is for.
\<close>

definition liftGoogle :: "'e GoogleClient \<Rightarrow> 'e box GoogleClient" where
  "liftGoogle g = \<lparr>gc_redirectURL = gc_redirectURL g, gc_stateSecret = gc_stateSecret g, gc_AuthEndpoint = gc_AuthEndpoint g,
     gc_post = (\<lambda>form. onExt (gc_post g form)), gc_nonce = onExt (gc_nonce g), gc_Lib = gc_Lib g\<rparr>"

definition boxStart ::
  "'k JWT \<Rightarrow> 'k UserAuth \<Rightarrow> 'e boxConfig \<Rightarrow> 'e GoogleClient \<Rightarrow> string \<Rightarrow> string \<Rightarrow> 'e box \<Rightarrow> (nat \<times> string + string \<times> string \<times> Capability) \<times> 'e box" where
  "boxStart J a B g capability header =
     startSignIn J a bx_clock (liftGoogle g) (StaticResolver (bc_Workspace B)) (pg_oauth_clients (bc_Repository B)) capability header"

definition boxCallback :: "'e boxConfig \<Rightarrow> 'e GoogleClient \<Rightarrow> string \<Rightarrow> string \<Rightarrow> string \<Rightarrow> 'e box \<Rightarrow> oauthResult \<times> 'e box" where
  "boxCallback B g err state code =
     GoogleOAuthCallbackHandler bx_clock (onExt (bc_newID B)) (Some (liftGoogle g)) (pg_grants (bc_Repository B))
       (Some (pg_oauth_clients (bc_Repository B))) err state code"

text \<open>What the code relies on of the signing library: a signed state reads back as what was signed, until it expires.\<close>

definition state_ok :: "StateLib \<Rightarrow> bool" where
  "state_ok L \<longleftrightarrow> (\<forall>k c s now d. SignedString L k c = Inr s \<longrightarrow> ParseWithClaims L k s now = Some d \<longrightarrow> d = c \<and> now < sc_ExpiresAt c * second)"

text \<open>Who a stored grant is for, and how long it lasts.\<close>

definition grant_view :: "growrow \<Rightarrow> string \<times> string \<times> int \<times> int" where
  "grant_view d = (gw_customer_slug d, gw_user_sub d, gw_created_at d, gw_expires_at d)"

inductive signin_run :: "'k JWT \<Rightarrow> 'k UserAuth \<Rightarrow> 'e boxConfig \<Rightarrow> 'e GoogleClient \<Rightarrow> 'e box \<Rightarrow> string list \<Rightarrow> 'e box \<Rightarrow> bool"
  for J a B g w0 where
  idle: "signin_run J a B g w0 [] w0"
| start: "signin_run J a B g w0 minted w \<Longrightarrow> boxStart J a B g capability header w = (r, w') \<Longrightarrow>
    signin_run J a B g w0 (case r of Inl _ \<Rightarrow> minted | Inr (state, _) \<Rightarrow> state # minted) w'"
| callback: "signin_run J a B g w0 minted w \<Longrightarrow> (\<And>v. VerifyState (liftGoogle g) (bx_clock w) state = Inr v \<Longrightarrow> state \<in> set minted) \<Longrightarrow>
    boxCallback B g err state code w = (r, w') \<Longrightarrow> signin_run J a B g w0 minted w'"
| other: "signin_run J a B g w0 minted w \<Longrightarrow> grant_view ` set (t_grants w') \<subseteq> grant_view ` set (t_grants w) \<Longrightarrow> signin_run J a B g w0 minted w'"

subsection \<open>What one request does\<close>

lemma google_sel:
  "gc_post (liftGoogle g) form = onExt (gc_post g form)" "gc_nonce (liftGoogle g) = onExt (gc_nonce g)"
  "gc_Lib (liftGoogle g) = gc_Lib g" "gc_stateSecret (liftGoogle g) = gc_stateSecret g"
  by (simp_all add: liftGoogle_def)

lemma onExt_grants: "silent t_grants (onExt m)"
  by (rule silentI) (auto simp: onExt_def split: prod.splits)

lemma query_grants: "keeps (\<lambda>w. t_grants w = G) (query q)"
  unfolding query_def by (rule safeI) (auto elim!: sqlE)

lemma client_grants: "silent t_grants (GetOAuthClient_pg r c v)"
  unfolding silent_keeps GetOAuthClient_pg_def by (intro allI, (rule safe_rules query_grants TrueI)+)

lemma Exchange_grants: "silent t_grants (Exchange (liftGoogle g) code i s)"
  unfolding silent_keeps Exchange_def google_sel
  by (intro allI, (rule safe_rules onExt_grants [unfolded silent_keeps, rule_format] TrueI)+)

lemma SignState_grants: "silent t_grants (SignState (liftGoogle g) clock u c)"
  unfolding silent_keeps SignState_def google_sel
  by (intro allI, rule safe_andThen [OF safe_wrapErr [OF onExt_grants [unfolded silent_keeps, rule_format]]])
    (auto simp: safe_def wrapErr_def lift_def split: sum.splits)

lemma SignState_Inr:
  assumes "SignState (liftGoogle g) clock u c w = (Inr state, w')"
  shows "\<exists>claims. SignedString (gc_Lib g) (gc_stateSecret g) claims = Inr state \<and> sc_Subject claims = u \<and> sc_Slug claims = c"
proof -
  from assms obtain nonce w1 where "SignedString (gc_Lib g) (gc_stateSecret g) \<lparr>sc_Slug = c, sc_Subject = u, sc_IssuedAt = clock w1 div second,
      sc_ExpiresAt = (clock w1 + stateTTL) div second, sc_ID = rawURLEncode nonce\<rparr> = Inr state"
    by (auto simp: SignState_def google_sel andThen_Inr dest: sym)
  then show ?thesis by (intro exI conjI) (assumption, simp_all)
qed

text \<open>A start stores nothing, and a state it hands out is signed for an admitted person and the box's workspace.\<close>

definition signed_for :: "'k JWT \<Rightarrow> 'k UserAuth \<Rightarrow> 'e boxConfig \<Rightarrow> 'e GoogleClient \<Rightarrow> string \<Rightarrow> string \<Rightarrow> bool" where
  "signed_for J a B g state u \<longleftrightarrow> admitted (bc_Workspace B) u \<and> (\<exists>now header. UserIDFromBearer J a now header = Inr u) \<and>
     (\<exists>claims. SignedString (gc_Lib g) (gc_stateSecret g) claims = Inr state \<and> sc_Subject claims = u \<and> sc_Slug claims = ws_Slug (bc_Workspace B))"

lemma boxStart_effect:
  assumes "boxStart J a B g capability header w = (r, w')"
  shows "t_grants w' = t_grants w \<and> (\<forall>state rest. r = Inr (state, rest) \<longrightarrow> (\<exists>u. signed_for J a B g state u))"
proof -
  have sel: "GetWorkspaceByUser (StaticResolver (bc_Workspace B)) u = (if admitted (bc_Workspace B) u then ret (bc_Workspace B) else fail ErrWorkspaceNotFound)" for u
    by (simp add: StaticResolver_def by_user_admitted)
  have cl: "GetOAuthClient (pg_oauth_clients (bc_Repository B)) = GetOAuthClient_pg (bc_Repository B)" by (simp add: pg_oauth_clients_def)
  show ?thesis
    using assms unfolding boxStart_def startSignIn_def sel cl
    by (fastforce simp: ret_def fail_def signed_for_def split: sum.splits prod.splits if_splits
        dest: silentD [OF client_grants] silentD [OF SignState_grants] SignState_Inr)
qed

lemma storeGrant_effect:
  assumes "storeGrant bx_clock (onExt m) (pg_grants r) u c i tok w = (x, w')"
  shows "\<exists>G. t_grants w' = t_grants w @ G \<and> (\<forall>d \<in> set G. grant_view d = (c, u, bx_clock w, bx_clock w + grantTTL))"
proof -
  obtain y w1 where n: "onExt m w = (y, w1)" by fastforce
  then have w1: "t_grants w1 = t_grants w" by (rule silentD [OF onExt_grants])
  have enc: "keeps (\<lambda>w. t_grants w = G) (encryptCredentials r t)" for G t
    by (rule safeI) (auto simp: encryptCredentials_def Encrypt_ring_def io_defs rand_Read_def Let_def split: option.splits prod.splits sum.splits if_splits)
  have create: "\<exists>G. t_grants w2 = t_grants w1 @ G \<and> (\<forall>d \<in> set G. grant_view d = (gr_CustomerSlug gr, gr_UserSub gr, gr_CreatedAt gr, gr_ExpiresAt gr))"
    if "CreateGoogleOAuthGrant_pg r gr w1 = (z, w2)" for gr z w2
  proof -
    obtain e v where e: "encryptCredentials r (gr_RefreshToken gr) w1 = (e, v)" by fastforce
    have "t_grants v = t_grants w1" using safeD [OF enc [of "t_grants w1"] _ e] by simp
    then show ?thesis using that e
      by (auto simp: CreateGoogleOAuthGrant_pg_def andThen_def wrapErr_def grant_view_def split: sum.splits prod.splits if_splits elim!: sqlE)
  qed
  show ?thesis
    using assms n w1 create unfolding storeGrant_def
    by (fastforce simp: pg_grants_def Let_def split: sum.splits prod.splits)
qed

lemma boxCallback_effect:
  assumes "boxCallback B g err state code w = (x, w')"
  shows "t_grants w' = t_grants w \<or> (\<exists>u c G t. VerifyState (liftGoogle g) (bx_clock w) state = Inr (u, c) \<and> t_grants w' = t_grants w @ G \<and>
    (\<forall>d \<in> set G. grant_view d = (c, u, t, t + grantTTL)))"
proof (cases "err \<noteq> [] \<or> code = []")
  case True
  then show ?thesis using assms by (auto simp: boxCallback_def GoogleOAuthCallbackHandler_def split: sum.splits if_splits)
next
  case False
  show ?thesis
  proof (cases "VerifyState (liftGoogle g) (bx_clock w) state")
    case (Inl e)
    then show ?thesis using assms False by (auto simp: boxCallback_def GoogleOAuthCallbackHandler_def)
  next
    case (Inr v)
    obtain u c where v: "v = (u, c)" by fastforce
    obtain y w1 where cl: "GetOAuthClient_pg (bc_Repository B) c OAuthProviderGoogle w = (y, w1)" by fastforce
    note run = assms [unfolded boxCallback_def GoogleOAuthCallbackHandler_def]
    have w1: "t_grants w1 = t_grants w" by (rule silentD [OF client_grants cl])
    show ?thesis
    proof (cases y)
      case y: (Inl e)
      then show ?thesis using run False Inr v cl w1 by (auto simp: pg_oauth_clients_def)
    next
      case y: (Inr cc)
      obtain z w2 where ex: "Exchange (liftGoogle g) code (oc_ClientID cc) (oc_ClientSecret cc) w1 = (z, w2)" by fastforce
      have w2: "t_grants w2 = t_grants w" using silentD [OF Exchange_grants ex] w1 by simp
      show ?thesis
      proof (cases z)
        case (Inl e)
        then show ?thesis using run False Inr v cl y ex w2 by (auto simp: pg_oauth_clients_def)
      next
        case z: (Inr tok)
        then have "storeGrant bx_clock (onExt (bc_newID B)) (pg_grants (bc_Repository B)) u c (oc_ClientID cc) tok w2 = (x, w')"
          using run False Inr v cl y ex by (auto simp: pg_oauth_clients_def)
        from storeGrant_effect [OF this] show ?thesis using w2 Inr v by auto
      qed
    qed
  qed
qed

subsection \<open>Whom a grant belongs to\<close>

lemma run_minted: "signin_run J a B g w0 minted w \<Longrightarrow> state \<in> set minted \<Longrightarrow> \<exists>u. signed_for J a B g state u"
proof (induction arbitrary: state rule: signin_run.induct)
  case (start minted w capability header r w')
  then show ?case using boxStart_effect [OF start.hyps(2)] by (auto split: sum.splits prod.splits)
qed auto

text \<open>A verified state of the box names a person it was signed for.\<close>

lemma verified_signed:
  assumes "state_ok (gc_Lib g)" "signed_for J a B g state u" "VerifyState (liftGoogle g) now state = Inr (v, c)"
  shows "v = u \<and> c = ws_Slug (bc_Workspace B)"
  using assms unfolding state_ok_def signed_for_def VerifyState_def google_sel by (fastforce split: option.splits if_splits)

definition belongs :: "'k JWT \<Rightarrow> 'k UserAuth \<Rightarrow> 'e boxConfig \<Rightarrow> growrow \<Rightarrow> bool" where
  "belongs J a B d \<longleftrightarrow> gw_customer_slug d = ws_Slug (bc_Workspace B) \<and> admitted (bc_Workspace B) (gw_user_sub d) \<and>
     (\<exists>now header. UserIDFromBearer J a now header = Inr (gw_user_sub d)) \<and> gw_expires_at d = gw_created_at d + 15 * 60 * second"

lemma belongs_view: "belongs J a B d \<Longrightarrow> grant_view d' = grant_view d \<Longrightarrow> belongs J a B d'"
  by (auto simp: belongs_def grant_view_def)


subsection \<open>A sign-in\<close>

text \<open>Alice signs in; the state is its claims with a marker, and Google answers one refresh token.\<close>

definition exampleStates :: StateLib where
  "exampleStates =
     \<lparr>SignedString = (\<lambda>k c. if sc_Subject c = ''acme-org/alice'' \<and> sc_Slug c = ''acme'' \<and> sc_ExpiresAt c = 900 \<and> sc_IssuedAt c = 0 \<and> sc_ID c = ''AQ''
        then Inr (''hs256:'' @ k) else Inl (ErrNew ''claims'')),
      ParseWithClaims = (\<lambda>k s now. if s = ''hs256:'' @ k \<and> now < 900 * second
        then Some \<lparr>sc_Slug = ''acme'', sc_Subject = ''acme-org/alice'', sc_IssuedAt = 0, sc_ExpiresAt = 900, sc_ID = ''AQ''\<rparr> else None)\<rparr>"

definition exampleGoogle :: "files GoogleClient" where
  "exampleGoogle =
     \<lparr>gc_redirectURL = ''https://api/cb'', gc_stateSecret = ''k0'', gc_AuthEndpoint = ''https://accounts'',
      gc_post = (\<lambda>form e. (Inr (200, ''{\"refresh_token\":\"1//rt\",\"scope\":\"openid email\"}''), e)),
      gc_nonce = (\<lambda>e. (Inr [CHR 0x01], e)), gc_Lib = exampleStates\<rparr>"

definition signInBox :: "files boxConfig" where
  "signInBox = exampleBox\<lparr>bc_newID := (\<lambda>e. (Inr (''grant-'' @ itoa (length e)), (''minted'', []) # e))\<rparr>"

definition signInWorld :: "files box" where
  "signInWorld = exampleWorld\<lparr>t_oauth_clients := [\<lparr>oc_CustomerSlug = ''acme'', oc_Provider = OAuthProviderGoogle, oc_ClientID = ''cid'',
     oc_ClientSecret = ''cs'', oc_UpdatedAt = 1, oc_UpdatedBy = []\<rparr>]\<rparr>"

definition signedIn :: "files box" where
  "signedIn = snd (boxCallback signInBox exampleGoogle [] ''hs256:k0'' ''code'' (snd (boxStart exampleJWT exampleUserAuth signInBox exampleGoogle [] ''Bearer box:alice'' signInWorld)))"

lemma exampleStates_ok: "state_ok exampleStates"
  by (auto simp: state_ok_def exampleStates_def split: if_splits)

lemma signed_in_run: "signin_run exampleJWT exampleUserAuth signInBox exampleGoogle signInWorld [''hs256:k0''] signedIn"
proof -
  let ?start = "boxStart exampleJWT exampleUserAuth signInBox exampleGoogle [] ''Bearer box:alice'' signInWorld"
  have s: "map_sum id fst (fst ?start) = Inr ''hs256:k0''" by code_simp
  obtain r where r: "fst ?start = Inr (''hs256:k0'', r)" using s by (cases "fst ?start") auto
  have "signin_run exampleJWT exampleUserAuth signInBox exampleGoogle signInWorld [''hs256:k0''] (snd ?start)"
    using signin_run.start [OF signin_run.idle, OF prod.collapse [of ?start, symmetric]] r by simp
  then show ?thesis unfolding signedIn_def by (rule signin_run.callback) (simp, rule prod.collapse [symmetric])
qed


text \<open>Nothing records that a state was used: the same state stores a second grant.\<close>

lemma state_accepted_twice:
  "map gw_grant_id (t_grants (snd (boxCallback signInBox exampleGoogle [] ''hs256:k0'' ''code2'' signedIn))) = [''grant-0'', ''grant-1'']"
  by code_simp

end
