(* ===== verification/Spec2Isabelle.thy ===== *)
theory Spec2Isabelle
  imports UpdateProperties MirrorProperties SideProperties Rewrap Lakekeeper ServerProperties SignInProperties
begin

text \<open>
  \<^bold>\<open>The workspace API of FairTier\<close>

  The program (\<^verbatim>\<open>src/\<close>, Go) is the API server of one customer's box. The Console asks it for pipelines:
  definitions of what to load, from which source, with which credentials. It stores them in PostgreSQL,
  keeps the box's git repository in step with them (the mirror), pulls edits made in that repository back
  in (adopt and import), serves the enabled ones to the worker and records its runs. Transformations, the dbt
  projects to run over the loaded data, are the second plane and are kept the same way; one may be chained
  to a pipeline. Uploaded files go to
  the customer's object store. Google sign-ins are kept as connections. Credentials are encrypted at rest
  under a key ring. Beside the two planes stand the editor of the box's repositories, source tests that the worker
  runs before a pipeline is saved, and notifications with their live streams. Requests come in over two muxes: the public
  one admits people by the tokens of the box's Casdoor, the internal one the worker by a service token bound to a tenant.

  \<^bold>\<open>Theories, bottom up\<close>

  \<^item> \<open>Prelude\<close>: Go's string functions, splitting and joining, Go maps as association lists.
  \<^item> \<open>Json\<close>: \<^verbatim>\<open>encoding/json\<close> as the sources use it. A parser and a printer with their round trip, string
    quoting, decoders with Go's rules (case-insensitive members, the last one wins, a null leaves the
    value), \<^verbatim>\<open>json.RawMessage\<close> as text.
  \<^item> \<open>Domain\<close>: the structs and ports of \<^verbatim>\<open>workspace/\<close>, the errors, and the effect type of a call:
    \<open>('w, 'a) io\<close> takes the world to an error or a value and the world after it.
  \<^item> \<open>UploadNames\<close> and \<open>FileDrop\<close>: \<^verbatim>\<open>workspace/filedrop.go\<close>. File-name checks, table names, object
    keys (with \<^verbatim>\<open>path.Join\<close>), upload, list, delete, and the rewriting of an upload pipeline into the
    filesystem source the worker loads.
  \<^item> \<open>PipelineSchema\<close>: \<^verbatim>\<open>workspace/pipeline_schema.go\<close>. The validators of source configurations and
    credentials of each source type, and the Google sign-in members of a credential.
  \<^item> \<open>Crypto\<close>: \<^verbatim>\<open>crypto/\<close>. The key ring, the envelope of a sealed credential, fingerprints, the keys
    read from the environment. AES-GCM, SHA-256 and HMAC are the parameter \<open>AEAD\<close>.
  \<^item> \<open>Contracts\<close>: the rules for invariants of calls (\<open>safe\<close>) and the locale \<open>pipeline_repository\<close>, what the
    services rely on of a pipeline store.
  \<^item> \<open>Postgres\<close>, \<open>PostgresLaws\<close>, \<open>PostgresFrames\<close>: \<^verbatim>\<open>postgres/\<close>. The tables as lists of rows, each
    repository method as the SQL it runs, any statement of which may fail (\<open>db_link\<close>); the schema
    invariant \<open>pg_ok\<close> and that every method keeps it; the interpretation \<open>pg\<close> of \<open>pipeline_repository\<close>;
    what each method leaves alone.
  \<^item> \<open>Connections\<close>: \<^verbatim>\<open>workspace/connection.go\<close>, \<^verbatim>\<open>oauth_client.go\<close> and the OAuth client resolver of
    \<^verbatim>\<open>pipeline.go\<close>.
  \<^item> \<open>PipelineService\<close>: \<^verbatim>\<open>workspace/pipeline.go\<close>, the handlers of the Console and of the worker.
  \<^item> \<open>PipelineMirror\<close> and \<open>PipelineAdopt\<close>: \<^verbatim>\<open>workspace/pipelinemirror.go\<close>, \<^verbatim>\<open>pipelinemirror_adopt.go\<close>
    and \<^verbatim>\<open>pipelinemirror_import.go\<close>.
  \<^item> \<open>TransformationStore\<close>, \<open>Transformations\<close>, \<open>TransformationMirror\<close>: the transformations, \<^verbatim>\<open>postgres/transformation.go\<close>
    and its siblings, \<^verbatim>\<open>workspace/transformation.go\<close>, \<^verbatim>\<open>workspace/transformationmirror*.go\<close>, and the adopt sweep over
    both planes. Counters of runs are 32-bit words.
  \<^item> \<open>TransformationLaws\<close>: the invariant \<open>tenant\<close> of both planes and that every repository method keeps it.
  \<^item> \<open>Static\<close>: \<^verbatim>\<open>workspace/static.go\<close>, the box's single workspace and its credentials.
  \<^item> \<open>BoxRepo\<close>: \<^verbatim>\<open>workspace/boxrepo.go\<close>, the editor of two of the box's repositories and their push mirrors, with its
    gates and its path check.
  \<^item> \<open>SourceTests\<close>: \<^verbatim>\<open>workspace/sourcetest.go\<close> and \<^verbatim>\<open>postgres/sourcetest.go\<close>. The queue of probes, runs over it
    (\<open>test_run\<close>), and runes of a text.
  \<^item> \<open>Notifications\<close>: \<^verbatim>\<open>workspace/notification.go\<close>, \<^verbatim>\<open>postgres/notification.go\<close> and \<^verbatim>\<open>notification_listen.go\<close>. The table,
    the frame on the channel between replicas, and the broker, whose channels hold sixteen frames; runs over it are
    \<open>play\<close>.
  \<^item> \<open>Rewrap\<close>: \<^verbatim>\<open>postgres/rewrap.go\<close>, the sweep that seals every encrypted column under the primary key.
  \<^item> \<open>Connect\<close>: \<^verbatim>\<open>server/errors.go\<close>. What an RPC answers, \<open>('w, 'a) rpc\<close>, and how an error of a service becomes a Connect
    error with its code.
  \<^item> \<open>Auth\<close>: \<^verbatim>\<open>core/auth.go\<close> and \<^verbatim>\<open>server/token_user.go\<close>. The interceptors of both muxes, the trust anchors of boxes with the
    cache of their keys, and the commit author in a token. The JWT library is the parameter \<open>JWT\<close>, with \<open>jwt_ok\<close> for what it promises.
  \<^item> \<open>PipelineServer\<close>, \<open>TransformationServer\<close>, \<open>SideServers\<close>: the handlers of \<^verbatim>\<open>server/\<close> for pipelines (with \<^verbatim>\<open>workerauth.go\<close>),
    transformations, the editor, notifications, connections, OAuth clients and uploads, and the checks of
    \<^verbatim>\<open>register_workspace.go\<close>. Messages are records after the \<^verbatim>\<open>.proto\<close> files.
  \<^item> \<open>OAuthFlow\<close>: \<^verbatim>\<open>oauthgoogle/oauthgoogle.go\<close> and \<^verbatim>\<open>server/oauth_google.go\<close>. Signed states, the consent URL, the exchange of
    a code, and the two handlers of a sign-in.
  \<^item> \<open>Lakekeeper\<close>: \<^verbatim>\<open>lakekeeper/client.go\<close> and \<^verbatim>\<open>casdoor/apps.go\<close>, as far as the workspace plane calls them: storage of a warehouse,
    users, roles as sets of relations, and the applications of service accounts. The two SDKs are parameters;
    \<open>permission_store\<close> is what the catalog's permission store promises.
  \<^item> \<open>Box\<close>: the services wired as \<^verbatim>\<open>cmd/workspace_api/main.go\<close> wires them, over one database, with the
    step relation \<open>box_step\<close> of its operations and \<open>side_step\<close> of those off the two planes.
  \<^item> \<open>StoreProperties\<close>, \<open>ServiceProperties\<close>, \<open>UpdateProperties\<close> and this theory: the properties of the store, of
    the handlers on a wired box, and of every operation of a box; \<open>Example\<close> is a small box for their
    instances. Properties of one component stand in its theory.
  \<^item> \<open>SideProperties\<close>: the editor and the source tests of a wired box.
  \<^item> \<open>MirrorProperties\<close>: the mirror against a git host given by its laws (\<open>git_host\<close>).
  \<^item> \<open>ServerProperties\<close>: requests on a wired box, from the header of the request to the table: the worker's RPCs behind the
    internal interceptor, and the editor's commits behind the public one.
  \<^item> \<open>SignInProperties\<close>: runs of starts and callbacks of Google sign-ins over a box (\<open>signin_run\<close>).

  \<^bold>\<open>How the components meet\<close>

  Each client states what it relies on as a locale: \<open>pipeline_repository\<close>, \<open>oauth_ports\<close>, \<open>service_ports\<close>,
  \<open>mirror_stores\<close>, \<open>mirror_ports\<close>, \<open>adopt_ports\<close>, \<open>filedrop_ports\<close>, \<open>transformation_ports\<close>, \<open>tmirror_ports\<close>, \<open>test_ports\<close>. Its handlers are proved to keep an invariant there, on
  every path. \<open>Box\<close> interprets the locales on the wired services, for the rows of the other tenants, for
  the pipelines table up to the ownership mark, and for a database that answers.

  \<^bold>\<open>Bounds and fuel\<close>

  The JSON parser takes fuel and starts with twice the length of its text plus two, which suffices for
  every text (\<open>pvalue_fuel_ok\<close>). The other functions are total. Go's \<^verbatim>\<open>int64\<close> is bounded where a decoder
  reads one; fingerprint lengths are 64 bit; the clock counts nanoseconds in \<^typ>\<open>int\<close>.

  \<^bold>\<open>Limits of the model\<close>

  Strings are bytes and are taken to be valid UTF-8; case folding is ASCII. A raw member of a decoded object
  is kept as its compact printing, without the escaping of HTML characters that Go adds on output; the
  nesting limit of Go's decoder is left out. Numbers keep their literals. Error messages are kept to the
  format's text, without the formatted values. Rows with equal \<^verbatim>\<open>created_at\<close> come in table order; ids are
  compared as text. Logs, spans and metrics are left out, and a context's deadline only shows as a call that
  fails. Each operation runs alone: interleavings are sequences of whole operations.

  \<^bold>\<open>Not modelled\<close>

  The clients of other services (\<^verbatim>\<open>gitea/\<close>, \<^verbatim>\<open>duckflight/\<close>, \<^verbatim>\<open>objstore/\<close>, \<^verbatim>\<open>casdoor/token.go\<close>, \<^verbatim>\<open>relay/\<close>, \<^verbatim>\<open>llm/\<close>) and the provisioning calls of \<^verbatim>\<open>lakekeeper/\<close>,
  generated \<^verbatim>\<open>proto/\<close> code and HTTP plumbing, demo data, the services of warehouses and lakekeeper users, queries, assistants, the audit of the
  re-encryption command and the environment parsing of \<^verbatim>\<open>main.go\<close>. The ticker loops of the sweeps and the reconnects of the
  listener are left out; their turns are modelled.
\<close>

section \<open>Properties of the box\<close>

text \<open>
  C1. Tenancy: whatever operations a box performs, by whichever callers, and whichever of its statements
  and remote calls fail on the way, the pipelines and the transformations of other tenants in its database
  are exactly what they were.
\<close>

theorem box_tenancy:
  assumes "box_ok w" "(box_step B)\<^sup>*\<^sup>* w w'"
  shows "others (ws_Slug (bc_Workspace B)) w' = others (ws_Slug (bc_Workspace B)) w \<and>
    strangers (ws_Slug (bc_Workspace B)) w' = strangers (ws_Slug (bc_Workspace B)) w"
  using tenant_others [OF assms(1) steps_tenant [OF assms(2) tenant_start [OF assms(1)]]] by simp

theorem box_tenancy_witness:
  "map pr_id (t_pipelines (snd (DeletePipeline (boxPipelines exampleBox) ''alice'' ''p1'' chainedWorld))) = [''p2''] \<and>
   map tr_trigger_after_pipeline_id (t_transformations (snd (DeletePipeline (boxPipelines exampleBox) ''alice'' ''p1'' chainedWorld)))
     = [None, Some ''p2''] \<and>
   others ''acme'' (snd (DeletePipeline (boxPipelines exampleBox) ''alice'' ''p1'' chainedWorld)) = others ''acme'' chainedWorld"
proof -
  have s: "(box_step exampleBox)\<^sup>*\<^sup>* chainedWorld (snd (DeletePipeline (boxPipelines exampleBox) ''alice'' ''p1'' chainedWorld))"
    by (rule r_into_rtranclp, rule box_step.delete [of _ "''alice''" "''p1''"], rule prod.collapse [symmetric])
  have slug: "ws_Slug (bc_Workspace exampleBox) = ''acme''" by (simp add: exampleBox_def exampleWorkspace_def)
  have run: "map pr_id (t_pipelines (snd (DeletePipeline (boxPipelines exampleBox) ''alice'' ''p1'' chainedWorld))) = [''p2'']"
    "map tr_trigger_after_pipeline_id (t_transformations (snd (DeletePipeline (boxPipelines exampleBox) ''alice'' ''p1'' chainedWorld)))
     = [None, Some ''p2'']" by code_simp+
  from box_tenancy [OF chainedWorld_ok s] run show ?thesis unfolding slug by simp
qed

text \<open>
  C2. The invariant of a box's database: over every sequence of operations, of every caller, with failures at any
  point, the keys and foreign keys of both planes hold, and a transformation is only ever chained to an
  existing pipeline of its own workspace, whether the trigger came from the Console or from a file of the repository.
\<close>

theorem box_invariant:
  assumes "box_ok w" "(box_step B)\<^sup>*\<^sup>* w w'"
  shows "pg_ok w' \<and> td_ok w' \<and> chained w'"
  using tenant_others [OF assms(1) steps_tenant [OF assms(2) tenant_start [OF assms(1)]]] by (simp add: box_ok_def)

theorem box_invariant_witness:
  "fst (CreateTransformation (boxTransformations exampleBox) ''alice'' (exampleTransformation ''kpis'' ''p2'') chainedWorld) = Inl ErrPipelineNotFound \<and>
   map tr_trigger_after_pipeline_id (t_transformations
     (snd (CreateTransformation (boxTransformations exampleBox) ''alice'' (exampleTransformation ''kpis'' ''p1'') chainedWorld)))
     = [Some ''p1'', Some ''p2'', Some ''p1''] \<and>
   chained (snd (CreateTransformation (boxTransformations exampleBox) ''alice'' (exampleTransformation ''kpis'' ''p1'') chainedWorld))"
proof -
  let ?w = "snd (CreateTransformation (boxTransformations exampleBox) ''alice'' (exampleTransformation ''kpis'' ''p1'') chainedWorld)"
  have s: "(box_step exampleBox)\<^sup>*\<^sup>* chainedWorld ?w"
    by (rule r_into_rtranclp, rule box_step.tcreate [of _ "''alice''" "exampleTransformation ''kpis'' ''p1''"], rule prod.collapse [symmetric])
  have run: "fst (CreateTransformation (boxTransformations exampleBox) ''alice'' (exampleTransformation ''kpis'' ''p2'') chainedWorld) = Inl ErrPipelineNotFound"
    "map tr_trigger_after_pipeline_id (t_transformations ?w) = [Some ''p1'', Some ''p2'', Some ''p1'']" by code_simp+
  from box_invariant [OF chainedWorld_ok s] run show ?thesis by simp
qed

end
